(* ===== verification/Prelude.thy ===== *)
theory Prelude
  imports Main "HOL-Library.Char_ord" "HOL-Library.List_Lexorder"
begin

text \<open>
  The prelude of the development: the error values and results every component
  returns, the Python string and list operations the code calls, the tables of rows
  that stand for the database tables, and two interfaces (locales) that the
  components interpret on their own definitions: an update that keeps the primary
  key of a row, and a step system with an invariant.

  Python strings are HOL strings: a character is a code point below 256 (Latin-1), so
  \<open>length\<close> counts code points as Python does. White space and case folding are Python's
  on that range. A point in time is an \<open>int\<close>: microseconds since the epoch in UTC.
\<close>

section \<open>Collections of facts\<close>

named_theorems row_simps \<open>equations of the row-level operations of a table\<close>
named_theorems result_simps \<open>equations that evaluate results and their binds\<close>
named_theorems wf_intros \<open>introduction rules of well-formedness predicates\<close>

section \<open>Points in time\<close>

type_synonym datetime = int

definition seconds :: "int \<Rightarrow> int" where
  "seconds n = n * 1000000"

lemma seconds_mono [simp]: "seconds a \<le> seconds b \<longleftrightarrow> a \<le> b"
  by (simp add: seconds_def)

lemma seconds_less [simp]: "seconds a < seconds b \<longleftrightarrow> a < b"
  by (simp add: seconds_def)

lemma seconds_zero [simp]: "seconds 0 = 0"
  by (simp add: seconds_def)

lemma seconds_pos [simp]: "0 < seconds a \<longleftrightarrow> 0 < a" "0 \<le> seconds a \<longleftrightarrow> 0 \<le> a"
  by (simp_all add: seconds_def)

section \<open>Results: every raise of the code is a value\<close>

text \<open>
  \<open>Inl\<close> is the exception that leaves the call, \<open>Inr\<close> its result. An exception that leaves
  a database operation undoes the open transaction, so no new state comes with it.
\<close>

type_synonym ('e, 'a) result = "'e + 'a"

definition bind_result :: "('e, 'a) result \<Rightarrow> ('a \<Rightarrow> ('e, 'b) result) \<Rightarrow> ('e, 'b) result" where
  "bind_result r f = (case r of Inl e \<Rightarrow> Inl e | Inr x \<Rightarrow> f x)"

definition require :: "bool \<Rightarrow> 'e \<Rightarrow> ('e, unit) result" where
  "require b e = (if b then Inr () else Inl e)"

lemma bind_result_Inl [simp, result_simps]: "bind_result (Inl e) f = Inl e"
  by (simp add: bind_result_def)

lemma bind_result_Inr [simp, result_simps]: "bind_result (Inr x) f = f x"
  by (simp add: bind_result_def)

lemma bind_result_Inr_iff:
  "bind_result r f = Inr y \<longleftrightarrow> (\<exists>x. r = Inr x \<and> f x = Inr y)"
  by (cases r) auto

lemma bind_result_Inl_iff:
  "bind_result r f = Inl e \<longleftrightarrow> r = Inl e \<or> (\<exists>x. r = Inr x \<and> f x = Inl e)"
  by (cases r) auto

lemma bind_resultE:
  assumes "bind_result r f = Inr y"
  obtains x where "r = Inr x" "f x = Inr y"
  using assms by (auto simp: bind_result_Inr_iff)

lemma require_Inr_iff [simp]: "require b e = Inr u \<longleftrightarrow> b"
  by (simp add: require_def)

lemma require_Inl_iff [simp]: "require b e = Inl e' \<longleftrightarrow> \<not> b \<and> e' = e"
  by (auto simp: require_def)

fun map_result :: "('a \<Rightarrow> ('e, 'b) result) \<Rightarrow> 'a list \<Rightarrow> ('e, 'b list) result" where
  "map_result f [] = Inr []"
| "map_result f (x # xs) =
     bind_result (f x) (\<lambda>y. bind_result (map_result f xs) (\<lambda>ys. Inr (y # ys)))"

lemma map_result_Inr_length: "map_result f xs = Inr ys \<Longrightarrow> length ys = length xs"
  by (induction xs arbitrary: ys) (auto simp: bind_result_Inr_iff)

lemma map_result_Inr_nth:
  "map_result f xs = Inr ys \<Longrightarrow> i < length xs \<Longrightarrow> f (xs ! i) = Inr (ys ! i)"
  by (induction xs arbitrary: ys i) (auto simp: bind_result_Inr_iff nth_Cons split: nat.splits)

lemma map_result_in: "map_result f xs = Inr ys \<Longrightarrow> y \<in> set ys \<Longrightarrow> \<exists>x \<in> set xs. f x = Inr y"
  by (induction xs arbitrary: ys) (auto simp: bind_result_Inr_iff)

lemma map_result_from: "map_result f xs = Inr ys \<Longrightarrow> x \<in> set xs \<Longrightarrow> \<exists>y \<in> set ys. f x = Inr y"
  by (induction xs arbitrary: ys) (auto simp: bind_result_Inr_iff)

section \<open>Python strings on Latin-1\<close>

definition code_point :: "char \<Rightarrow> int" where
  "code_point c = of_char c"

definition py_space :: "char \<Rightarrow> bool" where
  "py_space c \<longleftrightarrow> (let n = code_point c in
     (9 \<le> n \<and> n \<le> 13) \<or> (28 \<le> n \<and> n \<le> 32) \<or> n = 133 \<or> n = 160)"

definition lower_char :: "char \<Rightarrow> char" where
  "lower_char c = (let n = code_point c in
     if (65 \<le> n \<and> n \<le> 90) \<or> (192 \<le> n \<and> n \<le> 222 \<and> n \<noteq> 215) then char_of (n + 32) else c)"

definition py_lower :: "string \<Rightarrow> string" where
  "py_lower s = map lower_char s"

definition py_strip :: "string \<Rightarrow> string" where
  "py_strip s = rev (dropWhile py_space (rev (dropWhile py_space s)))"

fun split_aux :: "string \<Rightarrow> string \<Rightarrow> string list" where
  "split_aux cur [] = (if cur = [] then [] else [rev cur])"
| "split_aux cur (c # cs) =
     (if py_space c
      then (if cur = [] then split_aux [] cs else rev cur # split_aux [] cs)
      else split_aux (c # cur) cs)"

definition py_split :: "string \<Rightarrow> string list" where
  "py_split s = split_aux [] s"

fun py_join :: "string \<Rightarrow> string list \<Rightarrow> string" where
  "py_join sep [] = []"
| "py_join sep [x] = x"
| "py_join sep (x # y # ys) = x @ sep @ py_join sep (y # ys)"

fun starts_with :: "string \<Rightarrow> string \<Rightarrow> bool" where
  "starts_with [] s = True"
| "starts_with (p # ps) [] = False"
| "starts_with (p # ps) (c # cs) = (p = c \<and> starts_with ps cs)"

fun contains :: "string \<Rightarrow> string \<Rightarrow> bool" where
  "contains needle [] = (needle = [])"
| "contains needle (c # cs) = (starts_with needle (c # cs) \<or> contains needle cs)"

definition digit_char :: "int \<Rightarrow> char" where
  "digit_char d = char_of (48 + d)"

function digits :: "int \<Rightarrow> string" where
  "digits n = (if n < 10 then [digit_char n] else digits (n div 10) @ [digit_char (n mod 10)])"
  by pat_completeness auto
termination
  by (relation "measure nat") (auto simp: nat_less_eq_zless)

declare digits.simps [simp del]

definition int_str :: "int \<Rightarrow> string" where
  "int_str i = (if i < 0 then ''-'' @ digits (- i) else digits i)"

definition py_len :: "'a list \<Rightarrow> int" where
  "py_len xs = int (length xs)"

lemma starts_with_iff: "starts_with p s \<longleftrightarrow> (\<exists>t. s = p @ t)"
  by (induction p s rule: starts_with.induct) auto

lemma contains_iff: "contains p s \<longleftrightarrow> (\<exists>u v. s = u @ p @ v)"
proof (induction s)
  case step: (Cons c cs)
  show ?case
  proof
    assume "contains p (c # cs)"
    then consider v where "c # cs = p @ v" | "contains p cs"
      by (auto simp: starts_with_iff)
    then show "\<exists>u v. c # cs = u @ p @ v"
    proof cases
      case (1 v)
      then have "c # cs = [] @ p @ v" by simp
      then show ?thesis by blast
    next
      case 2
      then obtain u v where "cs = u @ p @ v" using step.IH by blast
      then have "c # cs = (c # u) @ p @ v" by simp
      then show ?thesis by blast
    qed
  next
    assume "\<exists>u v. c # cs = u @ p @ v"
    then obtain u v where uv: "c # cs = u @ p @ v" by blast
    show "contains p (c # cs)"
    proof (cases u)
      case Nil
      then have "starts_with p (c # cs)" using uv by (auto simp: starts_with_iff)
      then show ?thesis by simp
    next
      case (Cons d ds)
      then have "cs = ds @ p @ v" using uv by simp
      then have "contains p cs" using step.IH by blast
      then show ?thesis by simp
    qed
  qed
qed simp

lemma dropWhile_idem: "dropWhile P (dropWhile P xs) = dropWhile P xs"
  by (induction xs) auto

lemma dropWhile_eq_self: "(xs \<noteq> [] \<Longrightarrow> \<not> P (hd xs)) \<Longrightarrow> dropWhile P xs = xs"
  by (cases xs) auto

lemma py_strip_ends:
  assumes "py_strip s \<noteq> []"
  shows "\<not> py_space (hd (py_strip s))" and "\<not> py_space (last (py_strip s))"
proof -
  let ?t = "dropWhile py_space s"
  let ?r = "dropWhile py_space (rev ?t)"
  have r: "?r \<noteq> []" using assms by (simp add: py_strip_def)
  have "\<not> py_space (hd ?r)" using r by (rule hd_dropWhile)
  then show "\<not> py_space (last (py_strip s))"
    by (simp add: py_strip_def last_rev)
  obtain pre where pre: "?t = py_strip s @ pre"
  proof -
    have "rev ?t = takeWhile py_space (rev ?t) @ ?r" by simp
    then have "?t = rev ?r @ rev (takeWhile py_space (rev ?t))"
      by (metis rev_append rev_rev_ident)
    then show thesis using that by (simp add: py_strip_def)
  qed
  then have "hd ?t = hd (py_strip s)" and "?t \<noteq> []" using assms by auto
  then show "\<not> py_space (hd (py_strip s))" using hd_dropWhile by metis
qed

lemma py_strip_idem [simp]: "py_strip (py_strip s) = py_strip s"
proof -
  have 1: "dropWhile py_space (py_strip s) = py_strip s"
    using py_strip_ends(1) by (metis dropWhile_eq_self)
  have 2: "dropWhile py_space (rev (py_strip s)) = rev (py_strip s)"
    using py_strip_ends(2) by (metis dropWhile_eq_self hd_rev rev_is_Nil_conv)
  show ?thesis
    unfolding py_strip_def[of "py_strip s"] by (simp add: 1 2)
qed

subsection \<open>Numerals and stripped texts\<close>

definition is_digit :: "char \<Rightarrow> bool" where
  "is_digit c \<longleftrightarrow> 48 \<le> code_point c \<and> code_point c \<le> 57"

lemma digits_ascii: "0 \<le> n \<Longrightarrow> c \<in> set (digits n) \<Longrightarrow> is_digit c"
proof (induction n rule: digits.induct)
  case (1 n)
  have d: "is_digit (digit_char k)" if "0 \<le> k" "k < 10" for k
    using that by (simp add: is_digit_def digit_char_def code_point_def)
  show ?case
  proof (cases "n < 10")
    case True
    with 1 d show ?thesis by (simp add: digits.simps[of n])
  next
    case False
    with "1.prems" have "c \<in> set (digits (n div 10)) \<or> c = digit_char (n mod 10)"
      by (auto simp: digits.simps[of n])
    with False 1 d[of "n mod 10"] show ?thesis by auto
  qed
qed

lemma py_strip_id: "s \<noteq> [] \<Longrightarrow> \<not> py_space (hd s) \<Longrightarrow> \<not> py_space (last s) \<Longrightarrow> py_strip s = s"
proof -
  assume s: "s \<noteq> []" "\<not> py_space (hd s)" "\<not> py_space (last s)"
  have 1: "dropWhile py_space s = s" using s(1,2) by (cases s) auto
  have "rev s \<noteq> []" "\<not> py_space (hd (rev s))" using s(1,3) by (simp_all add: hd_rev)
  then have "dropWhile py_space (rev s) = rev s" by (cases "rev s") auto
  with 1 show "py_strip s = s" by (simp add: py_strip_def)
qed

lemma is_digit_no_space: "is_digit c \<Longrightarrow> \<not> py_space c"
  by (simp add: is_digit_def py_space_def Let_def)

lemma digits_nonempty: "digits n \<noteq> []"
  by (subst digits.simps) simp

lemma int_str_last: "int_str i \<noteq> []" "\<not> py_space (last (int_str i))"
proof -
  show "int_str i \<noteq> []" by (simp add: int_str_def digits_nonempty)
  have d: "\<not> py_space (last (digits n))" if "0 \<le> n" for n
    using digits_ascii[OF that, of "last (digits n)"] digits_nonempty is_digit_no_space by simp
  show "\<not> py_space (last (int_str i))"
    using d[of i] d[of "- i"] by (auto simp: int_str_def digits_nonempty)
qed

section \<open>Tables: lists of rows\<close>

text \<open>
  A table is the list of its rows in the order they were inserted. \<open>find_row\<close> is a query
  for at most one row, \<open>update_rows\<close> an SQL update or a change of loaded ORM objects,
  \<open>first_min\<close> an \<open>ORDER BY ... LIMIT 1\<close> (rows that compare equal keep table order).
\<close>

definition find_row :: "('r \<Rightarrow> bool) \<Rightarrow> 'r list \<Rightarrow> 'r option" where
  "find_row P rs = List.find P rs"

definition update_rows :: "('r \<Rightarrow> bool) \<Rightarrow> ('r \<Rightarrow> 'r) \<Rightarrow> 'r list \<Rightarrow> 'r list" where
  "update_rows P f rs = map (\<lambda>r. if P r then f r else r) rs"

definition count_rows :: "('r \<Rightarrow> bool) \<Rightarrow> 'r list \<Rightarrow> nat" where
  "count_rows P rs = length (filter P rs)"

fun first_min :: "('r \<Rightarrow> 'k::linorder) \<Rightarrow> 'r list \<Rightarrow> 'r option" where
  "first_min k [] = None"
| "first_min k (r # rs) = (case first_min k rs of
     None \<Rightarrow> Some r
   | Some m \<Rightarrow> if k r \<le> k m then Some r else Some m)"

lemma find_row_Nil [simp]: "find_row P [] = None"
  by (simp add: find_row_def)

lemma find_row_Cons: "find_row P (r # rs) = (if P r then Some r else find_row P rs)"
  by (simp add: find_row_def)

lemma find_row_None_iff: "find_row P rs = None \<longleftrightarrow> (\<forall>r \<in> set rs. \<not> P r)"
  by (auto simp: find_row_def find_None_iff)

lemma find_row_SomeD: "find_row P rs = Some r \<Longrightarrow> r \<in> set rs \<and> P r"
  by (auto simp: find_row_def find_Some_iff)

lemma find_row_append:
  "find_row P (rs @ ts) = (case find_row P rs of None \<Rightarrow> find_row P ts | Some r \<Rightarrow> Some r)"
  by (induction rs) (auto simp: find_row_Cons)

lemma find_row_unique:
  assumes "distinct (map k rs)" "r \<in> set rs"
  shows "find_row (\<lambda>x. k x = k r) rs = Some r"
  using assms by (induction rs) (auto simp: find_row_Cons image_iff)

lemma set_update_rows: "set (update_rows P f rs) = f ` {r \<in> set rs. P r} \<union> {r \<in> set rs. \<not> P r}"
  by (auto simp: update_rows_def)

lemma length_update_rows [simp]: "length (update_rows P f rs) = length rs"
  by (simp add: update_rows_def)

lemma update_rows_none: "(\<forall>r \<in> set rs. \<not> P r) \<Longrightarrow> update_rows P f rs = rs"
  by (auto simp: update_rows_def intro: map_idI)

lemma in_update_rowsE:
  assumes "r \<in> set (update_rows P f rs)"
  obtains "r \<in> set rs" "\<not> P r" | r0 where "r0 \<in> set rs" "P r0" "r = f r0"
  using assms by (auto simp: set_update_rows)

text \<open>Writing back a loaded row replaces it and no other.\<close>

lemma find_replace_none:
  "k t = i \<Longrightarrow> j \<noteq> i \<Longrightarrow>
   find_row (\<lambda>x. k x = j) (update_rows (\<lambda>x. k x = i) (\<lambda>_. t) rs) = find_row (\<lambda>x. k x = j) rs"
  by (induction rs) (auto simp: update_rows_def find_row_Cons)

lemma find_replace_same:
  "k t = i \<Longrightarrow> find_row (\<lambda>x. k x = i) rs = Some t0 \<Longrightarrow>
   find_row (\<lambda>x. k x = i) (update_rows (\<lambda>x. k x = i) (\<lambda>_. t) rs) = Some t"
  by (induction rs) (auto simp: update_rows_def find_row_Cons)

lemma find_replace:
  "k t = i \<Longrightarrow> find_row (\<lambda>x. k x = i) rs = Some t0 \<Longrightarrow>
   find_row (\<lambda>x. k x = j) (update_rows (\<lambda>x. k x = i) (\<lambda>_. t) rs) =
   (if j = i then Some t else find_row (\<lambda>x. k x = j) rs)"
  using find_replace_none[of k t i j rs] find_replace_same[of k t i rs t0] by simp

lemma first_min_None_iff [simp]: "first_min k rs = None \<longleftrightarrow> rs = []"
  by (cases rs) (auto split: option.splits)

lemma first_min_SomeD:
  "first_min k rs = Some m \<Longrightarrow> m \<in> set rs \<and> (\<forall>r \<in> set rs. k m \<le> k r)"
proof (induction rs arbitrary: m)
  case (Cons r rs)
  show ?case
  proof (cases "first_min k rs")
    case None
    with Cons.prems show ?thesis by auto
  next
    case (Some m')
    with Cons.IH have "m' \<in> set rs \<and> (\<forall>r \<in> set rs. k m' \<le> k r)" by blast
    with Some Cons.prems show ?thesis by (auto split: if_splits intro: order_trans)
  qed
qed simp

subsection \<open>Interface: an update that keeps the primary key\<close>

text \<open>
  Every row-level operation of the code changes columns of a row and never its primary
  key. A component interprets this locale for each of its row operations and obtains how
  a point update acts on lookups and on the uniqueness of keys.
\<close>

locale row_update =
  fixes key :: "'r \<Rightarrow> 'k"
    and upd :: "'r \<Rightarrow> 'r"
  assumes key_upd: "key (upd r) = key r"
begin

lemma keys_update: "map key (update_rows P upd rs) = map key rs"
  by (simp add: update_rows_def key_upd)

lemma distinct_update: "distinct (map key (update_rows P upd rs)) \<longleftrightarrow> distinct (map key rs)"
  by (simp add: keys_update)

lemma find_same:
  "find_row (\<lambda>r. key r = k) (update_rows (\<lambda>r. key r = k) upd rs) =
   map_option upd (find_row (\<lambda>r. key r = k) rs)"
  by (induction rs) (auto simp: update_rows_def find_row_Cons key_upd)

lemma find_other:
  "k' \<noteq> k \<Longrightarrow>
   find_row (\<lambda>r. key r = k') (update_rows (\<lambda>r. key r = k) upd rs) = find_row (\<lambda>r. key r = k') rs"
  by (induction rs) (auto simp: update_rows_def find_row_Cons key_upd)

lemma key_image: "key ` set (update_rows P upd rs) = key ` set rs"
  using keys_update[of P rs] by (metis set_map)

end

subsection \<open>Interface: a step system with an invariant\<close>

locale step_system =
  fixes start :: "'s \<Rightarrow> bool"
    and step :: "'s \<Rightarrow> 's \<Rightarrow> bool"
    and inv :: "'s \<Rightarrow> bool"
  assumes inv_start: "start s \<Longrightarrow> inv s"
    and inv_step: "inv s \<Longrightarrow> step s t \<Longrightarrow> inv t"
begin

lemma inv_steps: "step\<^sup>*\<^sup>* s t \<Longrightarrow> inv s \<Longrightarrow> inv t"
  by (induction rule: rtranclp_induct) (auto intro: inv_step)

lemma inv_reachable: "start s \<Longrightarrow> step\<^sup>*\<^sup>* s t \<Longrightarrow> inv t"
  using inv_start inv_steps by blast

end

end
