(* ===== verification/Json.thy ===== *)
theory Json
  imports Prelude
begin

text \<open>
  JSON values as the code holds them in memory: Python dicts are association lists in
  insertion order with distinct keys. The theory gives the dict operations the code
  uses, Python's truth value, \<open>str\<close> and \<open>repr\<close> on these values, and the compact,
  key-sorted UTF-8 encoding of \<open>json.dumps\<close> whose length bounds a job payload. A float is
  held by its \<open>repr\<close>, the shortest text that reads back as it; no arithmetic is done on it.
\<close>

datatype json =
    JNull
  | JBool bool
  | JInt int
  | JFloat string
  | JStr string
  | JList "json list"
  | JObj "(string \<times> json) list"

type_synonym obj = "(string \<times> json) list"

section \<open>Dict operations\<close>

definition dict_lookup :: "string \<Rightarrow> obj \<Rightarrow> json option" where
  "dict_lookup k d = map_of d k"

definition dict_get :: "string \<Rightarrow> obj \<Rightarrow> json" where
  "dict_get k d = (case dict_lookup k d of None \<Rightarrow> JNull | Some v \<Rightarrow> v)"

fun dict_set :: "string \<Rightarrow> json \<Rightarrow> obj \<Rightarrow> obj" where
  "dict_set k v [] = [(k, v)]"
| "dict_set k v ((k', v') # d) = (if k = k' then (k, v) # d else (k', v') # dict_set k v d)"

definition dict_update :: "obj \<Rightarrow> obj \<Rightarrow> obj" where
  "dict_update d e = fold (\<lambda>(k, v). dict_set k v) e d"

definition dict_setdefault :: "string \<Rightarrow> json \<Rightarrow> obj \<Rightarrow> obj" where
  "dict_setdefault k v d = (if dict_lookup k d = None then dict_set k v d else d)"

lemma dict_lookup_set: "dict_lookup k' (dict_set k v d) = (if k' = k then Some v else dict_lookup k' d)"
  by (induction d) (auto simp: dict_lookup_def)

lemma dict_lookup_set_same [simp]: "dict_lookup k (dict_set k v d) = Some v"
  by (simp add: dict_lookup_set)

lemma dict_get_set: "dict_get k' (dict_set k v d) = (if k' = k then v else dict_get k' d)"
  by (simp add: dict_get_def dict_lookup_set)

lemma dict_lookup_setdefault:
  "dict_lookup k' (dict_setdefault k v d) =
   (if k' = k then Some (case dict_lookup k d of None \<Rightarrow> v | Some w \<Rightarrow> w) else dict_lookup k' d)"
  by (auto simp: dict_setdefault_def dict_lookup_set split: option.splits)

lemma dict_update_Nil [simp]: "dict_update d [] = d"
  by (simp add: dict_update_def)

lemma dict_update_Cons [simp]: "dict_update d ((k, v) # e) = dict_update (dict_set k v d) e"
  by (simp add: dict_update_def)

lemma dict_lookup_update:
  "distinct (map fst e) \<Longrightarrow>
   dict_lookup k (dict_update d e) =
   (case dict_lookup k e of None \<Rightarrow> dict_lookup k d | Some v \<Rightarrow> Some v)"
proof (induction e arbitrary: d)
  case (Cons p e)
  obtain k' v where p: "p = (k', v)" by (cases p)
  have none: "k = k' \<Longrightarrow> dict_lookup k e = None"
    using Cons.prems p by (auto simp: dict_lookup_def map_of_eq_None_iff)
  have dist: "distinct (map fst e)" using Cons.prems by simp
  have "dict_lookup k ((k', v) # e) = (if k = k' then Some v else dict_lookup k e)"
    by (auto simp: dict_lookup_def)
  with none p Cons.IH[OF dist, of "dict_set k' v d"] show ?case
    by (auto simp: dict_lookup_set split: option.splits)
qed (simp add: dict_lookup_def)

lemma set_keys_dict_set: "set (map fst (dict_set k v d)) = insert k (set (map fst d))"
proof (induction d)
  case (Cons p d)
  obtain k' v' where "p = (k', v')" by (cases p)
  with Cons show ?case by auto
qed simp

lemma distinct_dict_set: "distinct (map fst d) \<Longrightarrow> distinct (map fst (dict_set k v d))"
proof (induction d)
  case (Cons p d)
  obtain k' v' where p: "p = (k', v')" by (cases p)
  have "k' \<notin> set (map fst d)" using Cons.prems p by simp
  then have "k \<noteq> k' \<Longrightarrow> k' \<notin> set (map fst (dict_set k v d))"
    by (simp add: set_keys_dict_set del: set_map)
  with Cons p show ?case by auto
qed simp

section \<open>Truth value and text\<close>

fun truthy :: "json \<Rightarrow> bool" where
  "truthy JNull = False"
| "truthy (JBool b) = b"
| "truthy (JInt i) = (i \<noteq> 0)"
| "truthy (JFloat r) = (r \<notin> {''0.0'', ''-0.0''})"
| "truthy (JStr s) = (s \<noteq> [])"
| "truthy (JList xs) = (xs \<noteq> [])"
| "truthy (JObj d) = (d \<noteq> [])"

definition hex_char :: "int \<Rightarrow> char" where
  "hex_char d = (if d < 10 then char_of (48 + d) else char_of (87 + d))"

definition repr_char :: "char \<Rightarrow> char \<Rightarrow> string" where
  "repr_char q c = (let n = code_point c in
     if c = q \<or> c = CHR 0x5C then [CHR 0x5C, c]
     else if n = 10 then [CHR 0x5C, CHR ''n'']
     else if n = 13 then [CHR 0x5C, CHR ''r'']
     else if n = 9 then [CHR 0x5C, CHR ''t'']
     else if n < 32 \<or> (127 \<le> n \<and> n \<le> 160) \<or> n = 173
          then [CHR 0x5C, CHR ''x'', hex_char (n div 16), hex_char (n mod 16)]
     else [c])"

definition repr_str :: "string \<Rightarrow> string" where
  "repr_str s = (let q = (if CHR 0x27 \<in> set s \<and> CHR 0x22 \<notin> set s then CHR 0x22 else CHR 0x27)
     in [q] @ concat (map (repr_char q) s) @ [q])"

fun py_repr :: "json \<Rightarrow> string" where
  "py_repr JNull = ''None''"
| "py_repr (JBool b) = (if b then ''True'' else ''False'')"
| "py_repr (JInt i) = int_str i"
| "py_repr (JFloat r) = r"
| "py_repr (JStr s) = repr_str s"
| "py_repr (JList xs) = ''['' @ py_join '', '' (map py_repr xs) @ '']''"
| "py_repr (JObj d) =
     [CHR 0x7B] @ py_join '', '' (map (\<lambda>(k, v). repr_str k @ '': '' @ py_repr v) d) @ [CHR 0x7D]"

definition py_str :: "json \<Rightarrow> string" where
  "py_str v = (case v of JStr s \<Rightarrow> s | _ \<Rightarrow> py_repr v)"

section \<open>The compact encoding of json.dumps\<close>

definition utf8_char :: "char \<Rightarrow> string" where
  "utf8_char c = (let n = code_point c in
     if n < 128 then [c] else [char_of (192 + n div 64), char_of (128 + n mod 64)])"

definition dumps_char :: "char \<Rightarrow> string" where
  "dumps_char c = (let n = code_point c in
     if n = 34 \<or> n = 92 then [CHR 0x5C, c]
     else if n = 10 then [CHR 0x5C, CHR ''n'']
     else if n = 13 then [CHR 0x5C, CHR ''r'']
     else if n = 9 then [CHR 0x5C, CHR ''t'']
     else if n = 8 then [CHR 0x5C, CHR ''b'']
     else if n = 12 then [CHR 0x5C, CHR ''f'']
     else if n < 32 then [CHR 0x5C] @ ''u00'' @ [hex_char (n div 16), hex_char (n mod 16)]
     else [c])"

definition dumps_str :: "string \<Rightarrow> string" where
  "dumps_str s = [CHR 0x22] @ concat (map dumps_char s) @ [CHR 0x22]"

fun json_dumps :: "json \<Rightarrow> string" where
  "json_dumps JNull = ''null''"
| "json_dumps (JBool b) = (if b then ''true'' else ''false'')"
| "json_dumps (JInt i) = int_str i"
| "json_dumps (JFloat r) =
     (if r = ''nan'' then ''NaN'' else if r = ''inf'' then ''Infinity'' else if r = ''-inf'' then ''-Infinity'' else r)"
| "json_dumps (JStr s) = dumps_str s"
| "json_dumps (JList xs) = ''['' @ py_join '','' (map json_dumps xs) @ '']''"
| "json_dumps (JObj d) =
     [CHR 0x7B] @
     py_join '','' (map (\<lambda>(k, t). dumps_str k @ '':'' @ t)
       (sort_key fst (map (\<lambda>(k, v). (k, json_dumps v)) d))) @
     [CHR 0x7D]"

definition encoded_bytes :: "json \<Rightarrow> int" where
  "encoded_bytes v = py_len (concat (map utf8_char (json_dumps v)))"

text \<open>\<open>json.dumps(value, ensure_ascii=False)\<close>: the default separators, keys in their order.\<close>

fun json_dumps_plain :: "json \<Rightarrow> string" where
  "json_dumps_plain JNull = ''null''"
| "json_dumps_plain (JBool b) = (if b then ''true'' else ''false'')"
| "json_dumps_plain (JInt i) = int_str i"
| "json_dumps_plain (JFloat r) = json_dumps (JFloat r)"
| "json_dumps_plain (JStr s) = dumps_str s"
| "json_dumps_plain (JList xs) = ''['' @ py_join '', '' (map json_dumps_plain xs) @ '']''"
| "json_dumps_plain (JObj d) =
     [CHR 0x7B] @ py_join '', '' (map (\<lambda>(k, v). dumps_str k @ '': '' @ json_dumps_plain v) d) @ [CHR 0x7D]"

end
