(* ===== verification/Errors.thy ===== *)
theory Errors
  imports Json
begin

text \<open>
  The exceptions that leave the modelled functions, as values. An \<open>ApiError\<close> carries the
  HTTP status, the detail text, the stable error code, the retry hint and the details
  dict of \<open>app/shared/utils/shared_utils_errors_utils.py\<close>; an \<open>HTTPError\<close> is FastAPI's
  HTTPException. A \<open>ProviderError\<close> is the error of the report-review provider, a
  \<open>GithubError\<close> that of the GitHub client, with its HTTP status if there is one, an
  \<open>ExternalError\<close> any other exception of a library, by its type and text.
\<close>

datatype error =
    ValueError string
  | TypeError string
  | KeyError string
  | OverflowError string
  | LookupError string
  | AttributeError string
  | RuntimeError string
  | GithubError "int option" string
  | EvidenceTrailValidationError "string list"
  | ProviderError string
  | IntegrityError
  | DataError string
  | ExternalError string string
  | TransactionAborted
  | MultipleResultsFound
  | HTTPError int string
  | ApiError int string string "bool option" obj

type_synonym 'a res = "(error, 'a) result"

definition error_code :: "error \<Rightarrow> string option" where
  "error_code e = (case e of ApiError _ _ c _ _ \<Rightarrow> Some c | EvidenceTrailValidationError _ \<Rightarrow> Some ''evidence_trail_validation_failed''
     | _ \<Rightarrow> None)"

definition status_code :: "error \<Rightarrow> int option" where
  "status_code e = (case e of ApiError s _ _ _ _ \<Rightarrow> Some s | HTTPError s _ \<Rightarrow> Some s | _ \<Rightarrow> None)"

text \<open>SQLAlchemy's \<open>scalar_one_or_none\<close>: more than one row is an exception.\<close>

definition scalar_one_or_none :: "'r list \<Rightarrow> 'r option res" where
  "scalar_one_or_none rs = (case rs of [] \<Rightarrow> Inr None | [r] \<Rightarrow> Inr (Some r) | _ \<Rightarrow> Inl MultipleResultsFound)"

lemma scalar_one_or_none_simps [simp]:
  "scalar_one_or_none [] = Inr None"
  "scalar_one_or_none [r] = Inr (Some r)"
  "scalar_one_or_none (r # s # rs) = Inl MultipleResultsFound"
  by (simp_all add: scalar_one_or_none_def)

lemma scalar_one_or_none_in: "scalar_one_or_none rs = Inr (Some r) \<Longrightarrow> r \<in> set rs"
  by (auto simp: scalar_one_or_none_def split: list.splits)

lemma filter_distinct_key:
  "distinct (map k rs) \<Longrightarrow>
   filter (\<lambda>r. k r = x) rs = (case find_row (\<lambda>r. k r = x) rs of None \<Rightarrow> [] | Some r \<Rightarrow> [r])"
proof (induction rs)
  case (Cons r rs)
  show ?case
  proof (cases "k r = x")
    case True
    with Cons.prems have "filter (\<lambda>r. k r = x) rs = []" by (auto simp: filter_empty_conv) (metis image_eqI)
    with True show ?thesis by (simp add: find_row_Cons)
  next
    case False
    with Cons show ?thesis by (simp add: find_row_Cons)
  qed
qed simp

lemma scalar_one_or_none_key:
  "distinct (map k rs) \<Longrightarrow>
   scalar_one_or_none (filter (\<lambda>r. k r = x) rs) = Inr (find_row (\<lambda>r. k r = x) rs)"
  by (simp add: filter_distinct_key split: option.splits)

end
