(* ===== verification/PyTime.thy ===== *)
theory PyTime
  imports Json
begin

text \<open>
  Calendar text of points in time: the proleptic Gregorian date of a day number and the
  ISO 8601 text of Python's \<open>datetime.isoformat\<close> for aware UTC values, in the \<open>+00:00\<close> and
  the \<open>Z\<close> spelling the code produces.
\<close>

definition civil_of_days :: "int \<Rightarrow> int \<times> int \<times> int" where
  "civil_of_days z0 =
     (let z = z0 + 719468;
          era = z div 146097;
          doe = z mod 146097;
          yoe = (doe - doe div 1460 + doe div 36524 - doe div 146096) div 365;
          doy = doe - (365 * yoe + yoe div 4 - yoe div 100);
          mp = (5 * doy + 2) div 153;
          d = doy - (153 * mp + 2) div 5 + 1;
          m = (if mp < 10 then mp + 3 else mp - 9);
          y = yoe + era * 400 + (if m \<le> 2 then 1 else 0)
      in (y, m, d))"

definition pad :: "nat \<Rightarrow> int \<Rightarrow> string" where
  "pad w n = (let s = digits n in replicate (w - length s) (CHR ''0'') @ s)"

definition microseconds_per_day :: int where
  "microseconds_per_day = seconds 86400"

definition iso_body :: "datetime \<Rightarrow> string" where
  "iso_body t =
     (let day = t div microseconds_per_day;
          us = t mod microseconds_per_day;
          s = us div 1000000;
          frac = us mod 1000000;
          ymd = civil_of_days day
      in pad 4 (fst ymd) @ ''-'' @ pad 2 (fst (snd ymd)) @ ''-'' @ pad 2 (snd (snd ymd)) @ ''T'' @
         pad 2 (s div 3600) @ '':'' @ pad 2 (s div 60 mod 60) @ '':'' @ pad 2 (s mod 60) @
         (if frac = 0 then [] else ''.'' @ pad 6 frac))"

definition isoformat :: "datetime \<Rightarrow> string" where
  "isoformat t = iso_body t @ ''+00:00''"

definition isoformat_z :: "datetime \<Rightarrow> string" where
  "isoformat_z t = iso_body t @ ''Z''"

definition drop_microseconds :: "datetime \<Rightarrow> datetime" where
  "drop_microseconds t = t - t mod 1000000"

lemma drop_microseconds_le: "drop_microseconds t \<le> t"
  by (simp add: drop_microseconds_def)

lemma drop_microseconds_gt: "t - 1000000 < drop_microseconds t"
  by (simp add: drop_microseconds_def)

lemma drop_microseconds_mod [simp]: "drop_microseconds t mod 1000000 = 0"
  by (simp add: drop_microseconds_def mod_diff_left_eq)

lemma drop_microseconds_idem [simp]: "drop_microseconds (drop_microseconds t) = drop_microseconds t"
  by (simp add: drop_microseconds_def[of "drop_microseconds t"])

lemma drop_microseconds_mono: "s \<le> t \<Longrightarrow> drop_microseconds s \<le> drop_microseconds t"
proof -
  assume "s \<le> t"
  then have "s div 1000000 \<le> t div 1000000" by (simp add: zdiv_mono1)
  moreover have "drop_microseconds x = x div 1000000 * 1000000" for x
    by (simp add: drop_microseconds_def minus_mod_eq_div_mult)
  ultimately show ?thesis by simp
qed

end
