(* ===== verification/JobModel.thy ===== *)
theory JobModel
  imports Errors PyTime
begin

text \<open>
  The tables of the durable job queue (\<open>app/shared/jobs/repositories\<close>): jobs, their
  dead-letter copies, the audit events and the worker heartbeats, with the constraints
  the database enforces on an insert. The state also holds the ids the foreign keys
  refer to and the supply of \<open>uuid4\<close> values, of which each inserted row draws one.
\<close>

section \<open>Rows\<close>

datatype job_status =
    JOB_STATUS_QUEUED
  | JOB_STATUS_RUNNING
  | JOB_STATUS_SUCCEEDED
  | JOB_STATUS_DEAD_LETTER

definition TERMINAL_JOB_STATUSES :: "job_status list" where
  "TERMINAL_JOB_STATUSES = [JOB_STATUS_SUCCEEDED, JOB_STATUS_DEAD_LETTER]"

record job =
  j_id :: string
  j_job_type :: string
  j_status :: job_status
  j_attempt :: int
  j_max_attempts :: int
  j_idempotency_key :: string
  j_payload_json :: obj
  j_result_json :: "obj option"
  j_last_error :: "string option"
  j_created_at :: datetime
  j_updated_at :: datetime
  j_next_run_at :: "datetime option"
  j_locked_at :: "datetime option"
  j_locked_by :: "string option"
  j_correlation_id :: "string option"
  j_company_id :: int
  j_candidate_session_id :: "int option"

record failed_job =
  fj_id :: string
  fj_original_job_id :: string
  fj_retry_job_id :: "string option"
  fj_retried_from_failed_job_id :: "string option"
  fj_job_type :: string
  fj_payload_json :: obj
  fj_idempotency_key :: string
  fj_correlation_id :: "string option"
  fj_company_id :: int
  fj_candidate_session_id :: "int option"
  fj_error_message :: string
  fj_error_traceback :: string
  fj_attempt_count :: int
  fj_originated_at :: datetime
  fj_last_attempted_at :: datetime
  fj_failed_at :: datetime

datatype job_event_type =
    JOB_EVENT_ENQUEUED
  | JOB_EVENT_STARTED
  | JOB_EVENT_COMPLETED
  | JOB_EVENT_FAILED
  | JOB_EVENT_RETRIED
  | JOB_EVENT_DEAD_LETTERED
  | JOB_EVENT_SKIPPED_IDEMPOTENT

record job_event =
  ev_job_id :: string
  ev_job_type :: string
  ev_event_type :: job_event_type
  ev_status :: job_status
  ev_correlation_id :: "string option"
  ev_metadata_json :: obj
  ev_created_at :: datetime

record worker_heartbeat =
  hb_service_name :: string
  hb_instance_id :: string
  hb_status :: string
  hb_started_at :: datetime
  hb_last_heartbeat_at :: datetime
  hb_created_at :: datetime

record jobs_db =
  jobs :: "job list"
  failed_jobs :: "failed_job list"
  job_events :: "job_event list"
  worker_heartbeats :: "worker_heartbeat list"
  company_ids :: "int list"
  session_ids :: "int list"
  uuid4 :: "nat \<Rightarrow> string"
  uuid_next :: nat

section \<open>Keys, lookups and constrained inserts\<close>

definition job_key :: "job \<Rightarrow> int \<times> string \<times> string" where
  "job_key j = (j_company_id j, j_job_type j, j_idempotency_key j)"

definition load_job :: "string \<Rightarrow> jobs_db \<Rightarrow> job option" where
  "load_job i db = find_row (\<lambda>j. j_id j = i) (jobs db)"

definition draw_uuid :: "jobs_db \<Rightarrow> string \<times> jobs_db" where
  "draw_uuid db = (uuid4 db (uuid_next db), db\<lparr>uuid_next := Suc (uuid_next db)\<rparr>)"

definition violates_constraints :: "job \<Rightarrow> jobs_db \<Rightarrow> bool" where
  "violates_constraints j db \<longleftrightarrow>
     j_id j \<in> set (map j_id (jobs db)) \<or>
     job_key j \<in> set (map job_key (jobs db)) \<or>
     j_company_id j \<notin> set (company_ids db) \<or>
     (\<exists>s. j_candidate_session_id j = Some s \<and> s \<notin> set (session_ids db))"

lemma violates_constraints_code [code]:
  "violates_constraints j db \<longleftrightarrow>
     j_id j \<in> set (map j_id (jobs db)) \<or>
     job_key j \<in> set (map job_key (jobs db)) \<or>
     j_company_id j \<notin> set (company_ids db) \<or>
     (case j_candidate_session_id j of None \<Rightarrow> False | Some s \<Rightarrow> s \<notin> set (session_ids db))"
  by (auto simp: violates_constraints_def split: option.splits)

definition insert_job :: "job \<Rightarrow> jobs_db \<Rightarrow> jobs_db res" where
  "insert_job j db =
     (if violates_constraints j db then Inl IntegrityError
      else Inr (db\<lparr>jobs := jobs db @ [j]\<rparr>))"

definition update_job :: "string \<Rightarrow> (job \<Rightarrow> job) \<Rightarrow> jobs_db \<Rightarrow> jobs_db" where
  "update_job i f db = db\<lparr>jobs := update_rows (\<lambda>j. j_id j = i) f (jobs db)\<rparr>"

definition record_job_event ::
    "job \<Rightarrow> job_event_type \<Rightarrow> job_status \<Rightarrow> obj \<Rightarrow> datetime \<Rightarrow> jobs_db \<Rightarrow> jobs_db" where
  "record_job_event j et st meta at db =
     db\<lparr>job_events := job_events db @
        [\<lparr>ev_job_id = j_id j, ev_job_type = j_job_type j, ev_event_type = et, ev_status = st,
          ev_correlation_id = j_correlation_id j, ev_metadata_json = meta, ev_created_at = at\<rparr>]\<rparr>"

definition list_job_events :: "string \<Rightarrow> jobs_db \<Rightarrow> job_event list" where
  "list_job_events i db = sort_key ev_created_at (filter (\<lambda>e. ev_job_id e = i) (job_events db))"

section \<open>Well-formed job tables\<close>

text \<open>
  What the constraints of the schema and the uuid supply guarantee: primary keys and
  idempotency keys are unique, a job has at most one dead-letter copy, and no future
  uuid is empty or already in use.
\<close>

definition used_ids :: "jobs_db \<Rightarrow> string set" where
  "used_ids db = set (map j_id (jobs db)) \<union> set (map fj_id (failed_jobs db))"

definition jobs_wf :: "jobs_db \<Rightarrow> bool" where
  "jobs_wf db \<longleftrightarrow>
     distinct (map j_id (jobs db)) \<and>
     distinct (map job_key (jobs db)) \<and>
     distinct (map fj_id (failed_jobs db)) \<and>
     distinct (map fj_original_job_id (failed_jobs db)) \<and>
     inj (uuid4 db) \<and> (\<forall>n. uuid4 db n \<noteq> []) \<and>
     (\<forall>n \<ge> uuid_next db. uuid4 db n \<notin> used_ids db)"

lemma jobs_wfD:
  assumes "jobs_wf db"
  shows "distinct (map j_id (jobs db))" "distinct (map job_key (jobs db))"
    "distinct (map fj_id (failed_jobs db))" "distinct (map fj_original_job_id (failed_jobs db))"
    "inj (uuid4 db)" "uuid4 db n \<noteq> []" "n \<ge> uuid_next db \<Longrightarrow> uuid4 db n \<notin> used_ids db"
  using assms by (simp_all add: jobs_wf_def)

lemma load_job_SomeD: "load_job i db = Some j \<Longrightarrow> j \<in> set (jobs db) \<and> j_id j = i"
  by (auto simp: load_job_def dest: find_row_SomeD)

lemma load_job_in:
  "jobs_wf db \<Longrightarrow> j \<in> set (jobs db) \<Longrightarrow> load_job (j_id j) db = Some j"
  by (simp add: load_job_def jobs_wf_def find_row_unique)

lemma load_job_None_iff: "load_job i db = None \<longleftrightarrow> i \<notin> set (map j_id (jobs db))"
  by (auto simp: load_job_def find_row_None_iff)

lemma job_eqI:
  "jobs_wf db \<Longrightarrow> j \<in> set (jobs db) \<Longrightarrow> j' \<in> set (jobs db) \<Longrightarrow> j_id j = j_id j' \<Longrightarrow> j = j'"
  by (metis load_job_in option.inject)

lemma record_job_event_simps [simp]:
  "jobs (record_job_event j et st m at db) = jobs db"
  "failed_jobs (record_job_event j et st m at db) = failed_jobs db"
  "worker_heartbeats (record_job_event j et st m at db) = worker_heartbeats db"
  "uuid4 (record_job_event j et st m at db) = uuid4 db"
  "uuid_next (record_job_event j et st m at db) = uuid_next db"
  "company_ids (record_job_event j et st m at db) = company_ids db"
  "session_ids (record_job_event j et st m at db) = session_ids db"
  "load_job i (record_job_event j et st m at db) = load_job i db"
  by (simp_all add: record_job_event_def load_job_def)

lemma update_job_simps [simp]:
  "failed_jobs (update_job i f db) = failed_jobs db"
  "job_events (update_job i f db) = job_events db"
  "worker_heartbeats (update_job i f db) = worker_heartbeats db"
  "uuid4 (update_job i f db) = uuid4 db"
  "uuid_next (update_job i f db) = uuid_next db"
  "company_ids (update_job i f db) = company_ids db"
  "session_ids (update_job i f db) = session_ids db"
  by (simp_all add: update_job_def)

text \<open>The well-formedness depends on the keys, the copies and the supply only.\<close>

lemma jobs_wf_cong:
  "map j_id (jobs db') = map j_id (jobs db) \<Longrightarrow>
   map job_key (jobs db') = map job_key (jobs db) \<Longrightarrow>
   failed_jobs db' = failed_jobs db \<Longrightarrow>
   uuid4 db' = uuid4 db \<Longrightarrow> uuid_next db' = uuid_next db \<Longrightarrow>
   jobs_wf db' \<longleftrightarrow> jobs_wf db"
  by (simp add: jobs_wf_def used_ids_def)

lemma jobs_wf_record_job_event [simp]:
  "jobs_wf (record_job_event j et st m at db) \<longleftrightarrow> jobs_wf db"
  by (rule jobs_wf_cong) simp_all

lemma draw_uuid_wf:
  assumes "jobs_wf db" "draw_uuid db = (u, db')"
  shows "jobs_wf db'" and "u \<notin> used_ids db'" and "jobs db' = jobs db"
    and "failed_jobs db' = failed_jobs db"
    and "n \<ge> uuid_next db' \<Longrightarrow> uuid4 db' n \<noteq> u"
proof -
  from assms(2) have db': "db' = db\<lparr>uuid_next := Suc (uuid_next db)\<rparr>" and u: "u = uuid4 db (uuid_next db)"
    by (auto simp: draw_uuid_def)
  show "jobs_wf db'" using assms(1) by (simp add: db' jobs_wf_def used_ids_def)
  show "u \<notin> used_ids db'" using assms(1) by (simp add: db' u jobs_wf_def used_ids_def)
  show "jobs db' = jobs db" "failed_jobs db' = failed_jobs db" by (simp_all add: db')
  show "uuid4 db' n \<noteq> u" if "n \<ge> uuid_next db'"
  proof -
    have "inj (uuid4 db)" using assms(1) by (rule jobs_wfD)
    moreover have "n \<noteq> uuid_next db" using that by (simp add: db')
    ultimately show ?thesis by (simp add: db' u inj_eq)
  qed
qed

text \<open>A row operation that keeps id and idempotency key keeps the tables well formed.\<close>

locale job_update = row_update j_id upd for upd :: "job \<Rightarrow> job" +
  assumes idem_key_upd: "job_key (upd j) = job_key j"
begin

lemma idem_keys_update: "map job_key (update_rows P upd rs) = map job_key rs"
  by (simp add: update_rows_def idem_key_upd)

lemma jobs_wf_update_rows: "jobs_wf (db\<lparr>jobs := update_rows P upd (jobs db)\<rparr>) \<longleftrightarrow> jobs_wf db"
  by (rule jobs_wf_cong) (simp_all add: keys_update idem_keys_update)

lemma jobs_wf_update: "jobs_wf (update_job i upd db) \<longleftrightarrow> jobs_wf db"
  by (simp add: update_job_def jobs_wf_update_rows)

lemma load_update_same: "load_job i (update_job i upd db) = map_option upd (load_job i db)"
  by (simp add: load_job_def update_job_def find_same)

lemma load_update_other: "i' \<noteq> i \<Longrightarrow> load_job i' (update_job i upd db) = load_job i' db"
  by (simp add: load_job_def update_job_def find_other)

lemma load_update:
  "load_job i' (update_job i upd db) =
   (if i' = i then map_option upd (load_job i db) else load_job i' db)"
  by (simp add: load_update_same load_update_other)

end

section \<open>An empty queue\<close>

text \<open>One company, one candidate session, and a concrete supply of distinct ids.\<close>

definition empty_jobs_db :: jobs_db where
  "empty_jobs_db = \<lparr>jobs = [], failed_jobs = [], job_events = [], worker_heartbeats = [],
     company_ids = [1], session_ids = [7], uuid4 = (\<lambda>n. replicate (Suc n) (CHR ''a'')), uuid_next = 0\<rparr>"

lemma jobs_wf_empty [simp]: "jobs_wf empty_jobs_db"
  by (auto simp: jobs_wf_def empty_jobs_db_def used_ids_def inj_def)

end
