(* ===== verification/JobCreate.thy ===== *)
theory JobCreate
  imports JobModel
begin

text \<open>
  Creating and updating durable jobs by idempotency key: input normalisation, the
  payload bound, the get-or-create, the get-or-update, the bulk variant with its conflict
  recovery, and the requeue of a job that is not terminal.

  The functions take the state at their first query; \<open>env\<close> is what other sessions commit
  between that query and the insert (the identity when nothing interferes), \<open>clk\<close> the
  reading of \<open>datetime.now(UTC)\<close> and of the database clock. \<open>aborts\<close> tells whether a failed
  statement aborts the surrounding transaction (PostgreSQL) or only itself (SQLite).
\<close>

section \<open>Inputs\<close>

definition MAX_JOB_PAYLOAD_BYTES :: int where
  "MAX_JOB_PAYLOAD_BYTES = 64 * 1024"

definition MAX_JOB_ERROR_CHARS :: nat where
  "MAX_JOB_ERROR_CHARS = 2048"

record idempotent_job_spec =
  sp_job_type :: string
  sp_idempotency_key :: string
  sp_payload_json :: obj
  sp_candidate_session_id :: "int option"
  sp_max_attempts :: int
  sp_correlation_id :: "string option"
  sp_next_run_at :: "datetime option"

definition validate_payload_size :: "obj \<Rightarrow> unit res" where
  "validate_payload_size payload =
     (let n = encoded_bytes (JObj payload)
      in if n > MAX_JOB_PAYLOAD_BYTES
         then Inl (ValueError (''payload_json exceeds '' @ int_str MAX_JOB_PAYLOAD_BYTES @
                '' bytes ('' @ int_str n @ '' bytes)''))
         else Inr ())"

definition sanitize_error :: "string \<Rightarrow> string" where
  "sanitize_error error_str = take MAX_JOB_ERROR_CHARS (py_join '' '' (py_split error_str))"

definition normalize_idempotent_create_inputs ::
    "string \<Rightarrow> string \<Rightarrow> int \<Rightarrow> (string \<times> string) res" where
  "normalize_idempotent_create_inputs job_type idempotency_key max_attempts =
     (let normalized_type = py_strip job_type; normalized_key = py_strip idempotency_key
      in if normalized_type = [] then Inl (ValueError ''job_type is required'')
         else if normalized_key = [] then Inl (ValueError ''idempotency_key is required'')
         else if max_attempts < 1 then Inl (ValueError ''max_attempts must be >= 1'')
         else Inr (normalized_type, normalized_key))"

definition normalize_spec :: "idempotent_job_spec \<Rightarrow> idempotent_job_spec res" where
  "normalize_spec spec =
     bind_result (normalize_idempotent_create_inputs (sp_job_type spec)
        (sp_idempotency_key spec) (sp_max_attempts spec)) (\<lambda>(t, k).
     bind_result (validate_payload_size (sp_payload_json spec)) (\<lambda>_.
       Inr (spec\<lparr>sp_job_type := t, sp_idempotency_key := k\<rparr>)))"

definition normalize_many_specs :: "idempotent_job_spec list \<Rightarrow> idempotent_job_spec list res" where
  "normalize_many_specs specs = map_result normalize_spec specs"

section \<open>Rows and lookups\<close>

definition load_idempotent_job :: "int \<Rightarrow> string \<Rightarrow> string \<Rightarrow> jobs_db \<Rightarrow> job option" where
  "load_idempotent_job company_id job_type idempotency_key db =
     find_row (\<lambda>j. job_key j = (company_id, job_type, idempotency_key)) (jobs db)"

definition is_mutable_idempotent_job :: "job \<Rightarrow> bool" where
  "is_mutable_idempotent_job j \<longleftrightarrow>
     j_status j = JOB_STATUS_QUEUED \<and> j_locked_at j = None \<and> j_locked_by j = None"

definition apply_idempotent_job_updates :: "idempotent_job_spec \<Rightarrow> datetime \<Rightarrow> job \<Rightarrow> job" where
  "apply_idempotent_job_updates spec clk j =
     j\<lparr>j_payload_json := sp_payload_json spec,
       j_candidate_session_id := sp_candidate_session_id spec,
       j_max_attempts := sp_max_attempts spec,
       j_correlation_id := sp_correlation_id spec,
       j_next_run_at := Some (case sp_next_run_at spec of None \<Rightarrow> clk | Some t \<Rightarrow> t)\<rparr>"

text \<open>A flush writes a changed row and its \<open>onupdate\<close> column; an unchanged row is not written.\<close>

definition flush_row :: "datetime \<Rightarrow> (job \<Rightarrow> job) \<Rightarrow> job \<Rightarrow> job" where
  "flush_row clk f j = (let j' = f j in if j' = j then j else j'\<lparr>j_updated_at := clk\<rparr>)"

definition job_from_spec :: "int \<Rightarrow> datetime \<Rightarrow> string \<Rightarrow> idempotent_job_spec \<Rightarrow> job" where
  "job_from_spec company_id clk new_id spec =
     \<lparr>j_id = new_id, j_job_type = sp_job_type spec, j_status = JOB_STATUS_QUEUED,
      j_attempt = 0, j_max_attempts = sp_max_attempts spec,
      j_idempotency_key = sp_idempotency_key spec, j_payload_json = sp_payload_json spec,
      j_result_json = None, j_last_error = None, j_created_at = clk, j_updated_at = clk,
      j_next_run_at = Some (case sp_next_run_at spec of None \<Rightarrow> clk | Some t \<Rightarrow> t),
      j_locked_at = None, j_locked_by = None, j_correlation_id = sp_correlation_id spec,
      j_company_id = company_id, j_candidate_session_id = sp_candidate_session_id spec\<rparr>"

definition enqueued_event :: "job \<Rightarrow> datetime \<Rightarrow> jobs_db \<Rightarrow> jobs_db" where
  "enqueued_event j clk db = record_job_event j JOB_EVENT_ENQUEUED (j_status j)
     [(''idempotencyKey'', JStr (j_idempotency_key j))] clk db"

section \<open>Get or create\<close>

definition insert_nested_or_get_existing ::
    "int \<Rightarrow> idempotent_job_spec \<Rightarrow> datetime \<Rightarrow> jobs_db \<Rightarrow> (job \<times> jobs_db) res" where
  "insert_nested_or_get_existing company_id spec clk db0 =
     (case draw_uuid db0 of (new_id, db) \<Rightarrow>
      let job = job_from_spec company_id clk new_id spec
      in case insert_job job db of
           Inl e \<Rightarrow> (case load_idempotent_job company_id (sp_job_type spec) (sp_idempotency_key spec) db of
                     None \<Rightarrow> Inl e
                   | Some existing \<Rightarrow> Inr (existing, db))
         | Inr db' \<Rightarrow> Inr (job, enqueued_event job clk db'))"

definition insert_commit_or_get_existing ::
    "(jobs_db \<Rightarrow> jobs_db) \<Rightarrow> int \<Rightarrow> idempotent_job_spec \<Rightarrow> datetime \<Rightarrow> jobs_db \<Rightarrow> (job \<times> jobs_db) res" where
  "insert_commit_or_get_existing env company_id spec clk db0 =
     (case load_idempotent_job company_id (sp_job_type spec) (sp_idempotency_key spec) db0 of
        Some existing \<Rightarrow> Inr (existing, db0)
      | None \<Rightarrow> insert_nested_or_get_existing company_id spec clk (env db0))"

definition create_or_get_idempotent ::
    "(jobs_db \<Rightarrow> jobs_db) \<Rightarrow> idempotent_job_spec \<Rightarrow> int \<Rightarrow> bool \<Rightarrow> datetime \<Rightarrow> jobs_db \<Rightarrow> (job \<times> jobs_db) res" where
  "create_or_get_idempotent env spec company_id commit clk db =
     bind_result (normalize_idempotent_create_inputs (sp_job_type spec)
        (sp_idempotency_key spec) (sp_max_attempts spec)) (\<lambda>(t, k).
     bind_result (validate_payload_size (sp_payload_json spec)) (\<lambda>_.
       let normalized = spec\<lparr>sp_job_type := t, sp_idempotency_key := k\<rparr>
       in if \<not> commit then insert_nested_or_get_existing company_id normalized clk db
          else insert_commit_or_get_existing env company_id normalized clk db))"

section \<open>Get or update\<close>

definition update_existing_if_mutable ::
    "idempotent_job_spec \<Rightarrow> datetime \<Rightarrow> job \<Rightarrow> jobs_db \<Rightarrow> jobs_db" where
  "update_existing_if_mutable spec clk j db =
     (if \<not> is_mutable_idempotent_job j then db
      else update_job (j_id j) (flush_row clk (apply_idempotent_job_updates spec clk)) db)"

definition reload :: "job \<Rightarrow> jobs_db \<Rightarrow> job" where
  "reload j db = (case load_job (j_id j) db of None \<Rightarrow> j | Some j' \<Rightarrow> j')"

definition create_or_update_idempotent ::
    "(jobs_db \<Rightarrow> jobs_db) \<Rightarrow> idempotent_job_spec \<Rightarrow> int \<Rightarrow> bool \<Rightarrow> datetime \<Rightarrow> jobs_db \<Rightarrow> (job \<times> jobs_db) res" where
  "create_or_update_idempotent env spec company_id commit clk db =
     bind_result (normalize_idempotent_create_inputs (sp_job_type spec)
        (sp_idempotency_key spec) (sp_max_attempts spec)) (\<lambda>(t, k).
     bind_result (validate_payload_size (sp_payload_json spec)) (\<lambda>_.
       let normalized = spec\<lparr>sp_job_type := t, sp_idempotency_key := k\<rparr>
       in case load_idempotent_job company_id t k db of
            Some existing \<Rightarrow>
              (let db' = update_existing_if_mutable normalized clk existing db
               in Inr (reload existing db', db'))
          | None \<Rightarrow>
              bind_result (create_or_get_idempotent env normalized company_id commit clk db) (\<lambda>(job, db1).
                let db' = update_existing_if_mutable normalized clk job db1
                in Inr (reload job db', db'))))"

section \<open>Many at once\<close>

type_synonym existing_map = "((string \<times> string) \<times> string) list"

definition spec_key :: "idempotent_job_spec \<Rightarrow> string \<times> string" where
  "spec_key spec = (sp_job_type spec, sp_idempotency_key spec)"

definition load_idempotent_jobs_for_keys ::
    "int \<Rightarrow> (string \<times> string) list \<Rightarrow> jobs_db \<Rightarrow> job list" where
  "load_idempotent_jobs_for_keys company_id keys db =
     (if keys = [] then []
      else filter (\<lambda>j. j_company_id j = company_id \<and>
                       (j_job_type j, j_idempotency_key j) \<in> set keys) (jobs db))"

definition existing_map_of :: "job list \<Rightarrow> existing_map" where
  "existing_map_of js = map (\<lambda>j. ((j_job_type j, j_idempotency_key j), j_id j)) js"

fun apply_updates_to_existing ::
    "datetime \<Rightarrow> existing_map \<Rightarrow> idempotent_job_spec list \<Rightarrow> jobs_db \<Rightarrow> idempotent_job_spec list \<times> jobs_db" where
  "apply_updates_to_existing clk m [] db = ([], db)"
| "apply_updates_to_existing clk m (spec # specs) db =
     (case map_of m (spec_key spec) of
        None \<Rightarrow> (let (rest, db') = apply_updates_to_existing clk m specs db in (spec # rest, db'))
      | Some i \<Rightarrow>
          (case load_job i db of
             None \<Rightarrow> apply_updates_to_existing clk m specs db
           | Some existing \<Rightarrow>
               apply_updates_to_existing clk m specs (update_existing_if_mutable spec clk existing db)))"

fun insert_rows :: "int \<Rightarrow> datetime \<Rightarrow> idempotent_job_spec list \<Rightarrow> jobs_db \<Rightarrow> jobs_db res" where
  "insert_rows company_id clk [] db = Inr db"
| "insert_rows company_id clk (spec # specs) db0 =
     (case draw_uuid db0 of (new_id, db) \<Rightarrow>
        bind_result (insert_job (job_from_spec company_id clk new_id spec) db)
          (insert_rows company_id clk specs))"

fun recover_per_key ::
    "int \<Rightarrow> datetime \<Rightarrow> idempotent_job_spec list \<Rightarrow> existing_map \<Rightarrow> jobs_db \<Rightarrow> (existing_map \<times> jobs_db) res" where
  "recover_per_key company_id clk [] m db = Inr (m, db)"
| "recover_per_key company_id clk (spec # specs) m db =
     (case load_idempotent_job company_id (sp_job_type spec) (sp_idempotency_key spec) db of
        Some existing \<Rightarrow> recover_per_key company_id clk specs ((spec_key spec, j_id existing) # m) db
      | None \<Rightarrow>
          bind_result (insert_nested_or_get_existing company_id spec clk db) (\<lambda>(job, db').
            recover_per_key company_id clk specs ((spec_key spec, j_id job) # m) db'))"

definition recover_bulk_insert_conflicts ::
    "bool \<Rightarrow> int \<Rightarrow> datetime \<Rightarrow> idempotent_job_spec list \<Rightarrow> existing_map \<Rightarrow> jobs_db \<Rightarrow> (existing_map \<times> jobs_db) res" where
  "recover_bulk_insert_conflicts aborts company_id clk new_specs m db =
     (case insert_rows company_id clk new_specs db of
        Inl e \<Rightarrow> (if aborts then Inl TransactionAborted else recover_per_key company_id clk new_specs m db)
      | Inr db' \<Rightarrow>
          (let created = load_idempotent_jobs_for_keys company_id (map spec_key new_specs) db'
           in Inr (existing_map_of created @ m, fold (\<lambda>j. enqueued_event j clk) created db')))"

definition resolve_jobs_in_order :: "idempotent_job_spec list \<Rightarrow> existing_map \<Rightarrow> jobs_db \<Rightarrow> job list" where
  "resolve_jobs_in_order specs m db =
     concat (map (\<lambda>spec. case map_of m (spec_key spec) of None \<Rightarrow> []
        | Some i \<Rightarrow> (case load_job i db of None \<Rightarrow> [] | Some j \<Rightarrow> [j])) specs)"

definition create_or_update_many_idempotent ::
    "bool \<Rightarrow> (jobs_db \<Rightarrow> jobs_db) \<Rightarrow> int \<Rightarrow> idempotent_job_spec list \<Rightarrow> datetime \<Rightarrow> jobs_db \<Rightarrow> (job list \<times> jobs_db) res" where
  "create_or_update_many_idempotent aborts env company_id specs clk db =
     bind_result (normalize_many_specs specs) (\<lambda>normalized.
       if normalized = [] then Inr ([], db)
       else
         let m = existing_map_of (load_idempotent_jobs_for_keys company_id (map spec_key normalized) db)
         in case apply_updates_to_existing clk m normalized db of (new_specs, db1) \<Rightarrow>
              bind_result (if new_specs = [] then Inr (m, db1)
                 else recover_bulk_insert_conflicts aborts company_id clk new_specs m (env db1)) (\<lambda>(m', db').
                Inr (resolve_jobs_in_order normalized m' db', db')))"

section \<open>Requeue\<close>

definition requeue_row :: "datetime \<Rightarrow> datetime \<Rightarrow> obj option \<Rightarrow> job \<Rightarrow> job" where
  "requeue_row next_run_at now payload j =
     (let j' = j\<lparr>j_status := JOB_STATUS_QUEUED, j_next_run_at := Some next_run_at,
                 j_last_error := None, j_locked_at := None, j_locked_by := None,
                 j_updated_at := now\<rparr>
      in case payload of None \<Rightarrow> j' | Some p \<Rightarrow> j'\<lparr>j_payload_json := p\<rparr>)"

definition requeue_nonterminal_idempotent_job ::
    "int \<Rightarrow> string \<Rightarrow> string \<Rightarrow> datetime \<Rightarrow> datetime \<Rightarrow> obj option \<Rightarrow> jobs_db \<Rightarrow> (job option \<times> jobs_db) res" where
  "requeue_nonterminal_idempotent_job company_id job_type idempotency_key next_run_at now payload db =
     (let t = py_strip job_type; k = py_strip idempotency_key
      in if t = [] then Inl (ValueError ''job_type is required'')
         else if k = [] then Inl (ValueError ''idempotency_key is required'')
         else bind_result (case payload of None \<Rightarrow> Inr () | Some p \<Rightarrow> validate_payload_size p) (\<lambda>_.
           let hit = (\<lambda>j. job_key j = (company_id, t, k) \<and>
                          j_status j \<in> {JOB_STATUS_QUEUED, JOB_STATUS_RUNNING})
           in if count_rows hit (jobs db) = 0 then Inr (None, db)
              else let db' = db\<lparr>jobs := update_rows hit (requeue_row next_run_at now payload) (jobs db)\<rparr>
                   in Inr (load_idempotent_job company_id t k db', db')))"

section \<open>Row operations keep the keys\<close>

interpretation requeue_upd: job_update "requeue_row next_run_at now payload" for next_run_at now payload
  by unfold_locales (auto simp: requeue_row_def job_key_def Let_def split: option.splits)

interpretation idem_upd: job_update "flush_row clk (apply_idempotent_job_updates spec clk)" for clk spec
  by unfold_locales (auto simp: flush_row_def apply_idempotent_job_updates_def job_key_def Let_def)

lemma load_idempotent_job_SomeD:
  "load_idempotent_job c t k db = Some j \<Longrightarrow> j \<in> set (jobs db) \<and> job_key j = (c, t, k)"
  by (auto simp: load_idempotent_job_def dest: find_row_SomeD)

lemma load_idempotent_job_in:
  "jobs_wf db \<Longrightarrow> j \<in> set (jobs db) \<Longrightarrow> job_key j = (c, t, k) \<Longrightarrow>
   load_idempotent_job c t k db = Some j"
  using find_row_unique[of job_key "jobs db" j] by (simp add: load_idempotent_job_def jobs_wf_def)

lemma load_idempotent_job_None_iff:
  "load_idempotent_job c t k db = None \<longleftrightarrow> (c, t, k) \<notin> set (map job_key (jobs db))"
  by (auto simp: load_idempotent_job_def find_row_None_iff image_iff)

lemma job_key_from_spec [simp]:
  "job_key (job_from_spec c clk i spec) = (c, sp_job_type spec, sp_idempotency_key spec)"
  by (simp add: job_key_def job_from_spec_def)

lemma j_id_from_spec [simp]: "j_id (job_from_spec c clk i spec) = i"
  by (simp add: job_from_spec_def)

lemma enqueued_event_simps [simp]:
  "jobs (enqueued_event j clk db) = jobs db"
  "failed_jobs (enqueued_event j clk db) = failed_jobs db"
  "uuid4 (enqueued_event j clk db) = uuid4 db"
  "uuid_next (enqueued_event j clk db) = uuid_next db"
  "load_job i (enqueued_event j clk db) = load_job i db"
  "jobs_wf (enqueued_event j clk db) \<longleftrightarrow> jobs_wf db"
  by (simp_all add: enqueued_event_def)

section \<open>Inserts keep the tables well formed\<close>

lemma insert_job_InrD:
  "insert_job j db = Inr db' \<Longrightarrow> \<not> violates_constraints j db \<and> db' = db\<lparr>jobs := jobs db @ [j]\<rparr>"
  by (auto simp: insert_job_def split: if_splits)

lemma insert_job_wf:
  assumes "jobs_wf db" and ins: "insert_job j db = Inr db'"
    and fresh: "j_id j \<notin> used_ids db" and future: "\<And>n. n \<ge> uuid_next db \<Longrightarrow> uuid4 db n \<noteq> j_id j"
  shows "jobs_wf db'"
proof -
  from insert_job_InrD[OF ins] have nv: "\<not> violates_constraints j db"
    and db': "db' = db\<lparr>jobs := jobs db @ [j]\<rparr>" by auto
  have "used_ids db' = insert (j_id j) (used_ids db)"
    by (auto simp: db' used_ids_def)
  with assms nv show ?thesis
    by (auto simp: db' jobs_wf_def violates_constraints_def)
qed

lemma insert_drawn_wf:
  assumes wf: "jobs_wf db0" and d: "draw_uuid db0 = (i, db)"
    and ins: "insert_job (job_from_spec c clk i spec) db = Inr db'"
  shows "jobs_wf db'"
  using insert_job_wf[OF draw_uuid_wf(1)[OF wf d] ins] draw_uuid_wf[OF wf d] by simp

lemma insert_drawn_error:
  assumes wf: "jobs_wf db0" and d: "draw_uuid db0 = (i, db)"
    and ins: "insert_job (job_from_spec c clk i spec) db = Inl e"
    and fk: "c \<in> set (company_ids db0)" "\<And>s. sp_candidate_session_id spec = Some s \<Longrightarrow> s \<in> set (session_ids db0)"
  shows "\<exists>j. load_idempotent_job c (sp_job_type spec) (sp_idempotency_key spec) db = Some j"
proof (rule ccontr)
  assume no: "\<nexists>j. load_idempotent_job c (sp_job_type spec) (sp_idempotency_key spec) db = Some j"
  have db: "db = db0\<lparr>uuid_next := Suc (uuid_next db0)\<rparr>" using d by (auto simp: draw_uuid_def)
  have "i \<notin> used_ids db" using draw_uuid_wf(2)[OF wf d] .
  then have "i \<notin> set (map j_id (jobs db))" by (auto simp: used_ids_def)
  moreover have "(c, sp_job_type spec, sp_idempotency_key spec) \<notin> set (map job_key (jobs db))"
    using no load_idempotent_job_None_iff by (metis not_None_eq)
  ultimately have "\<not> violates_constraints (job_from_spec c clk i spec) db"
    using fk by (auto simp: violates_constraints_def db) (auto simp: job_from_spec_def)
  with ins show False by (simp add: insert_job_def)
qed

lemma insert_nested_wf:
  assumes "jobs_wf db0" "insert_nested_or_get_existing c spec clk db0 = Inr (j, db')"
  shows "jobs_wf db'"
  using assms
  by (auto simp: insert_nested_or_get_existing_def Let_def
      split: prod.splits sum.splits option.splits
      dest: insert_drawn_wf draw_uuid_wf(1))

lemma insert_nested_result:
  assumes wf: "jobs_wf db0" and res: "insert_nested_or_get_existing c spec clk db0 = Inr (j, db')"
  shows "load_idempotent_job c (sp_job_type spec) (sp_idempotency_key spec) db' = Some j"
proof -
  obtain i db where d: "draw_uuid db0 = (i, db)" by fastforce
  let ?new = "job_from_spec c clk i spec"
  show ?thesis
  proof (cases "insert_job ?new db")
    case (Inl e)
    with res d show ?thesis
      by (auto simp: insert_nested_or_get_existing_def Let_def split: option.splits)
  next
    case (Inr db1)
    with res d have j: "j = ?new" "db' = enqueued_event ?new clk db1"
      by (auto simp: insert_nested_or_get_existing_def Let_def)
    have "jobs_wf db'" using insert_nested_wf[OF wf res] .
    moreover have "?new \<in> set (jobs db')" using insert_job_InrD[OF Inr] j by simp
    ultimately show ?thesis using j by (intro load_idempotent_job_in) simp_all
  qed
qed

section \<open>What other sessions may commit\<close>

text \<open>
  \<open>jobs_ext\<close> relates a state to a later one: no job is deleted or changes its key, no
  company or candidate session disappears. \<open>commits env\<close> says that \<open>env\<close> only leads to
  such states and keeps the tables well formed.
\<close>

definition jobs_ext :: "jobs_db \<Rightarrow> jobs_db \<Rightarrow> bool" where
  "jobs_ext db db' \<longleftrightarrow>
     set (company_ids db) \<subseteq> set (company_ids db') \<and> set (session_ids db) \<subseteq> set (session_ids db') \<and>
     (\<forall>i j. load_job i db = Some j \<longrightarrow> (\<exists>j'. load_job i db' = Some j' \<and> job_key j' = job_key j))"

definition commits :: "(jobs_db \<Rightarrow> jobs_db) \<Rightarrow> bool" where
  "commits env \<longleftrightarrow> (\<forall>db. jobs_wf db \<longrightarrow> jobs_wf (env db) \<and> jobs_ext db (env db))"

lemma jobs_ext_refl [simp]: "jobs_ext db db"
  by (simp add: jobs_ext_def)

lemma jobs_ext_trans: "jobs_ext a b \<Longrightarrow> jobs_ext b c \<Longrightarrow> jobs_ext a c"
  unfolding jobs_ext_def by (metis subset_trans)

lemma jobs_ext_loadE:
  assumes "jobs_ext db db'" "load_job i db = Some j"
  obtains j' where "load_job i db' = Some j'" "job_key j' = job_key j"
  using assms unfolding jobs_ext_def by blast

lemma commits_id [simp]: "commits (\<lambda>db. db)"
  by (simp add: commits_def)

lemma commitsD: "commits env \<Longrightarrow> jobs_wf db \<Longrightarrow> jobs_wf (env db)"
  "commits env \<Longrightarrow> jobs_wf db \<Longrightarrow> jobs_ext db (env db)"
  by (simp_all add: commits_def)

context job_update begin

lemma ext_update: "jobs_ext db (update_job i upd db)"
  by (auto simp: jobs_ext_def load_update idem_key_upd)

end

lemma jobs_ext_draw: "draw_uuid db = (i, db') \<Longrightarrow> jobs_ext db db'"
  by (auto simp: draw_uuid_def jobs_ext_def load_job_def)

lemma jobs_ext_insert: "insert_job j db = Inr db' \<Longrightarrow> jobs_ext db db'"
  by (auto dest!: insert_job_InrD simp: jobs_ext_def load_job_def find_row_append split: option.splits)

lemma jobs_ext_record [simp]: "jobs_ext db (enqueued_event j clk db)"
  by (simp add: jobs_ext_def enqueued_event_def)

lemma jobs_ext_enqueued: "jobs_ext db db' \<Longrightarrow> jobs_ext db (enqueued_event j clk db')"
  using jobs_ext_trans jobs_ext_record by blast

section \<open>Get or create\<close>

lemma insert_nested_ext:
  assumes "insert_nested_or_get_existing c spec clk db0 = Inr (j, db')"
  shows "jobs_ext db0 db'"
proof -
  obtain i db where d: "draw_uuid db0 = (i, db)" by fastforce
  from assms d show ?thesis
    by (auto simp: insert_nested_or_get_existing_def Let_def split: sum.splits option.splits
        intro: jobs_ext_trans[OF jobs_ext_draw[OF d]] jobs_ext_enqueued jobs_ext_insert)
qed

lemma insert_nested_total:
  assumes wf: "jobs_wf db" and "c \<in> set (company_ids db)"
    and "\<And>s. sp_candidate_session_id spec = Some s \<Longrightarrow> s \<in> set (session_ids db)"
  shows "\<exists>r. insert_nested_or_get_existing c spec clk db = Inr r"
proof -
  obtain i db1 where d: "draw_uuid db = (i, db1)" by fastforce
  show ?thesis
    using insert_drawn_error[OF wf d _ assms(2,3)] d
    by (fastforce simp: insert_nested_or_get_existing_def Let_def split: sum.splits)
qed

definition valid_spec :: "idempotent_job_spec \<Rightarrow> bool" where
  "valid_spec spec \<longleftrightarrow> py_strip (sp_job_type spec) \<noteq> [] \<and> py_strip (sp_idempotency_key spec) \<noteq> [] \<and>
     sp_max_attempts spec \<ge> 1 \<and> encoded_bytes (JObj (sp_payload_json spec)) \<le> MAX_JOB_PAYLOAD_BYTES"

definition stripped :: "idempotent_job_spec \<Rightarrow> idempotent_job_spec" where
  "stripped spec = spec\<lparr>sp_job_type := py_strip (sp_job_type spec),
                        sp_idempotency_key := py_strip (sp_idempotency_key spec)\<rparr>"

lemma stripped_sel [simp]:
  "sp_job_type (stripped spec) = py_strip (sp_job_type spec)"
  "sp_idempotency_key (stripped spec) = py_strip (sp_idempotency_key spec)"
  "sp_payload_json (stripped spec) = sp_payload_json spec"
  "sp_candidate_session_id (stripped spec) = sp_candidate_session_id spec"
  "sp_max_attempts (stripped spec) = sp_max_attempts spec"
  "sp_correlation_id (stripped spec) = sp_correlation_id spec"
  "sp_next_run_at (stripped spec) = sp_next_run_at spec"
  "stripped (stripped spec) = stripped spec"
  by (simp_all add: stripped_def)

lemma valid_spec_stripped [simp]: "valid_spec (stripped spec) \<longleftrightarrow> valid_spec spec"
  by (simp add: valid_spec_def)

lemma normalize_inputs_eq:
  "normalize_idempotent_create_inputs t k n = Inr r \<longleftrightarrow>
   py_strip t \<noteq> [] \<and> py_strip k \<noteq> [] \<and> 1 \<le> n \<and> r = (py_strip t, py_strip k)"
  by (auto simp: normalize_idempotent_create_inputs_def Let_def)

lemma validate_payload_size_eq:
  "validate_payload_size p = Inr u \<longleftrightarrow> encoded_bytes (JObj p) \<le> MAX_JOB_PAYLOAD_BYTES"
  by (auto simp: validate_payload_size_def Let_def)

lemma normalize_spec_eq: "normalize_spec spec = Inr r \<longleftrightarrow> valid_spec spec \<and> r = stripped spec"
  by (auto simp: normalize_spec_def bind_result_Inr_iff normalize_inputs_eq
      validate_payload_size_eq valid_spec_def stripped_def)

lemma create_or_get_unfold:
  "create_or_get_idempotent env spec c commit clk db = Inr r \<longleftrightarrow>
   valid_spec spec \<and>
   (if \<not> commit then insert_nested_or_get_existing c (stripped spec) clk db
    else insert_commit_or_get_existing env c (stripped spec) clk db) = Inr r"
  by (auto simp: create_or_get_idempotent_def bind_result_Inr_iff normalize_inputs_eq
      validate_payload_size_eq valid_spec_def stripped_def Let_def)

lemma insert_commit_facts:
  assumes wf: "jobs_wf db" and env: "commits env"
    and res: "insert_commit_or_get_existing env c spec clk db = Inr (j, db')"
  shows "jobs_wf db'" "jobs_ext db db'"
    "load_idempotent_job c (sp_job_type spec) (sp_idempotency_key spec) db' = Some j"
  using res insert_nested_wf[of "env db" c spec clk j db'] insert_nested_result[of "env db" c spec clk j db']
    insert_nested_ext[of c spec clk "env db" j db'] commitsD[OF env wf] wf
  by (auto simp: insert_commit_or_get_existing_def split: option.splits intro: jobs_ext_trans)

lemma create_or_get_facts:
  assumes wf: "jobs_wf db" and env: "commits env"
    and res: "create_or_get_idempotent env spec c commit clk db = Inr (j, db')"
  shows "jobs_wf db'" "jobs_ext db db'"
    "load_idempotent_job c (py_strip (sp_job_type spec)) (py_strip (sp_idempotency_key spec)) db' = Some j"
  using res insert_commit_facts[OF wf env, of c "stripped spec" clk j db']
    insert_nested_wf[OF wf, of c "stripped spec" clk j db']
    insert_nested_result[OF wf, of c "stripped spec" clk j db']
    insert_nested_ext[of c "stripped spec" clk db j db']
  by (auto simp: create_or_get_unfold split: if_splits)

lemma count_rows_key:
  "distinct (map k rs) \<Longrightarrow> r \<in> set rs \<Longrightarrow> count_rows (\<lambda>x. k x = k r) rs = 1"
  by (simp add: count_rows_def filter_distinct_key find_row_unique)

section \<open>Many at once\<close>

text \<open>Every entry of the map names a row that has the entry's key.\<close>

definition map_ok :: "int \<Rightarrow> existing_map \<Rightarrow> jobs_db \<Rightarrow> bool" where
  "map_ok c m db \<longleftrightarrow> (\<forall>k i. map_of m k = Some i \<longrightarrow> (\<exists>j. load_job i db = Some j \<and> job_key j = (c, k)))"

lemma map_okD: "map_ok c m db \<Longrightarrow> map_of m k = Some i \<Longrightarrow> \<exists>j. load_job i db = Some j \<and> job_key j = (c, k)"
  unfolding map_ok_def by blast

lemma map_ok_ext: "map_ok c m db \<Longrightarrow> jobs_ext db db' \<Longrightarrow> map_ok c m db'"
  unfolding map_ok_def jobs_ext_def by metis

lemma map_ok_Cons:
  "map_ok c m db \<Longrightarrow> load_job i db = Some j \<Longrightarrow> job_key j = (c, k) \<Longrightarrow> map_ok c ((k, i) # m) db"
  by (simp add: map_ok_def)

lemma map_ok_append: "map_ok c m db \<Longrightarrow> map_ok c m' db \<Longrightarrow> map_ok c (m @ m') db"
  by (auto simp: map_ok_def map_add_def split: option.splits)

lemma map_ok_existing:
  assumes wf: "jobs_wf db" and js: "\<And>j. j \<in> set js \<Longrightarrow> j \<in> set (jobs db) \<and> j_company_id j = c"
  shows "map_ok c (existing_map_of js) db"
  unfolding map_ok_def
proof (intro allI impI)
  fix k i assume "map_of (existing_map_of js) k = Some i"
  then have "(k, i) \<in> set (existing_map_of js)" by (rule map_of_SomeD)
  then obtain j where "j \<in> set js" "k = (j_job_type j, j_idempotency_key j)" "i = j_id j"
    by (auto simp: existing_map_of_def)
  with js wf show "\<exists>j. load_job i db = Some j \<and> job_key j = (c, k)"
    by (intro exI[of _ j]) (auto simp: load_job_in job_key_def)
qed

lemma update_existing_facts:
  "jobs_wf (update_existing_if_mutable spec clk j db) \<longleftrightarrow> jobs_wf db"
  "jobs_ext db (update_existing_if_mutable spec clk j db)"
  by (simp_all add: update_existing_if_mutable_def idem_upd.jobs_wf_update idem_upd.ext_update)

lemma update_existing_keys:
  "map job_key (jobs (update_existing_if_mutable spec clk j db)) = map job_key (jobs db)"
  by (simp add: update_existing_if_mutable_def update_job_def idem_upd.idem_keys_update)

lemma apply_updates_facts:
  "apply_updates_to_existing clk m specs db = (new, db') \<Longrightarrow>
   (jobs_wf db' \<longleftrightarrow> jobs_wf db) \<and> jobs_ext db db' \<and>
   map job_key (jobs db') = map job_key (jobs db) \<and>
   new = filter (\<lambda>s. map_of m (spec_key s) = None) specs"
proof (induction specs arbitrary: db new)
  case (Cons spec specs)
  show ?case
  proof (cases "map_of m (spec_key spec)")
    case None
    with Cons.prems obtain rest where "apply_updates_to_existing clk m specs db = (rest, db')"
      "new = spec # rest"
      by (auto split: prod.splits)
    with None Cons.IH show ?thesis by fastforce
  next
    case (Some i)
    show ?thesis
    proof (cases "load_job i db")
      case None
      with Some Cons.prems Cons.IH[of db new] show ?thesis by simp
    next
      case (Some j)
      let ?db1 = "update_existing_if_mutable spec clk j db"
      have "apply_updates_to_existing clk m specs ?db1 = (new, db')"
        using Cons.prems \<open>map_of m (spec_key spec) = Some i\<close> Some by simp
      then have IH: "(jobs_wf db' \<longleftrightarrow> jobs_wf ?db1) \<and> jobs_ext ?db1 db' \<and>
          map job_key (jobs db') = map job_key (jobs ?db1) \<and>
          new = filter (\<lambda>s. map_of m (spec_key s) = None) specs"
        by (rule Cons.IH)
      then show ?thesis
        using \<open>map_of m (spec_key spec) = Some i\<close>
          jobs_ext_trans[OF update_existing_facts(2)[of db spec clk j], of db']
        by (simp add: update_existing_facts(1) update_existing_keys)
    qed
  qed
qed simp

lemma insert_rows_facts:
  "jobs_wf db \<Longrightarrow> insert_rows c clk specs db = Inr db' \<Longrightarrow>
   jobs_wf db' \<and> jobs_ext db db' \<and>
   set (map job_key (jobs db)) \<union> (\<lambda>s. (c, spec_key s)) ` set specs \<subseteq> set (map job_key (jobs db'))"
proof (induction specs arbitrary: db)
  case (Cons spec specs)
  obtain i db1 where d: "draw_uuid db = (i, db1)" by fastforce
  from Cons.prems d obtain db2 where ins: "insert_job (job_from_spec c clk i spec) db1 = Inr db2"
    and rest: "insert_rows c clk specs db2 = Inr db'"
    by (auto simp: bind_result_Inr_iff)
  have wf2: "jobs_wf db2" using insert_drawn_wf[OF Cons.prems(1) d ins] .
  have ext2: "jobs_ext db db2"
    using jobs_ext_trans[OF jobs_ext_draw[OF d] jobs_ext_insert[OF ins]] .
  have "jobs db2 = jobs db @ [job_from_spec c clk i spec]"
    using insert_job_InrD[OF ins] d by (auto simp: draw_uuid_def)
  then have keys2: "set (map job_key (jobs db2)) = insert (c, spec_key spec) (set (map job_key (jobs db)))"
    by (simp add: spec_key_def)
  from Cons.IH[OF wf2 rest] ext2 keys2 show ?case
    by (auto intro: jobs_ext_trans)
qed simp

lemma insert_rows_company_kept:
  "insert_rows c clk specs db = Inr db' \<Longrightarrow> company_ids db' = company_ids db \<and> session_ids db' = session_ids db"
  by (induction specs arbitrary: db)
     (auto simp: bind_result_Inr_iff draw_uuid_def dest!: insert_job_InrD)

lemma fold_enqueued_simps [simp]:
  "jobs (fold (\<lambda>j. enqueued_event j clk) js db) = jobs db"
  "load_job i (fold (\<lambda>j. enqueued_event j clk) js db) = load_job i db"
  "jobs_wf (fold (\<lambda>j. enqueued_event j clk) js db) \<longleftrightarrow> jobs_wf db"
  by (induction js arbitrary: db) simp_all

lemma fold_enqueued_ext [simp]: "jobs_ext db (fold (\<lambda>j. enqueued_event j clk) js db)"
  by (induction js arbitrary: db) (auto intro: jobs_ext_trans[OF jobs_ext_record])

lemma recover_per_key_facts:
  "jobs_wf db \<Longrightarrow> map_ok c m db \<Longrightarrow> recover_per_key c clk specs m db = Inr (m', db') \<Longrightarrow>
   jobs_wf db' \<and> jobs_ext db db' \<and> map_ok c m' db' \<and> dom (map_of m) \<union> spec_key ` set specs \<subseteq> dom (map_of m')"
proof (induction specs arbitrary: m db)
  case (Cons spec specs)
  let ?t = "sp_job_type spec" and ?k = "sp_idempotency_key spec"
  obtain j db1 where found: "load_idempotent_job c ?t ?k db1 = Some j"
    and wf1: "jobs_wf db1" and ext1: "jobs_ext db db1"
    and rest: "recover_per_key c clk specs ((spec_key spec, j_id j) # m) db1 = Inr (m', db')"
  proof (cases "load_idempotent_job c ?t ?k db")
    case None
    with Cons.prems obtain j db1 where "insert_nested_or_get_existing c spec clk db = Inr (j, db1)"
      "recover_per_key c clk specs ((spec_key spec, j_id j) # m) db1 = Inr (m', db')"
      by (auto simp: bind_result_Inr_iff)
    with insert_nested_wf insert_nested_result insert_nested_ext Cons.prems(1) that show thesis by blast
  next
    case (Some j)
    with Cons.prems that show thesis by simp
  qed
  have "load_job (j_id j) db1 = Some j" "job_key j = (c, spec_key spec)"
    using load_idempotent_job_SomeD[OF found] wf1 by (auto simp: load_job_in spec_key_def)
  then have ok1: "map_ok c ((spec_key spec, j_id j) # m) db1"
    using map_ok_Cons[OF map_ok_ext[OF Cons.prems(2) ext1]] by blast
  have "dom (map_of ((spec_key spec, j_id j) # m)) = insert (spec_key spec) (dom (map_of m))"
    by (simp only: map_of.simps dom_fun_upd fst_conv snd_conv) simp
  with Cons.IH[OF wf1 ok1 rest] jobs_ext_trans[OF ext1, of db'] show ?case
    by (simp only: list.set image_insert) blast
qed auto

lemma recover_per_key_total:
  assumes "jobs_wf db" "c \<in> set (company_ids db)"
    "\<And>s x. s \<in> set specs \<Longrightarrow> sp_candidate_session_id s = Some x \<Longrightarrow> x \<in> set (session_ids db)"
  shows "\<exists>r. recover_per_key c clk specs m db = Inr r"
  using assms
proof (induction specs arbitrary: m db)
  case (Cons spec specs)
  show ?case
  proof (cases "load_idempotent_job c (sp_job_type spec) (sp_idempotency_key spec) db")
    case None
    obtain j db1 where n: "insert_nested_or_get_existing c spec clk db = Inr (j, db1)"
      using insert_nested_total[OF Cons.prems(1,2), of spec clk] Cons.prems(3)[of spec]
      by (metis list.set_intros(1) surj_pair)
    have "jobs_wf db1" and ext: "jobs_ext db db1"
      using insert_nested_wf[OF Cons.prems(1) n] insert_nested_ext[OF n] .
    then have "\<exists>r. recover_per_key c clk specs ((spec_key spec, j_id j) # m) db1 = Inr r"
      using Cons.prems(2,3) by (intro Cons.IH) (auto simp: jobs_ext_def)
    with None n show ?thesis by simp
  next
    case (Some j)
    have "\<exists>r. recover_per_key c clk specs ((spec_key spec, j_id j) # m) db = Inr r"
      using Cons.prems(3) by (intro Cons.IH[OF Cons.prems(1,2)]) auto
    with Some show ?thesis by simp
  qed
qed simp

lemma resolve_keys:
  "map_ok c m db \<Longrightarrow> spec_key ` set specs \<subseteq> dom (map_of m) \<Longrightarrow>
   map job_key (resolve_jobs_in_order specs m db) = map (\<lambda>s. (c, spec_key s)) specs"
proof (induction specs)
  case (Cons spec specs)
  then obtain i where i: "map_of m (spec_key spec) = Some i" by auto
  with Cons.prems(1) obtain j where "load_job i db = Some j" "job_key j = (c, spec_key spec)"
    using map_okD by blast
  with i Cons show ?case by (simp add: resolve_jobs_in_order_def)
qed (simp add: resolve_jobs_in_order_def)

lemma jobs_for_keys_ok:
  "jobs_wf db \<Longrightarrow> map_ok c (existing_map_of (load_idempotent_jobs_for_keys c keys db)) db"
  by (rule map_ok_existing) (auto simp: load_idempotent_jobs_for_keys_def split: if_splits)

lemma existing_map_dom:
  "(c, k) \<in> set (map job_key (jobs db)) \<Longrightarrow> k \<in> set keys \<Longrightarrow>
   k \<in> dom (map_of (existing_map_of (load_idempotent_jobs_for_keys c keys db)))"
proof -
  assume "(c, k) \<in> set (map job_key (jobs db))" and k: "k \<in> set keys"
  then obtain j where j: "j \<in> set (jobs db)" "job_key j = (c, k)" by auto
  then have "j \<in> set (load_idempotent_jobs_for_keys c keys db)"
    using k by (auto simp: load_idempotent_jobs_for_keys_def job_key_def)
  then have "(k, j_id j) \<in> set (existing_map_of (load_idempotent_jobs_for_keys c keys db))"
    using j(2) by (force simp: existing_map_of_def job_key_def)
  then show ?thesis by (auto dest: weak_map_of_SomeI)
qed

lemma existing_map_None:
  "(c, k) \<notin> set (map job_key (jobs db)) \<Longrightarrow>
   map_of (existing_map_of (load_idempotent_jobs_for_keys c keys db)) k = None"
  by (force simp: map_of_eq_None_iff existing_map_of_def load_idempotent_jobs_for_keys_def
      job_key_def image_iff split: if_splits)

lemma recover_bulk_facts:
  assumes wf: "jobs_wf db" and ok: "map_ok c m db"
    and res: "recover_bulk_insert_conflicts False c clk specs m db = Inr (m', db')"
  shows "jobs_wf db' \<and> jobs_ext db db' \<and> map_ok c m' db' \<and> dom (map_of m) \<union> spec_key ` set specs \<subseteq> dom (map_of m')"
proof (cases "insert_rows c clk specs db")
  case (Inl e)
  with res have "recover_per_key c clk specs m db = Inr (m', db')"
    by (simp add: recover_bulk_insert_conflicts_def)
  then show ?thesis using recover_per_key_facts[OF wf ok] by blast
next
  case (Inr db1)
  let ?keys = "map spec_key specs"
  let ?created = "load_idempotent_jobs_for_keys c ?keys db1"
  from insert_rows_facts[OF wf Inr] have wf1: "jobs_wf db1" and ext1: "jobs_ext db db1"
    and keys1: "(\<lambda>s. (c, spec_key s)) ` set specs \<subseteq> set (map job_key (jobs db1))" by auto
  from res Inr have m': "m' = existing_map_of ?created @ m"
    and db': "db' = fold (\<lambda>j. enqueued_event j clk) ?created db1"
    by (auto simp: recover_bulk_insert_conflicts_def Let_def)
  have "map_ok c m' db1"
    unfolding m' using jobs_for_keys_ok[OF wf1] map_ok_ext[OF ok ext1] by (rule map_ok_append)
  then have "map_ok c m' db'" by (simp add: map_ok_def db')
  moreover have "spec_key ` set specs \<subseteq> dom (map_of (existing_map_of ?created))"
    using existing_map_dom[of c _ db1 ?keys] keys1 by (fastforce simp: image_subset_iff)
  ultimately show ?thesis
    using wf1 jobs_ext_trans[OF ext1] by (simp add: db' m') (auto simp: dom_def)
qed

lemma recover_bulk_total:
  assumes wf: "jobs_wf db" and "c \<in> set (company_ids db)"
    "\<And>s x. s \<in> set specs \<Longrightarrow> sp_candidate_session_id s = Some x \<Longrightarrow> x \<in> set (session_ids db)"
  shows "\<exists>m' db'. recover_bulk_insert_conflicts False c clk specs m db = Inr (m', db')"
  using recover_per_key_total[OF assms, where clk = clk and m = m]
  by (auto simp: recover_bulk_insert_conflicts_def Let_def split: sum.splits)

lemma normalize_many_eq:
  "normalize_many_specs specs = Inr r \<longleftrightarrow> (\<forall>s \<in> set specs. valid_spec s) \<and> r = map stripped specs"
  unfolding normalize_many_specs_def
  by (induction specs arbitrary: r) (auto simp: bind_result_Inr_iff normalize_spec_eq)

lemma insert_rows_dup_key:
  assumes "insert_rows c clk specs db = Inr db'"
  shows "distinct (map spec_key specs) \<and> (\<forall>s \<in> set specs. (c, spec_key s) \<notin> set (map job_key (jobs db)))"
  using assms
proof (induction specs arbitrary: db)
  case (Cons spec specs)
  obtain i db1 where d: "draw_uuid db = (i, db1)" by fastforce
  from Cons.prems d obtain db2 where ins: "insert_job (job_from_spec c clk i spec) db1 = Inr db2"
    and rest: "insert_rows c clk specs db2 = Inr db'"
    by (auto simp: bind_result_Inr_iff)
  have "jobs db1 = jobs db" using d by (auto simp: draw_uuid_def)
  with insert_job_InrD[OF ins] have "(c, spec_key spec) \<notin> set (map job_key (jobs db))"
    and "set (map job_key (jobs db2)) = insert (c, spec_key spec) (set (map job_key (jobs db)))"
    by (auto simp: violates_constraints_def spec_key_def)
  with Cons.IH[OF rest] show ?case by auto
qed simp

lemma update_existing_other:
  assumes wf: "jobs_wf db" and j: "j \<in> set (jobs db)" "\<not> is_mutable_idempotent_job j"
    and e: "e \<in> set (jobs db)"
  shows "j \<in> set (jobs (update_existing_if_mutable spec clk e db))"
proof (cases "is_mutable_idempotent_job e")
  case True
  then have "j_id j \<noteq> j_id e" using job_eqI[OF wf j(1) e] j(2) by auto
  with True j(1) show ?thesis
    by (auto simp: update_existing_if_mutable_def update_job_def set_update_rows)
qed (use j in \<open>simp add: update_existing_if_mutable_def\<close>)

lemma insert_nested_keeps:
  "insert_nested_or_get_existing c spec clk db = Inr (job, db') \<Longrightarrow> set (jobs db) \<subseteq> set (jobs db')"
  by (auto simp: insert_nested_or_get_existing_def Let_def draw_uuid_def
      split: sum.splits option.splits dest!: insert_job_InrD)

lemma create_or_get_keeps:
  "create_or_get_idempotent (\<lambda>db. db) spec c commit clk db = Inr (job, db') \<Longrightarrow> set (jobs db) \<subseteq> set (jobs db')"
  by (auto simp: create_or_get_unfold insert_commit_or_get_existing_def
      split: if_splits option.splits intro: subsetD[OF insert_nested_keeps])

section \<open>Properties\<close>

definition demo_spec :: idempotent_job_spec where
  "demo_spec = \<lparr>sp_job_type = '' transcribe'', sp_idempotency_key = ''k1 '',
     sp_payload_json = [(''recordingId'', JInt 5)], sp_candidate_session_id = Some 7,
     sp_max_attempts = 3, sp_correlation_id = None, sp_next_run_at = None\<rparr>"

text \<open>
  Property C5. Get-or-create keeps at most one row for a key, whatever other sessions
  commit between its lookup and its insert: the job it returns is the row of the
  stripped key, it is the only one, and every earlier row is still there.
\<close>

theorem create_or_get_unique:
  assumes "jobs_wf db" and "commits env"
    and "create_or_get_idempotent env spec c commit clk db = Inr (job, db')"
  shows "jobs_wf db' \<and> jobs_ext db db' \<and>
    load_idempotent_job c (py_strip (sp_job_type spec)) (py_strip (sp_idempotency_key spec)) db' = Some job \<and>
    count_rows (\<lambda>j. job_key j = (c, py_strip (sp_job_type spec), py_strip (sp_idempotency_key spec))) (jobs db') = 1"
proof -
  note facts = create_or_get_facts[OF assms]
  from load_idempotent_job_SomeD[OF facts(3)]
  have "count_rows (\<lambda>j. job_key j = job_key job) (jobs db') = 1"
    by (intro count_rows_key) (auto simp: facts(1) jobs_wfD(2))
  with facts load_idempotent_job_SomeD[OF facts(3)] show ?thesis by simp
qed

theorem create_or_get_unique_witness:
  "\<exists>job db'. create_or_get_idempotent (\<lambda>db. db) demo_spec 1 True 10 empty_jobs_db = Inr (job, db') \<and>
     jobs_wf db' \<and> count_rows (\<lambda>j. job_key j = (1, ''transcribe'', ''k1'')) (jobs db') = 1"
proof -
  have "isl (create_or_get_idempotent (\<lambda>db. db) demo_spec 1 True 10 empty_jobs_db) = False"
    by code_simp
  then obtain job db' where r: "create_or_get_idempotent (\<lambda>db. db) demo_spec 1 True 10 empty_jobs_db = Inr (job, db')"
    by (metis isl_def sumE surj_pair)
  have "py_strip (sp_job_type demo_spec) = ''transcribe''" "py_strip (sp_idempotency_key demo_spec) = ''k1''"
    by code_simp+
  with create_or_get_unique[OF jobs_wf_empty commits_id r] r show ?thesis by auto
qed

text \<open>
  Get-or-create returns a job exactly on valid input: a job type and a key
  that are not blank, at least one attempt, and a payload whose JSON encoding is at most
  64 KiB. A race for the key is never an error.
\<close>

theorem create_or_get_returns_iff:
  assumes wf: "jobs_wf db" and env: "commits env" and c: "c \<in> set (company_ids db)"
    and s: "\<And>s. sp_candidate_session_id spec = Some s \<Longrightarrow> s \<in> set (session_ids db)"
  shows "(\<exists>r. create_or_get_idempotent env spec c commit clk db = Inr r) \<longleftrightarrow>
    py_strip (sp_job_type spec) \<noteq> [] \<and> py_strip (sp_idempotency_key spec) \<noteq> [] \<and>
    1 \<le> sp_max_attempts spec \<and> encoded_bytes (JObj (sp_payload_json spec)) \<le> 65536"
proof -
  have "c \<in> set (company_ids (env db))" "\<And>s. sp_candidate_session_id spec = Some s \<Longrightarrow> s \<in> set (session_ids (env db))"
    using c s commitsD(2)[OF env wf] by (auto simp: jobs_ext_def)
  then have "\<exists>r. insert_nested_or_get_existing c (stripped spec) clk (env db) = Inr r"
    by (intro insert_nested_total) (simp_all add: commitsD(1)[OF env wf])
  moreover have "\<exists>r. insert_nested_or_get_existing c (stripped spec) clk db = Inr r"
    by (intro insert_nested_total) (simp_all add: wf c s)
  ultimately show ?thesis
    by (auto simp: create_or_get_unfold insert_commit_or_get_existing_def valid_spec_def
        MAX_JOB_PAYLOAD_BYTES_def split: option.splits)
qed

theorem create_or_get_returns_iff_witness:
  "\<exists>r. create_or_get_idempotent (\<lambda>db. db) demo_spec 1 False 10 empty_jobs_db = Inr r"
proof -
  have "1 \<in> set (company_ids empty_jobs_db)" by (simp add: empty_jobs_db_def)
  moreover have "\<And>s. sp_candidate_session_id demo_spec = Some s \<Longrightarrow> s \<in> set (session_ids empty_jobs_db)"
    by (simp add: empty_jobs_db_def demo_spec_def)
  moreover have "py_strip (sp_job_type demo_spec) \<noteq> [] \<and> py_strip (sp_idempotency_key demo_spec) \<noteq> [] \<and>
    1 \<le> sp_max_attempts demo_spec \<and> encoded_bytes (JObj (sp_payload_json demo_spec)) \<le> 65536"
    by code_simp
  ultimately show ?thesis
    using create_or_get_returns_iff[OF jobs_wf_empty commits_id, of 1 demo_spec False 10] by blast
qed

lemma create_or_get_again:
  assumes wf: "jobs_wf db" and env: "commits env"
    and first: "create_or_get_idempotent env spec c commit clk db = Inr (job, db1)"
    and valid: "valid_spec spec'"
    and same: "py_strip (sp_job_type spec') = py_strip (sp_job_type spec)"
      "py_strip (sp_idempotency_key spec') = py_strip (sp_idempotency_key spec)"
  shows "\<exists>db2. create_or_get_idempotent (\<lambda>db. db) spec' c commit' clk' db1 = Inr (job, db2) \<and> jobs db2 = jobs db1"
proof -
  let ?t = "py_strip (sp_job_type spec)" and ?k = "py_strip (sp_idempotency_key spec)"
  from create_or_get_facts(3)[OF wf env first] have found: "load_idempotent_job c ?t ?k db1 = Some job" .
  obtain i d where d: "draw_uuid db1 = (i, d)" by fastforce
  then have jd: "jobs d = jobs db1" by (auto simp: draw_uuid_def)
  have fd: "load_idempotent_job c ?t ?k d = Some job" using found by (simp add: load_idempotent_job_def jd)
  then have key: "(c, ?t, ?k) \<in> set (map job_key (jobs d))"
    using load_idempotent_job_None_iff[of c ?t ?k d] by auto
  have nested: "insert_nested_or_get_existing c (stripped spec') clk' db1 = Inr (job, d)"
    using d fd key same by (simp add: insert_nested_or_get_existing_def insert_job_def violates_constraints_def)
  show ?thesis
    using found nested jd same valid
    by (auto simp: create_or_get_unfold insert_commit_or_get_existing_def)
qed

text \<open>
  Get-or-create is idempotent: a later call with the same company, type and
  key (up to surrounding white space), whatever its payload, returns the row the first
  call returned and leaves every job row as it is.
\<close>

theorem create_or_get_repeat:
  assumes wf: "jobs_wf db" and env: "commits env"
    and first: "create_or_get_idempotent env spec c commit clk db = Inr (job, db1)"
    and valid: "valid_spec spec'"
    and same: "py_strip (sp_job_type spec') = py_strip (sp_job_type spec)"
      "py_strip (sp_idempotency_key spec') = py_strip (sp_idempotency_key spec)"
  shows "\<exists>db2. create_or_get_idempotent (\<lambda>db. db) spec' c commit' clk' db1 = Inr (job, db2) \<and> jobs db2 = jobs db1"
  using assms by (rule create_or_get_again)

theorem create_or_get_repeat_witness:
  "\<exists>job db1 db2. create_or_get_idempotent (\<lambda>db. db) demo_spec 1 True 10 empty_jobs_db = Inr (job, db1) \<and>
     create_or_get_idempotent (\<lambda>db. db) (demo_spec\<lparr>sp_payload_json := []\<rparr>) 1 False 20 db1 = Inr (job, db2) \<and>
     jobs db2 = jobs db1"
proof -
  have "isl (create_or_get_idempotent (\<lambda>db. db) demo_spec 1 True 10 empty_jobs_db) = False"
    by code_simp
  then obtain job db1 where r: "create_or_get_idempotent (\<lambda>db. db) demo_spec 1 True 10 empty_jobs_db = Inr (job, db1)"
    by (metis isl_def sumE surj_pair)
  have "valid_spec (demo_spec\<lparr>sp_payload_json := []\<rparr>)" by code_simp
  from create_or_get_repeat[OF jobs_wf_empty commits_id r this, of False 20] r show ?thesis by auto
qed

text \<open>
  Get-or-update never touches a job a worker holds or has finished: every
  row that is not a queued, unlocked one is unchanged, and if it has the requested key it
  is what the call returns.
\<close>

theorem create_or_update_keeps_busy_jobs:
  assumes wf: "jobs_wf db"
    and res: "create_or_update_idempotent (\<lambda>db. db) spec c commit clk db = Inr (job, db')"
    and j: "j \<in> set (jobs db)" "\<not> is_mutable_idempotent_job j"
  shows "j \<in> set (jobs db') \<and>
    (job_key j = (c, py_strip (sp_job_type spec), py_strip (sp_idempotency_key spec)) \<longrightarrow> job = j \<and> db' = db)"
proof -
  let ?t = "py_strip (sp_job_type spec)" and ?k = "py_strip (sp_idempotency_key spec)"
  show ?thesis
  proof (cases "load_idempotent_job c ?t ?k db")
    case None
    with res obtain job1 db1 where cg: "create_or_get_idempotent (\<lambda>db. db) (stripped spec) c commit clk db = Inr (job1, db1)"
      and db': "db' = update_existing_if_mutable (stripped spec) clk job1 db1"
      by (auto simp: create_or_update_idempotent_def bind_result_Inr_iff normalize_inputs_eq Let_def stripped_def)
    note facts = create_or_get_facts[OF wf commits_id cg]
    have "j \<in> set (jobs db1)" using create_or_get_keeps[OF cg] j(1) by blast
    moreover have "job1 \<in> set (jobs db1)" using load_idempotent_job_SomeD[OF facts(3)] by simp
    ultimately have "j \<in> set (jobs db')" using update_existing_other[OF facts(1)] j(2) by (simp add: db')
    moreover have "job_key j \<noteq> (c, ?t, ?k)" using None j(1) load_idempotent_job_in[OF wf j(1)] by auto
    ultimately show ?thesis by simp
  next
    case (Some e)
    with res have db': "db' = update_existing_if_mutable (stripped spec) clk e db" and job: "job = reload e db'"
      by (auto simp: create_or_update_idempotent_def bind_result_Inr_iff normalize_inputs_eq Let_def stripped_def)
    have e: "e \<in> set (jobs db)" using load_idempotent_job_SomeD[OF Some] by simp
    have "j \<in> set (jobs db')" using update_existing_other[OF wf j e] by (simp add: db')
    moreover have "job = j \<and> db' = db" if "job_key j = (c, ?t, ?k)"
    proof -
      have "e = j" using load_idempotent_job_in[OF wf j(1) that] Some by simp
      with j db' have "db' = db" by (simp add: update_existing_if_mutable_def)
      with \<open>e = j\<close> job load_job_in[OF wf j(1)] show ?thesis by (simp add: reload_def)
    qed
    ultimately show ?thesis by blast
  qed
qed

definition busy_job :: job where
  "busy_job = (job_from_spec 1 10 ''b'' (stripped demo_spec))
     \<lparr>j_status := JOB_STATUS_RUNNING, j_attempt := 1, j_locked_at := Some 10, j_locked_by := Some ''w''\<rparr>"

definition busy_db :: jobs_db where
  "busy_db = empty_jobs_db\<lparr>jobs := [busy_job]\<rparr>"

lemma busy_db_wf: "jobs_wf busy_db"
  by (auto simp: jobs_wf_def busy_db_def busy_job_def empty_jobs_db_def used_ids_def inj_def
      job_from_spec_def replicate_eq_replicate Cons_replicate_eq)

theorem create_or_update_keeps_busy_jobs_witness:
  "create_or_update_idempotent (\<lambda>db. db) demo_spec 1 True 99 busy_db = Inr (busy_job, busy_db)"
proof -
  have "isl (create_or_update_idempotent (\<lambda>db. db) demo_spec 1 True 99 busy_db) = False"
    by code_simp
  then obtain job db' where r: "create_or_update_idempotent (\<lambda>db. db) demo_spec 1 True 99 busy_db = Inr (job, db')"
    by (metis isl_def sumE surj_pair)
  have "busy_job \<in> set (jobs busy_db)" by (simp add: busy_db_def)
  moreover have "\<not> is_mutable_idempotent_job busy_job" by code_simp
  moreover have "job_key busy_job = (1, py_strip (sp_job_type demo_spec), py_strip (sp_idempotency_key demo_spec))"
    by code_simp
  ultimately show ?thesis
    using create_or_update_keeps_busy_jobs[OF busy_db_wf r] r by auto
qed

text \<open>
  The bulk variant returns one job per spec, in the order of the specs, each
  with its spec's stripped key, whatever other sessions commit before the bulk insert and
  with duplicate keys among the specs, when a failed statement does not abort the
  transaction.
\<close>

theorem create_or_update_many_in_order:
  assumes wf: "jobs_wf db" and env: "commits env" and c: "c \<in> set (company_ids db)"
    and s: "\<And>sp x. sp \<in> set specs \<Longrightarrow> sp_candidate_session_id sp = Some x \<Longrightarrow> x \<in> set (session_ids db)"
    and valid: "\<forall>sp \<in> set specs. valid_spec sp"
  shows "\<exists>js db'. create_or_update_many_idempotent False env c specs clk db = Inr (js, db') \<and> jobs_wf db' \<and>
    map job_key js = map (\<lambda>sp. (c, py_strip (sp_job_type sp), py_strip (sp_idempotency_key sp))) specs"
proof (cases "specs = []")
  case True
  with wf show ?thesis by (simp add: create_or_update_many_idempotent_def normalize_many_specs_def)
next
  case False
  let ?norm = "map stripped specs"
  let ?m = "existing_map_of (load_idempotent_jobs_for_keys c (map spec_key ?norm) db)"
  obtain new db1 where au: "apply_updates_to_existing clk ?m ?norm db = (new, db1)" by fastforce
  from apply_updates_facts[OF au] have wf1: "jobs_wf db1" and ext1: "jobs_ext db db1"
    and new: "new = filter (\<lambda>sp. map_of ?m (spec_key sp) = None) ?norm" using wf by auto
  have ok1: "map_ok c ?m db1" using map_ok_ext[OF jobs_for_keys_ok[OF wf] ext1] .
  have "\<exists>m' db'. (if new = [] then Inr (?m, db1)
      else recover_bulk_insert_conflicts False c clk new ?m (env db1)) = Inr (m', db') \<and>
      jobs_wf db' \<and> map_ok c m' db' \<and> spec_key ` set ?norm \<subseteq> dom (map_of m')"
  proof (cases "new = []")
    case True
    then have "spec_key ` set ?norm \<subseteq> dom (map_of ?m)"
      using new by (auto simp: filter_empty_conv dom_def)
    with True wf1 ok1 show ?thesis by auto
  next
    case False
    have wf2: "jobs_wf (env db1)" and ext2: "jobs_ext db1 (env db1)" using commitsD[OF env wf1] .
    have ext: "jobs_ext db (env db1)" using jobs_ext_trans[OF ext1 ext2] .
    have "\<exists>m' db'. recover_bulk_insert_conflicts False c clk new ?m (env db1) = Inr (m', db')"
    proof (rule recover_bulk_total[OF wf2])
      show "c \<in> set (company_ids (env db1))" using c ext by (auto simp: jobs_ext_def)
      show "x \<in> set (session_ids (env db1))"
        if "sp \<in> set new" "sp_candidate_session_id sp = Some x" for sp x
        using that s ext by (auto simp: new jobs_ext_def)
    qed
    then obtain m' db' where r: "recover_bulk_insert_conflicts False c clk new ?m (env db1) = Inr (m', db')"
      by blast
    from recover_bulk_facts[OF wf2 map_ok_ext[OF ok1 ext2] r]
    have "jobs_wf db'" "map_ok c m' db'" "dom (map_of ?m) \<union> spec_key ` set new \<subseteq> dom (map_of m')" by auto
    moreover have "spec_key ` set ?norm \<subseteq> dom (map_of ?m) \<union> spec_key ` set new"
      by (auto simp: new dom_def)
    ultimately have "jobs_wf db' \<and> map_ok c m' db' \<and> spec_key ` set ?norm \<subseteq> dom (map_of m')"
      by blast
    with False r show ?thesis by (intro exI[of _ m'] exI[of _ db']) simp
  qed
  then obtain m' db' where r: "(if new = [] then Inr (?m, db1)
      else recover_bulk_insert_conflicts False c clk new ?m (env db1)) = Inr (m', db')"
    and wf': "jobs_wf db'" and ok': "map_ok c m' db'" and dom': "spec_key ` set ?norm \<subseteq> dom (map_of m')"
    by blast
  have "create_or_update_many_idempotent False env c specs clk db =
      Inr (resolve_jobs_in_order ?norm m' db', db')"
    using False valid au r
    by (cases "new = []") (auto simp: create_or_update_many_idempotent_def normalize_many_eq[THEN iffD2] Let_def)
  with wf' resolve_keys[OF ok' dom'] show ?thesis by (simp add: spec_key_def o_def)
qed

definition demo_specs :: "idempotent_job_spec list" where
  "demo_specs = [demo_spec, demo_spec\<lparr>sp_idempotency_key := ''k2''\<rparr>, demo_spec\<lparr>sp_payload_json := []\<rparr>]"

theorem create_or_update_many_in_order_witness:
  "\<exists>js db'. create_or_update_many_idempotent False (\<lambda>db. db) 1 demo_specs 10 empty_jobs_db = Inr (js, db') \<and>
     map job_key js = [(1, ''transcribe'', ''k1''), (1, ''transcribe'', ''k2''), (1, ''transcribe'', ''k1'')]"
proof -
  have valid: "\<forall>sp \<in> set demo_specs. valid_spec sp" by code_simp
  have sess: "x \<in> set (session_ids empty_jobs_db)"
    if "sp \<in> set demo_specs" "sp_candidate_session_id sp = Some x" for sp x
    using that by (auto simp: demo_specs_def demo_spec_def empty_jobs_db_def)
  have comp: "(1::int) \<in> set (company_ids empty_jobs_db)" by (simp add: empty_jobs_db_def)
  have keys: "map (\<lambda>sp. (1::int, py_strip (sp_job_type sp), py_strip (sp_idempotency_key sp))) demo_specs =
     [(1, ''transcribe'', ''k1''), (1, ''transcribe'', ''k2''), (1, ''transcribe'', ''k1'')]" by code_simp
  have "\<exists>js db'. create_or_update_many_idempotent False (\<lambda>db. db) 1 demo_specs 10 empty_jobs_db = Inr (js, db') \<and>
     jobs_wf db' \<and> map job_key js = map (\<lambda>sp. (1, py_strip (sp_job_type sp), py_strip (sp_idempotency_key sp))) demo_specs"
    by (rule create_or_update_many_in_order[OF jobs_wf_empty commits_id comp _ valid]) (rule sess)
  with keys show ?thesis by auto
qed

text \<open>
  Where a failed statement aborts the surrounding transaction, the recovery
  of the bulk insert never runs: two specs with the same new key make the whole call fail,
  although each of them alone succeeds.
\<close>

theorem create_or_update_many_aborts:
  assumes "jobs_wf db" and "\<forall>sp \<in> set specs. valid_spec sp"
    and dup: "\<not> distinct (map (\<lambda>sp. (py_strip (sp_job_type sp), py_strip (sp_idempotency_key sp))) specs)"
    and fresh: "\<And>sp. sp \<in> set specs \<Longrightarrow>
      load_idempotent_job c (py_strip (sp_job_type sp)) (py_strip (sp_idempotency_key sp)) db = None"
  shows "create_or_update_many_idempotent True (\<lambda>db. db) c specs clk db = Inl TransactionAborted"
proof -
  let ?norm = "map stripped specs"
  let ?m = "existing_map_of (load_idempotent_jobs_for_keys c (map spec_key ?norm) db)"
  have none: "map_of ?m (spec_key sp) = None" if "sp \<in> set ?norm" for sp
  proof (rule existing_map_None)
    from that obtain sp0 where "sp0 \<in> set specs" "sp = stripped sp0" by auto
    with fresh[of sp0] show "(c, spec_key sp) \<notin> set (map job_key (jobs db))"
      by (simp add: spec_key_def load_idempotent_job_None_iff del: set_map)
  qed
  obtain new db1 where au: "apply_updates_to_existing clk ?m ?norm db = (new, db1)" by fastforce
  from apply_updates_facts[OF au] none have new: "new = ?norm" by (auto simp: filter_id_conv)
  have "map spec_key ?norm = map (\<lambda>sp. (py_strip (sp_job_type sp), py_strip (sp_idempotency_key sp))) specs"
    by (simp add: spec_key_def)
  with dup have nd: "\<not> distinct (map spec_key new)" by (simp only: new) simp
  have "insert_rows c clk new db1 \<noteq> Inr d" for d using insert_rows_dup_key nd by blast
  then obtain e where "insert_rows c clk new db1 = Inl e" by (cases "insert_rows c clk new db1") auto
  moreover have "new \<noteq> []" using nd by auto
  moreover have "?norm \<noteq> []" using nd new by auto
  ultimately show ?thesis
    using assms(2) au by (simp add: create_or_update_many_idempotent_def normalize_many_eq[THEN iffD2]
        recover_bulk_insert_conflicts_def Let_def)
qed

theorem create_or_update_many_aborts_witness:
  "create_or_update_many_idempotent True (\<lambda>db. db) 1 [demo_spec, demo_spec] 10 empty_jobs_db = Inl TransactionAborted"
proof (rule create_or_update_many_aborts[OF jobs_wf_empty])
  show "\<forall>sp \<in> set [demo_spec, demo_spec]. valid_spec sp" by code_simp
qed (simp_all add: load_idempotent_job_def empty_jobs_db_def)

end
