(* ===== verification/JobLifecycle.thy ===== *)
theory JobLifecycle
  imports JobCreate "HOL-Library.Product_Lexorder"
begin

text \<open>
  The life of a job after its creation: claiming it under a lease, the three status
  writes of a worker, the immutable dead-letter copy, and the retry of a dead-lettered
  job as a new job. \<open>env n\<close> is what other sessions commit between the select and the
  compare-and-swap update of a claim attempt; rows that compare equal in an \<open>ORDER BY\<close>
  keep table order.
\<close>

section \<open>Claiming\<close>

definition runnable :: "datetime \<Rightarrow> datetime \<Rightarrow> job \<Rightarrow> bool" where
  "runnable now stale_before j \<longleftrightarrow>
     (j_status j = JOB_STATUS_QUEUED \<and>
        (case j_next_run_at j of None \<Rightarrow> True | Some t \<Rightarrow> t \<le> now)) \<or>
     (j_status j = JOB_STATUS_RUNNING \<and>
        (case j_locked_at j of None \<Rightarrow> True | Some t \<Rightarrow> t \<le> stale_before))"

definition claim_order :: "job \<Rightarrow> datetime \<times> datetime" where
  "claim_order j = ((case j_next_run_at j of None \<Rightarrow> j_created_at j | Some t \<Rightarrow> t), j_created_at j)"

definition select_candidate :: "datetime \<Rightarrow> datetime \<Rightarrow> jobs_db \<Rightarrow> (string \<times> int) option" where
  "select_candidate now stale_before db =
     map_option (\<lambda>j. (j_id j, j_attempt j))
       (first_min claim_order (filter (runnable now stale_before) (jobs db)))"

definition claim_row :: "int \<Rightarrow> string \<Rightarrow> datetime \<Rightarrow> job \<Rightarrow> job" where
  "claim_row current_attempt worker_id now j =
     j\<lparr>j_status := JOB_STATUS_RUNNING, j_attempt := current_attempt + 1,
       j_locked_at := Some now, j_locked_by := Some worker_id, j_updated_at := now\<rparr>"

definition claim_update ::
    "string \<Rightarrow> int \<Rightarrow> string \<Rightarrow> datetime \<Rightarrow> datetime \<Rightarrow> jobs_db \<Rightarrow> nat \<times> jobs_db" where
  "claim_update i current_attempt worker_id now stale_before db =
     (let hit = (\<lambda>j. j_id j = i \<and> j_attempt j = current_attempt \<and> runnable now stale_before j)
      in (count_rows hit (jobs db),
          db\<lparr>jobs := update_rows hit (claim_row current_attempt worker_id now) (jobs db)\<rparr>))"

definition started_event :: "string \<Rightarrow> datetime \<Rightarrow> job \<Rightarrow> jobs_db \<Rightarrow> jobs_db" where
  "started_event worker_id now j db = record_job_event j JOB_EVENT_STARTED JOB_STATUS_RUNNING
     [(''attempt'', JInt (j_attempt j)), (''workerId'', JStr worker_id)] now db"

fun claim_loop ::
    "nat \<Rightarrow> (nat \<Rightarrow> jobs_db \<Rightarrow> jobs_db) \<Rightarrow> string \<Rightarrow> datetime \<Rightarrow> datetime \<Rightarrow> jobs_db \<Rightarrow> job option \<times> jobs_db" where
  "claim_loop 0 env worker_id now stale_before db = (None, db)"
| "claim_loop (Suc n) env worker_id now stale_before db =
     (case select_candidate now stale_before db of
        None \<Rightarrow> (None, db)
      | Some (i, current_attempt) \<Rightarrow>
          (case claim_update i current_attempt worker_id now stale_before (env n db) of
             (rowcount, db') \<Rightarrow>
               if rowcount = 1
               then (case load_job i db' of
                       None \<Rightarrow> (None, db')
                     | Some j \<Rightarrow> (Some j, started_event worker_id now j db'))
               else claim_loop n env worker_id now stale_before (env n db)))"

definition claim_next_runnable ::
    "(nat \<Rightarrow> jobs_db \<Rightarrow> jobs_db) \<Rightarrow> string \<Rightarrow> datetime \<Rightarrow> int \<Rightarrow> jobs_db \<Rightarrow> job option \<times> jobs_db" where
  "claim_next_runnable env worker_id now lease_seconds db =
     claim_loop 8 env worker_id now (now - seconds lease_seconds) db"

section \<open>Dead-letter copies\<close>

definition get_failed_job_by_original_job_id :: "string \<Rightarrow> jobs_db \<Rightarrow> failed_job option" where
  "get_failed_job_by_original_job_id i db = find_row (\<lambda>f. fj_original_job_id f = i) (failed_jobs db)"

definition get_failed_job_by_retry_job_id :: "string \<Rightarrow> jobs_db \<Rightarrow> failed_job option res" where
  "get_failed_job_by_retry_job_id i db =
     scalar_one_or_none (filter (\<lambda>f. fj_retry_job_id f = Some i) (failed_jobs db))"

definition list_failed_job_history :: "string \<Rightarrow> jobs_db \<Rightarrow> failed_job list res" where
  "list_failed_job_history i db =
     bind_result (get_failed_job_by_retry_job_id i db) (\<lambda>retry_source.
       let direct = get_failed_job_by_original_job_id i db;
           ids = map fj_id (case direct of None \<Rightarrow> [] | Some f \<Rightarrow> [f]) @
                 map fj_id (case retry_source of None \<Rightarrow> [] | Some f \<Rightarrow> [f])
       in if ids = [] then Inr []
          else Inr (sort_key fj_failed_at
            (filter (\<lambda>f. fj_id f \<in> set ids \<or>
               (case fj_retried_from_failed_job_id f of None \<Rightarrow> False | Some g \<Rightarrow> g \<in> set ids))
             (failed_jobs db))))"

definition retried_from_failed_job_id :: "obj \<Rightarrow> string option" where
  "retried_from_failed_job_id payload =
     (case dict_get ''retriedFromFailedJobId'' payload of
        JStr s \<Rightarrow> (if py_strip s \<noteq> [] then Some (py_strip s) else None)
      | _ \<Rightarrow> None)"

definition insert_failed_job :: "failed_job \<Rightarrow> jobs_db \<Rightarrow> jobs_db res" where
  "insert_failed_job f db =
     (if fj_id f \<in> set (map fj_id (failed_jobs db)) \<or>
         fj_original_job_id f \<in> set (map fj_original_job_id (failed_jobs db)) \<or>
         fj_original_job_id f \<notin> set (map j_id (jobs db)) \<or>
         (case fj_retried_from_failed_job_id f of None \<Rightarrow> False
          | Some g \<Rightarrow> g \<notin> set (map fj_id (failed_jobs db)))
      then Inl IntegrityError
      else Inr (db\<lparr>failed_jobs := failed_jobs db @ [f]\<rparr>))"

definition failed_job_of :: "string \<Rightarrow> job \<Rightarrow> string \<Rightarrow> datetime \<Rightarrow> failed_job" where
  "failed_job_of new_id j error_str failed_at =
     \<lparr>fj_id = new_id, fj_original_job_id = j_id j, fj_retry_job_id = None,
      fj_retried_from_failed_job_id = retried_from_failed_job_id (j_payload_json j),
      fj_job_type = j_job_type j, fj_payload_json = j_payload_json j,
      fj_idempotency_key = j_idempotency_key j, fj_correlation_id = j_correlation_id j,
      fj_company_id = j_company_id j, fj_candidate_session_id = j_candidate_session_id j,
      fj_error_message = sanitize_error error_str, fj_error_traceback = error_str,
      fj_attempt_count = j_attempt j, fj_originated_at = j_created_at j,
      fj_last_attempted_at = (case j_locked_at j of None \<Rightarrow> failed_at | Some t \<Rightarrow> t),
      fj_failed_at = failed_at\<rparr>"

definition copy_job_to_failed_jobs ::
    "job \<Rightarrow> string \<Rightarrow> datetime \<Rightarrow> jobs_db \<Rightarrow> (failed_job \<times> jobs_db) res" where
  "copy_job_to_failed_jobs j error_str failed_at db0 =
     (case get_failed_job_by_original_job_id (j_id j) db0 of
        Some existing \<Rightarrow> Inr (existing, db0)
      | None \<Rightarrow>
          (case draw_uuid db0 of (new_id, db) \<Rightarrow>
             let f = failed_job_of new_id j error_str failed_at
             in bind_result (insert_failed_job f db) (\<lambda>db'. Inr (f, db'))))"

definition count_failed_jobs :: "jobs_db \<Rightarrow> int" where
  "count_failed_jobs db = py_len (failed_jobs db)"

section \<open>Status writes\<close>

definition succeed_row :: "obj option \<Rightarrow> datetime \<Rightarrow> job \<Rightarrow> job" where
  "succeed_row result now j =
     j\<lparr>j_status := JOB_STATUS_SUCCEEDED, j_result_json := result, j_last_error := None,
       j_next_run_at := None, j_locked_at := None, j_locked_by := None, j_updated_at := now\<rparr>"

definition is_idempotent_skip_result :: "obj option \<Rightarrow> bool" where
  "is_idempotent_skip_result result =
     (case result of None \<Rightarrow> False
      | Some d \<Rightarrow> dict_get ''skipped'' d = JBool True \<or> dict_get ''status'' d = JStr ''skipped_idempotent'')"

definition result_metadata :: "obj option \<Rightarrow> obj" where
  "result_metadata result = [(''result'', JObj (case result of None \<Rightarrow> [] | Some d \<Rightarrow> d))]"

definition mark_succeeded :: "string \<Rightarrow> obj option \<Rightarrow> datetime \<Rightarrow> jobs_db \<Rightarrow> jobs_db" where
  "mark_succeeded i result now db =
     (case load_job i db of
        None \<Rightarrow> db
      | Some j0 \<Rightarrow>
          (let db1 = update_job i (succeed_row result now) db;
               j = succeed_row result now j0;
               db2 = record_job_event j JOB_EVENT_COMPLETED JOB_STATUS_SUCCEEDED (result_metadata result) now db1
           in if is_idempotent_skip_result result
              then record_job_event j JOB_EVENT_SKIPPED_IDEMPOTENT JOB_STATUS_SUCCEEDED
                     (result_metadata result) now db2
              else db2))"

definition reschedule_row :: "string \<Rightarrow> datetime option \<Rightarrow> datetime \<Rightarrow> job \<Rightarrow> job" where
  "reschedule_row error_str next_run_at now j =
     j\<lparr>j_status := JOB_STATUS_QUEUED, j_last_error := Some (sanitize_error error_str),
       j_next_run_at := next_run_at, j_locked_at := None, j_locked_by := None, j_updated_at := now\<rparr>"

definition opt_str :: "string option \<Rightarrow> json" where
  "opt_str s = (case s of None \<Rightarrow> JNull | Some t \<Rightarrow> JStr t)"

definition mark_failed_and_reschedule ::
    "string \<Rightarrow> string \<Rightarrow> datetime option \<Rightarrow> datetime \<Rightarrow> jobs_db \<Rightarrow> jobs_db" where
  "mark_failed_and_reschedule i error_str next_run_at now db =
     (case load_job i db of
        None \<Rightarrow> db
      | Some j0 \<Rightarrow>
          (let db1 = update_job i (reschedule_row error_str next_run_at now) db;
               j = reschedule_row error_str next_run_at now j0;
               meta = [(''attempt'', JInt (j_attempt j)), (''maxAttempts'', JInt (j_max_attempts j)),
                       (''nextRunAt'', opt_str (map_option isoformat next_run_at)),
                       (''error'', opt_str (j_last_error j))]
           in record_job_event j JOB_EVENT_RETRIED JOB_STATUS_QUEUED meta now
                (record_job_event j JOB_EVENT_FAILED JOB_STATUS_QUEUED meta now db1)))"

definition dead_letter_row :: "string \<Rightarrow> datetime \<Rightarrow> job \<Rightarrow> job" where
  "dead_letter_row error_str now j =
     j\<lparr>j_status := JOB_STATUS_DEAD_LETTER, j_last_error := Some (sanitize_error error_str),
       j_next_run_at := None, j_locked_at := None, j_locked_by := None, j_updated_at := now\<rparr>"

definition mark_dead_letter :: "string \<Rightarrow> string \<Rightarrow> datetime \<Rightarrow> jobs_db \<Rightarrow> jobs_db res" where
  "mark_dead_letter i error_str now db =
     (case load_job i db of
        None \<Rightarrow> Inr db
      | Some j0 \<Rightarrow>
          (let db1 = update_job i (dead_letter_row error_str now) db;
               j = dead_letter_row error_str now j0
           in bind_result (copy_job_to_failed_jobs j error_str now db1) (\<lambda>(failed_job, db2).
             let meta = [(''attempt'', JInt (j_attempt j)), (''maxAttempts'', JInt (j_max_attempts j)),
                         (''failedJobId'', JStr (fj_id failed_job)), (''error'', opt_str (j_last_error j))]
             in Inr (record_job_event j JOB_EVENT_DEAD_LETTERED JOB_STATUS_DEAD_LETTER meta now
                  (record_job_event j JOB_EVENT_FAILED JOB_STATUS_DEAD_LETTER meta now db2)))))"

section \<open>Retrying a dead-lettered job\<close>

definition retry_idempotency_key :: "string \<Rightarrow> string \<Rightarrow> string" where
  "retry_idempotency_key original_key failed_job_id =
     (let suffix = '':retry:'' @ failed_job_id;
          max_prefix = max 1 (255 - py_len suffix)
      in take (nat max_prefix) original_key @ suffix)"

definition set_retry_job_id :: "string \<Rightarrow> string \<Rightarrow> jobs_db \<Rightarrow> jobs_db" where
  "set_retry_job_id fid rid db =
     db\<lparr>failed_jobs := update_rows (\<lambda>f. fj_id f = fid) (\<lambda>f. f\<lparr>fj_retry_job_id := Some rid\<rparr>) (failed_jobs db)\<rparr>"

definition retry_payload :: "job \<Rightarrow> string \<Rightarrow> datetime \<Rightarrow> obj" where
  "retry_payload j failed_job_id now = dict_update (j_payload_json j)
     [(''originalJobId'', JStr (j_id j)), (''originalIdempotencyKey'', JStr (j_idempotency_key j)),
      (''retriedFromFailedJobId'', JStr failed_job_id), (''retriedAt'', JStr (isoformat_z now))]"

definition retry_job_of :: "string \<Rightarrow> job \<Rightarrow> string \<Rightarrow> datetime \<Rightarrow> job" where
  "retry_job_of new_id j failed_job_id now =
     \<lparr>j_id = new_id, j_job_type = j_job_type j, j_status = JOB_STATUS_QUEUED, j_attempt = 0,
      j_max_attempts = j_max_attempts j,
      j_idempotency_key = retry_idempotency_key (j_idempotency_key j) failed_job_id,
      j_payload_json = retry_payload j failed_job_id now, j_result_json = None, j_last_error = None,
      j_created_at = now, j_updated_at = now, j_next_run_at = Some now, j_locked_at = None,
      j_locked_by = None, j_correlation_id = j_correlation_id j, j_company_id = j_company_id j,
      j_candidate_session_id = j_candidate_session_id j\<rparr>"

definition create_retry_job_from_failed_job ::
    "job \<Rightarrow> datetime \<Rightarrow> jobs_db \<Rightarrow> (job option \<times> jobs_db) res" where
  "create_retry_job_from_failed_job j now db =
     (if j_status j \<noteq> JOB_STATUS_DEAD_LETTER then Inr (None, db)
      else bind_result (copy_job_to_failed_jobs j
             (case j_last_error j of None \<Rightarrow> ''job_dead_lettered''
              | Some e \<Rightarrow> if e = [] then ''job_dead_lettered'' else e)
             (j_updated_at j) db) (\<lambda>(failed_job, db1).
        let existing_retry = (case fj_retry_job_id failed_job of None \<Rightarrow> None
              | Some rid \<Rightarrow> if rid = [] then None else load_job rid db1)
        in case existing_retry of
             Some existing \<Rightarrow> Inr (Some existing, db1)
           | None \<Rightarrow>
               (case draw_uuid db1 of (new_id, db2) \<Rightarrow>
                  let retry_job = retry_job_of new_id j (fj_id failed_job) now
                  in bind_result (insert_job retry_job db2) (\<lambda>db3.
                    let db4 = set_retry_job_id (fj_id failed_job) new_id db3;
                        db5 = enqueued_event retry_job now db4;
                        db6 = record_job_event j JOB_EVENT_RETRIED (j_status j)
                                [(''retryJobId'', JStr new_id), (''failedJobId'', JStr (fj_id failed_job))] now db5;
                        db7 = record_job_event retry_job JOB_EVENT_RETRIED (j_status retry_job)
                                [(''originalJobId'', JStr (j_id j)), (''failedJobId'', JStr (fj_id failed_job))] now db6
                    in Inr (Some retry_job, db7)))))"

definition requeue_dead_letter_job :: "string \<Rightarrow> datetime \<Rightarrow> jobs_db \<Rightarrow> (job option \<times> jobs_db) res" where
  "requeue_dead_letter_job job_id now db =
     (let normalized_id = py_strip job_id
      in if normalized_id = [] then Inr (None, db)
         else case find_row (\<lambda>j. j_id j = normalized_id \<and> j_status j = JOB_STATUS_DEAD_LETTER) (jobs db) of
                None \<Rightarrow> Inr (None, db)
              | Some j \<Rightarrow> create_retry_job_from_failed_job j now db)"

fun requeue_each :: "job list \<Rightarrow> datetime \<Rightarrow> int \<Rightarrow> jobs_db \<Rightarrow> (int \<times> jobs_db) res" where
  "requeue_each [] now created db = Inr (created, db)"
| "requeue_each (j # js) now created db =
     bind_result (create_retry_job_from_failed_job j now db) (\<lambda>(retry_job, db').
       requeue_each js now (if retry_job = None then created else created + 1) db')"

definition requeue_dead_letter_jobs ::
    "string list option \<Rightarrow> datetime \<Rightarrow> jobs_db \<Rightarrow> (int \<times> jobs_db) res" where
  "requeue_dead_letter_jobs job_ids now db =
     (let wanted = (case job_ids of None \<Rightarrow> None | Some ids \<Rightarrow>
            if ids = [] then None else Some (filter (\<lambda>i. i \<noteq> []) (map py_strip ids)))
      in case wanted of
           Some [] \<Rightarrow> Inr (0, db)
         | _ \<Rightarrow> requeue_each
             (sort_key j_created_at (filter (\<lambda>j. j_status j = JOB_STATUS_DEAD_LETTER \<and>
                (case wanted of None \<Rightarrow> True | Some ids \<Rightarrow> j_id j \<in> set ids)) (jobs db)))
             now 0 db)"

definition retry_dead_letter_jobs ::
    "string list option \<Rightarrow> datetime option \<Rightarrow> datetime \<Rightarrow> jobs_db \<Rightarrow> (int \<times> jobs_db) res" where
  "retry_dead_letter_jobs job_ids now clk db =
     requeue_dead_letter_jobs job_ids (case now of None \<Rightarrow> clk | Some t \<Rightarrow> t) db"

definition retry_dead_letter_job ::
    "string \<Rightarrow> datetime option \<Rightarrow> datetime \<Rightarrow> jobs_db \<Rightarrow> (job option \<times> jobs_db) res" where
  "retry_dead_letter_job job_id now clk db =
     requeue_dead_letter_job job_id (case now of None \<Rightarrow> clk | Some t \<Rightarrow> t) db"

section \<open>Row operations keep the keys\<close>

interpretation claim_upd: job_update "claim_row a w now" for a w now
  by unfold_locales (simp_all add: claim_row_def job_key_def)

interpretation succeed_upd: job_update "succeed_row result now" for result now
  by unfold_locales (simp_all add: succeed_row_def job_key_def)

interpretation reschedule_upd: job_update "reschedule_row e n now" for e n now
  by unfold_locales (simp_all add: reschedule_row_def job_key_def)

interpretation dead_letter_upd: job_update "dead_letter_row e now" for e now
  by unfold_locales (simp_all add: dead_letter_row_def job_key_def)

lemma started_event_simps [simp]:
  "jobs (started_event w now j db) = jobs db"
  "load_job i (started_event w now j db) = load_job i db"
  "jobs_wf (started_event w now j db) \<longleftrightarrow> jobs_wf db"
  by (simp_all add: started_event_def)

section \<open>Claims\<close>

lemma select_candidate_SomeD:
  assumes "select_candidate now stale db = Some (i, a)"
  shows "\<exists>j \<in> set (jobs db). j_id j = i \<and> j_attempt j = a \<and> runnable now stale j \<and>
    (\<forall>j' \<in> set (jobs db). runnable now stale j' \<longrightarrow> claim_order j \<le> claim_order j')"
  using assms by (fastforce simp: select_candidate_def dest: first_min_SomeD)

lemma select_candidate_None_iff:
  "select_candidate now stale db = None \<longleftrightarrow> (\<forall>j \<in> set (jobs db). \<not> runnable now stale j)"
  by (auto simp: select_candidate_def filter_empty_conv)

text \<open>
  On well-formed tables the compare-and-swap update touches at most the row it names, and
  its row count says whether that row still had the expected attempt and was runnable.
\<close>

definition swappable :: "string \<Rightarrow> int \<Rightarrow> datetime \<Rightarrow> datetime \<Rightarrow> jobs_db \<Rightarrow> bool" where
  "swappable i a now stale db \<longleftrightarrow>
     (\<exists>j. load_job i db = Some j \<and> j_attempt j = a \<and> runnable now stale j)"

lemma update_rows_cong:
  "(\<And>r. r \<in> set rs \<Longrightarrow> P r \<longleftrightarrow> Q r) \<Longrightarrow> update_rows P f rs = update_rows Q f rs"
  by (auto simp: update_rows_def)

lemma claim_update_eq:
  assumes wf: "jobs_wf db"
  shows "claim_update i a w now stale db =
    (if swappable i a now stale db then (1, update_job i (claim_row a w now) db) else (0, db))"
proof -
  let ?hit = "\<lambda>j. j_id j = i \<and> j_attempt j = a \<and> runnable now stale j"
  show ?thesis
  proof (cases "swappable i a now stale db")
    case True
    then obtain j where j: "load_job i db = Some j" "j_attempt j = a" "runnable now stale j"
      by (auto simp: swappable_def)
    then have mem: "j \<in> set (jobs db)" "j_id j = i" by (auto dest: load_job_SomeD)
    have only: "?hit r \<longleftrightarrow> j_id r = i" if "r \<in> set (jobs db)" for r
      using job_eqI[OF wf that mem(1)] mem(2) j by auto
    then have "filter ?hit (jobs db) = filter (\<lambda>r. j_id r = i) (jobs db)"
      by (auto intro: filter_cong)
    then have "count_rows ?hit (jobs db) = 1"
      using filter_distinct_key[OF jobs_wfD(1)[OF wf], of i] j(1)
      by (simp add: count_rows_def load_job_def)
    moreover have "update_rows ?hit (claim_row a w now) (jobs db) =
        update_rows (\<lambda>r. j_id r = i) (claim_row a w now) (jobs db)"
      using only by (rule update_rows_cong)
    ultimately show ?thesis using True by (simp add: claim_update_def update_job_def Let_def)
  next
    case False
    then have none: "\<forall>r \<in> set (jobs db). \<not> ?hit r"
      using load_job_in[OF wf] by (fastforce simp: swappable_def)
    then have "count_rows ?hit (jobs db) = 0" by (simp add: count_rows_def filter_empty_conv)
    moreover have "update_rows ?hit (claim_row a w now) (jobs db) = jobs db"
      using none by (rule update_rows_none)
    ultimately show ?thesis using False by (simp add: claim_update_def Let_def)
  qed
qed

text \<open>A claim that succeeds has swapped the row of some state other sessions led to.\<close>

lemma claim_loop_SomeD:
  assumes "jobs_wf db" "\<And>n. commits (env n)"
    and "claim_loop n env w now stale db = (Some j, db')"
  shows "\<exists>db1 j0. jobs_wf db1 \<and> jobs_ext db db1 \<and> load_job (j_id j0) db1 = Some j0 \<and> runnable now stale j0 \<and>
     j = claim_row (j_attempt j0) w now j0 \<and>
     db' = started_event w now j (update_job (j_id j0) (claim_row (j_attempt j0) w now) db1)"
  using assms
proof (induction n arbitrary: db)
  case (Suc n)
  from Suc.prems(3) obtain i a where sel: "select_candidate now stale db = Some (i, a)"
    by (auto split: option.splits)
  note wf1 = commitsD(1)[OF Suc.prems(2) Suc.prems(1)] and ext1 = commitsD(2)[OF Suc.prems(2) Suc.prems(1)]
  show ?case
  proof (cases "swappable i a now stale (env n db)")
    case True
    then obtain j0 where j0: "load_job i (env n db) = Some j0" "j_attempt j0 = a" "runnable now stale j0"
      by (auto simp: swappable_def)
    then have "j_id j0 = i" by (auto dest: load_job_SomeD)
    with True sel j0 Suc.prems(3) have "j = claim_row a w now j0"
      "db' = started_event w now j (update_job i (claim_row a w now) (env n db))"
      by (auto simp: claim_update_eq[OF wf1] claim_upd.load_update_same)
    with j0 \<open>j_id j0 = i\<close> wf1 ext1 show ?thesis by blast
  next
    case False
    with sel Suc.prems(3) have "claim_loop n env w now stale (env n db) = (Some j, db')"
      by (simp add: claim_update_eq[OF wf1])
    from Suc.IH[OF wf1 Suc.prems(2) this] show ?thesis using jobs_ext_trans[OF ext1] by blast
  qed
qed simp

lemma jobs_ext_started [simp]: "jobs_ext db (started_event w now j db)"
  by (simp add: jobs_ext_def started_event_def)

lemma claim_loop_wf:
  assumes "jobs_wf db" "\<And>n. commits (env n)" "claim_loop n env w now stale db = (r, db')"
  shows "jobs_wf db' \<and> jobs_ext db db'"
proof (cases r)
  case (Some j)
  with claim_loop_SomeD[of db env n w now stale j db', OF assms(1,2)] assms(3) obtain db1 i a where "jobs_wf db1" "jobs_ext db db1"
    "db' = started_event w now j (update_job i (claim_row a w now) db1)"
    by blast
  then show ?thesis
    using jobs_ext_trans[OF _ jobs_ext_trans[OF claim_upd.ext_update jobs_ext_started]]
    by (simp add: claim_upd.jobs_wf_update)
next
  case None
  with assms show ?thesis
  proof (induction n arbitrary: db)
    case (Suc n)
    note wf1 = commitsD(1)[OF Suc.prems(2) Suc.prems(1)] and ext1 = commitsD(2)[OF Suc.prems(2) Suc.prems(1)]
    show ?case
    proof (cases "select_candidate now stale db")
      case (Some c)
      obtain i a where c: "c = (i, a)" by (cases c)
      show ?thesis
      proof (cases "swappable i a now stale (env n db)")
        case True
        then obtain j0 where "load_job i (env n db) = Some j0" by (auto simp: swappable_def)
        with True c Some Suc.prems(3,4) show ?thesis
          by (simp add: claim_update_eq[OF wf1] claim_upd.load_update_same)
      next
        case False
        with c Some Suc.prems have "claim_loop n env w now stale (env n db) = (r, db')"
          by (simp add: claim_update_eq[OF wf1])
        from Suc.IH[OF wf1 Suc.prems(2) this Suc.prems(4)] show ?thesis
          using jobs_ext_trans[OF ext1] by blast
      qed
    qed (use Suc.prems in simp)
  qed simp
qed

section \<open>Dead-letter copies\<close>

definition origin_known :: "job \<Rightarrow> jobs_db \<Rightarrow> bool" where
  "origin_known j db \<longleftrightarrow> (case retried_from_failed_job_id (j_payload_json j) of None \<Rightarrow> True
     | Some g \<Rightarrow> g \<in> set (map fj_id (failed_jobs db)))"

lemma insert_failed_job_wf:
  assumes wf: "jobs_wf db" and ins: "insert_failed_job f db = Inr db'"
    and fresh: "fj_id f \<notin> used_ids db" and future: "\<And>n. n \<ge> uuid_next db \<Longrightarrow> uuid4 db n \<noteq> fj_id f"
  shows "jobs_wf db'"
proof -
  from ins have db': "db' = db\<lparr>failed_jobs := failed_jobs db @ [f]\<rparr>"
    and new: "fj_original_job_id f \<notin> set (map fj_original_job_id (failed_jobs db))"
    by (auto simp: insert_failed_job_def split: if_splits)
  have "used_ids db' = insert (fj_id f) (used_ids db)" by (auto simp: db' used_ids_def)
  with wf new fresh future show ?thesis
    by (auto simp: db' jobs_wf_def) (auto simp: used_ids_def)
qed

lemma failed_job_of_sel [simp]:
  "fj_id (failed_job_of i j e t) = i"
  "fj_original_job_id (failed_job_of i j e t) = j_id j"
  "fj_retry_job_id (failed_job_of i j e t) = None"
  "fj_payload_json (failed_job_of i j e t) = j_payload_json j"
  "fj_attempt_count (failed_job_of i j e t) = j_attempt j"
  "fj_error_traceback (failed_job_of i j e t) = e"
  by (simp_all add: failed_job_of_def)

lemma get_failed_SomeD:
  "get_failed_job_by_original_job_id i db = Some f \<Longrightarrow> f \<in> set (failed_jobs db) \<and> fj_original_job_id f = i"
  by (auto simp: get_failed_job_by_original_job_id_def dest: find_row_SomeD)

lemma copy_facts:
  assumes wf: "jobs_wf db0" and res: "copy_job_to_failed_jobs j e t db0 = Inr (f, db')"
  shows "jobs_wf db'" "jobs db' = jobs db0" "job_events db' = job_events db0"
    "company_ids db' = company_ids db0" "session_ids db' = session_ids db0"
    "get_failed_job_by_original_job_id (j_id j) db' = Some f"
    "\<exists>new. failed_jobs db' = failed_jobs db0 @ new"
    "get_failed_job_by_original_job_id (j_id j) db0 = None \<Longrightarrow>
       fj_payload_json f = j_payload_json j \<and> fj_attempt_count f = j_attempt j \<and>
       fj_error_traceback f = e \<and> fj_retry_job_id f = None"
proof -
  obtain i db where d: "draw_uuid db0 = (i, db)" by fastforce
  let ?f = "failed_job_of i j e t"
  have alls: "jobs_wf db' \<and> jobs db' = jobs db0 \<and> job_events db' = job_events db0 \<and>
    company_ids db' = company_ids db0 \<and> session_ids db' = session_ids db0 \<and>
    get_failed_job_by_original_job_id (j_id j) db' = Some f \<and>
    (\<exists>new. failed_jobs db' = failed_jobs db0 @ new) \<and>
    (get_failed_job_by_original_job_id (j_id j) db0 = None \<longrightarrow> f = ?f)"
  proof (cases "get_failed_job_by_original_job_id (j_id j) db0")
    case (Some g)
    with res wf show ?thesis by (auto simp: copy_job_to_failed_jobs_def)
  next
    case None
    with res d have f: "f = ?f" and ins: "insert_failed_job ?f db = Inr db'"
      by (auto simp: copy_job_to_failed_jobs_def bind_result_Inr_iff Let_def)
    from ins have db': "db' = db\<lparr>failed_jobs := failed_jobs db @ [?f]\<rparr>"
      by (auto simp: insert_failed_job_def split: if_splits)
    have "jobs_wf db'"
      using insert_failed_job_wf[OF draw_uuid_wf(1)[OF wf d] ins] draw_uuid_wf[OF wf d] by simp
    with d f db' None show ?thesis
      by (auto simp: draw_uuid_def get_failed_job_by_original_job_id_def find_row_append find_row_Cons)
  qed
  then show "jobs_wf db'" "jobs db' = jobs db0" "job_events db' = job_events db0"
    "company_ids db' = company_ids db0" "session_ids db' = session_ids db0"
    "get_failed_job_by_original_job_id (j_id j) db' = Some f"
    "\<exists>new. failed_jobs db' = failed_jobs db0 @ new"
    "get_failed_job_by_original_job_id (j_id j) db0 = None \<Longrightarrow>
       fj_payload_json f = j_payload_json j \<and> fj_attempt_count f = j_attempt j \<and>
       fj_error_traceback f = e \<and> fj_retry_job_id f = None"
    by auto
qed

lemma copy_total:
  assumes wf: "jobs_wf db" and "j_id j \<in> set (map j_id (jobs db))" and "origin_known j db"
  shows "\<exists>f db'. copy_job_to_failed_jobs j e t db = Inr (f, db')"
proof -
  obtain i d where d: "draw_uuid db = (i, d)" by fastforce
  have d': "i \<notin> set (map fj_id (failed_jobs d))" "jobs d = jobs db" "failed_jobs d = failed_jobs db"
    using draw_uuid_wf[OF wf d] by (auto simp: used_ids_def)
  show ?thesis
  proof (cases "get_failed_job_by_original_job_id (j_id j) db")
    case None
    then have "j_id j \<notin> set (map fj_original_job_id (failed_jobs db))"
      by (auto simp: get_failed_job_by_original_job_id_def find_row_None_iff)
    moreover have "fj_retried_from_failed_job_id (failed_job_of i j e t) = retried_from_failed_job_id (j_payload_json j)"
      by (simp add: failed_job_of_def)
    ultimately have "\<exists>db'. insert_failed_job (failed_job_of i j e t) d = Inr db'"
      using d' assms(2,3) by (simp add: insert_failed_job_def origin_known_def split: option.splits)
    with None d show ?thesis by (auto simp: copy_job_to_failed_jobs_def Let_def)
  qed (simp add: copy_job_to_failed_jobs_def)
qed

lemma origin_known_update [simp]: "origin_known j (update_job i f db) = origin_known j db"
  by (simp add: origin_known_def split: option.splits)

lemma mark_dead_letter_unfold:
  assumes "load_job i db = Some j0"
  shows "mark_dead_letter i e now db = Inr db' \<longleftrightarrow>
    (\<exists>f db2 meta. copy_job_to_failed_jobs (dead_letter_row e now j0) e now (update_job i (dead_letter_row e now) db) = Inr (f, db2) \<and>
      meta = [(''attempt'', JInt (j_attempt j0)), (''maxAttempts'', JInt (j_max_attempts j0)),
              (''failedJobId'', JStr (fj_id f)), (''error'', JStr (sanitize_error e))] \<and>
      db' = record_job_event (dead_letter_row e now j0) JOB_EVENT_DEAD_LETTERED JOB_STATUS_DEAD_LETTER meta now
              (record_job_event (dead_letter_row e now j0) JOB_EVENT_FAILED JOB_STATUS_DEAD_LETTER meta now db2))"
  using assms
  by (auto simp: mark_dead_letter_def bind_result_Inr_iff Let_def dead_letter_row_def opt_str_def)

lemma mark_dead_letter_facts:
  assumes wf: "jobs_wf db" and j0: "load_job i db = Some j0" and res: "mark_dead_letter i e now db = Inr db'"
  shows "jobs_wf db'" "jobs db' = jobs (update_job i (dead_letter_row e now) db)"
    "load_job i' db' = (if i' = i then Some (dead_letter_row e now j0) else load_job i' db)"
    "\<exists>f. get_failed_job_by_original_job_id i db' = Some f"
    "\<exists>new. failed_jobs db' = failed_jobs db @ new"
proof -
  let ?db1 = "update_job i (dead_letter_row e now) db"
  have wf1: "jobs_wf ?db1" using wf by (simp add: dead_letter_upd.jobs_wf_update)
  from res obtain f db2 meta where c: "copy_job_to_failed_jobs (dead_letter_row e now j0) e now ?db1 = Inr (f, db2)"
    and db': "db' = record_job_event (dead_letter_row e now j0) JOB_EVENT_DEAD_LETTERED JOB_STATUS_DEAD_LETTER meta now
              (record_job_event (dead_letter_row e now j0) JOB_EVENT_FAILED JOB_STATUS_DEAD_LETTER meta now db2)"
    using mark_dead_letter_unfold[OF j0] by blast
  note facts = copy_facts[OF wf1 c]
  have "j_id j0 = i" using j0 by (auto dest: load_job_SomeD)
  then have id: "j_id (dead_letter_row e now j0) = i" by (simp add: dead_letter_row_def)
  show "jobs_wf db'" using facts(1) by (simp add: db')
  show jobs': "jobs db' = jobs ?db1" using facts(2) by (simp add: db')
  have "load_job i' db' = load_job i' ?db1" for i' using jobs' by (simp add: load_job_def)
  then show "load_job i' db' = (if i' = i then Some (dead_letter_row e now j0) else load_job i' db)"
    using j0 by (simp add: dead_letter_upd.load_update)
  show "\<exists>f. get_failed_job_by_original_job_id i db' = Some f"
    using facts(6) id by (auto simp: db' get_failed_job_by_original_job_id_def)
  show "\<exists>new. failed_jobs db' = failed_jobs db @ new" using facts(7) by (simp add: db')
qed

lemma mark_dead_letter_total:
  assumes wf: "jobs_wf db" and j0: "load_job i db = Some j0" and o: "origin_known j0 db"
  shows "\<exists>db'. mark_dead_letter i e now db = Inr db'"
proof -
  let ?j = "dead_letter_row e now j0"
  let ?db1 = "update_job i (dead_letter_row e now) db"
  have "load_job i ?db1 = Some ?j" using j0 by (simp add: dead_letter_upd.load_update)
  then have "j_id ?j \<in> set (map j_id (jobs ?db1))" by (auto dest: load_job_SomeD)
  moreover have "origin_known ?j ?db1" using o by (simp add: origin_known_def dead_letter_row_def split: option.splits)
  ultimately obtain f db2 where "copy_job_to_failed_jobs ?j e now ?db1 = Inr (f, db2)"
    using copy_total wf dead_letter_upd.jobs_wf_update by blast
  then show ?thesis using mark_dead_letter_unfold[OF j0] by blast
qed

lemma mark_succeeded_facts:
  "jobs (mark_succeeded i result now db) =
     (case load_job i db of None \<Rightarrow> jobs db | Some j \<Rightarrow> jobs (update_job i (succeed_row result now) db))"
  "failed_jobs (mark_succeeded i result now db) = failed_jobs db"
  "jobs_wf (mark_succeeded i result now db) \<longleftrightarrow> jobs_wf db"
  "load_job i' (mark_succeeded i result now db) =
     (if i' = i then map_option (succeed_row result now) (load_job i db) else load_job i' db)"
  by (auto simp: mark_succeeded_def Let_def succeed_upd.jobs_wf_update succeed_upd.load_update
      split: option.splits)

lemma mark_failed_facts:
  "jobs (mark_failed_and_reschedule i e n now db) =
     (case load_job i db of None \<Rightarrow> jobs db | Some j \<Rightarrow> jobs (update_job i (reschedule_row e n now) db))"
  "failed_jobs (mark_failed_and_reschedule i e n now db) = failed_jobs db"
  "jobs_wf (mark_failed_and_reschedule i e n now db) \<longleftrightarrow> jobs_wf db"
  "load_job i' (mark_failed_and_reschedule i e n now db) =
     (if i' = i then map_option (reschedule_row e n now) (load_job i db) else load_job i' db)"
  by (auto simp: mark_failed_and_reschedule_def Let_def reschedule_upd.jobs_wf_update
      reschedule_upd.load_update split: option.splits)

section \<open>Retries\<close>

interpretation retry_link: row_update fj_id "\<lambda>f. f\<lparr>fj_retry_job_id := Some rid\<rparr>" for rid
  by unfold_locales simp

lemma set_retry_job_id_simps [simp]:
  "jobs (set_retry_job_id fid rid db) = jobs db"
  "uuid4 (set_retry_job_id fid rid db) = uuid4 db"
  "uuid_next (set_retry_job_id fid rid db) = uuid_next db"
  "map fj_id (failed_jobs (set_retry_job_id fid rid db)) = map fj_id (failed_jobs db)"
  "map fj_original_job_id (failed_jobs (set_retry_job_id fid rid db)) = map fj_original_job_id (failed_jobs db)"
  by (simp_all add: set_retry_job_id_def retry_link.keys_update) (simp add: update_rows_def)

lemma set_retry_job_id_wf [simp]: "jobs_wf (set_retry_job_id fid rid db) \<longleftrightarrow> jobs_wf db"
  unfolding jobs_wf_def used_ids_def by (simp del: set_map)

lemma get_failed_set_retry:
  assumes wf: "jobs_wf db" and f: "get_failed_job_by_original_job_id i db = Some f"
  shows "get_failed_job_by_original_job_id i (set_retry_job_id (fj_id f) rid db) = Some (f\<lparr>fj_retry_job_id := Some rid\<rparr>)"
proof -
  let ?db' = "set_retry_job_id (fj_id f) rid db"
  let ?f' = "f\<lparr>fj_retry_job_id := Some rid\<rparr>"
  from get_failed_SomeD[OF f] have "?f' \<in> set (failed_jobs ?db')" and orig: "fj_original_job_id ?f' = i"
    by (auto simp: set_retry_job_id_def set_update_rows)
  moreover have "distinct (map fj_original_job_id (failed_jobs ?db'))" using wf by (simp add: jobs_wfD(4))
  ultimately show ?thesis
    unfolding get_failed_job_by_original_job_id_def
    using find_row_unique[of fj_original_job_id "failed_jobs ?db'" ?f'] by metis
qed

lemma create_retry_facts:
  assumes wf: "jobs_wf db" and dead: "j_status j = JOB_STATUS_DEAD_LETTER"
    and res: "create_retry_job_from_failed_job j now db = Inr (r, db')"
  shows "\<exists>rj f. r = Some rj \<and> jobs_wf db' \<and> (\<exists>new. jobs db' = jobs db @ new) \<and>
    load_job (j_id rj) db' = Some rj \<and> j_id rj \<noteq> [] \<and>
    get_failed_job_by_original_job_id (j_id j) db' = Some f \<and> fj_retry_job_id f = Some (j_id rj) \<and>
    (rj \<in> set (jobs db) \<or> (rj = retry_job_of (j_id rj) j (fj_id f) now \<and> j_id rj \<notin> set (map j_id (jobs db))))"
proof -
  let ?e = "case j_last_error j of None \<Rightarrow> ''job_dead_lettered''
              | Some e \<Rightarrow> if e = [] then ''job_dead_lettered'' else e"
  from res dead obtain f db1 where c: "copy_job_to_failed_jobs j ?e (j_updated_at j) db = Inr (f, db1)"
    by (auto simp: create_retry_job_from_failed_job_def bind_result_Inr_iff)
  note facts = copy_facts[OF wf c]
  let ?ex = "case fj_retry_job_id f of None \<Rightarrow> None | Some rid \<Rightarrow> if rid = [] then None else load_job rid db1"
  show ?thesis
  proof (cases ?ex)
    case (Some rj)
    then obtain rid where rid: "fj_retry_job_id f = Some rid" "rid \<noteq> []" "load_job rid db1 = Some rj"
      by (auto split: option.splits if_splits)
    with res dead c have "r = Some rj" "db' = db1"
      by (auto simp: create_retry_job_from_failed_job_def)
    with rid facts(1,2,6) show ?thesis by (auto dest: load_job_SomeD)
  next
    case None
    obtain i db2 where d: "draw_uuid db1 = (i, db2)" by fastforce
    let ?rj = "retry_job_of i j (fj_id f) now"
    from res dead c None d obtain db3 where ins: "insert_job ?rj db2 = Inr db3" and r: "r = Some ?rj"
      and db': "db' = record_job_event ?rj JOB_EVENT_RETRIED (j_status ?rj)
           [(''originalJobId'', JStr (j_id j)), (''failedJobId'', JStr (fj_id f))] now
           (record_job_event j JOB_EVENT_RETRIED (j_status j)
             [(''retryJobId'', JStr i), (''failedJobId'', JStr (fj_id f))] now
             (enqueued_event ?rj now (set_retry_job_id (fj_id f) i db3)))"
      by (auto simp: create_retry_job_from_failed_job_def bind_result_Inr_iff Let_def)
    have id: "j_id ?rj = i" by (simp add: retry_job_of_def)
    have wf3: "jobs_wf db3"
      using insert_job_wf[OF draw_uuid_wf(1)[OF facts(1) d] ins] draw_uuid_wf[OF facts(1) d] id by simp
    have db3: "jobs db3 = jobs db @ [?rj]" "failed_jobs db3 = failed_jobs db1"
      using insert_job_InrD[OF ins] d facts(2) by (auto simp: draw_uuid_def)
    have "get_failed_job_by_original_job_id (j_id j) db3 = Some f"
      using facts(6) db3(2) by (simp add: get_failed_job_by_original_job_id_def)
    from get_failed_set_retry[OF wf3 this]
    have f': "get_failed_job_by_original_job_id (j_id j) db' = Some (f\<lparr>fj_retry_job_id := Some i\<rparr>)"
      by (simp add: db' get_failed_job_by_original_job_id_def)
    have "i \<noteq> []" using facts(1) d by (auto simp: draw_uuid_def jobs_wf_def)
    moreover have "i \<notin> set (map j_id (jobs db))"
      using draw_uuid_wf(2,3)[OF facts(1) d] facts(2) by (auto simp: used_ids_def)
    moreover have wf': "jobs_wf db'" using wf3 by (simp add: db')
    moreover have "jobs db' = jobs db @ [?rj]" by (simp add: db' db3)
    moreover from this have "load_job i db' = Some ?rj" using load_job_in[OF wf', of ?rj] id by simp
    ultimately show ?thesis using r f' id by auto
  qed
qed

lemma create_retry_again:
  assumes "jobs_wf db" "j_status j = JOB_STATUS_DEAD_LETTER"
    and "get_failed_job_by_original_job_id (j_id j) db = Some f" "fj_retry_job_id f = Some (j_id rj)"
    and "j_id rj \<noteq> []" "load_job (j_id rj) db = Some rj"
  shows "create_retry_job_from_failed_job j now db = Inr (Some rj, db)"
  using assms by (simp add: create_retry_job_from_failed_job_def copy_job_to_failed_jobs_def)

section \<open>Properties\<close>

text \<open>
  Property C24. A claim without interference takes the first runnable row in the order of
  due time and creation, exactly when there is one: it marks that row running under the
  caller's lease, counts one attempt, and changes no other row.
\<close>

theorem claim_takes_first_runnable:
  assumes wf: "jobs_wf db" and res: "claim_next_runnable (\<lambda>_ db. db) w now lease db = (r, db')"
  shows "case r of
      None \<Rightarrow> db' = db \<and> (\<forall>j \<in> set (jobs db). \<not> runnable now (now - seconds lease) j)
    | Some j \<Rightarrow> \<exists>j0 \<in> set (jobs db). runnable now (now - seconds lease) j0 \<and>
        (\<forall>j' \<in> set (jobs db). runnable now (now - seconds lease) j' \<longrightarrow> claim_order j0 \<le> claim_order j') \<and>
        j = j0\<lparr>j_status := JOB_STATUS_RUNNING, j_attempt := j_attempt j0 + 1,
               j_locked_at := Some now, j_locked_by := Some w, j_updated_at := now\<rparr> \<and>
        load_job (j_id j0) db' = Some j \<and>
        (\<forall>i. i \<noteq> j_id j0 \<longrightarrow> load_job i db' = load_job i db)"
proof -
  let ?stale = "now - seconds lease"
  show ?thesis
  proof (cases "select_candidate now ?stale db")
    case None
    with res have "r = None" "db' = db"
      by (auto simp: claim_next_runnable_def eval_nat_numeral)
    with None show ?thesis by (simp add: select_candidate_None_iff)
  next
    case (Some c)
    obtain i a where c: "c = (i, a)" by (cases c)
    from select_candidate_SomeD[OF Some[unfolded c]] obtain j0 where j0: "j0 \<in> set (jobs db)"
      "j_id j0 = i" "j_attempt j0 = a" "runnable now ?stale j0"
      "\<forall>j' \<in> set (jobs db). runnable now ?stale j' \<longrightarrow> claim_order j0 \<le> claim_order j'" by blast
    have ld: "load_job i db = Some j0" using load_job_in[OF wf j0(1)] j0(2) by simp
    then have "swappable i a now ?stale db" using j0 by (auto simp: swappable_def)
    with res Some c ld have "r = Some (claim_row a w now j0)"
      "db' = started_event w now (claim_row a w now j0) (update_job i (claim_row a w now) db)"
      by (auto simp: claim_next_runnable_def eval_nat_numeral claim_update_eq[OF wf] claim_upd.load_update_same)
    with j0 ld show ?thesis
      by (auto simp: claim_upd.load_update claim_row_def intro!: bexI[OF _ j0(1)])
  qed
qed

definition two_jobs_db :: jobs_db where
  "two_jobs_db = empty_jobs_db\<lparr>jobs :=
     [busy_job, (job_from_spec 1 5 ''c'' (demo_spec\<lparr>sp_idempotency_key := ''k2''\<rparr>))]\<rparr>"

lemma two_jobs_db_wf: "jobs_wf two_jobs_db"
proof -
  have "CHR ''b'' \<noteq> CHR ''a''" "CHR ''c'' \<noteq> CHR ''a''" by simp_all
  moreover have "py_strip (sp_job_type demo_spec) = ''transcribe''" "py_strip (sp_idempotency_key demo_spec) = ''k1''"
    by code_simp+
  ultimately show ?thesis
    by (auto simp: jobs_wf_def two_jobs_db_def busy_job_def empty_jobs_db_def used_ids_def inj_def
        job_from_spec_def replicate_eq_replicate Cons_replicate_eq job_key_def)
qed

theorem claim_takes_first_runnable_witness:
  "\<exists>j db'. claim_next_runnable (\<lambda>_ db. db) ''w2'' 20 60 two_jobs_db = (Some j, db') \<and>
     j_id j = ''c'' \<and> j_attempt j = 1 \<and> load_job ''c'' db' = Some j"
proof -
  have "case claim_next_runnable (\<lambda>_ db. db) ''w2'' 20 60 two_jobs_db of (Some j, db') \<Rightarrow> j_id j = ''c'' | _ \<Rightarrow> False"
    by code_simp
  then obtain j db' where r: "claim_next_runnable (\<lambda>_ db. db) ''w2'' 20 60 two_jobs_db = (Some j, db')"
    and id: "j_id j = ''c''" by (auto split: prod.splits option.splits)
  have c: "load_job ''c'' two_jobs_db = Some (job_from_spec 1 5 ''c'' (demo_spec\<lparr>sp_idempotency_key := ''k2''\<rparr>))"
    by code_simp
  from claim_takes_first_runnable[OF two_jobs_db_wf r] obtain j0 where "j0 \<in> set (jobs two_jobs_db)"
    "j = j0\<lparr>j_status := JOB_STATUS_RUNNING, j_attempt := j_attempt j0 + 1,
               j_locked_at := Some 20, j_locked_by := Some ''w2'', j_updated_at := 20\<rparr>"
    "load_job (j_id j0) db' = Some j" by auto
  with id r c load_job_in[OF two_jobs_db_wf, of j0] show ?thesis by (auto simp: job_from_spec_def)
qed

lemma claim_under_interference_facts:
  assumes wf: "jobs_wf db" and env: "\<And>n. commits (env n)"
    and res: "claim_next_runnable env w now lease db = (Some j, db')"
  shows "jobs_wf db' \<and> jobs_ext db db' \<and> load_job (j_id j) db' = Some j \<and>
    j_status j = JOB_STATUS_RUNNING \<and> j_locked_by j = Some w \<and> j_locked_at j = Some now \<and>
    (\<exists>db1 j0. jobs_wf db1 \<and> jobs_ext db db1 \<and> load_job (j_id j) db1 = Some j0 \<and>
       runnable now (now - seconds lease) j0 \<and> j_attempt j = j_attempt j0 + 1)"
proof -
  let ?stale = "now - seconds lease"
  note loop = res[unfolded claim_next_runnable_def]
  from claim_loop_SomeD[of db env 8 w now ?stale j db', OF wf env loop] obtain db1 j0 where
    d: "jobs_wf db1" "jobs_ext db db1" "load_job (j_id j0) db1 = Some j0" "runnable now ?stale j0"
    "j = claim_row (j_attempt j0) w now j0"
    "db' = started_event w now j (update_job (j_id j0) (claim_row (j_attempt j0) w now) db1)" by blast
  have id: "j_id j = j_id j0" using d(5) by (simp add: claim_row_def)
  have "load_job (j_id j) db' = Some j" using d(3,5,6) id by (simp add: claim_upd.load_update_same)
  moreover have "j_status j = JOB_STATUS_RUNNING" "j_locked_by j = Some w" "j_locked_at j = Some now"
    "j_attempt j = j_attempt j0 + 1" using d(5) by (simp_all add: claim_row_def)
  moreover have "jobs_wf db' \<and> jobs_ext db db'"
    using claim_loop_wf[of db env 8 w now ?stale "Some j" db', OF wf env loop] .
  ultimately show ?thesis using d id by auto
qed

text \<open>
  A claim stays safe under interference: whatever the other sessions commit
  between the reads and the writes of its attempts, the job it returns was runnable in
  the state it was swapped in, its attempt count is one more than there, and the tables
  stay well formed with every earlier job still present.
\<close>

theorem claim_under_interference:
  assumes wf: "jobs_wf db" and env: "\<And>n. commits (env n)"
    and res: "claim_next_runnable env w now lease db = (Some j, db')"
  shows "jobs_wf db' \<and> jobs_ext db db' \<and> load_job (j_id j) db' = Some j \<and>
    j_status j = JOB_STATUS_RUNNING \<and> j_locked_by j = Some w \<and> j_locked_at j = Some now \<and>
    (\<exists>db1 j0. jobs_wf db1 \<and> jobs_ext db db1 \<and> load_job (j_id j) db1 = Some j0 \<and>
       runnable now (now - seconds lease) j0 \<and> j_attempt j = j_attempt j0 + 1)"
  by (rule claim_under_interference_facts[OF assms])

theorem claim_under_interference_witness:
  "\<exists>j db'. claim_next_runnable (\<lambda>_ db. db) ''w2'' 20 60 two_jobs_db = (Some j, db') \<and>
     j_status j = JOB_STATUS_RUNNING \<and> j_locked_by j = Some ''w2'' \<and> jobs_wf db'"
proof -
  have "case claim_next_runnable (\<lambda>_ db. db) ''w2'' 20 60 two_jobs_db of (Some j, db') \<Rightarrow> True | _ \<Rightarrow> False"
    by code_simp
  then obtain j db' where r: "claim_next_runnable (\<lambda>_ db. db) ''w2'' 20 60 two_jobs_db = (Some j, db')"
    by (auto split: prod.splits option.splits)
  from claim_under_interference[OF two_jobs_db_wf commits_id r] r show ?thesis by auto
qed

text \<open>
  Dead-lettering an existing job succeeds (a job that is itself a retry
  names a failed job that exists) and leaves an audit copy: the job ends terminal and
  unlocked, the copy of a first failure carries the job's payload and attempt count, and
  no earlier copy changes.
\<close>

theorem dead_letter_copies:
  assumes wf: "jobs_wf db" and j: "load_job i db = Some j" and o: "origin_known j db"
  shows "\<exists>db' f. mark_dead_letter i e now db = Inr db' \<and> jobs_wf db' \<and>
    load_job i db' = Some (j\<lparr>j_status := JOB_STATUS_DEAD_LETTER, j_last_error := Some (sanitize_error e),
       j_next_run_at := None, j_locked_at := None, j_locked_by := None, j_updated_at := now\<rparr>) \<and>
    get_failed_job_by_original_job_id i db' = Some f \<and>
    (get_failed_job_by_original_job_id i db = None \<longrightarrow>
       fj_payload_json f = j_payload_json j \<and> fj_attempt_count f = j_attempt j \<and> fj_error_traceback f = e) \<and>
    (get_failed_job_by_original_job_id i db \<noteq> None \<longrightarrow> failed_jobs db' = failed_jobs db) \<and>
    (\<exists>new. failed_jobs db' = failed_jobs db @ new)"
proof -
  let ?j = "dead_letter_row e now j"
  let ?db1 = "update_job i (dead_letter_row e now) db"
  have id: "j_id ?j = i" using j by (auto simp: dead_letter_row_def dest: load_job_SomeD)
  obtain db' where r: "mark_dead_letter i e now db = Inr db'"
    using mark_dead_letter_total[OF wf j o] by blast
  from mark_dead_letter_unfold[OF j] r obtain f db2 meta where
    c: "copy_job_to_failed_jobs ?j e now ?db1 = Inr (f, db2)"
    and db': "db' = record_job_event ?j JOB_EVENT_DEAD_LETTERED JOB_STATUS_DEAD_LETTER meta now
              (record_job_event ?j JOB_EVENT_FAILED JOB_STATUS_DEAD_LETTER meta now db2)" by blast
  have same: "get_failed_job_by_original_job_id i ?db1 = get_failed_job_by_original_job_id i db"
    by (simp add: get_failed_job_by_original_job_id_def)
  have "jobs_wf ?db1" using wf by (simp add: dead_letter_upd.jobs_wf_update)
  note cf = copy_facts[OF this c]
  have "get_failed_job_by_original_job_id i db' = Some f"
    using cf(6) id by (simp add: db' get_failed_job_by_original_job_id_def)
  moreover have "failed_jobs db' = failed_jobs db" if "get_failed_job_by_original_job_id i db \<noteq> None"
    using c that id same by (auto simp: copy_job_to_failed_jobs_def db')
  moreover have "get_failed_job_by_original_job_id i db = None \<longrightarrow>
      fj_payload_json f = j_payload_json j \<and> fj_attempt_count f = j_attempt j \<and> fj_error_traceback f = e"
    using cf(8) id same by (simp add: dead_letter_row_def)
  ultimately show ?thesis
    using r mark_dead_letter_facts[OF wf j r] by (auto simp: dead_letter_row_def)
qed

theorem dead_letter_copies_witness:
  "\<exists>db' f. mark_dead_letter ''b'' ''boom'' 30 busy_db = Inr db' \<and>
     get_failed_job_by_original_job_id ''b'' db' = Some f \<and> fj_attempt_count f = 1"
proof -
  have j: "load_job ''b'' busy_db = Some busy_job" by code_simp
  have "origin_known busy_job busy_db" by code_simp
  note copied = dead_letter_copies[OF busy_db_wf j this, of "''boom''" 30]
  have none: "get_failed_job_by_original_job_id ''b'' busy_db = None" and one: "j_attempt busy_job = 1"
    by code_simp+
  from copied none one show ?thesis by metis
qed

text \<open>
  Retrying a dead-lettered job is idempotent: the first retry creates a
  queued job with no attempts under a key of its own and links it to the immutable copy,
  and every later retry of the same job, at any later time, returns that very job and
  changes nothing.
\<close>

theorem retry_once:
  assumes wf: "jobs_wf db" and j: "load_job i db = Some j" and dead: "j_status j = JOB_STATUS_DEAD_LETTER"
    and strip: "py_strip i = i" "i \<noteq> []"
    and res: "requeue_dead_letter_job i now db = Inr (r, db')"
  shows "\<exists>rj. r = Some rj \<and> jobs_wf db' \<and> load_job (j_id rj) db' = Some rj \<and>
    requeue_dead_letter_job i later db' = Inr (Some rj, db') \<and>
    (rj \<in> set (jobs db) \<or>
      (j_status rj = JOB_STATUS_QUEUED \<and> j_attempt rj = 0 \<and> j_job_type rj = j_job_type j \<and>
       j_max_attempts rj = j_max_attempts j \<and>
       dict_get ''originalJobId'' (j_payload_json rj) = JStr i))"
proof -
  have mem: "j \<in> set (jobs db)" "j_id j = i" using j by (auto dest: load_job_SomeD)
  have found: "find_row (\<lambda>x. j_id x = i \<and> j_status x = JOB_STATUS_DEAD_LETTER) (jobs d) = Some j"
    if wfd: "jobs_wf d" and m: "j \<in> set (jobs d)" for d
  proof (cases "find_row (\<lambda>x. j_id x = i \<and> j_status x = JOB_STATUS_DEAD_LETTER) (jobs d)")
    case None
    with m mem(2) dead show ?thesis by (auto simp: find_row_None_iff)
  next
    case (Some x)
    with find_row_SomeD[OF Some] job_eqI[OF wfd _ m, of x] mem(2) show ?thesis by auto
  qed
  from res found[OF wf mem(1)] strip have cr: "create_retry_job_from_failed_job j now db = Inr (r, db')"
    by (simp add: requeue_dead_letter_job_def)
  from create_retry_facts[OF wf dead cr] obtain rj f where
    f: "r = Some rj" "jobs_wf db'" "\<exists>new. jobs db' = jobs db @ new" "load_job (j_id rj) db' = Some rj" "j_id rj \<noteq> []"
    "get_failed_job_by_original_job_id (j_id j) db' = Some f" "fj_retry_job_id f = Some (j_id rj)"
    "rj \<in> set (jobs db) \<or> (rj = retry_job_of (j_id rj) j (fj_id f) now \<and> j_id rj \<notin> set (map j_id (jobs db)))"
    by blast
  have "j \<in> set (jobs db')" using f(3) mem(1) by auto
  from found[OF f(2) this] have "requeue_dead_letter_job i later db' = Inr (Some rj, db')"
    using create_retry_again[OF f(2) dead f(6,7,5,4)] strip by (simp add: requeue_dead_letter_job_def)
  moreover have "rj \<in> set (jobs db) \<or>
      (j_status rj = JOB_STATUS_QUEUED \<and> j_attempt rj = 0 \<and> j_job_type rj = j_job_type j \<and>
       j_max_attempts rj = j_max_attempts j \<and> dict_get ''originalJobId'' (j_payload_json rj) = JStr i)"
  proof -
    have "j_status x = JOB_STATUS_QUEUED \<and> j_attempt x = 0 \<and> j_job_type x = j_job_type j \<and>
       j_max_attempts x = j_max_attempts j \<and> dict_get ''originalJobId'' (j_payload_json x) = JStr i"
      if "x = retry_job_of n j g now" for x n g
      using mem(2) by (simp add: that retry_job_of_def retry_payload_def dict_get_set)
    with f(8) show ?thesis by metis
  qed
  ultimately show ?thesis using f(1,2,4) by blast
qed

definition dead_db :: jobs_db where
  "dead_db = empty_jobs_db\<lparr>jobs := [dead_letter_row ''boom'' 30 busy_job]\<rparr>"

lemma dead_db_wf: "jobs_wf dead_db"
  using dead_letter_upd.jobs_wf_update[of "''b''" "''boom''" 30 busy_db] busy_db_wf
  by (simp add: dead_db_def busy_db_def update_job_def update_rows_def busy_job_def job_from_spec_def)

theorem retry_once_witness:
  "\<exists>rj db'. requeue_dead_letter_job ''b'' 40 dead_db = Inr (Some rj, db') \<and>
     requeue_dead_letter_job ''b'' 50 db' = Inr (Some rj, db')"
proof -
  have "isl (requeue_dead_letter_job ''b'' 40 dead_db) = False" by code_simp
  then obtain r db' where r: "requeue_dead_letter_job ''b'' 40 dead_db = Inr (r, db')"
    by (metis isl_def sumE surj_pair)
  have j: "load_job ''b'' dead_db = Some (dead_letter_row ''boom'' 30 busy_job)" by code_simp
  have d: "j_status (dead_letter_row ''boom'' 30 busy_job) = JOB_STATUS_DEAD_LETTER" by code_simp
  have s: "py_strip ''b'' = ''b''" by code_simp
  from retry_once[OF dead_db_wf j d s _ r, of 50] r show ?thesis by auto
qed

text \<open>
  A retry key fits the 255 characters of its column whatever the length of
  the original key, and two failed jobs, whose ids have the same length, never share one:
  a retry key is only ever produced by its own failed job.
\<close>

theorem retry_key_fits_and_separates:
  assumes "py_len fid \<le> 247"
  shows "py_len (retry_idempotency_key k fid) \<le> 255 \<and>
    (length fid' = length fid \<and> retry_idempotency_key k' fid' = retry_idempotency_key k fid \<longrightarrow> fid' = fid)"
proof -
  have len: "py_len ('':retry:'' @ fid) \<le> 254" using assms by (simp add: py_len_def)
  have "int (length (take (nat (max 1 (255 - py_len ('':retry:'' @ fid)))) k)) \<le> 255 - py_len ('':retry:'' @ fid)"
    using len by (auto simp: max_def min_def)
  then have "py_len (retry_idempotency_key k fid) \<le> 255"
    by (simp add: retry_idempotency_key_def Let_def py_len_def)
  moreover have "fid' = fid" if "length fid' = length fid"
    and "retry_idempotency_key k' fid' = retry_idempotency_key k fid"
  proof -
    from that(2) obtain u v where "u @ '':retry:'' @ fid' = v @ '':retry:'' @ fid"
      by (auto simp: retry_idempotency_key_def Let_def)
    then have "(u @ '':retry:'') @ fid' = (v @ '':retry:'') @ fid" by simp
    then show ?thesis using append_eq_append_conv[of fid' fid "u @ '':retry:''" "v @ '':retry:''"] that(1) by simp
  qed
  ultimately show ?thesis by blast
qed

theorem retry_key_fits_and_separates_witness:
  "py_len (retry_idempotency_key (replicate 255 (CHR ''k'')) ''f-1'') \<le> 255"
  using retry_key_fits_and_separates[of "''f-1''"] by (simp add: py_len_def)

text \<open>
  The status writes of a worker are not fenced: they look at the id only,
  so a worker that still runs a job another actor has dead-lettered (the termination of a
  trial does) sets it to succeeded, or to queued again, while the failed copy stays.
\<close>

theorem status_writes_unfenced:
  assumes wf: "jobs_wf db" and j: "load_job i db = Some j" and dead: "j_status j = JOB_STATUS_DEAD_LETTER"
  shows "(\<exists>j'. load_job i (mark_succeeded i result now db) = Some j' \<and> j_status j' = JOB_STATUS_SUCCEEDED) \<and>
    (\<exists>j'. load_job i (mark_failed_and_reschedule i e at now db) = Some j' \<and> j_status j' = JOB_STATUS_QUEUED) \<and>
    failed_jobs (mark_succeeded i result now db) = failed_jobs db"
  using j by (simp add: mark_succeeded_facts mark_failed_facts succeed_row_def reschedule_row_def)

theorem status_writes_unfenced_witness:
  "\<exists>j'. load_job ''b'' (mark_succeeded ''b'' None 40 dead_db) = Some j' \<and> j_status j' = JOB_STATUS_SUCCEEDED"
proof -
  have j: "load_job ''b'' dead_db = Some (dead_letter_row ''boom'' 30 busy_job)" by code_simp
  have "j_status (dead_letter_row ''boom'' 30 busy_job) = JOB_STATUS_DEAD_LETTER" by code_simp
  from status_writes_unfenced[OF dead_db_wf j this] show ?thesis by blast
qed

end
