(* ===== verification/Sessions.thy ===== *)
theory Sessions
  imports Errors PyTime
begin

text \<open>
  The rows that several components share: the candidate session (the columns this
  development reads or writes), the authenticated principal, and the candidate's and the
  company's users as far as the job lookups read them.
\<close>

record candidate_session =
  cs_id :: int
  cs_trial_id :: int
  cs_scenario_version_id :: int
  cs_candidate_name :: string
  cs_preferred_display_name :: "string option"
  cs_invite_email :: string
  cs_candidate_email :: "string option"
  cs_candidate_auth0_sub :: "string option"
  cs_candidate_auth0_email :: "string option"
  cs_claimed_at :: "datetime option"
  cs_token :: string
  cs_status :: string
  cs_started_at :: "datetime option"
  cs_completed_at :: "datetime option"
  cs_expires_at :: "datetime option"
  cs_scheduled_start_at :: "datetime option"
  cs_candidate_timezone :: "string option"
  cs_github_username :: "string option"
  cs_day_windows_json :: json
  cs_schedule_locked_at :: "datetime option"

record principal =
  p_sub :: string
  p_email :: string
  p_permissions :: "string list"

record company_user =
  u_email :: string
  u_company_id :: "int option"

definition normalize_email :: "string option \<Rightarrow> string" where
  "normalize_email value = (case value of None \<Rightarrow> [] | Some s \<Rightarrow> py_lower (py_strip s))"

definition demo_session :: candidate_session where
  "demo_session = \<lparr>cs_id = 7, cs_trial_id = 3, cs_scenario_version_id = 2, cs_candidate_name = ''Ada'',
     cs_preferred_display_name = None, cs_invite_email = '' Ada@Example.com'', cs_candidate_email = None,
     cs_candidate_auth0_sub = None, cs_candidate_auth0_email = None, cs_claimed_at = None,
     cs_token = ''tok'', cs_status = ''not_started'', cs_started_at = None, cs_completed_at = None,
     cs_expires_at = Some 5000, cs_scheduled_start_at = None, cs_candidate_timezone = None,
     cs_github_username = None, cs_day_windows_json = JNull, cs_schedule_locked_at = None\<rparr>"

end
