(* ===== verification/JobHealth.thy ===== *)
theory JobHealth
  imports JobLifecycle Sessions
begin

text \<open>
  Heartbeats of the workers, the health summary the readiness and admin endpoints return,
  and the visibility of a job to a principal. The settings are a record; the identity
  columns of a heartbeat row (service, instance) are its key.
\<close>

section \<open>Heartbeats\<close>

definition WORKER_HEARTBEAT_STATUS_RUNNING :: string where
  "WORKER_HEARTBEAT_STATUS_RUNNING = ''running''"

definition WORKER_HEARTBEAT_STATUS_STOPPED :: string where
  "WORKER_HEARTBEAT_STATUS_STOPPED = ''stopped''"

definition DEFAULT_WORKER_SERVICE_NAME :: string where
  "DEFAULT_WORKER_SERVICE_NAME = ''winoe-worker''"

definition normalize_text :: "string \<Rightarrow> string \<Rightarrow> int \<Rightarrow> string res" where
  "normalize_text value field_name max_length =
     (let normalized = py_strip value
      in if normalized = [] then Inl (ValueError (field_name @ '' is required''))
         else if py_len normalized > max_length
         then Inl (ValueError (field_name @ '' exceeds '' @ int_str max_length @ '' characters''))
         else Inr normalized)"

definition hb_key :: "worker_heartbeat \<Rightarrow> string \<times> string" where
  "hb_key h = (hb_service_name h, hb_instance_id h)"

definition beat_row :: "string \<Rightarrow> datetime \<Rightarrow> worker_heartbeat \<Rightarrow> worker_heartbeat" where
  "beat_row status now h = h\<lparr>hb_status := status, hb_last_heartbeat_at := now\<rparr>"

definition upsert_worker_heartbeat ::
    "string \<Rightarrow> string \<Rightarrow> datetime \<Rightarrow> string \<Rightarrow> datetime \<Rightarrow> jobs_db \<Rightarrow> (worker_heartbeat \<times> jobs_db) res" where
  "upsert_worker_heartbeat service_name instance_id now status clk db =
     bind_result (normalize_text service_name ''service_name'' 100) (\<lambda>s.
     bind_result (normalize_text instance_id ''instance_id'' 255) (\<lambda>i.
     bind_result (normalize_text status ''status'' 32) (\<lambda>st.
       case find_row (\<lambda>h. hb_key h = (s, i)) (worker_heartbeats db) of
         None \<Rightarrow>
           (let h = \<lparr>hb_service_name = s, hb_instance_id = i, hb_status = st, hb_started_at = now,
                     hb_last_heartbeat_at = now, hb_created_at = clk\<rparr>
            in Inr (h, db\<lparr>worker_heartbeats := worker_heartbeats db @ [h]\<rparr>))
       | Some h \<Rightarrow>
           Inr (beat_row st now h,
                db\<lparr>worker_heartbeats := update_rows (\<lambda>h. hb_key h = (s, i)) (beat_row st now)
                     (worker_heartbeats db)\<rparr>))))"

definition mark_worker_stopped ::
    "string \<Rightarrow> string \<Rightarrow> datetime \<Rightarrow> datetime \<Rightarrow> jobs_db \<Rightarrow> (worker_heartbeat \<times> jobs_db) res" where
  "mark_worker_stopped service_name instance_id now clk db =
     upsert_worker_heartbeat service_name instance_id now WORKER_HEARTBEAT_STATUS_STOPPED clk db"

definition get_latest_worker_heartbeat :: "string \<Rightarrow> jobs_db \<Rightarrow> worker_heartbeat option res" where
  "get_latest_worker_heartbeat service_name db =
     bind_result (normalize_text service_name ''service_name'' 100) (\<lambda>s.
       Inr (first_min (\<lambda>h. (- hb_last_heartbeat_at h, - hb_created_at h))
              (filter (\<lambda>h. hb_service_name h = s) (worker_heartbeats db))))"

definition write_heartbeat ::
    "string \<Rightarrow> string \<Rightarrow> datetime \<Rightarrow> bool \<Rightarrow> datetime \<Rightarrow> jobs_db \<Rightarrow> jobs_db res" where
  "write_heartbeat service_name instance_id now running clk db =
     bind_result
       (if running
        then upsert_worker_heartbeat service_name instance_id now WORKER_HEARTBEAT_STATUS_RUNNING clk db
        else mark_worker_stopped service_name instance_id now clk db)
       (\<lambda>(_, db'). Inr db')"

definition is_worker_heartbeat_fresh :: "int \<Rightarrow> int option \<Rightarrow> datetime \<Rightarrow> worker_heartbeat \<Rightarrow> bool" where
  "is_worker_heartbeat_fresh default_stale_seconds stale_after_seconds now h \<longleftrightarrow>
     (let n = (case stale_after_seconds of None \<Rightarrow> default_stale_seconds | Some n \<Rightarrow> n)
      in hb_last_heartbeat_at h \<ge> now - seconds (max 1 n))"

section \<open>Health\<close>

record health_settings =
  DEMO_ADMIN_JOB_STALE_SECONDS :: int
  JOB_HEALTH_MAX_STUCK_JOBS :: int
  JOB_HEALTH_MAX_OLDEST_QUEUED_SECONDS :: int
  JOB_HEALTH_MAX_DLQ_COUNT :: int
  WORKER_HEARTBEAT_STALE_SECONDS :: int

record job_health_summary =
  degraded :: bool
  degradedReasons :: "string list"
  queueDepth :: int
  inFlightCount :: int
  failedCount :: int
  dlqCount :: int
  oldestQueuedJobAgeSeconds :: "int option"
  oldestInFlightJobAgeSeconds :: "int option"
  workerHeartbeatFresh :: bool
  workerHeartbeatAgeSeconds :: "int option"
  stuckJobCount :: int

definition age_seconds :: "datetime \<Rightarrow> datetime option \<Rightarrow> int option" where
  "age_seconds now value = map_option (\<lambda>t. if now \<le> t then 0 else (now - t) div 1000000) value"

definition count_jobs :: "(job \<Rightarrow> bool) \<Rightarrow> jobs_db \<Rightarrow> int" where
  "count_jobs P db = int (count_rows P (jobs db))"

definition oldest :: "(job \<Rightarrow> datetime) \<Rightarrow> (job \<Rightarrow> bool) \<Rightarrow> jobs_db \<Rightarrow> datetime option" where
  "oldest t P db = map_option t (first_min t (filter P (jobs db)))"

definition due_at :: "job \<Rightarrow> datetime" where
  "due_at j = (case j_next_run_at j of None \<Rightarrow> j_created_at j | Some t \<Rightarrow> t)"

definition held_since :: "job \<Rightarrow> datetime" where
  "held_since j = (case j_locked_at j of None \<Rightarrow> j_updated_at j | Some t \<Rightarrow> t)"

definition is_stuck :: "datetime \<Rightarrow> job \<Rightarrow> bool" where
  "is_stuck stale_before j \<longleftrightarrow> j_status j = JOB_STATUS_RUNNING \<and>
     (case j_locked_at j of None \<Rightarrow> False | Some t \<Rightarrow> t \<le> stale_before)"

definition exceeds :: "int \<Rightarrow> int option \<Rightarrow> bool" where
  "exceeds limit age \<longleftrightarrow> (case age of None \<Rightarrow> False | Some a \<Rightarrow> a > limit)"

definition build_job_health_summary ::
    "health_settings \<Rightarrow> datetime \<Rightarrow> jobs_db \<Rightarrow> job_health_summary res" where
  "build_job_health_summary cfg now db =
     (let stale_before = now - seconds (DEMO_ADMIN_JOB_STALE_SECONDS cfg);
          dlq_count = count_failed_jobs db;
          stuck = count_jobs (is_stuck stale_before) db;
          queued_age = age_seconds now (oldest due_at (\<lambda>j. j_status j = JOB_STATUS_QUEUED) db);
          in_flight_age = age_seconds now (oldest held_since (\<lambda>j. j_status j = JOB_STATUS_RUNNING) db)
      in bind_result (get_latest_worker_heartbeat DEFAULT_WORKER_SERVICE_NAME db) (\<lambda>heartbeat.
         let fresh = (case heartbeat of None \<Rightarrow> False | Some h \<Rightarrow>
               hb_status h \<noteq> WORKER_HEARTBEAT_STATUS_STOPPED \<and>
               is_worker_heartbeat_fresh (WORKER_HEARTBEAT_STALE_SECONDS cfg) None now h);
             reasons =
               (if \<not> fresh then [''worker_heartbeat_stale''] else []) @
               (if stuck > JOB_HEALTH_MAX_STUCK_JOBS cfg then [''stuck_job_threshold_exceeded''] else []) @
               (if exceeds (JOB_HEALTH_MAX_OLDEST_QUEUED_SECONDS cfg) queued_age
                then [''oldest_queued_job_threshold_exceeded''] else []) @
               (if dlq_count > JOB_HEALTH_MAX_DLQ_COUNT cfg then [''dlq_threshold_exceeded''] else [])
         in Inr \<lparr>degraded = (reasons \<noteq> []), degradedReasons = reasons,
              queueDepth = count_jobs (\<lambda>j. j_status j = JOB_STATUS_QUEUED) db,
              inFlightCount = count_jobs (\<lambda>j. j_status j = JOB_STATUS_RUNNING) db,
              failedCount = count_jobs (\<lambda>j. j_status j = JOB_STATUS_DEAD_LETTER) db,
              dlqCount = dlq_count, oldestQueuedJobAgeSeconds = queued_age,
              oldestInFlightJobAgeSeconds = in_flight_age, workerHeartbeatFresh = fresh,
              workerHeartbeatAgeSeconds = age_seconds now (map_option hb_last_heartbeat_at heartbeat),
              stuckJobCount = stuck\<rparr>))"

section \<open>Who may see a job\<close>

definition talent_partner_job :: "company_user list \<Rightarrow> string \<Rightarrow> principal \<Rightarrow> jobs_db \<Rightarrow> job option res" where
  "talent_partner_job users job_id p db =
     (if ''talent_partner:access'' \<notin> set (p_permissions p) then Inr None
      else bind_result (scalar_one_or_none (filter (\<lambda>u. u_email u = p_email p) users)) (\<lambda>user.
        case (case user of None \<Rightarrow> None | Some u \<Rightarrow> u_company_id u) of
          None \<Rightarrow> Inr None
        | Some c \<Rightarrow> Inr (find_row (\<lambda>j. j_id j = job_id \<and> j_company_id j = c) (jobs db))))"

definition candidate_job :: "candidate_session list \<Rightarrow> string \<Rightarrow> principal \<Rightarrow> jobs_db \<Rightarrow> job option" where
  "candidate_job sessions job_id p db =
     (if ''candidate:access'' \<notin> set (p_permissions p) then None
      else let email = normalize_email (Some (p_email p))
      in if email = [] then None
      else case load_job job_id db of
             None \<Rightarrow> None
           | Some j \<Rightarrow>
               (case j_candidate_session_id j of
                  None \<Rightarrow> None
                | Some sid \<Rightarrow>
                    (case find_row (\<lambda>s. cs_id s = sid) sessions of
                       None \<Rightarrow> None
                     | Some s \<Rightarrow>
                         (if normalize_email (Some (cs_invite_email s)) \<noteq> email then None
                          else let claimed_sub = py_strip (case cs_candidate_auth0_sub s of None \<Rightarrow> [] | Some x \<Rightarrow> x)
                          in if claimed_sub \<noteq> [] \<and> claimed_sub \<noteq> p_sub p then None
                          else Some j))))"

definition get_by_id_for_principal ::
    "company_user list \<Rightarrow> candidate_session list \<Rightarrow> string \<Rightarrow> principal \<Rightarrow> jobs_db \<Rightarrow> job option res" where
  "get_by_id_for_principal users sessions job_id p db =
     bind_result (talent_partner_job users job_id p db) (\<lambda>tp.
       case tp of Some j \<Rightarrow> Inr (Some j) | None \<Rightarrow> Inr (candidate_job sessions job_id p db))"

section \<open>Facts\<close>

interpretation beat_upd: row_update hb_key "beat_row status now" for status now
  by unfold_locales (simp add: hb_key_def beat_row_def)

lemma normalize_text_eq:
  "normalize_text v f n = Inr r \<longleftrightarrow> r = py_strip v \<and> r \<noteq> [] \<and> py_len r \<le> n"
  by (auto simp: normalize_text_def Let_def)

lemma upsert_unfold:
  "upsert_worker_heartbeat s i now st clk db = Inr (h, db') \<longleftrightarrow>
   py_strip s \<noteq> [] \<and> py_len (py_strip s) \<le> 100 \<and> py_strip i \<noteq> [] \<and> py_len (py_strip i) \<le> 255 \<and>
   py_strip st \<noteq> [] \<and> py_len (py_strip st) \<le> 32 \<and>
   (case find_row (\<lambda>h. hb_key h = (py_strip s, py_strip i)) (worker_heartbeats db) of
      None \<Rightarrow> h = \<lparr>hb_service_name = py_strip s, hb_instance_id = py_strip i, hb_status = py_strip st,
               hb_started_at = now, hb_last_heartbeat_at = now, hb_created_at = clk\<rparr> \<and>
             db' = db\<lparr>worker_heartbeats := worker_heartbeats db @ [h]\<rparr>
    | Some h0 \<Rightarrow> h = beat_row (py_strip st) now h0 \<and>
        db' = db\<lparr>worker_heartbeats := update_rows (\<lambda>h. hb_key h = (py_strip s, py_strip i))
                  (beat_row (py_strip st) now) (worker_heartbeats db)\<rparr>)"
  by (auto simp: upsert_worker_heartbeat_def bind_result_Inr_iff normalize_text_eq Let_def split: option.splits)

lemma latest_SomeD:
  assumes "get_latest_worker_heartbeat s db = Inr (Some h)"
  shows "h \<in> set (worker_heartbeats db) \<and> hb_service_name h = py_strip s \<and>
    (\<forall>h' \<in> set (worker_heartbeats db). hb_service_name h' = py_strip s \<longrightarrow>
       hb_last_heartbeat_at h' \<le> hb_last_heartbeat_at h)"
proof -
  from assms have "first_min (\<lambda>h. (- hb_last_heartbeat_at h, - hb_created_at h))
      (filter (\<lambda>h. hb_service_name h = py_strip s) (worker_heartbeats db)) = Some h"
    by (auto simp: get_latest_worker_heartbeat_def bind_result_Inr_iff normalize_text_eq)
  from first_min_SomeD[OF this] show ?thesis by (auto simp: less_eq_prod_def)
qed

lemma oldest_SomeD:
  "oldest t P db = Some x \<Longrightarrow> (\<exists>j \<in> set (jobs db). P j \<and> x = t j) \<and> (\<forall>j \<in> set (jobs db). P j \<longrightarrow> x \<le> t j)"
  by (fastforce simp: oldest_def dest: first_min_SomeD)

lemma oldest_None_iff: "oldest t P db = None \<longleftrightarrow> (\<forall>j \<in> set (jobs db). \<not> P j)"
  by (auto simp: oldest_def filter_empty_conv)

lemma age_le_iff:
  "0 \<le> limit \<Longrightarrow> (case age_seconds now (Some x) of None \<Rightarrow> True | Some a \<Rightarrow> a \<le> limit) \<longleftrightarrow> now < x + seconds (limit + 1)"
  by (auto simp: age_seconds_def seconds_def)

lemma exceeds_oldest:
  assumes "0 \<le> limit"
  shows "\<not> exceeds limit (age_seconds now (oldest t P db)) \<longleftrightarrow>
    (\<forall>j \<in> set (jobs db). P j \<longrightarrow> now < t j + seconds (limit + 1))"
proof (cases "oldest t P db")
  case None
  then show ?thesis using oldest_None_iff[of t P db] by (auto simp: exceeds_def age_seconds_def)
next
  case (Some x)
  have "\<not> exceeds limit (age_seconds now (Some x)) \<longleftrightarrow> now < x + seconds (limit + 1)"
    using age_le_iff[OF assms, of now x] by (auto simp: exceeds_def age_seconds_def)
  with Some oldest_SomeD[OF Some] show ?thesis by force
qed

lemma stuck_runnable: "is_stuck stale j \<Longrightarrow> runnable now stale j"
  by (auto simp: is_stuck_def runnable_def split: option.splits)

section \<open>Properties\<close>

text \<open>
  Heartbeats: a worker has one row however often it reports; a report returns
  the row it wrote, the row keeps the time the worker first started, and just after a
  report the row is fresh under every staleness setting, until that many seconds have
  passed.
\<close>

theorem heartbeat_upsert:
  assumes keys: "distinct (map hb_key (worker_heartbeats db))"
    and res: "upsert_worker_heartbeat s i now st clk db = Inr (h, db')"
  shows "distinct (map hb_key (worker_heartbeats db')) \<and>
    find_row (\<lambda>r. hb_key r = (py_strip s, py_strip i)) (worker_heartbeats db') = Some h \<and>
    hb_status h = py_strip st \<and> hb_last_heartbeat_at h = now \<and>
    (\<forall>h0. find_row (\<lambda>r. hb_key r = (py_strip s, py_strip i)) (worker_heartbeats db) = Some h0 \<longrightarrow>
       hb_started_at h = hb_started_at h0) \<and>
    (is_worker_heartbeat_fresh n None t h \<longleftrightarrow> t \<le> now + seconds (max 1 n))"
proof -
  have "is_worker_heartbeat_fresh n None t h \<longleftrightarrow> t \<le> hb_last_heartbeat_at h + seconds (max 1 n)"
    by (auto simp: is_worker_heartbeat_fresh_def)
  moreover let ?K = "(py_strip s, py_strip i)"
  have "distinct (map hb_key (worker_heartbeats db')) \<and>
    find_row (\<lambda>r. hb_key r = ?K) (worker_heartbeats db') = Some h \<and>
    hb_status h = py_strip st \<and> hb_last_heartbeat_at h = now \<and>
    (\<forall>h0. find_row (\<lambda>r. hb_key r = ?K) (worker_heartbeats db) = Some h0 \<longrightarrow> hb_started_at h = hb_started_at h0)"
  proof (cases "find_row (\<lambda>r. hb_key r = ?K) (worker_heartbeats db)")
    case None
    with res have h: "hb_key h = ?K" "hb_status h = py_strip st" "hb_last_heartbeat_at h = now"
      and db': "worker_heartbeats db' = worker_heartbeats db @ [h]"
      by (auto simp: upsert_unfold hb_key_def)
    from None have "?K \<notin> set (map hb_key (worker_heartbeats db))" by (auto simp: find_row_None_iff)
    with None keys h show ?thesis by (simp add: db' find_row_append find_row_Cons del: set_map)
  next
    case (Some h0)
    with res have h: "h = beat_row (py_strip st) now h0"
      and db': "worker_heartbeats db' = update_rows (\<lambda>r. hb_key r = ?K) (beat_row (py_strip st) now) (worker_heartbeats db)"
      by (auto simp: upsert_unfold)
    with Some keys show ?thesis
      by (simp add: beat_upd.keys_update beat_upd.find_same) (simp add: beat_row_def)
  qed
  ultimately show ?thesis by auto
qed

theorem heartbeat_upsert_witness:
  "\<exists>h db'. upsert_worker_heartbeat ''winoe-worker'' '' host:1 '' 50 ''running'' 50 empty_jobs_db = Inr (h, db') \<and>
     hb_last_heartbeat_at h = 50 \<and> distinct (map hb_key (worker_heartbeats db'))"
proof -
  have "isl (upsert_worker_heartbeat ''winoe-worker'' '' host:1 '' 50 ''running'' 50 empty_jobs_db) = False"
    by code_simp
  then obtain h db' where r: "upsert_worker_heartbeat ''winoe-worker'' '' host:1 '' 50 ''running'' 50 empty_jobs_db = Inr (h, db')"
    by (metis isl_def sumE surj_pair)
  have "distinct (map hb_key (worker_heartbeats empty_jobs_db))" by (simp add: empty_jobs_db_def)
  from heartbeat_upsert[OF this r] r show ?thesis by blast
qed

text \<open>
  The health summary always returns, and it says healthy exactly when the
  latest heartbeat of the worker service exists, is not a stop and is recent enough, at
  most the allowed number of running jobs hold an expired lease, no queued job has been
  due for longer than allowed (to the second), and the dead-letter table is small enough.
\<close>

theorem health_summary_exact:
  assumes lim: "0 \<le> JOB_HEALTH_MAX_OLDEST_QUEUED_SECONDS cfg"
  shows "\<exists>s h. build_job_health_summary cfg now db = Inr s \<and>
    get_latest_worker_heartbeat DEFAULT_WORKER_SERVICE_NAME db = Inr h \<and>
    (\<not> degraded s \<longleftrightarrow>
      (case h of None \<Rightarrow> False | Some b \<Rightarrow> hb_status b \<noteq> ''stopped'' \<and>
         now \<le> hb_last_heartbeat_at b + seconds (max 1 (WORKER_HEARTBEAT_STALE_SECONDS cfg))) \<and>
      int (length (filter (is_stuck (now - seconds (DEMO_ADMIN_JOB_STALE_SECONDS cfg))) (jobs db))) \<le> JOB_HEALTH_MAX_STUCK_JOBS cfg \<and>
      (\<forall>j \<in> set (jobs db). j_status j = JOB_STATUS_QUEUED \<longrightarrow>
         now < due_at j + seconds (JOB_HEALTH_MAX_OLDEST_QUEUED_SECONDS cfg + 1)) \<and>
      int (length (failed_jobs db)) \<le> JOB_HEALTH_MAX_DLQ_COUNT cfg)"
proof -
  have n: "normalize_text DEFAULT_WORKER_SERVICE_NAME ''service_name'' 100 = Inr DEFAULT_WORKER_SERVICE_NAME"
    by code_simp
  then obtain h where h: "get_latest_worker_heartbeat DEFAULT_WORKER_SERVICE_NAME db = Inr h"
    by (simp add: get_latest_worker_heartbeat_def)
  have fresh: "is_worker_heartbeat_fresh (WORKER_HEARTBEAT_STALE_SECONDS cfg) None now b \<longleftrightarrow>
      now \<le> hb_last_heartbeat_at b + seconds (max 1 (WORKER_HEARTBEAT_STALE_SECONDS cfg))" for b
    by (auto simp: is_worker_heartbeat_fresh_def)
  note old = exceeds_oldest[OF lim, of now due_at "\<lambda>j. j_status j = JOB_STATUS_QUEUED" db]
  show ?thesis
    by (cases h) (auto simp: build_job_health_summary_def h Let_def fresh count_jobs_def
        count_rows_def count_failed_jobs_def py_len_def WORKER_HEARTBEAT_STATUS_STOPPED_def not_less simp flip: old)
qed

definition demo_health :: health_settings where
  "demo_health = \<lparr>DEMO_ADMIN_JOB_STALE_SECONDS = 900, JOB_HEALTH_MAX_STUCK_JOBS = 0,
     JOB_HEALTH_MAX_OLDEST_QUEUED_SECONDS = 1800, JOB_HEALTH_MAX_DLQ_COUNT = 0,
     WORKER_HEARTBEAT_STALE_SECONDS = 60\<rparr>"

theorem health_summary_exact_witness:
  "\<exists>s. build_job_health_summary demo_health 20 two_jobs_db = Inr s \<and> degraded s"
proof -
  have "0 \<le> JOB_HEALTH_MAX_OLDEST_QUEUED_SECONDS demo_health" by (simp add: demo_health_def)
  moreover have "get_latest_worker_heartbeat DEFAULT_WORKER_SERVICE_NAME two_jobs_db = Inr None" by code_simp
  ultimately show ?thesis using health_summary_exact[of demo_health 20 two_jobs_db] by auto
qed

text \<open>
  Property C25. A principal reads a job only through one of two doors: the company of the
  talent-partner account with the principal's email, or the candidate session of the job,
  whose invite email the principal must have and which no other subject may have claimed.
  A principal without either permission reads nothing.
\<close>

theorem job_visibility:
  assumes res: "get_by_id_for_principal users sessions i p db = Inr (Some j)"
  shows "j \<in> set (jobs db) \<and> j_id j = i \<and>
    ((''talent_partner:access'' \<in> set (p_permissions p) \<and>
      (\<exists>u \<in> set users. u_email u = p_email p \<and> u_company_id u = Some (j_company_id j))) \<or>
     (''candidate:access'' \<in> set (p_permissions p) \<and>
      (\<exists>s \<in> set sessions. j_candidate_session_id j = Some (cs_id s) \<and>
         normalize_email (Some (cs_invite_email s)) = normalize_email (Some (p_email p)) \<and>
         (\<forall>sub. cs_candidate_auth0_sub s = Some sub \<longrightarrow> py_strip sub = [] \<or> py_strip sub = p_sub p))))"
proof (cases "talent_partner_job users i p db = Inr (Some j)")
  case True
  then obtain u c where u: "scalar_one_or_none (filter (\<lambda>u. u_email u = p_email p) users) = Inr (Some u)"
    "u_company_id u = Some c" "''talent_partner:access'' \<in> set (p_permissions p)"
    "find_row (\<lambda>j. j_id j = i \<and> j_company_id j = c) (jobs db) = Some j"
    by (auto simp: talent_partner_job_def bind_result_Inr_iff split: if_splits option.splits)
  then have "u \<in> set users \<and> u_email u = p_email p"
    using scalar_one_or_none_in[OF u(1)] by simp
  with u find_row_SomeD[OF u(4)] show ?thesis by auto
next
  case False
  with res have c: "candidate_job sessions i p db = Some j"
    by (auto simp: get_by_id_for_principal_def bind_result_Inr_iff split: option.splits)
  then obtain s where s: "''candidate:access'' \<in> set (p_permissions p)" "load_job i db = Some j"
    "find_row (\<lambda>s. cs_id s = the (j_candidate_session_id j)) sessions = Some s"
    "j_candidate_session_id j \<noteq> None"
    "normalize_email (Some (cs_invite_email s)) = normalize_email (Some (p_email p))"
    "py_strip (case cs_candidate_auth0_sub s of None \<Rightarrow> [] | Some x \<Rightarrow> x) \<in> {[], p_sub p}"
    by (auto simp: candidate_job_def Let_def split: if_splits option.splits)
  with find_row_SomeD[OF s(3)] load_job_SomeD[OF s(2)] show ?thesis by fastforce
qed

theorem job_visibility_witness:
  "\<exists>s \<in> set [demo_session]. j_candidate_session_id busy_job = Some (cs_id s)"
proof -
  let ?p = "\<lparr>p_sub = ''auth0|1'', p_email = ''ada@example.com'', p_permissions = [''candidate:access'']\<rparr>"
  have "get_by_id_for_principal [] [demo_session] ''b'' ?p busy_db = Inr (Some busy_job)" by code_simp
  from job_visibility[OF this] show ?thesis by auto
qed

end
