(* ===== verification/PyText.thy ===== *)
theory PyText
  imports Errors
begin

text \<open>
  Python's text operations that several components call: reading an integer, splitting a
  text into lines and into paragraphs, searching, and iterating over a JSON value.
\<close>

section \<open>Integers\<close>

fun int_digits :: "int \<Rightarrow> string \<Rightarrow> int option" where
  "int_digits acc [] = Some acc"
| "int_digits acc (c # cs) =
     (if is_digit c then int_digits (10 * acc + (code_point c - 48)) cs
      else if c = CHR ''_'' \<and> cs \<noteq> [] \<and> is_digit (hd cs)
      then int_digits (10 * acc + (code_point (hd cs) - 48)) (tl cs)
      else None)"

definition py_int_of_str :: "string \<Rightarrow> int option" where
  "py_int_of_str s0 =
     (let s = py_strip s0;
          negative = (s \<noteq> [] \<and> hd s = CHR ''-'');
          ds = (if s \<noteq> [] \<and> (hd s = CHR ''-'' \<or> hd s = CHR ''+'') then tl s else s)
      in if ds = [] \<or> \<not> is_digit (hd ds) \<or> py_len (filter is_digit ds) > 4300 then None
         else map_option (\<lambda>n. if negative then - n else n) (int_digits 0 ds))"

lemma int_digits_nonneg: "int_digits acc s = Some n \<Longrightarrow> 0 \<le> acc \<Longrightarrow> 0 \<le> n"
  by (induction acc s rule: int_digits.induct) (auto simp: is_digit_def split: if_splits)

text \<open>\<open>int(text)\<close> of a nonempty text of decimal digits: at most 4300 of them.\<close>

definition int_of_digits :: "string \<Rightarrow> int res" where
  "int_of_digits ds =
     (case (if py_len ds > 4300 then None else int_digits 0 ds) of
        None \<Rightarrow> Inl (ValueError (''Exceeds the limit (4300 digits) for integer string conversion: value has '' @
            int_str (py_len ds) @ '' digits; use sys.set_int_max_str_digits() to increase the limit''))
      | Some n \<Rightarrow> Inr n)"

section \<open>Lines and paragraphs\<close>

definition line_break :: "char \<Rightarrow> bool" where
  "line_break c \<longleftrightarrow> code_point c \<in> {10, 11, 12, 13, 28, 29, 30, 133}"

fun lines_aux :: "string \<Rightarrow> string \<Rightarrow> string list" where
  "lines_aux cur [] = (if cur = [] then [] else [rev cur])"
| "lines_aux cur [c] = [if line_break c then rev cur else rev (c # cur)]"
| "lines_aux cur (c # d # cs) =
     (if code_point c = 13 \<and> code_point d = 10 then rev cur # lines_aux [] cs
      else if line_break c then rev cur # lines_aux [] (d # cs)
      else lines_aux (c # cur) (d # cs))"

definition py_splitlines :: "string \<Rightarrow> string list" where
  "py_splitlines s = lines_aux [] s"

text \<open>\<open>text.split(chr(10) * 2)\<close>.\<close>

fun paragraphs_aux :: "string \<Rightarrow> string \<Rightarrow> string list" where
  "paragraphs_aux cur [] = [rev cur]"
| "paragraphs_aux cur [c] = [rev (c # cur)]"
| "paragraphs_aux cur (c # d # cs) =
     (if code_point c = 10 \<and> code_point d = 10 then rev cur # paragraphs_aux [] cs
      else paragraphs_aux (c # cur) (d # cs))"

definition split_paragraphs :: "string \<Rightarrow> string list" where
  "split_paragraphs s = paragraphs_aux [] s"

section \<open>Searching\<close>

text \<open>The text before the first occurrence of a pattern.\<close>

fun before :: "string \<Rightarrow> string \<Rightarrow> string" where
  "before p [] = []"
| "before p (c # cs) = (if starts_with p (c # cs) then [] else c # before p cs)"

definition ends_with :: "string \<Rightarrow> string \<Rightarrow> bool" where
  "ends_with p s \<longleftrightarrow> starts_with (rev p) (rev s)"

text \<open>The regular expression anchor \<open>$\<close>: the end of the text or its final line feed.\<close>

definition at_end :: "string \<Rightarrow> bool" where
  "at_end rest \<longleftrightarrow> rest = [] \<or> rest = [CHR 0x0A]"

section \<open>JSON values\<close>

definition json_or :: "json \<Rightarrow> json \<Rightarrow> json" where
  "json_or a b = (if truthy a then a else b)"

definition text_of :: "json \<Rightarrow> string" where
  "text_of v = (case v of JStr s \<Rightarrow> py_strip s | _ \<Rightarrow> [])"

definition objects :: "json list \<Rightarrow> obj list" where
  "objects vs = concat (map (\<lambda>v. case v of JObj d \<Rightarrow> [d] | _ \<Rightarrow> []) vs)"

text \<open>\<open>isinstance(value, int)\<close>, which Python's booleans satisfy.\<close>

definition int_of :: "json \<Rightarrow> int option" where
  "int_of v = (case v of JInt i \<Rightarrow> Some i | JBool b \<Rightarrow> Some (if b then 1 else 0) | _ \<Rightarrow> None)"

text \<open>\<open>for x in value or []\<close>.\<close>

definition items_or_empty :: "json \<Rightarrow> json list res" where
  "items_or_empty v =
     (if \<not> truthy v then Inr []
      else (case v of JList xs \<Rightarrow> Inr xs
            | JStr s \<Rightarrow> Inr (map (\<lambda>c. JStr [c]) s)
            | JObj d \<Rightarrow> Inr (map (\<lambda>(k, _). JStr k) d)
            | JFloat _ \<Rightarrow> Inl (TypeError ([CHR 0x27] @ ''float'' @ [CHR 0x27] @ '' object is not iterable''))
            | JBool _ \<Rightarrow> Inl (TypeError ([CHR 0x27] @ ''bool'' @ [CHR 0x27] @ '' object is not iterable''))
            | _ \<Rightarrow> Inl (TypeError ([CHR 0x27] @ ''int'' @ [CHR 0x27] @ '' object is not iterable''))))"

text \<open>
  Python's \<open>==\<close>: dicts compare without regard to order, a number equals the float of its
  value written without exponent, the truth values are 1 and 0.
\<close>

definition number_key :: "json \<Rightarrow> string option" where
  "number_key v = (case v of
       JInt i \<Rightarrow> Some (int_str i @ ''.0'') | JBool b \<Rightarrow> Some (if b then ''1.0'' else ''0.0'')
     | JFloat r \<Rightarrow> Some (if r = ''-0.0'' then ''0.0'' else r) | _ \<Rightarrow> None)"

fun py_equal :: "json \<Rightarrow> json \<Rightarrow> bool" where
  "py_equal (JList xs) w = (case w of JList ys \<Rightarrow> list_all2 py_equal xs ys | _ \<Rightarrow> False)"
| "py_equal (JObj d) w = (case w of
       JObj e \<Rightarrow> length d = length e \<and>
         list_all (\<lambda>(k, v). case map_of e k of None \<Rightarrow> False | Some u \<Rightarrow> py_equal v u) d
     | _ \<Rightarrow> False)"
| "py_equal (JStr s) w = (w = JStr s)"
| "py_equal JNull w = (w = JNull)"
| "py_equal v w = (number_key w = number_key v)"

lemma objects_iff [simp]: "d \<in> set (objects vs) \<longleftrightarrow> JObj d \<in> set vs"
  by (induction vs) (auto simp: objects_def split: json.splits)

lemma text_of_simps [simp]: "text_of (JStr s) = py_strip s" "text_of JNull = []"
  by (simp_all add: text_of_def)

lemma text_of_strip [simp]: "py_strip (text_of v) = text_of v"
  by (cases v) (simp_all add: text_of_def py_strip_def[of "[]"])

end
