(* ===== verification/JobFailures.thy ===== *)
theory JobFailures
  imports JobLifecycle Sessions PyText "HOL-Library.Multiset"
begin

text \<open>
  What an operator or a trial page sees of a failed job: redaction of secrets, the failure
  category, the human-readable reason, the failed-job summaries and their pagination, and
  the failures of one trial. The five redaction patterns and the correlation pattern are
  sequences of character classes with greedy repetition; \<open>rx_match\<close> is their backtracking
  match. The database's reading of a JSON value as an integer is the parameter
  \<open>as_integer\<close>. Title case is modelled for the letters whose upper case is Latin-1.
\<close>

section \<open>Patterns\<close>

datatype rx_item =
    Once "char \<Rightarrow> bool"
  | Maybe "char \<Rightarrow> bool"
  | Star "char \<Rightarrow> bool"
  | Plus "char \<Rightarrow> bool"

definition grow_chunk :: "char \<Rightarrow> string list \<times> string \<Rightarrow> string list \<times> string" where
  "grow_chunk c m = (case fst m of [] \<Rightarrow> m | k # ks \<Rightarrow> ((c # k) # ks, snd m))"

definition new_chunk :: "string list \<times> string \<Rightarrow> string list \<times> string" where
  "new_chunk m = ([] # fst m, snd m)"

fun rx_match :: "rx_item list \<Rightarrow> string \<Rightarrow> (string list \<times> string) option" where
  "rx_match [] s = Some ([], s)"
| "rx_match (Once P # ps) [] = None"
| "rx_match (Once P # ps) (c # cs) =
     (if P c then map_option (\<lambda>m. grow_chunk c (new_chunk m)) (rx_match ps cs) else None)"
| "rx_match (Maybe P # ps) [] = map_option new_chunk (rx_match ps [])"
| "rx_match (Maybe P # ps) (c # cs) =
     (case (if P c then rx_match ps cs else None) of
        Some m \<Rightarrow> Some (grow_chunk c (new_chunk m))
      | None \<Rightarrow> map_option new_chunk (rx_match ps (c # cs)))"
| "rx_match (Star P # ps) [] = map_option new_chunk (rx_match ps [])"
| "rx_match (Star P # ps) (c # cs) =
     (case (if P c then rx_match (Star P # ps) cs else None) of
        Some m \<Rightarrow> Some (grow_chunk c m)
      | None \<Rightarrow> map_option new_chunk (rx_match ps (c # cs)))"
| "rx_match (Plus P # ps) [] = None"
| "rx_match (Plus P # ps) (c # cs) =
     (if P c then map_option (grow_chunk c) (rx_match (Star P # ps) cs) else None)"

definition lit :: "string \<Rightarrow> rx_item list" where
  "lit s = map (\<lambda>p. Once (\<lambda>c. lower_char c = p)) s"

definition in_chars :: "string \<Rightarrow> char \<Rightarrow> bool" where
  "in_chars s c \<longleftrightarrow> c \<in> set s"

definition sep_char :: "char \<Rightarrow> bool" where
  "sep_char c \<longleftrightarrow> in_chars [CHR 0x22, CHR 0x27, CHR ''='', CHR '':''] c \<or> py_space c"

definition ident_char :: "char \<Rightarrow> bool" where
  "ident_char c \<longleftrightarrow> (let n = code_point (lower_char c) in (97 \<le> n \<and> n \<le> 122) \<or> (48 \<le> n \<and> n \<le> 57) \<or> n = 95)"

definition dash_char :: "char \<Rightarrow> bool" where
  "dash_char c \<longleftrightarrow> in_chars ''_-'' c"

definition value_char :: "string \<Rightarrow> char \<Rightarrow> bool" where
  "value_char stops c \<longleftrightarrow> \<not> py_space c \<and> \<not> in_chars stops c"

definition SECRET_PATTERNS :: "rx_item list list" where
  "SECRET_PATTERNS =
     [lit ''authorization:'' @ [Star py_space] @ lit ''bearer'' @ [Plus py_space, Plus (value_char '',;'')],
      lit ''github'' @ [Maybe dash_char] @ lit ''token'' @ [Plus sep_char, Plus (value_char ('',;'' @ [CHR 0x7D]))],
      lit ''auth0'' @ [Maybe dash_char, Star ident_char] @ lit ''secret'' @
        [Plus sep_char, Plus (value_char ('',;'' @ [CHR 0x7D]))],
      lit ''api'' @ [Maybe dash_char] @ lit ''key'' @ [Plus sep_char, Plus (value_char ('',;'' @ [CHR 0x7D]))],
      lit ''token'' @ [Plus sep_char, Plus (value_char ('',;'' @ [CHR 0x7D]))]]"

lemma snd_chunks [simp]: "snd (grow_chunk c m) = snd m" "snd (new_chunk m) = snd m"
  by (simp_all add: grow_chunk_def new_chunk_def split: list.splits)

text \<open>\<open>pattern.sub(r"\1[redacted]", text)\<close>: the group is everything but the last item.\<close>

function rx_sub :: "rx_item list \<Rightarrow> string \<Rightarrow> string" where
  "rx_sub ps [] = []"
| "rx_sub ps (c # cs) =
     (case rx_match ps (c # cs) of
        Some m \<Rightarrow>
          (if length (snd m) < length (c # cs)
           then concat (butlast (fst m)) @ ''[redacted]'' @ rx_sub ps (snd m)
           else c # rx_sub ps cs)
      | None \<Rightarrow> c # rx_sub ps cs)"
  by pat_completeness auto
termination by (relation "measure (\<lambda>(ps, s). length s)") auto

declare rx_sub.simps [simp del]
declare rx_sub.simps [code]

section \<open>Reasons\<close>

definition STACK_TRACE_MARKERS :: "string list" where
  "STACK_TRACE_MARKERS = [''traceback (most recent call last)'', ''file '' @ [CHR 0x22], ''sqlalchemy.exc.'']"

definition redact_failure_text :: "string option \<Rightarrow> string" where
  "redact_failure_text value =
     fold rx_sub SECRET_PATTERNS (sanitize_error (case value of None \<Rightarrow> [] | Some s \<Rightarrow> s))"

definition failure_category :: "string option \<Rightarrow> string" where
  "failure_category error =
     (let lowered = py_lower (case error of None \<Rightarrow> [] | Some s \<Rightarrow> s)
      in if lowered = [] then ''unclassified''
         else if contains ''github'' lowered then ''github''
         else if contains ''transcrib'' lowered \<or> contains ''unsupported file'' lowered then ''media_transcription''
         else if contains ''evaluation'' lowered \<or> contains ''winoe report'' lowered \<or> contains ''model_'' lowered
         then ''evaluation''
         else if contains ''timeout'' lowered \<or> contains ''timed out'' lowered then ''provider_timeout''
         else if contains ''rate limit'' lowered \<or> contains ''429'' lowered then ''provider_rate_limit''
         else ''unclassified'')"

definition upper_char :: "char \<Rightarrow> char" where
  "upper_char c = (let n = code_point c in
     if (97 \<le> n \<and> n \<le> 122) \<or> (224 \<le> n \<and> n \<le> 254 \<and> n \<noteq> 247) then char_of (n - 32) else c)"

definition cased :: "char \<Rightarrow> bool" where
  "cased c \<longleftrightarrow> upper_char c \<noteq> lower_char c \<or> code_point c \<in> {223, 255, 181, 170, 186}"

fun title_aux :: "bool \<Rightarrow> string \<Rightarrow> string" where
  "title_aux inside [] = []"
| "title_aux inside (c # cs) = (if inside then lower_char c else upper_char c) # title_aux (cased c) cs"

definition py_title :: "string \<Rightarrow> string" where
  "py_title s = title_aux False s"

definition human_failure_reason :: "string option \<Rightarrow> string option \<Rightarrow> string" where
  "human_failure_reason job_type error =
     (let redacted0 = redact_failure_text error;
          lowered = py_lower redacted0;
          category = failure_category (Some redacted0);
          redacted = (if list_ex (\<lambda>marker. contains marker lowered) STACK_TRACE_MARKERS then [] else redacted0)
      in if category = ''github'' then ''GitHub operation failed after the job reached its retry limit.''
         else if category = ''media_transcription''
         then (if redacted \<noteq> [] then ''Media transcription failed: '' @ redacted
               else ''Media transcription failed.'')
         else if category = ''evaluation''
         then (if contains ''timeout'' lowered \<or> contains ''timed out'' lowered
               then ''Evaluation provider timed out while generating the Winoe Report.''
               else ''Evaluation failed while generating the Winoe Report.'')
         else if category = ''provider_timeout'' then ''Provider timed out while processing the job.''
         else if category = ''provider_rate_limit''
         then ''Provider rate limit prevented the job from completing.''
         else (case job_type of
             None \<Rightarrow> ''Job failed with an unclassified error. Use the job id to inspect server logs.''
           | Some t \<Rightarrow> if t = []
               then ''Job failed with an unclassified error. Use the job id to inspect server logs.''
               else py_title (map (\<lambda>c. if c = CHR ''_'' then CHR '' '' else c) t) @
                 '' failed with an unclassified error. Use the job id to inspect server logs.''))"

section \<open>Summaries\<close>

definition positive_int :: "json \<Rightarrow> int option" where
  "positive_int value =
     (case (case value of JInt i \<Rightarrow> Some i | JBool b \<Rightarrow> Some (if b then 1 else 0)
                        | JStr s \<Rightarrow> py_int_of_str s | _ \<Rightarrow> None) of
        None \<Rightarrow> None
      | Some n \<Rightarrow> if n > 0 then Some n else None)"

definition correlation_end :: "string \<Rightarrow> bool" where
  "correlation_end rest \<longleftrightarrow> rest = [] \<or> rest = [CHR 0x0A] \<or> hd rest = CHR '':''"

definition correlation_here :: "string \<Rightarrow> string option" where
  "correlation_here s =
     (if starts_with ''trial:'' s
      then let ds = takeWhile is_digit (drop 6 s)
           in if ds \<noteq> [] \<and> correlation_end (drop (6 + length ds) s) then Some ds else None
      else None)"

fun correlation_after_colon :: "string \<Rightarrow> string option" where
  "correlation_after_colon [] = None"
| "correlation_after_colon (c # cs) =
     (case (if c = CHR '':'' then correlation_here cs else None) of
        Some ds \<Rightarrow> Some ds
      | None \<Rightarrow> correlation_after_colon cs)"

definition trial_correlation_search :: "string \<Rightarrow> string option" where
  "trial_correlation_search s =
     (case correlation_here s of Some ds \<Rightarrow> Some ds | None \<Rightarrow> correlation_after_colon s)"

definition trial_id_from_job :: "int option \<Rightarrow> job \<Rightarrow> int option" where
  "trial_id_from_job candidate_trial_id j =
     (case candidate_trial_id of Some t \<Rightarrow> Some t
      | None \<Rightarrow>
          (case positive_int (dict_get ''trialId'' (j_payload_json j)) of Some t \<Rightarrow> Some t
           | None \<Rightarrow>
               (case positive_int (dict_get ''trial_id'' (j_payload_json j)) of Some t \<Rightarrow> Some t
                | None \<Rightarrow>
                    (case trial_correlation_search (case j_correlation_id j of None \<Rightarrow> [] | Some c \<Rightarrow> c) of
                       None \<Rightarrow> None
                     | Some ds \<Rightarrow> positive_int (JStr ds)))))"

record safe_failed_job_summary =
  sf_jobId :: string
  sf_jobType :: string
  sf_status :: job_status
  sf_workerName :: "string option"
  sf_trialId :: "int option"
  sf_candidateSessionId :: "int option"
  sf_attempts :: int
  sf_maxAttempts :: int
  sf_createdAt :: datetime
  sf_updatedAt :: datetime
  sf_failedAt :: "datetime option"
  sf_nextRetryAt :: "datetime option"
  sf_failureReason :: string
  sf_failureCode :: string

definition summary_of :: "int option \<Rightarrow> job \<Rightarrow> safe_failed_job_summary" where
  "summary_of candidate_trial_id j =
     \<lparr>sf_jobId = j_id j, sf_jobType = j_job_type j, sf_status = j_status j, sf_workerName = j_locked_by j,
      sf_trialId = trial_id_from_job candidate_trial_id j,
      sf_candidateSessionId = j_candidate_session_id j, sf_attempts = j_attempt j,
      sf_maxAttempts = j_max_attempts j, sf_createdAt = j_created_at j, sf_updatedAt = j_updated_at j,
      sf_failedAt = (if j_status j = JOB_STATUS_DEAD_LETTER then Some (j_updated_at j) else None),
      sf_nextRetryAt = j_next_run_at j,
      sf_failureReason = human_failure_reason (Some (j_job_type j)) (j_last_error j),
      sf_failureCode = failure_category (j_last_error j)\<rparr>"

record failed_jobs_list_response =
  fl_items :: "safe_failed_job_summary list"
  fl_limit :: nat
  fl_offset :: nat
  fl_total :: int

definition session_trial_id :: "candidate_session list \<Rightarrow> job \<Rightarrow> int option" where
  "session_trial_id sessions j =
     (case j_candidate_session_id j of None \<Rightarrow> None
      | Some sid \<Rightarrow> map_option cs_trial_id (find_row (\<lambda>s. cs_id s = sid) sessions))"

definition newest_first :: "job list \<Rightarrow> job list" where
  "newest_first js = sort_key (\<lambda>j. (- j_updated_at j, - j_created_at j)) js"

definition list_failed_jobs ::
    "candidate_session list \<Rightarrow> nat \<Rightarrow> nat \<Rightarrow> jobs_db \<Rightarrow> failed_jobs_list_response" where
  "list_failed_jobs sessions limit offset db =
     (let dead = filter (\<lambda>j. j_status j = JOB_STATUS_DEAD_LETTER) (jobs db)
      in \<lparr>fl_items = map (\<lambda>j. summary_of (session_trial_id sessions j) j)
                       (take limit (drop offset (newest_first dead))),
          fl_limit = limit, fl_offset = offset, fl_total = py_len dead\<rparr>)"

definition trial_failed_jobs_filter ::
    "(json \<Rightarrow> int option) \<Rightarrow> candidate_session list \<Rightarrow> int \<Rightarrow> job \<Rightarrow> bool" where
  "trial_failed_jobs_filter as_integer sessions trial_id j \<longleftrightarrow>
     session_trial_id sessions j = Some trial_id \<or>
     j_correlation_id j = Some (''trial:'' @ int_str trial_id) \<or>
     (case j_correlation_id j of None \<Rightarrow> False
      | Some c \<Rightarrow> starts_with (''trial:'' @ int_str trial_id @ '':'') c) \<or>
     as_integer (dict_get ''trialId'' (j_payload_json j)) = Some trial_id \<or>
     as_integer (dict_get ''trial_id'' (j_payload_json j)) = Some trial_id"

record trial_background_failures =
  tb_hasFailedJobs :: bool
  tb_failedJobsCount :: int
  tb_latestFailure :: "(string \<times> string \<times> datetime option \<times> string) option"

definition trial_background_failures_of ::
    "(json \<Rightarrow> int option) \<Rightarrow> candidate_session list \<Rightarrow> int \<Rightarrow> int \<Rightarrow> jobs_db \<Rightarrow> trial_background_failures" where
  "trial_background_failures_of as_integer sessions trial_id company_id db =
     (let failed = filter (\<lambda>j. j_company_id j = company_id \<and> j_status j = JOB_STATUS_DEAD_LETTER \<and>
            trial_failed_jobs_filter as_integer sessions trial_id j) (jobs db)
      in case newest_first failed of
           [] \<Rightarrow> \<lparr>tb_hasFailedJobs = False, tb_failedJobsCount = 0, tb_latestFailure = None\<rparr>
         | j # _ \<Rightarrow>
             (let latest = summary_of (session_trial_id sessions j) j
              in \<lparr>tb_hasFailedJobs = True, tb_failedJobsCount = py_len failed,
                  tb_latestFailure = Some (sf_jobId latest, sf_jobType latest, sf_failedAt latest,
                    sf_failureReason latest)\<rparr>))"

section \<open>Facts\<close>

lemma newest_first_mset [simp]: "mset (newest_first js) = mset js"
  by (simp add: newest_first_def)

lemma newest_first_set [simp]: "set (newest_first js) = set js"
  by (simp add: newest_first_def)

lemma newest_first_length [simp]: "length (newest_first js) = length js"
  by (simp add: newest_first_def)

lemma newest_first_sorted: "sorted_wrt (\<lambda>x y. j_updated_at y \<le> j_updated_at x) (newest_first js)"
proof -
  have "sorted (map (\<lambda>j. (- j_updated_at j, - j_created_at j)) (newest_first js))"
    by (simp add: newest_first_def)
  then have "sorted_wrt (\<lambda>x y. (- j_updated_at x, - j_created_at x) \<le> (- j_updated_at y, - j_created_at y)) (newest_first js)"
    by (simp add: sorted_map)
  then show ?thesis by (rule sorted_wrt_mono_rel[rotated]) (auto simp: less_eq_prod_def)
qed

lemma take_append_drop: "take a (drop n xs) @ take b (drop (n + a) xs) = take (a + b) (drop n xs)"
  by (simp add: take_add add.commute)

lemma summary_sel [simp]:
  "sf_jobId (summary_of t j) = j_id j" "sf_updatedAt (summary_of t j) = j_updated_at j"
  by (simp_all add: summary_of_def)

section \<open>Properties\<close>

text \<open>
  What a failed job shows is safe by construction: the reason is one of
  seven fixed sentences, or names the job type only, or, for a media transcription
  failure alone, quotes the error after redaction and only if no stack-trace marker is
  in it.
\<close>

theorem failure_reason_is_safe:
  "human_failure_reason jt e \<in>
     {''GitHub operation failed after the job reached its retry limit.'',
      ''Media transcription failed.'',
      ''Evaluation provider timed out while generating the Winoe Report.'',
      ''Evaluation failed while generating the Winoe Report.'',
      ''Provider timed out while processing the job.'',
      ''Provider rate limit prevented the job from completing.'',
      ''Job failed with an unclassified error. Use the job id to inspect server logs.''} \<or>
   (\<exists>t. jt = Some t \<and> human_failure_reason jt e =
      py_title (map (\<lambda>c. if c = CHR ''_'' then CHR '' '' else c) t) @
      '' failed with an unclassified error. Use the job id to inspect server logs.'') \<or>
   (\<exists>r. r = redact_failure_text e \<and> failure_category (Some r) = ''media_transcription'' \<and>
      human_failure_reason jt e = ''Media transcription failed: '' @ r \<and>
      filter (\<lambda>marker. contains marker (py_lower r)) STACK_TRACE_MARKERS = [])"
proof (cases "failure_category (Some (redact_failure_text e)) = ''media_transcription''")
  case True
  then show ?thesis
    by (auto simp: human_failure_reason_def Let_def list_ex_iff filter_empty_conv)
next
  case False
  then show ?thesis by (cases jt) (simp_all add: human_failure_reason_def Let_def)
qed

text \<open>
  The operator's list pages through all dead-lettered jobs: consecutive
  pages concatenate to one page, a page of the total size holds every dead-lettered job
  exactly once, newest first, and the total counts them.
\<close>

theorem failed_jobs_pages:
  "fl_items (list_failed_jobs ss a n db) @ fl_items (list_failed_jobs ss b (n + a) db) =
     fl_items (list_failed_jobs ss (a + b) n db) \<and>
   mset (map sf_jobId (fl_items (list_failed_jobs ss (nat (fl_total (list_failed_jobs ss a n db))) 0 db))) =
     mset (map j_id (filter (\<lambda>j. j_status j = JOB_STATUS_DEAD_LETTER) (jobs db))) \<and>
   sorted_wrt (\<lambda>x y. sf_updatedAt y \<le> sf_updatedAt x) (fl_items (list_failed_jobs ss a n db))"
proof -
  let ?dead = "filter (\<lambda>j. j_status j = JOB_STATUS_DEAD_LETTER) (jobs db)"
  have "fl_items (list_failed_jobs ss a n db) @ fl_items (list_failed_jobs ss b (n + a) db) =
      fl_items (list_failed_jobs ss (a + b) n db)"
    unfolding list_failed_jobs_def Let_def by (simp only: failed_jobs_list_response.simps map_append[symmetric] take_append_drop)
  moreover have "mset (map j_id (newest_first ?dead)) = mset (map j_id ?dead)" by simp
  moreover have "sorted_wrt (\<lambda>x y. sf_updatedAt y \<le> sf_updatedAt x) (fl_items (list_failed_jobs ss a n db))"
    using newest_first_sorted[of ?dead]
    by (simp add: list_failed_jobs_def Let_def sorted_wrt_map sorted_wrt_take sorted_wrt_drop)
  ultimately show ?thesis by (simp add: list_failed_jobs_def Let_def py_len_def o_def)
qed

text \<open>
  The failures a trial page shows stay inside the company: there is a latest
  failure exactly when some dead-lettered job of the company belongs to the trial, the
  count is their number, and the one shown is the newest of them.
\<close>

theorem trial_failures_scoped:
  assumes res: "trial_background_failures_of ai ss t c db = r"
  shows "(tb_hasFailedJobs r \<longleftrightarrow> tb_latestFailure r \<noteq> None) \<and>
    tb_failedJobsCount r = int (length (filter (\<lambda>j. j_company_id j = c \<and> j_status j = JOB_STATUS_DEAD_LETTER \<and>
       trial_failed_jobs_filter ai ss t j) (jobs db))) \<and>
    (tb_hasFailedJobs r \<longleftrightarrow> tb_failedJobsCount r > 0) \<and>
    (\<forall>i jt at reason. tb_latestFailure r = Some (i, jt, at, reason) \<longrightarrow>
       (\<exists>j \<in> set (jobs db). j_id j = i \<and> j_company_id j = c \<and> j_status j = JOB_STATUS_DEAD_LETTER \<and>
          trial_failed_jobs_filter ai ss t j \<and> at = Some (j_updated_at j) \<and>
          (\<forall>j' \<in> set (jobs db). j_company_id j' = c \<and> j_status j' = JOB_STATUS_DEAD_LETTER \<and>
             trial_failed_jobs_filter ai ss t j' \<longrightarrow> j_updated_at j' \<le> j_updated_at j)))"
proof -
  let ?P = "\<lambda>j. j_company_id j = c \<and> j_status j = JOB_STATUS_DEAD_LETTER \<and> trial_failed_jobs_filter ai ss t j"
  let ?failed = "filter ?P (jobs db)"
  show ?thesis
  proof (cases "newest_first ?failed")
    case Nil
    then have "?failed = []" by (metis newest_first_length length_0_conv)
    with Nil res show ?thesis by (auto simp: trial_background_failures_of_def Let_def)
  next
    case (Cons j rest)
    then have mem: "j \<in> set ?failed" by (metis newest_first_set list.set_intros(1))
    have newest: "j_updated_at j' \<le> j_updated_at j" if "j' \<in> set ?failed" for j'
    proof -
      have "j' \<in> set (j # rest)" using that Cons by (metis newest_first_set)
      then show ?thesis using newest_first_sorted[of ?failed] by (auto simp: Cons)
    qed
    have r: "r = \<lparr>tb_hasFailedJobs = True, tb_failedJobsCount = py_len ?failed,
        tb_latestFailure = Some (j_id j, j_job_type j, Some (j_updated_at j),
          human_failure_reason (Some (j_job_type j)) (j_last_error j))\<rparr>"
      using res Cons mem by (auto simp: trial_background_failures_of_def Let_def summary_of_def)
    have pos: "0 < length ?failed" using mem by (rule length_pos_if_in_set)
    show ?thesis
      using pos mem newest by (simp add: r py_len_def) (intro bexI[of _ j], auto)
  qed
qed

definition some_int :: "json \<Rightarrow> int option" where
  "some_int v = (case v of JInt i \<Rightarrow> Some i | _ \<Rightarrow> None)"

theorem trial_failures_scoped_witness:
  "tb_failedJobsCount (trial_background_failures_of some_int [demo_session] 3 1 dead_db) = 1"
proof -
  have "length (filter (\<lambda>j. j_company_id j = 1 \<and> j_status j = JOB_STATUS_DEAD_LETTER \<and>
     trial_failed_jobs_filter some_int [demo_session] 3 j) (jobs dead_db)) = 1" by code_simp
  then show ?thesis
    using trial_failures_scoped[OF refl, of some_int "[demo_session]" 3 1 dead_db] by simp
qed

end
