(* ===== verification/JobWorker.thy ===== *)
theory JobWorker
  imports JobLifecycle
begin

text \<open>
  The worker runtime: the registry of handlers, the backoff of a retry, the decision
  between a retry and the dead letter, and one run of the worker on the next runnable
  job. A handler is a parameter: it maps its payload and the state to what it returns or
  raises and to the state it leaves, which includes what other sessions commit while it
  runs. A registry is the dict of handlers.
\<close>

section \<open>Handlers and their registry\<close>

datatype job_exception = JobException (permanent: bool) (type_name: string) (message: string)

datatype handler_outcome = Returned json | Raised job_exception

type_synonym job_handler = "obj \<Rightarrow> jobs_db \<Rightarrow> handler_outcome \<times> jobs_db"

type_synonym handler_registry = "(string \<times> job_handler) list"

definition normalize_job_type :: "string \<Rightarrow> string" where
  "normalize_job_type job_type = py_strip job_type"

definition register_handler :: "string \<Rightarrow> job_handler \<Rightarrow> handler_registry \<Rightarrow> handler_registry res" where
  "register_handler job_type handler reg =
     (let normalized = normalize_job_type job_type
      in if normalized = [] then Inl (ValueError ''job_type is required'')
         else Inr ((normalized, handler) # filter (\<lambda>(t, _). t \<noteq> normalized) reg))"

definition has_handler :: "string \<Rightarrow> handler_registry \<Rightarrow> bool" where
  "has_handler job_type reg =
     (let normalized = normalize_job_type job_type
      in normalized \<noteq> [] \<and> map_of reg normalized \<noteq> None)"

definition get_handler :: "string \<Rightarrow> handler_registry \<Rightarrow> job_handler option" where
  "get_handler job_type reg = map_of reg job_type"

definition invoke_handler :: "job_handler \<Rightarrow> obj \<Rightarrow> jobs_db \<Rightarrow> (job_exception + obj option) \<times> jobs_db" where
  "invoke_handler handler payload db =
     (case handler payload db of (outcome, db') \<Rightarrow>
        ((case outcome of
            Raised e \<Rightarrow> Inl e
          | Returned v \<Rightarrow>
              (case v of
                 JNull \<Rightarrow> Inr None
               | JObj d \<Rightarrow> Inr (Some d)
               | _ \<Rightarrow> Inl (JobException True ''PermanentJobError''
                       ''job handler result must be a JSON object or null''))), db'))"

definition format_error :: "job_exception \<Rightarrow> string" where
  "format_error e = type_name e @ '': '' @ message e"

section \<open>Backoff\<close>

definition DEFAULT_LEASE_SECONDS :: int where "DEFAULT_LEASE_SECONDS = 300"

definition DEFAULT_BASE_BACKOFF_SECONDS :: int where "DEFAULT_BASE_BACKOFF_SECONDS = 60"

definition DEFAULT_MAX_BACKOFF_SECONDS :: int where "DEFAULT_MAX_BACKOFF_SECONDS = 1800"

definition DEFAULT_BACKOFF_SCHEDULE_SECONDS :: "int list" where
  "DEFAULT_BACKOFF_SCHEDULE_SECONDS = [60, 300, 1800]"

definition compute_backoff_seconds :: "int \<Rightarrow> int \<Rightarrow> int \<Rightarrow> int" where
  "compute_backoff_seconds attempt base_seconds max_seconds =
     (if base_seconds = DEFAULT_BASE_BACKOFF_SECONDS
      then (let index = max 0 (min (py_len DEFAULT_BACKOFF_SCHEDULE_SECONDS - 1) (attempt - 1))
            in min max_seconds (DEFAULT_BACKOFF_SCHEDULE_SECONDS ! nat index))
      else if attempt < 1 then base_seconds
      else min max_seconds (base_seconds * 2 ^ nat (attempt - 1)))"

definition RATE_LIMIT_ERROR_MARKERS :: "string list" where
  "RATE_LIMIT_ERROR_MARKERS = [''ratelimiterror'', ''too many requests'', ''rate limit'', ''429'']"

definition TRANSIENT_PROVIDER_ERROR_MARKERS :: "string list" where
  "TRANSIENT_PROVIDER_ERROR_MARKERS = [''apitimeouterror'', ''apiconnectionerror'',
     ''internalservererror'', ''serviceunavailableerror'', ''overloadederror'']"

definition PROVIDER_BACKOFF_BASE_SECONDS :: int where "PROVIDER_BACKOFF_BASE_SECONDS = 15"

definition PROVIDER_BACKOFF_MAX_SECONDS :: int where "PROVIDER_BACKOFF_MAX_SECONDS = 180"

definition is_provider_backoff_error :: "string \<Rightarrow> bool" where
  "is_provider_backoff_error error_str =
     (let normalized = py_lower (py_strip error_str)
      in if normalized = [] then False
         else list_ex (\<lambda>marker. contains marker normalized)
                (RATE_LIMIT_ERROR_MARKERS @ TRANSIENT_PROVIDER_ERROR_MARKERS))"

section \<open>Failure paths\<close>

record backoff_config =
  base_backoff_seconds :: int
  max_backoff_seconds :: int

definition retry_delay :: "backoff_config \<Rightarrow> int \<Rightarrow> string \<Rightarrow> int" where
  "retry_delay cfg attempt error_str =
     (if is_provider_backoff_error error_str
      then compute_backoff_seconds attempt
             (max (base_backoff_seconds cfg) PROVIDER_BACKOFF_BASE_SECONDS)
             (max (max_backoff_seconds cfg) PROVIDER_BACKOFF_MAX_SECONDS)
      else compute_backoff_seconds attempt (base_backoff_seconds cfg) (max_backoff_seconds cfg))"

definition retry_or_dead_letter ::
    "backoff_config \<Rightarrow> job \<Rightarrow> string \<Rightarrow> datetime \<Rightarrow> jobs_db \<Rightarrow> jobs_db res" where
  "retry_or_dead_letter cfg j error_str claim_time db =
     (if j_attempt j < j_max_attempts j
      then Inr (mark_failed_and_reschedule (j_id j) error_str
                  (Some (claim_time + seconds (retry_delay cfg (j_attempt j) error_str))) claim_time db)
      else mark_dead_letter (j_id j) error_str claim_time db)"

definition handle_handler_exception ::
    "backoff_config \<Rightarrow> job \<Rightarrow> job_exception \<Rightarrow> datetime \<Rightarrow> jobs_db \<Rightarrow> jobs_db res" where
  "handle_handler_exception cfg j e claim_time db =
     (if permanent e then mark_dead_letter (j_id j) (format_error e) claim_time db
      else retry_or_dead_letter cfg j (format_error e) claim_time db)"

definition dead_letter_missing_handler :: "string \<Rightarrow> string \<Rightarrow> datetime \<Rightarrow> jobs_db \<Rightarrow> jobs_db res" where
  "dead_letter_missing_handler job_id job_type claim_time db =
     mark_dead_letter job_id
       (''PermanentJobError: no handler registered for job_type='' @ job_type) claim_time db"

definition verify_handler_rescheduled :: "string \<Rightarrow> jobs_db \<Rightarrow> bool" where
  "verify_handler_rescheduled job_id db =
     (case load_job job_id db of
        None \<Rightarrow> False
      | Some refreshed \<Rightarrow>
          j_status refreshed = JOB_STATUS_QUEUED \<and> j_locked_at refreshed = None \<and>
          (case j_locked_by refreshed of None \<Rightarrow> True | Some w \<Rightarrow> w = []))"

definition handle_handler_reschedule ::
    "backoff_config \<Rightarrow> job \<Rightarrow> obj option \<Rightarrow> datetime \<Rightarrow> jobs_db \<Rightarrow> (bool \<times> jobs_db) res" where
  "handle_handler_reschedule cfg j result claim_time db =
     (if (case result of None \<Rightarrow> True | Some d \<Rightarrow> dict_get ''_jobDisposition'' d \<noteq> JStr ''rescheduled'')
      then Inr (False, db)
      else if verify_handler_rescheduled (j_id j) db then Inr (True, db)
      else bind_result (retry_or_dead_letter cfg j
             ''handler_reschedule_failed: job still running/locked after handler disposition=rescheduled''
             claim_time db) (\<lambda>db'. Inr (True, db')))"

section \<open>One run of the worker\<close>

definition logical_key :: "job \<Rightarrow> string" where
  "logical_key j =
     (let v = dict_get ''originalIdempotencyKey'' (j_payload_json j)
      in if truthy v then py_str v else j_idempotency_key j)"

definition find_successful_idempotent_job :: "job \<Rightarrow> jobs_db \<Rightarrow> job option" where
  "find_successful_idempotent_job j db =
     (if logical_key j = [] then None
      else find_row (\<lambda>candidate. logical_key candidate = logical_key j)
             (filter (\<lambda>x. j_id x \<noteq> j_id j \<and> j_company_id x = j_company_id j \<and>
                j_job_type x = j_job_type j \<and> j_status x = JOB_STATUS_SUCCEEDED) (jobs db)))"

definition process_claimed_job ::
    "handler_registry \<Rightarrow> backoff_config \<Rightarrow> job \<Rightarrow> datetime \<Rightarrow> jobs_db \<Rightarrow> jobs_db res" where
  "process_claimed_job reg cfg j claim_time db =
     (case find_successful_idempotent_job j db of
        Some duplicate \<Rightarrow>
          Inr (mark_succeeded (j_id j)
            (Some [(''status'', JStr ''skipped_idempotent''), (''matchedJobId'', JStr (j_id duplicate))])
            claim_time db)
      | None \<Rightarrow>
          (case get_handler (j_job_type j) reg of
             None \<Rightarrow> dead_letter_missing_handler (j_id j) (j_job_type j) claim_time db
           | Some handler \<Rightarrow>
               (case invoke_handler handler
                       (dict_setdefault ''jobId'' (JStr (j_id j)) (j_payload_json j)) db of
                  (Inl e, db1) \<Rightarrow> handle_handler_exception cfg j e claim_time db1
                | (Inr result, db1) \<Rightarrow>
                    bind_result (handle_handler_reschedule cfg j result claim_time db1) (\<lambda>(handled, db2).
                      if handled then Inr db2
                      else Inr (mark_succeeded (j_id j) result claim_time db2)))))"

definition run_once ::
    "(nat \<Rightarrow> jobs_db \<Rightarrow> jobs_db) \<Rightarrow> handler_registry \<Rightarrow> backoff_config \<Rightarrow> string \<Rightarrow>
     datetime option \<Rightarrow> int \<Rightarrow> datetime \<Rightarrow> jobs_db \<Rightarrow> (bool \<times> jobs_db) res" where
  "run_once env reg cfg worker_id now lease_seconds clk db =
     (let claim_time = (case now of None \<Rightarrow> clk | Some t \<Rightarrow> t)
      in case claim_next_runnable env worker_id claim_time lease_seconds db of
           (None, db1) \<Rightarrow> Inr (False, db1)
         | (Some j, db1) \<Rightarrow>
             bind_result (process_claimed_job reg cfg j claim_time db1) (\<lambda>db2. Inr (True, db2)))"

section \<open>Facts\<close>

lemma schedule_nth:
  "DEFAULT_BACKOFF_SCHEDULE_SECONDS ! nat (max 0 (min (py_len DEFAULT_BACKOFF_SCHEDULE_SECONDS - 1) (a - 1))) =
   (if a \<le> 1 then 60 else if a = 2 then 300 else 1800)"
proof -
  have len: "py_len DEFAULT_BACKOFF_SCHEDULE_SECONDS = 3"
    by (simp add: py_len_def DEFAULT_BACKOFF_SCHEDULE_SECONDS_def)
  consider "a \<le> 1" | "a = 2" | "a \<ge> 3" by linarith
  then show ?thesis
  proof cases
    case 3
    then have "nat (max 0 (min (3 - 1) (a - 1))) = 2" by simp
    with 3 show ?thesis by (simp only: len) (simp add: DEFAULT_BACKOFF_SCHEDULE_SECONDS_def)
  qed (simp_all add: len, simp_all add: DEFAULT_BACKOFF_SCHEDULE_SECONDS_def)
qed

lemma compute_backoff_eq:
  "compute_backoff_seconds a b m =
   (if b = 60 then min m (if a \<le> 1 then 60 else if a = 2 then 300 else 1800)
    else if a < 1 then b else min m (b * 2 ^ nat (a - 1)))"
  unfolding compute_backoff_seconds_def Let_def schedule_nth DEFAULT_BASE_BACKOFF_SECONDS_def by simp

lemma retry_cases:
  assumes wf: "jobs_wf db" and j0: "load_job (j_id j) db = Some j0"
    and r: "retry_or_dead_letter cfg j e t db = Inr db'"
  shows "jobs_wf db'"
    "\<exists>j'. load_job (j_id j) db' = Some j' \<and> j_locked_at j' = None \<and> j_locked_by j' = None \<and>
       (if j_attempt j < j_max_attempts j
        then j_status j' = JOB_STATUS_QUEUED \<and>
          j_next_run_at j' = Some (t + seconds (retry_delay cfg (j_attempt j) e))
        else j_status j' = JOB_STATUS_DEAD_LETTER \<and> j_next_run_at j' = None)"
proof -
  show "jobs_wf db'"
    using r wf mark_dead_letter_facts(1)[OF wf j0]
    by (auto simp: retry_or_dead_letter_def mark_failed_facts split: if_splits)
  show "\<exists>j'. load_job (j_id j) db' = Some j' \<and> j_locked_at j' = None \<and> j_locked_by j' = None \<and>
       (if j_attempt j < j_max_attempts j
        then j_status j' = JOB_STATUS_QUEUED \<and>
          j_next_run_at j' = Some (t + seconds (retry_delay cfg (j_attempt j) e))
        else j_status j' = JOB_STATUS_DEAD_LETTER \<and> j_next_run_at j' = None)"
  proof (cases "j_attempt j < j_max_attempts j")
    case True
    with r j0 show ?thesis
      by (auto simp: retry_or_dead_letter_def mark_failed_facts reschedule_row_def)
  next
    case False
    with r have "mark_dead_letter (j_id j) e t db = Inr db'" by (simp add: retry_or_dead_letter_def)
    from mark_dead_letter_facts(3)[OF wf j0 this] False show ?thesis by (simp add: dead_letter_row_def)
  qed
qed

lemma find_successful_SomeD:
  "find_successful_idempotent_job j db = Some d \<Longrightarrow>
   d \<in> set (jobs db) \<and> j_id d \<noteq> j_id j \<and> j_company_id d = j_company_id j \<and> j_job_type d = j_job_type j \<and>
   j_status d = JOB_STATUS_SUCCEEDED \<and> logical_key d = logical_key j"
  by (auto simp: find_successful_idempotent_job_def split: if_splits dest!: find_row_SomeD)

lemma find_successful_None_iff:
  "find_successful_idempotent_job j db = None \<longleftrightarrow> logical_key j = [] \<or>
   (\<forall>x \<in> set (jobs db). j_id x \<noteq> j_id j \<and> j_company_id x = j_company_id j \<and> j_job_type x = j_job_type j \<and>
      j_status x = JOB_STATUS_SUCCEEDED \<longrightarrow> logical_key x \<noteq> logical_key j)"
  by (auto simp: find_successful_idempotent_job_def find_row_None_iff)

text \<open>What a handler may do to the tables, the other sessions' commits included.\<close>

definition handler_commits :: "job_handler \<Rightarrow> bool" where
  "handler_commits h \<longleftrightarrow> (\<forall>payload. commits (\<lambda>db. snd (h payload db)))"

lemma invoke_state:
  "handler_commits h \<Longrightarrow> jobs_wf db \<Longrightarrow> invoke_handler h payload db = (r, db') \<Longrightarrow> jobs_wf db' \<and> jobs_ext db db'"
  by (auto simp: invoke_handler_def handler_commits_def commits_def split: prod.splits) (metis snd_conv)+

definition registry_commits :: "handler_registry \<Rightarrow> bool" where
  "registry_commits reg \<longleftrightarrow> (\<forall>t h. map_of reg t = Some h \<longrightarrow> handler_commits h)"

definition released :: "job \<Rightarrow> bool" where
  "released j \<longleftrightarrow> j_status j \<noteq> JOB_STATUS_RUNNING \<and> j_locked_at j = None \<and>
     (case j_locked_by j of None \<Rightarrow> True | Some w \<Rightarrow> w = [])"

lemma retry_released:
  assumes "jobs_wf db" "load_job (j_id j) db = Some j0" "retry_or_dead_letter cfg j e t db = Inr db'"
  shows "jobs_wf db' \<and> (\<exists>j'. load_job (j_id j) db' = Some j' \<and> released j')"
  using retry_cases[OF assms] by (auto simp: released_def split: if_splits)

lemma dead_letter_released:
  assumes "jobs_wf db" "load_job i db = Some j0" "mark_dead_letter i e t db = Inr db'"
  shows "jobs_wf db' \<and> (\<exists>j'. load_job i db' = Some j' \<and> released j')"
  using mark_dead_letter_facts(1)[OF assms] mark_dead_letter_facts(3)[OF assms, of i]
  by (simp add: released_def dead_letter_row_def)

lemma succeeded_released:
  assumes "jobs_wf db" "load_job i db = Some j0"
  shows "jobs_wf (mark_succeeded i r t db) \<and> (\<exists>j'. load_job i (mark_succeeded i r t db) = Some j' \<and> released j')"
  using assms by (simp add: mark_succeeded_facts released_def succeed_row_def)

lemma reschedule_released:
  assumes wf: "jobs_wf db" and j0: "load_job (j_id j) db = Some j0"
    and r: "handle_handler_reschedule cfg j result t db = Inr (handled, db')"
  shows "if handled then jobs_wf db' \<and> (\<exists>j'. load_job (j_id j) db' = Some j' \<and> released j') else db' = db"
proof (cases "verify_handler_rescheduled (j_id j) db")
  case True
  with r wf j0 show ?thesis
    by (auto simp: handle_handler_reschedule_def verify_handler_rescheduled_def released_def
        split: if_splits option.splits)
next
  case False
  with r show ?thesis
    by (auto simp: handle_handler_reschedule_def bind_result_Inr_iff split: if_splits
        dest!: retry_released[OF wf j0])
qed

lemma process_released:
  assumes wf: "jobs_wf db" and j0: "load_job (j_id j) db = Some j0" and reg: "registry_commits reg"
    and r: "process_claimed_job reg cfg j t db = Inr db'"
  shows "jobs_wf db' \<and> (\<exists>j'. load_job (j_id j) db' = Some j' \<and> released j')"
proof (cases "find_successful_idempotent_job j db")
  case (Some d)
  with r succeeded_released[OF wf j0] show ?thesis by (auto simp: process_claimed_job_def)
next
  case no_dup: None
  show ?thesis
  proof (cases "get_handler (j_job_type j) reg")
    case None
    with r no_dup dead_letter_released[OF wf j0] show ?thesis
      by (auto simp: process_claimed_job_def dead_letter_missing_handler_def)
  next
    case (Some h)
    then have h: "handler_commits h" using reg by (auto simp: registry_commits_def get_handler_def)
    obtain x db1 where inv: "invoke_handler h (dict_setdefault ''jobId'' (JStr (j_id j)) (j_payload_json j)) db = (x, db1)"
      by fastforce
    from invoke_state[OF h wf inv] have wf1: "jobs_wf db1" and ext1: "jobs_ext db db1" by auto
    obtain j1 where j1: "load_job (j_id j) db1 = Some j1" using jobs_ext_loadE[OF ext1 j0] by blast
    show ?thesis
    proof (cases x)
      case (Inl e)
      with r no_dup Some inv have "handle_handler_exception cfg j e t db1 = Inr db'"
        by (simp add: process_claimed_job_def)
      then show ?thesis
        using dead_letter_released[OF wf1 j1] retry_released[OF wf1 j1]
        by (auto simp: handle_handler_exception_def split: if_splits)
    next
      case (Inr res)
      with r no_dup Some inv obtain handled db2 where
        hr: "handle_handler_reschedule cfg j res t db1 = Inr (handled, db2)"
        and db': "(if handled then db2 else mark_succeeded (j_id j) res t db2) = db'"
        by (auto simp: process_claimed_job_def bind_result_Inr_iff split: if_splits)
      from reschedule_released[OF wf1 j1 hr] db' succeeded_released[OF wf1 j1] show ?thesis
        by (cases handled) auto
    qed
  qed
qed

text \<open>
  A dead-letter copy refers to the failed job its payload names, if it names one, so that
  writing it fails unless that row is there. The retry of a dead-lettered job is what writes
  such a payload, and it names the row it retries: \<open>origins_known\<close> says that every job's
  reference resolves, \<open>keeps_origins\<close> that what other sessions or a handler commit leaves
  that so.
\<close>

definition origins_known :: "jobs_db \<Rightarrow> bool" where
  "origins_known db \<longleftrightarrow> (\<forall>j \<in> set (jobs db). origin_known j db)"

definition keeps_origins :: "(jobs_db \<Rightarrow> jobs_db) \<Rightarrow> bool" where
  "keeps_origins f \<longleftrightarrow> (\<forall>db. jobs_wf db \<longrightarrow> origins_known db \<longrightarrow> origins_known (f db))"

definition registry_keeps_origins :: "handler_registry \<Rightarrow> bool" where
  "registry_keeps_origins reg \<longleftrightarrow>
     (\<forall>t h payload. map_of reg t = Some h \<longrightarrow> keeps_origins (\<lambda>db. snd (h payload db)))"

lemma keeps_origins_id [simp]: "keeps_origins (\<lambda>db. db)"
  by (simp add: keeps_origins_def)

lemma origin_known_claim_row [simp]: "origin_known (claim_row a w t j) db \<longleftrightarrow> origin_known j db"
  by (simp add: origin_known_def claim_row_def)

lemma origin_known_started [simp]: "origin_known j (started_event w t x db) \<longleftrightarrow> origin_known j db"
  by (simp add: origin_known_def started_event_def split: option.splits)

lemma claimed_origins:
  "origins_known db \<Longrightarrow> origins_known (started_event w t x (update_job i (claim_row a w' t') db))"
  by (auto simp: origins_known_def update_job_def elim!: in_update_rowsE)
    (simp_all add: origin_known_def split: option.splits)

lemma claim_loop_origins:
  assumes "jobs_wf db" "\<And>n. commits (env n)" "\<And>n. keeps_origins (env n)" "origins_known db"
    and "claim_loop n env w now stale db = (r, db')"
  shows "origins_known db'"
  using assms
proof (induction n arbitrary: db)
  case (Suc n)
  note wf1 = commitsD(1)[OF Suc.prems(2,1)]
  have o1: "origins_known (env n db)" using Suc.prems(1,3,4) by (simp add: keeps_origins_def)
  show ?case
  proof (cases "select_candidate now stale db")
    case None
    with Suc.prems(4,5) show ?thesis by simp
  next
    case (Some c)
    obtain i a where c: "c = (i, a)" by (cases c)
    show ?thesis
    proof (cases "swappable i a now stale (env n db)")
      case True
      then obtain j0 where "load_job i (env n db) = Some j0" by (auto simp: swappable_def)
      with True c Some Suc.prems(5) claimed_origins[OF o1] show ?thesis
        by (auto simp: claim_update_eq[OF wf1] claim_upd.load_update_same)
    next
      case False
      with c Some Suc.prems(5) have "claim_loop n env w now stale (env n db) = (r, db')"
        by (simp add: claim_update_eq[OF wf1])
      with Suc.IH[OF wf1 Suc.prems(2,3) o1] show ?thesis .
    qed
  qed
qed simp

lemma dead_letter_known:
  "jobs_wf db \<Longrightarrow> origins_known db \<Longrightarrow> load_job i db = Some j \<Longrightarrow> \<exists>db'. mark_dead_letter i e t db = Inr db'"
  using mark_dead_letter_total load_job_SomeD unfolding origins_known_def by blast

lemma retry_known:
  "jobs_wf db \<Longrightarrow> origins_known db \<Longrightarrow> load_job (j_id j) db = Some j0 \<Longrightarrow>
   \<exists>db'. retry_or_dead_letter cfg j e t db = Inr db'"
  by (simp add: retry_or_dead_letter_def dead_letter_known)

lemma process_total:
  assumes wf: "jobs_wf db" and o: "origins_known db" and j0: "load_job (j_id j) db = Some j0"
    and reg: "registry_commits reg" "registry_keeps_origins reg"
  shows "\<exists>db'. process_claimed_job reg cfg j t db = Inr db'"
proof (cases "find_successful_idempotent_job j db = None \<and> get_handler (j_job_type j) reg \<noteq> None")
  case False
  with dead_letter_known[OF wf o j0] show ?thesis
    by (auto simp: process_claimed_job_def dead_letter_missing_handler_def split: option.splits)
next
  case True
  then obtain h where h: "map_of reg (j_job_type j) = Some h" by (auto simp: get_handler_def)
  let ?p = "dict_setdefault ''jobId'' (JStr (j_id j)) (j_payload_json j)"
  obtain x db1 where inv: "invoke_handler h ?p db = (x, db1)" by fastforce
  from invoke_state[OF _ wf inv] h reg(1) have wf1: "jobs_wf db1" and ext: "jobs_ext db db1"
    by (auto simp: registry_commits_def)
  have "db1 = snd (h ?p db)" using inv by (auto simp: invoke_handler_def split: prod.splits)
  with reg(2) h wf o have o1: "origins_known db1" by (auto simp: registry_keeps_origins_def keeps_origins_def)
  obtain j1 where j1: "load_job (j_id j) db1 = Some j1" using jobs_ext_loadE[OF ext j0] by blast
  note r = retry_known[OF wf1 o1 j1] and d = dead_letter_known[OF wf1 o1 j1]
  have "\<exists>db'. handle_handler_exception cfg j e t db1 = Inr db'" for e
    using r d by (simp add: handle_handler_exception_def)
  moreover have "\<exists>b db2. handle_handler_reschedule cfg j res t db1 = Inr (b, db2)" for res
  proof -
    obtain db2 where "retry_or_dead_letter cfg j
        ''handler_reschedule_failed: job still running/locked after handler disposition=rescheduled'' t db1 = Inr db2"
      using r by blast
    then show ?thesis unfolding handle_handler_reschedule_def bind_result_def
      by (cases "case res of None \<Rightarrow> True | Some d \<Rightarrow> dict_get ''_jobDisposition'' d \<noteq> JStr ''rescheduled''") auto
  qed
  moreover have p: "process_claimed_job reg cfg j t db = (case x of
      Inl e \<Rightarrow> handle_handler_exception cfg j e t db1
    | Inr res \<Rightarrow> bind_result (handle_handler_reschedule cfg j res t db1) (\<lambda>(handled, db2).
        if handled then Inr db2 else Inr (mark_succeeded (j_id j) res t db2)))"
    using True h inv by (simp add: process_claimed_job_def get_handler_def split: sum.splits)
  ultimately show ?thesis
  proof (cases x)
    case (Inr res)
    from \<open>\<And>res. \<exists>b db2. handle_handler_reschedule cfg j res t db1 = Inr (b, db2)\<close>
    obtain b db2 where "handle_handler_reschedule cfg j res t db1 = Inr (b, db2)" by blast
    with Inr p show ?thesis by (cases b) (simp_all add: bind_result_def)
  qed simp
qed

section \<open>Properties\<close>

text \<open>
  Property C11. A run of the worker returns and never leaves the job it claimed running:
  whatever the handler returns, raises or changes, and whatever other sessions commit
  meanwhile, the run ends without an exception, and the job it claimed, if there was one to
  claim, ends without a lease, succeeded, queued again or dead-lettered, in well-formed
  tables. The references from payloads to failed jobs are taken to resolve.
\<close>

theorem run_once_releases_job:
  assumes wf: "jobs_wf db" and env: "\<And>n. commits (env n)" and reg: "registry_commits reg"
    and known: "origins_known db" "\<And>n. keeps_origins (env n)" "registry_keeps_origins reg"
  shows "\<exists>handled db'. run_once env reg cfg w now lease clk db = Inr (handled, db') \<and> jobs_wf db' \<and>
    (case claim_next_runnable env w (case now of None \<Rightarrow> clk | Some t \<Rightarrow> t) lease db of
       (None, db1) \<Rightarrow> \<not> handled \<and> db' = db1
     | (Some j, db1) \<Rightarrow> handled \<and> (\<exists>j'. load_job (j_id j) db' = Some j' \<and>
         j_status j' \<in> {JOB_STATUS_SUCCEEDED, JOB_STATUS_QUEUED, JOB_STATUS_DEAD_LETTER} \<and>
         j_locked_at j' = None \<and> (case j_locked_by j' of None \<Rightarrow> True | Some w \<Rightarrow> w = [])))"
proof -
  let ?t = "case now of None \<Rightarrow> clk | Some t \<Rightarrow> t"
  obtain r db1 where cl: "claim_next_runnable env w ?t lease db = (r, db1)" by fastforce
  show ?thesis
  proof (cases r)
    case None
    with claim_loop_wf[of db env 8 w ?t "?t - seconds lease" r db1, OF wf env] cl
    have "run_once env reg cfg w now lease clk db = Inr (False, db1)" "jobs_wf db1"
      by (simp_all add: claim_next_runnable_def run_once_def Let_def)
    with None cl show ?thesis by auto
  next
    case (Some j)
    with cl have cl': "claim_next_runnable env w ?t lease db = (Some j, db1)" by simp
    from claim_under_interference_facts[OF wf env cl'] have f: "jobs_wf db1" "load_job (j_id j) db1 = Some j"
      by auto
    from cl' have o1: "origins_known db1"
      unfolding claim_next_runnable_def by (rule claim_loop_origins[OF wf env known(2,1)])
    obtain db' where p: "process_claimed_job reg cfg j ?t db1 = Inr db'"
      using process_total[OF f(1) o1 f(2) reg known(3)] by blast
    have "run_once env reg cfg w now lease clk db = Inr (True, db')"
      using cl' p by (simp add: run_once_def Let_def)
    with process_released[OF f reg p] cl' show ?thesis
      by (auto simp: released_def) (metis job_status.exhaust)
  qed
qed

definition failing_handler :: job_handler where
  "failing_handler payload db = (Raised (JobException False ''RuntimeError'' ''rate limit hit''), db)"

definition demo_registry :: handler_registry where
  "demo_registry = [(''transcribe'', failing_handler)]"

definition demo_config :: backoff_config where
  "demo_config = \<lparr>base_backoff_seconds = 60, max_backoff_seconds = 1800\<rparr>"

lemma demo_registry_commits: "registry_commits demo_registry"
  by (simp add: registry_commits_def demo_registry_def handler_commits_def failing_handler_def)

theorem run_once_releases_job_witness:
  "\<exists>db'. run_once (\<lambda>_ db. db) demo_registry demo_config ''w2'' (Some 400000000) 300 0 busy_db = Inr (True, db') \<and>
     jobs_wf db' \<and> (\<exists>i j'. load_job i db' = Some j' \<and> j_status j' \<noteq> JOB_STATUS_RUNNING)"
proof -
  have known: "origins_known busy_db" by code_simp
  have hk: "registry_keeps_origins demo_registry"
    by (simp add: registry_keeps_origins_def demo_registry_def failing_handler_def)
  have "case claim_next_runnable (\<lambda>_ db. db) ''w2'' 400000000 300 busy_db of (None, _) \<Rightarrow> False | _ \<Rightarrow> True"
    by code_simp
  then show ?thesis
    using run_once_releases_job[OF busy_db_wf commits_id demo_registry_commits known keeps_origins_id hk,
      of demo_config "''w2''" "Some 400000000" 300 0]
    by (fastforce split: prod.splits option.splits)
qed

text \<open>
  A job whose work is already done is not done again: when another job of the
  same company and type with the same logical key has succeeded, no handler is invoked
  (the outcome is the same for every registry) and the claimed job succeeds with a result
  that names a succeeded job.
\<close>

theorem duplicate_work_is_skipped:
  assumes j: "load_job (j_id j) db = Some j" and d: "d \<in> set (jobs db)" "j_id d \<noteq> j_id j"
    and same: "j_company_id d = j_company_id j" "j_job_type d = j_job_type j" "logical_key d = logical_key j"
    and succ: "j_status d = JOB_STATUS_SUCCEEDED" and key: "logical_key j \<noteq> []"
  shows "\<exists>m db' j'. process_claimed_job reg cfg j t db = Inr db' \<and>
    (\<forall>reg'. process_claimed_job reg' cfg j t db = Inr db') \<and>
    load_job (j_id j) db' = Some j' \<and> j_status j' = JOB_STATUS_SUCCEEDED \<and>
    j_result_json j' = Some [(''status'', JStr ''skipped_idempotent''), (''matchedJobId'', JStr m)] \<and>
    (\<exists>x \<in> set (jobs db). j_id x = m \<and> j_status x = JOB_STATUS_SUCCEEDED \<and> logical_key x = logical_key j)"
proof -
  have "find_successful_idempotent_job j db \<noteq> None"
    using find_successful_None_iff[of j db] d same succ key by blast
  then obtain x where x: "find_successful_idempotent_job j db = Some x" by blast
  with find_successful_SomeD[OF x] j show ?thesis
    by (auto simp: process_claimed_job_def mark_succeeded_facts succeed_row_def)
qed

definition done_db :: jobs_db where
  "done_db = empty_jobs_db\<lparr>jobs :=
     [busy_job, succeed_row None 20 (retry_job_of ''c'' busy_job ''f'' 15)]\<rparr>"

theorem duplicate_work_is_skipped_witness:
  "\<exists>db' j'. process_claimed_job demo_registry demo_config busy_job 30 done_db = Inr db' \<and>
     load_job ''b'' db' = Some j' \<and> j_status j' = JOB_STATUS_SUCCEEDED"
proof -
  let ?d = "succeed_row None 20 (retry_job_of ''c'' busy_job ''f'' 15)"
  have id: "j_id busy_job = ''b''" by code_simp
  have "load_job (j_id busy_job) done_db = Some busy_job" by code_simp
  moreover have "?d \<in> set (jobs done_db)" by (simp add: done_db_def)
  moreover have "j_id ?d \<noteq> j_id busy_job" "j_company_id ?d = j_company_id busy_job"
    "j_job_type ?d = j_job_type busy_job" "j_status ?d = JOB_STATUS_SUCCEEDED"
    by (simp_all add: succeed_row_def retry_job_of_def busy_job_def job_from_spec_def)
  moreover have "logical_key ?d = logical_key busy_job" "logical_key busy_job \<noteq> []" by code_simp+
  ultimately show ?thesis
    using duplicate_work_is_skipped[of busy_job done_db ?d demo_registry demo_config 30] id by auto
qed

text \<open>
  What a handler's exception leads to: a permanent error, or any error once
  the attempts are used up, dead-letters the job; any other error queues it again, due
  when the backoff of its attempt has passed since the claim. In both cases the sanitized
  error is stored.
\<close>

theorem handler_exception_outcome:
  assumes wf: "jobs_wf db" and j: "load_job (j_id j) db = Some j0"
    and res: "handle_handler_exception cfg j e t db = Inr db'"
  shows "\<exists>j'. load_job (j_id j) db' = Some j' \<and> j_last_error j' = Some (sanitize_error (format_error e)) \<and>
    (if permanent e \<or> j_max_attempts j \<le> j_attempt j
     then j_status j' = JOB_STATUS_DEAD_LETTER \<and> (\<exists>f. get_failed_job_by_original_job_id (j_id j) db' = Some f)
     else j_status j' = JOB_STATUS_QUEUED \<and>
       j_next_run_at j' = Some (t + seconds (retry_delay cfg (j_attempt j) (format_error e))))"
proof (cases "permanent e \<or> j_max_attempts j \<le> j_attempt j")
  case True
  with res have "mark_dead_letter (j_id j) (format_error e) t db = Inr db'"
    by (auto simp: handle_handler_exception_def retry_or_dead_letter_def split: if_splits)
  from mark_dead_letter_facts(3,4)[OF wf j this] True show ?thesis by (auto simp: dead_letter_row_def)
next
  case False
  with res j show ?thesis
    by (auto simp: handle_handler_exception_def retry_or_dead_letter_def mark_failed_facts reschedule_row_def)
qed

theorem handler_exception_outcome_witness:
  "\<exists>db' j'. handle_handler_exception demo_config busy_job (JobException False ''TimeoutError'' ''slow'') 30 busy_db = Inr db' \<and>
     load_job ''b'' db' = Some j' \<and> j_next_run_at j' = Some (30 + seconds 60)"
proof -
  let ?e = "JobException False ''TimeoutError'' ''slow''"
  have id: "j_id busy_job = ''b''" by code_simp
  have "isl (handle_handler_exception demo_config busy_job ?e 30 busy_db) = False" by code_simp
  then obtain db' where r: "handle_handler_exception demo_config busy_job ?e 30 busy_db = Inr db'"
    by (metis isl_def sumE)
  have j: "load_job (j_id busy_job) busy_db = Some busy_job" by code_simp
  have "retry_delay demo_config (j_attempt busy_job) (format_error ?e) = 60" by code_simp
  moreover have "\<not> (permanent ?e \<or> j_max_attempts busy_job \<le> j_attempt busy_job)" by code_simp
  ultimately show ?thesis
    using handler_exception_outcome[OF busy_db_wf j r] r id by auto
qed

text \<open>
  The backoff of a retry never exceeds its maximum and never shrinks from one
  attempt to the next; with the default base it is the schedule of one, five and thirty
  minutes, and then the provider error markers make no difference.
\<close>

theorem backoff_bounded_and_monotone:
  assumes "1 \<le> a" "a \<le> a'" "0 \<le> b"
  shows "compute_backoff_seconds a b m \<le> m \<and>
    compute_backoff_seconds a b m \<le> compute_backoff_seconds a' b m \<and>
    retry_delay \<lparr>base_backoff_seconds = 60, max_backoff_seconds = 1800\<rparr> a e =
      (if a = 1 then 60 else if a = 2 then 300 else 1800)"
proof -
  have "b * 2 ^ nat (a - 1) \<le> b * 2 ^ nat (a' - 1)"
    using assms by (intro mult_left_mono power_increasing) auto
  then have "compute_backoff_seconds a b m \<le> compute_backoff_seconds a' b m"
    using assms by (auto simp: compute_backoff_eq)
  moreover have "retry_delay \<lparr>base_backoff_seconds = 60, max_backoff_seconds = 1800\<rparr> a e =
      (if a = 1 then 60 else if a = 2 then 300 else 1800)"
    using assms by (auto simp: retry_delay_def compute_backoff_eq
        PROVIDER_BACKOFF_BASE_SECONDS_def PROVIDER_BACKOFF_MAX_SECONDS_def)
  ultimately show ?thesis using assms(1) by (simp add: compute_backoff_eq)
qed

theorem backoff_bounded_and_monotone_witness:
  "compute_backoff_seconds 2 15 180 \<le> compute_backoff_seconds 4 15 180 \<and> compute_backoff_seconds 2 15 180 \<le> 180"
  using backoff_bounded_and_monotone[of 2 4 15 180] by simp

end
