(* ===== verification/AdminJobs.thy ===== *)
theory AdminJobs
  imports JobWorker
begin

text \<open>
  The admin's requeue of a job and the audit trail of admin actions. An audit row is
  appended with the change it records, in one transaction; its columns have their lengths,
  a longer text is an error of the database. The id of an audit row and the clock of the
  database are arguments, the configured stale threshold too.
\<close>

section \<open>Audits of admin actions\<close>

record demo_admin_actor =
  aa_actor_type :: string
  aa_actor_id :: string

record admin_action_audit =
  au_id :: string
  au_actor_type :: string
  au_actor_id :: string
  au_action :: string
  au_target_type :: string
  au_target_id :: string
  au_payload_json :: obj
  au_created_at :: datetime

definition fits_audit_columns :: "admin_action_audit \<Rightarrow> bool" where
  "fits_audit_columns a \<longleftrightarrow>
     py_len (au_id a) \<le> 40 \<and> py_len (au_actor_type a) \<le> 50 \<and> py_len (au_actor_id a) \<le> 255 \<and>
     py_len (au_action a) \<le> 100 \<and> py_len (au_target_type a) \<le> 100 \<and> py_len (au_target_id a) \<le> 100"

definition create_audit ::
    "string \<Rightarrow> string \<Rightarrow> string \<Rightarrow> string \<Rightarrow> string \<Rightarrow> string \<Rightarrow> obj \<Rightarrow> datetime \<Rightarrow>
     admin_action_audit list \<Rightarrow> (admin_action_audit \<times> admin_action_audit list) res" where
  "create_audit new_id actor_type actor_id action target_type target_id payload_json clk audits =
     (let audit = \<lparr>au_id = new_id, au_actor_type = py_strip actor_type, au_actor_id = py_strip actor_id,
            au_action = py_strip action, au_target_type = py_strip target_type,
            au_target_id = py_strip target_id, au_payload_json = payload_json, au_created_at = clk\<rparr>
      in if \<not> fits_audit_columns audit then Inl (DataError ''admin_action_audits'')
         else if new_id \<in> set (map au_id audits) then Inl IntegrityError
         else Inr (audit, audits @ [audit]))"

definition insert_audit ::
    "string \<Rightarrow> demo_admin_actor \<Rightarrow> string \<Rightarrow> string \<Rightarrow> string \<Rightarrow> obj \<Rightarrow> datetime \<Rightarrow>
     admin_action_audit list \<Rightarrow> (string \<times> admin_action_audit list) res" where
  "insert_audit new_id actor action target_type target_id payload clk audits =
     bind_result (create_audit new_id (aa_actor_type actor) (aa_actor_id actor) action target_type
        target_id payload clk audits) (\<lambda>(audit, audits'). Inr (au_id audit, audits'))"

definition unsafe_operation :: "string \<Rightarrow> obj \<Rightarrow> error" where
  "unsafe_operation detail details = ApiError 409 detail ''UNSAFE_OPERATION'' (Some False) details"

definition sanitized_reason :: "string \<Rightarrow> string" where
  "sanitized_reason reason = py_strip (py_join '' '' (py_split reason))"

section \<open>Requeueing a job\<close>

definition JOB_REQUEUE_ACTION :: string where "JOB_REQUEUE_ACTION = ''job_requeue''"

definition status_text :: "job_status \<Rightarrow> string" where
  "status_text s = (case s of JOB_STATUS_QUEUED \<Rightarrow> ''queued'' | JOB_STATUS_RUNNING \<Rightarrow> ''running''
     | JOB_STATUS_SUCCEEDED \<Rightarrow> ''succeeded'' | JOB_STATUS_DEAD_LETTER \<Rightarrow> ''dead_letter'')"

definition load_job_for_update :: "string \<Rightarrow> jobs_db \<Rightarrow> job res" where
  "load_job_for_update job_id db =
     (case load_job job_id db of None \<Rightarrow> Inl (HTTPError 404 ''Job not found'') | Some j \<Rightarrow> Inr j)"

definition job_stale_seconds :: "int \<Rightarrow> int" where
  "job_stale_seconds configured = (if configured > 0 then configured else 900)"

definition is_stale_running_job :: "int \<Rightarrow> datetime \<Rightarrow> job \<Rightarrow> bool" where
  "is_stale_running_job configured now j \<longleftrightarrow>
     j_status j = JOB_STATUS_RUNNING \<and>
     (case j_locked_at j of None \<Rightarrow> True
      | Some locked_at \<Rightarrow> locked_at \<le> now - seconds (job_stale_seconds configured))"

definition admin_requeue_row :: "datetime \<Rightarrow> job \<Rightarrow> job" where
  "admin_requeue_row now j =
     j\<lparr>j_status := JOB_STATUS_QUEUED, j_next_run_at := Some now, j_locked_at := None, j_locked_by := None,
       j_last_error := None, j_result_json := None\<rparr>"

record job_requeue_result =
  jq_job_id :: string
  jq_previous_status :: job_status
  jq_new_status :: job_status
  jq_audit_id :: string

definition requeue_refusal :: "int \<Rightarrow> string \<Rightarrow> bool \<Rightarrow> datetime \<Rightarrow> job \<Rightarrow> error option" where
  "requeue_refusal configured job_id force now j =
     (if force \<and> j_status j \<notin> {JOB_STATUS_RUNNING, JOB_STATUS_DEAD_LETTER, JOB_STATUS_SUCCEEDED}
      then Some (unsafe_operation ''Job cannot be force requeued from its current status.''
             [(''jobId'', JStr job_id), (''status'', JStr (status_text (j_status j)))])
      else if \<not> force \<and> j_status j \<noteq> JOB_STATUS_DEAD_LETTER \<and> \<not> is_stale_running_job configured now j
      then Some (unsafe_operation ''Job cannot be requeued without force from its current status.''
             [(''jobId'', JStr job_id), (''status'', JStr (status_text (j_status j))),
              (''staleRunningThresholdSeconds'', JInt (job_stale_seconds configured))])
      else None)"

definition requeue_job ::
    "int \<Rightarrow> string \<Rightarrow> demo_admin_actor \<Rightarrow> string \<Rightarrow> string \<Rightarrow> bool \<Rightarrow> datetime \<Rightarrow> datetime \<Rightarrow>
     admin_action_audit list \<Rightarrow> jobs_db \<Rightarrow>
     (job_requeue_result \<times> admin_action_audit list \<times> jobs_db) res" where
  "requeue_job configured new_id actor job_id reason force now clk audits db =
     bind_result (load_job_for_update job_id db) (\<lambda>j.
       let stale = is_stale_running_job configured now j;
           no_op = (j_status j = JOB_STATUS_QUEUED)
       in case (if no_op then None else requeue_refusal configured job_id force now j) of
            Some e \<Rightarrow> Inl e
          | None \<Rightarrow>
              (let row = (if no_op then j else flush_row clk (admin_requeue_row now) j);
                   db' = (if no_op then db else update_job job_id (flush_row clk (admin_requeue_row now)) db);
                   payload = [(''reason'', JStr (sanitized_reason reason)), (''force'', JBool force),
                     (''previousStatus'', JStr (status_text (j_status j))),
                     (''newStatus'', JStr (status_text (j_status row))), (''noOp'', JBool no_op),
                     (''staleRunning'', JBool stale),
                     (''staleRunningThresholdSeconds'', JInt (job_stale_seconds configured))]
               in bind_result (insert_audit new_id actor JOB_REQUEUE_ACTION ''job'' job_id payload clk audits)
                    (\<lambda>(audit_id, audits').
                      Inr (\<lparr>jq_job_id = j_id j, jq_previous_status = j_status j,
                             jq_new_status = j_status row, jq_audit_id = audit_id\<rparr>, audits', db'))))"

section \<open>Facts\<close>

interpretation admin_requeue_upd: job_update "flush_row clk (admin_requeue_row now)" for clk now
  by unfold_locales (auto simp: flush_row_def admin_requeue_row_def job_key_def Let_def)

lemma create_audit_InrD:
  "create_audit i ty a ac tt t p clk audits = Inr (x, audits') \<Longrightarrow>
   audits' = audits @ [x] \<and> au_id x = i \<and> au_payload_json x = p \<and> au_action x = py_strip ac \<and>
   au_target_id x = py_strip t \<and> au_target_type x = py_strip tt"
  by (auto simp: create_audit_def Let_def split: if_splits)

text \<open>What a requeue that succeeds did: the row queued again, unless it was queued, and one audit.\<close>

lemma requeue_job_InrD:
  assumes "requeue_job cfg i actor k reason force now clk audits db = Inr (r, audits', db')"
  shows "\<exists>j. load_job k db = Some j \<and> jq_previous_status r = j_status j \<and> jq_new_status r = JOB_STATUS_QUEUED \<and>
    db' = (if j_status j = JOB_STATUS_QUEUED then db else update_job k (flush_row clk (admin_requeue_row now)) db) \<and>
    (force \<or> j_status j = JOB_STATUS_QUEUED \<or> j_status j = JOB_STATUS_DEAD_LETTER \<or> is_stale_running_job cfg now j) \<and>
    (\<exists>a. audits' = audits @ [a] \<and> au_id a = jq_audit_id r \<and> au_action a = ''job_requeue'')"
proof -
  have act: "py_strip JOB_REQUEUE_ACTION = ''job_requeue''" by code_simp
  from assms obtain j where j: "load_job k db = Some j"
    by (auto simp: requeue_job_def load_job_for_update_def bind_result_Inr_iff split: option.splits)
  have fl: "j_status (flush_row clk (admin_requeue_row now) j) = JOB_STATUS_QUEUED"
    by (auto simp: flush_row_def admin_requeue_row_def Let_def dest: arg_cong[of _ _ j_status])
  have "jq_previous_status r = j_status j \<and> jq_new_status r = JOB_STATUS_QUEUED \<and>
    db' = (if j_status j = JOB_STATUS_QUEUED then db else update_job k (flush_row clk (admin_requeue_row now)) db) \<and>
    (force \<or> j_status j = JOB_STATUS_QUEUED \<or> j_status j = JOB_STATUS_DEAD_LETTER \<or> is_stale_running_job cfg now j) \<and>
    (\<exists>a. audits' = audits @ [a] \<and> au_id a = jq_audit_id r \<and> au_action a = ''job_requeue'')"
    using assms j fl act
    by (auto simp: requeue_job_def load_job_for_update_def bind_result_Inr_iff insert_audit_def requeue_refusal_def Let_def
        split: if_splits dest!: create_audit_InrD)
  with j show ?thesis by blast
qed

end
