(* ===== verification/JobSystem.thy ===== *)
theory JobSystem
  imports AdminJobs
begin

text \<open>
  The job queue as a transition system: one step is one committed transaction of one of
  the operations, with any arguments, by any session. A claim is split where the code
  splits it: the select is a read, so a step swaps with an id and an attempt count that
  may be stale. The theory shows that every reachable state is well formed and that
  attempt counts only grow, so that a snapshot of a job is claimed at most once.
\<close>

section \<open>Steps\<close>

text \<open>The row of a job that the termination of its trial cancels.\<close>

definition cancel_row :: "datetime \<Rightarrow> job \<Rightarrow> job" where
  "cancel_row changed_at j =
     j\<lparr>j_status := JOB_STATUS_DEAD_LETTER, j_last_error := Some ''trial_terminated'', j_result_json := None,
       j_locked_at := None, j_locked_by := None, j_next_run_at := None, j_updated_at := changed_at\<rparr>"

interpretation cancel_upd: job_update "cancel_row changed_at" for changed_at
  by unfold_locales (simp_all add: cancel_row_def job_key_def)

inductive job_step :: "jobs_db \<Rightarrow> jobs_db \<Rightarrow> bool" where
  create: "create_or_get_idempotent (\<lambda>db. db) spec c commit clk db = Inr (j, db') \<Longrightarrow> job_step db db'"
| upsert: "create_or_update_idempotent (\<lambda>db. db) spec c commit clk db = Inr (j, db') \<Longrightarrow> job_step db db'"
| bulk: "create_or_update_many_idempotent aborts (\<lambda>db. db) c specs clk db = Inr (js, db') \<Longrightarrow> job_step db db'"
| requeue: "requeue_nonterminal_idempotent_job c t k at now payload db = Inr (r, db') \<Longrightarrow> job_step db db'"
| swap: "claim_update i a w now stale db = (n, db') \<Longrightarrow> job_step db db'"
| event: "db' = record_job_event j et st meta at db \<Longrightarrow> job_step db db'"
| succeed: "db' = mark_succeeded i result now db \<Longrightarrow> job_step db db'"
| fail: "db' = mark_failed_and_reschedule i e at now db \<Longrightarrow> job_step db db'"
| dead: "mark_dead_letter i e now db = Inr db' \<Longrightarrow> job_step db db'"
| retry: "retry_dead_letter_job i now clk db = Inr (r, db') \<Longrightarrow> job_step db db'"
| admin_requeue: "requeue_job cfg i actor k reason force now clk audits db = Inr (r, audits', db') \<Longrightarrow> job_step db db'"
| cancel: "db' = db\<lparr>jobs := update_rows P (cancel_row at) (jobs db)\<rparr> \<Longrightarrow> job_step db db'"
| retry_many: "retry_dead_letter_jobs ids now clk db = Inr (n, db') \<Longrightarrow> job_step db db'"

definition starts :: "jobs_db \<Rightarrow> bool" where
  "starts db \<longleftrightarrow> jobs db = [] \<and> failed_jobs db = [] \<and> inj (uuid4 db) \<and> (\<forall>n. uuid4 db n \<noteq> [])"

section \<open>Every step keeps the rows and their attempts\<close>

definition row_grows :: "job \<Rightarrow> job \<Rightarrow> bool" where
  "row_grows j j' \<longleftrightarrow> j_id j' = j_id j \<and> job_key j' = job_key j \<and> j_attempt j \<le> j_attempt j'"

definition grows :: "jobs_db \<Rightarrow> jobs_db \<Rightarrow> bool" where
  "grows db db' \<longleftrightarrow> (\<forall>j \<in> set (jobs db). \<exists>j' \<in> set (jobs db'). row_grows j j')"

lemma row_grows_refl [simp]: "row_grows j j"
  by (simp add: row_grows_def)

lemma row_grows_trans: "row_grows a b \<Longrightarrow> row_grows b c \<Longrightarrow> row_grows a c"
  by (auto simp: row_grows_def)

lemma grows_trans: "grows a b \<Longrightarrow> grows b c \<Longrightarrow> grows a c"
  unfolding grows_def using row_grows_trans by metis

lemma grows_keep: "set (jobs db) \<subseteq> set (jobs db') \<Longrightarrow> grows db db'"
  unfolding grows_def using row_grows_refl by blast

lemma grows_update:
  assumes "jobs db' = update_rows P f (jobs db)"
    and "\<And>j. j \<in> set (jobs db) \<Longrightarrow> P j \<Longrightarrow> row_grows j (f j)"
  shows "grows db db'"
  using assms unfolding grows_def
  by (auto simp: set_update_rows) (metis (mono_tags, lifting) Un_iff image_eqI mem_Collect_eq row_grows_refl)

lemma row_ops_grow [simp]:
  "row_grows j (flush_row clk (apply_idempotent_job_updates spec clk) j)"
  "row_grows j (requeue_row at now payload j)"
  "row_grows j (succeed_row result now j)"
  "row_grows j (reschedule_row e next now j)"
  "row_grows j (dead_letter_row e now j)"
  "row_grows j (flush_row clk (admin_requeue_row now) j)"
  "row_grows j (cancel_row now j)"
  "j_attempt j = a \<Longrightarrow> row_grows j (claim_row a w now j)"
  by (auto simp: row_grows_def job_key_def flush_row_def apply_idempotent_job_updates_def requeue_row_def
      succeed_row_def reschedule_row_def dead_letter_row_def claim_row_def admin_requeue_row_def cancel_row_def
      Let_def split: option.splits)

lemma grows_update_existing: "grows db (update_existing_if_mutable spec clk j db)"
  by (cases "is_mutable_idempotent_job j")
     (auto simp: update_existing_if_mutable_def update_job_def grows_keep intro!: grows_update)

lemma grows_apply_updates:
  "apply_updates_to_existing clk m specs db = (new, db') \<Longrightarrow> grows db db'"
proof (induction specs arbitrary: db new)
  case (Cons spec specs)
  then show ?case
    by (auto simp: grows_keep split: option.splits prod.splits intro: grows_trans[OF grows_update_existing])
qed (simp add: grows_keep)

lemma insert_rows_keeps: "insert_rows c clk specs db = Inr db' \<Longrightarrow> set (jobs db) \<subseteq> set (jobs db')"
proof (induction specs arbitrary: db)
  case (Cons spec specs)
  obtain i db1 where d: "draw_uuid db = (i, db1)" by fastforce
  with Cons.prems obtain db2 where ins: "insert_job (job_from_spec c clk i spec) db1 = Inr db2"
    and rest: "insert_rows c clk specs db2 = Inr db'" by (auto simp: bind_result_Inr_iff)
  have "set (jobs db) \<subseteq> set (jobs db2)" using d insert_job_InrD[OF ins] by (auto simp: draw_uuid_def)
  with Cons.IH[OF rest] show ?case by blast
qed simp

lemma recover_per_key_keeps: "recover_per_key c clk specs m db = Inr (m', db') \<Longrightarrow> set (jobs db) \<subseteq> set (jobs db')"
proof (induction specs arbitrary: m db)
  case (Cons spec specs)
  then show ?case
    by (fastforce simp: bind_result_Inr_iff split: option.splits dest: insert_nested_keeps)
qed simp

lemma recover_bulk_keeps:
  "recover_bulk_insert_conflicts aborts c clk specs m db = Inr (m', db') \<Longrightarrow> set (jobs db) \<subseteq> set (jobs db')"
  by (auto simp: recover_bulk_insert_conflicts_def Let_def split: sum.splits if_splits
      dest!: insert_rows_keeps recover_per_key_keeps)

lemma recover_bulk_aborts:
  "recover_bulk_insert_conflicts aborts c clk specs m db = Inr r \<Longrightarrow>
   recover_bulk_insert_conflicts False c clk specs m db = Inr r"
  by (auto simp: recover_bulk_insert_conflicts_def split: sum.splits if_splits)

lemma bulk_step:
  assumes wf: "jobs_wf db" and r: "create_or_update_many_idempotent aborts (\<lambda>db. db) c specs clk db = Inr (js, db')"
  shows "jobs_wf db' \<and> grows db db'"
proof (cases "specs = []")
  case True
  with r wf show ?thesis by (simp add: create_or_update_many_idempotent_def normalize_many_specs_def grows_keep)
next
  case False
  let ?norm = "map stripped specs"
  let ?m = "existing_map_of (load_idempotent_jobs_for_keys c (map spec_key ?norm) db)"
  obtain new db1 where au: "apply_updates_to_existing clk ?m ?norm db = (new, db1)" by fastforce
  from apply_updates_facts[OF au] wf have wf1: "jobs_wf db1" and ext1: "jobs_ext db db1" by auto
  have g1: "grows db db1" using grows_apply_updates[OF au] .
  have nm: "normalize_many_specs specs = Inr ?norm"
    using r by (auto simp: create_or_update_many_idempotent_def bind_result_Inr_iff normalize_many_eq)
  show ?thesis
  proof (cases "new = []")
    case True
    with r au nm False have "db' = db1" by (auto simp: create_or_update_many_idempotent_def Let_def)
    with wf1 g1 show ?thesis by simp
  next
    case new: False
    with r au nm False obtain m' where
      rb: "recover_bulk_insert_conflicts aborts c clk new ?m db1 = Inr (m', db')"
      by (auto simp: create_or_update_many_idempotent_def Let_def bind_result_Inr_iff)
    have ok: "map_ok c ?m db1" using map_ok_ext[OF jobs_for_keys_ok[OF wf] ext1] .
    have "jobs_wf db'" using recover_bulk_facts[OF wf1 ok recover_bulk_aborts[OF rb]] by blast
    then show ?thesis using grows_trans[OF g1 grows_keep[OF recover_bulk_keeps[OF rb]]] by blast
  qed
qed

lemma upsert_step:
  assumes wf: "jobs_wf db" and r: "create_or_update_idempotent (\<lambda>db. db) spec c commit clk db = Inr (j, db')"
  shows "jobs_wf db' \<and> grows db db'"
proof (cases "load_idempotent_job c (py_strip (sp_job_type spec)) (py_strip (sp_idempotency_key spec)) db")
  case None
  with r obtain j1 db1 where cg: "create_or_get_idempotent (\<lambda>db. db) (stripped spec) c commit clk db = Inr (j1, db1)"
    and db': "db' = update_existing_if_mutable (stripped spec) clk j1 db1"
    by (auto simp: create_or_update_idempotent_def bind_result_Inr_iff normalize_inputs_eq Let_def stripped_def)
  show ?thesis
    using create_or_get_facts(1)[OF wf commits_id cg] grows_keep[OF create_or_get_keeps[OF cg]]
      grows_trans[OF _ grows_update_existing] by (simp add: db' update_existing_facts(1))
next
  case (Some e)
  with r have "db' = update_existing_if_mutable (stripped spec) clk e db"
    by (auto simp: create_or_update_idempotent_def bind_result_Inr_iff normalize_inputs_eq Let_def stripped_def)
  with wf show ?thesis by (simp add: update_existing_facts(1) grows_update_existing)
qed

lemma requeue_step:
  assumes wf: "jobs_wf db" and r: "requeue_nonterminal_idempotent_job c t k at now p db = Inr (res, db')"
  shows "jobs_wf db' \<and> grows db db'"
proof -
  from r consider "db' = db" | P where "db' = db\<lparr>jobs := update_rows P (requeue_row at now p) (jobs db)\<rparr>"
    by (auto simp: requeue_nonterminal_idempotent_job_def bind_result_Inr_iff Let_def split: if_splits)
  then show ?thesis
    by cases (auto simp: wf grows_keep requeue_upd.jobs_wf_update_rows intro!: grows_update)
qed

lemma swap_step:
  assumes wf: "jobs_wf db" and r: "claim_update i a w now stale db = (n, db')"
  shows "jobs_wf db' \<and> grows db db'"
proof -
  let ?hit = "\<lambda>j. j_id j = i \<and> j_attempt j = a \<and> runnable now stale j"
  from r have db': "db' = db\<lparr>jobs := update_rows ?hit (claim_row a w now) (jobs db)\<rparr>"
    by (simp add: claim_update_def Let_def)
  with wf show ?thesis by (auto simp: claim_upd.jobs_wf_update_rows intro!: grows_update)
qed

lemma retry_row_step:
  assumes wf: "jobs_wf db" and r: "create_retry_job_from_failed_job j now db = Inr (res, db')"
  shows "jobs_wf db' \<and> grows db db'"
proof (cases "j_status j = JOB_STATUS_DEAD_LETTER")
  case True
  from create_retry_facts[OF wf True r] show ?thesis by (auto intro!: grows_keep)
next
  case False
  with r wf show ?thesis by (simp add: create_retry_job_from_failed_job_def grows_keep)
qed

lemma requeue_each_step:
  "jobs_wf db \<Longrightarrow> requeue_each js now n db = Inr (m, db') \<Longrightarrow> jobs_wf db' \<and> grows db db'"
proof (induction js arbitrary: n db)
  case (Cons j js)
  then obtain r db1 where c: "create_retry_job_from_failed_job j now db = Inr (r, db1)"
    and rest: "requeue_each js now (if r = None then n else n + 1) db1 = Inr (m, db')"
    by (auto simp: bind_result_Inr_iff)
  note s = retry_row_step[OF Cons.prems(1) c]
  with Cons.IH[OF _ rest] show ?case using grows_trans by blast
qed (simp add: grows_keep)

lemma job_step_inv:
  assumes "job_step db db'" "jobs_wf db"
  shows "jobs_wf db' \<and> grows db db'"
  using assms
proof cases
  case (create spec c commit clk j)
  then show ?thesis using create_or_get_facts(1)[OF assms(2) commits_id create] create_or_get_keeps[OF create]
    by (simp add: grows_keep)
next
  case (upsert spec c commit clk j)
  then show ?thesis using upsert_step[OF assms(2)] by blast
next
  case (bulk aborts c specs clk js)
  then show ?thesis using bulk_step[OF assms(2)] by blast
next
  case (requeue c t k at now payload r)
  then show ?thesis using requeue_step[OF assms(2)] by blast
next
  case (swap i a w now stale n)
  then show ?thesis using swap_step[OF assms(2)] by blast
next
  case (succeed i result now)
  with assms(2) show ?thesis
    by (cases "load_job i db") (auto simp: mark_succeeded_facts update_job_def grows_keep intro!: grows_update)
next
  case (fail i e at now)
  with assms(2) show ?thesis
    by (cases "load_job i db") (auto simp: mark_failed_facts update_job_def grows_keep intro!: grows_update)
next
  case (dead i e now)
  show ?thesis
  proof (cases "load_job i db")
    case None
    with dead assms(2) show ?thesis by (simp add: mark_dead_letter_def grows_keep)
  next
    case (Some j)
    from mark_dead_letter_facts(1,2)[OF assms(2) Some dead] show ?thesis
      by (auto simp: update_job_def intro!: grows_update)
  qed
next
  case (retry i now clk r)
  with assms(2) show ?thesis
    by (auto simp: retry_dead_letter_job_def requeue_dead_letter_job_def Let_def grows_keep
        split: if_splits option.splits dest: retry_row_step)
next
  case (admin_requeue cfg i actor k reason force now clk audits r audits')
  from requeue_job_InrD[OF this] obtain j :: job where "db' = (if j_status j = JOB_STATUS_QUEUED then db
      else update_job k (flush_row clk (admin_requeue_row now)) db)" by blast
  with assms(2) show ?thesis
    by (auto simp: admin_requeue_upd.jobs_wf_update_rows grows_keep update_job_def intro!: grows_update)
next
  case (cancel P at)
  with assms(2) show ?thesis
    by (auto simp: cancel_upd.jobs_wf_update_rows intro!: grows_update)
next
  case (retry_many ids now clk n)
  with assms(2) show ?thesis
    by (auto simp: retry_dead_letter_jobs_def requeue_dead_letter_jobs_def Let_def grows_keep
        split: if_splits option.splits list.splits dest: requeue_each_step)
qed (simp add: assms(2) grows_keep)

interpretation job_queue: step_system starts job_step jobs_wf
  by unfold_locales (simp add: starts_def jobs_wf_def used_ids_def, simp add: job_step_inv)

lemma steps_grow: "job_step\<^sup>*\<^sup>* db db' \<Longrightarrow> jobs_wf db \<Longrightarrow> grows db db'"
proof (induction rule: rtranclp_induct)
  case (step db1 db2)
  then show ?case using job_step_inv job_queue.inv_steps grows_trans by blast
qed (simp add: grows_keep)

lemma steps_grow_load:
  assumes "job_step\<^sup>*\<^sup>* db db'" "jobs_wf db" "load_job i db = Some j"
  obtains j' where "load_job i db' = Some j'" "row_grows j j'"
proof -
  have wf': "jobs_wf db'" using job_queue.inv_steps assms(1,2) by blast
  from load_job_SomeD[OF assms(3)] steps_grow[OF assms(1,2)] obtain j' where
    "j' \<in> set (jobs db')" "row_grows j j'" unfolding grows_def by blast
  with load_job_in[OF wf', of j'] load_job_SomeD[OF assms(3)] that show thesis by (auto simp: row_grows_def)
qed

text \<open>A bulk call that returns has a row for the key of each of its specs.\<close>

lemma bulk_rows:
  assumes res: "create_or_update_many_idempotent aborts (\<lambda>db. db) c specs clk db = Inr (js, db')" and wf: "jobs_wf db"
    and s: "s \<in> set specs"
  shows "valid_spec s" and "\<exists>j \<in> set (jobs db'). job_key j = (c, spec_key (stripped s))"
proof -
  let ?norm = "map stripped specs"
  let ?m = "existing_map_of (load_idempotent_jobs_for_keys c (map spec_key ?norm) db)"
  obtain new db1 where au: "apply_updates_to_existing clk ?m ?norm db = (new, db1)" by fastforce
  from res s have valid: "\<forall>sp \<in> set specs. valid_spec sp"
    by (auto simp: create_or_update_many_idempotent_def bind_result_Inr_iff normalize_many_eq)
  then show "valid_spec s" using s by blast
  have "specs \<noteq> []" using s by auto
  with res valid au obtain m' where
    r: "(if new = [] then Inr (?m, db1) else recover_bulk_insert_conflicts aborts c clk new ?m db1) = Inr (m', db')"
    by (auto simp: create_or_update_many_idempotent_def bind_result_Inr_iff normalize_many_eq Let_def simp del: map_map)
  from apply_updates_facts[OF au] have wf1: "jobs_wf db1" and ext1: "jobs_ext db db1"
    and new: "new = filter (\<lambda>sp. map_of ?m (spec_key sp) = None) ?norm" using wf by auto
  have ok1: "map_ok c ?m db1" using map_ok_ext[OF jobs_for_keys_ok[OF wf] ext1] .
  have "map_ok c m' db' \<and> spec_key ` set ?norm \<subseteq> dom (map_of m')"
  proof (cases "new = []")
    case True
    with r have "m' = ?m" "db' = db1" by simp_all
    moreover have "spec_key ` set ?norm \<subseteq> dom (map_of ?m)"
      using True new by (auto simp: filter_empty_conv dom_def)
    ultimately show ?thesis using ok1 by blast
  next
    case False
    with r have "recover_bulk_insert_conflicts False c clk new ?m db1 = Inr (m', db')"
      using recover_bulk_aborts by simp
    from recover_bulk_facts[OF wf1 ok1 this]
    have "map_ok c m' db'" and "dom (map_of ?m) \<union> spec_key ` set new \<subseteq> dom (map_of m')" by auto
    moreover have "spec_key ` set ?norm \<subseteq> dom (map_of ?m) \<union> spec_key ` set new"
      by (auto simp: new dom_def)
    ultimately show ?thesis by blast
  qed
  then have ok: "map_ok c m' db'" and dom: "spec_key ` set ?norm \<subseteq> dom (map_of m')" by blast+
  have "stripped s \<in> set ?norm" using s by simp
  with dom obtain i where "map_of m' (spec_key (stripped s)) = Some i" by blast
  from map_okD[OF ok this] obtain j where "load_job i db' = Some j" "job_key j = (c, spec_key (stripped s))" by blast
  then show "\<exists>j \<in> set (jobs db'). job_key j = (c, spec_key (stripped s))"
    using load_job_SomeD by blast
qed

section \<open>Properties\<close>

text \<open>
  Property C23. Every state the job queue can reach from empty tables, by any sequence of
  committed operations, is well formed: ids and idempotency keys stay unique and a job
  has at most one dead-letter copy; and no job is ever deleted, changes its key or loses
  an attempt along the way.
\<close>

theorem reachable_queue_is_well_formed:
  assumes "starts db0" "job_step\<^sup>*\<^sup>* db0 db" "job_step\<^sup>*\<^sup>* db db'"
  shows "jobs_wf db \<and> distinct (map job_key (jobs db')) \<and> distinct (map fj_original_job_id (failed_jobs db')) \<and>
    (\<forall>i j. load_job i db = Some j \<longrightarrow>
       (\<exists>j'. load_job i db' = Some j' \<and> job_key j' = job_key j \<and> j_attempt j \<le> j_attempt j'))"
proof -
  have wf: "jobs_wf db" using job_queue.inv_reachable assms(1,2) by blast
  have "jobs_wf db'" using job_queue.inv_steps[OF assms(3) wf] .
  moreover have "\<exists>j'. load_job i db' = Some j' \<and> job_key j' = job_key j \<and> j_attempt j \<le> j_attempt j'"
    if "load_job i db = Some j" for i j
    using steps_grow_load[OF assms(3) wf that] by (auto simp: row_grows_def)
  ultimately show ?thesis using wf jobs_wfD by blast
qed

lemma starts_empty: "starts empty_jobs_db"
  by (auto simp: starts_def empty_jobs_db_def inj_def)

theorem reachable_queue_is_well_formed_witness:
  "\<exists>db j. job_step\<^sup>*\<^sup>* empty_jobs_db db \<and> jobs db = [j] \<and> distinct (map job_key (jobs db)) \<and> jobs_wf db"
proof -
  have "case create_or_get_idempotent (\<lambda>db. db) demo_spec 1 True 10 empty_jobs_db of
      Inl _ \<Rightarrow> False | Inr (j, db) \<Rightarrow> length (jobs db) = 1" by code_simp
  then obtain j db where r: "create_or_get_idempotent (\<lambda>db. db) demo_spec 1 True 10 empty_jobs_db = Inr (j, db)"
    and one: "length (jobs db) = 1" by (auto split: sum.splits)
  have "job_step\<^sup>*\<^sup>* empty_jobs_db db" using create[OF r] by blast
  moreover have "jobs db = [hd (jobs db)]" using one by (cases "jobs db") auto
  ultimately show ?thesis using reachable_queue_is_well_formed[OF starts_empty, of db db] by auto
qed

text \<open>
  Property C2. A snapshot of a job is claimed at most once: after a worker has swapped the
  row for an attempt count it read, no worker that read the same attempt count can swap
  it, at any later time and whatever operations run in between. Two claims of one job
  therefore never count as the same attempt.
\<close>

theorem snapshot_claimed_once:
  assumes wf: "jobs_wf db" and win: "claim_update i a w now stale db = (1, db1)"
    and steps: "job_step\<^sup>*\<^sup>* db1 db2"
  shows "claim_update i a w' now' stale' db2 = (0, db2)"
proof -
  have wf1: "jobs_wf db1" using swap_step[OF wf win] by blast
  have wf2: "jobs_wf db2" using job_queue.inv_steps[OF steps wf1] .
  from win claim_update_eq[OF wf, of i a w now stale] have sw: "swappable i a now stale db"
    and db1: "db1 = update_job i (claim_row a w now) db" by (auto split: if_splits)
  then obtain j where "load_job i db = Some j" by (auto simp: swappable_def)
  then have "load_job i db1 = Some (claim_row a w now j)" by (simp add: db1 claim_upd.load_update_same)
  from steps_grow_load[OF steps wf1 this] obtain j2 where
    "load_job i db2 = Some j2" "row_grows (claim_row a w now j) j2" .
  moreover from this(2) have "a < j_attempt j2" unfolding row_grows_def by (simp add: claim_row_def)
  ultimately have "\<not> swappable i a now' stale' db2" by (auto simp: swappable_def)
  then show ?thesis by (simp add: claim_update_eq[OF wf2])
qed

theorem snapshot_claimed_once_witness:
  "\<exists>db1. claim_update ''c'' 0 ''w1'' 20 0 two_jobs_db = (1, db1) \<and>
     claim_update ''c'' 0 ''w2'' 9000 8000 (mark_failed_and_reschedule ''c'' ''e'' (Some 30) 25 db1) =
       (0, mark_failed_and_reschedule ''c'' ''e'' (Some 30) 25 db1)"
proof -
  have "fst (claim_update ''c'' 0 ''w1'' 20 0 two_jobs_db) = 1"
    by (simp add: claim_update_def count_rows_def two_jobs_db_def busy_job_def job_from_spec_def
        runnable_def demo_spec_def Let_def)
  then obtain db1 where w: "claim_update ''c'' 0 ''w1'' 20 0 two_jobs_db = (1, db1)" by (metis prod.collapse)
  have "job_step\<^sup>*\<^sup>* db1 (mark_failed_and_reschedule ''c'' ''e'' (Some 30) 25 db1)"
    by (rule r_into_rtranclp[of job_step, OF fail[OF refl]])
  from snapshot_claimed_once[OF two_jobs_db_wf w this] w show ?thesis by blast
qed

end
