(* ===== verification/JobLease.thy ===== *)
theory JobLease
  imports JobSystem
begin

text \<open>
  The abstract contract of the queue, and the proof that the queue implements it. Abstractly
  a job is a lease that counts how often it was taken: it waits until it is due, a worker
  holds it since some time, or it is finished. A worker takes a lease that is due, or one that
  is held for too long, if the count is the one it saw; a lease is finished, or put back to
  wait; work is offered, which adds waiting leases and may change when a waiting one is due.
  No other operation makes a lease held, counts, or touches one that somebody holds.
\<close>

section \<open>The abstract queue\<close>

datatype lease = Waiting "datetime option" | Held "datetime option" "string option" | Finished

type_synonym leases = "string \<Rightarrow> (lease \<times> int) option"

fun available :: "datetime \<Rightarrow> datetime \<Rightarrow> lease \<Rightarrow> bool" where
  "available now stale (Waiting due) \<longleftrightarrow> (case due of None \<Rightarrow> True | Some t \<Rightarrow> t \<le> now)"
| "available now stale (Held since by) \<longleftrightarrow> (case since of None \<Rightarrow> True | Some t \<Rightarrow> t \<le> stale)"
| "available now stale Finished \<longleftrightarrow> False"

definition take_lease ::
    "string \<Rightarrow> int \<Rightarrow> string \<Rightarrow> datetime \<Rightarrow> datetime \<Rightarrow> leases \<Rightarrow> nat \<times> leases" where
  "take_lease i seen worker now stale m =
     (case m i of
        None \<Rightarrow> (0, m)
      | Some (l, n) \<Rightarrow>
          if n = seen \<and> available now stale l then (1, m(i \<mapsto> (Held (Some now) (Some worker), n + 1))) else (0, m))"

definition set_lease :: "string \<Rightarrow> lease \<Rightarrow> leases \<Rightarrow> leases" where
  "set_lease i l m = (case m i of None \<Rightarrow> m | Some (_, n) \<Rightarrow> m(i \<mapsto> (l, n)))"

definition offer :: "leases \<Rightarrow> leases \<Rightarrow> bool" where
  "offer m m' \<longleftrightarrow> (\<forall>i. case m i of
       None \<Rightarrow> m' i = None \<or> (\<exists>due. m' i = Some (Waiting due, 0))
     | Some (l, n) \<Rightarrow> m' i = m i \<or> (\<exists>due due'. l = Waiting due \<and> m' i = Some (Waiting due', n)))"

text \<open>Two claims of the abstract queue, whatever happens: what is held is taken away only when it is stale.\<close>

lemma take_held:
  "m i = Some (Held (Some t) by, n) \<Longrightarrow> stale < t \<Longrightarrow> take_lease i a w now stale m = (0, m)"
  by (simp add: take_lease_def)

section \<open>The abstraction\<close>

definition lease_of :: "job \<Rightarrow> lease" where
  "lease_of j = (case j_status j of
       JOB_STATUS_QUEUED \<Rightarrow> Waiting (j_next_run_at j)
     | JOB_STATUS_RUNNING \<Rightarrow> Held (j_locked_at j) (j_locked_by j)
     | _ \<Rightarrow> Finished)"

definition leases :: "jobs_db \<Rightarrow> leases" where
  "leases db i = map_option (\<lambda>j. (lease_of j, j_attempt j)) (load_job i db)"

lemma available_runnable: "available now stale (lease_of j) \<longleftrightarrow> runnable now stale j"
  by (cases "j_status j") (simp_all add: lease_of_def runnable_def)

section \<open>What the offering operations do to a row\<close>

definition touched :: "job \<Rightarrow> job \<Rightarrow> bool" where
  "touched j j' \<longleftrightarrow> j_id j' = j_id j \<and> j_attempt j' = j_attempt j \<and>
     (lease_of j' = lease_of j \<or> (\<exists>d d'. lease_of j = Waiting d \<and> lease_of j' = Waiting d'))"

definition new_row :: "job \<Rightarrow> bool" where
  "new_row j \<longleftrightarrow> j_status j = JOB_STATUS_QUEUED \<and> j_attempt j = 0"

lemma lease_of_Waiting: "lease_of j = Waiting d \<longleftrightarrow> j_status j = JOB_STATUS_QUEUED \<and> j_next_run_at j = d"
  by (cases "j_status j") (auto simp: lease_of_def)

lemma new_row_touched: "new_row j \<Longrightarrow> touched j j' \<Longrightarrow> new_row j'"
  by (auto simp: new_row_def touched_def lease_of_Waiting) (auto simp: lease_of_def split: job_status.splits)

definition moves :: "jobs_db \<Rightarrow> jobs_db \<Rightarrow> bool" where
  "moves db db' \<longleftrightarrow> (\<forall>j \<in> set (jobs db). \<exists>j' \<in> set (jobs db'). touched j j') \<and>
     (\<forall>j' \<in> set (jobs db'). new_row j' \<or> (\<exists>j \<in> set (jobs db). touched j j'))"

lemma touched_refl [simp]: "touched j j"
  by (simp add: touched_def)

lemma touched_trans: "touched a b \<Longrightarrow> touched b c \<Longrightarrow> touched a c"
  unfolding touched_def by (elim conjE, intro conjI) (auto, metis)

lemma moves_same: "jobs db' = jobs db \<Longrightarrow> moves db db'"
  unfolding moves_def using touched_refl by metis

lemma moves_trans:
  assumes ab: "moves a b" and bc: "moves b c"
  shows "moves a c"
  unfolding moves_def
proof (intro conjI ballI)
  fix j assume "j \<in> set (jobs a)"
  with ab bc show "\<exists>j' \<in> set (jobs c). touched j j'" unfolding moves_def using touched_trans by metis
next
  fix j'' assume "j'' \<in> set (jobs c)"
  with bc consider "new_row j''" | j' where "j' \<in> set (jobs b)" "touched j' j''" unfolding moves_def by blast
  then show "new_row j'' \<or> (\<exists>j \<in> set (jobs a). touched j j'')"
  proof cases
    case (2 j')
    with ab consider "new_row j'" | j where "j \<in> set (jobs a)" "touched j j'" unfolding moves_def by blast
    then show ?thesis
    proof cases
      case 1
      with 2(2) have "new_row j''" by (blast intro: new_row_touched)
      then show ?thesis ..
    next
      case (2 j)
      with \<open>touched j' j''\<close> touched_trans show ?thesis by blast
    qed
  qed simp
qed

lemma moves_add: "jobs db' = jobs db @ [j] \<Longrightarrow> new_row j \<Longrightarrow> moves db db'"
  unfolding moves_def by (metis Un_iff list.set(1) list.set(2) set_append singletonD touched_refl)

lemma moves_update:
  assumes "jobs db' = update_rows P f (jobs db)" "\<And>j. j \<in> set (jobs db) \<Longrightarrow> P j \<Longrightarrow> touched j (f j)"
  shows "moves db db'"
proof -
  have "touched j (if P j then f j else j)" if "j \<in> set (jobs db)" for j using assms(2) that by simp
  then show ?thesis unfolding moves_def assms(1) update_rows_def set_map by blast
qed

lemma touched_updated:
  "is_mutable_idempotent_job j \<Longrightarrow> touched j (flush_row clk (apply_idempotent_job_updates spec clk) j)"
  by (auto simp: touched_def lease_of_def is_mutable_idempotent_job_def flush_row_def apply_idempotent_job_updates_def Let_def)

lemma new_from_spec [simp]: "new_row (job_from_spec c clk i spec)"
  by (simp add: new_row_def job_from_spec_def)

lemma new_retry [simp]: "new_row (retry_job_of i j f now)"
  by (simp add: new_row_def retry_job_of_def)

lemma moves_update_existing:
  assumes wf: "jobs_wf db" and j: "load_job (j_id j) db = Some j"
  shows "moves db (update_existing_if_mutable spec clk j db)"
proof (cases "is_mutable_idempotent_job j")
  case True
  have "touched r (flush_row clk (apply_idempotent_job_updates spec clk) r)" if "r \<in> set (jobs db)" "j_id r = j_id j" for r
    using load_job_in[OF wf that(1)] that(2) j True by (simp add: touched_updated)
  then show ?thesis using True
    by (simp add: update_existing_if_mutable_def update_job_def moves_update)
qed (simp add: update_existing_if_mutable_def moves_same)

lemma moves_apply_updates:
  "jobs_wf db \<Longrightarrow> apply_updates_to_existing clk m specs db = (new, db') \<Longrightarrow> moves db db'"
proof (induction specs arbitrary: db new)
  case (Cons spec specs)
  show ?case
  proof (cases "case map_of m (spec_key spec) of None \<Rightarrow> None | Some i \<Rightarrow> load_job i db")
    case None
    with Cons show ?thesis by (auto split: option.splits prod.splits)
  next
    case (Some e)
    then obtain i where i: "map_of m (spec_key spec) = Some i" "load_job i db = Some e" by (auto split: option.splits)
    then have e: "load_job (j_id e) db = Some e" by (auto dest: load_job_SomeD)
    let ?u = "update_existing_if_mutable spec clk e db"
    have "jobs_wf ?u" using Cons.prems(1) by (simp add: update_existing_facts(1))
    moreover have "apply_updates_to_existing clk m specs ?u = (new, db')" using Cons.prems(2) i by simp
    ultimately show ?thesis using Cons.IH moves_trans[OF moves_update_existing[OF Cons.prems(1) e]] by blast
  qed
qed (simp add: moves_same)

lemma moves_insert_nested:
  assumes "insert_nested_or_get_existing c spec clk db = Inr (j, db')"
  shows "moves db db'"
  using assms
  by (auto simp: insert_nested_or_get_existing_def draw_uuid_def Let_def split: sum.splits option.splits
      dest!: insert_job_InrD intro: moves_same moves_add)

lemma moves_insert_rows: "insert_rows c clk specs db = Inr db' \<Longrightarrow> moves db db'"
proof (induction specs arbitrary: db)
  case (Cons spec specs)
  obtain i db1 where d: "draw_uuid db = (i, db1)" by fastforce
  with Cons.prems obtain db2 where ins: "insert_job (job_from_spec c clk i spec) db1 = Inr db2"
    and rest: "insert_rows c clk specs db2 = Inr db'" by (auto simp: bind_result_Inr_iff)
  have "moves db db2" using d insert_job_InrD[OF ins] by (intro moves_add[of _ _ "job_from_spec c clk i spec"]) (auto simp: draw_uuid_def)
  with Cons.IH[OF rest] moves_trans show ?case by blast
qed (simp add: moves_same)

lemma moves_recover_per_key: "recover_per_key c clk specs m db = Inr (m', db') \<Longrightarrow> moves db db'"
proof (induction specs arbitrary: m db)
  case (Cons spec specs)
  then show ?case
    by (fastforce simp: bind_result_Inr_iff split: option.splits dest: moves_insert_nested intro: moves_trans)
qed (simp add: moves_same)

lemma moves_recover_bulk:
  assumes "recover_bulk_insert_conflicts aborts c clk specs m db = Inr (m', db')"
  shows "moves db db'"
proof (cases "insert_rows c clk specs db")
  case (Inl e)
  with assms show ?thesis using moves_recover_per_key by (auto simp: recover_bulk_insert_conflicts_def split: if_splits)
next
  case (Inr db1)
  with assms have "jobs db' = jobs db1" by (auto simp: recover_bulk_insert_conflicts_def Let_def)
  with moves_trans[OF moves_insert_rows[OF Inr] moves_same] show ?thesis by blast
qed

lemma moves_create: "create_or_get_idempotent (\<lambda>db. db) spec c commit clk db = Inr (j, db') \<Longrightarrow> moves db db'"
  by (auto simp: create_or_get_idempotent_def insert_commit_or_get_existing_def bind_result_Inr_iff Let_def
      split: if_splits option.splits dest: moves_insert_nested intro: moves_same)

lemma moves_upsert:
  assumes wf: "jobs_wf db" and r: "create_or_update_idempotent (\<lambda>db. db) spec c commit clk db = Inr (j, db')"
  shows "moves db db'"
proof (cases "load_idempotent_job c (py_strip (sp_job_type spec)) (py_strip (sp_idempotency_key spec)) db")
  case None
  with r obtain j1 db1 where cg: "create_or_get_idempotent (\<lambda>db. db) (stripped spec) c commit clk db = Inr (j1, db1)"
    and db': "db' = update_existing_if_mutable (stripped spec) clk j1 db1"
    by (auto simp: create_or_update_idempotent_def bind_result_Inr_iff normalize_inputs_eq Let_def stripped_def)
  note cf = create_or_get_facts[OF wf commits_id cg]
  from cf(1,3) have "load_job (j_id j1) db1 = Some j1" using load_idempotent_job_SomeD load_job_in by blast
  from moves_trans[OF moves_create[OF cg] moves_update_existing[OF cf(1) this]] db' show ?thesis by blast
next
  case (Some e)
  with r have "db' = update_existing_if_mutable (stripped spec) clk e db"
    by (auto simp: create_or_update_idempotent_def bind_result_Inr_iff normalize_inputs_eq Let_def stripped_def)
  moreover have "load_job (j_id e) db = Some e" using Some wf load_idempotent_job_SomeD load_job_in by blast
  ultimately show ?thesis using moves_update_existing[OF wf] by blast
qed

lemma moves_bulk:
  assumes wf: "jobs_wf db" and "create_or_update_many_idempotent aborts (\<lambda>db. db) c specs clk db = Inr (js, db')"
  shows "moves db db'"
  using assms(2) moves_trans[OF moves_apply_updates[OF wf] moves_recover_bulk]
  by (auto simp: create_or_update_many_idempotent_def bind_result_Inr_iff Let_def split: if_splits prod.splits
      intro: moves_same dest: moves_apply_updates[OF wf])

lemma moves_retry:
  assumes wf: "jobs_wf db" and r: "create_retry_job_from_failed_job j now db = Inr (res, db')"
  shows "moves db db'"
proof (cases "j_status j = JOB_STATUS_DEAD_LETTER")
  case True
  let ?e = "case j_last_error j of None \<Rightarrow> ''job_dead_lettered'' | Some e \<Rightarrow> if e = [] then ''job_dead_lettered'' else e"
  from r True obtain f db1 where c: "copy_job_to_failed_jobs j ?e (j_updated_at j) db = Inr (f, db1)"
    by (auto simp: create_retry_job_from_failed_job_def bind_result_Inr_iff)
  have "jobs db1 = jobs db" using copy_facts[OF wf c] by simp
  with r True c have "jobs db' = jobs db \<or> (\<exists>i. jobs db' = jobs db @ [retry_job_of i j (fj_id f) now])"
    by (auto simp: create_retry_job_from_failed_job_def bind_result_Inr_iff draw_uuid_def Let_def
        dest!: insert_job_InrD split: option.splits if_splits)
  then show ?thesis using moves_same moves_add new_retry by metis
qed (use r in \<open>simp add: create_retry_job_from_failed_job_def moves_same\<close>)

lemma moves_requeue_each: "jobs_wf db \<Longrightarrow> requeue_each js now n db = Inr (m, db') \<Longrightarrow> moves db db'"
proof (induction js arbitrary: n db)
  case (Cons j js)
  then obtain r db1 where c: "create_retry_job_from_failed_job j now db = Inr (r, db1)"
    and rest: "requeue_each js now (if r = None then n else n + 1) db1 = Inr (m, db')"
    by (auto simp: bind_result_Inr_iff)
  have "jobs_wf db1" using retry_row_step[OF Cons.prems(1) c] by blast
  with Cons.IH[OF _ rest] moves_retry[OF Cons.prems(1) c] moves_trans show ?case by blast
qed (simp add: moves_same)

section \<open>The simulation\<close>

lemma leases_moves:
  assumes wf: "jobs_wf db" "jobs_wf db'" and m: "moves db db'"
  shows "offer (leases db) (leases db')"
  unfolding offer_def
proof
  fix i
  show "case leases db i of None \<Rightarrow> leases db' i = None \<or> (\<exists>due. leases db' i = Some (Waiting due, 0))
     | Some (l, n) \<Rightarrow> leases db' i = leases db i \<or> (\<exists>due due'. l = Waiting due \<and> leases db' i = Some (Waiting due', n))"
  proof (cases "load_job i db")
    case (Some j)
    then have j: "j \<in> set (jobs db)" "j_id j = i" by (auto dest: load_job_SomeD)
    with m obtain j' where "j' \<in> set (jobs db')" "touched j j'" unfolding moves_def by blast
    with j load_job_in[OF wf(2), of j'] Some show ?thesis
      by (auto simp: leases_def touched_def)
  next
    case None
    show ?thesis
    proof (cases "load_job i db'")
      case (Some j')
      then have j': "j' \<in> set (jobs db')" "j_id j' = i" by (auto dest: load_job_SomeD)
      have "\<not> (\<exists>j \<in> set (jobs db). touched j j')"
        using None j'(2) load_job_in[OF wf(1)] by (fastforce simp: touched_def)
      with m j'(1) have "new_row j'" unfolding moves_def by blast
      with Some None show ?thesis by (simp add: leases_def new_row_def lease_of_Waiting)
    qed (use None in \<open>simp add: leases_def\<close>)
  qed
qed

text \<open>An operation that writes one row.\<close>

lemma leases_write:
  assumes "\<And>i'. load_job i' db' = (if i' = i then map_option f (load_job i db) else load_job i' db)"
    and "\<And>j. lease_of (f j) = l \<and> j_attempt (f j) = j_attempt j"
  shows "leases db' = set_lease i l (leases db)"
  using assms by (auto simp: fun_eq_iff leases_def set_lease_def split: option.splits)

lemma leases_same: "jobs db' = jobs db \<Longrightarrow> leases db' = leases db"
  by (simp add: leases_def load_job_def fun_eq_iff)

lemma claim_takes:
  assumes wf: "jobs_wf db"
  shows "take_lease i a w now stale (leases db) =
    (fst (claim_update i a w now stale db), leases (snd (claim_update i a w now stale db)))"
proof (cases "swappable i a now stale db")
  case True
  then obtain j where j: "load_job i db = Some j" "j_attempt j = a" "runnable now stale j" by (auto simp: swappable_def)
  have "leases (update_job i (claim_row a w now) db) = (leases db)(i \<mapsto> (Held (Some now) (Some w), a + 1))"
    using j(1) by (auto simp: fun_eq_iff leases_def claim_upd.load_update claim_row_def lease_of_def)
  with j True show ?thesis
    by (simp add: claim_update_eq[OF wf] take_lease_def leases_def[of db] available_runnable)
next
  case False
  then show ?thesis
    by (auto simp: claim_update_eq[OF wf] take_lease_def swappable_def leases_def available_runnable split: option.splits)
qed

lemma succeed_finishes: "leases (mark_succeeded i r now db) = set_lease i Finished (leases db)"
  by (rule leases_write[where f = "succeed_row r now"])
    (auto simp: mark_succeeded_facts succeed_row_def lease_of_def)

lemma fail_waits: "leases (mark_failed_and_reschedule i e at now db) = set_lease i (Waiting at) (leases db)"
  by (rule leases_write[where f = "reschedule_row e at now"])
    (auto simp: mark_failed_facts reschedule_row_def lease_of_def)

lemma dead_letter_finishes:
  assumes wf: "jobs_wf db" and r: "mark_dead_letter i e now db = Inr db'"
  shows "leases db' = set_lease i Finished (leases db)"
proof (cases "load_job i db")
  case None
  with r show ?thesis by (simp add: mark_dead_letter_def set_lease_def leases_def)
next
  case (Some j)
  with mark_dead_letter_facts(3)[OF wf Some r] show ?thesis
    by (intro leases_write[where f = "dead_letter_row e now"]) (auto simp: dead_letter_row_def lease_of_def)
qed

lemma requeue_waits:
  assumes wf: "jobs_wf db" and r: "requeue_nonterminal_idempotent_job c t k at now p db = Inr (x, db')"
  shows "leases db' = leases db \<or> (\<exists>i l n. leases db i = Some (l, n) \<and> l \<noteq> Finished \<and>
    leases db' = set_lease i (Waiting (Some at)) (leases db))"
proof -
  let ?hit = "\<lambda>j. job_key j = (c, py_strip t, py_strip k) \<and> j_status j \<in> {JOB_STATUS_QUEUED, JOB_STATUS_RUNNING}"
  have cases: "db' = db \<or> (\<exists>j \<in> set (jobs db). ?hit j) \<and>
      db' = db\<lparr>jobs := update_rows ?hit (requeue_row at now p) (jobs db)\<rparr>"
    using r by (auto simp: requeue_nonterminal_idempotent_job_def bind_result_Inr_iff Let_def count_rows_def
        filter_empty_conv split: if_splits)
  show ?thesis
  proof (cases "db' = db")
    case False
    with cases obtain j where j: "j \<in> set (jobs db)" "?hit j"
      and db': "db' = db\<lparr>jobs := update_rows ?hit (requeue_row at now p) (jobs db)\<rparr>" by blast
    have only: "?hit r \<longleftrightarrow> j_id r = j_id j" if r: "r \<in> set (jobs db)" for r
    proof
      assume "?hit r"
      with j have k: "job_key r = job_key j" by simp
      have "distinct (map job_key (jobs db))" using wf by (simp add: jobs_wf_def)
      with k r j(1) have "r = j" by (metis (no_types, lifting) distinct_map inj_on_def)
      then show "j_id r = j_id j" by simp
    next
      assume "j_id r = j_id j"
      with job_eqI[OF wf r j(1)] j(2) show "?hit r" by simp
    qed
    then have "update_rows ?hit (requeue_row at now p) (jobs db) =
        update_rows (\<lambda>r. j_id r = j_id j) (requeue_row at now p) (jobs db)"
      by (rule update_rows_cong)
    then have "db' = update_job (j_id j) (requeue_row at now p) db" by (simp add: db' update_job_def)
    moreover have "lease_of (requeue_row at now p x) = Waiting (Some at) \<and> j_attempt (requeue_row at now p x) = j_attempt x" for x
      by (cases p) (simp_all add: requeue_row_def lease_of_def)
    ultimately have "leases db' = set_lease (j_id j) (Waiting (Some at)) (leases db)"
      by (intro leases_write[where f = "requeue_row at now p"]) (simp_all add: requeue_upd.load_update)
    moreover have "leases db (j_id j) = Some (lease_of j, j_attempt j)"
      using load_job_in[OF wf j(1)] by (simp add: leases_def)
    moreover have "lease_of j \<noteq> Finished" using j(2) by (auto simp: lease_of_def)
    ultimately show ?thesis by blast
  qed simp
qed

lemma requeued:
  "j_status (flush_row clk (admin_requeue_row now) y) = JOB_STATUS_QUEUED"
  "j_next_run_at (flush_row clk (admin_requeue_row now) y) = Some now"
  "j_attempt (flush_row clk (admin_requeue_row now) y) = j_attempt y"
  by (auto simp: flush_row_def admin_requeue_row_def Let_def
      dest: arg_cong[of _ _ j_status] arg_cong[of _ _ j_next_run_at])

lemma admin_requeue_waits:
  assumes r: "requeue_job cfg x actor k reason force now clk audits db = Inr (r, audits', db')"
  shows "leases db' = (if jq_previous_status r = JOB_STATUS_QUEUED then leases db
      else set_lease k (Waiting (Some now)) (leases db))"
proof -
  from requeue_job_InrD[OF r] obtain j :: job where j: "jq_previous_status r = j_status j"
    "db' = (if j_status j = JOB_STATUS_QUEUED then db else update_job k (flush_row clk (admin_requeue_row now)) db)" by blast
  have "lease_of (flush_row clk (admin_requeue_row now) y) = Waiting (Some now) \<and>
      j_attempt (flush_row clk (admin_requeue_row now) y) = j_attempt y" for y
    using requeued[of _ _ y] by (simp add: lease_of_def)
  then have "leases (update_job k (flush_row clk (admin_requeue_row now)) db) = set_lease k (Waiting (Some now)) (leases db)"
    by (intro leases_write[where f = "flush_row clk (admin_requeue_row now)"]) (simp_all add: admin_requeue_upd.load_update)
  with j show ?thesis by simp
qed

section \<open>Properties\<close>

text \<open>
  Property C7. The job queue implements the abstract queue of leases, operation by
  operation. A claim is \<open>take_lease\<close>: it counts an attempt and makes the worker the holder
  exactly when the job is due, or held by somebody since before the stale bound, and the
  count is the one the worker saw; otherwise nothing changes. A success or a dead letter
  finishes the lease, a failure puts it back to wait until its next run, both keep its count;
  the code's requeue puts back one unfinished lease at most, the admin's requeue the job it
  names unless that waits already. Creating and retrying jobs only offers: no held or
  finished lease changes, and none becomes held.
\<close>

theorem queue_refines_leases:
  assumes wf: "jobs_wf db"
  shows "take_lease i a w now stale (leases db) =
      (fst (claim_update i a w now stale db), leases (snd (claim_update i a w now stale db))) \<and>
    leases (mark_succeeded i result now db) = set_lease i Finished (leases db) \<and>
    leases (mark_failed_and_reschedule i e at now db) = set_lease i (Waiting at) (leases db) \<and>
    (\<forall>db'. mark_dead_letter i e now db = Inr db' \<longrightarrow> leases db' = set_lease i Finished (leases db)) \<and>
    (\<forall>due r db'. requeue_nonterminal_idempotent_job c t k due now p db = Inr (r, db') \<longrightarrow>
       leases db' = leases db \<or>
       (\<exists>i l n. leases db i = Some (l, n) \<and> l \<noteq> Finished \<and> leases db' = set_lease i (Waiting (Some due)) (leases db))) \<and>
    (\<forall>cfg x actor reason force audits r audits' db'.
       requeue_job cfg x actor i reason force now clk audits db = Inr (r, audits', db') \<longrightarrow>
       leases db' = (if jq_previous_status r = JOB_STATUS_QUEUED then leases db
         else set_lease i (Waiting (Some now)) (leases db))) \<and>
    (\<forall>spec commit j db'. create_or_get_idempotent (\<lambda>db. db) spec c commit clk db = Inr (j, db') \<or>
       create_or_update_idempotent (\<lambda>db. db) spec c commit clk db = Inr (j, db') \<longrightarrow> offer (leases db) (leases db')) \<and>
    (\<forall>aborts specs js db'. create_or_update_many_idempotent aborts (\<lambda>db. db) c specs clk db = Inr (js, db') \<longrightarrow>
       offer (leases db) (leases db')) \<and>
    (\<forall>at r db'. retry_dead_letter_job i at clk db = Inr (r, db') \<longrightarrow> offer (leases db) (leases db')) \<and>
    (\<forall>ids at n db'. retry_dead_letter_jobs ids at clk db = Inr (n, db') \<longrightarrow> offer (leases db) (leases db'))"
proof -
  note step = job_step_inv[OF _ wf, THEN conjunct1] and offers = leases_moves[OF wf]
  have 1: "offer (leases db) (leases db')"
    if "create_or_get_idempotent (\<lambda>db. db) spec c commit clk db = Inr (j, db')" for spec commit j db'
    using offers[OF step[OF create[OF that]] moves_create[OF that]] .
  have 2: "offer (leases db) (leases db')"
    if "create_or_update_idempotent (\<lambda>db. db) spec c commit clk db = Inr (j, db')" for spec commit j db'
    using offers[OF step[OF upsert[OF that]] moves_upsert[OF wf that]] .
  have 3: "offer (leases db) (leases db')"
    if "create_or_update_many_idempotent aborts (\<lambda>db. db) c specs clk db = Inr (js, db')" for aborts specs js db'
    using offers[OF step[OF bulk[OF that]] moves_bulk[OF wf that]] .
  have 4: "offer (leases db) (leases db')" if r: "retry_dead_letter_job i at clk db = Inr (r, db')" for at r db'
  proof -
    have "moves db db'" using r
      by (auto simp: retry_dead_letter_job_def requeue_dead_letter_job_def Let_def moves_same
          split: if_splits option.splits dest: moves_retry[OF wf])
    then show ?thesis by (rule offers[OF step[OF retry[OF r]]])
  qed
  have 5: "offer (leases db) (leases db')" if r: "retry_dead_letter_jobs ids at clk db = Inr (n, db')" for ids at n db'
  proof -
    have "moves db db'" using r
      by (auto simp: retry_dead_letter_jobs_def requeue_dead_letter_jobs_def Let_def moves_same
          split: if_splits option.splits list.splits dest: moves_requeue_each[OF wf])
    then show ?thesis by (rule offers[OF step[OF retry_many[OF r]]])
  qed
  from 1 2 have 12: "offer (leases db) (leases db')"
    if "create_or_get_idempotent (\<lambda>db. db) spec c commit clk db = Inr (j, db') \<or>
       create_or_update_idempotent (\<lambda>db. db) spec c commit clk db = Inr (j, db')" for spec commit j db'
    using that by metis
  show ?thesis
    by (intro conjI allI impI)
      (rule claim_takes[OF wf] succeed_finishes fail_waits | erule dead_letter_finishes[OF wf]
        requeue_waits[OF wf] admin_requeue_waits 12 3 4 5)+
qed

theorem queue_refines_leases_witness:
  "leases two_jobs_db ''c'' = Some (Waiting (Some 5), 0) \<and>
   (\<exists>db. claim_update ''c'' 0 ''w1'' 20 0 two_jobs_db = (1, db) \<and> leases db ''c'' = Some (Held (Some 20) (Some ''w1''), 1))"
proof -
  have c: "leases two_jobs_db ''c'' = Some (Waiting (Some 5), 0)" by code_simp
  have t: "take_lease ''c'' 0 ''w1'' 20 0 (leases two_jobs_db) =
      (1, (leases two_jobs_db)(''c'' \<mapsto> (Held (Some 20) (Some ''w1''), 1)))"
    by (simp add: take_lease_def c)
  obtain n db where r: "claim_update ''c'' 0 ''w1'' 20 0 two_jobs_db = (n, db)" by fastforce
  from queue_refines_leases[OF two_jobs_db_wf, THEN conjunct1, of "''c''" 0 "''w1''" 20 0]
  have n: "n = 1" and l: "leases db = (leases two_jobs_db)(''c'' \<mapsto> (Held (Some 20) (Some ''w1''), 1))"
    by (simp_all add: r t)
  then have "leases db ''c'' = Some (Held (Some 20) (Some ''w1''), 1)" by simp
  with c r n show ?thesis by blast
qed

end
