(* ===== verification/Trials.thy ===== *)
theory Trials
  imports JobSystem Sessions
begin

text \<open>
  Trials and their scenario versions (\<open>app/trials\<close>): the rows, the status machine with its
  timestamps, ownership, and the rule when candidates may be invited. The application
  state holds the trials, the scenario versions, the candidate sessions and the job queue.
  A trial's status is the string the column holds, the legacy value included.
\<close>

section \<open>Rows\<close>

record trial =
  t_id :: int
  t_company_id :: int
  t_created_by :: int
  t_title :: string
  t_role :: string
  t_focus :: string
  t_scenario_template :: string
  t_template_key :: string
  t_preferred_language_framework :: string
  t_seniority :: string
  t_day_window_start_local :: int
  t_day_window_end_local :: int
  t_day_window_overrides_enabled :: bool
  t_day_window_overrides_json :: json
  t_active_scenario_version_id :: "int option"
  t_pending_scenario_version_id :: "int option"
  t_status :: string
  t_generating_at :: "datetime option"
  t_ready_for_review_at :: "datetime option"
  t_activated_at :: "datetime option"
  t_terminated_at :: "datetime option"
  t_terminated_reason :: "string option"
  t_terminated_by_talent_partner_id :: "int option"

record scenario_version =
  sv_id :: int
  sv_trial_id :: int
  sv_version_index :: int
  sv_status :: string
  sv_storyline_md :: string
  sv_task_prompts_json :: json
  sv_rubric_json :: json
  sv_project_brief_md :: json
  sv_ai_policy_snapshot_json :: json
  sv_focus_notes :: string
  sv_template_key :: string
  sv_preferred_language_framework :: string
  sv_seniority :: string
  sv_locked_at :: "datetime option"

record app_db =
  trials :: "trial list"
  scenario_versions :: "scenario_version list"
  sessions :: "candidate_session list"
  queue :: jobs_db

section \<open>Statuses\<close>

definition TRIAL_STATUS_DRAFT :: string where "TRIAL_STATUS_DRAFT = ''draft''"
definition TRIAL_STATUS_GENERATING :: string where "TRIAL_STATUS_GENERATING = ''generating''"
definition TRIAL_STATUS_READY_FOR_REVIEW :: string where "TRIAL_STATUS_READY_FOR_REVIEW = ''ready_for_review''"
definition TRIAL_STATUS_ACTIVE_INVITING :: string where "TRIAL_STATUS_ACTIVE_INVITING = ''active_inviting''"
definition TRIAL_STATUS_COMPLETED :: string where "TRIAL_STATUS_COMPLETED = ''completed''"
definition TRIAL_STATUS_TERMINATED :: string where "TRIAL_STATUS_TERMINATED = ''terminated''"
definition LEGACY_TRIAL_STATUS_ACTIVE :: string where "LEGACY_TRIAL_STATUS_ACTIVE = ''active''"

lemmas trial_status_defs =
  TRIAL_STATUS_DRAFT_def TRIAL_STATUS_GENERATING_def TRIAL_STATUS_READY_FOR_REVIEW_def
  TRIAL_STATUS_ACTIVE_INVITING_def TRIAL_STATUS_COMPLETED_def TRIAL_STATUS_TERMINATED_def
  LEGACY_TRIAL_STATUS_ACTIVE_def

definition TRIAL_STATUSES :: "string list" where
  "TRIAL_STATUSES = [TRIAL_STATUS_DRAFT, TRIAL_STATUS_GENERATING, TRIAL_STATUS_READY_FOR_REVIEW,
     TRIAL_STATUS_ACTIVE_INVITING, TRIAL_STATUS_COMPLETED, TRIAL_STATUS_TERMINATED]"

definition SCENARIO_VERSION_STATUS_DRAFT :: string where "SCENARIO_VERSION_STATUS_DRAFT = ''draft''"
definition SCENARIO_VERSION_STATUS_GENERATING :: string where "SCENARIO_VERSION_STATUS_GENERATING = ''generating''"
definition SCENARIO_VERSION_STATUS_READY :: string where "SCENARIO_VERSION_STATUS_READY = ''ready''"
definition SCENARIO_VERSION_STATUS_LOCKED :: string where "SCENARIO_VERSION_STATUS_LOCKED = ''locked''"

lemmas scenario_status_defs =
  SCENARIO_VERSION_STATUS_DRAFT_def SCENARIO_VERSION_STATUS_GENERATING_def
  SCENARIO_VERSION_STATUS_READY_def SCENARIO_VERSION_STATUS_LOCKED_def

definition ALLOWED_TRANSITIONS :: "(string \<times> string list) list" where
  "ALLOWED_TRANSITIONS =
     [(TRIAL_STATUS_DRAFT, [TRIAL_STATUS_GENERATING]),
      (TRIAL_STATUS_GENERATING, [TRIAL_STATUS_READY_FOR_REVIEW]),
      (TRIAL_STATUS_READY_FOR_REVIEW, [TRIAL_STATUS_ACTIVE_INVITING]),
      (TRIAL_STATUS_ACTIVE_INVITING, [TRIAL_STATUS_READY_FOR_REVIEW, TRIAL_STATUS_COMPLETED]),
      (TRIAL_STATUS_COMPLETED, []),
      (TRIAL_STATUS_TERMINATED, [])]"

definition normalize_trial_status :: "string option \<Rightarrow> string option" where
  "normalize_trial_status raw_status =
     (case raw_status of
        None \<Rightarrow> None
      | Some s \<Rightarrow> if s = LEGACY_TRIAL_STATUS_ACTIVE then Some TRIAL_STATUS_ACTIVE_INVITING
                 else if s \<in> set TRIAL_STATUSES then Some s else None)"

definition normalize_trial_status_or_raise :: "string option \<Rightarrow> string res" where
  "normalize_trial_status_or_raise raw_status =
     (case normalize_trial_status raw_status of
        Some s \<Rightarrow> Inr s
      | None \<Rightarrow> Inl (ApiError 500 ''Invalid trial status.'' ''TRIAL_STATUS_INVALID'' (Some False)
                  [(''status'', opt_str raw_status)]))"

definition transitions_from :: "string option \<Rightarrow> string list" where
  "transitions_from current_status =
     (case map_of ALLOWED_TRANSITIONS (case current_status of None \<Rightarrow> [] | Some s \<Rightarrow> s) of
        None \<Rightarrow> [] | Some ts \<Rightarrow> ts)"

definition allowed_targets :: "string option \<Rightarrow> string list" where
  "allowed_targets current_status = sort (transitions_from (normalize_trial_status current_status))"

definition invalid_transition :: "string option \<Rightarrow> string option \<Rightarrow> error" where
  "invalid_transition current_status target_status =
     ApiError 409 ''Trial status transition is not allowed.'' ''TRIAL_INVALID_STATUS_TRANSITION'' (Some False)
       [(''status'', opt_str (normalize_trial_status current_status)),
        (''targetStatus'', opt_str target_status),
        (''allowedTransitions'', JList (map JStr (allowed_targets current_status)))]"

definition touch_timestamp :: "string \<Rightarrow> datetime \<Rightarrow> trial \<Rightarrow> trial" where
  "touch_timestamp target_status at t =
     (if target_status = TRIAL_STATUS_GENERATING \<and> t_generating_at t = None
      then t\<lparr>t_generating_at := Some at\<rparr>
      else if target_status = TRIAL_STATUS_READY_FOR_REVIEW \<and> t_ready_for_review_at t = None
      then t\<lparr>t_ready_for_review_at := Some at\<rparr>
      else if target_status = TRIAL_STATUS_ACTIVE_INVITING \<and> t_activated_at t = None
      then t\<lparr>t_activated_at := Some at\<rparr>
      else if target_status = TRIAL_STATUS_COMPLETED \<and> t_activated_at t = None
      then t\<lparr>t_activated_at := Some at\<rparr>
      else if target_status = TRIAL_STATUS_TERMINATED \<and> t_terminated_at t = None
      then t\<lparr>t_terminated_at := Some at\<rparr>
      else t)"

definition apply_status_transition :: "string \<Rightarrow> datetime \<Rightarrow> trial \<Rightarrow> (bool \<times> trial) res" where
  "apply_status_transition target_status0 changed_at t =
     (let current_status = normalize_trial_status (Some (t_status t))
      in case normalize_trial_status (Some target_status0) of
           None \<Rightarrow> Inl (ValueError ''Unsupported trial status: None'')
         | Some target_status \<Rightarrow>
             (if current_status = Some target_status
              then Inr (False, touch_timestamp target_status changed_at (t\<lparr>t_status := target_status\<rparr>))
              else if (if target_status = TRIAL_STATUS_TERMINATED
                       then current_status = None
                       else target_status \<notin> set (transitions_from current_status))
              then Inl (invalid_transition current_status (Some target_status))
              else Inr (True, touch_timestamp target_status changed_at (t\<lparr>t_status := target_status\<rparr>))))"

section \<open>Access\<close>

definition get_trial :: "int \<Rightarrow> app_db \<Rightarrow> trial option" where
  "get_trial i db = find_row (\<lambda>t. t_id t = i) (trials db)"

definition put_trial :: "trial \<Rightarrow> app_db \<Rightarrow> app_db" where
  "put_trial t db = db\<lparr>trials := update_rows (\<lambda>x. t_id x = t_id t) (\<lambda>_. t) (trials db)\<rparr>"

definition get_scenario :: "int \<Rightarrow> app_db \<Rightarrow> scenario_version option" where
  "get_scenario i db = find_row (\<lambda>s. sv_id s = i) (scenario_versions db)"

definition put_scenario :: "scenario_version \<Rightarrow> app_db \<Rightarrow> app_db" where
  "put_scenario s db =
     db\<lparr>scenario_versions := update_rows (\<lambda>x. sv_id x = sv_id s) (\<lambda>_. s) (scenario_versions db)\<rparr>"

definition load_for_lifecycle :: "int \<Rightarrow> app_db \<Rightarrow> trial res" where
  "load_for_lifecycle trial_id db =
     (case get_trial trial_id db of
        None \<Rightarrow> Inl (HTTPError 404 ''Trial not found'')
      | Some t \<Rightarrow> Inr t)"

definition require_owner_for_lifecycle :: "int \<Rightarrow> int \<Rightarrow> app_db \<Rightarrow> trial res" where
  "require_owner_for_lifecycle trial_id actor_user_id db =
     bind_result (load_for_lifecycle trial_id db) (\<lambda>t.
       if t_created_by t \<noteq> actor_user_id then Inl (HTTPError 403 ''You do not have access to this trial'')
       else Inr t)"

definition require_owned_trial_for_update :: "int \<Rightarrow> int \<Rightarrow> app_db \<Rightarrow> trial res" where
  "require_owned_trial_for_update trial_id actor_user_id db =
     (case get_trial trial_id db of
        None \<Rightarrow> Inl (HTTPError 404 ''Trial not found'')
      | Some t \<Rightarrow>
          (if t_created_by t \<noteq> actor_user_id then Inl (HTTPError 403 ''You do not have access to this trial'')
           else Inr t))"

definition get_owned :: "int \<Rightarrow> int \<Rightarrow> bool \<Rightarrow> app_db \<Rightarrow> trial option" where
  "get_owned trial_id user_id include_terminated db =
     find_row (\<lambda>t. t_id t = trial_id \<and> t_created_by t = user_id \<and>
        (include_terminated \<or> t_status t \<noteq> TRIAL_STATUS_TERMINATED)) (trials db)"

definition require_owned_trial :: "int \<Rightarrow> int \<Rightarrow> bool \<Rightarrow> app_db \<Rightarrow> trial res" where
  "require_owned_trial trial_id user_id include_terminated db =
     (case get_owned trial_id user_id include_terminated db of
        None \<Rightarrow> Inl (HTTPError 404 ''Trial not found'')
      | Some t \<Rightarrow> Inr t)"

definition approval_pending :: "int \<Rightarrow> error" where
  "approval_pending i = ApiError 409 ''Scenario approval is pending before inviting.''
     ''SCENARIO_APPROVAL_PENDING'' (Some False) [(''pendingScenarioVersionId'', JInt i)]"

definition require_trial_invitable :: "trial \<Rightarrow> unit res" where
  "require_trial_invitable t =
     (let current_status = normalize_trial_status (Some (t_status t));
          details = [(''status'', opt_str current_status)]
      in if current_status = Some TRIAL_STATUS_TERMINATED
         then Inl (ApiError 409 ''Trial has been terminated.'' ''TRIAL_TERMINATED'' (Some False) details)
         else if current_status = Some TRIAL_STATUS_COMPLETED
         then Inl (ApiError 409 ''Trial has completed.'' ''TRIAL_COMPLETED'' (Some False) details)
         else case t_pending_scenario_version_id t of
                Some i \<Rightarrow> Inl (approval_pending i)
              | None \<Rightarrow>
                  (if current_status \<noteq> Some TRIAL_STATUS_ACTIVE_INVITING
                   then Inl (ApiError 409 ''Trial is not approved for inviting.'' ''TRIAL_NOT_INVITABLE''
                          (Some False) details)
                   else Inr ()))"

section \<open>Facts\<close>

lemma normalize_in_statuses: "normalize_trial_status s = Some x \<Longrightarrow> x \<in> set TRIAL_STATUSES"
  by (auto simp: normalize_trial_status_def TRIAL_STATUSES_def split: option.splits if_splits)

lemma trial_statuses_iff:
  "x \<in> set TRIAL_STATUSES \<longleftrightarrow> x = ''draft'' \<or> x = ''generating'' \<or> x = ''ready_for_review'' \<or>
     x = ''active_inviting'' \<or> x = ''completed'' \<or> x = ''terminated''"
  unfolding TRIAL_STATUSES_def trial_status_defs by simp

lemma transitions_from_eq:
  "transitions_from None = []"
  "transitions_from (Some ''draft'') = [''generating'']"
  "transitions_from (Some ''generating'') = [''ready_for_review'']"
  "transitions_from (Some ''ready_for_review'') = [''active_inviting'']"
  "transitions_from (Some ''active_inviting'') = [''ready_for_review'', ''completed'']"
  "transitions_from (Some ''completed'') = []"
  "transitions_from (Some ''terminated'') = []"
  by code_simp+

lemma transition_possible_iff:
  assumes "normalize_trial_status (Some (t_status t)) = Some x" "normalize_trial_status (Some target) = Some s"
  shows "(\<exists>r. apply_status_transition target at t = Inr r) \<longleftrightarrow>
    s = x \<or> s = ''terminated'' \<or> s \<in> set (transitions_from (Some x))"
  using assms by (simp add: apply_status_transition_def Let_def TRIAL_STATUS_TERMINATED_def) blast

lemma normalize_normal: "x \<in> set TRIAL_STATUSES \<Longrightarrow> normalize_trial_status (Some x) = Some x"
  by (auto simp: normalize_trial_status_def TRIAL_STATUSES_def trial_status_defs)

lemma touch_keeps [simp]:
  "t_id (touch_timestamp s at t) = t_id t" "t_status (touch_timestamp s at t) = t_status t"
  "t_company_id (touch_timestamp s at t) = t_company_id t" "t_created_by (touch_timestamp s at t) = t_created_by t"
  "t_active_scenario_version_id (touch_timestamp s at t) = t_active_scenario_version_id t"
  "t_pending_scenario_version_id (touch_timestamp s at t) = t_pending_scenario_version_id t"
  "t_terminated_reason (touch_timestamp s at t) = t_terminated_reason t"
  "t_terminated_by_talent_partner_id (touch_timestamp s at t) = t_terminated_by_talent_partner_id t"
  by (simp_all add: touch_timestamp_def)

text \<open>A timestamp is written once.\<close>

definition stamps_kept :: "trial \<Rightarrow> trial \<Rightarrow> bool" where
  "stamps_kept t t' \<longleftrightarrow>
     (\<forall>a. t_generating_at t = Some a \<longrightarrow> t_generating_at t' = Some a) \<and>
     (\<forall>a. t_ready_for_review_at t = Some a \<longrightarrow> t_ready_for_review_at t' = Some a) \<and>
     (\<forall>a. t_activated_at t = Some a \<longrightarrow> t_activated_at t' = Some a) \<and>
     (\<forall>a. t_terminated_at t = Some a \<longrightarrow> t_terminated_at t' = Some a)"

lemma stamps_kept_refl [simp]: "stamps_kept t t"
  by (simp add: stamps_kept_def)

lemma stamps_kept_trans: "stamps_kept a b \<Longrightarrow> stamps_kept b c \<Longrightarrow> stamps_kept a c"
  by (simp add: stamps_kept_def)

lemma touch_stamps: "stamps_kept t (touch_timestamp s at t)"
  by (auto simp: stamps_kept_def touch_timestamp_def)

lemma transition_InrD:
  assumes "apply_status_transition target at t = Inr (changed, t')"
  obtains s where "normalize_trial_status (Some target) = Some s"
    "t' = touch_timestamp s at (t\<lparr>t_status := s\<rparr>)"
    "changed \<longleftrightarrow> normalize_trial_status (Some (t_status t)) \<noteq> Some s"
    "changed \<Longrightarrow> (if s = TRIAL_STATUS_TERMINATED then normalize_trial_status (Some (t_status t)) \<noteq> None
       else s \<in> set (transitions_from (normalize_trial_status (Some (t_status t)))))"
  using assms by (auto simp: apply_status_transition_def Let_def split: option.splits if_splits)

lemma transition_keeps:
  assumes "apply_status_transition target at t = Inr (changed, t')"
  shows "t_id t' = t_id t" "t_company_id t' = t_company_id t" "t_created_by t' = t_created_by t"
    "t_active_scenario_version_id t' = t_active_scenario_version_id t"
    "t_pending_scenario_version_id t' = t_pending_scenario_version_id t"
    "stamps_kept t t'" "t_terminated_reason t' = t_terminated_reason t"
    "t_terminated_by_talent_partner_id t' = t_terminated_by_talent_partner_id t"
proof -
  obtain s where t': "t' = touch_timestamp s at (t\<lparr>t_status := s\<rparr>)" using transition_InrD[OF assms] by metis
  then show "t_id t' = t_id t" "t_company_id t' = t_company_id t" "t_created_by t' = t_created_by t"
    "t_active_scenario_version_id t' = t_active_scenario_version_id t"
    "t_pending_scenario_version_id t' = t_pending_scenario_version_id t"
    "t_terminated_reason t' = t_terminated_reason t"
    "t_terminated_by_talent_partner_id t' = t_terminated_by_talent_partner_id t" by simp_all
  have "stamps_kept t (t\<lparr>t_status := s\<rparr>)" by (simp add: stamps_kept_def)
  then show "stamps_kept t t'" unfolding t' using touch_stamps stamps_kept_trans by blast
qed

lemma owner_eq:
  "require_owner_for_lifecycle i u db = Inr t \<longleftrightarrow> get_trial i db = Some t \<and> t_created_by t = u"
  by (auto simp: require_owner_for_lifecycle_def load_for_lifecycle_def split: option.splits)

lemma owner_update_eq: "require_owned_trial_for_update i u db = require_owner_for_lifecycle i u db"
  by (simp add: require_owner_for_lifecycle_def require_owned_trial_for_update_def load_for_lifecycle_def
      split: option.splits)

lemma get_trial_SomeD: "get_trial i db = Some t \<Longrightarrow> t \<in> set (trials db) \<and> t_id t = i"
  by (auto simp: get_trial_def dest: find_row_SomeD)

lemma get_put_trial:
  assumes "get_trial i db = Some t0" and "t_id t = i"
  shows "get_trial j (put_trial t db) = (if j = i then Some t else get_trial j db)"
  using find_replace[of t_id t i "trials db" t0 j] assms by (simp add: get_trial_def put_trial_def)

section \<open>Steps of a trial\<close>

text \<open>
  What the operations of this development do to one trial: a status transition, and
  writes that leave the status and the timestamps alone.
\<close>

inductive trial_step :: "trial \<Rightarrow> trial \<Rightarrow> bool" where
  transition: "apply_status_transition target at t = Inr (changed, t') \<Longrightarrow> trial_step t t'"
| scenario_ids: "trial_step t (t\<lparr>t_active_scenario_version_id := a, t_pending_scenario_version_id := p\<rparr>)"
| termination_data: "trial_step t (t\<lparr>t_terminated_reason := r, t_terminated_by_talent_partner_id := u\<rparr>)"

definition valid_status :: "trial \<Rightarrow> bool" where
  "valid_status t \<longleftrightarrow> normalize_trial_status (Some (t_status t)) \<noteq> None"

lemma transition_valid:
  "apply_status_transition target at t = Inr (changed, t') \<Longrightarrow>
   normalize_trial_status (Some (t_status t')) = Some (t_status t') \<and> t_status t' \<in> set TRIAL_STATUSES"
  by (erule transition_InrD) (auto dest: normalize_in_statuses intro: normalize_normal)

lemma trial_step_valid: "trial_step t t' \<Longrightarrow> valid_status t \<Longrightarrow> valid_status t'"
  by (induction rule: trial_step.induct) (auto simp: valid_status_def dest: transition_valid)

interpretation trial_life: step_system valid_status trial_step valid_status
  by unfold_locales (auto intro: trial_step_valid)

lemma trial_step_stamps: "trial_step t t' \<Longrightarrow> stamps_kept t t'"
  by (induction rule: trial_step.induct) (auto simp: stamps_kept_def dest: transition_keeps(6))

lemma trial_step_terminated:
  "trial_step t t' \<Longrightarrow> t_status t = TRIAL_STATUS_TERMINATED \<Longrightarrow> t_status t' = TRIAL_STATUS_TERMINATED"
proof (induction rule: trial_step.induct)
  case (transition target at t changed t')
  have n: "normalize_trial_status (Some (t_status t)) = Some TRIAL_STATUS_TERMINATED"
    using transition.prems by (simp add: normalize_normal TRIAL_STATUSES_def)
  have no: "transitions_from (Some TRIAL_STATUS_TERMINATED) = []"
    by (simp add: transitions_from_def ALLOWED_TRANSITIONS_def trial_status_defs)
  obtain s where "t' = touch_timestamp s at (t\<lparr>t_status := s\<rparr>)"
    "changed \<longleftrightarrow> Some TRIAL_STATUS_TERMINATED \<noteq> Some s" "changed \<Longrightarrow> s = TRIAL_STATUS_TERMINATED"
    by (rule transition_InrD[OF transition.hyps]) (auto simp: n no split: if_splits)
  then show ?case by auto
qed simp_all

section \<open>Properties\<close>

text \<open>
  Which status changes of a trial succeed, exactly: staying, terminating from
  any valid status, and the five moves of the lifecycle. Every other request is rejected.
\<close>

theorem trial_transitions_exact:
  "(\<exists>r. apply_status_transition target at t = Inr r) \<longleftrightarrow>
   (\<exists>x s. normalize_trial_status (Some (t_status t)) = Some x \<and> normalize_trial_status (Some target) = Some s \<and>
      (s = x \<or> s = ''terminated'' \<or>
       (x, s) \<in> {(''draft'', ''generating''), (''generating'', ''ready_for_review''),
                 (''ready_for_review'', ''active_inviting''), (''active_inviting'', ''ready_for_review''),
                 (''active_inviting'', ''completed'')}))"
proof (cases "normalize_trial_status (Some target)")
  case None
  then show ?thesis by (simp add: apply_status_transition_def)
next
  case s: (Some s)
  show ?thesis
  proof (cases "normalize_trial_status (Some (t_status t))")
    case None
    with s show ?thesis by (simp add: apply_status_transition_def Let_def transitions_from_eq)
  next
    case (Some x)
    let ?moves = "{(''draft'', ''generating''), (''generating'', ''ready_for_review''),
                 (''ready_for_review'', ''active_inviting''), (''active_inviting'', ''ready_for_review''),
                 (''active_inviting'', ''completed'')}"
    have "s \<in> set (transitions_from (Some x)) \<longleftrightarrow> (x, s) \<in> ?moves"
      using normalize_in_statuses[OF Some, unfolded trial_statuses_iff]
      by (elim disjE; simp only: transitions_from_eq; simp)
    with transition_possible_iff[OF Some s] Some s show ?thesis by simp
  qed
qed

text \<open>
  Property C26. Along every sequence of writes to a trial its status stays one of the known
  ones, a lifecycle timestamp once set is never overwritten, and a terminated trial stays
  terminated.
\<close>

theorem trial_life_invariant:
  assumes valid: "valid_status t" and steps: "trial_step\<^sup>*\<^sup>* t t'"
  shows "valid_status t' \<and> stamps_kept t t' \<and>
    (t_status t = TRIAL_STATUS_TERMINATED \<longrightarrow> t_status t' = TRIAL_STATUS_TERMINATED)"
proof -
  have "valid_status t'" using trial_life.inv_steps[OF steps valid] .
  moreover have "stamps_kept t t' \<and> (t_status t = TRIAL_STATUS_TERMINATED \<longrightarrow> t_status t' = TRIAL_STATUS_TERMINATED)"
    using steps
    by (induction rule: rtranclp_induct) (auto dest: trial_step_stamps trial_step_terminated intro: stamps_kept_trans)
  ultimately show ?thesis by blast
qed

definition demo_trial :: trial where
  "demo_trial = \<lparr>t_id = 3, t_company_id = 1, t_created_by = 9, t_title = ''T'', t_role = ''dev'', t_focus = [],
     t_scenario_template = ''s'', t_template_key = ''k'', t_preferred_language_framework = ''py'',
     t_seniority = ''mid'', t_day_window_start_local = seconds 32400, t_day_window_end_local = seconds 61200,
     t_day_window_overrides_enabled = False, t_day_window_overrides_json = JNull,
     t_active_scenario_version_id = Some 2, t_pending_scenario_version_id = None,
     t_status = ''ready_for_review'', t_generating_at = Some 1, t_ready_for_review_at = Some 2,
     t_activated_at = None, t_terminated_at = None, t_terminated_reason = None,
     t_terminated_by_talent_partner_id = None\<rparr>"

theorem trial_life_invariant_witness:
  "\<exists>t'. trial_step\<^sup>*\<^sup>* demo_trial t' \<and> t_status t' = ''active_inviting'' \<and> t_generating_at t' = Some 1"
proof -
  have "isl (apply_status_transition ''active_inviting'' 50 demo_trial) = False" by code_simp
  then obtain c t' where r: "apply_status_transition ''active_inviting'' 50 demo_trial = Inr (c, t')"
    by (metis isl_def sumE surj_pair)
  have "normalize_trial_status (Some ''active_inviting'') = Some ''active_inviting''" by code_simp
  with r have st: "t_status t' = ''active_inviting''" by (auto elim!: transition_InrD)
  have "valid_status demo_trial" by code_simp
  moreover have "trial_step\<^sup>*\<^sup>* demo_trial t'" using transition[OF r] by blast
  ultimately show ?thesis
    using trial_life_invariant[of demo_trial t'] st by (auto simp: stamps_kept_def demo_trial_def)
qed

text \<open>
  Candidates may be invited to a trial exactly when it is active and no
  scenario version waits for approval.
\<close>

theorem invitable_exact:
  "require_trial_invitable t = Inr () \<longleftrightarrow>
   t_status t \<in> {''active_inviting'', ''active''} \<and> t_pending_scenario_version_id t = None"
  by (auto simp: require_trial_invitable_def normalize_trial_status_def TRIAL_STATUSES_def trial_status_defs
      Let_def split: option.splits if_splits)

end
