(* ===== verification/TrialLifecycle.thy ===== *)
theory TrialLifecycle
  imports Trials
begin

text \<open>
  The operations that move a trial through its life: locking and approving a scenario
  version, approving and activating the trial, asking for a regeneration, and terminating
  it with its cleanup. Three things they call are arguments: \<open>ai_check\<close>, the validation of
  a frozen AI policy snapshot, \<open>materialize\<close>, the rubric snapshot rows written for a
  scenario version (both may fail with any error), and \<open>payload_of\<close>, the payload of a
  generation job. \<open>as_integer\<close> is the database's cast of a JSON value to an integer.
\<close>

type_synonym ai_check = "json \<Rightarrow> int \<Rightarrow> unit res"

type_synonym materializer = "scenario_version \<Rightarrow> trial \<Rightarrow> unit res"

section \<open>Locking and approving a scenario version\<close>

definition scenario_active_missing :: error where
  "scenario_active_missing = ApiError 409 ''Trial has no active scenario version.''
     ''SCENARIO_ACTIVE_VERSION_MISSING'' (Some False) []"

definition get_active_scenario_version :: "int \<Rightarrow> app_db \<Rightarrow> scenario_version option" where
  "get_active_scenario_version trial_id db =
     (case get_trial trial_id db of
        None \<Rightarrow> None
      | Some t \<Rightarrow> (case t_active_scenario_version_id t of None \<Rightarrow> None | Some i \<Rightarrow> get_scenario i db))"

definition get_active_scenario_for_update :: "trial \<Rightarrow> app_db \<Rightarrow> scenario_version res" where
  "get_active_scenario_for_update t db =
     (case t_active_scenario_version_id t of
        None \<Rightarrow> Inl scenario_active_missing
      | Some i \<Rightarrow>
          (case get_scenario i db of
             None \<Rightarrow> Inl scenario_active_missing
           | Some s \<Rightarrow> if sv_trial_id s \<noteq> t_id t then Inl scenario_active_missing else Inr s))"

definition not_ready :: "string \<Rightarrow> string \<Rightarrow> error" where
  "not_ready detail st = ApiError 409 detail ''SCENARIO_NOT_READY'' (Some False) [(''status'', JStr st)]"

definition lock_active_scenario_for_invites ::
    "ai_check \<Rightarrow> materializer \<Rightarrow> trial \<Rightarrow> datetime \<Rightarrow> app_db \<Rightarrow> (scenario_version \<times> app_db) res" where
  "lock_active_scenario_for_invites ai_check materialize t lock_at db =
     bind_result (get_active_scenario_for_update t db) (\<lambda>active.
     bind_result (ai_check (sv_ai_policy_snapshot_json active) (sv_id active)) (\<lambda>_.
       if sv_status active = SCENARIO_VERSION_STATUS_LOCKED then Inr (active, db)
       else if sv_status active \<noteq> SCENARIO_VERSION_STATUS_READY
       then Inl (not_ready ''Scenario version is not approved for inviting.'' (sv_status active))
       else bind_result (materialize active t) (\<lambda>_.
         let locked = active\<lparr>sv_status := SCENARIO_VERSION_STATUS_LOCKED, sv_locked_at := Some lock_at\<rparr>
         in Inr (locked, put_scenario locked db))))"

definition approve_without_pending ::
    "ai_check \<Rightarrow> materializer \<Rightarrow> trial \<Rightarrow> scenario_version \<Rightarrow> datetime \<Rightarrow> app_db \<Rightarrow>
     (trial \<times> scenario_version \<times> app_db) res" where
  "approve_without_pending ai_check materialize t target approved_at db =
     (if t_active_scenario_version_id t \<noteq> Some (sv_id target)
      then Inl (ApiError 409 ''No pending scenario version to approve.'' ''SCENARIO_APPROVAL_NOT_PENDING''
             (Some False) [])
      else if sv_status target \<notin> {SCENARIO_VERSION_STATUS_READY, SCENARIO_VERSION_STATUS_LOCKED}
      then Inl (not_ready ''Scenario version is not ready for approval.'' (sv_status target))
      else bind_result (lock_active_scenario_for_invites ai_check materialize t approved_at db) (\<lambda>(s, db').
        Inr (t, s, db')))"

definition approve_scenario_version ::
    "ai_check \<Rightarrow> materializer \<Rightarrow> int \<Rightarrow> int \<Rightarrow> int \<Rightarrow> datetime \<Rightarrow> app_db \<Rightarrow>
     (trial \<times> scenario_version \<times> app_db) res" where
  "approve_scenario_version ai_check materialize trial_id scenario_version_id actor_user_id approved_at db =
     bind_result (require_owned_trial_for_update trial_id actor_user_id db) (\<lambda>t.
       case get_scenario scenario_version_id db of
         None \<Rightarrow> Inl (HTTPError 404 ''Scenario version not found'')
       | Some target \<Rightarrow>
           (if sv_trial_id target \<noteq> t_id t then Inl (HTTPError 404 ''Scenario version not found'')
            else bind_result (ai_check (sv_ai_policy_snapshot_json target) (sv_id target)) (\<lambda>_.
              case t_pending_scenario_version_id t of
                None \<Rightarrow> approve_without_pending ai_check materialize t target approved_at db
              | Some pending_id \<Rightarrow>
                  (if pending_id \<noteq> sv_id target
                   then Inl (ApiError 409 ''Scenario version is not pending approval.''
                          ''SCENARIO_VERSION_NOT_PENDING'' (Some False)
                          [(''pendingScenarioVersionId'', JInt pending_id)])
                   else if sv_status target \<notin> {SCENARIO_VERSION_STATUS_READY, SCENARIO_VERSION_STATUS_LOCKED}
                   then Inl (not_ready ''Scenario version is not ready for approval.'' (sv_status target))
                   else
                     let t' = t\<lparr>t_active_scenario_version_id := Some (sv_id target),
                                t_pending_scenario_version_id := None\<rparr>;
                         db' = put_trial t' db
                     in bind_result (lock_active_scenario_for_invites ai_check materialize t' approved_at db')
                          (\<lambda>(s, db''). Inr (t', s, db''))))))"

section \<open>Activating and approving a trial\<close>

definition transition_owned_trial ::
    "int \<Rightarrow> int \<Rightarrow> string \<Rightarrow> datetime \<Rightarrow> app_db \<Rightarrow> (trial \<times> app_db) res" where
  "transition_owned_trial trial_id actor_user_id target_status changed_at db =
     bind_result (require_owner_for_lifecycle trial_id actor_user_id db) (\<lambda>t.
       case (if target_status = TRIAL_STATUS_ACTIVE_INVITING then t_pending_scenario_version_id t else None) of
         Some pending \<Rightarrow> Inl (approval_pending pending)
       | None \<Rightarrow>
           bind_result (apply_status_transition target_status changed_at t) (\<lambda>(_, t').
             Inr (t', put_trial t' db)))"

definition lock_required :: "obj \<Rightarrow> error" where
  "lock_required details = ApiError 409 ''Scenario version must be locked before activation.''
     ''SCENARIO_LOCK_REQUIRED'' (Some False) details"

definition require_locked_active_scenario :: "ai_check \<Rightarrow> trial \<Rightarrow> app_db \<Rightarrow> scenario_version res" where
  "require_locked_active_scenario ai_check t db =
     (case get_active_scenario_version (t_id t) db of
        None \<Rightarrow> Inl (lock_required [])
      | Some s \<Rightarrow>
          (if sv_locked_at s = None
           then Inl (lock_required [(''scenarioVersionId'', JInt (sv_id s)), (''status'', JStr (sv_status s))])
           else bind_result (ai_check (sv_ai_policy_snapshot_json s) (sv_id s)) (\<lambda>_. Inr s)))"

definition prepare_active_scenario_bundle ::
    "ai_check \<Rightarrow> trial \<Rightarrow> app_db \<Rightarrow> scenario_version option res" where
  "prepare_active_scenario_bundle ai_check t db =
     (case get_active_scenario_version (t_id t) db of
        None \<Rightarrow> Inr None
      | Some s \<Rightarrow> bind_result (ai_check (sv_ai_policy_snapshot_json s) (sv_id s)) (\<lambda>_. Inr (Some s)))"

definition activate_trial ::
    "ai_check \<Rightarrow> int \<Rightarrow> int \<Rightarrow> datetime \<Rightarrow> app_db \<Rightarrow> (trial \<times> app_db) res" where
  "activate_trial ai_check trial_id actor_user_id changed_at db =
     bind_result (require_owner_for_lifecycle trial_id actor_user_id db) (\<lambda>t.
       case t_pending_scenario_version_id t of
         Some pending \<Rightarrow> Inl (approval_pending pending)
       | None \<Rightarrow>
           bind_result (require_locked_active_scenario ai_check t db) (\<lambda>_.
           bind_result (apply_status_transition TRIAL_STATUS_ACTIVE_INVITING changed_at t) (\<lambda>(_, t').
             let db' = put_trial t' db
             in bind_result (prepare_active_scenario_bundle ai_check t' db') (\<lambda>_. Inr (t', db')))))"

definition rubric_present :: "scenario_version \<Rightarrow> bool" where
  "rubric_present s = (case sv_rubric_json s of JObj d \<Rightarrow> d \<noteq> [] | JList xs \<Rightarrow> xs \<noteq> [] | _ \<Rightarrow> False)"

definition brief_present :: "scenario_version \<Rightarrow> bool" where
  "brief_present s = (case sv_project_brief_md s of JStr x \<Rightarrow> py_strip x \<noteq> [] | _ \<Rightarrow> False)"

definition approve_trial_for_inviting ::
    "ai_check \<Rightarrow> materializer \<Rightarrow> int \<Rightarrow> int \<Rightarrow> datetime \<Rightarrow> app_db \<Rightarrow> (trial \<times> app_db) res" where
  "approve_trial_for_inviting ai_check materialize trial_id actor_user_id clk db =
     bind_result (require_owner_for_lifecycle trial_id actor_user_id db) (\<lambda>t.
       let current = normalize_trial_status (Some (t_status t));
           details = [(''status'', opt_str current)]
       in if current = Some TRIAL_STATUS_ACTIVE_INVITING then Inr (t, db)
          else if current = Some TRIAL_STATUS_TERMINATED
          then Inl (ApiError 409 ''Trial has been terminated.'' ''TRIAL_TERMINATED'' (Some False) details)
          else if current = Some TRIAL_STATUS_GENERATING
          then Inl (ApiError 409 ''Trial is still generating.'' ''TRIAL_GENERATING'' (Some False) details)
          else if current \<noteq> Some TRIAL_STATUS_READY_FOR_REVIEW
          then Inl (ApiError 409 ''Trial is not ready for review.'' ''TRIAL_NOT_READY_FOR_REVIEW'' (Some False) details)
          else case t_pending_scenario_version_id t of
            Some pending \<Rightarrow> Inl (approval_pending pending)
          | None \<Rightarrow>
              (case get_active_scenario_version (t_id t) db of
                 None \<Rightarrow> Inl (ApiError 409 ''No active scenario version for this Trial.'' ''SCENARIO_MISSING'' (Some False) [])
               | Some s \<Rightarrow>
                   (if \<not> brief_present s
                    then Inl (ApiError 400 ''Project Brief is missing for this Trial.'' ''TRIAL_BRIEF_MISSING'' (Some False) [])
                    else if \<not> rubric_present s
                    then Inl (ApiError 400 ''Evaluation rubric is missing for this Trial.'' ''TRIAL_RUBRIC_MISSING'' (Some False) [])
                    else bind_result
                      (if sv_status s = SCENARIO_VERSION_STATUS_READY
                       then bind_result (lock_active_scenario_for_invites ai_check materialize t clk db) (\<lambda>(_, db'). Inr db')
                       else if sv_status s \<noteq> SCENARIO_VERSION_STATUS_LOCKED
                       then Inl (not_ready ''Scenario version is not ready to approve.'' (sv_status s))
                       else Inr db)
                      (\<lambda>db'. activate_trial ai_check trial_id actor_user_id clk db'))))"

section \<open>Termination\<close>

definition TRIAL_CLEANUP_JOB_TYPE :: string where "TRIAL_CLEANUP_JOB_TYPE = ''trial_cleanup''"

definition TRIAL_CLEANUP_MAX_ATTEMPTS :: int where "TRIAL_CLEANUP_MAX_ATTEMPTS = 8"

definition trial_cleanup_idempotency_key :: "int \<Rightarrow> string" where
  "trial_cleanup_idempotency_key trial_id = ''trial_cleanup:'' @ int_str trial_id"

definition build_trial_cleanup_payload :: "trial \<Rightarrow> int \<Rightarrow> string option \<Rightarrow> obj" where
  "build_trial_cleanup_payload t terminated_by_user_id reason =
     [(''trialId'', JInt (t_id t)), (''companyId'', JInt (t_company_id t)),
      (''terminatedByUserId'', JInt terminated_by_user_id)] @
     (case reason of None \<Rightarrow> [] | Some r \<Rightarrow> if r = [] then [] else [(''reason'', JStr r)])"

definition cleanup_spec :: "trial \<Rightarrow> int \<Rightarrow> string option \<Rightarrow> idempotent_job_spec" where
  "cleanup_spec t terminated_by_user_id reason =
     \<lparr>sp_job_type = TRIAL_CLEANUP_JOB_TYPE, sp_idempotency_key = trial_cleanup_idempotency_key (t_id t),
      sp_payload_json = build_trial_cleanup_payload t terminated_by_user_id reason,
      sp_candidate_session_id = None, sp_max_attempts = TRIAL_CLEANUP_MAX_ATTEMPTS,
      sp_correlation_id = Some (''trial:'' @ int_str (t_id t) @ '':terminate''), sp_next_run_at = None\<rparr>"

definition enqueue_trial_cleanup_job ::
    "trial \<Rightarrow> int \<Rightarrow> string option \<Rightarrow> datetime \<Rightarrow> app_db \<Rightarrow> (job \<times> app_db) res" where
  "enqueue_trial_cleanup_job t terminated_by_user_id reason clk db =
     bind_result (create_or_get_idempotent (\<lambda>q. q) (cleanup_spec t terminated_by_user_id reason)
        (t_company_id t) False clk (queue db)) (\<lambda>(j, q). Inr (j, db\<lparr>queue := q\<rparr>))"

definition pending_session :: "int \<Rightarrow> candidate_session \<Rightarrow> bool" where
  "pending_session trial_id s \<longleftrightarrow> cs_trial_id s = trial_id \<and> cs_status s = ''not_started'' \<and> cs_started_at s = None"

definition expire_pending_candidate_sessions :: "int \<Rightarrow> datetime \<Rightarrow> app_db \<Rightarrow> nat \<times> app_db" where
  "expire_pending_candidate_sessions trial_id changed_at db =
     (count_rows (pending_session trial_id) (sessions db),
      db\<lparr>sessions := update_rows (pending_session trial_id)
            (\<lambda>s. s\<lparr>cs_status := ''expired'', cs_expires_at := Some changed_at\<rparr>) (sessions db)\<rparr>)"

definition cancellable :: "(json \<Rightarrow> int option) \<Rightarrow> trial \<Rightarrow> app_db \<Rightarrow> job \<Rightarrow> bool" where
  "cancellable as_integer t db j \<longleftrightarrow>
     j_company_id j = t_company_id t \<and> j_job_type j \<noteq> TRIAL_CLEANUP_JOB_TYPE \<and>
     j_status j \<in> {JOB_STATUS_QUEUED, JOB_STATUS_RUNNING} \<and>
     ((case j_candidate_session_id j of None \<Rightarrow> False
       | Some i \<Rightarrow> i \<in> set (map cs_id (filter (\<lambda>s. cs_trial_id s = t_id t) (sessions db)))) \<or>
      as_integer (dict_get ''trialId'' (j_payload_json j)) = Some (t_id t) \<or>
      (case j_correlation_id j of None \<Rightarrow> False
       | Some c \<Rightarrow> starts_with (''trial:'' @ int_str (t_id t)) c))"

definition cancel_pending_trial_jobs ::
    "(json \<Rightarrow> int option) \<Rightarrow> trial \<Rightarrow> datetime \<Rightarrow> app_db \<Rightarrow> nat \<times> app_db" where
  "cancel_pending_trial_jobs as_integer t changed_at db =
     (count_rows (cancellable as_integer t db) (jobs (queue db)),
      db\<lparr>queue := (queue db)\<lparr>jobs := update_rows (cancellable as_integer t db) (cancel_row changed_at)
            (jobs (queue db))\<rparr>\<rparr>)"

record terminate_trial_result =
  tr_trial :: trial
  tr_cleanup_job_ids :: "string list"
  tr_jobs_cancelled :: nat
  tr_invites_revoked :: nat

definition normalize_reason :: "string option \<Rightarrow> string option" where
  "normalize_reason reason =
     (let s = py_strip (case reason of None \<Rightarrow> [] | Some r \<Rightarrow> r) in if s = [] then None else Some s)"

definition record_termination :: "bool \<Rightarrow> int \<Rightarrow> string option \<Rightarrow> trial \<Rightarrow> trial" where
  "record_termination changed actor_user_id normalized_reason t1 =
     (let t2 = (if changed then t1\<lparr>t_terminated_by_talent_partner_id := Some actor_user_id\<rparr> else t1)
      in if normalized_reason \<noteq> None \<and> t_terminated_reason t2 = None
         then t2\<lparr>t_terminated_reason := normalized_reason\<rparr> else t2)"

definition cleanup_terminated_trial ::
    "(json \<Rightarrow> int option) \<Rightarrow> trial \<Rightarrow> int \<Rightarrow> string option \<Rightarrow> datetime \<Rightarrow> datetime \<Rightarrow> app_db \<Rightarrow>
     (terminate_trial_result \<times> app_db) res" where
  "cleanup_terminated_trial as_integer t actor_user_id normalized_reason changed_at clk db =
     (case expire_pending_candidate_sessions (t_id t) changed_at (put_trial t db) of (expired, db2) \<Rightarrow>
      case cancel_pending_trial_jobs as_integer t changed_at db2 of (cancelled, db3) \<Rightarrow>
      bind_result (enqueue_trial_cleanup_job t actor_user_id normalized_reason clk db3) (\<lambda>(cleanup_job, db4).
        Inr (\<lparr>tr_trial = t, tr_cleanup_job_ids = [j_id cleanup_job], tr_jobs_cancelled = cancelled,
              tr_invites_revoked = expired\<rparr>, db4)))"

definition terminate_trial_with_cleanup ::
    "(json \<Rightarrow> int option) \<Rightarrow> int \<Rightarrow> int \<Rightarrow> string option \<Rightarrow> datetime \<Rightarrow> datetime \<Rightarrow> app_db \<Rightarrow>
     (terminate_trial_result \<times> app_db) res" where
  "terminate_trial_with_cleanup as_integer trial_id actor_user_id reason changed_at clk db =
     bind_result (require_owner_for_lifecycle trial_id actor_user_id db) (\<lambda>t.
     bind_result (apply_status_transition TRIAL_STATUS_TERMINATED changed_at t) (\<lambda>(changed, t1).
       cleanup_terminated_trial as_integer
         (record_termination changed actor_user_id (normalize_reason reason) t1)
         actor_user_id (normalize_reason reason) changed_at clk db))"

section \<open>Facts\<close>

lemma put_trial_simps [simp]:
  "sessions (put_trial t db) = sessions db" "queue (put_trial t db) = queue db"
  "scenario_versions (put_trial t db) = scenario_versions db"
  by (simp_all add: put_trial_def)

lemma put_scenario_simps [simp]:
  "sessions (put_scenario s db) = sessions db" "queue (put_scenario s db) = queue db"
  "trials (put_scenario s db) = trials db" "get_trial i (put_scenario s db) = get_trial i db"
  by (simp_all add: put_scenario_def get_trial_def)

lemma get_put_scenario:
  assumes "get_scenario i db = Some s0" and "sv_id s = i"
  shows "get_scenario j (put_scenario s db) = (if j = i then Some s else get_scenario j db)"
  using find_replace[of sv_id s i "scenario_versions db" s0 j] assms
  by (simp add: get_scenario_def put_scenario_def)

lemma get_scenario_put_trial [simp]: "get_scenario i (put_trial t db) = get_scenario i db"
  by (simp add: get_scenario_def)

lemma get_scenario_SomeD: "get_scenario i db = Some s \<Longrightarrow> s \<in> set (scenario_versions db) \<and> sv_id s = i"
  by (auto simp: get_scenario_def dest: find_row_SomeD)

lemma cancellable_cong: "sessions db' = sessions db \<Longrightarrow> cancellable ai t db' j \<longleftrightarrow> cancellable ai t db j"
  by (cases "j_candidate_session_id j") (simp_all add: cancellable_def)

lemma cancellable_trial_cong:
  "sessions db' = sessions db \<Longrightarrow> t_id t' = t_id t \<Longrightarrow> t_company_id t' = t_company_id t \<Longrightarrow>
   cancellable ai t' db' j \<longleftrightarrow> cancellable ai t db j"
  by (cases "j_candidate_session_id j"; cases "j_correlation_id j") (simp_all add: cancellable_def)

lemma cancelled_not_cancellable: "\<not> cancellable ai t db (cancel_row at j)"
  by (simp add: cancellable_def cancel_row_def)

lemma cancel_not_cancellable:
  assumes "j \<in> set (jobs (queue (snd (cancel_pending_trial_jobs ai t at db))))"
    and "sessions db' = sessions db"
  shows "\<not> cancellable ai t db' j"
  using assms(1) unfolding cancellable_cong[OF assms(2)]
  by (auto simp: cancel_pending_trial_jobs_def cancelled_not_cancellable elim!: in_update_rowsE)

lemma cleanup_key:
  "py_strip TRIAL_CLEANUP_JOB_TYPE = TRIAL_CLEANUP_JOB_TYPE"
  by code_simp

text \<open>The parts of a termination that succeeds.\<close>

lemma terminate_unfold:
  assumes "terminate_trial_with_cleanup ai i u reason at clk db = Inr (r, db')"
  obtains t c t1 j q where "get_trial i db = Some t" "t_created_by t = u"
    "apply_status_transition TRIAL_STATUS_TERMINATED at t = Inr (c, t1)"
    "t_id (tr_trial r) = i" "t_company_id (tr_trial r) = t_company_id t"
    "t_status (tr_trial r) = t_status t1" "t_terminated_at (tr_trial r) = t_terminated_at t1"
    "t_created_by (tr_trial r) = u" "tr_cleanup_job_ids r = [j_id j]"
    "create_or_get_idempotent (\<lambda>q. q) (cleanup_spec (tr_trial r) u (normalize_reason reason)) (t_company_id t) False clk
       (queue (snd (cancel_pending_trial_jobs ai (tr_trial r) at
          (snd (expire_pending_candidate_sessions i at (put_trial (tr_trial r) db)))))) = Inr (j, q)"
    "db' = (snd (cancel_pending_trial_jobs ai (tr_trial r) at
          (snd (expire_pending_candidate_sessions i at (put_trial (tr_trial r) db)))))\<lparr>queue := q\<rparr>"
proof -
  let ?nr = "normalize_reason reason"
  from assms obtain t c t1 where t: "get_trial i db = Some t" "t_created_by t = u"
    and tr: "apply_status_transition TRIAL_STATUS_TERMINATED at t = Inr (c, t1)"
    and rest: "cleanup_terminated_trial ai (record_termination c u ?nr t1) u ?nr at clk db = Inr (r, db')"
    unfolding terminate_trial_with_cleanup_def bind_result_Inr_iff owner_eq by auto
  let ?t = "record_termination c u ?nr t1"
  note keep = transition_keeps[OF tr]
  have t3: "t_id ?t = t_id t" "t_company_id ?t = t_company_id t" "t_status ?t = t_status t1"
    "t_terminated_at ?t = t_terminated_at t1" "t_created_by ?t = t_created_by t"
    using keep by (simp_all add: record_termination_def Let_def)
  have id: "t_id t = i" using get_trial_SomeD[OF t(1)] by simp
  from rest id t3(1,2) obtain j q where "create_or_get_idempotent (\<lambda>q. q) (cleanup_spec ?t u ?nr) (t_company_id t) False clk
       (queue (snd (cancel_pending_trial_jobs ai ?t at
          (snd (expire_pending_candidate_sessions i at (put_trial ?t db)))))) = Inr (j, q)"
    "tr_trial r = ?t" "tr_cleanup_job_ids r = [j_id j]"
    "db' = (snd (cancel_pending_trial_jobs ai ?t at
          (snd (expire_pending_candidate_sessions i at (put_trial ?t db)))))\<lparr>queue := q\<rparr>"
    by (auto simp: cleanup_terminated_trial_def bind_result_Inr_iff enqueue_trial_cleanup_job_def split: prod.splits)
  with that[OF t tr] t3 t(2) id show thesis by simp
qed

lemma terminated_status:
  "apply_status_transition TRIAL_STATUS_TERMINATED at t = Inr (c, t1) \<Longrightarrow>
   t_status t1 = TRIAL_STATUS_TERMINATED \<and> (\<exists>a. t_terminated_at t1 = Some a)"
proof -
  assume tr: "apply_status_transition TRIAL_STATUS_TERMINATED at t = Inr (c, t1)"
  have "normalize_trial_status (Some TRIAL_STATUS_TERMINATED) = Some TRIAL_STATUS_TERMINATED" by code_simp
  with tr have "t1 = touch_timestamp TRIAL_STATUS_TERMINATED at (t\<lparr>t_status := TRIAL_STATUS_TERMINATED\<rparr>)"
    by (auto elim!: transition_InrD)
  then show ?thesis
    by (cases "t_terminated_at t") (simp_all add: touch_timestamp_def trial_status_defs)
qed

lemma create_or_get_adds:
  "create_or_get_idempotent (\<lambda>q. q) spec c commit clk q = Inr (j, q') \<Longrightarrow> set (jobs q') \<subseteq> insert j (set (jobs q))"
  by (auto simp: create_or_get_unfold insert_commit_or_get_existing_def insert_nested_or_get_existing_def
      Let_def draw_uuid_def split: if_splits option.splits sum.splits dest!: insert_job_InrD)

lemma terminate_facts:
  assumes wf: "jobs_wf (queue db)" and res: "terminate_trial_with_cleanup ai i u reason at clk db = Inr (r, db')"
  shows "get_trial i db' = Some (tr_trial r)" "t_status (tr_trial r) = TRIAL_STATUS_TERMINATED"
    "\<exists>a. t_terminated_at (tr_trial r) = Some a" "t_created_by (tr_trial r) = u"
    "jobs_wf (queue db')" "\<forall>s \<in> set (sessions db'). \<not> pending_session i s"
    "\<forall>j \<in> set (jobs (queue db')). \<not> cancellable ai (tr_trial r) db' j"
    "\<exists>j q0 nr. create_or_get_idempotent (\<lambda>q. q) (cleanup_spec (tr_trial r) u nr) (t_company_id (tr_trial r)) False clk q0 =
         Inr (j, queue db') \<and> jobs_wf q0 \<and> tr_cleanup_job_ids r = [j_id j]"
proof -
  let ?e = "snd (expire_pending_candidate_sessions i at (put_trial (tr_trial r) db))"
  let ?c = "snd (cancel_pending_trial_jobs ai (tr_trial r) at ?e)"
  let ?nr = "normalize_reason reason"
  from terminate_unfold[OF res] obtain t c t1 j q where p: "get_trial i db = Some t" "t_created_by t = u"
    "apply_status_transition TRIAL_STATUS_TERMINATED at t = Inr (c, t1)"
    "t_id (tr_trial r) = i" "t_company_id (tr_trial r) = t_company_id t"
    "t_status (tr_trial r) = t_status t1" "t_terminated_at (tr_trial r) = t_terminated_at t1"
    "t_created_by (tr_trial r) = u" "tr_cleanup_job_ids r = [j_id j]"
    "create_or_get_idempotent (\<lambda>q. q) (cleanup_spec (tr_trial r) u ?nr) (t_company_id t) False clk (queue ?c) = Inr (j, q)"
    "db' = ?c\<lparr>queue := q\<rparr>" .
  have trials': "trials db' = trials (put_trial (tr_trial r) db)" and sess': "sessions db' = sessions ?e"
    by (simp_all add: p(11) cancel_pending_trial_jobs_def expire_pending_candidate_sessions_def)
  have "get_trial i db' = get_trial i (put_trial (tr_trial r) db)" by (simp add: get_trial_def trials')
  then show "get_trial i db' = Some (tr_trial r)" using get_put_trial[OF p(1,4)] by simp
  show "t_status (tr_trial r) = TRIAL_STATUS_TERMINATED" "\<exists>a. t_terminated_at (tr_trial r) = Some a"
    using terminated_status[OF p(3)] by (simp_all add: p(6,7))
  show "t_created_by (tr_trial r) = u" by (rule p(8))
  have wfc: "jobs_wf (queue ?c)"
    using wf by (simp add: cancel_pending_trial_jobs_def expire_pending_candidate_sessions_def cancel_upd.jobs_wf_update_rows)
  note cg = create_or_get_facts[OF wfc commits_id p(10)]
  show "jobs_wf (queue db')" using cg(1) by (simp add: p(11))
  show "\<forall>s \<in> set (sessions db'). \<not> pending_session i s"
    by (auto simp: sess' expire_pending_candidate_sessions_def pending_session_def elim!: in_update_rowsE)
  have "j_job_type j = TRIAL_CLEANUP_JOB_TYPE"
    using load_idempotent_job_SomeD[OF cg(3)] by (simp add: job_key_def cleanup_spec_def cleanup_key)
  then have new: "\<not> cancellable ai (tr_trial r) db' j" by (simp add: cancellable_def)
  have old: "\<not> cancellable ai (tr_trial r) db' x" if "x \<in> set (jobs (queue ?c))" for x
    using that sess' by (rule cancel_not_cancellable)
  have "queue db' = q" by (simp add: p(11))
  with create_or_get_adds[OF p(10)] new old
  show "\<forall>j \<in> set (jobs (queue db')). \<not> cancellable ai (tr_trial r) db' j" by blast
  show "\<exists>j q0 nr. create_or_get_idempotent (\<lambda>q. q) (cleanup_spec (tr_trial r) u nr) (t_company_id (tr_trial r)) False clk q0 =
         Inr (j, queue db') \<and> jobs_wf q0 \<and> tr_cleanup_job_ids r = [j_id j]"
    using p(5,9,10) wfc \<open>queue db' = q\<close> by auto
qed

section \<open>Properties\<close>






definition demo_scenario :: scenario_version where
  "demo_scenario = \<lparr>sv_id = 2, sv_trial_id = 3, sv_version_index = 1, sv_status = ''ready'', sv_storyline_md = ''story'',
     sv_task_prompts_json = JList [], sv_rubric_json = JObj [(''a'', JInt 1)], sv_project_brief_md = JStr ''brief'',
     sv_ai_policy_snapshot_json = JNull, sv_focus_notes = [], sv_template_key = ''k'',
     sv_preferred_language_framework = ''py'', sv_seniority = ''mid'', sv_locked_at = None\<rparr>"

definition demo_app :: app_db where
  "demo_app = \<lparr>trials = [demo_trial], scenario_versions = [demo_scenario], sessions = [demo_session], queue = busy_db\<rparr>"

definition int_of_json :: "json \<Rightarrow> int option" where
  "int_of_json v = (case v of JInt i \<Rightarrow> Some i | _ \<Rightarrow> None)"


text \<open>
  Termination is idempotent: terminating again, at any later time and with any
  reason that fits a job payload, succeeds, names the same cleanup job, keeps the time of
  the first termination, and revokes and cancels nothing more.
\<close>

theorem terminate_again:
  assumes wf: "jobs_wf (queue db)" and res: "terminate_trial_with_cleanup ai i u reason at clk db = Inr (r, db')"
    and small: "valid_spec (cleanup_spec (tr_trial r) u (normalize_reason reason'))"
  shows "\<exists>r' db''. terminate_trial_with_cleanup ai i u reason' at' clk' db' = Inr (r', db'') \<and>
    tr_cleanup_job_ids r' = tr_cleanup_job_ids r \<and> tr_jobs_cancelled r' = 0 \<and> tr_invites_revoked r' = 0 \<and>
    t_terminated_at (tr_trial r') = t_terminated_at (tr_trial r) \<and>
    sessions db'' = sessions db' \<and> jobs (queue db'') = jobs (queue db')"
proof -
  note f = terminate_facts[OF wf res]
  let ?t = "tr_trial r"
  let ?nr = "normalize_reason reason'"
  have norm: "normalize_trial_status (Some TRIAL_STATUS_TERMINATED) = Some TRIAL_STATUS_TERMINATED" by code_simp
  obtain a where a: "t_terminated_at ?t = Some a" using f(3) by blast
  have "touch_timestamp TRIAL_STATUS_TERMINATED at' (?t\<lparr>t_status := TRIAL_STATUS_TERMINATED\<rparr>) = ?t"
    using a f(2) by (simp add: touch_timestamp_def trial_status_defs)
  then have tr: "apply_status_transition TRIAL_STATUS_TERMINATED at' ?t = Inr (False, ?t)"
    by (simp add: apply_status_transition_def f(2) norm)
  define t3 where "t3 = record_termination False u ?nr ?t"
  have t3: "t_id t3 = i" "t_company_id t3 = t_company_id ?t" "t_terminated_at t3 = t_terminated_at ?t"
    using get_trial_SomeD[OF f(1)] by (simp_all add: t3_def record_termination_def Let_def)
  have cs: "cleanup_spec t3 u ?nr = cleanup_spec ?t u ?nr"
    using get_trial_SomeD[OF f(1)] by (simp add: cleanup_spec_def build_trial_cleanup_payload_def t3)
  let ?db1 = "put_trial t3 db'"
  have e0: "expire_pending_candidate_sessions i at' ?db1 = (0, ?db1)"
    using f(6) by (auto simp: expire_pending_candidate_sessions_def count_rows_def filter_empty_conv update_rows_none)
  have none: "\<not> cancellable ai t3 ?db1 x" if "x \<in> set (jobs (queue db'))" for x
    using f(7) that cancellable_trial_cong[of ?db1 db' t3 ?t ai x] t3 get_trial_SomeD[OF f(1)] by simp
  have c0: "cancel_pending_trial_jobs ai t3 at' ?db1 = (0, ?db1)"
    using none by (auto simp: cancel_pending_trial_jobs_def count_rows_def filter_empty_conv update_rows_none)
  from f(8) obtain j q0 nr where cg: "create_or_get_idempotent (\<lambda>q. q) (cleanup_spec ?t u nr) (t_company_id ?t) False clk q0 =
         Inr (j, queue db')" and q0: "jobs_wf q0" and id: "tr_cleanup_job_ids r = [j_id j]" by blast
  have key: "sp_job_type (cleanup_spec t u n) = sp_job_type (cleanup_spec t u n')"
    "sp_idempotency_key (cleanup_spec t u n) = sp_idempotency_key (cleanup_spec t u n')" for t n n'
    by (simp_all add: cleanup_spec_def)
  obtain q2 where q2: "create_or_get_idempotent (\<lambda>q. q) (cleanup_spec ?t u ?nr) (t_company_id ?t) False clk' (queue db') = Inr (j, q2)"
    "jobs q2 = jobs (queue db')"
    using create_or_get_again[OF q0 commits_id cg small, of False clk'] key by metis
  have "terminate_trial_with_cleanup ai i u reason' at' clk' db' =
      Inr (\<lparr>tr_trial = t3, tr_cleanup_job_ids = [j_id j], tr_jobs_cancelled = 0, tr_invites_revoked = 0\<rparr>, ?db1\<lparr>queue := q2\<rparr>)"
    using f(1,4) by (simp add: terminate_trial_with_cleanup_def owner_eq[THEN iffD2] tr t3_def[symmetric]
        cleanup_terminated_trial_def t3 e0 c0 enqueue_trial_cleanup_job_def cs q2(1))
  then show ?thesis using id q2(2) t3(3) by simp
qed

theorem terminate_again_witness:
  "\<exists>r db' r' db''. terminate_trial_with_cleanup int_of_json 3 9 None 60 60 demo_app = Inr (r, db') \<and>
     terminate_trial_with_cleanup int_of_json 3 9 (Some '' again '') 90 91 db' = Inr (r', db'') \<and>
     tr_cleanup_job_ids r' = tr_cleanup_job_ids r"
proof -
  have "case terminate_trial_with_cleanup int_of_json 3 9 None 60 60 demo_app of Inl _ \<Rightarrow> False
     | Inr (r, _) \<Rightarrow> valid_spec (cleanup_spec (tr_trial r) 9 (normalize_reason (Some '' again '')))" by code_simp
  then obtain r db' where res: "terminate_trial_with_cleanup int_of_json 3 9 None 60 60 demo_app = Inr (r, db')"
    and v: "valid_spec (cleanup_spec (tr_trial r) 9 (normalize_reason (Some '' again '')))"
    by (auto split: sum.splits)
  have "jobs_wf (queue demo_app)" using busy_db_wf by (simp add: demo_app_def)
  from terminate_again[OF this res v, of 90 91] res show ?thesis by blast
qed

text \<open>
  The termination of a trial reaches too far: its correlation pattern is a
  prefix match, so a queued job of another trial of the company whose number merely starts
  with the digits of the terminated one is dead-lettered as well.
\<close>

theorem terminate_cancels_other_trials:
  assumes wf: "jobs_wf (queue db)" and res: "terminate_trial_with_cleanup ai i u reason at clk db = Inr (r, db')"
    and j: "j \<in> set (jobs (queue db))" "j_company_id j = t_company_id (tr_trial r)" "j_status j = JOB_STATUS_QUEUED"
      "j_job_type j \<noteq> ''trial_cleanup''" "j_correlation_id j = Some (''trial:'' @ int_str other)"
    and digits: "int_str other = int_str i @ rest" "rest \<noteq> []"
  shows "other \<noteq> i \<and> (\<exists>j'. load_job (j_id j) (queue db') = Some j' \<and> j_status j' = JOB_STATUS_DEAD_LETTER \<and>
     j_last_error j' = Some ''trial_terminated'')"
proof -
  have "other \<noteq> i" using digits by auto
  let ?e = "snd (expire_pending_candidate_sessions i at (put_trial (tr_trial r) db))"
  let ?c = "snd (cancel_pending_trial_jobs ai (tr_trial r) at ?e)"
  from terminate_unfold[OF res] obtain t c t1 jj q where "get_trial i db = Some t" "t_created_by t = u"
    "apply_status_transition TRIAL_STATUS_TERMINATED at t = Inr (c, t1)"
    and p: "t_id (tr_trial r) = i" and "t_company_id (tr_trial r) = t_company_id t"
    "t_status (tr_trial r) = t_status t1" "t_terminated_at (tr_trial r) = t_terminated_at t1"
    "t_created_by (tr_trial r) = u" "tr_cleanup_job_ids r = [j_id jj]"
    and q: "create_or_get_idempotent (\<lambda>q. q) (cleanup_spec (tr_trial r) u (normalize_reason reason)) (t_company_id t) False clk (queue ?c) = Inr (jj, q)"
    "db' = ?c\<lparr>queue := q\<rparr>" .
  have "starts_with (''trial:'' @ int_str i) (''trial:'' @ int_str i @ rest)"
    unfolding starts_with_iff by (metis append.assoc)
  then have "cancellable ai (tr_trial r) ?e j"
    using j digits(1) p by (simp add: cancellable_def TRIAL_CLEANUP_JOB_TYPE_def)
  moreover have qe: "queue ?e = queue db" by (simp add: expire_pending_candidate_sessions_def)
  ultimately have mem: "cancel_row at j \<in> set (jobs (queue ?c))"
    using j(1) by (auto simp: cancel_pending_trial_jobs_def set_update_rows)
  have wfc: "jobs_wf (queue ?c)"
    using wf by (simp add: cancel_pending_trial_jobs_def expire_pending_candidate_sessions_def cancel_upd.jobs_wf_update_rows)
  have "cancel_row at j \<in> set (jobs q)" using create_or_get_keeps[OF q(1)] mem by blast
  from load_job_in[OF create_or_get_facts(1)[OF wfc commits_id q(1)] this]
  show ?thesis using \<open>other \<noteq> i\<close> by (simp add: q(2) cancel_row_def)
qed

definition neighbour_app :: app_db where
  "neighbour_app = demo_app\<lparr>queue := empty_jobs_db\<lparr>jobs :=
     [job_from_spec 1 10 ''b'' ((stripped demo_spec)\<lparr>sp_candidate_session_id := None,
        sp_correlation_id := Some ''trial:31''\<rparr>)]\<rparr>\<rparr>"

lemma neighbour_wf: "jobs_wf (queue neighbour_app)"
  by (auto simp: jobs_wf_def neighbour_app_def empty_jobs_db_def used_ids_def inj_def
      job_from_spec_def replicate_eq_replicate Cons_replicate_eq)

theorem terminate_cancels_other_trials_witness:
  "\<exists>r db' j'. terminate_trial_with_cleanup int_of_json 3 9 None 60 60 neighbour_app = Inr (r, db') \<and>
     load_job ''b'' (queue db') = Some j' \<and> j_status j' = JOB_STATUS_DEAD_LETTER"
proof -
  let ?j = "job_from_spec 1 10 ''b'' ((stripped demo_spec)\<lparr>sp_candidate_session_id := None,
        sp_correlation_id := Some ''trial:31''\<rparr>)"
  have "case terminate_trial_with_cleanup int_of_json 3 9 None 60 60 neighbour_app of Inl _ \<Rightarrow> False
     | Inr (r, _) \<Rightarrow> t_company_id (tr_trial r) = 1" by code_simp
  then obtain r db' where res: "terminate_trial_with_cleanup int_of_json 3 9 None 60 60 neighbour_app = Inr (r, db')"
    and c: "t_company_id (tr_trial r) = 1" by (auto split: sum.splits)
  have j: "?j \<in> set (jobs (queue neighbour_app))" by (simp add: neighbour_app_def)
  have d: "int_str 31 = ''31''" "int_str 31 = int_str 3 @ ''1''" by code_simp+
  have corr: "j_correlation_id ?j = Some (''trial:'' @ int_str 31)" unfolding d(1) by (simp add: job_from_spec_def)
  have tt: "j_job_type ?j \<noteq> ''trial_cleanup''" by code_simp
  have rest: "j_company_id ?j = t_company_id (tr_trial r)" "j_status ?j = JOB_STATUS_QUEUED" "j_id ?j = ''b''"
    using c by (simp_all add: job_from_spec_def)
  from terminate_cancels_other_trials[OF neighbour_wf res j rest(1,2) tt corr d(2)] res rest(3)
  show ?thesis by auto
qed

text \<open>
  Approving a trial for inviting ends in a trial candidates can be invited to:
  unless it was active already, the stored trial is active with nothing pending, its active
  scenario has a brief and a rubric, is locked, has its lock time set, and its AI policy
  snapshot passes the check.
\<close>

theorem approve_makes_invitable:
  assumes res: "approve_trial_for_inviting ai mat i u clk db = Inr (t', db')"
    and was: "\<And>t. get_trial i db = Some t \<Longrightarrow> normalize_trial_status (Some (t_status t)) \<noteq> Some ''active_inviting''"
    and ids: "\<And>t s. get_trial i db = Some t \<Longrightarrow> t_active_scenario_version_id t = Some s \<Longrightarrow>
      get_scenario s db = None \<or> sv_trial_id (the (get_scenario s db)) = i"
  shows "get_trial i db' = Some t' \<and> require_trial_invitable t' = Inr () \<and> t_created_by t' = u \<and>
    (\<exists>s. get_active_scenario_version i db' = Some s \<and> brief_present s \<and> rubric_present s \<and>
       sv_status s = ''locked'' \<and> sv_locked_at s \<noteq> None \<and> ai (sv_ai_policy_snapshot_json s) (sv_id s) = Inr ())"
proof -
  have norm: "normalize_trial_status (Some TRIAL_STATUS_ACTIVE_INVITING) = Some TRIAL_STATUS_ACTIVE_INVITING" by code_simp
  from res obtain t where t: "get_trial i db = Some t" "t_created_by t = u"
    by (auto simp: approve_trial_for_inviting_def bind_result_Inr_iff owner_eq)
  have id: "t_id t = i" using get_trial_SomeD[OF t(1)] by simp
  have na: "normalize_trial_status (Some (t_status t)) \<noteq> Some TRIAL_STATUS_ACTIVE_INVITING"
    using was[OF t(1)] by (simp add: TRIAL_STATUS_ACTIVE_INVITING_def)
  from res t na id obtain s db1 where pend: "t_pending_scenario_version_id t = None"
    and s: "get_active_scenario_version i db = Some s" "brief_present s" "rubric_present s"
    and db1: "(if sv_status s = SCENARIO_VERSION_STATUS_READY
         then bind_result (lock_active_scenario_for_invites ai mat t clk db) (\<lambda>(_, db'). Inr db')
         else if sv_status s \<noteq> SCENARIO_VERSION_STATUS_LOCKED
         then Inl (not_ready ''Scenario version is not ready to approve.'' (sv_status s)) else Inr db) = Inr db1"
    and act: "activate_trial ai i u clk db1 = Inr (t', db')"
    by (auto simp: approve_trial_for_inviting_def bind_result_Inr_iff owner_eq Let_def split: if_splits option.splits)
  obtain k where k: "t_active_scenario_version_id t = Some k" "get_scenario k db = Some s"
    using s(1) t(1) by (auto simp: get_active_scenario_version_def split: option.splits)
  then have sk: "sv_id s = k" "sv_trial_id s = i" using get_scenario_SomeD[OF k(2)] ids[OF t(1) k(1)] by auto
  have "\<exists>s1. get_trial i db1 = Some t \<and> get_scenario k db1 = Some s1 \<and> brief_present s1 \<and> rubric_present s1 \<and>
     sv_status s1 = SCENARIO_VERSION_STATUS_LOCKED"
  proof (cases "sv_status s = SCENARIO_VERSION_STATUS_READY")
    case True
    let ?l = "s\<lparr>sv_status := SCENARIO_VERSION_STATUS_LOCKED, sv_locked_at := Some clk\<rparr>"
    have "sv_status s \<noteq> SCENARIO_VERSION_STATUS_LOCKED" using True by (simp add: scenario_status_defs)
    with db1 True k sk id have "db1 = put_scenario ?l db"
      by (auto simp: lock_active_scenario_for_invites_def bind_result_Inr_iff get_active_scenario_for_update_def
          Let_def split: if_splits)
    moreover have "sv_id ?l = k" using sk by simp
    ultimately show ?thesis using get_put_scenario[OF k(2), of ?l k] t(1) s
      by (auto simp: brief_present_def rubric_present_def)
  next
    case False
    with db1 k t(1) s show ?thesis by (auto split: if_splits)
  qed
  then obtain s1 where s1: "get_trial i db1 = Some t" "get_scenario k db1 = Some s1" "brief_present s1" "rubric_present s1"
     "sv_status s1 = SCENARIO_VERSION_STATUS_LOCKED" by blast
  have act1: "get_active_scenario_version i db1 = Some s1"
    using s1(1,2) k(1) by (simp add: get_active_scenario_version_def)
  from act s1(1) t(2) pend act1 id obtain c where lk: "sv_locked_at s1 \<noteq> None" "ai (sv_ai_policy_snapshot_json s1) (sv_id s1) = Inr ()"
    and tr: "apply_status_transition TRIAL_STATUS_ACTIVE_INVITING clk t = Inr (c, t')" and db': "db' = put_trial t' db1"
    by (auto simp: activate_trial_def bind_result_Inr_iff owner_eq require_locked_active_scenario_def Let_def
        split: if_splits)
  note keep = transition_keeps[OF tr]
  have gt: "get_trial i db' = Some t'" using get_put_trial[OF s1(1), of t' i] keep(1) id by (simp add: db')
  have st: "t_status t' = TRIAL_STATUS_ACTIVE_INVITING"
    using tr norm by (auto elim!: transition_InrD)
  have "require_trial_invitable t' = Inr ()"
    using st keep(5) pend norm by (simp add: require_trial_invitable_def Let_def trial_status_defs)
  moreover have "get_active_scenario_version i db' = Some s1"
    using gt keep(4) k(1) s1(2) by (simp add: get_active_scenario_version_def db')
  ultimately show ?thesis using gt keep(3) t(2) s1 lk by (auto simp: SCENARIO_VERSION_STATUS_LOCKED_def)
qed

theorem approve_makes_invitable_witness:
  "\<exists>t' db'. approve_trial_for_inviting (\<lambda>_ _. Inr ()) (\<lambda>_ _. Inr ()) 3 9 70 demo_app = Inr (t', db') \<and>
     require_trial_invitable t' = Inr ()"
proof -
  have "isl (approve_trial_for_inviting (\<lambda>_ _. Inr ()) (\<lambda>_ _. Inr ()) 3 9 70 demo_app) = False" by code_simp
  then obtain t' db' where r: "approve_trial_for_inviting (\<lambda>_ _. Inr ()) (\<lambda>_ _. Inr ()) 3 9 70 demo_app = Inr (t', db')"
    by (metis isl_def sumE surj_pair)
  have t: "get_trial 3 demo_app = Some demo_trial" by code_simp
  have n: "normalize_trial_status (Some (t_status demo_trial)) \<noteq> Some ''active_inviting''" by code_simp
  have s: "get_scenario 2 demo_app = Some demo_scenario" by code_simp
  have k: "t_active_scenario_version_id demo_trial = Some 2" "sv_trial_id demo_scenario = 3"
    by (simp_all add: demo_trial_def demo_scenario_def)
  have "require_trial_invitable t' = Inr ()"
    by (rule approve_makes_invitable[OF r, THEN conjunct2, THEN conjunct1]) (use t n s k in auto)
  with r show ?thesis by blast
qed

end
