(* ===== verification/CandidateClaim.thy ===== *)
theory CandidateClaim
  imports TrialLifecycle
begin

text \<open>
  How a candidate claims an invitation and gets back to the session: the lookup by token,
  expiry, ownership by email and subject, the claim profile, and the access by session id.
  \<open>valid_zone\<close> is the time-zone database: whether it knows a zone name.
\<close>

record claim_profile =
  cp_fullName :: string
  cp_preferredDisplayName :: "string option"
  cp_candidateTimezone :: string

section \<open>Lookups\<close>

definition session_trial :: "app_db \<Rightarrow> candidate_session \<Rightarrow> trial option" where
  "session_trial db cs = get_trial (cs_trial_id cs) db"

definition not_terminated_trial_clause :: "trial \<Rightarrow> bool" where
  "not_terminated_trial_clause t \<longleftrightarrow> t_status t \<noteq> TRIAL_STATUS_TERMINATED"

definition get_by_token :: "string \<Rightarrow> app_db \<Rightarrow> candidate_session option" where
  "get_by_token token db =
     find_row (\<lambda>cs. cs_token cs = token \<and>
        (case session_trial db cs of None \<Rightarrow> False | Some t \<Rightarrow> not_terminated_trial_clause t)) (sessions db)"

definition list_for_email :: "string \<Rightarrow> bool \<Rightarrow> app_db \<Rightarrow> candidate_session list" where
  "list_for_email email include_terminated db =
     filter (\<lambda>cs. py_lower (cs_invite_email cs) = py_lower email \<and>
        (case session_trial db cs of None \<Rightarrow> False
         | Some t \<Rightarrow> include_terminated \<or> not_terminated_trial_clause t)) (sessions db)"

definition get_session :: "int \<Rightarrow> app_db \<Rightarrow> candidate_session option" where
  "get_session i db = find_row (\<lambda>cs. cs_id cs = i) (sessions db)"

definition get_by_id :: "int \<Rightarrow> app_db \<Rightarrow> candidate_session option" where
  "get_by_id session_id db =
     find_row (\<lambda>cs. cs_id cs = session_id \<and>
        (case session_trial db cs of None \<Rightarrow> False | Some t \<Rightarrow> not_terminated_trial_clause t)) (sessions db)"

definition put_session :: "candidate_session \<Rightarrow> app_db \<Rightarrow> app_db" where
  "put_session cs db = db\<lparr>sessions := update_rows (\<lambda>x. cs_id x = cs_id cs) (\<lambda>_. cs) (sessions db)\<rparr>"

definition require_not_expired :: "datetime \<Rightarrow> candidate_session \<Rightarrow> unit res" where
  "require_not_expired now cs =
     (case cs_expires_at cs of
        None \<Rightarrow> Inr ()
      | Some at \<Rightarrow> if at < now then Inl (HTTPError 410 ''Invite token expired'') else Inr ())"

definition mark_in_progress :: "datetime \<Rightarrow> candidate_session \<Rightarrow> candidate_session" where
  "mark_in_progress now cs =
     (if cs_status cs = ''not_started''
      then cs\<lparr>cs_status := ''in_progress'',
              cs_started_at := (case cs_started_at cs of None \<Rightarrow> Some now | Some t \<Rightarrow> Some t)\<rparr>
      else cs)"

definition invalid_token :: error where
  "invalid_token = HTTPError 404 ''Invalid invite token''"

definition ensure_trial_not_terminated :: "app_db \<Rightarrow> candidate_session \<Rightarrow> unit res" where
  "ensure_trial_not_terminated db cs =
     (case session_trial db cs of
        None \<Rightarrow> Inl invalid_token
      | Some t \<Rightarrow> if t_status t = TRIAL_STATUS_TERMINATED then Inl invalid_token else Inr ())"

definition fetch_by_token :: "string \<Rightarrow> datetime \<Rightarrow> app_db \<Rightarrow> candidate_session res" where
  "fetch_by_token token now db =
     (case get_by_token token db of
        None \<Rightarrow> Inl invalid_token
      | Some cs \<Rightarrow>
          bind_result (ensure_trial_not_terminated db cs) (\<lambda>_.
          bind_result (require_not_expired now cs) (\<lambda>_. Inr cs)))"

section \<open>Ownership\<close>

definition forbidden :: "string \<Rightarrow> string \<Rightarrow> error" where
  "forbidden detail code = ApiError 403 detail code (Some False) []"

definition record_owner :: "string \<Rightarrow> string \<Rightarrow> datetime \<Rightarrow> candidate_session \<Rightarrow> candidate_session" where
  "record_owner sub email now cs =
     (let cs1 = (if cs_candidate_auth0_sub cs \<noteq> None \<and> cs_candidate_auth0_sub cs \<noteq> Some [] then cs
                 else cs\<lparr>cs_candidate_auth0_sub := Some sub,
                         cs_claimed_at := (case cs_claimed_at cs of None \<Rightarrow> Some now | Some t \<Rightarrow> Some t)\<rparr>)
      in cs1\<lparr>cs_candidate_auth0_email := Some email, cs_candidate_email := Some email\<rparr>)"

definition ensure_candidate_ownership ::
    "principal \<Rightarrow> datetime \<Rightarrow> candidate_session \<Rightarrow> (bool \<times> candidate_session) res" where
  "ensure_candidate_ownership p now cs =
     (let email = normalize_email (Some (p_email p));
          stored_sub = (case cs_candidate_auth0_sub cs of None \<Rightarrow> [] | Some s \<Rightarrow> s)
      in if email = []
         then Inl (forbidden ''Authenticated email claim is missing.'' ''CANDIDATE_AUTH_EMAIL_MISSING'')
         else if normalize_email (Some (cs_invite_email cs)) \<noteq> email
         then Inl (forbidden ''Invite email does not match authenticated user.'' ''CANDIDATE_INVITE_EMAIL_MISMATCH'')
         else if stored_sub \<noteq> [] \<and> stored_sub \<noteq> p_sub p
         then Inl (forbidden ''Candidate session is already claimed by another user.'' ''CANDIDATE_SESSION_ALREADY_CLAIMED'')
         else Inr (stored_sub = [] \<or> cs_candidate_auth0_email cs \<noteq> Some email \<or> cs_candidate_email cs \<noteq> Some email,
                   record_owner (p_sub p) email now cs))"

section \<open>Claiming an invitation\<close>

definition validate_timezone :: "(string \<Rightarrow> bool) \<Rightarrow> string \<Rightarrow> string res" where
  "validate_timezone valid_zone tz_str =
     (let timezone_name = py_strip tz_str
      in if timezone_name = [] then Inl (ValueError ''Timezone is required'')
         else if valid_zone timezone_name then Inr timezone_name
         else Inl (ValueError ''Invalid timezone''))"

definition timezone_error :: error where
  "timezone_error = ApiError 422 ''Candidate timezone must be a valid IANA timezone.''
     ''SCHEDULE_INVALID_TIMEZONE'' (Some False) []"

definition with_names :: "claim_profile \<Rightarrow> candidate_session \<Rightarrow> candidate_session" where
  "with_names profile cs =
     (let name = py_strip (cp_fullName profile);
          cs1 = (if name \<noteq> [] then cs\<lparr>cs_candidate_name := name\<rparr> else cs)
      in case cp_preferredDisplayName profile of
           None \<Rightarrow> cs1
         | Some d \<Rightarrow> cs1\<lparr>cs_preferred_display_name := (if py_strip d = [] then None else Some (py_strip d))\<rparr>)"

definition apply_claim_profile ::
    "(string \<Rightarrow> bool) \<Rightarrow> claim_profile \<Rightarrow> candidate_session \<Rightarrow> (bool \<times> candidate_session) res" where
  "apply_claim_profile valid_zone profile cs =
     (case validate_timezone valid_zone (py_strip (cp_candidateTimezone profile)) of
        Inl _ \<Rightarrow> Inl timezone_error
      | Inr tz \<Rightarrow> (let cs' = (with_names profile cs)\<lparr>cs_candidate_timezone := Some tz\<rparr> in Inr (cs' \<noteq> cs, cs')))"

definition claim_invite_with_principal ::
    "(string \<Rightarrow> bool) \<Rightarrow> string \<Rightarrow> principal \<Rightarrow> datetime \<Rightarrow> claim_profile option \<Rightarrow> app_db \<Rightarrow>
     (candidate_session \<times> app_db) res" where
  "claim_invite_with_principal valid_zone token p now profile db =
     bind_result (fetch_by_token token now db) (\<lambda>cs.
     bind_result (ensure_candidate_ownership p now cs) (\<lambda>(owned, cs1).
     bind_result (case profile of None \<Rightarrow> Inr (False, cs1) | Some pr \<Rightarrow> apply_claim_profile valid_zone pr cs1) (\<lambda>(profiled, cs2).
       let cs3 = mark_in_progress now cs2;
           started = (cs_status cs3 \<noteq> cs_status cs2 \<or> cs_started_at cs3 \<noteq> cs_started_at cs2)
       in Inr (cs3, if owned \<or> profiled \<or> started then put_session cs3 db else db))))"

section \<open>Returning to an owned session\<close>

definition session_not_found :: error where
  "session_not_found = HTTPError 404 ''Candidate session not found''"

definition ensure_can_access :: "datetime \<Rightarrow> candidate_session option \<Rightarrow> app_db \<Rightarrow> candidate_session res" where
  "ensure_can_access now found db =
     (case found of
        None \<Rightarrow> Inl session_not_found
      | Some cs \<Rightarrow>
          (case session_trial db cs of
             None \<Rightarrow> Inl session_not_found
           | Some t \<Rightarrow>
               (if t_status t = TRIAL_STATUS_TERMINATED then Inl session_not_found
                else bind_result (require_not_expired now cs) (\<lambda>_. Inr cs))))"

definition apply_auth_updates :: "principal \<Rightarrow> datetime \<Rightarrow> candidate_session \<Rightarrow> bool \<times> candidate_session" where
  "apply_auth_updates p now cs =
     (let email = normalize_email (Some (p_email p));
          cs1 = (if email \<noteq> [] \<and> cs_candidate_auth0_email cs = None
                 then cs\<lparr>cs_candidate_auth0_email := Some email\<rparr> else cs);
          cs2 = (if email \<noteq> [] \<and> cs_candidate_email cs1 \<noteq> Some email
                 then cs1\<lparr>cs_candidate_email := Some email\<rparr> else cs1);
          cs3 = mark_in_progress now cs2
      in (cs2 \<noteq> cs \<or> cs_status cs2 = ''not_started'', cs3))"

definition fetch_owned_session ::
    "int \<Rightarrow> principal \<Rightarrow> datetime \<Rightarrow> app_db \<Rightarrow> (candidate_session \<times> app_db) res" where
  "fetch_owned_session session_id p now db =
     bind_result (ensure_can_access now (get_by_id session_id db) db) (\<lambda>cs.
     bind_result (ensure_candidate_ownership p now cs) (\<lambda>(owned, cs1).
       case apply_auth_updates p now cs1 of
         (updated, cs2) \<Rightarrow> Inr (cs2, if owned \<or> updated then put_session cs2 db else db)))"


section \<open>What these operations keep of an invitation\<close>

definition same_invite :: "candidate_session \<Rightarrow> candidate_session \<Rightarrow> bool" where
  "same_invite a b \<longleftrightarrow>
     cs_id a = cs_id b \<and> cs_trial_id a = cs_trial_id b \<and> cs_token a = cs_token b \<and>
     cs_invite_email a = cs_invite_email b \<and> cs_expires_at a = cs_expires_at b"

lemma same_invite_refl [simp]: "same_invite a a"
  by (simp add: same_invite_def)

lemma same_invite_trans: "same_invite a b \<Longrightarrow> same_invite b c \<Longrightarrow> same_invite a c"
  by (simp add: same_invite_def)

lemma same_invite_owner [simp]: "same_invite cs (record_owner s e now cs)"
  by (simp add: same_invite_def record_owner_def Let_def)

lemma same_invite_progress [simp]: "same_invite cs (mark_in_progress now cs)"
  by (simp add: same_invite_def mark_in_progress_def)

lemma profile_Inr_iff:
  "apply_claim_profile z pr cs = Inr (c, cs') \<longleftrightarrow>
   py_strip (cp_candidateTimezone pr) \<noteq> [] \<and> z (py_strip (cp_candidateTimezone pr)) \<and>
   cs' = (with_names pr cs)\<lparr>cs_candidate_timezone := Some (py_strip (cp_candidateTimezone pr))\<rparr> \<and>
   c = (cs' \<noteq> cs)"
  by (simp add: apply_claim_profile_def validate_timezone_def Let_def del: candidate_session.simps) blast

lemma same_invite_names [simp]: "same_invite cs (with_names pr cs)"
  by (simp add: with_names_def same_invite_def Let_def split: option.splits)

lemma same_invite_profile:
  "apply_claim_profile z pr cs = Inr (c, cs') \<Longrightarrow> same_invite cs cs'"
  using same_invite_names[of cs pr] by (simp add: profile_Inr_iff same_invite_def)

lemma same_invite_auth:
  "apply_auth_updates p now cs = (c, cs') \<Longrightarrow> same_invite cs cs'"
  by (auto simp: apply_auth_updates_def same_invite_def mark_in_progress_def Let_def split: if_splits)

lemma trials_put_session [simp]: "trials (put_session cs db) = trials db"
  by (simp add: put_session_def)

lemma session_trial_put [simp]: "session_trial (put_session x db) cs = session_trial db cs"
  by (simp add: session_trial_def get_trial_def)

lemma session_trial_same: "same_invite a b \<Longrightarrow> session_trial db b = session_trial db a"
  by (simp add: session_trial_def same_invite_def)

lemma ids_put_session: "map cs_id (sessions (put_session cs db)) = map cs_id (sessions db)"
  by (auto simp: put_session_def update_rows_def)

text \<open>Reading a session back by its key after it was written.\<close>

lemma get_session_put:
  "get_session (cs_id cs) db = Some cs0 \<Longrightarrow>
   get_session i (put_session cs db) = (if i = cs_id cs then Some cs else get_session i db)"
  using find_replace[of cs_id cs "cs_id cs" "sessions db" cs0 i] by (simp add: get_session_def put_session_def)

lemma get_by_token_SomeD:
  assumes "get_by_token token db = Some cs"
  shows "cs \<in> set (sessions db)" and "cs_token cs = token"
    and "\<exists>t. session_trial db cs = Some t \<and> t_status t \<noteq> TRIAL_STATUS_TERMINATED"
  using assms find_row_SomeD[OF assms[unfolded get_by_token_def]]
  by (auto simp: not_terminated_trial_clause_def split: option.splits)

lemma find_row_replace:
  "P t \<Longrightarrow> find_row P rs = Some r \<Longrightarrow> k t = k r \<Longrightarrow> distinct (map k rs) \<Longrightarrow>
   find_row P (update_rows (\<lambda>x. k x = k t) (\<lambda>_. t) rs) = Some t"
proof (induction rs)
  case (Cons x xs)
  show ?case
  proof (cases "P x")
    case True
    with Cons.prems show ?thesis by (simp add: update_rows_def find_row_Cons)
  next
    case False
    with Cons.prems have "find_row P xs = Some r" by (simp add: find_row_Cons)
    moreover from this have "r \<in> set xs" by (auto dest: find_row_SomeD)
    ultimately show ?thesis using False Cons by (auto simp: update_rows_def find_row_Cons)
  qed
qed simp

lemma get_by_token_put:
  assumes found: "get_by_token token db = Some cs" and same: "same_invite cs cs'"
    and ids: "distinct (map cs_id (sessions db))"
  shows "get_by_token token (put_session cs' db) = Some cs'"
proof -
  let ?P = "\<lambda>x. cs_token x = token \<and>
        (case session_trial db x of None \<Rightarrow> False | Some t \<Rightarrow> not_terminated_trial_clause t)"
  have "?P cs" using found by (auto simp: get_by_token_def dest: find_row_SomeD)
  with same have "?P cs'" using session_trial_same[OF same, of db] by (simp add: same_invite_def)
  moreover have "cs_id cs' = cs_id cs" using same by (simp add: same_invite_def)
  ultimately have "find_row ?P (update_rows (\<lambda>x. cs_id x = cs_id cs') (\<lambda>_. cs') (sessions db)) = Some cs'"
    using find_row_replace[of ?P cs' "sessions db" cs cs_id] found ids by (simp add: get_by_token_def)
  then show ?thesis by (simp add: get_by_token_def put_session_def session_trial_def get_trial_def)
qed

lemma get_session_of_token:
  "get_by_token token db = Some cs \<Longrightarrow> distinct (map cs_id (sessions db)) \<Longrightarrow>
   get_session (cs_id cs) db = Some cs"
  using get_by_token_SomeD(1)[of token db cs] by (simp add: get_session_def find_row_unique)

lemma get_session_of_id:
  assumes "get_by_id i db = Some cs" and "distinct (map cs_id (sessions db))"
  shows "get_session (cs_id cs) db = Some cs" and "cs_id cs = i"
proof -
  have "cs \<in> set (sessions db)" and "cs_id cs = i"
    using find_row_SomeD[OF assms(1)[unfolded get_by_id_def]] by auto
  then show "get_session (cs_id cs) db = Some cs" and "cs_id cs = i"
    using assms(2) find_row_unique[of cs_id "sessions db" cs] by (simp_all add: get_session_def)
qed

section \<open>Lookup and ownership, exactly\<close>

definition owner_of :: "candidate_session \<Rightarrow> string" where
  "owner_of cs = (case cs_candidate_auth0_sub cs of None \<Rightarrow> [] | Some s \<Rightarrow> s)"

definition may_own :: "principal \<Rightarrow> candidate_session \<Rightarrow> bool" where
  "may_own p cs \<longleftrightarrow>
     normalize_email (Some (p_email p)) \<noteq> [] \<and>
     normalize_email (Some (cs_invite_email cs)) = normalize_email (Some (p_email p)) \<and>
     owner_of cs \<in> {[], p_sub p}"

definition expired :: "datetime \<Rightarrow> candidate_session \<Rightarrow> bool" where
  "expired now cs \<longleftrightarrow> (case cs_expires_at cs of None \<Rightarrow> False | Some at \<Rightarrow> at < now)"

lemma require_not_expired_iff: "require_not_expired now cs = Inr () \<longleftrightarrow> \<not> expired now cs"
  by (simp add: require_not_expired_def expired_def split: option.splits)

lemma fetch_by_token_iff:
  "fetch_by_token token now db = Inr cs \<longleftrightarrow> get_by_token token db = Some cs \<and> \<not> expired now cs"
proof (cases "get_by_token token db")
  case (Some c)
  then obtain t where "session_trial db c = Some t" and "t_status t \<noteq> TRIAL_STATUS_TERMINATED"
    using get_by_token_SomeD(3) by blast
  then have "fetch_by_token token now db = bind_result (require_not_expired now c) (\<lambda>_. Inr c)"
    by (simp add: fetch_by_token_def Some ensure_trial_not_terminated_def)
  then show ?thesis using Some by (auto simp: bind_result_Inr_iff require_not_expired_iff)
qed (simp add: fetch_by_token_def)

lemma ownership_cases:
  "ensure_candidate_ownership p now cs =
     (if may_own p cs
      then Inr (owner_of cs = [] \<or> cs_candidate_auth0_email cs \<noteq> Some (normalize_email (Some (p_email p))) \<or>
                cs_candidate_email cs \<noteq> Some (normalize_email (Some (p_email p))),
                record_owner (p_sub p) (normalize_email (Some (p_email p))) now cs)
      else ensure_candidate_ownership p now cs)"
  by (auto simp: ensure_candidate_ownership_def may_own_def owner_of_def Let_def)

lemma ownership_Inr_iff:
  "ensure_candidate_ownership p now cs = Inr (c, cs') \<longleftrightarrow>
   may_own p cs \<and> cs' = record_owner (p_sub p) (normalize_email (Some (p_email p))) now cs \<and>
   c = (owner_of cs = [] \<or> cs_candidate_auth0_email cs \<noteq> Some (normalize_email (Some (p_email p))) \<or>
        cs_candidate_email cs \<noteq> Some (normalize_email (Some (p_email p))))"
  by (auto simp: ensure_candidate_ownership_def may_own_def owner_of_def Let_def split: if_splits)

lemma ownership_total: "(\<exists>r. ensure_candidate_ownership p now cs = Inr r) \<longleftrightarrow> may_own p cs"
  by (auto simp: ownership_Inr_iff)

lemma record_owner_id:
  "owner_of cs \<noteq> [] \<Longrightarrow> cs_candidate_auth0_email cs = Some e \<Longrightarrow> cs_candidate_email cs = Some e \<Longrightarrow>
   record_owner s e now cs = cs"
  by (cases cs) (auto simp: record_owner_def owner_of_def Let_def split: option.splits)

lemma owner_of_record_owner:
  "owner_of (record_owner s e now cs) = (if owner_of cs = [] then s else owner_of cs)"
  by (auto simp: record_owner_def owner_of_def Let_def split: option.splits)

lemma ownership_unchanged:
  "ensure_candidate_ownership p now cs = Inr (False, cs') \<Longrightarrow> cs' = cs"
  by (auto simp: ownership_Inr_iff intro: record_owner_id)

lemma profile_unchanged: "apply_claim_profile z pr cs = Inr (False, cs') \<Longrightarrow> cs' = cs"
  unfolding profile_Inr_iff by blast

lemma mark_in_progress_started: "cs_status (mark_in_progress now cs) \<noteq> ''not_started''"
  by (simp add: mark_in_progress_def)

lemma mark_in_progress_id: "cs_status cs \<noteq> ''not_started'' \<Longrightarrow> mark_in_progress now cs = cs"
  by (simp add: mark_in_progress_def)

lemma progress_unchanged:
  "cs_status (mark_in_progress now cs) = cs_status cs \<Longrightarrow> mark_in_progress now cs = cs"
  using mark_in_progress_started[of now cs] mark_in_progress_id[of cs now] by simp

section \<open>What a successful claim did\<close>

lemma owner_of_names [simp]:
  "owner_of (with_names pr cs) = owner_of cs"
  "cs_status (with_names pr cs) = cs_status cs" "cs_started_at (with_names pr cs) = cs_started_at cs"
  "cs_claimed_at (with_names pr cs) = cs_claimed_at cs"
  "cs_candidate_auth0_email (with_names pr cs) = cs_candidate_auth0_email cs"
  "cs_candidate_email (with_names pr cs) = cs_candidate_email cs"
  by (simp_all add: with_names_def owner_of_def Let_def split: option.splits)

lemma owner_of_progress [simp]:
  "owner_of (mark_in_progress now cs) = owner_of cs"
  "cs_claimed_at (mark_in_progress now cs) = cs_claimed_at cs"
  "cs_candidate_auth0_email (mark_in_progress now cs) = cs_candidate_auth0_email cs"
  "cs_candidate_email (mark_in_progress now cs) = cs_candidate_email cs"
  "cs_candidate_timezone (mark_in_progress now cs) = cs_candidate_timezone cs"
  by (simp_all add: mark_in_progress_def owner_of_def)

lemma owner_of_timezone [simp]: "owner_of (cs\<lparr>cs_candidate_timezone := z\<rparr>) = owner_of cs"
  by (simp add: owner_of_def)

lemma emails_record_owner [simp]:
  "cs_candidate_auth0_email (record_owner s e now cs) = Some e"
  "cs_candidate_email (record_owner s e now cs) = Some e"
  "cs_status (record_owner s e now cs) = cs_status cs"
  by (simp_all add: record_owner_def Let_def)

lemma claimed_at_record_owner:
  "cs_claimed_at (record_owner s e now cs) =
     (if owner_of cs = [] \<and> cs_claimed_at cs = None then Some now else cs_claimed_at cs)"
  by (auto simp: record_owner_def owner_of_def Let_def split: option.splits)

definition with_profile :: "claim_profile option \<Rightarrow> candidate_session \<Rightarrow> candidate_session" where
  "with_profile profile cs =
     (case profile of None \<Rightarrow> cs
      | Some pr \<Rightarrow> (with_names pr cs)\<lparr>cs_candidate_timezone := Some (py_strip (cp_candidateTimezone pr))\<rparr>)"

definition good_profile :: "(string \<Rightarrow> bool) \<Rightarrow> claim_profile option \<Rightarrow> bool" where
  "good_profile valid_zone profile \<longleftrightarrow>
     (case profile of None \<Rightarrow> True
      | Some pr \<Rightarrow> py_strip (cp_candidateTimezone pr) \<noteq> [] \<and> valid_zone (py_strip (cp_candidateTimezone pr)))"

lemma profile_step_iff:
  "(case profile of None \<Rightarrow> Inr (False, cs) | Some pr \<Rightarrow> apply_claim_profile z pr cs) = Inr (c, cs') \<longleftrightarrow>
   good_profile z profile \<and> cs' = with_profile profile cs \<and> c = (cs' \<noteq> cs)"
  by (cases profile) (auto simp: profile_Inr_iff good_profile_def with_profile_def simp del: candidate_session.simps)

lemma with_profile_simps [simp]:
  "owner_of (with_profile profile cs) = owner_of cs"
  "cs_status (with_profile profile cs) = cs_status cs"
  "cs_claimed_at (with_profile profile cs) = cs_claimed_at cs"
  "cs_candidate_auth0_email (with_profile profile cs) = cs_candidate_auth0_email cs"
  "cs_candidate_email (with_profile profile cs) = cs_candidate_email cs"
  "same_invite cs (with_profile profile cs)"
  using same_invite_names[of cs "the profile"]
  by (auto simp: with_profile_def same_invite_def split: option.splits)

definition claimed_session ::
    "principal \<Rightarrow> datetime \<Rightarrow> claim_profile option \<Rightarrow> candidate_session \<Rightarrow> candidate_session" where
  "claimed_session p now profile cs =
     mark_in_progress now (with_profile profile
       (record_owner (p_sub p) (normalize_email (Some (p_email p))) now cs))"

lemma same_invite_claimed: "same_invite cs (claimed_session p now profile cs)"
  unfolding claimed_session_def
  by (meson same_invite_owner same_invite_progress same_invite_trans with_profile_simps(6))

text \<open>The flags of the three writes are false together only when nothing changed.\<close>

lemma claim_InrD:
  assumes "claim_invite_with_principal z token p now profile db = Inr (cs', db')"
  obtains cs where "get_by_token token db = Some cs" "\<not> expired now cs" "may_own p cs" "good_profile z profile"
    "cs' = claimed_session p now profile cs" "db' = put_session cs' db \<or> cs' = cs \<and> db' = db"
proof -
  let ?own = "\<lambda>cs. record_owner (p_sub p) (normalize_email (Some (p_email p))) now cs"
  from assms obtain cs o' cs1 c cs2 where g: "get_by_token token db = Some cs" "\<not> expired now cs"
    and o: "ensure_candidate_ownership p now cs = Inr (o', cs1)"
    and pr: "good_profile z profile" "cs2 = with_profile profile cs1" "c = (cs2 \<noteq> cs1)"
    and e: "cs' = mark_in_progress now cs2"
      "db' = (if o' \<or> c \<or> cs_status cs' \<noteq> cs_status cs2 \<or> cs_started_at cs' \<noteq> cs_started_at cs2
              then put_session cs' db else db)"
    unfolding claim_invite_with_principal_def bind_result_Inr_iff fetch_by_token_iff profile_step_iff Let_def
      split_paired_Ex case_prod_conv by blast
  have own: "cs1 = ?own cs" "may_own p cs" using o by (simp_all add: ownership_Inr_iff)
  have "cs' = cs \<and> db' = db" if "db' \<noteq> put_session cs' db"
  proof -
    have f: "\<not> o'" "\<not> c" "cs_status cs' = cs_status cs2" "db' = db" using that e(2) by (auto split: if_splits)
    have "cs1 = cs" using o f(1) ownership_unchanged by simp
    with f pr(3) e(1) progress_unchanged[of now cs2] show ?thesis by simp
  qed
  then show thesis using that[OF g own(2) pr(1)] by (auto simp: claimed_session_def e(1) pr(2) own(1))
qed

lemma claim_total:
  "(\<exists>r. claim_invite_with_principal z token p now profile db = Inr r) \<longleftrightarrow>
   (\<exists>cs. get_by_token token db = Some cs \<and> \<not> expired now cs \<and> may_own p cs \<and> good_profile z profile)"
  unfolding claim_invite_with_principal_def bind_result_Inr_iff fetch_by_token_iff profile_step_iff Let_def
    split_paired_Ex case_prod_conv ownership_Inr_iff by blast

lemma claim_id:
  assumes "get_by_token token db = Some cs" "\<not> expired now cs" "may_own p cs" "good_profile z profile"
    and settled: "owner_of cs \<noteq> []" "cs_candidate_auth0_email cs = Some (normalize_email (Some (p_email p)))"
      "cs_candidate_email cs = Some (normalize_email (Some (p_email p)))" "cs_status cs \<noteq> ''not_started''"
      "with_profile profile cs = cs"
  shows "claim_invite_with_principal z token p now profile db = Inr (cs, db)"
proof -
  have "fetch_by_token token now db = Inr cs" using assms(1,2) by (simp add: fetch_by_token_iff)
  moreover have "ensure_candidate_ownership p now cs = Inr (False, cs)"
    using settled assms(3) record_owner_id[of cs] by (auto simp: ownership_Inr_iff)
  moreover have "(case profile of None \<Rightarrow> Inr (False, cs) | Some pr \<Rightarrow> apply_claim_profile z pr cs) = Inr (False, cs)"
    using assms(4) settled(5) by (simp add: profile_step_iff)
  ultimately show ?thesis
    using mark_in_progress_id[OF settled(4)] by (simp add: claim_invite_with_principal_def)
qed

lemma with_names_twice: "with_names pr (with_names pr cs) = with_names pr cs"
  by (cases cs) (simp add: with_names_def Let_def split: option.splits)

lemma with_names_commute:
  "with_names pr (mark_in_progress now cs) = mark_in_progress now (with_names pr cs)"
  "with_names pr (cs\<lparr>cs_candidate_timezone := tz\<rparr>) = (with_names pr cs)\<lparr>cs_candidate_timezone := tz\<rparr>"
  by (cases cs; simp add: with_names_def mark_in_progress_def Let_def split: option.splits)+

lemma timezone_commute:
  "(mark_in_progress now cs)\<lparr>cs_candidate_timezone := tz\<rparr> = mark_in_progress now (cs\<lparr>cs_candidate_timezone := tz\<rparr>)"
  by (cases cs) (simp add: mark_in_progress_def)

lemma with_profile_claimed: "with_profile profile (claimed_session p now profile cs) = claimed_session p now profile cs"
  by (cases profile)
    (simp_all add: with_profile_def claimed_session_def with_names_commute with_names_twice timezone_commute)

lemma claimed_session_facts:
  assumes "may_own p cs"
  shows "owner_of (claimed_session p now profile cs) = p_sub p"
    and "cs_candidate_auth0_email (claimed_session p now profile cs) = Some (normalize_email (Some (p_email p)))"
    and "cs_candidate_email (claimed_session p now profile cs) = Some (normalize_email (Some (p_email p)))"
    and "cs_status (claimed_session p now profile cs) \<noteq> ''not_started''"
    and "may_own p (claimed_session p now profile cs)"
  using assms same_invite_claimed[of cs p now profile]
  by (auto simp: claimed_session_def mark_in_progress_started may_own_def owner_of_record_owner same_invite_def)

section \<open>What opening an owned session did\<close>

lemma auth_updates_facts:
  assumes "apply_auth_updates p now cs = (c, cs')" and "cs_candidate_auth0_email cs = Some e"
    and "cs_candidate_email cs = Some e" and "e = normalize_email (Some (p_email p))"
  shows "cs' = mark_in_progress now cs" and "c = (cs_status cs = ''not_started'')"
  using assms by (auto simp: apply_auth_updates_def Let_def)

definition opened_session :: "principal \<Rightarrow> datetime \<Rightarrow> candidate_session \<Rightarrow> candidate_session" where
  "opened_session p now cs =
     mark_in_progress now (record_owner (p_sub p) (normalize_email (Some (p_email p))) now cs)"

lemma same_invite_opened: "same_invite cs (opened_session p now cs)"
  unfolding opened_session_def using same_invite_trans same_invite_owner same_invite_progress by metis

lemma ensure_can_access_iff:
  "ensure_can_access now found db = Inr cs \<longleftrightarrow>
   found = Some cs \<and> \<not> expired now cs \<and>
   (\<exists>t. session_trial db cs = Some t \<and> t_status t \<noteq> TRIAL_STATUS_TERMINATED)"
  by (auto simp: ensure_can_access_def bind_result_Inr_iff require_not_expired_iff split: option.splits)

lemma fetch_owned_InrD:
  assumes "fetch_owned_session i p now db = Inr (cs', db')"
  obtains cs where "get_by_id i db = Some cs" "\<not> expired now cs" "may_own p cs"
    "\<exists>t. session_trial db cs = Some t \<and> t_status t \<noteq> TRIAL_STATUS_TERMINATED"
    "cs' = opened_session p now cs" "db' = put_session cs' db \<or> cs' = cs \<and> db' = db"
proof -
  let ?e = "normalize_email (Some (p_email p))"
  from assms obtain cs o' cs1 where g: "get_by_id i db = Some cs" "\<not> expired now cs"
      "\<exists>t. session_trial db cs = Some t \<and> t_status t \<noteq> TRIAL_STATUS_TERMINATED"
    and o: "ensure_candidate_ownership p now cs = Inr (o', cs1)"
    and r: "(case apply_auth_updates p now cs1 of (c, cs2) \<Rightarrow> Inr (cs2, if o' \<or> c then put_session cs2 db else db)) = (Inr (cs', db') :: (candidate_session \<times> app_db) res)"
    unfolding fetch_owned_session_def bind_result_Inr_iff ensure_can_access_iff split_paired_Ex case_prod_conv
    by blast
  have own: "cs1 = record_owner (p_sub p) ?e now cs" "may_own p cs" using o by (simp_all add: ownership_Inr_iff)
  obtain c cs2 where au: "apply_auth_updates p now cs1 = (c, cs2)" by fastforce
  have f: "cs2 = mark_in_progress now cs1" "c = (cs_status cs1 = ''not_started'')"
    using auth_updates_facts[OF au] by (simp_all add: own(1))
  have e: "cs' = cs2" "db' = (if o' \<or> c then put_session cs' db else db)" using r au by (auto split: if_splits)
  have "cs' = cs \<and> db' = db" if "db' \<noteq> put_session cs' db"
  proof -
    have n: "\<not> o'" "\<not> c" "db' = db" using that e(2) by (auto split: if_splits)
    with o ownership_unchanged have "cs1 = cs" by simp
    with n f e(1) show ?thesis by (simp add: mark_in_progress_id)
  qed
  then show thesis using that[OF g(1,2) own(2) g(3)] by (auto simp: opened_session_def e(1) f(1) own(1))
qed

section \<open>Runs of sessions\<close>

text \<open>
  What happens to candidate sessions over time: invitations are claimed, owned sessions
  opened, and trials terminated, in any order and by anybody.
\<close>

definition session_kept :: "candidate_session \<Rightarrow> candidate_session \<Rightarrow> bool" where
  "session_kept a b \<longleftrightarrow>
     cs_trial_id b = cs_trial_id a \<and> cs_token b = cs_token a \<and> cs_invite_email b = cs_invite_email a \<and>
     (owner_of a \<noteq> [] \<longrightarrow> owner_of b = owner_of a) \<and>
     (cs_claimed_at a \<noteq> None \<longrightarrow> cs_claimed_at b = cs_claimed_at a)"

lemma session_kept_refl [simp]: "session_kept a a"
  by (simp add: session_kept_def)

lemma session_kept_trans: "session_kept a b \<Longrightarrow> session_kept b c \<Longrightarrow> session_kept a c"
  by (auto simp: session_kept_def)

lemma session_kept_claimed: "session_kept cs (claimed_session p now profile cs)"
  using same_invite_claimed[of cs p now profile]
  by (auto simp: session_kept_def same_invite_def claimed_session_def owner_of_record_owner claimed_at_record_owner)

lemma session_kept_opened: "session_kept cs (opened_session p now cs)"
  using same_invite_opened[of cs p now]
  by (auto simp: session_kept_def same_invite_def opened_session_def owner_of_record_owner claimed_at_record_owner)

definition sessions_kept :: "app_db \<Rightarrow> app_db \<Rightarrow> bool" where
  "sessions_kept db db' \<longleftrightarrow>
     map cs_id (sessions db') = map cs_id (sessions db) \<and>
     (\<forall>i cs. get_session i db = Some cs \<longrightarrow> (\<exists>cs'. get_session i db' = Some cs' \<and> session_kept cs cs'))"

lemma sessions_kept_refl [simp]: "sessions_kept db db"
  by (simp add: sessions_kept_def)

lemma sessions_kept_trans: "sessions_kept a b \<Longrightarrow> sessions_kept b c \<Longrightarrow> sessions_kept a c"
  unfolding sessions_kept_def by (metis session_kept_trans)

lemma sessions_kept_put:
  assumes "get_session (cs_id cs') db = Some cs" and "session_kept cs cs'"
  shows "sessions_kept db (put_session cs' db)"
  using assms by (auto simp: sessions_kept_def ids_put_session get_session_put)

inductive session_step :: "app_db \<Rightarrow> app_db \<Rightarrow> bool" where
  claimed: "claim_invite_with_principal valid_zone token p now profile db = Inr (cs, db') \<Longrightarrow> session_step db db'"
| opened: "fetch_owned_session i p now db = Inr (cs, db') \<Longrightarrow> session_step db db'"
| terminated: "terminate_trial_with_cleanup ai i u reason at clk db = Inr (r, db') \<Longrightarrow> session_step db db'"

lemma terminate_keeps_sessions:
  assumes "terminate_trial_with_cleanup ai i u reason at clk db = Inr (r, db')"
  shows "sessions_kept db db'"
proof -
  let ?f = "\<lambda>s. if pending_session i s then s\<lparr>cs_status := ''expired'', cs_expires_at := Some at\<rparr> else s"
  have s: "sessions db' = map ?f (sessions db)"
    by (rule terminate_unfold[OF assms])
      (simp add: cancel_pending_trial_jobs_def expire_pending_candidate_sessions_def update_rows_def Let_def)
  have "find_row (\<lambda>s. cs_id s = k) (map ?f ss) = map_option ?f (find_row (\<lambda>s. cs_id s = k) ss)" for k ss
    by (induction ss) (simp_all add: find_row_Cons)
  moreover have "session_kept x (?f x)" for x by (simp add: session_kept_def owner_of_def)
  ultimately show ?thesis by (auto simp: sessions_kept_def get_session_def s)
qed

lemma session_step_kept:
  assumes "session_step db db'" and ids: "distinct (map cs_id (sessions db))"
  shows "sessions_kept db db'"
  using assms(1)
proof (cases rule: session_step.cases)
  case (claimed valid_zone token p now profile cs')
  from claim_InrD[OF claimed] obtain cs where c: "get_by_token token db = Some cs"
    "cs' = claimed_session p now profile cs" "db' = put_session cs' db \<or> cs' = cs \<and> db' = db" by metis
  have "cs_id cs' = cs_id cs" using same_invite_claimed[of cs p now profile] by (simp add: c(2) same_invite_def)
  then have "get_session (cs_id cs') db = Some cs" using get_session_of_token[OF c(1) ids] by simp
  moreover have "session_kept cs cs'" unfolding c(2) by (rule session_kept_claimed)
  ultimately have "sessions_kept db (put_session cs' db)" by (rule sessions_kept_put)
  then show ?thesis using c(3) by auto
next
  case (opened i p now cs')
  from fetch_owned_InrD[OF opened] obtain cs where b: "get_by_id i db = Some cs" and c: "may_own p cs"
    "cs' = opened_session p now cs" "db' = put_session cs' db \<or> cs' = cs \<and> db' = db" by metis
  have "cs_id cs' = cs_id cs" using same_invite_opened[of cs p now] by (simp add: c(2) same_invite_def)
  then have "get_session (cs_id cs') db = Some cs" using get_session_of_id(1)[OF b ids] by simp
  moreover have "session_kept cs cs'" unfolding c(2) by (rule session_kept_opened)
  ultimately have "sessions_kept db (put_session cs' db)" by (rule sessions_kept_put)
  then show ?thesis using c(3) by auto
next
  case terminated
  then show ?thesis by (rule terminate_keeps_sessions)
qed

interpretation session_life: step_system
  "\<lambda>db. distinct (map cs_id (sessions db))" session_step "\<lambda>db. distinct (map cs_id (sessions db))"
  by unfold_locales (auto simp: sessions_kept_def dest: session_step_kept)

lemma session_steps_kept:
  "session_step\<^sup>*\<^sup>* db db' \<Longrightarrow> distinct (map cs_id (sessions db)) \<Longrightarrow> sessions_kept db db'"
proof (induction rule: rtranclp_induct)
  case (step y z)
  then show ?case using session_step_kept session_life.inv_steps sessions_kept_trans by blast
qed simp

section \<open>Properties\<close>

text \<open>
  An invitation can be claimed exactly when its token belongs to a session of
  a trial that is not terminated, it has not expired, the caller's email is the invited one
  up to case and surrounding blanks, nobody else has claimed it, and the profile, when one
  is sent, names a time zone the database knows.
\<close>

theorem claim_succeeds_exactly:
  "(\<exists>r. claim_invite_with_principal valid_zone token p now profile db = Inr r) \<longleftrightarrow>
   (\<exists>cs t. get_by_token token db = Some cs \<and> get_trial (cs_trial_id cs) db = Some t \<and>
      t_status t \<noteq> ''terminated'' \<and> cs_expires_at cs \<notin> Some ` {..<now} \<and>
      py_lower (py_strip (p_email p)) \<noteq> [] \<and>
      py_lower (py_strip (cs_invite_email cs)) = py_lower (py_strip (p_email p)) \<and>
      cs_candidate_auth0_sub cs \<in> {None, Some [], Some (p_sub p)} \<and>
      profile \<in> insert None (Some ` {pr. py_strip (cp_candidateTimezone pr) \<noteq> [] \<and>
                                          valid_zone (py_strip (cp_candidateTimezone pr))}))"
proof -
  have e: "expired now cs \<longleftrightarrow> cs_expires_at cs \<in> Some ` {..<now}" for cs
    by (auto simp: expired_def split: option.splits)
  have g: "good_profile valid_zone profile \<longleftrightarrow> profile \<in> insert None (Some ` {pr. py_strip (cp_candidateTimezone pr) \<noteq> [] \<and>
                                          valid_zone (py_strip (cp_candidateTimezone pr))})"
    by (auto simp: good_profile_def split: option.splits)
  have o: "owner_of cs \<in> {[], p_sub p} \<longleftrightarrow> cs_candidate_auth0_sub cs \<in> {None, Some [], Some (p_sub p)}" for cs
    by (auto simp: owner_of_def split: option.splits)
  have t: "\<exists>t. get_trial (cs_trial_id cs) db = Some t \<and> t_status t \<noteq> ''terminated''"
    if "get_by_token token db = Some cs" for cs
    using get_by_token_SomeD(3)[OF that] by (auto simp: session_trial_def TRIAL_STATUS_TERMINATED_def)
  show ?thesis
    unfolding claim_total may_own_def e g o normalize_email_def option.case using t by blast
qed

lemma claim_owner_facts:
  assumes res: "claim_invite_with_principal valid_zone token p now profile db = Inr (cs', db')"
    and ids: "distinct (map cs_id (sessions db))" and sub: "p_sub p \<noteq> []"
  shows "get_by_token token db' = Some cs'" "get_session (cs_id cs') db' = Some cs'"
    and "cs_candidate_auth0_sub cs' = Some (p_sub p)" "cs_status cs' \<noteq> ''not_started''"
    and "cs_candidate_email cs' = Some (normalize_email (Some (p_email p)))"
    and "i \<noteq> cs_id cs' \<Longrightarrow> get_session i db' = get_session i db"
    and "p_sub q \<noteq> p_sub p \<Longrightarrow>
           isl (claim_invite_with_principal valid_zone token q later profile' db') \<and>
           isl (fetch_owned_session (cs_id cs') q later db')"
    and "cs_expires_at cs' \<notin> Some ` {..<later} \<Longrightarrow>
           claim_invite_with_principal valid_zone token p later profile db' = Inr (cs', db')"
proof -
  from claim_InrD[OF res] obtain cs where g: "get_by_token token db = Some cs" and m: "may_own p cs"
    and pr: "good_profile valid_zone profile" and c: "cs' = claimed_session p now profile cs"
    and w: "db' = put_session cs' db \<or> cs' = cs \<and> db' = db" by metis
  have same: "same_invite cs cs'" unfolding c by (rule same_invite_claimed)
  then have id: "cs_id cs' = cs_id cs" by (simp add: same_invite_def)
  note facts = claimed_session_facts[OF m, of now profile, folded c]
  show tok: "get_by_token token db' = Some cs'" using w g get_by_token_put[OF g same ids] by auto
  have old: "get_session (cs_id cs') db = Some cs" using get_session_of_token[OF g ids] by (simp add: id)
  show own: "get_session (cs_id cs') db' = Some cs'" using w old get_session_put[OF old] by auto
  show "cs_candidate_auth0_sub cs' = Some (p_sub p)" using facts(1) sub by (auto simp: owner_of_def split: option.splits)
  show "cs_status cs' \<noteq> ''not_started''" "cs_candidate_email cs' = Some (normalize_email (Some (p_email p)))"
    by (fact facts)+
  show "get_session i db' = get_session i db" if "i \<noteq> cs_id cs'" using w that get_session_put[OF old] by auto
  show "isl (claim_invite_with_principal valid_zone token q later profile' db') \<and>
        isl (fetch_owned_session (cs_id cs') q later db')" if "p_sub q \<noteq> p_sub p"
  proof -
    have no: "\<not> may_own q cs'" using that sub facts(1) by (simp add: may_own_def)
    have "isl (claim_invite_with_principal valid_zone token q later profile' db')"
      using claim_total[of valid_zone token q later profile' db'] tok no by (auto simp: isl_def intro: sum.exhaust)
    moreover have "isl (fetch_owned_session (cs_id cs') q later db')"
    proof (cases "fetch_owned_session (cs_id cs') q later db'")
      case (Inr r)
      then obtain x where x: "get_by_id (cs_id cs') db' = Some x" "may_own q x"
        by (cases r) (auto elim: fetch_owned_InrD)
      have "distinct (map cs_id (sessions db'))" using ids w by (auto simp: ids_put_session)
      from get_session_of_id[OF x(1) this] own no x(2) show ?thesis by simp
    qed simp
    ultimately show ?thesis by blast
  qed
  show "claim_invite_with_principal valid_zone token p later profile db' = Inr (cs', db')"
    if "cs_expires_at cs' \<notin> Some ` {..<later}"
  proof (rule claim_id[OF tok _ facts(5) pr _ facts(2,3,4)])
    show "\<not> expired later cs'" using that by (auto simp: expired_def split: option.splits)
    show "owner_of cs' \<noteq> []" using facts(1) sub by simp
    show "with_profile profile cs' = cs'" unfolding c by (rule with_profile_claimed)
  qed
qed

text \<open>
  Property C9. A claim settles who owns the session. Afterwards the token finds the claimed
  session with the caller's subject and email on it and the work started; no other session
  changed; no other subject can claim or open it, ever; and claiming it again with the same
  profile succeeds until it expires and writes nothing.
\<close>

theorem claim_settles_owner:
  assumes res: "claim_invite_with_principal valid_zone token p now profile db = Inr (cs', db')"
    and ids: "distinct (map cs_id (sessions db))" and sub: "p_sub p \<noteq> []"
  shows "get_by_token token db' = Some cs' \<and> get_session (cs_id cs') db' = Some cs' \<and>
    cs_candidate_auth0_sub cs' = Some (p_sub p) \<and> cs_status cs' \<noteq> ''not_started'' \<and>
    cs_candidate_email cs' = Some (normalize_email (Some (p_email p))) \<and>
    (\<forall>i. i \<noteq> cs_id cs' \<longrightarrow> get_session i db' = get_session i db) \<and>
    (\<forall>q :: principal. p_sub q \<noteq> p_sub p \<longrightarrow>
       (\<forall>later other. isl (claim_invite_with_principal valid_zone token q later other db')) \<and>
       (\<forall>later. isl (fetch_owned_session (cs_id cs') q later db'))) \<and>
    (\<forall>later. cs_expires_at cs' \<notin> Some ` {..<later} \<longrightarrow>
       claim_invite_with_principal valid_zone token p later profile db' = Inr (cs', db'))"
proof -
  note f = claim_owner_facts[OF assms]
  show ?thesis using f(1-5) f(6-8) by blast
qed

definition demo_principal :: principal where
  "demo_principal = \<lparr>p_sub = ''auth0|1'', p_email = ''ada@example.com'', p_permissions = []\<rparr>"

definition demo_profile :: claim_profile where
  "demo_profile = \<lparr>cp_fullName = '' Ada L '', cp_preferredDisplayName = Some '' '', cp_candidateTimezone = '' UTC''\<rparr>"

theorem claim_settles_owner_witness:
  "\<exists>cs' db'. claim_invite_with_principal (\<lambda>z. z = ''UTC'') ''tok'' demo_principal 100 (Some demo_profile) demo_app = Inr (cs', db') \<and>
     claim_invite_with_principal (\<lambda>z. z = ''UTC'') ''tok'' demo_principal 200 (Some demo_profile) db' = Inr (cs', db') \<and>
     isl (claim_invite_with_principal (\<lambda>z. z = ''UTC'') ''tok'' (demo_principal\<lparr>p_sub := ''x''\<rparr>) 200 None db')"
proof -
  let ?z = "\<lambda>z. z = ''UTC''"
  have "case claim_invite_with_principal ?z ''tok'' demo_principal 100 (Some demo_profile) demo_app of
      Inl _ \<Rightarrow> False | Inr (cs', db') \<Rightarrow> cs_expires_at cs' = Some 5000" by code_simp
  then obtain cs' db' where r: "claim_invite_with_principal ?z ''tok'' demo_principal 100 (Some demo_profile) demo_app = Inr (cs', db')"
    and e: "cs_expires_at cs' = Some 5000" by (auto split: sum.splits)
  have ids: "distinct (map cs_id (sessions demo_app))" and sub: "p_sub demo_principal \<noteq> []" by code_simp+
  have other: "p_sub (demo_principal\<lparr>p_sub := ''x''\<rparr>) \<noteq> p_sub demo_principal" by code_simp
  have "cs_expires_at cs' \<notin> Some ` {..<200}" using e by auto
  then show ?thesis
    using r claim_settles_owner[OF r ids sub] other by blast
qed

text \<open>
  Ownership is final. Whatever claims, openings of owned sessions and
  terminations of trials follow, by anybody and in any order, no session appears or
  disappears, a claimed session keeps its owner and the time of its claim, and every session
  keeps its token, its trial and the invited email.
\<close>

theorem session_owner_is_final:
  assumes "session_step\<^sup>*\<^sup>* db db'" and "distinct (map cs_id (sessions db))"
    and "get_session i db = Some cs"
  shows "map cs_id (sessions db') = map cs_id (sessions db) \<and>
    (\<exists>cs'. get_session i db' = Some cs' \<and>
       (cs_candidate_auth0_sub cs \<notin> {None, Some []} \<longrightarrow> cs_candidate_auth0_sub cs' = cs_candidate_auth0_sub cs) \<and>
       (cs_claimed_at cs \<noteq> None \<longrightarrow> cs_claimed_at cs' = cs_claimed_at cs) \<and>
       cs_token cs' = cs_token cs \<and> cs_trial_id cs' = cs_trial_id cs \<and> cs_invite_email cs' = cs_invite_email cs)"
proof -
  have k: "sessions_kept db db'" by (rule session_steps_kept[OF assms(1,2)])
  then obtain cs' where g: "get_session i db' = Some cs'" and s: "session_kept cs cs'"
    using assms(3) by (auto simp: sessions_kept_def)
  have "cs_candidate_auth0_sub cs' = cs_candidate_auth0_sub cs" if "cs_candidate_auth0_sub cs \<notin> {None, Some []}"
    using s that by (auto simp: session_kept_def owner_of_def split: option.splits)
  then show ?thesis using g s k by (auto simp: session_kept_def sessions_kept_def)
qed

theorem session_owner_is_final_witness:
  "\<exists>db1 db2 cs'. session_step\<^sup>*\<^sup>* db1 db2 \<and> cs_status (the (get_session 7 db1)) = ''in_progress'' \<and>
     trials db2 \<noteq> trials db1 \<and> get_session 7 db2 = Some cs' \<and> cs_candidate_auth0_sub cs' = Some ''auth0|1''"
proof -
  let ?run = "bind_result (claim_invite_with_principal (\<lambda>z. z = ''UTC'') ''tok'' demo_principal 100 (Some demo_profile) demo_app)
     (\<lambda>(cs, db1). bind_result (terminate_trial_with_cleanup int_of_json 3 9 None 200 200 db1) (\<lambda>(r, db2). Inr (db1, db2)))"
  have "case ?run of Inl _ \<Rightarrow> False | Inr (db1, db2) \<Rightarrow>
      distinct (map cs_id (sessions db1)) \<and> map_option cs_status (get_session 7 db1) = Some ''in_progress'' \<and>
      map_option cs_candidate_auth0_sub (get_session 7 db1) = Some (Some ''auth0|1'') \<and>
      map t_status (trials db1) \<noteq> map t_status (trials db2)" by code_simp
  then obtain db1 db2 where run: "?run = Inr (db1, db2)" and ids: "distinct (map cs_id (sessions db1))"
    and st: "map_option cs_status (get_session 7 db1) = Some ''in_progress''"
    and o: "map_option cs_candidate_auth0_sub (get_session 7 db1) = Some (Some ''auth0|1'')"
    and ne: "map t_status (trials db1) \<noteq> map t_status (trials db2)" by (auto split: sum.splits)
  from run obtain r where "terminate_trial_with_cleanup int_of_json 3 9 None 200 200 db1 = Inr (r, db2)"
    by (auto simp: bind_result_Inr_iff)
  then have step: "session_step\<^sup>*\<^sup>* db1 db2" by (blast intro: session_step.terminated)
  obtain cs where g: "get_session 7 db1 = Some cs" and oc: "cs_candidate_auth0_sub cs = Some ''auth0|1''"
    using o by auto
  obtain cs' where "get_session 7 db2 = Some cs'" "cs_candidate_auth0_sub cs' = Some ''auth0|1''"
    using session_owner_is_final[OF step ids g] oc by auto
  moreover have "trials db2 \<noteq> trials db1" using ne by auto
  ultimately show ?thesis using step st g by (intro exI[of _ db1] exI[of _ db2] exI[of _ cs']) auto
qed

end
