(* ===== verification/DayWindows.thy ===== *)
theory DayWindows
  imports CandidateClaim
begin

text \<open>
  The five-day schedule of a candidate (\<open>services/scheduling/*\<close>): deriving the windows of
  the days from the start date, the zone and the trial's window times, their JSON form in
  \<open>day_windows_json\<close>, and the window that is current. Local times of day and local points
  in time are microseconds, as the points in time of the database are. Two things are
  arguments: the time-zone database of the machine (\<open>tz_database\<close>: which names it knows,
  and the conversions between UTC and a zone's wall clock, \<open>fold = 0\<close>), and
  \<open>from_iso\<close>, which reads ISO 8601 text as \<open>datetime.fromisoformat\<close> followed by the
  conversion to UTC does, \<open>None\<close> for its ValueError.
\<close>

record tz_database =
  tz_known :: "string \<Rightarrow> bool"
  tz_to_local :: "string \<Rightarrow> datetime \<Rightarrow> int"
  tz_from_local :: "string \<Rightarrow> int \<Rightarrow> datetime"

record day_window =
  dw_dayIndex :: int
  dw_windowStartAt :: datetime
  dw_windowEndAt :: datetime

section \<open>Day indexes and local times\<close>

text \<open>
  \<open>str.isdigit\<close> also holds of the superscripts of Latin-1, which \<open>int\<close> refuses, and \<open>int\<close>
  refuses more than 4300 digits.
\<close>

definition py_isdigit :: "string \<Rightarrow> bool" where
  "py_isdigit s \<longleftrightarrow> s \<noteq> [] \<and> (\<forall>c \<in> set s. is_digit c \<or> code_point c \<in> {178, 179, 185})"

definition digits_value :: "string \<Rightarrow> int" where
  "digits_value s = fold (\<lambda>c n. 10 * n + (code_point c - 48)) s 0"

definition py_int :: "string \<Rightarrow> int res" where
  "py_int s = (if s \<noteq> [] \<and> (\<forall>c \<in> set s. is_digit c) \<and> length s \<le> 4300 then Inr (digits_value s)
               else Inl (ValueError ''invalid literal for int() with base 10''))"

definition coerce_day_index :: "json \<Rightarrow> int option res" where
  "coerce_day_index raw =
     (case raw of
        JInt i \<Rightarrow> Inr (Some i)
      | JBool b \<Rightarrow> Inr (Some (if b then 1 else 0))
      | JStr s \<Rightarrow> if py_isdigit (py_strip s) then bind_result (py_int (py_strip s)) (\<lambda>i. Inr (Some i)) else Inr None
      | _ \<Rightarrow> Inr None)"

definition time_error :: error where
  "time_error = ValueError ''Time value must be HH:MM''"

definition hour_text :: "string \<Rightarrow> bool" where
  "hour_text s \<longleftrightarrow> (case s of
      [c] \<Rightarrow> is_digit c
    | [c, d] \<Rightarrow> is_digit d \<and> (c \<in> {CHR ''0'', CHR ''1''} \<or> c = CHR ''2'' \<and> code_point d \<le> 51)
    | _ \<Rightarrow> False)"

definition minute_text :: "string \<Rightarrow> bool" where
  "minute_text s \<longleftrightarrow> (case s of
      [c] \<Rightarrow> is_digit c
    | [c, d] \<Rightarrow> is_digit c \<and> code_point c \<le> 53 \<and> is_digit d
    | _ \<Rightarrow> False)"

definition strptime_hm :: "string \<Rightarrow> int res" where
  "strptime_hm s =
     (let hh = takeWhile (\<lambda>c. c \<noteq> CHR '':'') s; rest = dropWhile (\<lambda>c. c \<noteq> CHR '':'') s
      in if hour_text hh \<and> rest \<noteq> [] \<and> minute_text (tl rest)
         then Inr (seconds (3600 * digits_value hh + 60 * digits_value (tl rest)))
         else Inl time_error)"

definition parse_local_time :: "json \<Rightarrow> int res" where
  "parse_local_time value = (case value of JStr s \<Rightarrow> strptime_hm (py_strip s) | _ \<Rightarrow> Inl time_error)"

section \<open>Overrides of single days\<close>

definition py_or :: "json \<Rightarrow> json \<Rightarrow> json" where
  "py_or a b = (if truthy a then a else b)"

definition window_order_error :: error where
  "window_order_error = ValueError ''Window end must be after start''"

definition normalize_override :: "string \<times> json \<Rightarrow> (int \<times> int \<times> int) option res" where
  "normalize_override entry =
     bind_result (coerce_day_index (JStr (fst entry))) (\<lambda>day_index.
       case (day_index, snd entry) of
         (Some i, JObj raw_window) \<Rightarrow>
           (let raw_start = py_or (py_or (dict_get ''startLocal'' raw_window) (dict_get ''windowStartLocal'' raw_window))
                              (dict_get ''start'' raw_window);
                raw_end = py_or (py_or (dict_get ''endLocal'' raw_window) (dict_get ''windowEndLocal'' raw_window))
                              (dict_get ''end'' raw_window)
            in if raw_start = JNull \<or> raw_end = JNull then Inr None
               else bind_result (parse_local_time raw_start) (\<lambda>start_local.
                    bind_result (parse_local_time raw_end) (\<lambda>end_local.
                      if end_local \<le> start_local then Inl window_order_error
                      else Inr (Some (i, start_local, end_local)))))
       | _ \<Rightarrow> Inr None)"

definition normalize_overrides :: "json \<Rightarrow> (int \<Rightarrow> (int \<times> int) option) res" where
  "normalize_overrides overrides =
     (case overrides of
        JObj entries \<Rightarrow>
          bind_result (map_result normalize_override entries) (\<lambda>rows.
            Inr (fold (\<lambda>row m. case row of None \<Rightarrow> m | Some (i, w) \<Rightarrow> m(i \<mapsto> w)) rows Map.empty))
      | _ \<Rightarrow> Inr Map.empty)"

section \<open>Deriving the windows\<close>

definition derive_window ::
    "tz_database \<Rightarrow> string \<Rightarrow> (int \<Rightarrow> (int \<times> int) option) \<Rightarrow> int \<Rightarrow> int \<Rightarrow> int \<Rightarrow> int \<Rightarrow> day_window res" where
  "derive_window tz zone normalized_overrides start_default end_default day_one_local_date offset =
     (let day_index = offset + 1;
          window_date = day_one_local_date + offset;
          (start_local, end_local) =
            (case normalized_overrides day_index of None \<Rightarrow> (start_default, end_default) | Some w \<Rightarrow> w);
          start_at = tz_from_local tz zone (window_date * microseconds_per_day + start_local);
          end_at = tz_from_local tz zone (window_date * microseconds_per_day + end_local)
      in if end_at \<le> start_at then Inl window_order_error
         else Inr \<lparr>dw_dayIndex = day_index, dw_windowStartAt = start_at, dw_windowEndAt = end_at\<rparr>)"

definition local_date :: "tz_database \<Rightarrow> string \<Rightarrow> datetime \<Rightarrow> int" where
  "local_date tz zone t = tz_to_local tz zone t div microseconds_per_day"

definition derive_day_windows ::
    "tz_database \<Rightarrow> datetime \<Rightarrow> string \<Rightarrow> int \<Rightarrow> int \<Rightarrow> json \<Rightarrow> bool \<Rightarrow> int \<Rightarrow> day_window list res" where
  "derive_day_windows tz scheduled_start_at_utc candidate_tz day_window_start_local day_window_end_local
       overrides overrides_enabled total_days =
     (if total_days \<le> 0 then Inl (ValueError ''total_days must be greater than zero'')
      else if day_window_end_local \<le> day_window_start_local then Inl window_order_error
      else bind_result (validate_timezone (tz_known tz) candidate_tz) (\<lambda>zone.
           bind_result (normalize_overrides (if overrides_enabled then overrides else JNull)) (\<lambda>normalized_overrides.
             map_result (derive_window tz zone normalized_overrides day_window_start_local day_window_end_local
                           (local_date tz zone scheduled_start_at_utc))
               (map int [0..<nat total_days]))))"

section \<open>The JSON form\<close>

definition format_utc_iso :: "datetime \<Rightarrow> string" where
  "format_utc_iso value = isoformat_z (drop_microseconds value)"

definition serialize_day_window :: "day_window \<Rightarrow> json" where
  "serialize_day_window w =
     JObj [(''dayIndex'', JInt (dw_dayIndex w)),
           (''windowStartAt'', JStr (format_utc_iso (dw_windowStartAt w))),
           (''windowEndAt'', JStr (format_utc_iso (dw_windowEndAt w)))]"

definition serialize_day_windows :: "day_window list \<Rightarrow> json" where
  "serialize_day_windows day_windows = JList (map serialize_day_window day_windows)"

definition replace_z :: "string \<Rightarrow> string" where
  "replace_z s = concat (map (\<lambda>c. if c = CHR ''Z'' then ''+00:00'' else [c]) s)"

definition deserialize_day_window :: "(string \<Rightarrow> datetime option) \<Rightarrow> json \<Rightarrow> day_window option res" where
  "deserialize_day_window from_iso item =
     (case item of
        JObj d \<Rightarrow>
          bind_result (coerce_day_index (dict_get ''dayIndex'' d)) (\<lambda>day_index.
            Inr (case (day_index, dict_get ''windowStartAt'' d, dict_get ''windowEndAt'' d) of
                   (Some i, JStr start_raw, JStr end_raw) \<Rightarrow>
                     (case (from_iso (replace_z start_raw), from_iso (replace_z end_raw)) of
                        (Some start_dt, Some end_dt) \<Rightarrow>
                          Some \<lparr>dw_dayIndex = i, dw_windowStartAt = start_dt, dw_windowEndAt = end_dt\<rparr>
                      | _ \<Rightarrow> None)
                 | _ \<Rightarrow> None))
      | _ \<Rightarrow> Inr None)"

definition deserialize_day_windows :: "(string \<Rightarrow> datetime option) \<Rightarrow> json \<Rightarrow> day_window list res" where
  "deserialize_day_windows from_iso raw_value =
     (case raw_value of
        JList items \<Rightarrow>
          bind_result (map_result (deserialize_day_window from_iso) items) (\<lambda>rows.
            Inr (sort_key dw_dayIndex (List.map_filter (\<lambda>r. r) rows)))
      | _ \<Rightarrow> Inr [])"

section \<open>The current window\<close>

datatype schedule_window_state = Upcoming | Active | Closed

fun scan_windows :: "datetime \<Rightarrow> day_window list \<Rightarrow> (day_window \<times> schedule_window_state) option" where
  "scan_windows now [] = None"
| "scan_windows now (w # ws) =
     (if dw_windowStartAt w \<le> now \<and> now < dw_windowEndAt w then Some (w, Active)
      else if now < dw_windowStartAt w then Some (w, Upcoming)
      else scan_windows now ws)"

definition derive_current_day_window ::
    "day_window list \<Rightarrow> datetime \<Rightarrow> (day_window \<times> schedule_window_state) option" where
  "derive_current_day_window day_windows now =
     (if day_windows = [] then None
      else let ordered = sort_key dw_dayIndex day_windows
           in case scan_windows now ordered of
                Some r \<Rightarrow> Some r
              | None \<Rightarrow> Some (last ordered, Closed))"

section \<open>ISO text\<close>

lemma pad_ascii: "0 \<le> n \<Longrightarrow> c \<in> set (pad w n) \<Longrightarrow> is_digit c"
  using digits_ascii by (auto simp: pad_def Let_def is_digit_def code_point_def split: if_splits)

lemma civil_nonneg:
  assumes "0 \<le> z" and "civil_of_days z = (y, m, d)"
  shows "0 \<le> y" and "0 \<le> m" and "0 \<le> d"
proof -
  define doe where "doe = (z + 719468) mod 146097"
  define Y where "Y = (doe - doe div 1460 + doe div 36524 - doe div 146096) div 365"
  define doy where "doy = doe - (365 * Y + Y div 4 - Y div 100)"
  define mp where "mp = (5 * doy + 2) div 153"
  have doe: "0 \<le> doe" "doe \<le> 146096" by (auto simp: doe_def)
  have Y: "0 \<le> Y" unfolding Y_def using doe by (intro div_int_pos_iff[THEN iffD2]) linarith
  have doy: "- 61 \<le> doy" unfolding doy_def Y_def using doe by linarith
  have mp: "- 2 \<le> mp" unfolding mp_def using doy by linarith
  have d: "0 \<le> doy - (153 * mp + 2) div 5 + 1" unfolding mp_def by linarith
  have era: "0 \<le> (z + 719468) div 146097" using assms(1) by simp
  have c: "civil_of_days z =
      (Y + (z + 719468) div 146097 * 400 + (if (if mp < 10 then mp + 3 else mp - 9) \<le> 2 then 1 else 0),
       if mp < 10 then mp + 3 else mp - 9, doy - (153 * mp + 2) div 5 + 1)"
    unfolding civil_of_days_def Let_def doe_def[symmetric] Y_def[symmetric] doy_def[symmetric] mp_def[symmetric] ..
  show "0 \<le> y" using assms(2) Y era unfolding c by auto
  show "0 \<le> m" using assms(2) mp unfolding c by auto
  show "0 \<le> d" using assms(2) d unfolding c by auto
qed

lemma iso_body_no_z:
  assumes "0 \<le> t" shows "CHR ''Z'' \<notin> set (iso_body t)"
proof -
  obtain y m d where c: "civil_of_days (t div microseconds_per_day) = (y, m, d)" by (cases "civil_of_days (t div microseconds_per_day)") auto
  have "0 \<le> t div microseconds_per_day" using assms by (simp add: microseconds_per_day_def seconds_def pos_imp_zdiv_nonneg_iff)
  note n = civil_nonneg[OF this c]
  have us: "0 \<le> t mod microseconds_per_day" by (simp add: microseconds_per_day_def seconds_def)
  have z: "CHR ''Z'' \<notin> set (pad w k)" if "0 \<le> k" for w k
    using pad_ascii[OF that, of "CHR ''Z''" w] by (auto simp: is_digit_def code_point_def)
  show ?thesis using n us by (auto simp: iso_body_def Let_def c z)
qed

lemma replace_z_id: "CHR ''Z'' \<notin> set s \<Longrightarrow> replace_z s = s"
  by (induction s) (auto simp: replace_z_def)

lemma replace_z_iso: "0 \<le> t \<Longrightarrow> replace_z (isoformat_z t) = isoformat t"
  using replace_z_id[OF iso_body_no_z] by (simp add: isoformat_z_def isoformat_def replace_z_def)

lemma drop_microseconds_nonneg: "0 \<le> t \<Longrightarrow> 0 \<le> drop_microseconds t"
  by (simp add: drop_microseconds_def minus_mod_eq_div_mult pos_imp_zdiv_nonneg_iff)

section \<open>Windows in order\<close>

definition over :: "datetime \<Rightarrow> day_window \<Rightarrow> bool" where
  "over now w \<longleftrightarrow> dw_windowEndAt w \<le> now"

definition whole_seconds :: "day_window \<Rightarrow> day_window" where
  "whole_seconds w = w\<lparr>dw_windowStartAt := drop_microseconds (dw_windowStartAt w),
                       dw_windowEndAt := drop_microseconds (dw_windowEndAt w)\<rparr>"

lemma scan_windows_None:
  "scan_windows now ws = None \<Longrightarrow> w \<in> set ws \<Longrightarrow> over now w"
  by (induction ws) (auto simp: over_def split: if_splits)

lemma scan_windows_Some:
  assumes "scan_windows now ws = Some (w, st)" and "sorted (map dw_dayIndex ws)"
  shows "w \<in> set ws"
    and "st = Active \<and> dw_windowStartAt w \<le> now \<and> now < dw_windowEndAt w \<or> st = Upcoming \<and> now < dw_windowStartAt w"
    and "\<And>v. v \<in> set ws \<Longrightarrow> dw_dayIndex v < dw_dayIndex w \<Longrightarrow> over now v"
proof -
  have "w \<in> set ws \<and> (st = Active \<and> dw_windowStartAt w \<le> now \<and> now < dw_windowEndAt w \<or> st = Upcoming \<and> now < dw_windowStartAt w) \<and>
    (\<forall>v \<in> set ws. dw_dayIndex v < dw_dayIndex w \<longrightarrow> over now v)"
    using assms by (induction ws) (auto simp: over_def split: if_splits)
  then show "w \<in> set ws"
    and "st = Active \<and> dw_windowStartAt w \<le> now \<and> now < dw_windowEndAt w \<or> st = Upcoming \<and> now < dw_windowStartAt w"
    and "\<And>v. v \<in> set ws \<Longrightarrow> dw_dayIndex v < dw_dayIndex w \<Longrightarrow> over now v" by auto
qed

lemma last_sort_key_max: "ws \<noteq> [] \<Longrightarrow> v \<in> set ws \<Longrightarrow> k v \<le> k (last (sort_key k ws))"
proof -
  assume ne: "ws \<noteq> []" and v: "v \<in> set ws"
  have s: "sorted (map k (sort_key k ws))" by simp
  have "sort_key k ws \<noteq> []" using ne by (metis set_empty set_sort)
  then obtain xs x where e: "sort_key k ws = xs @ [x]" by (metis rev_exhaust)
  have "v \<in> set (xs @ [x])" using v unfolding e[symmetric] by simp
  then show ?thesis using s unfolding e by (auto simp: sorted_append)
qed

section \<open>Properties\<close>

lemma derive_windows_Inr:
  assumes "derive_day_windows tz at candidate_tz s e ov enabled n = Inr ws"
  obtains m where "0 < n" "s < e" "py_strip candidate_tz \<noteq> []" "tz_known tz (py_strip candidate_tz)"
    "normalize_overrides (if enabled then ov else JNull) = Inr m"
    "map_result (derive_window tz (py_strip candidate_tz) m s e (local_date tz (py_strip candidate_tz) at))
       (map int [0..<nat n]) = Inr ws"
  using assms unfolding derive_day_windows_def bind_result_Inr_iff validate_timezone_def Let_def
  by (auto simp: bind_result_Inr_iff split: if_splits)

definition window_times :: "(int \<Rightarrow> (int \<times> int) option) \<Rightarrow> int \<Rightarrow> int \<Rightarrow> int \<Rightarrow> int \<times> int" where
  "window_times m s e day_index = (case m day_index of None \<Rightarrow> (s, e) | Some w \<Rightarrow> w)"

lemma derive_window_Inr:
  "derive_window tz zone m s e d k = Inr w \<longleftrightarrow>
   w = \<lparr>dw_dayIndex = k + 1,
        dw_windowStartAt = tz_from_local tz zone ((d + k) * microseconds_per_day + fst (window_times m s e (k + 1))),
        dw_windowEndAt = tz_from_local tz zone ((d + k) * microseconds_per_day + snd (window_times m s e (k + 1)))\<rparr> \<and>
   dw_windowStartAt w < dw_windowEndAt w"
  by (auto simp: derive_window_def window_times_def Let_def split: option.splits prod.splits if_splits)

lemma derived_indexes:
  assumes "derive_day_windows tz at candidate_tz s e ov enabled n = Inr ws"
  shows "map dw_dayIndex ws = [1..n]"
proof -
  from derive_windows_Inr[OF assms] obtain m where n: "0 < n" and
    r: "map_result (derive_window tz (py_strip candidate_tz) m s e (local_date tz (py_strip candidate_tz) at))
       (map int [0..<nat n]) = Inr ws" by metis
  have len: "length ws = nat n" using map_result_Inr_length[OF r] by simp
  have "dw_dayIndex (ws ! k) = int k + 1" if "k < nat n" for k
    using map_result_Inr_nth[OF r, of k] that by (simp add: derive_window_Inr)
  then show ?thesis using len n by (intro nth_equalityI) (auto simp: nth_upto)
qed

lemma derived_nonempty: "derive_day_windows tz at candidate_tz s e ov enabled n = Inr ws \<Longrightarrow> ws \<noteq> []"
proof -
  assume a: "derive_day_windows tz at candidate_tz s e ov enabled n = Inr ws"
  have "0 < n" using derive_windows_Inr[OF a] by metis
  then show "ws \<noteq> []" using derived_indexes[OF a] by (auto simp: upto.simps)
qed

lemma sorted_wrt_chain:
  assumes "\<And>k. Suc k < length xs \<Longrightarrow> hi (xs ! k) \<le> (lo (xs ! Suc k) :: int)"
    and "\<And>x. x \<in> set xs \<Longrightarrow> lo x < hi x"
  shows "sorted_wrt (\<lambda>x y. hi x \<le> lo y) xs"
  using assms
proof (induction xs)
  case (Cons x xs)
  have IH: "sorted_wrt (\<lambda>x y. hi x \<le> lo y) xs" using Cons by (metis Suc_less_eq length_Cons list.set_intros(2) nth_Cons_Suc)
  show ?case
  proof (cases xs)
    case (Cons y ys)
    have 1: "hi x \<le> lo y" using Cons.prems(1)[of 0] Cons by simp
    have 2: "lo y < hi y" using Cons.prems(2) Cons by simp
    with 1 IH Cons show ?thesis by (auto intro: order_trans less_imp_le)
  qed simp
qed simp

lemma derived_window_facts:
  assumes res: "derive_day_windows tz at candidate_tz s e ov enabled n = Inr ws"
    and m: "normalize_overrides (if enabled then ov else JNull) = Inr m"
    and offset: "\<And>a b. a \<le> b \<Longrightarrow>
      b - a - H \<le> tz_from_local tz (py_strip candidate_tz) b - tz_from_local tz (py_strip candidate_tz) a"
    and gap: "\<And>k. 1 \<le> k \<Longrightarrow> k < n \<Longrightarrow>
      snd (window_times m s e k) + H \<le> microseconds_per_day + fst (window_times m s e (k + 1))"
    and H: "0 \<le> H"
  shows "map dw_dayIndex ws = [1..n]"
    and "\<forall>w \<in> set ws. dw_windowStartAt w < dw_windowEndAt w \<and>
      dw_windowStartAt w = tz_from_local tz (py_strip candidate_tz)
        ((local_date tz (py_strip candidate_tz) at + dw_dayIndex w - 1) * microseconds_per_day +
         fst (window_times m s e (dw_dayIndex w)))"
    and "sorted_wrt (\<lambda>v w. dw_windowEndAt v \<le> dw_windowStartAt w) ws"
proof -
  let ?z = "py_strip candidate_tz"
  let ?d = "local_date tz ?z at"
  from derive_windows_Inr[OF res] m
  have n: "0 < n" and r: "map_result (derive_window tz ?z m s e ?d) (map int [0..<nat n]) = Inr ws" by auto
  have len: "length ws = nat n" using map_result_Inr_length[OF r] by simp
  have w: "derive_window tz ?z m s e ?d (int k) = Inr (ws ! k)" if "k < nat n" for k
    using map_result_Inr_nth[OF r, of k] that by simp
  have idx: "dw_dayIndex (ws ! k) = int k + 1"
    and st: "dw_windowStartAt (ws ! k) =
        tz_from_local tz ?z ((?d + int k) * microseconds_per_day + fst (window_times m s e (int k + 1)))"
    and en: "dw_windowEndAt (ws ! k) =
        tz_from_local tz ?z ((?d + int k) * microseconds_per_day + snd (window_times m s e (int k + 1)))"
    and lt: "dw_windowStartAt (ws ! k) < dw_windowEndAt (ws ! k)" if "k < nat n" for k
    using w[OF that, unfolded derive_window_Inr] by (cases "ws ! k", simp)+
  show "map dw_dayIndex ws = [1..n]" by (rule derived_indexes[OF res])
  show "\<forall>w \<in> set ws. dw_windowStartAt w < dw_windowEndAt w \<and>
      dw_windowStartAt w = tz_from_local tz ?z ((?d + dw_dayIndex w - 1) * microseconds_per_day +
         fst (window_times m s e (dw_dayIndex w)))"
    using len lt idx st by (auto simp: in_set_conv_nth)
  show "sorted_wrt (\<lambda>v w. dw_windowEndAt v \<le> dw_windowStartAt w) ws"
  proof (rule sorted_wrt_chain)
    fix k assume k: "Suc k < length ws"
    let ?a = "(?d + int k) * microseconds_per_day + snd (window_times m s e (int k + 1))"
    let ?b = "(?d + int (Suc k)) * microseconds_per_day + fst (window_times m s e (int (Suc k) + 1))"
    have g: "snd (window_times m s e (int k + 1)) + H \<le> microseconds_per_day + fst (window_times m s e (int k + 1 + 1))"
      using k len n by (intro gap) auto
    have "?a + H \<le> ?b" using g by (simp add: algebra_simps)
    with offset[of ?a ?b] H have "tz_from_local tz ?z ?a \<le> tz_from_local tz ?z ?b" by linarith
    then show "dw_windowEndAt (ws ! k) \<le> dw_windowStartAt (ws ! Suc k)"
      using k len en[of k] st[of "Suc k"] by simp
  next
    fix x assume "x \<in> set ws"
    then show "dw_windowStartAt x < dw_windowEndAt x" using len lt by (auto simp: in_set_conv_nth)
  qed
qed

text \<open>
  The derived schedule has one window for each of the days \<open>1\<close> to \<open>n\<close>, each
  between the local times of its day (the override of that day, or the trial's times),
  counted from the local date of the start. When the zone's offset changes by at most
  \<open>H\<close> between two local times and the time from the end of one day to the start of the
  next is at least \<open>H\<close>, the windows follow each other without overlapping.
\<close>

theorem derived_windows_in_order:
  assumes res: "derive_day_windows tz at candidate_tz s e ov enabled n = Inr ws"
    and m: "normalize_overrides (if enabled then ov else JNull) = Inr m"
    and offset: "\<And>a b. a \<le> b \<Longrightarrow>
      b - a - H \<le> tz_from_local tz (py_strip candidate_tz) b - tz_from_local tz (py_strip candidate_tz) a"
    and gap: "\<And>k. 1 \<le> k \<Longrightarrow> k < n \<Longrightarrow>
      snd (window_times m s e k) + H \<le> microseconds_per_day + fst (window_times m s e (k + 1))"
    and H: "0 \<le> H"
  shows "map dw_dayIndex ws = [1..n] \<and>
    (\<forall>w \<in> set ws. dw_windowStartAt w < dw_windowEndAt w \<and>
      dw_windowStartAt w = tz_from_local tz (py_strip candidate_tz)
        ((local_date tz (py_strip candidate_tz) at + dw_dayIndex w - 1) * microseconds_per_day +
         fst (window_times m s e (dw_dayIndex w)))) \<and>
    sorted_wrt (\<lambda>v w. dw_windowEndAt v \<le> dw_windowStartAt w) ws"
  by (intro conjI) (rule derived_window_facts[OF res m offset gap H]; assumption)+

definition fixed_zone :: "int \<Rightarrow> tz_database" where
  "fixed_zone off = \<lparr>tz_known = (\<lambda>z. z = ''X''), tz_to_local = (\<lambda>_ t. t + off), tz_from_local = (\<lambda>_ l. l - off)\<rparr>"

theorem derived_windows_in_order_witness:
  "\<exists>ws. derive_day_windows (fixed_zone (seconds 7200)) 0 ''X'' (seconds 32400) (seconds 61200) JNull False 5 = Inr ws \<and>
     map dw_dayIndex ws = [1..5] \<and> sorted_wrt (\<lambda>v w. dw_windowEndAt v \<le> dw_windowStartAt w) ws"
proof -
  let ?d = "derive_day_windows (fixed_zone (seconds 7200)) 0 ''X'' (seconds 32400) (seconds 61200) JNull False 5"
  have "isl ?d = False" by code_simp
  then obtain ws where r: "?d = Inr ws" by (metis isl_def sumE)
  have m: "normalize_overrides (if False then JNull else JNull) = Inr Map.empty" by (simp add: normalize_overrides_def)
  have o: "b - a - 0 \<le> tz_from_local (fixed_zone (seconds 7200)) (py_strip ''X'') b - tz_from_local (fixed_zone (seconds 7200)) (py_strip ''X'') a" for a b
    by (simp add: fixed_zone_def)
  have g: "snd (window_times Map.empty (seconds 32400) (seconds 61200) k) + 0
      \<le> microseconds_per_day + fst (window_times Map.empty (seconds 32400) (seconds 61200) (k + 1))" for k
    by (simp add: window_times_def microseconds_per_day_def seconds_def)
  show ?thesis using r derived_windows_in_order[OF r m o g order_refl] by blast
qed

definition reads_isoformat :: "(string \<Rightarrow> datetime option) \<Rightarrow> datetime set \<Rightarrow> bool" where
  "reads_isoformat from_iso ts \<longleftrightarrow> (\<forall>t \<in> ts. from_iso (isoformat t) = Some t)"

lemma deserialize_serialize_window:
  assumes "reads_isoformat from_iso {drop_microseconds (dw_windowStartAt w), drop_microseconds (dw_windowEndAt w)}"
    and "0 \<le> dw_windowStartAt w" "0 \<le> dw_windowEndAt w"
  shows "deserialize_day_window from_iso (serialize_day_window w) = Inr (Some (whole_seconds w))"
  using assms replace_z_iso[of "drop_microseconds (dw_windowStartAt w)"] replace_z_iso[of "drop_microseconds (dw_windowEndAt w)"]
  by (cases w) (simp add: deserialize_day_window_def serialize_day_window_def coerce_day_index_def dict_get_def
      dict_lookup_def format_utc_iso_def drop_microseconds_nonneg reads_isoformat_def whole_seconds_def)

lemma map_result_all: "(\<And>x. x \<in> set xs \<Longrightarrow> f x = Inr (g x)) \<Longrightarrow> map_result f xs = Inr (map g xs)"
  by (induction xs) simp_all

lemma map_filter_all: "List.map_filter (\<lambda>r. r) (map (\<lambda>w. Some (g w)) ws) = map g ws"
  by (induction ws) simp_all

lemma stored_windows_read_back:
  assumes "reads_isoformat from_iso (drop_microseconds ` (dw_windowStartAt ` set ws \<union> dw_windowEndAt ` set ws))"
    and "\<forall>w \<in> set ws. 0 \<le> dw_windowStartAt w \<and> 0 \<le> dw_windowEndAt w"
  shows "deserialize_day_windows from_iso (serialize_day_windows ws) = Inr (sort_key dw_dayIndex (map whole_seconds ws))"
proof -
  have "deserialize_day_window from_iso (serialize_day_window w) = Inr (Some (whole_seconds w))" if "w \<in> set ws" for w
    using that assms by (intro deserialize_serialize_window) (auto simp: reads_isoformat_def)
  then have "map_result (\<lambda>w. deserialize_day_window from_iso (serialize_day_window w)) ws =
      Inr (map (\<lambda>w. Some (whole_seconds w)) ws)" by (rule map_result_all)
  moreover have "map_result f (map g xs) = map_result (\<lambda>x. f (g x)) xs"
    for f :: "json \<Rightarrow> day_window option res" and g :: "day_window \<Rightarrow> json" and xs
    by (induction xs) simp_all
  ultimately show ?thesis
    by (simp add: deserialize_day_windows_def serialize_day_windows_def map_filter_all)
qed

text \<open>
  Property C27. What is stored in \<open>day_windows_json\<close> reads back as the windows that were
  derived, to the second and in the order of the days, when \<open>from_iso\<close> reads the ISO text
  of their instants, which lie after 1970.
\<close>

theorem day_windows_roundtrip:
  assumes "reads_isoformat from_iso (drop_microseconds ` (dw_windowStartAt ` set ws \<union> dw_windowEndAt ` set ws))"
    and "\<forall>w \<in> set ws. 0 \<le> dw_windowStartAt w \<and> 0 \<le> dw_windowEndAt w"
    and "sorted (map dw_dayIndex ws)"
  shows "deserialize_day_windows from_iso (serialize_day_windows ws) = Inr (map whole_seconds ws)"
proof -
  have "map dw_dayIndex (map whole_seconds ws) = map dw_dayIndex ws" by (simp add: whole_seconds_def)
  then have "sort_key dw_dayIndex (map whole_seconds ws) = map whole_seconds ws"
    using assms(3) by (metis sorted_sort_id sort_key_id_if_sorted)
  with stored_windows_read_back[OF assms(1,2)] show ?thesis by simp
qed

definition iso_table :: "string \<Rightarrow> datetime option" where
  "iso_table s =
     (if s = ''1970-01-02T09:00:00+00:00'' then Some (seconds 118800)
      else if s = ''1970-01-02T17:00:00+00:00'' then Some (seconds 147600) else None)"

theorem day_windows_roundtrip_witness:
  "deserialize_day_windows iso_table (serialize_day_windows
     [\<lparr>dw_dayIndex = 1, dw_windowStartAt = seconds 118800 + 7, dw_windowEndAt = seconds 147600\<rparr>]) =
   Inr [\<lparr>dw_dayIndex = 1, dw_windowStartAt = seconds 118800, dw_windowEndAt = seconds 147600\<rparr>]"
proof -
  let ?ws = "[\<lparr>dw_dayIndex = 1, dw_windowStartAt = seconds 118800 + 7, dw_windowEndAt = seconds 147600\<rparr>]"
  have d: "drop_microseconds (seconds 118800 + 7) = seconds 118800" "drop_microseconds (seconds 147600) = seconds 147600"
    by (simp_all add: drop_microseconds_def seconds_def)
  have "iso_table (isoformat (seconds 118800)) = Some (seconds 118800)"
    and "iso_table (isoformat (seconds 147600)) = Some (seconds 147600)" by code_simp+
  then have "reads_isoformat iso_table (drop_microseconds ` (dw_windowStartAt ` set ?ws \<union> dw_windowEndAt ` set ?ws))"
    by (auto simp: reads_isoformat_def d)
  moreover have "\<forall>w \<in> set ?ws. 0 \<le> dw_windowStartAt w \<and> 0 \<le> dw_windowEndAt w" by (simp add: seconds_def)
  ultimately show ?thesis using day_windows_roundtrip[of iso_table ?ws] by (simp add: whole_seconds_def d)
qed

text \<open>
  The current window is found exactly: it is one of the windows, its state
  says truly whether the present lies in it, before it or after it, every window of an
  earlier day is over, and a closed schedule is one whose windows are all over, with the
  last day reported.
\<close>

theorem current_day_window_exact:
  "case derive_current_day_window ws now of
     None \<Rightarrow> ws = []
   | Some (w, st) \<Rightarrow> w \<in> set ws \<and>
       (\<forall>v \<in> set ws. dw_dayIndex v < dw_dayIndex w \<longrightarrow> dw_windowEndAt v \<le> now) \<and>
       (case st of
          Active \<Rightarrow> dw_windowStartAt w \<le> now \<and> now < dw_windowEndAt w
        | Upcoming \<Rightarrow> now < dw_windowStartAt w
        | Closed \<Rightarrow> (\<forall>v \<in> set ws. dw_windowEndAt v \<le> now \<and> dw_dayIndex v \<le> dw_dayIndex w))"
proof (cases "ws = []")
  case True
  then show ?thesis by (simp add: derive_current_day_window_def)
next
  case ne: False
  let ?o = "sort_key dw_dayIndex ws"
  have o: "set ?o = set ws" "sorted (map dw_dayIndex ?o)" by simp_all
  show ?thesis
  proof (cases "scan_windows now ?o")
    case None
    have "?o \<noteq> []" using ne o(1) by (metis set_empty)
    then have "last ?o \<in> set ws" using o(1) last_in_set by blast
    moreover have "\<forall>v \<in> set ws. dw_windowEndAt v \<le> now"
      using scan_windows_None[OF None] o(1) by (auto simp: over_def)
    ultimately show ?thesis
      using ne None last_sort_key_max[OF ne, of _ dw_dayIndex]
      by (auto simp: derive_current_day_window_def Let_def)
  next
    case (Some r)
    obtain w st where r: "r = (w, st)" by (cases r)
    note f = scan_windows_Some[OF Some[unfolded r] o(2), unfolded o(1)]
    show ?thesis
      using f ne Some r by (auto simp: derive_current_day_window_def Let_def over_def)
  qed
qed

theorem current_day_window_exact_witness:
  "let ws = [\<lparr>dw_dayIndex = 2, dw_windowStartAt = 40, dw_windowEndAt = 50\<rparr>,
             \<lparr>dw_dayIndex = 1, dw_windowStartAt = 10, dw_windowEndAt = 20\<rparr>]
   in derive_current_day_window ws 30 = Some (\<lparr>dw_dayIndex = 2, dw_windowStartAt = 40, dw_windowEndAt = 50\<rparr>, Upcoming) \<and> (30::int) < 40"
proof -
  let ?ws = "[\<lparr>dw_dayIndex = 2, dw_windowStartAt = 40, dw_windowEndAt = 50\<rparr>,
              \<lparr>dw_dayIndex = 1, dw_windowStartAt = 10, dw_windowEndAt = 20\<rparr>]"
  have c: "derive_current_day_window ?ws 30 = Some (\<lparr>dw_dayIndex = 2, dw_windowStartAt = 40, dw_windowEndAt = 50\<rparr>, Upcoming)"
    by code_simp
  show ?thesis using current_day_window_exact[of ?ws 30] c by (simp add: Let_def)
qed

end
