(* ===== verification/ScheduleGates.thy ===== *)
theory ScheduleGates
  imports DayWindows
begin

text \<open>
  When a task may be worked on (\<open>schedule_gates_*\<close>): the stored or derived windows of a
  session, the window of a task at a point in time, and the two gates, one for the content
  of the trial and one for a task. Rows of the tasks table are an argument where the code
  queries them.
\<close>

record task =
  tk_id :: int
  tk_trial_id :: int
  tk_day_index :: int
  tk_type :: string

record task_window =
  tw_window_start_at :: "datetime option"
  tw_window_end_at :: "datetime option"
  tw_next_open_at :: "datetime option"
  tw_is_open :: bool
  tw_now :: datetime

section \<open>Helpers\<close>

definition normalize_optional_datetime :: "datetime option \<Rightarrow> datetime option" where
  "normalize_optional_datetime value = map_option drop_microseconds value"

definition serialize_optional_datetime :: "datetime option \<Rightarrow> json" where
  "serialize_optional_datetime value =
     (case normalize_optional_datetime value of None \<Rightarrow> JNull | Some t \<Rightarrow> JStr (isoformat_z t))"

definition pick_day1_window :: "day_window list \<Rightarrow> day_window option" where
  "pick_day1_window day_windows =
     (if day_windows = [] then None
      else let ordered = sort_key dw_dayIndex day_windows
           in case find_row (\<lambda>w. dw_dayIndex w = 1) ordered of Some w \<Rightarrow> Some w | None \<Rightarrow> Some (hd ordered))"

definition window_for_day :: "day_window list \<Rightarrow> int \<Rightarrow> day_window option" where
  "window_for_day day_windows day_index = find_row (\<lambda>w. dw_dayIndex w = day_index) day_windows"

definition next_window_start_for_day :: "day_window list \<Rightarrow> int \<Rightarrow> datetime option" where
  "next_window_start_for_day day_windows day_index =
     (case find_row (\<lambda>w. day_index < dw_dayIndex w) day_windows of
        None \<Rightarrow> None | Some w \<Rightarrow> normalize_optional_datetime (Some (dw_windowStartAt w)))"

definition coerce_task_day_index :: "json \<Rightarrow> int option res" where
  "coerce_task_day_index raw =
     (case raw of
        JInt i \<Rightarrow> Inr (Some i)
      | JBool b \<Rightarrow> Inr (Some (if b then 1 else 0))
      | JStr s \<Rightarrow> if py_isdigit (py_strip s) then bind_result (py_int (py_strip s)) (\<lambda>i. Inr (Some i)) else Inr None
      | _ \<Rightarrow> Inr None)"

section \<open>The windows of a session\<close>

definition catch_value_error :: "'a res \<Rightarrow> 'a res \<Rightarrow> 'a res" where
  "catch_value_error r handler = (case r of Inl (ValueError _) \<Rightarrow> handler | _ \<Rightarrow> r)"

definition load_or_derive_day_windows ::
    "tz_database \<Rightarrow> (string \<Rightarrow> datetime option) \<Rightarrow> app_db \<Rightarrow> candidate_session \<Rightarrow> int \<Rightarrow> day_window list res" where
  "load_or_derive_day_windows tz from_iso db cs minimum_total_days =
     bind_result (deserialize_day_windows from_iso (cs_day_windows_json cs)) (\<lambda>day_windows.
       if day_windows \<noteq> [] then Inr (sort_key dw_dayIndex day_windows)
       else let candidate_timezone = (case cs_candidate_timezone cs of None \<Rightarrow> [] | Some z \<Rightarrow> py_strip z)
            in case (normalize_optional_datetime (cs_scheduled_start_at cs), session_trial db cs) of
                 (Some scheduled_start_at, Some t) \<Rightarrow>
                   (if candidate_timezone = [] then Inr []
                    else catch_value_error
                      (derive_day_windows tz scheduled_start_at candidate_timezone
                         (t_day_window_start_local t) (t_day_window_end_local t)
                         (t_day_window_overrides_json t) (t_day_window_overrides_enabled t)
                         (max 1 minimum_total_days))
                      (Inr []))
               | _ \<Rightarrow> Inr [])"

definition compute_day1_window ::
    "tz_database \<Rightarrow> (string \<Rightarrow> datetime option) \<Rightarrow> app_db \<Rightarrow> candidate_session \<Rightarrow>
     (datetime option \<times> datetime option) res" where
  "compute_day1_window tz from_iso db cs =
     bind_result (load_or_derive_day_windows tz from_iso db cs 1) (\<lambda>day_windows.
       Inr (case pick_day1_window day_windows of
              Some w \<Rightarrow> (normalize_optional_datetime (Some (dw_windowStartAt w)),
                         normalize_optional_datetime (Some (dw_windowEndAt w)))
            | None \<Rightarrow> (normalize_optional_datetime (cs_scheduled_start_at cs), None)))"

definition closed_window :: "datetime \<Rightarrow> task_window" where
  "closed_window now = \<lparr>tw_window_start_at = None, tw_window_end_at = None, tw_next_open_at = None,
     tw_is_open = False, tw_now = now\<rparr>"

definition task_window_at :: "datetime \<Rightarrow> day_window list \<Rightarrow> int \<Rightarrow> task_window" where
  "task_window_at now day_windows day_index =
     (case window_for_day day_windows day_index of
        None \<Rightarrow> closed_window now
      | Some w \<Rightarrow>
          (let window_start_at = drop_microseconds (dw_windowStartAt w);
               window_end_at = drop_microseconds (dw_windowEndAt w)
           in \<lparr>tw_window_start_at = Some window_start_at, tw_window_end_at = Some window_end_at,
               tw_next_open_at =
                 (if now < window_start_at then Some window_start_at
                  else if window_end_at \<le> now then next_window_start_for_day day_windows day_index
                  else None),
               tw_is_open = (window_start_at \<le> now \<and> now < window_end_at), tw_now = now\<rparr>))"

definition compute_task_window ::
    "tz_database \<Rightarrow> (string \<Rightarrow> datetime option) \<Rightarrow> app_db \<Rightarrow> candidate_session \<Rightarrow> task \<Rightarrow> datetime \<Rightarrow> task_window res" where
  "compute_task_window tz from_iso db cs tk now =
     bind_result (coerce_task_day_index (JInt (tk_day_index tk))) (\<lambda>day_index.
       case day_index of
         None \<Rightarrow> Inr (closed_window now)
       | Some i \<Rightarrow>
           bind_result (load_or_derive_day_windows tz from_iso db cs (max 5 i)) (\<lambda>day_windows.
             Inr (task_window_at now day_windows i)))"

section \<open>The gates\<close>

definition task_window_closed_error :: "task_window \<Rightarrow> error" where
  "task_window_closed_error w =
     ApiError 409 ''Task is closed outside the scheduled window.'' ''TASK_WINDOW_CLOSED'' (Some True)
       [(''windowStartAt'', serialize_optional_datetime (tw_window_start_at w)),
        (''windowEndAt'', serialize_optional_datetime (tw_window_end_at w)),
        (''nextOpenAt'', serialize_optional_datetime (tw_next_open_at w))]"

definition schedule_invalid_window_error :: "candidate_session \<Rightarrow> task \<Rightarrow> task_window \<Rightarrow> error" where
  "schedule_invalid_window_error cs tk w =
     ApiError 409 ''Schedule window configuration is invalid.'' ''SCHEDULE_INVALID_WINDOW'' (Some False)
       [(''candidateSessionId'', JInt (cs_id cs)), (''taskId'', JInt (tk_id tk)), (''dayIndex'', JInt (tk_day_index tk)),
        (''windowStartAt'', serialize_optional_datetime (tw_window_start_at w)),
        (''windowEndAt'', serialize_optional_datetime (tw_window_end_at w))]"

definition schedule_not_started_error ::
    "candidate_session \<Rightarrow> datetime option \<Rightarrow> datetime option \<Rightarrow> error" where
  "schedule_not_started_error cs window_start_at window_end_at =
     ApiError 409 ''Trial has not started yet.'' ''SCHEDULE_NOT_STARTED'' (Some True)
       [(''startAt'', serialize_optional_datetime (normalize_optional_datetime (cs_scheduled_start_at cs))),
        (''windowStartAt'', serialize_optional_datetime window_start_at),
        (''windowEndAt'', serialize_optional_datetime window_end_at)]"

definition require_active_window ::
    "tz_database \<Rightarrow> (string \<Rightarrow> datetime option) \<Rightarrow> app_db \<Rightarrow> candidate_session \<Rightarrow> task \<Rightarrow> datetime \<Rightarrow> unit res" where
  "require_active_window tz from_iso db cs tk now =
     bind_result (compute_task_window tz from_iso db cs tk now) (\<lambda>w.
       if tw_is_open w then Inr ()
       else if tw_window_start_at w = None \<or> tw_window_end_at w = None
       then Inl (schedule_invalid_window_error cs tk w)
       else Inl (task_window_closed_error w))"

definition is_schedule_started_for_content ::
    "tz_database \<Rightarrow> (string \<Rightarrow> datetime option) \<Rightarrow> app_db \<Rightarrow> candidate_session \<Rightarrow> datetime \<Rightarrow> bool res" where
  "is_schedule_started_for_content tz from_iso db cs now =
     bind_result (compute_day1_window tz from_iso db cs) (\<lambda>(window_start_at, _).
       Inr (case window_start_at of None \<Rightarrow> False | Some t \<Rightarrow> t \<le> now))"

definition ensure_schedule_started_for_content ::
    "tz_database \<Rightarrow> (string \<Rightarrow> datetime option) \<Rightarrow> app_db \<Rightarrow> candidate_session \<Rightarrow> datetime \<Rightarrow> unit res" where
  "ensure_schedule_started_for_content tz from_iso db cs now =
     bind_result (compute_day1_window tz from_iso db cs) (\<lambda>(window_start_at, window_end_at).
     bind_result (is_schedule_started_for_content tz from_iso db cs now) (\<lambda>started.
       if started then Inr () else Inl (schedule_not_started_error cs window_start_at window_end_at)))"

section \<open>The gates, exactly\<close>

lemma coerce_task_day_index_int [simp]: "coerce_task_day_index (JInt i) = Inr (Some i)"
  by (simp add: coerce_task_day_index_def)

lemma compute_task_window_eq:
  assumes "load_or_derive_day_windows tz from_iso db cs (max 5 (tk_day_index tk)) = Inr ws"
  shows "compute_task_window tz from_iso db cs tk now = Inr (task_window_at now ws (tk_day_index tk))"
  using assms by (simp add: compute_task_window_def)

lemma task_window_at_open:
  "tw_is_open (task_window_at now ws i) \<longleftrightarrow>
   (\<exists>w. window_for_day ws i = Some w \<and> drop_microseconds (dw_windowStartAt w) \<le> now \<and>
        now < drop_microseconds (dw_windowEndAt w))"
  by (simp add: task_window_at_def closed_window_def Let_def split: option.splits)

lemma window_for_day_in: "window_for_day ws i = Some w \<Longrightarrow> w \<in> set ws \<and> dw_dayIndex w = i"
  by (auto simp: window_for_day_def dest: find_row_SomeD)

lemma window_for_day_distinct:
  "distinct (map dw_dayIndex ws) \<Longrightarrow> w \<in> set ws \<Longrightarrow> window_for_day ws (dw_dayIndex w) = Some w"
  by (simp add: window_for_day_def find_row_unique)

lemma window_for_day_None: "window_for_day ws i = None \<longleftrightarrow> i \<notin> dw_dayIndex ` set ws"
  by (auto simp: window_for_day_def find_row_None_iff)

lemma next_window_after:
  assumes "sorted_wrt (\<lambda>v w. dw_windowEndAt v \<le> dw_windowStartAt w) ws"
    and "sorted (map dw_dayIndex ws)" "distinct (map dw_dayIndex ws)"
    and "w \<in> set ws" "next_window_start_for_day ws (dw_dayIndex w) = Some t"
  shows "drop_microseconds (dw_windowEndAt w) \<le> t \<and> (\<exists>v \<in> set ws. dw_dayIndex w < dw_dayIndex v \<and> t = drop_microseconds (dw_windowStartAt v))"
proof -
  from assms(5) obtain v where v: "find_row (\<lambda>v. dw_dayIndex w < dw_dayIndex v) ws = Some v"
    and t: "t = drop_microseconds (dw_windowStartAt v)"
    by (auto simp: next_window_start_for_day_def normalize_optional_datetime_def split: option.splits)
  have in_v: "v \<in> set ws" and lt: "dw_dayIndex w < dw_dayIndex v" using find_row_SomeD[OF v] by auto
  obtain a b where a: "a < length ws" "ws ! a = w" and b: "b < length ws" "ws ! b = v"
    using assms(4) in_v by (metis in_set_conv_nth)
  have "a < b"
  proof (rule ccontr)
    assume "\<not> a < b"
    then have "map dw_dayIndex ws ! b \<le> map dw_dayIndex ws ! a"
      using assms(2) a(1) by (intro sorted_nth_mono) auto
    with a b lt show False by simp
  qed
  then have "dw_windowEndAt w \<le> dw_windowStartAt v"
    using assms(1) a b by (auto simp: sorted_wrt_iff_nth_less)
  then show ?thesis using in_v lt t drop_microseconds_mono by auto
qed

lemma serialize_json_day: "json_day = JNull \<Longrightarrow> deserialize_day_windows from_iso json_day = Inr []"
  by (simp add: deserialize_day_windows_def)

lemma task_gate_facts:
  assumes ws: "load_or_derive_day_windows tz from_iso db cs (max 5 (tk_day_index tk)) = Inr ws"
    and one: "distinct (map dw_dayIndex ws)" "sorted (map dw_dayIndex ws)"
      "sorted_wrt (\<lambda>v w. dw_windowEndAt v \<le> dw_windowStartAt w) ws"
  shows "require_active_window tz from_iso db cs tk now = Inr () \<longleftrightarrow>
      (\<exists>w \<in> set ws. dw_dayIndex w = tk_day_index tk \<and> drop_microseconds (dw_windowStartAt w) \<le> now \<and>
                    now < drop_microseconds (dw_windowEndAt w))"
    and "(\<exists>w. require_active_window tz from_iso db cs tk now = Inl (schedule_invalid_window_error cs tk w)) \<longleftrightarrow>
      tk_day_index tk \<notin> dw_dayIndex ` set ws"
    and "require_active_window tz from_iso db cs tk now = Inl e \<Longrightarrow> error_code e = Some ''TASK_WINDOW_CLOSED'' \<Longrightarrow>
      \<exists>w \<in> set ws. \<exists>tw. dw_dayIndex w = tk_day_index tk \<and> e = task_window_closed_error tw \<and>
        (now < drop_microseconds (dw_windowStartAt w) \<or> drop_microseconds (dw_windowEndAt w) \<le> now) \<and>
        tw_next_open_at tw \<in> (if now < drop_microseconds (dw_windowStartAt w)
           then {Some (drop_microseconds (dw_windowStartAt w))}
           else insert None {Some t |t v. v \<in> set ws \<and> dw_dayIndex w < dw_dayIndex v \<and>
                  t = drop_microseconds (dw_windowStartAt v) \<and> drop_microseconds (dw_windowEndAt w) \<le> t})"
proof -
  let ?i = "tk_day_index tk"
  let ?tw = "task_window_at now ws ?i"
  have gate: "require_active_window tz from_iso db cs tk now =
      (if tw_is_open ?tw then Inr ()
       else if tw_window_start_at ?tw = None \<or> tw_window_end_at ?tw = None
       then Inl (schedule_invalid_window_error cs tk ?tw) else Inl (task_window_closed_error ?tw))"
    by (simp add: require_active_window_def compute_task_window_eq[OF ws])
  have wd: "window_for_day ws ?i = Some w \<longleftrightarrow> w \<in> set ws \<and> dw_dayIndex w = ?i" for w
    using window_for_day_in[of ws ?i w] window_for_day_distinct[OF one(1), of w] by auto
  show "require_active_window tz from_iso db cs tk now = Inr () \<longleftrightarrow>
      (\<exists>w \<in> set ws. dw_dayIndex w = ?i \<and> drop_microseconds (dw_windowStartAt w) \<le> now \<and>
                    now < drop_microseconds (dw_windowEndAt w))"
    unfolding gate by (auto simp: task_window_at_open wd)
  have conf: "tw_window_start_at ?tw = None \<longleftrightarrow> ?i \<notin> dw_dayIndex ` set ws"
    "tw_window_end_at ?tw = None \<longleftrightarrow> ?i \<notin> dw_dayIndex ` set ws"
    unfolding window_for_day_None[symmetric]
    by (simp_all add: task_window_at_def closed_window_def Let_def split: option.splits)
  have closed: "\<not> tw_is_open ?tw" if "?i \<notin> dw_dayIndex ` set ws"
    using that by (auto simp: task_window_at_open wd image_iff)
  have ne: "schedule_invalid_window_error cs tk a \<noteq> task_window_closed_error b" for a b
    by (simp add: schedule_invalid_window_error_def task_window_closed_error_def)
  show "(\<exists>w. require_active_window tz from_iso db cs tk now = Inl (schedule_invalid_window_error cs tk w)) \<longleftrightarrow>
      ?i \<notin> dw_dayIndex ` set ws"
    unfolding gate conf using closed ne by (auto split: if_splits) metis
  show "\<exists>w \<in> set ws. \<exists>tw. dw_dayIndex w = ?i \<and> e = task_window_closed_error tw \<and>
        (now < drop_microseconds (dw_windowStartAt w) \<or> drop_microseconds (dw_windowEndAt w) \<le> now) \<and>
        tw_next_open_at tw \<in> (if now < drop_microseconds (dw_windowStartAt w)
           then {Some (drop_microseconds (dw_windowStartAt w))}
           else insert None {Some t |t v. v \<in> set ws \<and> dw_dayIndex w < dw_dayIndex v \<and>
                  t = drop_microseconds (dw_windowStartAt v) \<and> drop_microseconds (dw_windowEndAt w) \<le> t})"
    if r: "require_active_window tz from_iso db cs tk now = Inl e" and c: "error_code e = Some ''TASK_WINDOW_CLOSED''"
  proof -
    have "error_code (schedule_invalid_window_error cs tk ?tw) \<noteq> Some ''TASK_WINDOW_CLOSED''"
      by (simp add: schedule_invalid_window_error_def error_code_def)
    with r c have e: "e = task_window_closed_error ?tw" and o: "\<not> tw_is_open ?tw"
      and n: "tw_window_start_at ?tw \<noteq> None" unfolding gate by (auto split: if_splits)
    from n obtain w where w: "window_for_day ws ?i = Some w"
      by (auto simp: task_window_at_def closed_window_def split: option.splits)
    have out: "now < drop_microseconds (dw_windowStartAt w) \<or> drop_microseconds (dw_windowEndAt w) \<le> now"
      using o w by (auto simp: task_window_at_open)
    have win: "w \<in> set ws" "dw_dayIndex w = ?i" using w wd by auto
    have next_open: "tw_next_open_at ?tw =
        (if now < drop_microseconds (dw_windowStartAt w) then Some (drop_microseconds (dw_windowStartAt w))
         else next_window_start_for_day ws ?i)"
      using w out by (auto simp: task_window_at_def Let_def)
    have after: "drop_microseconds (dw_windowEndAt w) \<le> t \<and>
        (\<exists>v \<in> set ws. dw_dayIndex w < dw_dayIndex v \<and> t = drop_microseconds (dw_windowStartAt v))"
      if "next_window_start_for_day ws ?i = Some t" for t
      using next_window_after[OF one(3,2,1) win(1)] that win(2) by auto
    have "tw_next_open_at ?tw \<in> (if now < drop_microseconds (dw_windowStartAt w)
           then {Some (drop_microseconds (dw_windowStartAt w))}
           else insert None {Some t |t v. v \<in> set ws \<and> dw_dayIndex w < dw_dayIndex v \<and>
                  t = drop_microseconds (dw_windowStartAt v) \<and> drop_microseconds (dw_windowEndAt w) \<le> t})"
      unfolding next_open using after by (cases "next_window_start_for_day ws ?i") auto
    with e out win show ?thesis by blast
  qed
qed

text \<open>
  Property C10. The gate of a task opens exactly in the window of the task's day, to the
  second: with one window per day, \<open>require_active_window\<close> succeeds exactly when the present
  lies in it; a task whose day has no window is a configuration error; outside its window
  the task is refused as closed, and the next opening reported is that of its own window
  when it is still to come, else the start of a later day's window after its end.
\<close>

theorem task_gate_exact:
  assumes ws: "load_or_derive_day_windows tz from_iso db cs (max 5 (tk_day_index tk)) = Inr ws"
    and one: "distinct (map dw_dayIndex ws)" "sorted (map dw_dayIndex ws)"
      "sorted_wrt (\<lambda>v w. dw_windowEndAt v \<le> dw_windowStartAt w) ws"
  shows "(require_active_window tz from_iso db cs tk now = Inr () \<longleftrightarrow>
      (\<exists>w \<in> set ws. dw_dayIndex w = tk_day_index tk \<and> drop_microseconds (dw_windowStartAt w) \<le> now \<and>
                    now < drop_microseconds (dw_windowEndAt w))) \<and>
    ((\<exists>w. require_active_window tz from_iso db cs tk now = Inl (schedule_invalid_window_error cs tk w)) \<longleftrightarrow>
      tk_day_index tk \<notin> dw_dayIndex ` set ws) \<and>
    (\<forall>e. require_active_window tz from_iso db cs tk now = Inl e \<longrightarrow> error_code e = Some ''TASK_WINDOW_CLOSED'' \<longrightarrow>
      (\<exists>w \<in> set ws. \<exists>tw. dw_dayIndex w = tk_day_index tk \<and> e = task_window_closed_error tw \<and>
        (now < drop_microseconds (dw_windowStartAt w) \<or> drop_microseconds (dw_windowEndAt w) \<le> now) \<and>
        tw_next_open_at tw \<in> (if now < drop_microseconds (dw_windowStartAt w)
           then {Some (drop_microseconds (dw_windowStartAt w))}
           else insert None {Some t |t v. v \<in> set ws \<and> dw_dayIndex w < dw_dayIndex v \<and>
                  t = drop_microseconds (dw_windowStartAt v) \<and> drop_microseconds (dw_windowEndAt w) \<le> t})))"
  by (intro conjI allI impI) (rule task_gate_facts[OF ws one]; assumption)+

definition demo_zones :: tz_database where
  "demo_zones = \<lparr>tz_known = (\<lambda>z. z = ''UTC''), tz_to_local = (\<lambda>_ t. t), tz_from_local = (\<lambda>_ l. l)\<rparr>"

definition demo_scheduled :: candidate_session where
  "demo_scheduled = demo_session\<lparr>cs_scheduled_start_at := Some (seconds 32400), cs_candidate_timezone := Some ''UTC''\<rparr>"

definition demo_task :: task where
  "demo_task = \<lparr>tk_id = 21, tk_trial_id = 3, tk_day_index = 2, tk_type = ''code''\<rparr>"

theorem task_gate_exact_witness:
  "require_active_window demo_zones (\<lambda>_. None) demo_app demo_scheduled demo_task (seconds 120000) = Inr () \<and>
   require_active_window demo_zones (\<lambda>_. None) demo_app demo_scheduled demo_task (seconds 90000) \<noteq> Inr ()"
proof -
  let ?load = "load_or_derive_day_windows demo_zones (\<lambda>_. None) demo_app demo_scheduled (max 5 (tk_day_index demo_task))"
  have "case ?load of Inl _ \<Rightarrow> False | Inr ws \<Rightarrow> distinct (map dw_dayIndex ws) \<and> sorted (map dw_dayIndex ws) \<and>
      sorted_wrt (\<lambda>v w. dw_windowEndAt v \<le> dw_windowStartAt w) ws \<and>
      filter (\<lambda>w. dw_dayIndex w = tk_day_index demo_task) ws =
        [\<lparr>dw_dayIndex = 2, dw_windowStartAt = seconds 118800, dw_windowEndAt = seconds 147600\<rparr>]" by code_simp
  then obtain ws where l: "?load = Inr ws" and o: "distinct (map dw_dayIndex ws)" "sorted (map dw_dayIndex ws)"
      "sorted_wrt (\<lambda>v w. dw_windowEndAt v \<le> dw_windowStartAt w) ws"
    and f: "filter (\<lambda>w. dw_dayIndex w = tk_day_index demo_task) ws =
        [\<lparr>dw_dayIndex = 2, dw_windowStartAt = seconds 118800, dw_windowEndAt = seconds 147600\<rparr>]"
    by (auto split: sum.splits)
  have "w \<in> set ws \<and> dw_dayIndex w = tk_day_index demo_task \<longleftrightarrow>
      w = \<lparr>dw_dayIndex = 2, dw_windowStartAt = seconds 118800, dw_windowEndAt = seconds 147600\<rparr>" for w
    using arg_cong[OF f, of "\<lambda>l. w \<in> set l"] by auto
  then have win: "(\<exists>w \<in> set ws. dw_dayIndex w = tk_day_index demo_task \<and> P w) \<longleftrightarrow>
      P \<lparr>dw_dayIndex = 2, dw_windowStartAt = seconds 118800, dw_windowEndAt = seconds 147600\<rparr>" for P unfolding Bex_def conj_assoc[symmetric] by metis
  note gate = task_gate_exact[OF l o, THEN conjunct1, unfolded win]
  show ?thesis unfolding gate by (simp add: drop_microseconds_def seconds_def)
qed

end
