(* ===== verification/ScheduleFlow.thy ===== *)
theory ScheduleFlow
  imports ScheduleGates
begin

text \<open>
  Setting the schedule of a candidate session (\<open>schedule_flow_service\<close>,
  \<open>schedule_paths_service\<close>) and the jobs that close its days (\<open>day_close_jobs_*\<close>). A call
  either fails and leaves the database as it was (nothing is committed before the end) or
  commits the session and the jobs together. \<open>aborts\<close> is the argument of the bulk insert of
  the job queue; \<open>clk\<close> the time the database stamps on rows.
\<close>

section \<open>Jobs that close a day\<close>

definition DAY_CLOSE_FINALIZE_TEXT_JOB_TYPE :: string where "DAY_CLOSE_FINALIZE_TEXT_JOB_TYPE = ''day_close_finalize_text''"
definition DAY_CLOSE_FINALIZE_TEXT_MAX_ATTEMPTS :: int where "DAY_CLOSE_FINALIZE_TEXT_MAX_ATTEMPTS = 8"
definition DAY_CLOSE_FINALIZE_TEXT_DAY_INDEXES :: "int list" where "DAY_CLOSE_FINALIZE_TEXT_DAY_INDEXES = [1, 5]"
definition DAY_CLOSE_ENFORCEMENT_JOB_TYPE :: string where "DAY_CLOSE_ENFORCEMENT_JOB_TYPE = ''day_close_enforcement''"
definition DAY_CLOSE_ENFORCEMENT_MAX_ATTEMPTS :: int where "DAY_CLOSE_ENFORCEMENT_MAX_ATTEMPTS = 8"
definition DAY_CLOSE_ENFORCEMENT_DAY_INDEXES :: "int list" where "DAY_CLOSE_ENFORCEMENT_DAY_INDEXES = [2, 3]"
definition DAY_CLOSE_ALL_DAY_INDEXES :: "int list" where
  "DAY_CLOSE_ALL_DAY_INDEXES = DAY_CLOSE_FINALIZE_TEXT_DAY_INDEXES @ DAY_CLOSE_ENFORCEMENT_DAY_INDEXES"
definition TEXT_TASK_TYPES :: "string list" where
  "TEXT_TASK_TYPES = [''design'', ''documentation'', ''handoff'', ''reflection'']"
definition CODE_TASK_TYPES :: "string list" where
  "CODE_TASK_TYPES = [''code'', ''debug'']"

definition day_close_finalize_text_idempotency_key :: "int \<Rightarrow> int \<Rightarrow> string" where
  "day_close_finalize_text_idempotency_key candidate_session_id task_id =
     ''day_close_finalize_text:'' @ int_str candidate_session_id @ '':'' @ int_str task_id"

definition day_close_enforcement_idempotency_key :: "int \<Rightarrow> int \<Rightarrow> string" where
  "day_close_enforcement_idempotency_key candidate_session_id day_index =
     ''day_close_enforcement:'' @ int_str candidate_session_id @ '':'' @ int_str day_index"

definition to_utc_z :: "datetime \<Rightarrow> string" where
  "to_utc_z value = isoformat_z (drop_microseconds value)"

definition build_day_close_finalize_text_payload :: "int \<Rightarrow> int \<Rightarrow> int \<Rightarrow> datetime \<Rightarrow> obj" where
  "build_day_close_finalize_text_payload candidate_session_id task_id day_index window_end_at =
     [(''candidateSessionId'', JInt candidate_session_id), (''taskId'', JInt task_id),
      (''dayIndex'', JInt day_index), (''windowEndAt'', JStr (to_utc_z window_end_at))]"

definition build_day_close_enforcement_payload :: "int \<Rightarrow> int \<Rightarrow> int \<Rightarrow> datetime \<Rightarrow> obj" where
  "build_day_close_enforcement_payload candidate_session_id task_id day_index window_end_at =
     [(''candidateSessionId'', JInt candidate_session_id), (''taskId'', JInt task_id),
      (''dayIndex'', JInt day_index), (''windowEndAt'', JStr (to_utc_z window_end_at))]"

definition finalize_text_job_spec :: "int \<Rightarrow> int \<Rightarrow> int \<Rightarrow> datetime \<Rightarrow> idempotent_job_spec" where
  "finalize_text_job_spec candidate_session_id task_id day_index window_end_at =
     \<lparr>sp_job_type = DAY_CLOSE_FINALIZE_TEXT_JOB_TYPE,
      sp_idempotency_key = day_close_finalize_text_idempotency_key candidate_session_id task_id,
      sp_payload_json = build_day_close_finalize_text_payload candidate_session_id task_id day_index window_end_at,
      sp_candidate_session_id = Some candidate_session_id,
      sp_max_attempts = DAY_CLOSE_FINALIZE_TEXT_MAX_ATTEMPTS,
      sp_correlation_id = Some (''candidate_session:'' @ int_str candidate_session_id @ '':schedule''),
      sp_next_run_at = Some window_end_at\<rparr>"

definition enforcement_job_spec :: "int \<Rightarrow> int \<Rightarrow> int \<Rightarrow> datetime \<Rightarrow> idempotent_job_spec" where
  "enforcement_job_spec candidate_session_id task_id day_index window_end_at =
     \<lparr>sp_job_type = DAY_CLOSE_ENFORCEMENT_JOB_TYPE,
      sp_idempotency_key = day_close_enforcement_idempotency_key candidate_session_id day_index,
      sp_payload_json = build_day_close_enforcement_payload candidate_session_id task_id day_index window_end_at,
      sp_candidate_session_id = Some candidate_session_id,
      sp_max_attempts = DAY_CLOSE_ENFORCEMENT_MAX_ATTEMPTS,
      sp_correlation_id = Some (''candidate_session:'' @ int_str candidate_session_id @ '':schedule''),
      sp_next_run_at = Some window_end_at\<rparr>"

definition load_tasks_for_day_indexes :: "task list \<Rightarrow> int \<Rightarrow> int list \<Rightarrow> task list" where
  "load_tasks_for_day_indexes tasks trial_id day_indexes =
     sort_key tk_day_index (sort_key tk_id
       (filter (\<lambda>tk. tk_trial_id tk = trial_id \<and> tk_day_index tk \<in> set day_indexes) tasks))"

text \<open>A Python dict keyed by job type and key: a later spec replaces an earlier one in place.\<close>

fun put_spec :: "idempotent_job_spec \<Rightarrow> idempotent_job_spec list \<Rightarrow> idempotent_job_spec list" where
  "put_spec sp [] = [sp]"
| "put_spec sp (s # ss) = (if spec_key s = spec_key sp then sp # ss else s # put_spec sp ss)"

definition dedupe_job_specs :: "idempotent_job_spec list \<Rightarrow> idempotent_job_spec list" where
  "dedupe_job_specs specs = fold put_spec specs []"

definition upsert_day_close_jobs ::
    "bool \<Rightarrow> int \<Rightarrow> idempotent_job_spec list \<Rightarrow> datetime \<Rightarrow> jobs_db \<Rightarrow> (job list \<times> jobs_db) res" where
  "upsert_day_close_jobs aborts company_id specs clk q =
     (if specs = [] then Inr ([], q)
      else create_or_update_many_idempotent aborts (\<lambda>q. q) company_id (dedupe_job_specs specs) clk q)"

definition close_specs_of_task ::
    "(task \<Rightarrow> task_window res) \<Rightarrow> candidate_session \<Rightarrow> task \<Rightarrow>
     (idempotent_job_spec list \<times> idempotent_job_spec list) res" where
  "close_specs_of_task window cs tk =
     (let task_type = py_lower (py_strip (tk_type tk))
      in bind_result (window tk) (\<lambda>w. Inr
        (case tw_window_end_at w of
           None \<Rightarrow> ([], [])
         | Some window_end_at \<Rightarrow>
             (if tk_day_index tk \<in> set DAY_CLOSE_FINALIZE_TEXT_DAY_INDEXES \<and> task_type \<in> set TEXT_TASK_TYPES
              then [finalize_text_job_spec (cs_id cs) (tk_id tk) (tk_day_index tk) window_end_at] else [],
              if tk_day_index tk \<in> set DAY_CLOSE_ENFORCEMENT_DAY_INDEXES \<and> task_type \<in> set CODE_TASK_TYPES
              then [enforcement_job_spec (cs_id cs) (tk_id tk) (tk_day_index tk) window_end_at] else []))))"

definition enqueue_day_close_jobs ::
    "tz_database \<Rightarrow> (string \<Rightarrow> datetime option) \<Rightarrow> task list \<Rightarrow> bool \<Rightarrow> candidate_session \<Rightarrow> datetime \<Rightarrow> datetime \<Rightarrow>
     app_db \<Rightarrow> ((job list \<times> job list) \<times> app_db) res" where
  "enqueue_day_close_jobs tz from_iso tasks aborts cs now clk db =
     (case session_trial db cs of
        None \<Rightarrow> Inr (([], []), db)
      | Some t \<Rightarrow>
          bind_result (map_result (close_specs_of_task (\<lambda>tk. compute_task_window tz from_iso db cs tk now) cs)
              (load_tasks_for_day_indexes tasks (cs_trial_id cs) DAY_CLOSE_ALL_DAY_INDEXES)) (\<lambda>specs.
          bind_result (upsert_day_close_jobs aborts (t_company_id t) (concat (map fst specs)) clk (queue db)) (\<lambda>(finalize_jobs, q1).
          bind_result (upsert_day_close_jobs aborts (t_company_id t) (concat (map snd specs)) clk q1) (\<lambda>(enforcement_jobs, q2).
            Inr ((finalize_jobs, enforcement_jobs), db\<lparr>queue := q2\<rparr>)))))"

section \<open>Setting a schedule\<close>

datatype start_input = StartInstant datetime | StartNaive int | StartDate int

definition api_error :: "int \<Rightarrow> string \<Rightarrow> string \<Rightarrow> error" where
  "api_error status detail code = ApiError status detail code (Some False) []"

definition proposed_date :: "tz_database \<Rightarrow> string \<Rightarrow> start_input \<Rightarrow> int" where
  "proposed_date tz zone scheduled_start_at =
     (case scheduled_start_at of
        StartInstant t \<Rightarrow> local_date tz zone t
      | StartNaive l \<Rightarrow> l div microseconds_per_day
      | StartDate d \<Rightarrow> d)"

definition normalize_candidate_proposed_start_at :: "tz_database \<Rightarrow> string \<Rightarrow> trial \<Rightarrow> start_input \<Rightarrow> datetime" where
  "normalize_candidate_proposed_start_at tz zone t scheduled_start_at =
     drop_microseconds (tz_from_local tz zone
       (proposed_date tz zone scheduled_start_at * microseconds_per_day + t_day_window_start_local t))"

definition require_claimed_ownership :: "principal \<Rightarrow> candidate_session \<Rightarrow> candidate_session res" where
  "require_claimed_ownership p cs =
     (let email = normalize_email (Some (p_email p));
          stored_sub = (case cs_candidate_auth0_sub cs of None \<Rightarrow> [] | Some s \<Rightarrow> s)
      in if email = []
         then Inl (forbidden ''Authenticated email claim is missing.'' ''CANDIDATE_AUTH_EMAIL_MISSING'')
         else if normalize_email (Some (cs_invite_email cs)) \<noteq> email
         then Inl (forbidden ''Invite email does not match authenticated user.'' ''CANDIDATE_INVITE_EMAIL_MISMATCH'')
         else if stored_sub = [] \<or> cs_claimed_at cs = None
         then Inl (forbidden ''Invite must be claimed before scheduling.'' ''SCHEDULE_NOT_CLAIMED'')
         else if stored_sub \<noteq> p_sub p
         then Inl (forbidden ''Candidate session is already claimed by another user.'' ''CANDIDATE_SESSION_ALREADY_CLAIMED'')
         else Inr (cs\<lparr>cs_candidate_auth0_email := Some email, cs_candidate_email := Some email\<rparr>))"

definition schedule_matches :: "candidate_session \<Rightarrow> datetime \<Rightarrow> string \<Rightarrow> bool" where
  "schedule_matches cs scheduled_start_at candidate_timezone =
     (case cs_scheduled_start_at cs of
        None \<Rightarrow> False
      | Some existing_start \<Rightarrow>
          (let existing_timezone = (case cs_candidate_timezone cs of None \<Rightarrow> [] | Some z \<Rightarrow> py_strip z)
           in existing_timezone \<noteq> [] \<and>
              drop_microseconds existing_start = drop_microseconds scheduled_start_at \<and>
              existing_timezone = candidate_timezone))"

definition derive_serialized_day_windows :: "tz_database \<Rightarrow> trial \<Rightarrow> datetime \<Rightarrow> string \<Rightarrow> json res" where
  "derive_serialized_day_windows tz t scheduled_start_at_utc normalized_timezone =
     bind_result (derive_day_windows tz scheduled_start_at_utc normalized_timezone
         (t_day_window_start_local t) (t_day_window_end_local t)
         (t_day_window_overrides_json t) (t_day_window_overrides_enabled t) 5)
       (\<lambda>ws. Inr (serialize_day_windows ws))"

definition backfill_locked_schedule ::
    "tz_database \<Rightarrow> (string \<Rightarrow> datetime option) \<Rightarrow> task list \<Rightarrow> bool \<Rightarrow> trial \<Rightarrow> candidate_session \<Rightarrow> datetime \<Rightarrow> string \<Rightarrow>
     datetime \<Rightarrow> datetime \<Rightarrow> app_db \<Rightarrow> (candidate_session \<times> app_db) res" where
  "backfill_locked_schedule tz from_iso tasks aborts t cs start zone now clk db =
     (if \<not> schedule_matches cs start zone
      then Inl (api_error 409 ''Schedule has already been set for this session.'' ''SCHEDULE_ALREADY_SET'')
      else if truthy (cs_day_windows_json cs) then Inr (cs, db)
      else bind_result (derive_serialized_day_windows tz t start zone) (\<lambda>windows.
             let cs' = cs\<lparr>cs_day_windows_json := windows\<rparr>
             in bind_result (enqueue_day_close_jobs tz from_iso tasks aborts cs' now clk db) (\<lambda>(_, db'). Inr (cs', db'))))"

definition set_new_schedule ::
    "tz_database \<Rightarrow> (string \<Rightarrow> datetime option) \<Rightarrow> task list \<Rightarrow> bool \<Rightarrow> trial \<Rightarrow> candidate_session \<Rightarrow> datetime \<Rightarrow> string \<Rightarrow>
     datetime \<Rightarrow> datetime \<Rightarrow> app_db \<Rightarrow> (candidate_session \<times> app_db) res" where
  "set_new_schedule tz from_iso tasks aborts t cs start zone now clk db =
     bind_result (derive_serialized_day_windows tz t start zone) (\<lambda>windows.
       let cs' = cs\<lparr>cs_scheduled_start_at := Some start, cs_candidate_timezone := Some zone,
                    cs_day_windows_json := windows, cs_schedule_locked_at := Some now\<rparr>
       in bind_result (enqueue_day_close_jobs tz from_iso tasks aborts cs' now clk db) (\<lambda>(_, db'). Inr (cs', db')))"

definition check_start_date :: "tz_database \<Rightarrow> string \<Rightarrow> datetime \<Rightarrow> start_input \<Rightarrow> unit res" where
  "check_start_date tz zone now scheduled_start_at =
     (if proposed_date tz zone scheduled_start_at < local_date tz zone now
      then Inl (api_error 422 ''Scheduled start cannot be before today in your timezone.'' ''SCHEDULE_START_IN_PAST'')
      else if local_date tz zone now + 14 < proposed_date tz zone scheduled_start_at
      then Inl (api_error 422 ''Start date must be within the next 14 days.'' ''SCHEDULE_START_OUTSIDE_WINDOW'')
      else Inr ())"

definition store_github_username :: "string \<Rightarrow> candidate_session \<Rightarrow> candidate_session res" where
  "store_github_username github_username cs =
     (let existing_username = (case cs_github_username cs of None \<Rightarrow> [] | Some u \<Rightarrow> py_strip u)
      in if existing_username \<noteq> [] \<and> existing_username \<noteq> github_username
         then Inl (api_error 409 ''GitHub username does not match the stored session value.'' ''GITHUB_USERNAME_MISMATCH'')
         else Inr (if existing_username \<noteq> github_username then cs\<lparr>cs_github_username := Some github_username\<rparr> else cs))"

definition invalid_window_error :: error where
  "invalid_window_error = api_error 422 ''Unable to derive schedule day windows.'' ''SCHEDULE_INVALID_WINDOW''"

definition rename_expired :: "'a res \<Rightarrow> 'a res" where
  "rename_expired r = (case r of
     Inl (HTTPError s detail) \<Rightarrow> if s = 410 then Inl (api_error 410 detail ''INVITE_TOKEN_EXPIRED'') else r
   | _ \<Rightarrow> r)"

definition schedule_candidate_session_impl ::
    "tz_database \<Rightarrow> (string \<Rightarrow> datetime option) \<Rightarrow> task list \<Rightarrow> bool \<Rightarrow> string \<Rightarrow> principal \<Rightarrow> start_input \<Rightarrow> string \<Rightarrow> string \<Rightarrow>
     datetime \<Rightarrow> datetime \<Rightarrow> app_db \<Rightarrow> ((candidate_session \<times> bool) \<times> app_db) res" where
  "schedule_candidate_session_impl tz from_iso tasks aborts token p scheduled_start_at candidate_timezone github_username now clk db =
     (case validate_timezone (tz_known tz) (py_strip candidate_timezone) of
        Inl _ \<Rightarrow> Inl timezone_error
      | Inr zone \<Rightarrow>
          bind_result (rename_expired (fetch_by_token token now db)) (\<lambda>cs.
          bind_result (check_start_date tz zone now scheduled_start_at) (\<lambda>_.
            case session_trial db cs of
              None \<Rightarrow> Inl invalid_token
            | Some t \<Rightarrow>
                (let start = normalize_candidate_proposed_start_at tz zone t scheduled_start_at
                 in if start < now
                    then Inl (api_error 422 ''Scheduled start must be in the future.'' ''SCHEDULE_START_IN_PAST'')
                    else bind_result (require_claimed_ownership p cs) (\<lambda>cs1.
                         bind_result (store_github_username github_username cs1) (\<lambda>cs2.
                         if cs_schedule_locked_at cs2 \<noteq> None
                         then bind_result (backfill_locked_schedule tz from_iso tasks aborts t cs2 start zone now clk db) (\<lambda>(cs3, db').
                                Inr ((cs3, False), if cs3 \<noteq> cs then put_session cs3 db' else db'))
                         else bind_result (catch_value_error
                                (set_new_schedule tz from_iso tasks aborts t cs2 start zone now clk db) (Inl invalid_window_error)) (\<lambda>(cs3, db').
                                Inr ((cs3, True), put_session cs3 db'))))))))"

section \<open>GitHub usernames\<close>

definition ascii_alnum :: "char \<Rightarrow> bool" where
  "ascii_alnum c \<longleftrightarrow> (let n = code_point c in (48 \<le> n \<and> n \<le> 57) \<or> (65 \<le> n \<and> n \<le> 90) \<or> (97 \<le> n \<and> n \<le> 122))"

definition validate_github_username :: "string \<Rightarrow> unit res" where
  "validate_github_username username =
     (if username = [] \<or> 39 < length username \<or>
         \<not> (ascii_alnum (hd username) \<and> ascii_alnum (last username) \<and>
            (\<forall>c \<in> set username. ascii_alnum c \<or> c = CHR ''-''))
      then Inl (ApiError 400 ''Invalid GitHub username'' ''INVALID_GITHUB_USERNAME'' None [])
      else Inr ())"

definition schedule_candidate_session ::
    "tz_database \<Rightarrow> (string \<Rightarrow> datetime option) \<Rightarrow> task list \<Rightarrow> bool \<Rightarrow> string \<Rightarrow> principal \<Rightarrow> start_input \<Rightarrow> string \<Rightarrow> string \<Rightarrow>
     datetime \<Rightarrow> datetime \<Rightarrow> app_db \<Rightarrow> ((candidate_session \<times> bool) \<times> app_db) res" where
  "schedule_candidate_session tz from_iso tasks aborts token p scheduled_start_at candidate_timezone github_username now clk db =
     bind_result (validate_github_username (py_strip github_username)) (\<lambda>_.
       schedule_candidate_session_impl tz from_iso tasks aborts token p scheduled_start_at candidate_timezone
         (py_strip github_username) now clk db)"

section \<open>Jobs of the days\<close>








section \<open>What a successful call did\<close>

definition same_schedule :: "candidate_session \<Rightarrow> candidate_session \<Rightarrow> bool" where
  "same_schedule a b \<longleftrightarrow> same_invite a b \<and>
     cs_scheduled_start_at a = cs_scheduled_start_at b \<and> cs_candidate_timezone a = cs_candidate_timezone b \<and>
     cs_day_windows_json a = cs_day_windows_json b \<and> cs_schedule_locked_at a = cs_schedule_locked_at b \<and>
     owner_of a = owner_of b \<and> cs_claimed_at a = cs_claimed_at b"

lemma claimed_ownership_Inr:
  "require_claimed_ownership p cs = Inr cs' \<Longrightarrow>
   may_own p cs \<and> owner_of cs = p_sub p \<and> cs_claimed_at cs \<noteq> None \<and> same_schedule cs cs'"
  by (auto simp: require_claimed_ownership_def may_own_def owner_of_def same_schedule_def same_invite_def Let_def
      split: if_splits)

lemma store_username_Inr:
  "store_github_username u cs = Inr cs' \<Longrightarrow>
   same_schedule cs cs' \<and> cs_github_username cs \<in> {None} \<union> {Some v |v. py_strip v \<in> {[], u}}"
  by (auto simp: store_github_username_def same_schedule_def same_invite_def owner_of_def Let_def
      split: if_splits option.splits)

lemma same_schedule_trans: "same_schedule a b \<Longrightarrow> same_schedule b c \<Longrightarrow> same_schedule a c"
  by (auto simp: same_schedule_def same_invite_def)

lemma rename_expired_Inr [simp]: "rename_expired r = Inr x \<longleftrightarrow> r = Inr x"
  by (auto simp: rename_expired_def split: sum.splits error.splits if_splits)

lemma catch_value_error_Inr: "catch_value_error r (Inl e) = Inr x \<longleftrightarrow> r = Inr x"
  by (auto simp: catch_value_error_def split: sum.splits error.splits)

lemma check_start_date_Inr:
  "check_start_date tz zone now d = Inr u \<longleftrightarrow>
   local_date tz zone now \<le> proposed_date tz zone d \<and> proposed_date tz zone d \<le> local_date tz zone now + 14"
  by (auto simp: check_start_date_def)

lemma schedule_InrD:
  assumes "schedule_candidate_session_impl tz from_iso tasks aborts token p d ctz u now clk db = Inr ((cs', created), db')"
  obtains cs t cs2 db1 where "get_by_token token db = Some cs" "\<not> expired now cs" "session_trial db cs = Some t"
    "tz_known tz (py_strip ctz)" "py_strip ctz \<noteq> []"
    "local_date tz (py_strip ctz) now \<le> proposed_date tz (py_strip ctz) d"
    "proposed_date tz (py_strip ctz) d \<le> local_date tz (py_strip ctz) now + 14"
    "now \<le> normalize_candidate_proposed_start_at tz (py_strip ctz) t d"
    "may_own p cs" "owner_of cs = p_sub p" "same_schedule cs cs2"
    "created \<longleftrightarrow> cs_schedule_locked_at cs = None"
    "created \<Longrightarrow> set_new_schedule tz from_iso tasks aborts t cs2
       (normalize_candidate_proposed_start_at tz (py_strip ctz) t d) (py_strip ctz) now clk db = Inr (cs', db1)"
    "\<not> created \<Longrightarrow> backfill_locked_schedule tz from_iso tasks aborts t cs2
       (normalize_candidate_proposed_start_at tz (py_strip ctz) t d) (py_strip ctz) now clk db = Inr (cs', db1)"
    "db' = put_session cs' db1 \<or> \<not> created \<and> cs' = cs \<and> db' = db1"
proof -
  let ?z = "py_strip ctz"
  have z: "validate_timezone (tz_known tz) ?z = Inr ?z" and zk: "?z \<noteq> []" "tz_known tz ?z"
    using assms by (auto simp: schedule_candidate_session_impl_def validate_timezone_def Let_def split: if_splits)
  from assms z obtain cs t cs1 cs2 where
    f: "fetch_by_token token now db = Inr cs" and c: "check_start_date tz ?z now d = Inr ()"
    and t: "session_trial db cs = Some t"
    and st: "now \<le> normalize_candidate_proposed_start_at tz ?z t d"
    and o: "require_claimed_ownership p cs = Inr cs1" and g: "store_github_username u cs1 = Inr cs2"
    and r: "(if cs_schedule_locked_at cs2 \<noteq> None
       then bind_result (backfill_locked_schedule tz from_iso tasks aborts t cs2 (normalize_candidate_proposed_start_at tz ?z t d) ?z now clk db) (\<lambda>(cs3, db').
              Inr ((cs3, False), if cs3 \<noteq> cs then put_session cs3 db' else db'))
       else bind_result (catch_value_error
              (set_new_schedule tz from_iso tasks aborts t cs2 (normalize_candidate_proposed_start_at tz ?z t d) ?z now clk db) (Inl invalid_window_error)) (\<lambda>(cs3, db').
              Inr ((cs3, True), put_session cs3 db'))) = Inr ((cs', created), db')"
    unfolding schedule_candidate_session_impl_def
    by (auto simp: bind_result_Inr_iff Let_def simp del: split_paired_Ex split: option.splits if_splits)
  have own: "may_own p cs" "owner_of cs = p_sub p" and s1: "same_schedule cs cs1"
    using claimed_ownership_Inr[OF o] by auto
  have s2: "same_schedule cs cs2" using same_schedule_trans[OF s1] store_username_Inr[OF g] by blast
  then have l: "cs_schedule_locked_at cs2 = cs_schedule_locked_at cs" by (simp add: same_schedule_def)
  have ff: "get_by_token token db = Some cs" "\<not> expired now cs" using f by (auto simp: fetch_by_token_iff)
  have cc: "local_date tz ?z now \<le> proposed_date tz ?z d" "proposed_date tz ?z d \<le> local_date tz ?z now + 14"
    using c by (auto simp: check_start_date_Inr)
  show thesis
  proof (cases "cs_schedule_locked_at cs = None")
    case True
    with r l obtain db1 where w: "set_new_schedule tz from_iso tasks aborts t cs2 (normalize_candidate_proposed_start_at tz ?z t d) ?z now clk db = Inr (cs', db1)"
      "created" "db' = put_session cs' db1" by (auto simp: bind_result_Inr_iff catch_value_error_Inr)
    show thesis by (rule that[OF ff t zk(2,1) cc st own s2]) (use w True in auto)
  next
    case False
    with r l obtain db1 where w: "backfill_locked_schedule tz from_iso tasks aborts t cs2 (normalize_candidate_proposed_start_at tz ?z t d) ?z now clk db = Inr (cs', db1)"
      "\<not> created" "db' = (if cs' \<noteq> cs then put_session cs' db1 else db1)"
      by (auto simp: bind_result_Inr_iff simp del: candidate_session.equality)
    show thesis by (rule that[OF ff t zk(2,1) cc st own s2, of db1]) (use w False in \<open>auto split: if_splits\<close>)
  qed
qed

lemma set_new_facts:
  assumes "set_new_schedule tz from_iso tasks aborts t cs start zone now clk db = Inr (cs', db1)"
  obtains ws js where
    "derive_day_windows tz start zone (t_day_window_start_local t) (t_day_window_end_local t)
       (t_day_window_overrides_json t) (t_day_window_overrides_enabled t) 5 = Inr ws"
    "cs' = cs\<lparr>cs_scheduled_start_at := Some start, cs_candidate_timezone := Some zone,
               cs_day_windows_json := serialize_day_windows ws, cs_schedule_locked_at := Some now\<rparr>"
    "enqueue_day_close_jobs tz from_iso tasks aborts cs' now clk db = Inr (js, db1)"
  using assms by (auto simp: set_new_schedule_def derive_serialized_day_windows_def bind_result_Inr_iff Let_def)

lemma backfill_facts:
  assumes "backfill_locked_schedule tz from_iso tasks aborts t cs start zone now clk db = Inr (cs', db1)"
  shows "schedule_matches cs start zone" "\<exists>windows. cs' = cs\<lparr>cs_day_windows_json := windows\<rparr>"
    and "truthy (cs_day_windows_json cs) \<Longrightarrow> cs' = cs \<and> db1 = db"
    and "db1 = db \<or> (\<exists>js. enqueue_day_close_jobs tz from_iso tasks aborts cs' now clk db = Inr (js, db1))"
proof -
  show "schedule_matches cs start zone" "truthy (cs_day_windows_json cs) \<Longrightarrow> cs' = cs \<and> db1 = db"
    "db1 = db \<or> (\<exists>js. enqueue_day_close_jobs tz from_iso tasks aborts cs' now clk db = Inr (js, db1))"
    using assms by (auto simp: backfill_locked_schedule_def bind_result_Inr_iff Let_def split: if_splits)
  have "cs' = cs \<or> (\<exists>windows. cs' = cs\<lparr>cs_day_windows_json := windows\<rparr>)"
    using assms by (auto simp: backfill_locked_schedule_def bind_result_Inr_iff Let_def split: if_splits)
  then show "\<exists>windows. cs' = cs\<lparr>cs_day_windows_json := windows\<rparr>"
  proof
    assume "cs' = cs"
    then have "cs' = cs\<lparr>cs_day_windows_json := cs_day_windows_json cs\<rparr>" by simp
    then show ?thesis by blast
  qed
qed

lemma enqueue_other_tables:
  assumes "enqueue_day_close_jobs tz from_iso tasks aborts cs now clk db = Inr (js, db')"
  shows "sessions db' = sessions db" "trials db' = trials db"
  using assms by (auto simp: enqueue_day_close_jobs_def bind_result_Inr_iff split: option.splits)

lemma get_by_token_other_tables:
  "sessions db' = sessions db \<Longrightarrow> trials db' = trials db \<Longrightarrow> get_by_token token db' = get_by_token token db"
  by (simp add: get_by_token_def session_trial_def get_trial_def)

lemma matches_same: "same_schedule a b \<Longrightarrow> schedule_matches b x z = schedule_matches a x z"
  by (simp add: schedule_matches_def same_schedule_def split: option.splits)

lemma schedule_facts:
  assumes res: "schedule_candidate_session_impl tz from_iso tasks aborts token p d ctz u now clk db = Inr ((cs', created), db')"
    and ids: "distinct (map cs_id (sessions db))" and tok: "get_by_token token db = Some cs"
  shows "get_by_token token db' = Some cs'" "distinct (map cs_id (sessions db'))" "trials db' = trials db"
    "created \<longleftrightarrow> cs_schedule_locked_at cs = None" "same_invite cs cs'"
    "cs_schedule_locked_at cs' = (if created then Some now else cs_schedule_locked_at cs)"
    "created \<Longrightarrow> \<exists>t. session_trial db cs = Some t \<and> cs_candidate_timezone cs' = Some (py_strip ctz) \<and>
       cs_scheduled_start_at cs' = Some (normalize_candidate_proposed_start_at tz (py_strip ctz) t d) \<and>
       now \<le> normalize_candidate_proposed_start_at tz (py_strip ctz) t d"
    "\<not> created \<Longrightarrow> cs_scheduled_start_at cs' = cs_scheduled_start_at cs \<and>
       cs_candidate_timezone cs' = cs_candidate_timezone cs \<and>
       (truthy (cs_day_windows_json cs) \<longrightarrow> cs_day_windows_json cs' = cs_day_windows_json cs \<and> queue db' = queue db)"
    "\<not> created \<Longrightarrow> \<exists>t. session_trial db cs = Some t \<and>
       schedule_matches cs (normalize_candidate_proposed_start_at tz (py_strip ctz) t d) (py_strip ctz)"
    "get_session i db' = (if i = cs_id cs then Some cs' else get_session i db)"
proof -
  from schedule_InrD[OF res] tok obtain t cs2 db1 where t: "session_trial db cs = Some t"
    and st: "now \<le> normalize_candidate_proposed_start_at tz (py_strip ctz) t d"
    and s2: "same_schedule cs cs2" and c: "created \<longleftrightarrow> cs_schedule_locked_at cs = None"
    and n: "created \<Longrightarrow> set_new_schedule tz from_iso tasks aborts t cs2
       (normalize_candidate_proposed_start_at tz (py_strip ctz) t d) (py_strip ctz) now clk db = Inr (cs', db1)"
    and b: "\<not> created \<Longrightarrow> backfill_locked_schedule tz from_iso tasks aborts t cs2
       (normalize_candidate_proposed_start_at tz (py_strip ctz) t d) (py_strip ctz) now clk db = Inr (cs', db1)"
    and w: "db' = put_session cs' db1 \<or> \<not> created \<and> cs' = cs \<and> db' = db1" by (metis option.inject)
  let ?start = "normalize_candidate_proposed_start_at tz (py_strip ctz) t d"
  show "created \<longleftrightarrow> cs_schedule_locked_at cs = None" by (fact c)
  have new: "cs_scheduled_start_at cs' = Some ?start \<and> cs_candidate_timezone cs' = Some (py_strip ctz) \<and>
      cs_schedule_locked_at cs' = Some now \<and> same_invite cs2 cs' \<and> sessions db1 = sessions db \<and> trials db1 = trials db"
    if created
    by (rule set_new_facts[OF n[OF that]]) (auto simp: same_invite_def enqueue_other_tables)
  have old: "cs_scheduled_start_at cs' = cs_scheduled_start_at cs2 \<and> cs_candidate_timezone cs' = cs_candidate_timezone cs2 \<and>
      cs_schedule_locked_at cs' = cs_schedule_locked_at cs2 \<and> same_invite cs2 cs' \<and>
      sessions db1 = sessions db \<and> trials db1 = trials db \<and>
      (truthy (cs_day_windows_json cs2) \<longrightarrow> cs' = cs2 \<and> db1 = db) \<and> schedule_matches cs2 ?start (py_strip ctz)"
    if "\<not> created"
    using backfill_facts[OF b[OF that]] enqueue_other_tables by (auto simp: same_invite_def)
  have tables: "sessions db1 = sessions db" "trials db1 = trials db" using new old by blast+
  show same: "same_invite cs cs'" using new old s2 same_invite_trans unfolding same_schedule_def by blast
  have tok1: "get_by_token token db1 = Some cs" using get_by_token_other_tables[OF tables] tok by simp
  then show "get_by_token token db' = Some cs'"
    using w get_by_token_put[OF tok1 same] ids tables by auto
  show "distinct (map cs_id (sessions db'))" using w ids tables ids_put_session by auto
  show "trials db' = trials db" using w tables by auto
  show "cs_schedule_locked_at cs' = (if created then Some now else cs_schedule_locked_at cs)"
    using new old s2 by (auto simp: same_schedule_def)
  show "\<exists>t. session_trial db cs = Some t \<and> cs_candidate_timezone cs' = Some (py_strip ctz) \<and>
       cs_scheduled_start_at cs' = Some (normalize_candidate_proposed_start_at tz (py_strip ctz) t d) \<and>
       now \<le> normalize_candidate_proposed_start_at tz (py_strip ctz) t d" if created
    using new[OF that] t st by auto
  have "queue db' = queue db1" using w by (auto simp: put_session_def)
  then show "cs_scheduled_start_at cs' = cs_scheduled_start_at cs \<and>
       cs_candidate_timezone cs' = cs_candidate_timezone cs \<and>
       (truthy (cs_day_windows_json cs) \<longrightarrow> cs_day_windows_json cs' = cs_day_windows_json cs \<and> queue db' = queue db)"
    if "\<not> created"
    using old[OF that] s2 by (auto simp: same_schedule_def)
  show "\<exists>t. session_trial db cs = Some t \<and> schedule_matches cs (normalize_candidate_proposed_start_at tz (py_strip ctz) t d) (py_strip ctz)"
    if "\<not> created"
    using old[OF that] t matches_same[OF s2] by auto
  have id: "cs_id cs' = cs_id cs" using same by (simp add: same_invite_def)
  have here: "get_session i db1 = get_session i db" "get_session (cs_id cs) db = Some cs" for i
    using tables get_session_of_token[OF tok ids] by (simp_all add: get_session_def)
  show "get_session i db' = (if i = cs_id cs then Some cs' else get_session i db)"
    using w get_session_put[of cs' db1 cs i] here by (auto simp: id)
qed

section \<open>Runs of calls\<close>

text \<open>
  The calls that a candidate's browser and the owner of a trial make over time: scheduling,
  claiming, opening an owned session, terminating a trial, by anybody and with any arguments.
  \<open>profiles\<close> says whether a claim may carry a profile, which sets the candidate's time zone.
  The admin's reset of a session and the day-window control of local environments are not among
  these calls: clearing or rewriting a schedule is what they are for.
\<close>

inductive session_call :: "bool \<Rightarrow> app_db \<Rightarrow> app_db \<Rightarrow> bool" for profiles where
  scheduled: "schedule_candidate_session_impl tz from_iso tasks aborts token p d ctz u now clk db = Inr (r, db') \<Longrightarrow>
    session_call profiles db db'"
| claimed: "claim_invite_with_principal valid_zone token p now profile db = Inr (cs, db') \<Longrightarrow>
    profiles \<or> profile = None \<Longrightarrow> session_call profiles db db'"
| opened: "fetch_owned_session i p now db = Inr (cs, db') \<Longrightarrow> session_call profiles db db'"
| terminated: "terminate_trial_with_cleanup ai i u reason at clk db = Inr (r, db') \<Longrightarrow> session_call profiles db db'"

definition has_schedule :: "candidate_session \<Rightarrow> bool" where
  "has_schedule cs \<longleftrightarrow> cs_schedule_locked_at cs \<noteq> None \<and> truthy (cs_day_windows_json cs)"

definition schedule_kept :: "bool \<Rightarrow> candidate_session \<Rightarrow> candidate_session \<Rightarrow> bool" where
  "schedule_kept profiles a b \<longleftrightarrow> cs_id b = cs_id a \<and> cs_trial_id b = cs_trial_id a \<and> cs_scheduled_start_at b = cs_scheduled_start_at a \<and>
     cs_schedule_locked_at b = cs_schedule_locked_at a \<and> cs_day_windows_json b = cs_day_windows_json a \<and>
     (\<not> profiles \<longrightarrow> cs_candidate_timezone b = cs_candidate_timezone a)"

definition schedules_kept :: "bool \<Rightarrow> app_db \<Rightarrow> app_db \<Rightarrow> bool" where
  "schedules_kept profiles db db' \<longleftrightarrow> map cs_id (sessions db') = map cs_id (sessions db) \<and>
     (\<forall>i cs. get_session i db = Some cs \<longrightarrow> has_schedule cs \<longrightarrow>
        (\<exists>cs'. get_session i db' = Some cs' \<and> schedule_kept profiles cs cs'))"

lemma schedule_kept_refl [simp]: "schedule_kept b a a"
  by (simp add: schedule_kept_def)

lemma has_schedule_kept: "schedule_kept b x y \<Longrightarrow> has_schedule y = has_schedule x"
  by (simp add: schedule_kept_def has_schedule_def)

lemma schedules_kept_refl [simp]: "schedules_kept b db db"
  by (simp add: schedules_kept_def)

lemma schedules_kept_trans:
  assumes "schedules_kept b x y" "schedules_kept b y z" shows "schedules_kept b x z"
  unfolding schedules_kept_def
proof (intro conjI allI impI)
  show "map cs_id (sessions z) = map cs_id (sessions x)" using assms by (simp add: schedules_kept_def)
  fix i cs assume "get_session i x = Some cs" "has_schedule cs"
  with assms(1) obtain cs1 where "get_session i y = Some cs1" and 1: "schedule_kept b cs cs1" unfolding schedules_kept_def by blast
  moreover from this have "has_schedule cs1" using \<open>has_schedule cs\<close> by (simp add: has_schedule_kept)
  ultimately obtain cs2 where "get_session i z = Some cs2" and 2: "schedule_kept b cs1 cs2" using assms(2) unfolding schedules_kept_def by blast
  with 1 show "\<exists>cs'. get_session i z = Some cs' \<and> schedule_kept b cs cs'" by (auto simp: schedule_kept_def)
qed

lemma schedules_kept_put:
  assumes "get_session (cs_id cs') db = Some cs" "schedule_kept b cs cs'"
  shows "schedules_kept b db (put_session cs' db)"
  using assms by (auto simp: schedules_kept_def ids_put_session get_session_put)

lemma schedule_kept_claimed: "b \<or> profile = None \<Longrightarrow> schedule_kept b cs (claimed_session p now profile cs)"
  by (auto simp: schedule_kept_def claimed_session_def mark_in_progress_def with_profile_def with_names_def record_owner_def Let_def
      split: option.splits)

lemma schedule_kept_opened: "schedule_kept b cs (opened_session p now cs)"
  by (auto simp: schedule_kept_def opened_session_def mark_in_progress_def record_owner_def Let_def split: option.splits)

lemma session_call_kept:
  assumes "session_call b db db'" and ids: "distinct (map cs_id (sessions db))"
  shows "schedules_kept b db db'"
  using assms(1)
proof cases
  case (scheduled tz from_iso tasks aborts token p d ctz u now clk r)
  obtain cs' created where r: "r = (cs', created)" by (cases r)
  with scheduled have call: "schedule_candidate_session_impl tz from_iso tasks aborts token p d ctz u now clk db = Inr ((cs', created), db')" by simp
  from schedule_InrD[OF call] obtain cs where tok: "get_by_token token db = Some cs" by blast
  note f = schedule_facts[OF call ids tok]
  have row: "get_session (cs_id cs) db = Some cs" by (rule get_session_of_token[OF tok ids])
  have "schedule_kept b cs cs'" if "has_schedule cs"
    using that f(4,5,6,8) by (auto simp: has_schedule_def schedule_kept_def same_invite_def)
  moreover have "sessions db' = sessions db \<or> (\<exists>x. map cs_id (sessions db') = map cs_id (sessions db))"
  proof -
    from schedule_InrD[OF call] obtain t cs2 db1 cs0 where
      n: "created \<Longrightarrow> set_new_schedule tz from_iso tasks aborts t cs2 (normalize_candidate_proposed_start_at tz (py_strip ctz) t d)
         (py_strip ctz) now clk db = Inr (cs', db1)"
      and o: "\<not> created \<Longrightarrow> backfill_locked_schedule tz from_iso tasks aborts t cs2 (normalize_candidate_proposed_start_at tz (py_strip ctz) t d)
         (py_strip ctz) now clk db = Inr (cs', db1)"
      and w: "db' = put_session cs' db1 \<or> \<not> created \<and> cs' = cs0 \<and> db' = db1" by metis
    have "sessions db1 = sessions db"
    proof (cases created)
      case True
      from set_new_facts[OF n[OF True]] show ?thesis using enqueue_other_tables(1) by metis
    next
      case False
      from backfill_facts(4)[OF o[OF False]] show ?thesis using enqueue_other_tables(1) by metis
    qed
    with w show ?thesis using ids_put_session by metis
  qed
  ultimately show ?thesis using row unfolding schedules_kept_def f(10) by auto
next
  case (claimed valid_zone token p now profile cs')
  from claim_InrD[OF claimed(1)] obtain cs where c: "get_by_token token db = Some cs"
    "cs' = claimed_session p now profile cs" "db' = put_session cs' db \<or> cs' = cs \<and> db' = db" by metis
  have k: "schedule_kept b cs cs'" unfolding c(2) using claimed(2) by (rule schedule_kept_claimed)
  then have "get_session (cs_id cs') db = Some cs" using get_session_of_token[OF c(1) ids] by (simp add: schedule_kept_def)
  from schedules_kept_put[OF this k] c(3) show ?thesis by auto
next
  case (opened i p now cs')
  from fetch_owned_InrD[OF opened] obtain cs where o: "get_by_id i db = Some cs"
    "cs' = opened_session p now cs" "db' = put_session cs' db \<or> cs' = cs \<and> db' = db" by metis
  have k: "schedule_kept b cs cs'" unfolding o(2) by (rule schedule_kept_opened)
  then have "get_session (cs_id cs') db = Some cs" using get_session_of_id(1)[OF o(1) ids] by (simp add: schedule_kept_def)
  from schedules_kept_put[OF this k] o(3) show ?thesis by auto
next
  case (terminated ai i u reason at clk r)
  let ?f = "\<lambda>s. if pending_session i s then s\<lparr>cs_status := ''expired'', cs_expires_at := Some at\<rparr> else s"
  have s: "sessions db' = map ?f (sessions db)"
    by (rule terminate_unfold[OF terminated])
      (simp add: cancel_pending_trial_jobs_def expire_pending_candidate_sessions_def update_rows_def Let_def)
  have "find_row (\<lambda>s. cs_id s = k) (map ?f ss) = map_option ?f (find_row (\<lambda>s. cs_id s = k) ss)" for k ss
    by (induction ss) (simp_all add: find_row_Cons)
  moreover have "schedule_kept b x (?f x)" for x by (simp add: schedule_kept_def)
  ultimately show ?thesis by (auto simp: schedules_kept_def get_session_def s)
qed

lemma session_calls_kept:
  "(session_call b)\<^sup>*\<^sup>* db db' \<Longrightarrow> distinct (map cs_id (sessions db)) \<Longrightarrow> schedules_kept b db db'"
proof (induction rule: rtranclp_induct)
  case (step y z)
  then have "schedules_kept b db y" by blast
  moreover from this have "distinct (map cs_id (sessions y))" using step.prems by (simp add: schedules_kept_def)
  ultimately show ?case using session_call_kept[OF step.hyps(2)] schedules_kept_trans by blast
qed simp

section \<open>Properties\<close>

lemma schedule_once_facts:
  assumes first: "schedule_candidate_session_impl tz from_iso tasks aborts token p d ctz u now clk db = Inr ((cs', True), db')"
    and ids: "distinct (map cs_id (sessions db))" and tok: "get_by_token token db = Some cs"
  shows "has_schedule cs'" "get_session (cs_id cs) db' = Some cs'"
    and "\<exists>t start. get_trial (cs_trial_id cs) db = Some t \<and>
       start = normalize_candidate_proposed_start_at tz (py_strip ctz) t d \<and> now \<le> start \<and>
       cs_scheduled_start_at cs' = Some start \<and> cs_candidate_timezone cs' = Some (py_strip ctz)"
proof -
  note f = schedule_facts[OF first ids tok]
  obtain t where t: "session_trial db cs = Some t" and z: "cs_candidate_timezone cs' = Some (py_strip ctz)"
    and start: "cs_scheduled_start_at cs' = Some (normalize_candidate_proposed_start_at tz (py_strip ctz) t d)"
    and future: "now \<le> normalize_candidate_proposed_start_at tz (py_strip ctz) t d" using f(7) by blast
  then show "\<exists>t start. get_trial (cs_trial_id cs) db = Some t \<and>
       start = normalize_candidate_proposed_start_at tz (py_strip ctz) t d \<and> now \<le> start \<and>
       cs_scheduled_start_at cs' = Some start \<and> cs_candidate_timezone cs' = Some (py_strip ctz)"
    unfolding session_trial_def by blast
  from schedule_InrD[OF first] obtain cs2 db1 where
    "set_new_schedule tz from_iso tasks aborts t cs2 (normalize_candidate_proposed_start_at tz (py_strip ctz) t d)
       (py_strip ctz) now clk db = Inr (cs', db1)" using tok t by (metis option.inject)
  then obtain ws where "cs_day_windows_json cs' = serialize_day_windows ws" and "ws \<noteq> []"
    by (elim set_new_facts) (auto dest!: derived_nonempty)
  then show "has_schedule cs'" using f(6) by (simp add: has_schedule_def serialize_day_windows_def)
  show "get_session (cs_id cs) db' = Some cs'" using f(10) by simp
qed

text \<open>A scheduling call that reaches a session with a schedule asks for the same and changes nothing.\<close>

lemma schedule_again_facts:
  assumes call: "schedule_candidate_session_impl tz from_iso tasks aborts token p d ctz u now clk db = Inr ((cs', created), db')"
    and ids: "distinct (map cs_id (sessions db))" and row: "get_session i db = Some cs" "has_schedule cs" "cs_id cs' = i"
  shows "\<not> created \<and> get_session i db' = Some cs' \<and> queue db' = queue db \<and> schedule_kept False cs cs' \<and>
    (\<exists>t. get_trial (cs_trial_id cs) db = Some t \<and>
       schedule_matches cs (normalize_candidate_proposed_start_at tz (py_strip ctz) t d) (py_strip ctz))"
proof -
  from schedule_InrD[OF call] obtain cs0 where tok: "get_by_token token db = Some cs0" by blast
  note f = schedule_facts[OF call ids tok]
  have "cs_id cs0 = i" using f(5) row(3) by (simp add: same_invite_def)
  then have same: "cs0 = cs" using get_session_of_token[OF tok ids] row(1) by simp
  with f(4) row(2) have nc: "\<not> created" by (simp add: has_schedule_def)
  with f(5,6) f(8)[OF nc] f(9)[OF nc] f(10)[of i] row(2,3) same show ?thesis
    by (auto simp: has_schedule_def schedule_kept_def same_invite_def session_trial_def)
qed

text \<open>
  Property C8. A schedule is set once by scheduling. A successful call sets a schedule exactly
  when none was locked, to the start of the proposed day in the caller's zone, which is not past,
  and locks it. Whatever scheduling calls, claims, visits and terminations follow, by anybody,
  with any arguments, for this and for other sessions, the start, the lock and the windows stay
  as they were set, and the zone too unless a claim carries a profile; and every later scheduling
  call that succeeds for the session asked for the same second in the session's zone and changed
  neither the schedule nor the job queue, so a call for another start or zone fails.
\<close>

theorem schedule_is_final:
  assumes first: "schedule_candidate_session_impl tz from_iso tasks aborts token p d ctz u now clk db = Inr ((cs', True), db')"
    and ids: "distinct (map cs_id (sessions db))" and tok: "get_by_token token db = Some cs"
  shows "cs_schedule_locked_at cs = None \<and> cs_schedule_locked_at cs' = Some now \<and> get_by_token token db' = Some cs' \<and>
    (\<exists>t start. get_trial (cs_trial_id cs) db = Some t \<and>
       start = normalize_candidate_proposed_start_at tz (py_strip ctz) t d \<and> now \<le> start \<and>
       cs_scheduled_start_at cs' = Some start \<and> cs_candidate_timezone cs' = Some (py_strip ctz)) \<and>
    (\<forall>profiles later. (session_call profiles)\<^sup>*\<^sup>* db' later \<longrightarrow>
       (\<exists>cs''. get_session (cs_id cs) later = Some cs'' \<and> cs_schedule_locked_at cs'' = Some now \<and>
          cs_scheduled_start_at cs'' = cs_scheduled_start_at cs' \<and> cs_day_windows_json cs'' = cs_day_windows_json cs' \<and>
          (\<not> profiles \<longrightarrow> cs_candidate_timezone cs'' = cs_candidate_timezone cs') \<and>
          (\<forall>tz2 from_iso2 tasks2 aborts2 token2 (p2 :: principal) d2 ctz2 u2 now2 clk2 cs3 created db3.
             schedule_candidate_session_impl tz2 from_iso2 tasks2 aborts2 token2 p2 d2 ctz2 u2 now2 clk2 later =
               Inr ((cs3, created), db3) \<and> cs_id cs3 = cs_id cs \<longrightarrow>
             \<not> created \<and> get_session (cs_id cs) db3 = Some cs3 \<and> queue db3 = queue later \<and>
             cs_scheduled_start_at cs3 = cs_scheduled_start_at cs' \<and> cs_candidate_timezone cs3 = cs_candidate_timezone cs'' \<and>
             cs_schedule_locked_at cs3 = Some now \<and> cs_day_windows_json cs3 = cs_day_windows_json cs' \<and>
             (\<exists>t zone. get_trial (cs_trial_id cs) later = Some t \<and> cs_candidate_timezone cs'' = Some zone \<and>
                py_strip ctz2 = py_strip zone \<and>
                cs_scheduled_start_at cs' = Some (normalize_candidate_proposed_start_at tz2 (py_strip ctz2) t d2)))))"
proof -
  note f = schedule_facts[OF first ids tok] and once = schedule_once_facts[OF first ids tok]
  have drop: "drop_microseconds (normalize_candidate_proposed_start_at a b c e) = normalize_candidate_proposed_start_at a b c e"
    for a b c e by (simp add: normalize_candidate_proposed_start_at_def)
  have lock: "cs_schedule_locked_at cs' = Some now" "cs_trial_id cs' = cs_trial_id cs"
    using f(5,6) by (simp_all add: same_invite_def)
  have later: "\<exists>cs''. get_session (cs_id cs) later = Some cs'' \<and> schedule_kept profiles cs' cs'' \<and> has_schedule cs'' \<and>
      distinct (map cs_id (sessions later))" if "(session_call profiles)\<^sup>*\<^sup>* db' later" for profiles later
  proof -
    from session_calls_kept[OF that f(2)] have k: "schedules_kept profiles db' later" .
    with once(1,2) obtain cs'' where "get_session (cs_id cs) later = Some cs''" "schedule_kept profiles cs' cs''"
      unfolding schedules_kept_def by blast
    with once(1) k f(2) show ?thesis by (auto simp: has_schedule_kept schedules_kept_def)
  qed
  have again: "\<not> created \<and> get_session (cs_id cs) db3 = Some cs3 \<and> queue db3 = queue later \<and>
             cs_scheduled_start_at cs3 = cs_scheduled_start_at cs' \<and> cs_candidate_timezone cs3 = cs_candidate_timezone cs'' \<and>
             cs_schedule_locked_at cs3 = Some now \<and> cs_day_windows_json cs3 = cs_day_windows_json cs' \<and>
             (\<exists>t zone. get_trial (cs_trial_id cs) later = Some t \<and> cs_candidate_timezone cs'' = Some zone \<and>
                py_strip ctz2 = py_strip zone \<and>
                cs_scheduled_start_at cs' = Some (normalize_candidate_proposed_start_at tz2 (py_strip ctz2) t d2))"
    if k: "get_session (cs_id cs) later = Some cs''" "schedule_kept profiles cs' cs''" "has_schedule cs''" "distinct (map cs_id (sessions later))"
      and call: "schedule_candidate_session_impl tz2 from_iso2 tasks2 aborts2 token2 p2 d2 ctz2 u2 now2 clk2 later = Inr ((cs3, created), db3)"
      and id: "cs_id cs3 = cs_id cs"
    for profiles later cs'' tz2 from_iso2 tasks2 aborts2 token2 d2 ctz2 u2 now2 clk2 cs3 created db3 and p2 :: principal
  proof -
    from schedule_again_facts[OF call k(4) k(1,3) id] obtain t where a: "\<not> created" "get_session (cs_id cs) db3 = Some cs3"
      "queue db3 = queue later" "schedule_kept False cs'' cs3" "get_trial (cs_trial_id cs'') later = Some t"
      and m: "schedule_matches cs'' (normalize_candidate_proposed_start_at tz2 (py_strip ctz2) t d2) (py_strip ctz2)" by blast
    obtain start where st: "cs_scheduled_start_at cs' = Some start" "drop_microseconds start = start"
      using once(3) drop by auto
    have "cs_scheduled_start_at cs'' = Some start" "cs_trial_id cs'' = cs_trial_id cs"
      using k(2) st(1) lock(2) by (simp_all add: schedule_kept_def)
    with m drop st have "\<exists>zone. cs_candidate_timezone cs'' = Some zone \<and> py_strip ctz2 = py_strip zone \<and>
        start = normalize_candidate_proposed_start_at tz2 (py_strip ctz2) t d2"
      by (auto simp: schedule_matches_def Let_def split: option.splits)
    with a k(2) st lock \<open>cs_trial_id cs'' = cs_trial_id cs\<close> show ?thesis by (auto simp: schedule_kept_def)
  qed
  have "\<exists>cs''. get_session (cs_id cs) later = Some cs'' \<and> cs_schedule_locked_at cs'' = Some now \<and>
          cs_scheduled_start_at cs'' = cs_scheduled_start_at cs' \<and> cs_day_windows_json cs'' = cs_day_windows_json cs' \<and>
          (\<not> profiles \<longrightarrow> cs_candidate_timezone cs'' = cs_candidate_timezone cs') \<and>
          (\<forall>tz2 from_iso2 tasks2 aborts2 token2 (p2 :: principal) d2 ctz2 u2 now2 clk2 cs3 created db3.
             schedule_candidate_session_impl tz2 from_iso2 tasks2 aborts2 token2 p2 d2 ctz2 u2 now2 clk2 later =
               Inr ((cs3, created), db3) \<and> cs_id cs3 = cs_id cs \<longrightarrow>
             \<not> created \<and> get_session (cs_id cs) db3 = Some cs3 \<and> queue db3 = queue later \<and>
             cs_scheduled_start_at cs3 = cs_scheduled_start_at cs' \<and> cs_candidate_timezone cs3 = cs_candidate_timezone cs'' \<and>
             cs_schedule_locked_at cs3 = Some now \<and> cs_day_windows_json cs3 = cs_day_windows_json cs' \<and>
             (\<exists>t zone. get_trial (cs_trial_id cs) later = Some t \<and> cs_candidate_timezone cs'' = Some zone \<and>
                py_strip ctz2 = py_strip zone \<and>
                cs_scheduled_start_at cs' = Some (normalize_candidate_proposed_start_at tz2 (py_strip ctz2) t d2)))"
    if run: "(session_call profiles)\<^sup>*\<^sup>* db' later" for profiles later
  proof -
    from later[OF run] obtain cs'' where k: "get_session (cs_id cs) later = Some cs''" "schedule_kept profiles cs' cs''"
      "has_schedule cs''" "distinct (map cs_id (sessions later))" by blast
    show ?thesis
    proof (intro exI[of _ cs''] conjI k(1) allI impI)
      show "cs_schedule_locked_at cs'' = Some now" "cs_scheduled_start_at cs'' = cs_scheduled_start_at cs'"
        "cs_day_windows_json cs'' = cs_day_windows_json cs'" using k(2) lock by (simp_all add: schedule_kept_def)
      show "cs_candidate_timezone cs'' = cs_candidate_timezone cs'" if "\<not> profiles" using k(2) that by (simp add: schedule_kept_def)
    qed (elim conjE, drule (1) again[OF k], blast)+
  qed
  then show ?thesis using f(1,4) lock once(3) by blast
qed



definition demo_owned :: candidate_session where
  "demo_owned = demo_session\<lparr>cs_candidate_auth0_sub := Some ''auth0|1'', cs_claimed_at := Some 50, cs_status := ''in_progress'',
     cs_expires_at := None\<rparr>"

definition demo_claimed_app :: app_db where
  "demo_claimed_app = demo_app\<lparr>sessions := [demo_owned]\<rparr>"

definition demo_tasks :: "task list" where
  "demo_tasks = [demo_task, \<lparr>tk_id = 20, tk_trial_id = 3, tk_day_index = 1, tk_type = '' Design ''\<rparr>]"

text \<open>A reader of full hours in January 1970.\<close>

definition read_january :: "string \<Rightarrow> datetime option" where
  "read_january s = Some (seconds (86400 * (digits_value (take 2 (drop 8 s)) - 1) + 3600 * digits_value (take 2 (drop 11 s))))"





abbreviation demo_schedule :: "datetime \<Rightarrow> start_input \<Rightarrow> app_db \<Rightarrow> ((candidate_session \<times> bool) \<times> app_db) res" where
  "demo_schedule now d db \<equiv> schedule_candidate_session_impl demo_zones read_january demo_tasks False ''tok'' demo_principal d '' UTC'' ''ada'' now now db"

theorem schedule_is_final_witness:
  "\<exists>cs' db' cs'' db'' cs. demo_schedule 100 (StartDate 0) demo_claimed_app = Inr ((cs', True), db') \<and>
     demo_schedule 200 (StartInstant 300) db' = Inr ((cs'', False), db'') \<and>
     get_session 7 db'' = Some cs \<and> cs_scheduled_start_at cs = Some (seconds 32400) \<and> cs_schedule_locked_at cs = Some 100"
proof -
  have c: "case demo_schedule 100 (StartDate 0) demo_claimed_app of Inl _ \<Rightarrow> False
     | Inr ((cs', created), db') \<Rightarrow> created \<and> cs_scheduled_start_at cs' = Some (seconds 32400) \<and>
         (case demo_schedule 200 (StartInstant 300) db' of Inl _ \<Rightarrow> False | Inr ((_, created), _) \<Rightarrow> \<not> created)" by code_simp
  then obtain cs' created db' where r0: "demo_schedule 100 (StartDate 0) demo_claimed_app = Inr ((cs', created), db')"
    by (cases "demo_schedule 100 (StartDate 0) demo_claimed_app") auto
  from c have r: "demo_schedule 100 (StartDate 0) demo_claimed_app = Inr ((cs', True), db')"
    and s: "cs_scheduled_start_at cs' = Some (seconds 32400)"
    and l: "case demo_schedule 200 (StartInstant 300) db' of Inl _ \<Rightarrow> False | Inr ((_, created), _) \<Rightarrow> \<not> created"
    unfolding r0 by simp_all
  from l obtain cs'' db'' where r2: "demo_schedule 200 (StartInstant 300) db' = Inr ((cs'', False), db'')"
    by (cases "demo_schedule 200 (StartInstant 300) db'") auto
  have ids: "distinct (map cs_id (sessions demo_claimed_app))"
    and tok: "get_by_token ''tok'' demo_claimed_app = Some demo_owned" and id: "cs_id demo_owned = 7" by code_simp+
  have "(session_call False)\<^sup>*\<^sup>* db' db''" using session_call.scheduled[OF r2] by blast
  with schedule_is_final[OF r ids tok, THEN conjunct2, THEN conjunct2, THEN conjunct2, THEN conjunct2, rule_format, of False db'']
  obtain cs where "get_session 7 db'' = Some cs" "cs_schedule_locked_at cs = Some 100"
    "cs_scheduled_start_at cs = cs_scheduled_start_at cs'" unfolding id by blast
  with r r2 s show ?thesis by auto
qed


end
