(* ===== verification/Operations.thy ===== *)
theory Operations
  imports Errors
begin

text \<open>
  Operations on a state that may raise. An operation returns the state also when it raises:
  what it committed, flushed or assigned before stays, and the caller decides what becomes
  of it. \<open>keeps\<close> and \<open>staged\<close> are the two ways in which the components reason about such
  operations: an invariant that holds whether they return or raise, and a point that they
  have either not reached or passed for good.
\<close>

type_synonym ('s, 'a) op = "'s \<Rightarrow> 's \<times> 'a res"

definition bind_op :: "('s, 'a) op \<Rightarrow> ('a \<Rightarrow> ('s, 'b) op) \<Rightarrow> ('s, 'b) op" where
  "bind_op m f s = (case m s of (s', Inl e) \<Rightarrow> (s', Inl e) | (s', Inr x) \<Rightarrow> f x s')"

definition lift_op :: "'a res \<Rightarrow> ('s, 'a) op" where
  "lift_op r s = (s, r)"

definition modify_op :: "('s \<Rightarrow> 's) \<Rightarrow> ('s, unit) op" where
  "modify_op f s = (f s, Inr ())"

lemma bind_op_Inr_iff: "bind_op m f s = (s', Inr y) \<longleftrightarrow> (\<exists>s1 x. m s = (s1, Inr x) \<and> f x s1 = (s', Inr y))"
  by (auto simp: bind_op_def split: prod.splits sum.splits)

lemma bind_opE:
  assumes "bind_op m f s = (s', Inr y)"
  obtains s1 x where "m s = (s1, Inr x)" "f x s1 = (s', Inr y)"
  using assms unfolding bind_op_Inr_iff by blast

lemma lift_opE:
  assumes "lift_op r s = (s', Inr x)" obtains "s' = s" "r = Inr x"
  using assms by (simp add: lift_op_def)

section \<open>Reasoning about operations\<close>

text \<open>
  \<open>keeps P m Q\<close>: the operation keeps the invariant \<open>P\<close> of the state whether it returns or
  raises, and what it returns satisfies \<open>Q\<close>.
\<close>

definition keeps :: "('s \<Rightarrow> bool) \<Rightarrow> ('s, 'a) op \<Rightarrow> ('a \<Rightarrow> bool) \<Rightarrow> bool" where
  "keeps P m Q \<longleftrightarrow> (\<forall>s s' x. P s \<longrightarrow> m s = (s', x) \<longrightarrow> P s' \<and> (\<forall>y. x = Inr y \<longrightarrow> Q y))"

named_theorems keeps_rules \<open>rules that show that an operation keeps an invariant\<close>

lemma keepsD:
  assumes "keeps P m Q" "m s = (s', x)" "P s"
  shows "P s'" and "x = Inr y \<Longrightarrow> Q y"
  using assms by (auto simp: keeps_def)

lemma keeps_bind [keeps_rules]:
  assumes m: "keeps P m Q" and f: "\<And>x. Q x \<Longrightarrow> keeps P (f x) R"
  shows "keeps P (bind_op m f) R"
  unfolding keeps_def
proof (intro allI impI)
  fix s s' x assume p: "P s" and r: "bind_op m f s = (s', x)"
  obtain s1 y where y: "m s = (s1, y)" by fastforce
  show "P s' \<and> (\<forall>y. x = Inr y \<longrightarrow> R y)"
  proof (cases y)
    case (Inl e)
    with r y have "s' = s1" "x = Inl e" by (auto simp: bind_op_def)
    with keepsD(1)[OF m y p] show ?thesis by simp
  next
    case (Inr z)
    with r y have "f z s1 = (s', x)" by (simp add: bind_op_def)
    with keepsD[OF m y p] f[of z] Inr show ?thesis by (auto simp: keeps_def)
  qed
qed

lemma keeps_lift [keeps_rules]: "(\<And>y. r = Inr y \<Longrightarrow> Q y) \<Longrightarrow> keeps P (lift_op r) Q"
  by (auto simp: keeps_def lift_op_def)

lemma keeps_modify [keeps_rules]: "(\<And>s. P s \<Longrightarrow> P (f s)) \<Longrightarrow> keeps P (modify_op f) (\<lambda>_. True)"
  by (auto simp: keeps_def modify_op_def)

lemma keeps_weaken: "keeps P m Q \<Longrightarrow> (\<And>y. Q y \<Longrightarrow> R y) \<Longrightarrow> keeps P m R"
  by (auto simp: keeps_def)

lemma keeps_bind_any:
  "keeps P m (\<lambda>_. True) \<Longrightarrow> (\<And>x. keeps P (f x) (\<lambda>_. True)) \<Longrightarrow> keeps P (bind_op m f) (\<lambda>_. True)"
  by (rule keeps_bind) auto

lemma keeps_lift_any: "keeps P (lift_op r) (\<lambda>_. True)"
  by (rule keeps_lift) simp

lemma keeps_if: "keeps P a Q \<Longrightarrow> keeps P b Q \<Longrightarrow> keeps P (if c then a else b) Q"
  by simp

section \<open>Stages of an operation\<close>

text \<open>\<open>staged P R m\<close>: whether \<open>m\<close> returns or raises, it stopped before it left \<open>P\<close> or it reached \<open>R\<close>.\<close>

definition staged :: "('s \<Rightarrow> bool) \<Rightarrow> ('s \<Rightarrow> bool) \<Rightarrow> ('s, 'a) op \<Rightarrow> bool" where
  "staged P R m \<longleftrightarrow> (\<forall>s s' x. P s \<longrightarrow> m s = (s', x) \<longrightarrow> P s' \<or> R s')"

lemma staged_keeps: "keeps P m (\<lambda>_. True) \<Longrightarrow> staged P R m"
  by (auto simp: staged_def keeps_def)

lemma staged_bind:
  assumes "keeps P m (\<lambda>_. True)" "\<And>x. staged P R (f x)"
  shows "staged P R (bind_op m f)"
  unfolding staged_def
proof (intro allI impI)
  fix s s' x
  assume "P s" "bind_op m f s = (s', x)"
  moreover obtain s1 y where m: "m s = (s1, y)" by fastforce
  ultimately show "P s' \<or> R s'"
    using keepsD(1)[OF assms(1) m] assms(2)[of "projr y", unfolded staged_def, rule_format, of s1 s' x]
    by (cases y) (auto simp: bind_op_def)
qed

lemma staged_enter:
  assumes "\<And>s s' x. P s \<Longrightarrow> m s = (s', x) \<Longrightarrow> R s'" "\<And>x. keeps R (f x) (\<lambda>_. True)"
  shows "staged P R (bind_op m f)"
  unfolding staged_def
proof (intro allI impI)
  fix s s' x
  assume "P s" "bind_op m f s = (s', x)"
  moreover obtain s1 y where m: "m s = (s1, y)" by fastforce
  ultimately show "P s' \<or> R s'"
    using assms(1)[OF \<open>P s\<close> m] assms(2)[of "projr y"] by (cases y) (auto simp: bind_op_def keeps_def)
qed

end
