(* ===== verification/Progress.thy ===== *)
theory Progress
  imports ScheduleFlow Operations
begin

text \<open>
  The rows of a candidate's work (submissions, drafts, cut-off audits, workspaces) and the
  progress of a session: which tasks are done, which is the current one, when the trial is
  complete (\<open>candidate_sessions_progress_*\<close>). A day's window is that of \<open>ScheduleGates\<close>.
\<close>

section \<open>Rows\<close>

record submission =
  sb_id :: int
  sb_candidate_session_id :: int
  sb_task_id :: int
  sb_recording_id :: "int option"
  sb_submitted_at :: datetime
  sb_content_text :: json
  sb_content_json :: json
  sb_code_repo_path :: "string option"
  sb_commit_sha :: "string option"
  sb_checkpoint_sha :: "string option"
  sb_final_sha :: "string option"
  sb_workflow_run_id :: "string option"
  sb_workflow_run_attempt :: "int option"
  sb_workflow_run_status :: "string option"
  sb_workflow_run_conclusion :: "string option"
  sb_workflow_run_completed_at :: "datetime option"
  sb_diff_summary_json :: "string option"
  sb_tests_passed :: "int option"
  sb_tests_failed :: "int option"
  sb_test_output :: "string option"
  sb_last_run_at :: "datetime option"

record task_draft =
  td_candidate_session_id :: int
  td_task_id :: int
  td_content_text :: json
  td_content_json :: json
  td_updated_at :: datetime
  td_finalized_at :: "datetime option"
  td_finalized_submission_id :: "int option"

record day_audit =
  da_candidate_session_id :: int
  da_day_index :: int
  da_cutoff_at :: datetime
  da_cutoff_commit_sha :: string
  da_eval_basis_ref :: string

text \<open>The columns of a workspace and of a workspace group that the cleanup jobs keep.\<close>

record cleanup_columns =
  cl_status :: "string option"
  cl_attempted_at :: "datetime option"
  cl_cleaned_at :: "datetime option"
  cl_error :: "string option"
  cl_retention_expires_at :: "datetime option"

record workspace =
  ws_id :: string
  ws_workspace_group_id :: "string option"
  ws_candidate_session_id :: int
  ws_task_id :: int
  ws_template_repo_full_name :: "string option"
  ws_repo_full_name :: string
  ws_default_branch :: "string option"
  ws_bootstrap_commit_sha :: "string option"
  ws_created_at :: datetime
  ws_latest_commit_sha :: "string option"
  ws_last_workflow_run_id :: "string option"
  ws_last_workflow_conclusion :: "string option"
  ws_last_test_summary_json :: "string option"
  ws_cleanup :: cleanup_columns
  ws_access_revoked_at :: "datetime option"
  ws_access_revocation_error :: "string option"

record workspace_group =
  wg_id :: string
  wg_candidate_session_id :: int
  wg_workspace_key :: string
  wg_template_repo_full_name :: "string option"
  wg_repo_full_name :: string
  wg_created_at :: datetime
  wg_cleanup :: cleanup_columns
  wg_access_revoked_at :: "datetime option"
  wg_access_revocation_error :: "string option"

record work_db =
  wk_app :: app_db
  wk_tasks :: "task list"
  wk_submissions :: "submission list"
  wk_next_submission_id :: int
  wk_drafts :: "task_draft list"
  wk_audits :: "day_audit list"
  wk_workspaces :: "workspace list"
  wk_workspace_groups :: "workspace_group list"

definition submission_key :: "submission \<Rightarrow> int \<times> int" where
  "submission_key s = (sb_candidate_session_id s, sb_task_id s)"

definition draft_key :: "task_draft \<Rightarrow> int \<times> int" where
  "draft_key d = (td_candidate_session_id d, td_task_id d)"

definition audit_key :: "day_audit \<Rightarrow> int \<times> int" where
  "audit_key a = (da_candidate_session_id a, da_day_index a)"

section \<open>Queries\<close>

definition tasks_for_trial :: "int \<Rightarrow> work_db \<Rightarrow> task list" where
  "tasks_for_trial trial_id db = sort_key tk_day_index (sort_key tk_id (filter (\<lambda>t. tk_trial_id t = trial_id) (wk_tasks db)))"

definition completed_task_ids :: "int \<Rightarrow> work_db \<Rightarrow> int list" where
  "completed_task_ids c db = remdups (map sb_task_id (filter (\<lambda>s. sb_candidate_session_id s = c) (wk_submissions db)))"

definition load_task :: "int \<Rightarrow> work_db \<Rightarrow> task option" where
  "load_task i db = find_row (\<lambda>t. tk_id t = i) (wk_tasks db)"

definition get_submission :: "int \<Rightarrow> int \<Rightarrow> work_db \<Rightarrow> submission option" where
  "get_submission c t db = find_row (\<lambda>s. submission_key s = (c, t)) (wk_submissions db)"

definition get_draft :: "int \<Rightarrow> int \<Rightarrow> work_db \<Rightarrow> task_draft option" where
  "get_draft c t db = find_row (\<lambda>d. draft_key d = (c, t)) (wk_drafts db)"

definition get_day_audit :: "int \<Rightarrow> int \<Rightarrow> work_db \<Rightarrow> day_audit option" where
  "get_day_audit c day db = find_row (\<lambda>a. audit_key a = (c, day)) (wk_audits db)"

definition load_tasks_with_completion_state :: "int \<Rightarrow> int \<Rightarrow> work_db \<Rightarrow> (task list \<times> int list) res" where
  "load_tasks_with_completion_state trial_id c db =
     (let tasks = tasks_for_trial trial_id db
      in if tasks = [] then Inl (HTTPError 500 ''Trial has no tasks'')
         else Inr (tasks, map tk_id (filter (\<lambda>t. tk_id t \<in> set (completed_task_ids c db)) tasks)))"

section \<open>The current task\<close>

definition compute_current_task :: "task list \<Rightarrow> int list \<Rightarrow> task option" where
  "compute_current_task tasks completed = find_row (\<lambda>t. tk_id t \<notin> set completed) (sort_key tk_day_index tasks)"

definition summarize_progress :: "int \<Rightarrow> int list \<Rightarrow> int \<times> int \<times> bool" where
  "summarize_progress total_tasks completed =
     (let done_count = int (length (remdups completed)); overall = max total_tasks 0
      in (done_count, overall, overall > 0 \<and> done_count \<ge> overall))"

definition handoff_revisit_task ::
    "(task \<Rightarrow> task_window res) \<Rightarrow> task list \<Rightarrow> int list \<Rightarrow> task option \<Rightarrow> datetime \<Rightarrow> task option res" where
  "handoff_revisit_task window tasks completed current now =
     (case current of
        None \<Rightarrow> Inr None
      | Some t \<Rightarrow>
          if tk_day_index t \<le> 1 then Inr (Some t)
          else (case find_row (\<lambda>p. tk_day_index p = tk_day_index t - 1 \<and> tk_id p \<in> set completed \<and>
                                 py_lower (tk_type p) = ''handoff'') tasks of
                  None \<Rightarrow> Inr (Some t)
                | Some p \<Rightarrow> bind_result (window t) (\<lambda>w.
                    Inr (Some (case tw_window_start_at w of
                                 None \<Rightarrow> p | Some start \<Rightarrow> if now < start then p else t)))))"

text \<open>A Day 5 submission counts only from the start of the Day 5 window.\<close>

fun discard_early ::
    "(task \<Rightarrow> task_window res) \<Rightarrow> datetime \<Rightarrow> task list \<Rightarrow> int list \<Rightarrow> int list res" where
  "discard_early window now [] ids = Inr ids"
| "discard_early window now (t # ts) ids =
     (if tk_day_index t \<noteq> 5 \<or> tk_id t \<notin> set ids then discard_early window now ts ids
      else bind_result (window t) (\<lambda>w.
        discard_early window now ts
          (case tw_window_start_at w of
             None \<Rightarrow> ids | Some start \<Rightarrow> if now < start then removeAll (tk_id t) ids else ids)))"

record progress =
  pg_tasks :: "task list"
  pg_completed_ids :: "int list"
  pg_current :: "task option"
  pg_completed :: int
  pg_total :: int
  pg_is_complete :: bool

definition progress_of :: "(task \<Rightarrow> task_window res) \<Rightarrow> datetime \<Rightarrow> task list \<Rightarrow> int list \<Rightarrow> progress res" where
  "progress_of window now tasks submitted =
     bind_result (discard_early window now tasks submitted) (\<lambda>completed_ids.
     bind_result (handoff_revisit_task window tasks completed_ids (compute_current_task tasks completed_ids) now) (\<lambda>current.
     Inr (case summarize_progress (int (length tasks)) completed_ids of
            (completed, overall, is_complete) \<Rightarrow>
              \<lparr>pg_tasks = tasks, pg_completed_ids = completed_ids, pg_current = current,
               pg_completed = completed, pg_total = overall, pg_is_complete = is_complete\<rparr>)))"

definition progress_snapshot ::
    "tz_database \<Rightarrow> (string \<Rightarrow> datetime option) \<Rightarrow> candidate_session \<Rightarrow> task list \<Rightarrow> datetime \<Rightarrow> work_db \<Rightarrow> progress res" where
  "progress_snapshot tz from_iso cs tasks now db =
     bind_result
       (if tasks \<noteq> [] then Inr (tasks, completed_task_ids (cs_id cs) db)
        else load_tasks_with_completion_state (cs_trial_id cs) (cs_id cs) db) (\<lambda>(task_list, submitted).
     progress_of (\<lambda>t. compute_task_window tz from_iso (wk_app db) cs t now) now task_list submitted)"

section \<open>What the snapshot says\<close>

lemma in_tasks_for_trial: "t \<in> set (tasks_for_trial i db) \<longleftrightarrow> t \<in> set (wk_tasks db) \<and> tk_trial_id t = i"
  by (auto simp: tasks_for_trial_def)

lemma in_completed: "i \<in> set (completed_task_ids c db) \<longleftrightarrow> (\<exists>s \<in> set (wk_submissions db). submission_key s = (c, i))"
  by (auto simp: completed_task_ids_def submission_key_def)

lemma find_row_sorted:
  assumes "sorted (map f xs)" "find_row P xs = Some x" "y \<in> set xs" "f y < f x"
  shows "\<not> P y"
  using assms
proof (induction xs)
  case (Cons z zs)
  then show ?case by (cases "P z") (auto simp: find_row_Cons dest: find_row_SomeD)
qed simp

lemma current_task_next:
  assumes "compute_current_task tasks ids = Some t"
  shows "t \<in> set tasks \<and> tk_id t \<notin> set ids \<and> (\<forall>u \<in> set tasks. tk_day_index u < tk_day_index t \<longrightarrow> tk_id u \<in> set ids)"
  using assms find_row_SomeD[OF assms[unfolded compute_current_task_def]]
    find_row_sorted[of tk_day_index "sort_key tk_day_index tasks" _ t]
  unfolding compute_current_task_def by (auto simp: sorted_sort_key)

lemma current_task_None: "compute_current_task tasks ids = None \<longleftrightarrow> (\<forall>t \<in> set tasks. tk_id t \<in> set ids)"
  by (auto simp: compute_current_task_def find_row_None_iff)

lemma discard_early_kept:
  assumes "discard_early window now ts ids = Inr kept"
  shows "set kept \<subseteq> set ids \<and> (\<forall>i \<in> set ids - set kept. \<exists>t \<in> set ts. tk_id t = i \<and> tk_day_index t = 5 \<and>
     (\<exists>w start. window t = Inr w \<and> tw_window_start_at w = Some start \<and> now < start))"
  using assms
proof (induction ts arbitrary: ids)
  case (Cons t ts)
  show ?case
  proof (cases "tk_day_index t \<noteq> 5 \<or> tk_id t \<notin> set ids")
    case True
    with Cons show ?thesis by fastforce
  next
    case False
    with Cons.prems obtain w where w: "window t = Inr w"
      and d: "discard_early window now ts (case tw_window_start_at w of None \<Rightarrow> ids
          | Some start \<Rightarrow> if now < start then removeAll (tk_id t) ids else ids) = Inr kept" by (auto elim: bind_resultE)
    note IH = Cons.IH[OF d]
    show ?thesis
    proof (cases "\<exists>start. tw_window_start_at w = Some start \<and> now < start")
      case True
      with IH w False show ?thesis by fastforce
    next
      case same: False
      then have "(case tw_window_start_at w of None \<Rightarrow> ids | Some start \<Rightarrow> if now < start then removeAll (tk_id t) ids else ids) = ids"
        by (auto split: option.splits)
      with IH show ?thesis by auto
    qed
  qed
qed simp

lemma progress_of_Inr:
  assumes "progress_of window now tasks submitted = Inr p"
  obtains "pg_tasks p = tasks" "discard_early window now tasks submitted = Inr (pg_completed_ids p)"
    "handoff_revisit_task window tasks (pg_completed_ids p) (compute_current_task tasks (pg_completed_ids p)) now = Inr (pg_current p)"
    "summarize_progress (int (length tasks)) (pg_completed_ids p) = (pg_completed p, pg_total p, pg_is_complete p)"
  using assms by (auto simp: progress_of_def summarize_progress_def Let_def elim!: bind_resultE)

lemma handoff_revisit_cases:
  assumes "handoff_revisit_task window tasks ids current now = Inr r"
  obtains "r = current"
  | t p w where "current = Some t" "r = Some p" "p \<in> set tasks" "tk_id p \<in> set ids" "py_lower (tk_type p) = ''handoff''"
      "tk_day_index p = tk_day_index t - 1" "window t = Inr w" "\<forall>start. tw_window_start_at w = Some start \<longrightarrow> now < start"
proof (cases current)
  case None
  with assms show thesis by (intro that(1)) (simp add: handoff_revisit_task_def)
next
  case (Some t)
  show thesis
  proof (cases "r = current")
    case False
    let ?P = "\<lambda>p. tk_day_index p = tk_day_index t - 1 \<and> tk_id p \<in> set ids \<and> py_lower (tk_type p) = ''handoff''"
    from assms Some False have n: "\<not> tk_day_index t \<le> 1" by (auto simp: handoff_revisit_task_def)
    with assms Some False obtain p where p: "find_row ?P tasks = Some p"
      by (cases "find_row ?P tasks") (auto simp: handoff_revisit_task_def)
    with assms Some n obtain w where w: "window t = Inr w"
      and r: "r = Some (case tw_window_start_at w of None \<Rightarrow> p | Some start \<Rightarrow> if now < start then p else t)"
      by (auto simp: handoff_revisit_task_def bind_result_Inr_iff)
    from r False Some have "r = Some p" "\<forall>start. tw_window_start_at w = Some start \<longrightarrow> now < start"
      by (auto split: option.splits if_splits)
    with find_row_SomeD[OF p] that(2)[OF Some _ _ _ _ _ w] show thesis by blast
  qed (rule that(1))
qed

text \<open>
  The current task, exactly: there is none when every task is done; otherwise it is an open
  task before which every earlier day is done, or the finished handoff of the day before
  such a task while that task's window has not begun.
\<close>

lemma current_task_exact:
  assumes "progress_of window now tasks submitted = Inr p"
  shows "(pg_current p = None \<longleftrightarrow> (\<forall>t \<in> set tasks. tk_id t \<in> set (pg_completed_ids p)))"
    and "pg_current p = Some t \<Longrightarrow> t \<in> set tasks \<and>
      (tk_id t \<notin> set (pg_completed_ids p) \<and> (\<forall>u \<in> set tasks. tk_day_index u < tk_day_index t \<longrightarrow> tk_id u \<in> set (pg_completed_ids p)) \<or>
       tk_id t \<in> set (pg_completed_ids p) \<and> py_lower (tk_type t) = ''handoff'' \<and>
         (\<exists>u \<in> set tasks. tk_id u \<notin> set (pg_completed_ids p) \<and> tk_day_index u = tk_day_index t + 1 \<and>
            (\<exists>w. window u = Inr w \<and> (\<forall>start. tw_window_start_at w = Some start \<longrightarrow> now < start))))"
proof -
  from assms have h: "handoff_revisit_task window tasks (pg_completed_ids p) (compute_current_task tasks (pg_completed_ids p)) now = Inr (pg_current p)"
    by (rule progress_of_Inr)
  show "pg_current p = None \<longleftrightarrow> (\<forall>t \<in> set tasks. tk_id t \<in> set (pg_completed_ids p))"
    using h by (rule handoff_revisit_cases) (auto simp: current_task_None[symmetric])
  show "t \<in> set tasks \<and>
      (tk_id t \<notin> set (pg_completed_ids p) \<and> (\<forall>u \<in> set tasks. tk_day_index u < tk_day_index t \<longrightarrow> tk_id u \<in> set (pg_completed_ids p)) \<or>
       tk_id t \<in> set (pg_completed_ids p) \<and> py_lower (tk_type t) = ''handoff'' \<and>
         (\<exists>u \<in> set tasks. tk_id u \<notin> set (pg_completed_ids p) \<and> tk_day_index u = tk_day_index t + 1 \<and>
            (\<exists>w. window u = Inr w \<and> (\<forall>start. tw_window_start_at w = Some start \<longrightarrow> now < start))))"
    if c: "pg_current p = Some t"
    using h
  proof (rule handoff_revisit_cases)
    assume "pg_current p = compute_current_task tasks (pg_completed_ids p)"
    with c current_task_next[of tasks "pg_completed_ids p" t] show ?thesis by simp
  next
    fix u q w
    assume a: "compute_current_task tasks (pg_completed_ids p) = Some u" "pg_current p = Some q" "q \<in> set tasks"
      "tk_id q \<in> set (pg_completed_ids p)" "py_lower (tk_type q) = ''handoff''" "tk_day_index q = tk_day_index u - 1"
      "window u = Inr w" "\<forall>start. tw_window_start_at w = Some start \<longrightarrow> now < start"
    have u: "u \<in> set tasks" "tk_id u \<notin> set (pg_completed_ids p)" using current_task_next[OF a(1)] by auto
    from a(2) c have q: "t = q" by simp
    have "tk_day_index u = tk_day_index q + 1" using a(6) by simp
    with u a(7,8) have "\<exists>u \<in> set tasks. tk_id u \<notin> set (pg_completed_ids p) \<and> tk_day_index u = tk_day_index q + 1 \<and>
       (\<exists>w. window u = Inr w \<and> (\<forall>start. tw_window_start_at w = Some start \<longrightarrow> now < start))" by blast
    with a(3,4,5) show ?thesis unfolding q by blast
  qed
qed

lemma complete_iff_all_done:
  assumes "progress_of window now tasks submitted = Inr p" "distinct (map tk_id tasks)" "set submitted \<subseteq> tk_id ` set tasks"
  shows "pg_is_complete p \<longleftrightarrow> tasks \<noteq> [] \<and> (\<forall>t \<in> set tasks. tk_id t \<in> set (pg_completed_ids p))"
proof -
  have d: "discard_early window now tasks submitted = Inr (pg_completed_ids p)" by (rule progress_of_Inr[OF assms(1)])
  have s: "summarize_progress (int (length tasks)) (pg_completed_ids p) = (pg_completed p, pg_total p, pg_is_complete p)"
    by (rule progress_of_Inr[OF assms(1)])
  let ?c = "set (pg_completed_ids p)" and ?t = "tk_id ` set tasks"
  have sub: "?c \<subseteq> ?t" using discard_early_kept[OF d] assms(3) by blast
  have n: "card ?t = length tasks" using assms(2) by (metis distinct_card length_map list.set_map)
  have "pg_is_complete p \<longleftrightarrow> tasks \<noteq> [] \<and> length tasks \<le> card ?c"
    using s by (auto simp: summarize_progress_def Let_def length_remdups_card_conv)
  also have "length tasks \<le> card ?c \<longleftrightarrow> ?t \<subseteq> ?c"
    using sub n by (metis List.finite_set card_mono card_seteq finite_imageI order_refl subset_antisym)
  finally show ?thesis by auto
qed

end
