(* ===== verification/RateLimits.thy ===== *)
theory RateLimits
  imports Operations PyTime
begin

text \<open>
  The in-process rate limiter (\<open>app/shared/auth/rate_limit\<close>): a sliding window per key, a
  minimal interval per key, and a bound on calls in flight. Times are readings of the
  monotonic clock, taken as exact numbers; the limiter lives in the memory of the process
  and is no part of any transaction.
\<close>

record rate_limit_rule =
  rl_limit :: int
  rl_window_seconds :: int

record limiter =
  lm_store :: "string \<Rightarrow> int list"
  lm_last_seen :: "string \<Rightarrow> int option"
  lm_in_flight :: "string \<Rightarrow> int option"

definition new_limiter :: limiter where
  "new_limiter = \<lparr>lm_store = (\<lambda>_. []), lm_last_seen = (\<lambda>_. None), lm_in_flight = (\<lambda>_. None)\<rparr>"

definition too_many_requests :: error where
  "too_many_requests = HTTPError 429 ''Too many requests. Please slow down.''"

definition rate_limit_key :: "string list \<Rightarrow> string" where
  "rate_limit_key parts = py_join '':'' (filter (\<lambda>p. p \<noteq> []) parts)"

definition allow :: "string \<Rightarrow> rate_limit_rule \<Rightarrow> int \<Rightarrow> (limiter, unit) op" where
  "allow key rule now l =
     (let entries = filter (\<lambda>t. now - t \<le> rl_window_seconds rule) (lm_store l key)
      in if rl_limit rule \<le> int (length entries) then (l, Inl too_many_requests)
         else (l\<lparr>lm_store := (lm_store l)(key := entries @ [now])\<rparr>, Inr ()))"

definition throttle :: "string \<Rightarrow> int \<Rightarrow> int \<Rightarrow> (limiter, unit) op" where
  "throttle key min_interval_seconds now l =
     (case lm_last_seen l key of
        Some prior \<Rightarrow>
          if now - prior < min_interval_seconds then (l, Inl too_many_requests)
          else (l\<lparr>lm_last_seen := (lm_last_seen l)(key := Some now)\<rparr>, Inr ())
      | None \<Rightarrow> (l\<lparr>lm_last_seen := (lm_last_seen l)(key := Some now)\<rparr>, Inr ()))"

text \<open>Entering and leaving the concurrency guard.\<close>

definition guard_enter :: "string \<Rightarrow> int \<Rightarrow> (limiter, unit) op" where
  "guard_enter key max_in_flight l =
     (let current = (case lm_in_flight l key of None \<Rightarrow> 0 | Some n \<Rightarrow> n)
      in if max_in_flight \<le> current then (l, Inl too_many_requests)
         else (l\<lparr>lm_in_flight := (lm_in_flight l)(key := Some (current + 1))\<rparr>, Inr ()))"

definition guard_exit :: "string \<Rightarrow> limiter \<Rightarrow> limiter" where
  "guard_exit key l =
     (let remaining = (case lm_in_flight l key of None \<Rightarrow> 1 | Some n \<Rightarrow> n) - 1
      in l\<lparr>lm_in_flight := (lm_in_flight l)(key := (if remaining \<le> 0 then None else Some remaining))\<rparr>)"

definition task_rule :: "string \<Rightarrow> rate_limit_rule" where
  "task_rule action =
     (if action = ''init'' then \<lparr>rl_limit = 20, rl_window_seconds = seconds 30\<rparr>
      else if action = ''run'' then \<lparr>rl_limit = 20, rl_window_seconds = seconds 3600\<rparr>
      else if action = ''poll'' then \<lparr>rl_limit = 15, rl_window_seconds = seconds 30\<rparr>
      else if action = ''submit'' then \<lparr>rl_limit = 10, rl_window_seconds = seconds 30\<rparr>
      else \<lparr>rl_limit = 5, rl_window_seconds = seconds 30\<rparr>)"

definition apply_rate_limit :: "bool \<Rightarrow> int \<Rightarrow> string \<Rightarrow> int \<Rightarrow> (limiter, unit) op" where
  "apply_rate_limit enabled candidate_session_id action now =
     (if enabled then allow (rate_limit_key [''tasks'', int_str candidate_session_id, action]) (task_rule action) now
      else lift_op (Inr ()))"

definition throttle_poll :: "bool \<Rightarrow> int \<Rightarrow> int \<Rightarrow> int \<Rightarrow> (limiter, unit) op" where
  "throttle_poll enabled candidate_session_id run_id now =
     (if enabled then throttle (rate_limit_key [''tasks'', int_str candidate_session_id, ''poll'', int_str run_id]) (seconds 2) now
      else lift_op (Inr ()))"

section \<open>The sliding window\<close>

text \<open>The times at which a sequence of calls was let through for a key.\<close>

fun accepted :: "string \<Rightarrow> (string \<times> rate_limit_rule \<times> int) list \<Rightarrow> limiter \<Rightarrow> int list" where
  "accepted key [] l = []"
| "accepted key ((k, rule, now) # calls) l =
     (case allow k rule now l of
        (l', Inl _) \<Rightarrow> accepted key calls l'
      | (l', Inr _) \<Rightarrow> (if k = key then [now] else []) @ accepted key calls l')"

lemma length_filter_mono: "(\<And>x. P x \<Longrightarrow> Q x) \<Longrightarrow> length (filter P xs) \<le> length (filter Q xs)"
  by (induction xs) (auto simp: le_Suc_eq)

definition in_window :: "int \<Rightarrow> int \<Rightarrow> int \<Rightarrow> bool" where
  "in_window w a t \<longleftrightarrow> a \<le> t \<and> t \<le> a + w"

lemma accepted_bound:
  assumes "\<forall>(k, r, t) \<in> set calls. k = key \<longrightarrow> r = rule" "sorted_wrt (\<lambda>c d. snd (snd c) \<le> snd (snd d)) calls"
    "\<forall>(k, r, t) \<in> set calls. prior \<le> t" "lm_store l key = filter (\<lambda>t. prior - t \<le> rl_window_seconds rule) past"
    "\<forall>a. int (length (filter (in_window (rl_window_seconds rule) a) past)) \<le> rl_limit rule"
  shows "int (length (filter (in_window (rl_window_seconds rule) a) (past @ accepted key calls l))) \<le> rl_limit rule"
  using assms
proof (induction calls arbitrary: l past prior)
  case (Cons c calls)
  obtain k r now where c: "c = (k, r, now)" by (cases c)
  let ?w = "rl_window_seconds rule"
  have prems: "\<forall>(k, r, t) \<in> set calls. k = key \<longrightarrow> r = rule" "sorted_wrt (\<lambda>c d. snd (snd c) \<le> snd (snd d)) calls"
    "prior \<le> now" "\<forall>(k, r, t) \<in> set calls. now \<le> t" "\<forall>(k, r, t) \<in> set calls. prior \<le> t"
    using Cons.prems(1-3) c by fastforce+
  obtain l' x where al: "allow k r now l = (l', x)" by fastforce
  show ?case
  proof (cases "k = key \<and> isl x = False")
    case False
    then have "lm_store l' key = lm_store l key" using al by (auto simp: allow_def Let_def split: if_splits)
    with False al c Cons.IH[OF prems(1,2,5) _ Cons.prems(5), of l'] Cons.prems(4) show ?thesis
      by (auto split: sum.splits)
  next
    case True
    have r: "r = rule" using True Cons.prems(1) c by auto
    let ?near = "filter (\<lambda>t. now - t \<le> ?w) past"
    have "filter (\<lambda>t. now - t \<le> ?w) (lm_store l key) = ?near"
      unfolding Cons.prems(4) filter_filter using prems(3) by (intro filter_cong) auto
    with al True r have st: "lm_store l' key = ?near @ [now]" and few: "int (length ?near) < rl_limit rule" and x: "x = Inr ()"
      by (auto simp: allow_def Let_def split: if_splits)
    have room: "int (length (filter (in_window ?w b) (past @ [now]))) \<le> rl_limit rule" for b
    proof (cases "in_window ?w b now")
      case True
      then have "length (filter (in_window ?w b) past) \<le> length ?near"
        by (intro length_filter_mono) (auto simp: in_window_def)
      with True few show ?thesis by simp
    next
      case False
      with Cons.prems(5) show ?thesis by simp
    qed
    show ?thesis
    proof (cases "0 \<le> ?w")
      case w: True
      then have "lm_store l' key = filter (\<lambda>t. now - t \<le> ?w) (past @ [now])" using st by simp
      from Cons.IH[OF prems(1,2,4) this] room al c True x show ?thesis by auto
    next
      case w: False
      then have "in_window ?w b t = False" for b t by (auto simp: in_window_def)
      with few show ?thesis by simp
    qed
  qed
qed simp

text \<open>
  Property C36. The limiter never lets through more than \<open>limit\<close> calls of a key in any interval of
  the rule's length, whatever calls of other keys come between, for calls in the order of the
  clock.
\<close>

theorem rate_limit_window_bound:
  assumes "\<forall>(k, r, t) \<in> set calls. k = key \<longrightarrow> r = rule" "sorted_wrt (\<lambda>c d. snd (snd c) \<le> snd (snd d)) calls"
    and "0 \<le> rl_limit rule"
  shows "int (length (filter (\<lambda>t. a \<le> t \<and> t \<le> a + rl_window_seconds rule) (accepted key calls new_limiter))) \<le> rl_limit rule"
proof -
  obtain prior where "\<forall>(k, r, t) \<in> set calls. prior \<le> t"
  proof (cases calls)
    case (Cons c cs)
    with assms(2) show thesis by (intro that[of "snd (snd c)"]) auto
  qed (use that in auto)
  from accepted_bound[OF assms(1,2) this, of new_limiter "[]" a] assms(3) show ?thesis
    by (simp add: new_limiter_def in_window_def[abs_def])
qed

definition demo_calls :: "(string \<times> rate_limit_rule \<times> int) list" where
  "demo_calls = (let r = \<lparr>rl_limit = 2, rl_window_seconds = 10\<rparr> in
     [(''a'', r, 0), (''a'', r, 1), (''b'', r, 2), (''a'', r, 10), (''a'', r, 11), (''a'', r, 12)])"

theorem rate_limit_window_bound_witness:
  "accepted ''a'' demo_calls new_limiter = [0, 1, 11, 12] \<and>
   length (filter (\<lambda>t. 1 \<le> t \<and> t \<le> 1 + 10) (accepted ''a'' demo_calls new_limiter)) \<le> 2"
proof -
  let ?r = "\<lparr>rl_limit = 2, rl_window_seconds = 10\<rparr>"
  have "\<forall>(k, r, t) \<in> set demo_calls. k = ''a'' \<longrightarrow> r = ?r" "sorted_wrt (\<lambda>c d. snd (snd c) \<le> snd (snd d)) demo_calls"
    by (simp_all add: demo_calls_def Let_def)
  from rate_limit_window_bound[OF this, of 1] have "length (filter (\<lambda>t. 1 \<le> t \<and> t \<le> 1 + 10) (accepted ''a'' demo_calls new_limiter)) \<le> 2"
    by simp
  moreover have "accepted ''a'' demo_calls new_limiter = [0, 1, 11, 12]" by code_simp
  ultimately show ?thesis by blast
qed

section \<open>The limiter without pruning\<close>

text \<open>The rule read off the complete log of the calls that were let through.\<close>

definition log_allows :: "rate_limit_rule \<Rightarrow> int \<Rightarrow> int list \<Rightarrow> bool" where
  "log_allows rule now log \<longleftrightarrow> int (length (filter (\<lambda>t. now - t \<le> rl_window_seconds rule) log)) < rl_limit rule"

fun accepted_by_log :: "string \<Rightarrow> (string \<times> rate_limit_rule \<times> int) list \<Rightarrow> int list \<Rightarrow> int list" where
  "accepted_by_log key [] log = []"
| "accepted_by_log key ((k, rule, now) # calls) log =
     (if k = key \<and> log_allows rule now log then now # accepted_by_log key calls (log @ [now])
      else accepted_by_log key calls log)"

lemma accepted_log_eq:
  assumes "\<forall>(k, r, t) \<in> set calls. k = key \<longrightarrow> r = rule" "sorted_wrt (\<lambda>c d. snd (snd c) \<le> snd (snd d)) calls"
    "\<forall>(k, r, t) \<in> set calls. prior \<le> t" "lm_store l key = filter (\<lambda>t. prior - t \<le> rl_window_seconds rule) log"
    "0 \<le> rl_window_seconds rule"
  shows "accepted key calls l = accepted_by_log key calls log"
  using assms
proof (induction calls arbitrary: l log prior)
  case (Cons c calls)
  obtain k r now where c: "c = (k, r, now)" by (cases c)
  let ?w = "rl_window_seconds rule"
  have prems: "\<forall>(k, r, t) \<in> set calls. k = key \<longrightarrow> r = rule" "sorted_wrt (\<lambda>c d. snd (snd c) \<le> snd (snd d)) calls"
    "prior \<le> now" "\<forall>(k, r, t) \<in> set calls. now \<le> t" "\<forall>(k, r, t) \<in> set calls. prior \<le> t"
    using Cons.prems(1-3) c by fastforce+
  obtain l' x where al: "allow k r now l = (l', x)" by fastforce
  show ?case
  proof (cases "k = key")
    case False
    then have "lm_store l' key = lm_store l key" using al by (auto simp: allow_def Let_def split: if_splits)
    with False al c Cons.IH[OF prems(1,2,5) _ Cons.prems(5), of l' log] Cons.prems(4) show ?thesis by (auto split: sum.splits)
  next
    case True
    have r: "r = rule" using True Cons.prems(1) c by auto
    have near: "filter (\<lambda>t. now - t \<le> ?w) (lm_store l key) = filter (\<lambda>t. now - t \<le> ?w) log"
      unfolding Cons.prems(4) filter_filter using prems(3) by (intro filter_cong) auto
    show ?thesis
    proof (cases "log_allows rule now log")
      case ok: True
      with al True r near have "lm_store l' key = filter (\<lambda>t. now - t \<le> ?w) (log @ [now])" "x = Inr ()"
        using Cons.prems(5) by (auto simp: allow_def log_allows_def Let_def split: if_splits)
      with Cons.IH[OF prems(1,2,4) this(1) Cons.prems(5)] al c True r ok show ?thesis by simp
    next
      case no: False
      with al True r near have "l' = l" "x = Inl too_many_requests"
        by (auto simp: allow_def log_allows_def Let_def split: if_splits)
      with Cons.IH[OF prems(1,2,5) Cons.prems(4,5)] al c True r no show ?thesis by simp
    qed
  qed
qed simp

text \<open>
  Property C37. Pruning loses nothing: for calls in the order of the clock, the limiter, which
  forgets what has left the window, lets through exactly the calls that the rule lets through
  on the complete log.
\<close>

theorem limiter_equals_full_log:
  assumes "\<forall>(k, r, t) \<in> set calls. k = key \<longrightarrow> r = rule" "sorted_wrt (\<lambda>c d. snd (snd c) \<le> snd (snd d)) calls"
    and "0 \<le> rl_window_seconds rule"
  shows "accepted key calls new_limiter = accepted_by_log key calls []"
proof -
  obtain prior where "\<forall>(k, r, t) \<in> set calls. prior \<le> t"
  proof (cases calls)
    case (Cons c cs)
    with assms(2) show thesis by (intro that[of "snd (snd c)"]) auto
  qed (use that in auto)
  from accepted_log_eq[OF assms(1,2) this _ assms(3), of new_limiter "[]"] show ?thesis by (simp add: new_limiter_def)
qed

theorem limiter_equals_full_log_witness:
  "accepted ''a'' demo_calls new_limiter = accepted_by_log ''a'' demo_calls [] \<and> accepted_by_log ''a'' demo_calls [] = [0, 1, 11, 12]"
proof -
  let ?r = "\<lparr>rl_limit = 2, rl_window_seconds = 10\<rparr>"
  have "\<forall>(k, r, t) \<in> set demo_calls. k = ''a'' \<longrightarrow> r = ?r" "sorted_wrt (\<lambda>c d. snd (snd c) \<le> snd (snd d)) demo_calls"
    by (simp_all add: demo_calls_def Let_def)
  from limiter_equals_full_log[OF this] have "accepted ''a'' demo_calls new_limiter = accepted_by_log ''a'' demo_calls []" by simp
  moreover have "accepted_by_log ''a'' demo_calls [] = [0, 1, 11, 12]" by code_simp
  ultimately show ?thesis by blast
qed

section \<open>Calls in flight\<close>

text \<open>Two tasks take turns at the guard; \<open>inside\<close> counts those of a key that are inside it.\<close>

inductive guard_step :: "string \<Rightarrow> int \<Rightarrow> limiter \<times> nat \<Rightarrow> limiter \<times> nat \<Rightarrow> bool" for key n where
  entered: "guard_enter key n l = (l', Inr ()) \<Longrightarrow> guard_step key n (l, inside) (l', Suc inside)"
| refused: "guard_enter key n l = (l', Inl e) \<Longrightarrow> guard_step key n (l, inside) (l', inside)"
| left: "guard_step key n (l, Suc inside) (guard_exit key l, inside)"
| other: "lm_in_flight l' key = lm_in_flight l key \<Longrightarrow> guard_step key n (l, inside) (l', inside)"

definition guard_inv :: "string \<Rightarrow> int \<Rightarrow> limiter \<times> nat \<Rightarrow> bool" where
  "guard_inv key n s \<longleftrightarrow> lm_in_flight (fst s) key = (if snd s = 0 then None else Some (int (snd s))) \<and> int (snd s) \<le> max n 0"

definition guard_start :: "limiter \<times> nat \<Rightarrow> bool" where
  "guard_start s \<longleftrightarrow> s = (new_limiter, 0)"

lemma guard_step_inv: "guard_step key n s t \<Longrightarrow> guard_inv key n s \<Longrightarrow> guard_inv key n t"
  by (induction rule: guard_step.induct)
    (auto simp: guard_inv_def guard_enter_def guard_exit_def Let_def split: if_splits)

interpretation concurrency_guard: step_system guard_start "guard_step key n" "guard_inv key n" for key n
  by unfold_locales (auto simp: guard_start_def guard_inv_def new_limiter_def dest: guard_step_inv)

lemma guard_bounds_calls_in_flight:
  assumes "(guard_step key n)\<^sup>*\<^sup>* (new_limiter, 0) (l, inside)" "0 \<le> n"
  shows "int inside \<le> n"
  using concurrency_guard.inv_reachable[OF _ assms(1)] assms(2) by (auto simp: guard_start_def guard_inv_def)

end
