(* ===== verification/Notifications.thy ===== *)
theory Notifications
  imports JobCreate Trials
begin

text \<open>
  The jobs that tell a talent partner of a completed candidate or of a finished report
  (\<open>notifications_talent_partner_updates_service\<close>): their keys, their payload and how they are
  queued once per session.
\<close>

definition WINOE_REPORT_READY_NOTIFICATION_JOB_TYPE :: string where
  "WINOE_REPORT_READY_NOTIFICATION_JOB_TYPE = ''winoe_report_ready_notification''"

definition winoe_report_ready_key :: "int \<Rightarrow> string" where
  "winoe_report_ready_key c = ''winoe_report_ready:'' @ int_str c"

definition build_notification_payload :: "int \<Rightarrow> int \<Rightarrow> int \<Rightarrow> datetime \<Rightarrow> obj" where
  "build_notification_payload c trial_id user now =
     [(''candidateSessionId'', JInt c), (''trialId'', JInt trial_id), (''talentPartnerUserId'', JInt user),
      (''queuedAt'', JStr (isoformat_z (drop_microseconds now)))]"

definition enqueue_talent_partner_notification_job ::
    "string \<Rightarrow> string \<Rightarrow> int \<Rightarrow> int \<Rightarrow> datetime \<Rightarrow> app_db \<Rightarrow> (job \<times> app_db) res" where
  "enqueue_talent_partner_notification_job job_type idempotency_key c trial_id now db =
     (case get_trial trial_id db of
        None \<Rightarrow> Inl (ValueError ''trial_not_found'')
      | Some t \<Rightarrow>
          bind_result (create_or_get_idempotent id
            \<lparr>sp_job_type = job_type, sp_idempotency_key = idempotency_key,
             sp_payload_json = build_notification_payload c trial_id (t_created_by t) now,
             sp_candidate_session_id = Some c, sp_max_attempts = 3,
             sp_correlation_id = Some (''candidate_session:'' @ int_str c @ '':'' @ job_type), sp_next_run_at = None\<rparr>
            (t_company_id t) False now (queue db)) (\<lambda>(j, q). Inr (j, db\<lparr>queue := q\<rparr>)))"

definition CANDIDATE_COMPLETED_NOTIFICATION_JOB_TYPE :: string where
  "CANDIDATE_COMPLETED_NOTIFICATION_JOB_TYPE = ''candidate_completed_notification''"

definition candidate_completed_key :: "int \<Rightarrow> string" where
  "candidate_completed_key c = ''candidate_completed:'' @ int_str c"

definition enqueue_candidate_completed_notification :: "int \<Rightarrow> int \<Rightarrow> datetime \<Rightarrow> app_db \<Rightarrow> (job \<times> app_db) res" where
  "enqueue_candidate_completed_notification c trial_id now db =
     enqueue_talent_partner_notification_job CANDIDATE_COMPLETED_NOTIFICATION_JOB_TYPE (candidate_completed_key c) c trial_id now db"

lemma winoe_key_stripped [simp]:
  "py_strip (winoe_report_ready_key c) = winoe_report_ready_key c"
  "py_strip WINOE_REPORT_READY_NOTIFICATION_JOB_TYPE = WINOE_REPORT_READY_NOTIFICATION_JOB_TYPE"
proof -
  have w: "\<not> py_space (CHR ''w'')" by code_simp
  show "py_strip (winoe_report_ready_key c) = winoe_report_ready_key c"
    by (rule py_strip_id; simp add: winoe_report_ready_key_def int_str_last w)
  show "py_strip WINOE_REPORT_READY_NOTIFICATION_JOB_TYPE = WINOE_REPORT_READY_NOTIFICATION_JOB_TYPE" by code_simp
qed

lemma completed_key_stripped [simp]:
  "py_strip (candidate_completed_key c) = candidate_completed_key c"
  "py_strip CANDIDATE_COMPLETED_NOTIFICATION_JOB_TYPE = CANDIDATE_COMPLETED_NOTIFICATION_JOB_TYPE"
proof -
  have w: "\<not> py_space (CHR ''c'')" by code_simp
  show "py_strip (candidate_completed_key c) = candidate_completed_key c"
    by (rule py_strip_id; simp add: candidate_completed_key_def int_str_last w)
  show "py_strip CANDIDATE_COMPLETED_NOTIFICATION_JOB_TYPE = CANDIDATE_COMPLETED_NOTIFICATION_JOB_TYPE" by code_simp
qed

text \<open>The job is in the queue under its key, and the queue stays well formed.\<close>

lemma notification_job_queued:
  assumes e: "enqueue_talent_partner_notification_job ty key c t now db = Inr (j, db')" and wf: "jobs_wf (queue db)"
    and s: "py_strip ty = ty" "py_strip key = key"
  obtains x where "get_trial t db = Some x" "jobs_wf (queue db')" "j \<in> set (jobs (queue db'))"
    "job_key j = (t_company_id x, ty, key)" "db' = db\<lparr>queue := queue db'\<rparr>"
proof -
  from e obtain x q sp where x: "get_trial t db = Some x" and c: "create_or_get_idempotent id sp (t_company_id x) False now (queue db) = Inr (j, q)"
    and sp: "sp_job_type sp = ty" "sp_idempotency_key sp = key" and db': "db' = db\<lparr>queue := q\<rparr>"
    by (auto simp: enqueue_talent_partner_notification_job_def bind_result_Inr_iff split: option.splits)
  have id: "commits id" using commits_id by (simp add: id_def)
  note f = create_or_get_facts[OF wf id c]
  from load_idempotent_job_SomeD[OF f(3)] f(1) x db' s that show thesis by (simp add: sp)
qed

end
