(* ===== verification/Submissions.thy ===== *)
theory Submissions
  imports Progress RateLimits Notifications PyText
begin

text \<open>
  Drafts and submissions of a candidate: payload validation, the day-flow gate, the code run
  of a coding task, the insert with its unique key, and what follows it (draft, progress,
  completion, notification). GitHub is a record of functions; \<open>other\<close> is what other
  transactions commit before the insert. \<open>clock i\<close> is the i-th reading of the wall clock in
  one call.
\<close>

section \<open>Requests and the world outside\<close>

record submission_payload =
  py_contentText :: json
  py_reflection :: json
  py_branch :: "string option"
  py_workflowInputs :: "obj option"

record actions_run_result =
  ar_status :: string
  ar_run_id :: int
  ar_conclusion :: "string option"
  ar_passed :: "int option"
  ar_failed :: "int option"
  ar_total :: "int option"
  ar_stdout :: "string option"
  ar_stderr :: "string option"
  ar_head_sha :: "string option"
  ar_raw :: "obj option"

record github =
  gh_dispatch_and_wait :: "string \<Rightarrow> string \<Rightarrow> obj \<Rightarrow> actions_run_result res"
  gh_get_branch :: "string \<Rightarrow> string \<Rightarrow> json res"
  gh_get_compare :: "string \<Rightarrow> json \<Rightarrow> string \<Rightarrow> obj res"
  gh_get_repo :: "string \<Rightarrow> obj res"
  gh_remove_collaborator :: "string \<Rightarrow> string \<Rightarrow> unit res"

definition opt_json :: "('a \<Rightarrow> json) \<Rightarrow> 'a option \<Rightarrow> json" where
  "opt_json f v = (case v of None \<Rightarrow> JNull | Some x \<Rightarrow> f x)"

definition as_test_output :: "actions_run_result \<Rightarrow> obj" where
  "as_test_output r =
     [(''status'', JStr (ar_status r)), (''runId'', JInt (ar_run_id r)), (''conclusion'', opt_json JStr (ar_conclusion r)),
      (''passed'', opt_json JInt (ar_passed r)), (''failed'', opt_json JInt (ar_failed r)), (''total'', opt_json JInt (ar_total r)),
      (''stdout'', opt_json JStr (ar_stdout r)), (''stderr'', opt_json JStr (ar_stderr r))] @
     (case ar_raw r of None \<Rightarrow> [] | Some raw \<Rightarrow>
        (case dict_lookup ''summary'' raw of None \<Rightarrow> [] | Some v \<Rightarrow> [(''summary'', v)]))"

section \<open>Payload validation\<close>

definition is_code_task :: "task \<Rightarrow> bool" where
  "is_code_task t \<longleftrightarrow> py_lower (tk_type t) \<in> set CODE_TASK_TYPES"

definition is_day5_reflection_task :: "task \<Rightarrow> bool" where
  "is_day5_reflection_task t \<longleftrightarrow> py_lower (tk_type t) = ''reflection'' \<and> tk_day_index t = 5"

text \<open>The text of a payload, or what is wrong with it.\<close>

definition resolve_content_text_value :: "json \<Rightarrow> (string, string) result" where
  "resolve_content_text_value content_text =
     (case content_text of
        JNull \<Rightarrow> Inl ''missing''
      | JStr s \<Rightarrow> if py_strip s = [] then Inl ''missing'' else Inr (py_strip s)
      | _ \<Rightarrow> Inl ''invalid_type'')"

definition require_content_text :: "json \<Rightarrow> unit res" where
  "require_content_text content_text =
     (case resolve_content_text_value content_text of
        Inr _ \<Rightarrow> Inr ()
      | Inl code \<Rightarrow> Inl (HTTPError 400
          (if code = ''invalid_type'' then ''contentText must be a string'' else ''contentText is required'')))"

definition DAY5_REFLECTION_SECTIONS :: "string list" where
  "DAY5_REFLECTION_SECTIONS = [''challenges'', ''decisions'', ''tradeoffs'', ''communication'', ''next'']"

definition DAY5_REFLECTION_MIN_SECTION_CHARS :: int where
  "DAY5_REFLECTION_MIN_SECTION_CHARS = 20"

definition check_section :: "obj \<Rightarrow> string \<Rightarrow> (string, string) result" where
  "check_section reflection section_name =
     (case dict_get section_name reflection of
        JNull \<Rightarrow> Inl ''missing''
      | JStr s \<Rightarrow>
          if py_strip s = [] then Inl ''missing''
          else if py_len (py_strip s) < DAY5_REFLECTION_MIN_SECTION_CHARS then Inl ''too_short''
          else Inr (py_strip s)
      | _ \<Rightarrow> Inl ''invalid_type'')"

definition field_error :: "string \<Rightarrow> string \<Rightarrow> string \<times> json" where
  "field_error field code = (field, JList [JStr code])"

definition submission_validation_error :: "obj \<Rightarrow> error" where
  "submission_validation_error errs =
     ApiError 422 ''Submission payload validation failed'' ''VALIDATION_ERROR'' (Some False) [(''fields'', JObj errs)]"

definition content_errors :: "json \<Rightarrow> obj" where
  "content_errors content_text =
     (case resolve_content_text_value content_text of Inl code \<Rightarrow> [field_error ''contentText'' code] | Inr _ \<Rightarrow> [])"

definition section_errors :: "obj \<Rightarrow> obj" where
  "section_errors reflection = concat (map (\<lambda>s.
     case check_section reflection s of Inl code \<Rightarrow> [field_error (''reflection.'' @ s) code] | Inr _ \<Rightarrow> []) DAY5_REFLECTION_SECTIONS)"

definition sections_of :: "obj \<Rightarrow> obj" where
  "sections_of reflection = concat (map (\<lambda>s.
     case check_section reflection s of Inl _ \<Rightarrow> [] | Inr v \<Rightarrow> [(s, JStr v)]) DAY5_REFLECTION_SECTIONS)"

definition markdown_of :: "json \<Rightarrow> json" where
  "markdown_of content_text = (case resolve_content_text_value content_text of Inl _ \<Rightarrow> JNull | Inr s \<Rightarrow> JStr s)"

definition validate_day5_reflection_payload :: "submission_payload \<Rightarrow> obj res" where
  "validate_day5_reflection_payload payload =
     (let content_fields = content_errors (py_contentText payload);
          base = [(''kind'', JStr ''day5_reflection''), (''markdown'', markdown_of (py_contentText payload))]
      in if py_reflection payload = JNull
         then (if content_fields \<noteq> [] then Inl (submission_validation_error content_fields) else Inr base)
         else (let reflection = (case py_reflection payload of JObj d \<Rightarrow> d | _ \<Rightarrow> []);
                   errs = content_fields @
                     (case py_reflection payload of JObj _ \<Rightarrow> [] | _ \<Rightarrow> [field_error ''reflection'' ''invalid_type'']) @
                     section_errors reflection
               in if errs \<noteq> [] then Inl (submission_validation_error errs)
                  else Inr (base @ [(''sections'', JObj (sections_of reflection))])))"

definition validate_submission_payload :: "task \<Rightarrow> submission_payload \<Rightarrow> json res" where
  "validate_submission_payload t payload =
     (if py_lower (tk_type t) \<in> set TEXT_TASK_TYPES then
        (if is_day5_reflection_task t
         then bind_result (validate_day5_reflection_payload payload) (\<lambda>d. Inr (JObj d))
         else bind_result (require_content_text (py_contentText payload)) (\<lambda>_. Inr JNull))
      else if is_code_task t then Inr JNull
      else Inl (HTTPError 500 ''Unknown task type''))"

definition validate_run_allowed :: "task \<Rightarrow> unit res" where
  "validate_run_allowed t =
     require (is_code_task t) (HTTPError 400 ''Run tests is only available for code tasks'')"

definition branch_char :: "char \<Rightarrow> bool" where
  "branch_char c \<longleftrightarrow> ascii_alnum c \<or> c \<in> set ''._/-''"

text \<open>The pattern is anchored by \<open>$\<close>, which also admits a final line feed.\<close>

definition branch_pattern :: "string \<Rightarrow> bool" where
  "branch_pattern s \<longleftrightarrow>
     (let body = takeWhile branch_char s
      in 1 \<le> length body \<and> length body \<le> 200 \<and> at_end (dropWhile branch_char s))"

definition validate_branch :: "string \<Rightarrow> string res" where
  "validate_branch branch =
     (if contains ''..'' branch \<or> contains ''//'' branch \<or> starts_with ''/'' branch \<or> ends_with ''/'' branch \<or> \<not> branch_pattern branch
      then Inl (ApiError 400 ''Invalid branch name'' ''INVALID_BRANCH_NAME'' None [])
      else Inr branch)"

section \<open>Rules\<close>

definition task_not_found :: error where
  "task_not_found = HTTPError 404 ''Task not found''"

definition submission_conflict :: error where
  "submission_conflict = ApiError 409 ''Task already submitted'' ''SUBMISSION_CONFLICT'' (Some False) []"

definition ensure_in_order :: "task option \<Rightarrow> int \<Rightarrow> unit res" where
  "ensure_in_order current task_id =
     (case current of
        None \<Rightarrow> Inl (ApiError 409 ''Trial already completed'' ''TRIAL_COMPLETED'' (Some False) [])
      | Some t \<Rightarrow> require (tk_id t = task_id) (ApiError 400 ''Task out of order'' ''TASK_OUT_OF_ORDER'' (Some False) []))"

definition load_task_or_404 :: "int \<Rightarrow> work_db \<Rightarrow> task res" where
  "load_task_or_404 task_id db = (case load_task task_id db of None \<Rightarrow> Inl task_not_found | Some t \<Rightarrow> Inr t)"

definition ensure_task_belongs :: "task \<Rightarrow> candidate_session \<Rightarrow> unit res" where
  "ensure_task_belongs t cs = require (tk_trial_id t = cs_trial_id cs) task_not_found"

section \<open>The day-flow gate\<close>

definition day_flow_cutoff_error ::
    "candidate_session \<Rightarrow> task \<Rightarrow> json \<Rightarrow> datetime \<Rightarrow> json \<Rightarrow> bool \<Rightarrow> error" where
  "day_flow_cutoff_error cs t cutoff_commit_sha cutoff_at eval_basis_ref revoked =
     ApiError 409 ''Task is closed after the recorded cutoff.'' ''TASK_WINDOW_CLOSED'' (Some False)
       ([(''candidateSessionId'', JInt (cs_id cs)), (''taskId'', JInt (tk_id t)), (''dayIndex'', JInt (tk_day_index t)),
         (''cutoffCommitSha'', cutoff_commit_sha), (''cutoffAt'', serialize_optional_datetime (Some cutoff_at)),
         (''evalBasisRef'', eval_basis_ref)] @
        (if revoked then [(''accessRevokedAt'', serialize_optional_datetime (Some cutoff_at))] else []))"

definition ensure_day_flow_open :: "datetime \<Rightarrow> candidate_session \<Rightarrow> task \<Rightarrow> workspace option \<Rightarrow> work_db \<Rightarrow> unit res" where
  "ensure_day_flow_open now cs t ws db =
     (if tk_day_index t \<notin> {2, 3} then Inr ()
      else (case get_day_audit (cs_id cs) (tk_day_index t) db of
        Some a \<Rightarrow>
          if da_cutoff_at a \<le> now
          then Inl (day_flow_cutoff_error cs t (JStr (da_cutoff_commit_sha a)) (da_cutoff_at a) (JStr (da_eval_basis_ref a)) False)
          else Inr ()
      | None \<Rightarrow> (case ws of None \<Rightarrow> Inr () | Some w \<Rightarrow> (case ws_access_revoked_at w of None \<Rightarrow> Inr ()
          | Some revoked_at \<Rightarrow>
              if revoked_at \<le> now then Inl (day_flow_cutoff_error cs t JNull revoked_at JNull True) else Inr ()))))"

section \<open>Workspaces\<close>

definition CODING_WORKSPACE_KEY :: string where "CODING_WORKSPACE_KEY = ''coding''"

definition resolve_workspace_key :: "int \<Rightarrow> string \<Rightarrow> string option" where
  "resolve_workspace_key day_index task_type =
     (if day_index \<in> {2, 3} \<and> py_lower task_type \<in> set CODE_TASK_TYPES then Some CODING_WORKSPACE_KEY else None)"

definition in_creation_order :: "workspace list \<Rightarrow> workspace list" where
  "in_creation_order ws = sort_key ws_created_at (sort_key ws_id ws)"

definition get_by_session_and_workspace_key :: "int \<Rightarrow> string \<Rightarrow> work_db \<Rightarrow> workspace option" where
  "get_by_session_and_workspace_key c key db =
     find_row (\<lambda>_. True) (in_creation_order (filter (\<lambda>w. ws_candidate_session_id w = c \<and>
        (\<exists>g \<in> set (wk_workspace_groups db). ws_workspace_group_id w = Some (wg_id g) \<and>
           wg_candidate_session_id g = c \<and> wg_workspace_key g = key)) (wk_workspaces db)))"

definition get_by_workspace_group_id :: "string \<Rightarrow> work_db \<Rightarrow> workspace option" where
  "get_by_workspace_group_id g db =
     find_row (\<lambda>_. True) (in_creation_order (filter (\<lambda>w. ws_workspace_group_id w = Some g) (wk_workspaces db)))"

definition get_workspace_group :: "int \<Rightarrow> string \<Rightarrow> work_db \<Rightarrow> workspace_group option" where
  "get_workspace_group c key db =
     find_row (\<lambda>g. wg_candidate_session_id g = c \<and> wg_workspace_key g = key) (wk_workspace_groups db)"

definition legacy_workspace_exists :: "int \<Rightarrow> string \<Rightarrow> work_db \<Rightarrow> bool" where
  "legacy_workspace_exists c key db \<longleftrightarrow> key = CODING_WORKSPACE_KEY \<and>
     (\<exists>w \<in> set (wk_workspaces db). \<exists>t \<in> set (wk_tasks db). ws_task_id w = tk_id t \<and> ws_candidate_session_id w = c \<and>
        ws_workspace_group_id w = None \<and> tk_day_index t \<in> {2, 3} \<and> tk_type t \<in> {''code'', ''debug''})"

record workspace_resolution =
  wr_workspace_key :: "string option"
  wr_uses_grouped_workspace :: bool
  wr_workspace_group :: "workspace_group option"

definition resolve_workspace_resolution :: "int \<Rightarrow> int \<Rightarrow> work_db \<Rightarrow> workspace_resolution" where
  "resolve_workspace_resolution c task_id db =
     (case (case load_task task_id db of None \<Rightarrow> None | Some t \<Rightarrow> resolve_workspace_key (tk_day_index t) (tk_type t)) of
        None \<Rightarrow> \<lparr>wr_workspace_key = None, wr_uses_grouped_workspace = False, wr_workspace_group = None\<rparr>
      | Some key \<Rightarrow>
          (case get_workspace_group c key db of
             Some g \<Rightarrow> \<lparr>wr_workspace_key = Some key, wr_uses_grouped_workspace = True, wr_workspace_group = Some g\<rparr>
           | None \<Rightarrow> \<lparr>wr_workspace_key = Some key, wr_uses_grouped_workspace = \<not> legacy_workspace_exists c key db,
                      wr_workspace_group = None\<rparr>))"

definition task_workspace :: "int \<Rightarrow> int \<Rightarrow> work_db \<Rightarrow> workspace option" where
  "task_workspace c task_id db = find_row (\<lambda>w. ws_candidate_session_id w = c \<and> ws_task_id w = task_id) (wk_workspaces db)"

text \<open>
  The lookup with the resolution of the task. A resolution that was made here has checked
  the group, so without a group the grouped lookup finds nothing.
\<close>

definition get_by_session_and_task :: "int \<Rightarrow> int \<Rightarrow> work_db \<Rightarrow> workspace option" where
  "get_by_session_and_task c task_id db =
     (let r = resolve_workspace_resolution c task_id db
      in if wr_uses_grouped_workspace r
         then (case wr_workspace_group r of None \<Rightarrow> None | Some g \<Rightarrow> get_by_workspace_group_id (wg_id g) db)
         else task_workspace c task_id db)"

definition workspace_missing :: error where
  "workspace_missing = ApiError 400 ''Workspace not initialized. Call /codespace/init first.'' ''WORKSPACE_NOT_INITIALIZED''
     (Some True) []"

definition nonempty_or :: "string option \<Rightarrow> string \<Rightarrow> string" where
  "nonempty_or v d = (case v of None \<Rightarrow> d | Some s \<Rightarrow> if s = [] then d else s)"

definition find_submit_workspace :: "candidate_session \<Rightarrow> task \<Rightarrow> work_db \<Rightarrow> workspace option" where
  "find_submit_workspace cs t db =
     (case task_workspace (cs_id cs) (tk_id t) db of
        Some w \<Rightarrow> Some w
      | None \<Rightarrow>
          (case (case resolve_workspace_key (tk_day_index t) (tk_type t) of
                   None \<Rightarrow> None | Some key \<Rightarrow> get_by_session_and_workspace_key (cs_id cs) key db) of
             Some w \<Rightarrow> Some w
           | None \<Rightarrow> get_by_session_and_task (cs_id cs) (tk_id t) db))"

definition fetch_workspace_and_branch ::
    "datetime \<Rightarrow> candidate_session \<Rightarrow> task \<Rightarrow> submission_payload \<Rightarrow> work_db \<Rightarrow> (workspace \<times> string) res" where
  "fetch_workspace_and_branch now cs t payload db =
     (case find_submit_workspace cs t db of
        None \<Rightarrow> Inl workspace_missing
      | Some w \<Rightarrow>
          bind_result (ensure_day_flow_open now cs t (Some w) db) (\<lambda>_.
          bind_result (validate_branch (nonempty_or (py_branch payload) (nonempty_or (ws_default_branch w) ''main''))) (\<lambda>branch.
          Inr (w, branch))))"

section \<open>The code run\<close>

definition record_run_result :: "workspace \<Rightarrow> actions_run_result \<Rightarrow> work_db \<Rightarrow> work_db" where
  "record_run_result w result db =
     db\<lparr>wk_workspaces := update_rows (\<lambda>x. ws_id x = ws_id w)
       (\<lambda>x. x\<lparr>ws_last_workflow_run_id := Some (int_str (ar_run_id result)), ws_last_workflow_conclusion := ar_conclusion result,
             ws_latest_commit_sha := ar_head_sha result,
             ws_last_test_summary_json := Some (json_dumps_plain (JObj (as_test_output result)))\<rparr>) (wk_workspaces db)\<rparr>"

definition file_summary :: "json \<Rightarrow> json res" where
  "file_summary f = (case f of
     JObj d \<Rightarrow> Inr (JObj (map (\<lambda>k. (k, dict_get k d)) [''filename'', ''status'', ''additions'', ''deletions'', ''changes'', ''patch'']))
   | _ \<Rightarrow> Inl (AttributeError ''get''))"

definition summarize_diff :: "obj \<Rightarrow> json \<Rightarrow> json \<Rightarrow> obj res" where
  "summarize_diff compare_payload base head =
     bind_result (items_or_empty (dict_get ''files'' compare_payload)) (\<lambda>items.
     bind_result (map_result file_summary items) (\<lambda>files.
     Inr [(''ahead_by'', dict_get ''ahead_by'' compare_payload), (''behind_by'', dict_get ''behind_by'' compare_payload),
          (''total_commits'', dict_get ''total_commits'' compare_payload), (''base'', base), (''head'', head),
          (''files'', JList files)]))"

definition build_diff_summary :: "github \<Rightarrow> workspace \<Rightarrow> string \<Rightarrow> string \<Rightarrow> string res" where
  "build_diff_summary gh w branch head_sha =
     bind_result
       (if nonempty_or (ws_bootstrap_commit_sha w) [] \<noteq> [] then Inr (JStr (nonempty_or (ws_bootstrap_commit_sha w) []))
        else (case gh_get_branch gh (ws_repo_full_name w) branch of
                Inl (GithubError _ _) \<Rightarrow> Inr (JStr branch)
              | Inl e \<Rightarrow> Inl e
              | Inr (JObj d) \<Rightarrow>
                  (case dict_lookup ''commit'' d of
                     None \<Rightarrow> Inr (JStr branch)
                   | Some (JObj c) \<Rightarrow> Inr (json_or (dict_get ''sha'' c) (JStr branch))
                   | Some _ \<Rightarrow> Inl (AttributeError ''get''))
              | Inr _ \<Rightarrow> Inr (JStr branch))) (\<lambda>base_sha.
     bind_result (gh_get_compare gh (ws_repo_full_name w) base_sha head_sha) (\<lambda>compare.
     bind_result (summarize_diff compare base_sha (JStr head_sha)) (\<lambda>d.
     Inr (json_dumps_plain (JObj d)))))"

definition github_unavailable :: error where
  "github_unavailable = ApiError 502 ''GitHub unavailable. Please try again.'' ''GITHUB_UNAVAILABLE'' (Some True) []"

text \<open>Inside the try block every error but one of GitHub's becomes \<open>GITHUB_UNAVAILABLE\<close>.\<close>

definition guarded :: "'a res \<Rightarrow> 'a res" where
  "guarded r = (case r of Inl (GithubError c m) \<Rightarrow> Inl (GithubError c m) | Inl _ \<Rightarrow> Inl github_unavailable | Inr x \<Rightarrow> Inr x)"

definition run_code_submission ::
    "github \<Rightarrow> datetime \<Rightarrow> candidate_session \<Rightarrow> task \<Rightarrow> submission_payload \<Rightarrow>
     (work_db, actions_run_result option \<times> string option \<times> workspace option) op" where
  "run_code_submission gh now cs t payload db =
     (case fetch_workspace_and_branch now cs t payload db of
        Inl e \<Rightarrow> (db, Inl e)
      | Inr (w, branch) \<Rightarrow>
          (case guarded (gh_dispatch_and_wait gh (ws_repo_full_name w) (if branch = [] then ''main'' else branch)
               (case py_workflowInputs payload of None \<Rightarrow> [] | Some i \<Rightarrow> i)) of
             Inl e \<Rightarrow> (db, Inl e)
           | Inr result \<Rightarrow>
               (let db' = record_run_result w result db in
                case ar_head_sha result of
                  None \<Rightarrow> (db', Inr (Some result, None, Some w))
                | Some sha \<Rightarrow>
                    if sha = [] then (db', Inr (Some result, None, Some w))
                    else (db', bind_result (guarded (build_diff_summary gh w branch sha)) (\<lambda>diff.
                               Inr (Some result, Some diff, Some w))))))"

section \<open>Creating a submission\<close>

definition workflow_conclusion :: "string option \<Rightarrow> string option" where
  "workflow_conclusion c = (case c of None \<Rightarrow> None | Some s \<Rightarrow> if s = [] then None else Some (py_strip (py_lower s)))"

text \<open>The row to insert; the columns of the run are empty without one.\<close>

definition build_submission ::
    "candidate_session \<Rightarrow> task \<Rightarrow> json \<Rightarrow> json \<Rightarrow> datetime \<Rightarrow> workspace option \<Rightarrow> string option \<Rightarrow> actions_run_result option \<Rightarrow> submission" where
  "build_submission cs t content_text content_json now ws diff actions =
     (let commit_sha = (case actions of None \<Rightarrow> None | Some r \<Rightarrow> ar_head_sha r) in
      \<lparr>sb_id = 0, sb_candidate_session_id = cs_id cs, sb_task_id = tk_id t, sb_recording_id = None, sb_submitted_at = now,
       sb_content_text = content_text, sb_content_json = content_json, sb_code_repo_path = map_option ws_repo_full_name ws,
       sb_commit_sha = commit_sha, sb_checkpoint_sha = (if tk_day_index t = 2 then commit_sha else None),
       sb_final_sha = (if tk_day_index t = 3 then commit_sha else None),
       sb_workflow_run_id = map_option (\<lambda>r. int_str (ar_run_id r)) actions, sb_workflow_run_attempt = None,
       sb_workflow_run_status = map_option (\<lambda>r. if ar_status r = ''running'' then ''in_progress'' else ''completed'') actions,
       sb_workflow_run_conclusion = (case actions of None \<Rightarrow> None | Some r \<Rightarrow> workflow_conclusion (ar_conclusion r)),
       sb_workflow_run_completed_at = (case actions of None \<Rightarrow> None | Some r \<Rightarrow> if ar_status r = ''running'' then None else Some now),
       sb_diff_summary_json = diff, sb_tests_passed = (case actions of None \<Rightarrow> None | Some r \<Rightarrow> ar_passed r),
       sb_tests_failed = (case actions of None \<Rightarrow> None | Some r \<Rightarrow> ar_failed r),
       sb_test_output = map_option (\<lambda>r. json_dumps_plain (JObj (as_test_output r))) actions,
       sb_last_run_at = map_option (\<lambda>_. now) actions\<rparr>)"

text \<open>The unique key of the table decides; what the other transactions committed stays.\<close>

definition insert_submission :: "submission \<Rightarrow> (work_db, submission) op" where
  "insert_submission sub db =
     (if get_submission (sb_candidate_session_id sub) (sb_task_id sub) db \<noteq> None then (db, Inl submission_conflict)
      else (let row = sub\<lparr>sb_id := wk_next_submission_id db\<rparr>
            in (db\<lparr>wk_submissions := wk_submissions db @ [row], wk_next_submission_id := wk_next_submission_id db + 1\<rparr>, Inr row)))"

definition create_submission ::
    "(work_db \<Rightarrow> work_db) \<Rightarrow> candidate_session \<Rightarrow> task \<Rightarrow> json \<Rightarrow> datetime \<Rightarrow> json \<Rightarrow> actions_run_result option \<Rightarrow> workspace option \<Rightarrow>
     string option \<Rightarrow> (work_db, submission) op" where
  "create_submission other cs t content_text now content_json actions ws diff db =
     insert_submission (build_submission cs t content_text content_json now ws diff actions) (other db)"

definition mark_finalized :: "task_draft \<Rightarrow> int \<Rightarrow> datetime \<Rightarrow> work_db \<Rightarrow> work_db" where
  "mark_finalized d submission_id finalized_at db =
     (if td_finalized_submission_id d \<noteq> None then db
      else db\<lparr>wk_drafts := update_rows (\<lambda>x. draft_key x = draft_key d)
        (\<lambda>x. x\<lparr>td_finalized_submission_id := Some submission_id, td_finalized_at := Some finalized_at\<rparr>) (wk_drafts db)\<rparr>)"

text \<open>Completing the session: the columns written depend on the row as the request loaded it.\<close>

definition complete_session :: "candidate_session \<Rightarrow> datetime \<Rightarrow> work_db \<Rightarrow> work_db" where
  "complete_session cs now db =
     db\<lparr>wk_app := (wk_app db)\<lparr>sessions := update_rows (\<lambda>c. cs_id c = cs_id cs)
       (\<lambda>c. c\<lparr>cs_status := ''completed'',
             cs_completed_at := (if cs_completed_at cs = None then Some now else cs_completed_at c)\<rparr>) (sessions (wk_app db))\<rparr>\<rparr>"

text \<open>The new state, whether it was committed, and the progress.\<close>

definition progress_after_submission ::
    "tz_database \<Rightarrow> (string \<Rightarrow> datetime option) \<Rightarrow> candidate_session \<Rightarrow> task list \<Rightarrow> datetime \<Rightarrow> datetime \<Rightarrow> work_db \<Rightarrow>
     (work_db \<times> bool \<times> progress) res" where
  "progress_after_submission tz from_iso cs tasks now at db =
     bind_result (progress_snapshot tz from_iso cs tasks at db) (\<lambda>p.
     Inr (if pg_is_complete p \<and> cs_status cs \<noteq> ''completed''
          then (complete_session cs now db, True, p) else (db, False, p)))"

section \<open>Submitting a task\<close>

definition validate_submission_flow ::
    "tz_database \<Rightarrow> (string \<Rightarrow> datetime option) \<Rightarrow> (nat \<Rightarrow> datetime) \<Rightarrow> candidate_session \<Rightarrow> int \<Rightarrow> submission_payload \<Rightarrow>
     work_db \<Rightarrow> (task \<times> json \<times> task list) res" where
  "validate_submission_flow tz from_iso clock cs task_id payload db =
     bind_result (load_task_or_404 task_id db) (\<lambda>t.
     bind_result (ensure_task_belongs t cs) (\<lambda>_.
     bind_result (require_active_window tz from_iso (wk_app db) cs t (clock 0)) (\<lambda>_.
     bind_result (ensure_day_flow_open (clock 1) cs t None db) (\<lambda>_.
     bind_result (progress_snapshot tz from_iso cs [] (clock 2) db) (\<lambda>p.
     bind_result (require (task_id \<notin> set (pg_completed_ids p)) submission_conflict) (\<lambda>_.
     bind_result (ensure_in_order (pg_current p) task_id) (\<lambda>_.
     bind_result (validate_submission_payload t payload) (\<lambda>content_json.
     Inr (t, content_json, pg_tasks p)))))))))"

record submit_result =
  sr_task :: task
  sr_submission :: submission
  sr_completed :: int
  sr_total :: int
  sr_is_complete :: bool

text \<open>
  After the insert is committed: the draft and the session are flushed and committed with the
  completion, the notification or at the end. An error before a commit loses what is pending.
\<close>

definition settle_submission ::
    "tz_database \<Rightarrow> (string \<Rightarrow> datetime option) \<Rightarrow> candidate_session \<Rightarrow> task \<Rightarrow> task list \<Rightarrow> submission \<Rightarrow> datetime \<Rightarrow> datetime \<Rightarrow>
     (work_db, submit_result) op" where
  "settle_submission tz from_iso cs t tasks sub now at db =
     (let pending = (case get_draft (cs_id cs) (tk_id t) db of None \<Rightarrow> db | Some d \<Rightarrow> mark_finalized d (sb_id sub) now db) in
      case progress_after_submission tz from_iso cs tasks now at pending of
        Inl e \<Rightarrow> (db, Inl e)
      | Inr (db', committed, p) \<Rightarrow>
          (let result = \<lparr>sr_task = t, sr_submission = sub, sr_completed = pg_completed p, sr_total = pg_total p,
                         sr_is_complete = pg_is_complete p\<rparr> in
           if pg_is_complete p
           then (case enqueue_candidate_completed_notification (cs_id cs) (cs_trial_id cs) at (wk_app db') of
                   Inl e \<Rightarrow> (if committed then db' else db, Inl e)
                 | Inr (_, app) \<Rightarrow> (db'\<lparr>wk_app := app\<rparr>, Inr result))
           else (db', Inr result)))"

definition submit_task_allowed ::
    "tz_database \<Rightarrow> (string \<Rightarrow> datetime option) \<Rightarrow> github \<Rightarrow> (work_db \<Rightarrow> work_db) \<Rightarrow> (nat \<Rightarrow> datetime) \<Rightarrow> candidate_session \<Rightarrow> int \<Rightarrow>
     submission_payload \<Rightarrow> (work_db, submit_result) op" where
  "submit_task_allowed tz from_iso gh other clock cs task_id payload =
     bind_op (\<lambda>db. (db, validate_submission_flow tz from_iso clock cs task_id payload db)) (\<lambda>(t, content_json, tasks).
     bind_op (if is_code_task t then run_code_submission gh (clock 4) cs t payload
              else lift_op (Inr (None, None, None))) (\<lambda>(actions, diff, ws).
     bind_op (create_submission other cs t (py_contentText payload) (clock 3) content_json actions ws diff) (\<lambda>sub.
     settle_submission tz from_iso cs t tasks sub (clock 3) (clock 5))))"

definition submit_task ::
    "tz_database \<Rightarrow> (string \<Rightarrow> datetime option) \<Rightarrow> github \<Rightarrow> (work_db \<Rightarrow> work_db) \<Rightarrow> (nat \<Rightarrow> datetime) \<Rightarrow> bool \<Rightarrow> int \<Rightarrow>
     candidate_session \<Rightarrow> int \<Rightarrow> submission_payload \<Rightarrow> (limiter \<times> work_db, submit_result) op" where
  "submit_task tz from_iso gh other clock limited ticks cs task_id payload s =
     (case apply_rate_limit limited (cs_id cs) ''submit'' ticks (fst s) of
        (l, Inl e) \<Rightarrow> ((l, snd s), Inl e)
      | (l, Inr _) \<Rightarrow> (case submit_task_allowed tz from_iso gh other clock cs task_id payload (snd s) of
           (db, r) \<Rightarrow> ((l, db), r)))"

section \<open>Drafts\<close>

definition MAX_DRAFT_CONTENT_BYTES :: int where "MAX_DRAFT_CONTENT_BYTES = 204800"

definition utf8_size :: "json \<Rightarrow> int" where
  "utf8_size v = (case v of JStr s \<Rightarrow> py_len (concat (map utf8_char s)) | _ \<Rightarrow> 0)"

definition json_size :: "json \<Rightarrow> int" where
  "json_size v = (if v = JNull then 0 else encoded_bytes v)"

definition draft_too_large :: "string \<Rightarrow> int \<Rightarrow> error" where
  "draft_too_large field actual =
     ApiError 413 (field @ '' exceeds 204800 bytes.'') ''DRAFT_CONTENT_TOO_LARGE'' (Some False)
       [(''field'', JStr field), (''maxBytes'', JInt MAX_DRAFT_CONTENT_BYTES), (''actualBytes'', JInt actual)]"

definition validate_draft_payload_size :: "json \<Rightarrow> json \<Rightarrow> (int \<times> int) res" where
  "validate_draft_payload_size content_text content_json =
     bind_result (require (utf8_size content_text \<le> MAX_DRAFT_CONTENT_BYTES) (draft_too_large ''contentText'' (utf8_size content_text))) (\<lambda>_.
     bind_result (require (json_size content_json \<le> MAX_DRAFT_CONTENT_BYTES) (draft_too_large ''contentJson'' (json_size content_json))) (\<lambda>_.
     Inr (utf8_size content_text, json_size content_json)))"

definition is_finalized :: "task_draft \<Rightarrow> bool" where
  "is_finalized d \<longleftrightarrow> td_finalized_at d \<noteq> None \<or> td_finalized_submission_id d \<noteq> None"

definition draft_finalized_error :: "string \<Rightarrow> error" where
  "draft_finalized_error detail = ApiError 409 detail ''DRAFT_FINALIZED'' (Some False) []"

definition upsert_draft :: "int \<Rightarrow> int \<Rightarrow> json \<Rightarrow> json \<Rightarrow> datetime \<Rightarrow> (work_db, task_draft) op" where
  "upsert_draft c task_id content_text content_json updated_at db =
     (case get_draft c task_id db of
        Some d \<Rightarrow>
          if is_finalized d then (db, Inl (draft_finalized_error ''Task draft is finalized and cannot be updated.''))
          else (let d' = d\<lparr>td_content_text := content_text, td_content_json := content_json, td_updated_at := updated_at\<rparr>
                in (db\<lparr>wk_drafts := update_rows (\<lambda>x. draft_key x = (c, task_id)) (\<lambda>_. d') (wk_drafts db)\<rparr>, Inr d'))
      | None \<Rightarrow>
          (let d = \<lparr>td_candidate_session_id = c, td_task_id = task_id, td_content_text = content_text,
                    td_content_json = content_json, td_updated_at = updated_at, td_finalized_at = None,
                    td_finalized_submission_id = None\<rparr>
           in (db\<lparr>wk_drafts := wk_drafts db @ [d]\<rparr>, Inr d)))"

text \<open>The task and whether it is done; an error of the two kinds that are caught asks the tables instead.\<close>

definition resolve_task_and_duplicate ::
    "tz_database \<Rightarrow> (string \<Rightarrow> datetime option) \<Rightarrow> datetime \<Rightarrow> candidate_session \<Rightarrow> int \<Rightarrow> work_db \<Rightarrow> (task \<times> bool) res" where
  "resolve_task_and_duplicate tz from_iso now cs task_id db =
     (let fallback = bind_result (load_task_or_404 task_id db) (\<lambda>t.
        bind_result (ensure_task_belongs t cs) (\<lambda>_. Inr (t, get_submission (cs_id cs) (tk_id t) db \<noteq> None))) in
      case progress_snapshot tz from_iso cs [] now db of
        Inr p \<Rightarrow> (case find_row (\<lambda>t. tk_id t = task_id) (pg_tasks p) of
          None \<Rightarrow> Inl task_not_found
        | Some t \<Rightarrow> Inr (t, tk_id t \<in> set (pg_completed_ids p)))
      | Inl (AttributeError _) \<Rightarrow> fallback
      | Inl (TypeError _) \<Rightarrow> fallback
      | Inl e \<Rightarrow> Inl e)"

definition put_task_draft ::
    "tz_database \<Rightarrow> (string \<Rightarrow> datetime option) \<Rightarrow> (nat \<Rightarrow> datetime) \<Rightarrow> candidate_session \<Rightarrow> int \<Rightarrow> json \<Rightarrow> json \<Rightarrow>
     (work_db, task_draft) op" where
  "put_task_draft tz from_iso clock cs task_id content_text content_json db =
     (case bind_result (resolve_task_and_duplicate tz from_iso (clock 0) cs task_id db) (\<lambda>(t, duplicate).
           bind_result (require_active_window tz from_iso (wk_app db) cs t (clock 1)) (\<lambda>_.
           bind_result (require (\<not> duplicate) (draft_finalized_error ''Task is already finalized.'')) (\<lambda>_.
           bind_result (validate_draft_payload_size content_text content_json) (\<lambda>_. Inr t)))) of
        Inl e \<Rightarrow> (db, Inl e)
      | Inr t \<Rightarrow> upsert_draft (cs_id cs) (tk_id t) content_text content_json (clock 2) db)"

definition get_task_draft :: "candidate_session \<Rightarrow> int \<Rightarrow> work_db \<Rightarrow> task_draft res" where
  "get_task_draft cs task_id db =
     bind_result (load_task_or_404 task_id db) (\<lambda>t.
     bind_result (ensure_task_belongs t cs) (\<lambda>_.
     (case get_draft (cs_id cs) (tk_id t) db of
        None \<Rightarrow> Inl (ApiError 404 ''Draft not found'' ''DRAFT_NOT_FOUND'' (Some False) [])
      | Some d \<Rightarrow> Inr d)))"

end
