(* ===== verification/DayClose.thy ===== *)
theory DayClose
  imports Submissions
begin

text \<open>
  The handlers of the jobs that close a day (\<open>day_close_finalize_text\<close>, \<open>day_close_enforcement\<close>):
  they turn the draft of a text task into its submission once the window has ended, and
  record the cut-off of a coding day after revoking the candidate's access. The payloads and
  keys of the jobs are those that \<open>ScheduleFlow\<close> queues.
\<close>

section \<open>Payloads\<close>

definition parse_positive_int :: "json \<Rightarrow> int option res" where
  "parse_positive_int value =
     (let positive = (\<lambda>i. if i > 0 then Some i else None) in
      case value of
        JInt i \<Rightarrow> Inr (positive i)
      | JStr s \<Rightarrow> if py_isdigit s then bind_result (py_int s) (\<lambda>i. Inr (positive i)) else Inr None
      | _ \<Rightarrow> Inr None)"

definition parse_iso_datetime :: "(string \<Rightarrow> datetime option) \<Rightarrow> json \<Rightarrow> datetime option" where
  "parse_iso_datetime from_iso value =
     (case value of JStr s \<Rightarrow> if py_strip s = [] then None else from_iso (replace_z (py_strip s)) | _ \<Rightarrow> None)"

definition opt_int :: "int option \<Rightarrow> json" where
  "opt_int v = opt_json JInt v"

definition close_response :: "string \<Rightarrow> int option \<Rightarrow> int option \<Rightarrow> int option \<Rightarrow> obj" where
  "close_response status c task_id day_index =
     [(''status'', JStr status), (''candidateSessionId'', opt_int c), (''taskId'', opt_int task_id), (''dayIndex'', opt_int day_index)]"

definition load_task_for_session :: "int \<Rightarrow> int \<Rightarrow> work_db \<Rightarrow> task option" where
  "load_task_for_session task_id trial_id db = find_row (\<lambda>t. tk_id t = task_id \<and> tk_trial_id t = trial_id) (wk_tasks db)"

section \<open>Finalising a text task\<close>

definition NO_DRAFT_AT_CUTOFF_MARKER :: json where
  "NO_DRAFT_AT_CUTOFF_MARKER = JObj [(''_winoe'', JObj [(''noContent'', JBool True), (''reason'', JStr ''NO_DRAFT_AT_CUTOFF'')])]"

definition payload_for_draft :: "task_draft option \<Rightarrow> json \<times> json \<times> string" where
  "payload_for_draft draft =
     (case draft of
        Some d \<Rightarrow> (td_content_text d, td_content_json d, ''draft'')
      | None \<Rightarrow> (JStr [], NO_DRAFT_AT_CUTOFF_MARKER, ''no_draft_marker''))"

definition mark_draft_finalized_if_pending :: "task_draft option \<Rightarrow> int \<Rightarrow> datetime \<Rightarrow> work_db \<Rightarrow> work_db" where
  "mark_draft_finalized_if_pending draft submission_id finalized_at db =
     (case draft of None \<Rightarrow> db | Some d \<Rightarrow> mark_finalized d submission_id finalized_at db)"

text \<open>Bringing the session up to date with the submissions, as the handler does at its end.\<close>

definition settle_progress ::
    "tz_database \<Rightarrow> (string \<Rightarrow> datetime option) \<Rightarrow> candidate_session \<Rightarrow> datetime \<Rightarrow> datetime \<Rightarrow> (work_db, unit) op" where
  "settle_progress tz from_iso cs now at db =
     (case progress_after_submission tz from_iso cs [] now at db of
        Inl e \<Rightarrow> (db, Inl e) | Inr (db', _, _) \<Rightarrow> (db', Inr ()))"

text \<open>A conflict rolls the transaction back: the loaded rows are then read again.\<close>

definition reloaded_session :: "candidate_session \<Rightarrow> work_db \<Rightarrow> candidate_session" where
  "reloaded_session cs db = (case get_session (cs_id cs) (wk_app db) of None \<Rightarrow> cs | Some x \<Rightarrow> x)"

definition finalize_submission_from_cutoff ::
    "tz_database \<Rightarrow> (string \<Rightarrow> datetime option) \<Rightarrow> (work_db \<Rightarrow> work_db) \<Rightarrow> candidate_session \<Rightarrow> task \<Rightarrow> datetime \<Rightarrow> datetime \<Rightarrow>
     (work_db, obj) op" where
  "finalize_submission_from_cutoff tz from_iso other cs t now at db =
     (let c = cs_id cs; k = tk_id t; draft = get_draft c k db;
          response = (\<lambda>status extra. close_response status (Some c) (Some k) (Some (tk_day_index t)) @ extra) in
      case get_submission c k db of
        Some s \<Rightarrow>
          bind_op (modify_op (mark_draft_finalized_if_pending draft (sb_id s) now)) (\<lambda>_.
          bind_op (settle_progress tz from_iso cs now at) (\<lambda>_.
          lift_op (Inr (response ''no_op_existing_submission'' [(''submissionId'', JInt (sb_id s))])))) db
      | None \<Rightarrow>
          (case payload_for_draft draft of (content_text, content_json, source) \<Rightarrow>
           (case create_submission other cs t content_text now content_json None None None db of
              (db1, Inr s) \<Rightarrow>
                bind_op (modify_op (mark_draft_finalized_if_pending draft (sb_id s) now)) (\<lambda>_.
                bind_op (settle_progress tz from_iso cs now at) (\<lambda>_.
                lift_op (Inr (response ''created_submission'' [(''submissionId'', JInt (sb_id s)), (''source'', JStr source)])))) db1
            | (db1, Inl e) \<Rightarrow>
                (case get_submission c k db1 of
                   None \<Rightarrow> (db1, Inl e)
                 | Some s \<Rightarrow>
                     bind_op (modify_op (mark_draft_finalized_if_pending (get_draft c k db1) (sb_id s) now)) (\<lambda>_.
                     bind_op (settle_progress tz from_iso (reloaded_session cs db1) now at) (\<lambda>_.
                     lift_op (Inr (response ''no_op_existing_submission''
                       [(''submissionId'', JInt (sb_id s)), (''source'', JStr source)])))) db1))))"

text \<open>A window that has not ended: the job is put back to its end, or the handler raises.\<close>

definition reschedule_close ::
    "(string \<Rightarrow> datetime option) \<Rightarrow> candidate_session \<Rightarrow> task \<Rightarrow> datetime \<Rightarrow> datetime \<Rightarrow> datetime option \<Rightarrow> (work_db, obj) op" where
  "reschedule_close from_iso cs t window_end_at now scheduled db =
     (case session_trial (wk_app db) cs of
        None \<Rightarrow> (db, Inl (RuntimeError ''company_id required to reschedule''))
      | Some trial \<Rightarrow>
          (case requeue_nonterminal_idempotent_job (t_company_id trial) DAY_CLOSE_FINALIZE_TEXT_JOB_TYPE
               (day_close_finalize_text_idempotency_key (cs_id cs) (tk_id t)) window_end_at now
               (Some (build_day_close_finalize_text_payload (cs_id cs) (tk_id t) (tk_day_index t) window_end_at)) (queue (wk_app db)) of
             Inl e \<Rightarrow> (db, Inl e)
           | Inr (None, _) \<Rightarrow> (db, Inl (RuntimeError ''unable to reschedule idempotent job''))
           | Inr (Some _, q) \<Rightarrow>
               (db\<lparr>wk_app := (wk_app db)\<lparr>queue := q\<rparr>\<rparr>,
                Inr ([(''status'', JStr ''rescheduled_not_due''), (''_jobDisposition'', JStr ''rescheduled''),
                      (''candidateSessionId'', JInt (cs_id cs)), (''taskId'', JInt (tk_id t)), (''dayIndex'', JInt (tk_day_index t)),
                      (''windowEndAt'', JStr (isoformat window_end_at)),
                      (''scheduledWindowEndAt'', opt_json (\<lambda>x. JStr (isoformat x)) scheduled)]))))"

definition finalize_text_for ::
    "tz_database \<Rightarrow> (string \<Rightarrow> datetime option) \<Rightarrow> (work_db \<Rightarrow> work_db) \<Rightarrow> int \<Rightarrow> int \<Rightarrow> int option \<Rightarrow> datetime option \<Rightarrow> datetime \<Rightarrow>
     datetime \<Rightarrow> (work_db, obj) op" where
  "finalize_text_for tz from_iso other c k day_index scheduled now at db =
     (case get_session c (wk_app db) of
        None \<Rightarrow> (db, Inr (close_response ''candidate_session_not_found'' (Some c) (Some k) day_index))
      | Some cs \<Rightarrow>
          (case load_task_for_session k (cs_trial_id cs) db of
             None \<Rightarrow> (db, Inr (close_response ''task_not_found'' (Some c) (Some k) day_index))
           | Some t \<Rightarrow>
               (let task_type = py_lower (py_strip (tk_type t)) in
                if task_type \<notin> set TEXT_TASK_TYPES
                then (db, Inr (close_response ''skipped_non_text_task'' (Some c) (Some k) (Some (tk_day_index t)) @ [(''taskType'', JStr task_type)]))
                else (case compute_task_window tz from_iso (wk_app db) cs t now of
                  Inl e \<Rightarrow> (db, Inl e)
                | Inr w \<Rightarrow>
                    (case tw_window_end_at w of
                       None \<Rightarrow> (db, Inr (close_response ''skipped_invalid_window'' (Some c) (Some k) (Some (tk_day_index t))))
                     | Some window_end_at \<Rightarrow>
                         if now < window_end_at then reschedule_close from_iso cs t window_end_at now scheduled db
                         else finalize_submission_from_cutoff tz from_iso other cs t now at db)))))"

definition handle_day_close_finalize_text ::
    "tz_database \<Rightarrow> (string \<Rightarrow> datetime option) \<Rightarrow> (work_db \<Rightarrow> work_db) \<Rightarrow> datetime \<Rightarrow> datetime \<Rightarrow> obj \<Rightarrow> (work_db, obj) op" where
  "handle_day_close_finalize_text tz from_iso other now at payload =
     bind_op (lift_op (parse_positive_int (dict_get ''candidateSessionId'' payload))) (\<lambda>c.
     bind_op (lift_op (parse_positive_int (dict_get ''taskId'' payload))) (\<lambda>k.
     bind_op (lift_op (parse_positive_int (dict_get ''dayIndex'' payload))) (\<lambda>day_index.
     case (c, k) of
       (Some c', Some k') \<Rightarrow> finalize_text_for tz from_iso other c' k' day_index
         (parse_iso_datetime from_iso (dict_get ''windowEndAt'' payload)) now at
     | _ \<Rightarrow> lift_op (Inr (close_response ''skipped_invalid_payload'' c k day_index)))))"

section \<open>The cut-off of a coding day\<close>

definition extract_head_sha :: "json \<Rightarrow> string option res" where
  "extract_head_sha branch_payload =
     (case branch_payload of
        JObj d \<Rightarrow> Inr (case dict_get ''commit'' d of
                    JObj c \<Rightarrow> (case dict_get ''sha'' c of JStr s \<Rightarrow> if py_strip s = [] then None else Some (py_strip s) | _ \<Rightarrow> None)
                  | _ \<Rightarrow> None)
      | _ \<Rightarrow> Inl (AttributeError ''get''))"

definition resolve_default_branch :: "github \<Rightarrow> string \<Rightarrow> string option \<Rightarrow> string res" where
  "resolve_default_branch gh repo_full_name workspace_default_branch =
     (case workspace_default_branch of
        Some b \<Rightarrow> if py_strip b \<noteq> [] then Inr (py_strip b)
                  else bind_result (gh_get_repo gh repo_full_name) (\<lambda>repo.
                    Inr (if text_of (dict_get ''default_branch'' repo) \<noteq> [] then text_of (dict_get ''default_branch'' repo) else ''main''))
      | None \<Rightarrow> bind_result (gh_get_repo gh repo_full_name) (\<lambda>repo.
                    Inr (if text_of (dict_get ''default_branch'' repo) \<noteq> [] then text_of (dict_get ''default_branch'' repo) else ''main'')))"

definition revoke_repo_write_access :: "github \<Rightarrow> string \<Rightarrow> string option \<Rightarrow> string res" where
  "revoke_repo_write_access gh repo_full_name github_username =
     (let username = (case github_username of None \<Rightarrow> [] | Some u \<Rightarrow> py_strip u) in
      if username = [] then Inl (RuntimeError ''day_close_enforcement_missing_github_username'')
      else (case gh_remove_collaborator gh repo_full_name username of
              Inr _ \<Rightarrow> Inr ''collaborator_removed''
            | Inl (GithubError (Some code) m) \<Rightarrow>
                if code = 404 then Inr ''collaborator_not_found'' else Inl (GithubError (Some code) m)
            | Inl e \<Rightarrow> Inl e))"

definition set_access_revocation_state :: "workspace \<Rightarrow> datetime option \<Rightarrow> string option \<Rightarrow> work_db \<Rightarrow> work_db" where
  "set_access_revocation_state w revoked_at err db =
     db\<lparr>wk_workspaces := update_rows (\<lambda>x. ws_id x = ws_id w)
       (\<lambda>x. x\<lparr>ws_access_revoked_at := revoked_at, ws_access_revocation_error := err\<rparr>) (wk_workspaces db)\<rparr>"

text \<open>The audit is written once: a row that another transaction committed first wins.\<close>

definition create_day_audit_once ::
    "(work_db \<Rightarrow> work_db) \<Rightarrow> day_audit \<Rightarrow> (work_db, day_audit \<times> bool) op" where
  "create_day_audit_once other a db =
     (case get_day_audit (da_candidate_session_id a) (da_day_index a) db of
        Some x \<Rightarrow> (db, Inr (x, False))
      | None \<Rightarrow>
          (let db1 = other db in
           case get_day_audit (da_candidate_session_id a) (da_day_index a) db1 of
             Some x \<Rightarrow> (db1, Inr (x, False))
           | None \<Rightarrow> if da_day_index a \<in> {2, 3} then (db1\<lparr>wk_audits := wk_audits db1 @ [a]\<rparr>, Inr (a, True))
                     else (db1, Inl IntegrityError)))"

definition cutoff_response :: "string \<Rightarrow> candidate_session \<Rightarrow> task \<Rightarrow> day_audit \<Rightarrow> obj" where
  "cutoff_response status cs t a =
     close_response status (Some (cs_id cs)) (Some (tk_id t)) (Some (tk_day_index t)) @
     [(''cutoffCommitSha'', JStr (da_cutoff_commit_sha a)), (''cutoffAt'', JStr (to_utc_z (da_cutoff_at a))),
      (''evalBasisRef'', JStr (da_eval_basis_ref a))]"

definition enforcement_workspace :: "candidate_session \<Rightarrow> task \<Rightarrow> work_db \<Rightarrow> workspace option" where
  "enforcement_workspace cs t db =
     (case get_by_session_and_workspace_key (cs_id cs) CODING_WORKSPACE_KEY db of
        Some w \<Rightarrow> Some w | None \<Rightarrow> get_by_session_and_task (cs_id cs) (tk_id t) db)"

definition record_cutoff ::
    "github \<Rightarrow> (work_db \<Rightarrow> work_db) \<Rightarrow> candidate_session \<Rightarrow> task \<Rightarrow> workspace \<Rightarrow> datetime \<Rightarrow> (work_db, obj) op" where
  "record_cutoff gh other cs t w cutoff_at =
     (let repo = py_strip (ws_repo_full_name w) in
      bind_op (lift_op (revoke_repo_write_access gh repo (cs_github_username cs))) (\<lambda>revoke_status.
      bind_op (modify_op (set_access_revocation_state w (Some cutoff_at) None)) (\<lambda>_.
      bind_op (lift_op (resolve_default_branch gh repo (ws_default_branch w))) (\<lambda>default_branch.
      bind_op (lift_op (bind_result (gh_get_branch gh repo default_branch) extract_head_sha)) (\<lambda>sha.
      case sha of
        None \<Rightarrow> lift_op (Inl (RuntimeError ''day_close_enforcement_missing_branch_head_sha''))
      | Some cutoff_commit_sha \<Rightarrow>
          bind_op (create_day_audit_once other
            \<lparr>da_candidate_session_id = cs_id cs, da_day_index = tk_day_index t, da_cutoff_at = cutoff_at,
             da_cutoff_commit_sha = cutoff_commit_sha, da_eval_basis_ref = ''refs/heads/'' @ default_branch @ ''@cutoff''\<rparr>)
            (\<lambda>(a, created). lift_op (Inr
              (if created then cutoff_response ''cutoff_persisted'' cs t a @ [(''repoFullName'', JStr repo), (''revokeStatus'', JStr revoke_status)]
               else cutoff_response ''no_op_cutoff_exists'' cs t a))))))))"

definition enforce_for ::
    "github \<Rightarrow> (work_db \<Rightarrow> work_db) \<Rightarrow> int \<Rightarrow> int \<Rightarrow> int \<Rightarrow> datetime \<Rightarrow> (work_db, obj) op" where
  "enforce_for gh other c k day_index cutoff_at db =
     (case get_session c (wk_app db) of
        None \<Rightarrow> (db, Inr (close_response ''candidate_session_not_found'' (Some c) (Some k) (Some day_index)))
      | Some cs \<Rightarrow>
          (case load_task_for_session k (cs_trial_id cs) db of
             None \<Rightarrow> (db, Inr (close_response ''task_not_found'' (Some c) (Some k) (Some day_index)))
           | Some t \<Rightarrow>
               (let task_type = py_lower (py_strip (tk_type t)) in
                if tk_day_index t \<notin> set DAY_CLOSE_ENFORCEMENT_DAY_INDEXES \<or> task_type \<notin> set CODE_TASK_TYPES
                then (db, Inr (close_response ''skipped_non_code_task'' (Some c) (Some k) (Some (tk_day_index t)) @ [(''taskType'', JStr task_type)]))
                else (case get_day_audit c (tk_day_index t) db of
                  Some a \<Rightarrow> (db, Inr (cutoff_response ''no_op_cutoff_exists'' cs t a))
                | None \<Rightarrow>
                    (case enforcement_workspace cs t db of
                       None \<Rightarrow> (db, Inl (RuntimeError ''day_close_enforcement_workspace_missing_for_coding_day''))
                     | Some w \<Rightarrow>
                         if py_strip (ws_repo_full_name w) = []
                         then (db, Inl (RuntimeError ''day_close_enforcement_workspace_missing_for_coding_day''))
                         else record_cutoff gh other cs t w cutoff_at db)))))"

definition handle_day_close_enforcement ::
    "(string \<Rightarrow> datetime option) \<Rightarrow> github \<Rightarrow> (work_db \<Rightarrow> work_db) \<Rightarrow> datetime \<Rightarrow> obj \<Rightarrow> (work_db, obj) op" where
  "handle_day_close_enforcement from_iso gh other now payload =
     bind_op (lift_op (parse_positive_int (dict_get ''candidateSessionId'' payload))) (\<lambda>c.
     bind_op (lift_op (parse_positive_int (dict_get ''taskId'' payload))) (\<lambda>k.
     bind_op (lift_op (parse_positive_int (dict_get ''dayIndex'' payload))) (\<lambda>day_index.
     case (c, k, day_index) of
       (Some c', Some k', Some d) \<Rightarrow>
         if d \<in> set DAY_CLOSE_ENFORCEMENT_DAY_INDEXES
         then enforce_for gh other c' k' d
           (case parse_iso_datetime from_iso (dict_get ''windowEndAt'' payload) of Some t \<Rightarrow> t | None \<Rightarrow> now)
         else lift_op (Inr (close_response ''skipped_invalid_payload'' c k day_index))
     | _ \<Rightarrow> lift_op (Inr (close_response ''skipped_invalid_payload'' c k day_index)))))"

end
