(* ===== verification/EvaluationValues.thy ===== *)
theory EvaluationValues
  imports PyText
begin

text \<open>
  The values an evaluation run is built from and their validation: scores, recommendations,
  texts, evidence pointers, and the payloads of day scores and reviewer reports. A float is
  held by its \<open>repr\<close>, on which lying between 0 and 1 is decided; \<open>float(i)\<close> of an integer is
  written with the digits of the integer, also above \<open>2^53\<close> where Python rounds.
  The standard library's URL parser is the argument \<open>urlparse\<close> (scheme and network location).
\<close>

section \<open>Constants\<close>

definition EVALUATION_RUN_STATUSES :: "string list" where
  "EVALUATION_RUN_STATUSES = [''pending'', ''running'', ''completed'', ''failed'']"

definition EVALUATION_RECOMMENDATIONS :: "string list" where
  "EVALUATION_RECOMMENDATIONS = [''hire'', ''strong_hire'', ''no_hire'', ''lean_hire'']"

definition WINOE_REPORT_RECOMMENDATION_TO_STORAGE :: "(string \<times> string) list" where
  "WINOE_REPORT_RECOMMENDATION_TO_STORAGE = [(''strong_signal'', ''strong_hire''), (''positive_signal'', ''hire''),
     (''mixed_signal'', ''lean_hire''), (''limited_signal'', ''no_hire'')]"

definition KIND_ALIASES :: "(string \<times> string) list" where
  "KIND_ALIASES = [(''reflection'', ''submission''), (''test'', ''tests'')]"

definition ALLOWED_KINDS :: "string list" where
  "ALLOWED_KINDS = [''commit'', ''diff'', ''rubric'', ''submission'', ''tests'', ''transcript'']"

section \<open>Scalars\<close>

definition normalize_non_empty_str :: "string \<Rightarrow> json \<Rightarrow> string res" where
  "normalize_non_empty_str field_name value =
     (if text_of value = [] then Inl (ValueError (field_name @ '' must be a non-empty string.''))
      else Inr (text_of value))"

definition normalize_optional_non_empty_str :: "string \<Rightarrow> string option \<Rightarrow> string option res" where
  "normalize_optional_non_empty_str field_name value =
     (case value of None \<Rightarrow> Inr None
      | Some s \<Rightarrow> bind_result (normalize_non_empty_str field_name (JStr s)) (\<lambda>t. Inr (Some t)))"

definition normalize_status :: "string \<Rightarrow> string res" where
  "normalize_status status =
     (let normalized = py_lower (py_strip status)
      in if normalized \<in> set EVALUATION_RUN_STATUSES then Inr normalized
         else Inl (ValueError (''invalid evaluation run status: '' @ status)))"

definition coerce_object :: "string \<Rightarrow> json \<Rightarrow> obj option res" where
  "coerce_object field_name value =
     (case value of JNull \<Rightarrow> Inr None | JObj d \<Rightarrow> Inr (Some d)
      | _ \<Rightarrow> Inl (ValueError (field_name @ '' must be an object when provided.'')))"

definition is_finite :: "string \<Rightarrow> bool" where
  "is_finite r \<longleftrightarrow> r \<notin> {''nan'', ''inf'', ''-inf''}"

text \<open>
  Python writes a float as a decimal without exponent from \<open>1e-4\<close> up to \<open>1e16\<close>, else with a
  signed exponent of two digits or more.
\<close>

definition in_unit_interval :: "string \<Rightarrow> bool" where
  "in_unit_interval r \<longleftrightarrow> r = ''1.0'' \<or> r = ''-0.0'' \<or> starts_with ''0.'' r \<or>
     (\<not> starts_with ''-'' r \<and> contains ''e-'' r)"

definition FLOAT_OVERFLOW :: int where
  "FLOAT_OVERFLOW = 2 ^ 1024 - 2 ^ 970"

definition float_of_int :: "int \<Rightarrow> string res" where
  "float_of_int i =
     (if \<bar>i\<bar> \<ge> FLOAT_OVERFLOW then Inl (OverflowError ''int too large to convert to float'')
      else Inr (int_str i @ ''.0''))"

text \<open>\<open>isinstance(value, int | float)\<close> without bool, then \<open>float(value)\<close>.\<close>

definition to_float :: "string \<Rightarrow> json \<Rightarrow> string res" where
  "to_float message value =
     (case value of JInt i \<Rightarrow> float_of_int i | JFloat r \<Rightarrow> Inr r | _ \<Rightarrow> Inl (ValueError message))"

definition coerce_score :: "string \<Rightarrow> json \<Rightarrow> string res" where
  "coerce_score field_path value =
     bind_result (to_float (field_path @ '' must be numeric.'') value) (\<lambda>r.
     if is_finite r then Inr r else Inl (ValueError (field_path @ '' must be finite.'')))"

text \<open>The repository's and the service's variants differ in the words \<open>when provided\<close>.\<close>

definition coerce_unit_interval_score :: "string \<Rightarrow> string \<Rightarrow> bool \<Rightarrow> json \<Rightarrow> string option res" where
  "coerce_unit_interval_score provided field_name required value =
     (if value = JNull
      then (if required then Inl (ValueError (field_name @ '' is required.'')) else Inr None)
      else bind_result (to_float (field_name @ '' must be numeric'' @ provided @ ''.'') value) (\<lambda>r.
           if \<not> is_finite r then Inl (ValueError (field_name @ '' must be finite.''))
           else if \<not> in_unit_interval r then Inl (ValueError (field_name @ '' must be between 0 and 1.''))
           else Inr (Some r)))"

definition coerce_recommendation :: "string \<Rightarrow> bool \<Rightarrow> json \<Rightarrow> string option res" where
  "coerce_recommendation provided required value =
     (if value = JNull
      then (if required then Inl (ValueError ''recommendation is required.'') else Inr None)
      else if text_of value = [] then Inl (ValueError (''recommendation must be a non-empty string'' @ provided @ ''.''))
      else let lowered = py_lower (text_of value);
               normalized = (case map_of WINOE_REPORT_RECOMMENDATION_TO_STORAGE lowered of None \<Rightarrow> lowered | Some v \<Rightarrow> v)
           in if normalized \<in> set EVALUATION_RECOMMENDATIONS then Inr (Some normalized)
              else Inl (ValueError (''invalid recommendation: '' @ py_str value)))"

definition coerce_score_day :: "string \<Rightarrow> json \<Rightarrow> int res" where
  "coerce_score_day field_path value =
     (case value of
        JInt i \<Rightarrow> if i < 1 \<or> i > 5 then Inl (ValueError (field_path @ '' must be between 1 and 5.'')) else Inr i
      | _ \<Rightarrow> Inl (ValueError (field_path @ '' must be an integer.'')))"

definition coerce_rubric_results_json :: "string \<Rightarrow> json \<Rightarrow> obj res" where
  "coerce_rubric_results_json field_path value =
     (case value of JObj d \<Rightarrow> Inr d | _ \<Rightarrow> Inl (ValueError (field_path @ '' must be an object.'')))"

section \<open>Evidence pointers\<close>

definition coerce_non_negative_int :: "string \<Rightarrow> json \<Rightarrow> int res" where
  "coerce_non_negative_int field_path value =
     (case value of
        JInt i \<Rightarrow> if i < 0 then Inl (ValueError (field_path @ '' must be non-negative.'')) else Inr i
      | _ \<Rightarrow> Inl (ValueError (field_path @ '' must be an integer.'')))"

definition validate_url :: "(string \<Rightarrow> (string \<times> string) res) \<Rightarrow> string \<Rightarrow> json \<Rightarrow> string res" where
  "validate_url urlparse field_path value =
     bind_result (normalize_non_empty_str field_path value) (\<lambda>url.
     bind_result (urlparse url) (\<lambda>(scheme, netloc).
     if scheme \<in> {''http'', ''https''} \<and> netloc \<noteq> [] then Inr url
     else Inl (ValueError (field_path @ '' must be an http or https URL.''))))"

definition dict_pop :: "string \<Rightarrow> obj \<Rightarrow> obj" where
  "dict_pop k d = filter (\<lambda>(k', _). k' \<noteq> k) d"

definition optional_ms :: "string \<Rightarrow> json \<Rightarrow> int option res" where
  "optional_ms field_path value =
     (if value = JNull then Inr None
      else bind_result (coerce_non_negative_int field_path value) (\<lambda>i. Inr (Some i)))"

definition transcript_bounds :: "string \<Rightarrow> obj \<Rightarrow> obj res" where
  "transcript_bounds field_path item =
     bind_result (optional_ms (field_path @ ''.startMs'') (dict_get ''startMs'' item)) (\<lambda>s.
     bind_result (optional_ms (field_path @ ''.endMs'') (dict_get ''endMs'' item)) (\<lambda>e.
     case (s, e) of
       (None, None) \<Rightarrow> Inr item
     | _ \<Rightarrow> let start_ms = the (if s = None then e else s); end_ms = the (if e = None then s else e)
            in if end_ms < start_ms
               then Inl (ValueError (field_path @ ''.endMs must be greater than or equal to startMs.''))
               else Inr (dict_set ''endMs'' (JInt end_ms) (dict_set ''startMs'' (JInt start_ms) item))))"

definition pointer_day :: "string \<Rightarrow> obj \<Rightarrow> obj res" where
  "pointer_day field_path item =
     (if dict_get ''dayIndex'' item = JNull then Inr item
      else bind_result (coerce_non_negative_int (field_path @ ''.dayIndex'') (dict_get ''dayIndex'' item)) (\<lambda>d.
           if d < 1 \<or> d > 5 then Inl (ValueError (field_path @ ''.dayIndex must be between 1 and 5.''))
           else Inr (dict_set ''dayIndex'' (JInt d) item)))"

definition pointer_excerpt :: "string \<Rightarrow> obj \<Rightarrow> obj res" where
  "pointer_excerpt field_path item =
     (let excerpt = (if dict_get ''excerpt'' item = JNull \<and> dict_get ''quote'' item \<noteq> JNull
                     then dict_get ''quote'' item else dict_get ''excerpt'' item)
      in case excerpt of
           JNull \<Rightarrow> Inr (dict_pop ''quote'' item)
         | JStr s \<Rightarrow> Inr (dict_pop ''quote'' (if py_strip s \<noteq> [] then dict_set ''excerpt'' (JStr (py_strip s)) item else item))
         | _ \<Rightarrow> Inl (ValueError (field_path @ ''.excerpt must be a string when provided.'')))"

definition validate_pointer :: "(string \<Rightarrow> (string \<times> string) res) \<Rightarrow> nat \<times> json \<Rightarrow> json res" where
  "validate_pointer urlparse ip =
     (let field_path = ''evidence_pointers_json['' @ int_str (int (fst ip)) @ '']''
      in case snd ip of
           JObj item0 \<Rightarrow>
             bind_result (normalize_non_empty_str (field_path @ ''.kind'') (dict_get ''kind'' item0)) (\<lambda>raw.
             let kind = (case map_of KIND_ALIASES raw of None \<Rightarrow> raw | Some k \<Rightarrow> k)
             in if kind \<notin> set ALLOWED_KINDS
                then Inl (ValueError (field_path @ ''.kind must be one of: '' @ py_join '', '' ALLOWED_KINDS @ ''.''))
                else let item1 = dict_set ''kind'' (JStr kind) item0 in
             bind_result (normalize_non_empty_str (field_path @ ''.ref'') (dict_get ''ref'' item1)) (\<lambda>ref.
             let item2 = dict_set ''ref'' (JStr ref) item1 in
             bind_result (if dict_get ''url'' item2 = JNull then Inr item2
                else bind_result (validate_url urlparse (field_path @ ''.url'') (dict_get ''url'' item2)) (\<lambda>url.
                     Inr (dict_set ''url'' (JStr url) item2))) (\<lambda>item3.
             bind_result (pointer_excerpt field_path item3) (\<lambda>item4.
             bind_result (pointer_day field_path item4) (\<lambda>item5.
             bind_result (if kind = ''transcript'' then transcript_bounds field_path item5 else Inr item5) (\<lambda>item6.
             Inr (JObj item6)))))))
         | _ \<Rightarrow> Inl (ValueError (field_path @ '' must be an object.'')))"

definition validate_evidence_pointers :: "(string \<Rightarrow> (string \<times> string) res) \<Rightarrow> json \<Rightarrow> json list res" where
  "validate_evidence_pointers urlparse value =
     (case value of
        JList pointers \<Rightarrow> map_result (validate_pointer urlparse) (enumerate 0 pointers)
      | _ \<Rightarrow> Inl (ValueError ''evidence_pointers_json must be a list.''))"

section \<open>Payloads\<close>

record day_score =
  ds_run_id :: int
  ds_day_index :: int
  ds_score :: string
  ds_rubric_results_json :: obj
  ds_evidence_pointers_json :: "json list"

record reviewer_report =
  rr_run_id :: int
  rr_reviewer_agent_key :: string
  rr_day_index :: int
  rr_submission_kind :: string
  rr_score :: string
  rr_dimensional_scores_json :: obj
  rr_evidence_citations_json :: "json list"
  rr_assessment_text :: string
  rr_strengths_json :: "string list"
  rr_risks_json :: "string list"
  rr_raw_output_json :: "obj option"

definition index_path :: "string \<Rightarrow> nat \<Rightarrow> string" where
  "index_path name i = name @ ''['' @ int_str (int i) @ '']''"

text \<open>The rows carry the run they are for; the days already seen are checked in order.\<close>

fun normalize_day_scores ::
    "(string \<Rightarrow> (string \<times> string) res) \<Rightarrow> int \<Rightarrow> nat \<Rightarrow> int list \<Rightarrow> json list \<Rightarrow> day_score list res" where
  "normalize_day_scores urlparse run i seen [] = Inr []"
| "normalize_day_scores urlparse run i seen (v # vs) =
     (let path = index_path ''day_scores'' i
      in case v of
           JObj entry \<Rightarrow>
             bind_result (coerce_score_day (path @ ''.day_index'') (dict_get ''day_index'' entry)) (\<lambda>day.
             if day \<in> set seen
             then Inl (ValueError (''day_scores contains duplicate day_index values: '' @ int_str day))
             else
             bind_result (coerce_score (path @ ''.score'') (dict_get ''score'' entry)) (\<lambda>score.
             bind_result (coerce_rubric_results_json (path @ ''.rubric_results_json'') (dict_get ''rubric_results_json'' entry)) (\<lambda>rubric.
             bind_result (validate_evidence_pointers urlparse (dict_get ''evidence_pointers_json'' entry)) (\<lambda>pointers.
             bind_result (normalize_day_scores urlparse run (Suc i) (day # seen) vs) (\<lambda>rest.
             Inr (\<lparr>ds_run_id = run, ds_day_index = day, ds_score = score, ds_rubric_results_json = rubric,
                   ds_evidence_pointers_json = pointers\<rparr> # rest))))))
         | _ \<Rightarrow> Inl (ValueError (path @ '' must be an object.'')))"

definition normalize_day_score_payload ::
    "(string \<Rightarrow> (string \<times> string) res) \<Rightarrow> int \<Rightarrow> bool \<Rightarrow> json list \<Rightarrow> day_score list res" where
  "normalize_day_score_payload urlparse run allow_empty day_scores =
     (if day_scores = []
      then (if allow_empty then Inr [] else Inl (ValueError ''day_scores must include at least one day score.''))
      else normalize_day_scores urlparse run 0 [] day_scores)"

definition normalize_text_item :: "string \<Rightarrow> nat \<times> json \<Rightarrow> string res" where
  "normalize_text_item field_path iv = normalize_non_empty_str (index_path field_path (fst iv)) (snd iv)"

definition normalize_text_list :: "string \<Rightarrow> json \<Rightarrow> string list res" where
  "normalize_text_list field_path value =
     (case value of JList items \<Rightarrow> map_result (normalize_text_item field_path) (enumerate 0 items)
      | _ \<Rightarrow> Inl (ValueError (field_path @ '' must be a list.'')))"

type_synonym report_key = "int \<times> string \<times> string"

definition report_identity :: "reviewer_report \<Rightarrow> report_key" where
  "report_identity r = (rr_day_index r, rr_reviewer_agent_key r, rr_submission_kind r)"

definition normalize_report_entry ::
    "(string \<Rightarrow> (string \<times> string) res) \<Rightarrow> int \<Rightarrow> nat \<Rightarrow> report_key list \<Rightarrow> json \<Rightarrow> reviewer_report res" where
  "normalize_report_entry urlparse run i seen v =
     (let path = index_path ''reviewer_reports'' i
      in case v of
           JObj entry \<Rightarrow>
             bind_result (coerce_score_day (path @ ''.day_index'') (dict_get ''day_index'' entry)) (\<lambda>day.
             bind_result (normalize_non_empty_str (path @ ''.reviewer_agent_key'') (dict_get ''reviewer_agent_key'' entry)) (\<lambda>agent.
             bind_result (normalize_non_empty_str (path @ ''.submission_kind'') (dict_get ''submission_kind'' entry)) (\<lambda>kind.
             if (day, agent, py_lower kind) \<in> set seen
             then Inl (ValueError ''reviewer_reports contains duplicate reviewer/day/submission entries.'')
             else
             bind_result (coerce_score (path @ ''.score'') (dict_get ''score'' entry)) (\<lambda>score.
             bind_result (coerce_object (path @ ''.dimensional_scores_json'') (dict_get ''dimensional_scores_json'' entry)) (\<lambda>dims.
             bind_result (validate_evidence_pointers urlparse (dict_get ''evidence_citations_json'' entry)) (\<lambda>cites.
             bind_result (normalize_non_empty_str (path @ ''.assessment_text'') (dict_get ''assessment_text'' entry)) (\<lambda>text.
             bind_result (normalize_text_list (path @ ''.strengths_json'')
                (json_or (dict_get ''strengths_json'' entry) (JList []))) (\<lambda>strengths.
             bind_result (normalize_text_list (path @ ''.risks_json'')
                (json_or (dict_get ''risks_json'' entry) (JList []))) (\<lambda>risks.
             bind_result (coerce_object (path @ ''.raw_output_json'') (dict_get ''raw_output_json'' entry)) (\<lambda>raw.
             Inr \<lparr>rr_run_id = run, rr_reviewer_agent_key = agent, rr_day_index = day, rr_submission_kind = py_lower kind,
                  rr_score = score, rr_dimensional_scores_json = (case dims of None \<Rightarrow> [] | Some d \<Rightarrow> d),
                  rr_evidence_citations_json = cites, rr_assessment_text = text, rr_strengths_json = strengths,
                  rr_risks_json = risks, rr_raw_output_json = raw\<rparr>))))))))))
         | _ \<Rightarrow> Inl (ValueError (path @ '' must be an object.'')))"

fun normalize_reviewer_reports ::
    "(string \<Rightarrow> (string \<times> string) res) \<Rightarrow> int \<Rightarrow> nat \<Rightarrow> report_key list \<Rightarrow> json list \<Rightarrow> reviewer_report list res" where
  "normalize_reviewer_reports urlparse run i seen [] = Inr []"
| "normalize_reviewer_reports urlparse run i seen (v # vs) =
     bind_result (normalize_report_entry urlparse run i seen v) (\<lambda>r.
     bind_result (normalize_reviewer_reports urlparse run (Suc i) (report_identity r # seen) vs) (\<lambda>rs.
     Inr (r # rs)))"

definition normalize_reviewer_report_payload ::
    "(string \<Rightarrow> (string \<times> string) res) \<Rightarrow> int \<Rightarrow> bool \<Rightarrow> json list \<Rightarrow> reviewer_report list res" where
  "normalize_reviewer_report_payload urlparse run allow_empty reports =
     (if reports = []
      then (if allow_empty then Inr [] else Inl (ValueError ''reviewer_reports must include at least one report.''))
      else normalize_reviewer_reports urlparse run 0 [] reports)"

end
