(* ===== verification/EvaluationRuns.thy ===== *)
theory EvaluationRuns
  imports EvaluationValues Operations PyTime "HOL-Library.Product_Lexorder"
begin

text \<open>
  Evaluation runs: their rows and those of the day scores and reviewer reports, and the
  operations that create, complete and fail a run and look runs up. \<open>ev_failed\<close> is the state of a
  transaction in which a statement has failed: the database refuses every later statement.
\<close>

section \<open>Rows\<close>

record evaluation_run =
  er_id :: int
  er_candidate_session_id :: int
  er_scenario_version_id :: int
  er_status :: string
  er_started_at :: datetime
  er_completed_at :: "datetime option"
  er_model_name :: string
  er_model_version :: string
  er_prompt_version :: string
  er_rubric_version :: string
  er_job_id :: "string option"
  er_basis_fingerprint :: "string option"
  er_overall_winoe_score :: "string option"
  er_recommendation :: "string option"
  er_confidence :: "string option"
  er_generated_at :: "datetime option"
  er_raw_report_json :: "obj option"
  er_error_code :: "string option"
  er_metadata_json :: "obj option"
  er_day2_checkpoint_sha :: string
  er_day3_final_sha :: string
  er_cutoff_commit_sha :: string
  er_transcript_reference :: string

record eval_db =
  ev_runs :: "evaluation_run list"
  ev_day_scores :: "day_score list"
  ev_reviewer_reports :: "reviewer_report list"
  ev_next_run_id :: int
  ev_failed :: bool

text \<open>A query or a flush: refused in a failed transaction.\<close>

definition query_op :: "('x eval_db_scheme \<Rightarrow> 'a) \<Rightarrow> ('x eval_db_scheme, 'a) op" where
  "query_op q s = (if ev_failed s then (s, Inl TransactionAborted) else (s, Inr (q s)))"

text \<open>
  A flush that inserts rows: when they violate a constraint the statement fails, the rows
  are not there and the transaction is failed.
\<close>

definition insert_op ::
    "('x eval_db_scheme \<Rightarrow> bool) \<Rightarrow> ('x eval_db_scheme \<Rightarrow> 'x eval_db_scheme) \<Rightarrow> ('x eval_db_scheme, unit) op" where
  "insert_op ok f s =
     (if ev_failed s then (s, Inl TransactionAborted)
      else if ok (f s) then (f s, Inr ())
      else (s\<lparr>ev_failed := True\<rparr>, Inl IntegrityError))"

section \<open>Constraints of the tables\<close>

definition unique_job_ids :: "'x eval_db_scheme \<Rightarrow> bool" where
  "unique_job_ids db \<longleftrightarrow> distinct (List.map_filter er_job_id (ev_runs db))"

definition unique_day_scores :: "'x eval_db_scheme \<Rightarrow> bool" where
  "unique_day_scores db \<longleftrightarrow> distinct (map (\<lambda>d. (ds_run_id d, ds_day_index d)) (ev_day_scores db))"

definition unique_reviewer_reports :: "'x eval_db_scheme \<Rightarrow> bool" where
  "unique_reviewer_reports db \<longleftrightarrow>
     distinct (map (\<lambda>r. (rr_run_id r, rr_reviewer_agent_key r, rr_day_index r)) (ev_reviewer_reports db))"

section \<open>Creating a run\<close>

record run_request =
  rq_candidate_session_id :: int
  rq_scenario_version_id :: int
  rq_model_name :: string
  rq_model_version :: string
  rq_prompt_version :: string
  rq_rubric_version :: string
  rq_day2_checkpoint_sha :: string
  rq_day3_final_sha :: string
  rq_cutoff_commit_sha :: string
  rq_transcript_reference :: string
  rq_job_id :: "string option"
  rq_basis_fingerprint :: "string option"
  rq_overall_winoe_score :: json
  rq_recommendation :: json
  rq_confidence :: json
  rq_generated_at :: "datetime option"
  rq_raw_report_json :: json
  rq_error_code :: "string option"
  rq_status :: string
  rq_started_at :: "datetime option"
  rq_completed_at :: "datetime option"
  rq_metadata_json :: json

definition open_status :: "string \<Rightarrow> bool" where
  "open_status status \<longleftrightarrow> status \<in> {''pending'', ''running''}"

definition normalize_run_time_fields ::
    "string \<Rightarrow> datetime option \<Rightarrow> datetime option \<Rightarrow> datetime option \<Rightarrow> datetime \<Rightarrow>
     (datetime \<times> datetime option \<times> datetime option) res" where
  "normalize_run_time_fields status started_at completed_at generated_at now =
     (let started = (case started_at of None \<Rightarrow> drop_microseconds now | Some t \<Rightarrow> t)
      in if open_status status \<and> completed_at \<noteq> None
         then Inl (ValueError (''completed_at is not allowed when status is '' @ status @ ''.''))
         else let completed = (if status = ''completed'' \<and> completed_at = None then Some (drop_microseconds now) else completed_at)
         in if completed \<noteq> None \<and> the completed < started
         then Inl (ValueError ''completed_at must be greater than or equal to started_at.'')
         else if open_status status \<and> generated_at \<noteq> None
         then Inl (ValueError (''generated_at is not allowed when status is '' @ status @ ''.''))
         else let generated = (if status = ''completed'' \<and> generated_at = None then completed else generated_at)
         in if generated \<noteq> None \<and> the generated < started
         then Inl (ValueError ''generated_at must be greater than or equal to started_at.'')
         else Inr (started, completed, generated))"

text \<open>The row of the request; its id is assigned when it is flushed.\<close>

definition run_row :: "run_request \<Rightarrow> datetime \<Rightarrow> evaluation_run res" where
  "run_row rq now =
     bind_result (normalize_status (rq_status rq)) (\<lambda>status.
     bind_result (normalize_run_time_fields status (rq_started_at rq) (rq_completed_at rq) (rq_generated_at rq) now)
       (\<lambda>(started, completed, generated).
     bind_result (normalize_non_empty_str ''model_name'' (JStr (rq_model_name rq))) (\<lambda>model_name.
     bind_result (normalize_non_empty_str ''model_version'' (JStr (rq_model_version rq))) (\<lambda>model_version.
     bind_result (normalize_non_empty_str ''prompt_version'' (JStr (rq_prompt_version rq))) (\<lambda>prompt_version.
     bind_result (normalize_non_empty_str ''rubric_version'' (JStr (rq_rubric_version rq))) (\<lambda>rubric_version.
     bind_result (normalize_optional_non_empty_str ''job_id'' (rq_job_id rq)) (\<lambda>job_id.
     bind_result (normalize_optional_non_empty_str ''basis_fingerprint'' (rq_basis_fingerprint rq)) (\<lambda>basis.
     bind_result (coerce_unit_interval_score '' when provided'' ''overall_winoe_score'' False (rq_overall_winoe_score rq)) (\<lambda>overall.
     bind_result (coerce_recommendation '' when provided'' False (rq_recommendation rq)) (\<lambda>recommendation.
     bind_result (coerce_unit_interval_score '' when provided'' ''confidence'' False (rq_confidence rq)) (\<lambda>confidence.
     bind_result (coerce_object ''raw_report_json'' (rq_raw_report_json rq)) (\<lambda>raw.
     bind_result (normalize_optional_non_empty_str ''error_code'' (rq_error_code rq)) (\<lambda>error_code.
     bind_result (coerce_object ''metadata_json'' (rq_metadata_json rq)) (\<lambda>metadata.
     bind_result (normalize_non_empty_str ''day2_checkpoint_sha'' (JStr (rq_day2_checkpoint_sha rq))) (\<lambda>day2.
     bind_result (normalize_non_empty_str ''day3_final_sha'' (JStr (rq_day3_final_sha rq))) (\<lambda>day3.
     bind_result (normalize_non_empty_str ''cutoff_commit_sha'' (JStr (rq_cutoff_commit_sha rq))) (\<lambda>cutoff.
     bind_result (normalize_non_empty_str ''transcript_reference'' (JStr (rq_transcript_reference rq))) (\<lambda>transcript.
     Inr \<lparr>er_id = 0, er_candidate_session_id = rq_candidate_session_id rq, er_scenario_version_id = rq_scenario_version_id rq,
          er_status = status, er_started_at = started, er_completed_at = completed, er_model_name = model_name,
          er_model_version = model_version, er_prompt_version = prompt_version, er_rubric_version = rubric_version,
          er_job_id = job_id, er_basis_fingerprint = basis, er_overall_winoe_score = overall,
          er_recommendation = recommendation, er_confidence = confidence, er_generated_at = generated,
          er_raw_report_json = raw, er_error_code = error_code, er_metadata_json = metadata,
          er_day2_checkpoint_sha = day2, er_day3_final_sha = day3, er_cutoff_commit_sha = cutoff,
          er_transcript_reference = transcript\<rparr>))))))))))))))))))"

definition add_run :: "evaluation_run \<Rightarrow> 'x eval_db_scheme \<Rightarrow> 'x eval_db_scheme" where
  "add_run run db = db\<lparr>ev_runs := ev_runs db @ [run\<lparr>er_id := ev_next_run_id db\<rparr>], ev_next_run_id := ev_next_run_id db + 1\<rparr>"

definition create_run :: "run_request \<Rightarrow> datetime \<Rightarrow> ('x eval_db_scheme, evaluation_run) op" where
  "create_run rq now =
     bind_op (lift_op (run_row rq now)) (\<lambda>run.
     bind_op (query_op ev_next_run_id) (\<lambda>i.
     bind_op (insert_op unique_job_ids (add_run run)) (\<lambda>_.
     lift_op (Inr (run\<lparr>er_id := i\<rparr>)))))"

definition start_run :: "run_request \<Rightarrow> datetime \<Rightarrow> ('x eval_db_scheme, evaluation_run) op" where
  "start_run rq now =
     create_run (rq\<lparr>rq_status := ''running'', rq_overall_winoe_score := JNull, rq_recommendation := JNull,
       rq_confidence := JNull, rq_generated_at := None, rq_raw_report_json := JNull, rq_error_code := None,
       rq_completed_at := None\<rparr>) now"

section \<open>Adding scores and reports\<close>

definition add_day_scores ::
    "(string \<Rightarrow> (string \<times> string) res) \<Rightarrow> int \<Rightarrow> json list \<Rightarrow> bool \<Rightarrow> ('x eval_db_scheme, day_score list) op" where
  "add_day_scores urlparse run day_scores allow_empty =
     bind_op (lift_op (normalize_day_score_payload urlparse run allow_empty day_scores)) (\<lambda>entries.
     if entries = [] then query_op (\<lambda>_. [])
     else
     bind_op (query_op (\<lambda>db. map ds_day_index (filter (\<lambda>d. ds_run_id d = run) (ev_day_scores db)))) (\<lambda>existing.
     let duplicates = sorted_list_of_set (set (map ds_day_index entries) \<inter> set existing)
     in if duplicates \<noteq> []
        then lift_op (Inl (ValueError (''run already has day scores for day_index values: '' @
               py_join '', '' (map int_str duplicates))))
        else bind_op (insert_op unique_day_scores (\<lambda>db. db\<lparr>ev_day_scores := ev_day_scores db @ entries\<rparr>)) (\<lambda>_.
             lift_op (Inr entries))))"

definition same_content :: "reviewer_report \<Rightarrow> reviewer_report \<Rightarrow> bool" where
  "same_content a b \<longleftrightarrow>
     py_equal (JFloat (rr_score a)) (JFloat (rr_score b)) \<and>
     py_equal (JObj (rr_dimensional_scores_json a)) (JObj (rr_dimensional_scores_json b)) \<and>
     py_equal (JList (rr_evidence_citations_json a)) (JList (rr_evidence_citations_json b)) \<and>
     rr_assessment_text a = rr_assessment_text b \<and> rr_strengths_json a = rr_strengths_json b \<and>
     rr_risks_json a = rr_risks_json b \<and>
     (case (rr_raw_output_json a, rr_raw_output_json b) of
        (Some d, Some e) \<Rightarrow> py_equal (JObj d) (JObj e) | (x, y) \<Rightarrow> x = y)"

text \<open>The rows to insert: an entry that repeats a stored report is kept, a different one refused.\<close>

fun resolve_reports :: "reviewer_report list \<Rightarrow> reviewer_report list \<Rightarrow> (reviewer_report list \<times> reviewer_report list) res" where
  "resolve_reports existing [] = Inr ([], [])"
| "resolve_reports existing (r # rs) =
     (case find_row (\<lambda>x. report_identity x = report_identity r) (rev existing) of
        Some old \<Rightarrow>
          if \<not> same_content old r
          then Inl (ValueError (''run already has reviewer report for day_index, reviewer_agent_key, '' @
                 ''and submission_kind with different persisted content.''))
          else bind_result (resolve_reports existing rs) (\<lambda>(new, all). Inr (new, old # all))
      | None \<Rightarrow> bind_result (resolve_reports existing rs) (\<lambda>(new, all). Inr (r # new, r # all)))"

definition add_reviewer_reports ::
    "(string \<Rightarrow> (string \<times> string) res) \<Rightarrow> int \<Rightarrow> json list \<Rightarrow> bool \<Rightarrow> ('x eval_db_scheme, reviewer_report list) op" where
  "add_reviewer_reports urlparse run reports allow_empty =
     bind_op (lift_op (normalize_reviewer_report_payload urlparse run allow_empty reports)) (\<lambda>entries.
     if entries = [] then query_op (\<lambda>_. [])
     else
     bind_op (query_op (\<lambda>db. filter (\<lambda>r. rr_run_id r = run) (ev_reviewer_reports db))) (\<lambda>existing.
     bind_op (lift_op (resolve_reports existing entries)) (\<lambda>(new, all).
     bind_op (insert_op unique_reviewer_reports (\<lambda>db. db\<lparr>ev_reviewer_reports := ev_reviewer_reports db @ new\<rparr>)) (\<lambda>_.
     lift_op (Inr all)))))"

definition create_run_with_day_scores ::
    "(string \<Rightarrow> (string \<times> string) res) \<Rightarrow> run_request \<Rightarrow> json list \<Rightarrow> datetime \<Rightarrow> ('x eval_db_scheme, evaluation_run) op" where
  "create_run_with_day_scores urlparse rq day_scores now =
     bind_op (create_run rq now) (\<lambda>run.
     bind_op (add_day_scores urlparse (er_id run) day_scores False) (\<lambda>_.
     lift_op (Inr run)))"

section \<open>Looking runs up\<close>

definition get_run_by_id :: "int \<Rightarrow> ('x eval_db_scheme, evaluation_run option) op" where
  "get_run_by_id run_id = query_op (\<lambda>db. find_row (\<lambda>r. er_id r = run_id) (ev_runs db))"

definition newest_runs :: "evaluation_run list \<Rightarrow> evaluation_run list" where
  "newest_runs rs = sort_key (\<lambda>r. (- er_started_at r, - er_id r)) rs"

definition first_row :: "'r list \<Rightarrow> 'r option" where
  "first_row rs = (case rs of [] \<Rightarrow> None | r # _ \<Rightarrow> Some r)"

definition get_run_by_job_id :: "string \<Rightarrow> int option \<Rightarrow> ('x eval_db_scheme, evaluation_run option) op" where
  "get_run_by_job_id job_id candidate_session_id =
     bind_op (lift_op (normalize_non_empty_str ''job_id'' (JStr job_id))) (\<lambda>j.
     query_op (\<lambda>db. first_row (newest_runs (filter (\<lambda>r. er_job_id r = Some j \<and>
       (case candidate_session_id of None \<Rightarrow> True | Some c \<Rightarrow> er_candidate_session_id r = c)) (ev_runs db)))))"

definition get_latest_run_for_candidate_session ::
    "int \<Rightarrow> string list option \<Rightarrow> string option \<Rightarrow> ('x eval_db_scheme, evaluation_run option) op" where
  "get_latest_run_for_candidate_session c statuses basis =
     bind_op (lift_op (case statuses of None \<Rightarrow> Inr None
        | Some ss \<Rightarrow> bind_result (map_result normalize_status ss) (\<lambda>ns. Inr (Some ns)))) (\<lambda>wanted.
     if wanted = Some [] then lift_op (Inr None)
     else query_op (\<lambda>db. first_row (newest_runs (filter (\<lambda>r. er_candidate_session_id r = c \<and>
       (case basis of None \<Rightarrow> True | Some b \<Rightarrow> er_basis_fingerprint r = Some b) \<and>
       (case wanted of None \<Rightarrow> True | Some ss \<Rightarrow> er_status r \<in> set ss)) (ev_runs db)))))"

definition get_latest_successful_run_for_candidate_session ::
    "int \<Rightarrow> ('x eval_db_scheme, evaluation_run option) op" where
  "get_latest_successful_run_for_candidate_session c =
     get_latest_run_for_candidate_session c (Some [''completed'']) None"

definition list_runs_for_candidate_session ::
    "int \<Rightarrow> int option \<Rightarrow> nat option \<Rightarrow> nat \<Rightarrow> ('x eval_db_scheme, evaluation_run list) op" where
  "list_runs_for_candidate_session c version limit offset =
     query_op (\<lambda>db.
       let rows = drop offset (newest_runs (filter (\<lambda>r. er_candidate_session_id r = c \<and>
         (case version of None \<Rightarrow> True | Some v \<Rightarrow> er_scenario_version_id r = v)) (ev_runs db)))
       in (case limit of None \<Rightarrow> rows | Some n \<Rightarrow> take n rows))"

definition has_runs_for_candidate_session :: "int \<Rightarrow> ('x eval_db_scheme, bool) op" where
  "has_runs_for_candidate_session c =
     query_op (\<lambda>db. \<exists>r \<in> set (ev_runs db). er_candidate_session_id r = c)"

section \<open>Completing and failing a run\<close>

definition RUN_TRANSITIONS :: "string \<Rightarrow> string list" where
  "RUN_TRANSITIONS status =
     (if status = ''pending'' then [''running'', ''failed'']
      else if status = ''running'' then [''completed'', ''failed''] else [])"

definition ensure_transition :: "string \<Rightarrow> string \<Rightarrow> unit res" where
  "ensure_transition current_status target_status =
     require (target_status \<in> set (RUN_TRANSITIONS current_status))
       (ValueError (''invalid evaluation run transition: '' @ current_status @ '' -> '' @ target_status))"

definition set_run :: "int \<Rightarrow> (evaluation_run \<Rightarrow> evaluation_run) \<Rightarrow> ('x eval_db_scheme, unit) op" where
  "set_run i f = modify_op (\<lambda>db. db\<lparr>ev_runs := update_rows (\<lambda>r. er_id r = i) f (ev_runs db)\<rparr>)"

definition load_run :: "int \<Rightarrow> ('x eval_db_scheme, evaluation_run) op" where
  "load_run run_id =
     bind_op (get_run_by_id run_id) (\<lambda>r.
     lift_op (case r of None \<Rightarrow> Inl (ValueError (''evaluation run not found: '' @ int_str run_id)) | Some run \<Rightarrow> Inr run))"

record completion =
  cn_day_scores :: "json list"
  cn_reviewer_reports :: "json list"
  cn_overall_winoe_score :: json
  cn_recommendation :: json
  cn_confidence :: json
  cn_raw_report_json :: json
  cn_completed_at :: "datetime option"
  cn_generated_at :: "datetime option"
  cn_metadata_json :: json
  cn_allow_empty_day_scores :: bool

definition resolved_time :: "datetime option \<Rightarrow> datetime \<Rightarrow> datetime" where
  "resolved_time t now = (case t of None \<Rightarrow> drop_microseconds now | Some t' \<Rightarrow> t')"

definition after_start :: "string \<Rightarrow> evaluation_run \<Rightarrow> datetime \<Rightarrow> unit res" where
  "after_start field_name run t =
     require (er_started_at run \<le> t) (ValueError (field_name @ '' must be greater than or equal to started_at.''))"

definition complete_run ::
    "(string \<Rightarrow> (string \<times> string) res) \<Rightarrow> int \<Rightarrow> completion \<Rightarrow> datetime \<Rightarrow> ('x eval_db_scheme, evaluation_run) op" where
  "complete_run urlparse i cn now =
     bind_op (load_run i) (\<lambda>run.
     bind_op (lift_op (ensure_transition (er_status run) ''completed'')) (\<lambda>_.
     bind_op (add_reviewer_reports urlparse i (cn_reviewer_reports cn) True) (\<lambda>_.
     bind_op (add_day_scores urlparse i (cn_day_scores cn) (cn_allow_empty_day_scores cn)) (\<lambda>_.
     let completed = resolved_time (cn_completed_at cn) now; generated = resolved_time (cn_generated_at cn) now in
     bind_op (lift_op (after_start ''completed_at'' run completed)) (\<lambda>_.
     bind_op (lift_op (after_start ''generated_at'' run generated)) (\<lambda>_.
     bind_op (set_run i (\<lambda>r. r\<lparr>er_status := ''completed'', er_completed_at := Some completed, er_generated_at := Some generated\<rparr>)) (\<lambda>_.
     bind_op (lift_op (coerce_unit_interval_score [] ''overall_winoe_score'' False (cn_overall_winoe_score cn))) (\<lambda>overall.
     bind_op (set_run i (\<lambda>r. r\<lparr>er_overall_winoe_score := overall\<rparr>)) (\<lambda>_.
     bind_op (lift_op (coerce_recommendation [] False (cn_recommendation cn))) (\<lambda>recommendation.
     bind_op (set_run i (\<lambda>r. r\<lparr>er_recommendation := recommendation\<rparr>)) (\<lambda>_.
     bind_op (lift_op (coerce_unit_interval_score [] ''confidence'' False (cn_confidence cn))) (\<lambda>confidence.
     bind_op (set_run i (\<lambda>r. r\<lparr>er_confidence := confidence\<rparr>)) (\<lambda>_.
     bind_op (lift_op (case cn_raw_report_json cn of JNull \<Rightarrow> Inr None | JObj d \<Rightarrow> Inr (Some d)
        | _ \<Rightarrow> Inl (ValueError ''raw_report_json must be an object.''))) (\<lambda>raw.
     bind_op (set_run i (\<lambda>r. r\<lparr>er_raw_report_json := raw, er_error_code := None\<rparr>)) (\<lambda>_.
     bind_op (lift_op (coerce_object ''metadata_json'' (cn_metadata_json cn))) (\<lambda>metadata.
     bind_op (set_run i (\<lambda>r. case metadata of None \<Rightarrow> r | Some m \<Rightarrow> r\<lparr>er_metadata_json := Some m\<rparr>)) (\<lambda>_.
     load_run i)))))))))))))))))"

definition failed_metadata :: "obj option \<Rightarrow> obj option \<Rightarrow> string option \<Rightarrow> obj option" where
  "failed_metadata stored metadata error_message =
     (let merged = dict_update (case stored of None \<Rightarrow> [] | Some m \<Rightarrow> m) (case metadata of None \<Rightarrow> [] | Some m \<Rightarrow> m);
          noted = (case error_message of None \<Rightarrow> merged
                   | Some msg \<Rightarrow> if msg = [] then merged else dict_set ''error'' (JStr msg) merged)
      in if noted = [] then None else Some noted)"

definition stored_code :: "string option \<Rightarrow> string option" where
  "stored_code raw = (case raw of None \<Rightarrow> None | Some c \<Rightarrow> if py_strip c = [] then None else Some (py_strip c))"

definition fail_run ::
    "int \<Rightarrow> datetime option \<Rightarrow> string option \<Rightarrow> json \<Rightarrow> string option \<Rightarrow> datetime \<Rightarrow> ('x eval_db_scheme, evaluation_run) op" where
  "fail_run i completed_at raw_code metadata_json error_message now =
     bind_op (load_run i) (\<lambda>run.
     bind_op (lift_op (ensure_transition (er_status run) ''failed'')) (\<lambda>_.
     bind_op (lift_op (after_start ''completed_at'' run (resolved_time completed_at now))) (\<lambda>_.
     bind_op (lift_op (coerce_object ''metadata_json'' metadata_json)) (\<lambda>metadata.
     bind_op (set_run i (\<lambda>r. r\<lparr>er_status := ''failed'', er_completed_at := Some (resolved_time completed_at now),
        er_error_code := stored_code raw_code,
        er_metadata_json := failed_metadata (er_metadata_json run) metadata error_message\<rparr>)) (\<lambda>_.
     load_run i)))))"

section \<open>Queries and inserts keep invariants\<close>

lemma keeps_query [keeps_rules]: "(\<And>s. P s \<Longrightarrow> Q (q s)) \<Longrightarrow> keeps P (query_op q) Q"
  by (auto simp: keeps_def query_op_def split: if_splits)

lemma keeps_insert [keeps_rules]:
  assumes "\<And>s. P s \<Longrightarrow> ok (f s) \<Longrightarrow> P (f s)" and "\<And>s. P s \<Longrightarrow> P (s\<lparr>ev_failed := True\<rparr>)"
  shows "keeps P (insert_op ok f) (\<lambda>_. True)"
  using assms by (auto simp: keeps_def insert_op_def split: if_splits)

section \<open>Well-formed rows\<close>

definition score_in_range :: "string option \<Rightarrow> bool" where
  "score_in_range v \<longleftrightarrow> (case v of None \<Rightarrow> True | Some r \<Rightarrow> in_unit_interval r)"

definition run_ok :: "evaluation_run \<Rightarrow> bool" where
  "run_ok r \<longleftrightarrow>
     er_status r \<in> set EVALUATION_RUN_STATUSES \<and>
     (open_status (er_status r) \<longrightarrow> er_completed_at r = None \<and> er_generated_at r = None) \<and>
     (er_status r = ''completed'' \<longrightarrow> er_completed_at r \<noteq> None \<and> er_generated_at r \<noteq> None) \<and>
     (\<forall>t \<in> set_option (er_completed_at r) \<union> set_option (er_generated_at r). er_started_at r \<le> t) \<and>
     score_in_range (er_overall_winoe_score r) \<and> score_in_range (er_confidence r) \<and>
     set_option (er_recommendation r) \<subseteq> set EVALUATION_RECOMMENDATIONS"

definition day_score_ok :: "int set \<Rightarrow> day_score \<Rightarrow> bool" where
  "day_score_ok ids d \<longleftrightarrow> ds_run_id d \<in> ids \<and> ds_day_index d \<in> {1..5} \<and> is_finite (ds_score d)"

definition reviewer_report_ok :: "int set \<Rightarrow> reviewer_report \<Rightarrow> bool" where
  "reviewer_report_ok ids r \<longleftrightarrow> rr_run_id r \<in> ids \<and> rr_day_index r \<in> {1..5} \<and> is_finite (rr_score r) \<and>
     rr_reviewer_agent_key r \<noteq> [] \<and> rr_assessment_text r \<noteq> []"

definition runs_wf :: "'x eval_db_scheme \<Rightarrow> bool" where
  "runs_wf db \<longleftrightarrow>
     distinct (map er_id (ev_runs db)) \<and> (\<forall>r \<in> set (ev_runs db). er_id r < ev_next_run_id db \<and> run_ok r) \<and>
     unique_job_ids db \<and> unique_day_scores db \<and> unique_reviewer_reports db \<and>
     (\<forall>d \<in> set (ev_day_scores db). day_score_ok (er_id ` set (ev_runs db)) d) \<and>
     (\<forall>r \<in> set (ev_reviewer_reports db). reviewer_report_ok (er_id ` set (ev_runs db)) r)"

text \<open>Everything of the other runs is as it was, and the run's id, start and job stay.\<close>

definition only_run :: "int \<Rightarrow> 'x eval_db_scheme \<Rightarrow> 'x eval_db_scheme \<Rightarrow> bool" where
  "only_run i db db' \<longleftrightarrow>
     map (\<lambda>r. (er_id r, er_started_at r, er_job_id r)) (ev_runs db') = map (\<lambda>r. (er_id r, er_started_at r, er_job_id r)) (ev_runs db) \<and>
     filter (\<lambda>r. er_id r \<noteq> i) (ev_runs db') = filter (\<lambda>r. er_id r \<noteq> i) (ev_runs db) \<and>
     filter (\<lambda>d. ds_run_id d \<noteq> i) (ev_day_scores db') = filter (\<lambda>d. ds_run_id d \<noteq> i) (ev_day_scores db) \<and>
     filter (\<lambda>r. rr_run_id r \<noteq> i) (ev_reviewer_reports db') = filter (\<lambda>r. rr_run_id r \<noteq> i) (ev_reviewer_reports db) \<and>
     ev_next_run_id db' = ev_next_run_id db"

definition working_on :: "int \<Rightarrow> datetime \<Rightarrow> 'x eval_db_scheme \<Rightarrow> 'x eval_db_scheme \<Rightarrow> bool" where
  "working_on i started db s \<longleftrightarrow> runs_wf s \<and> only_run i db s \<and>
     (\<exists>r \<in> set (ev_runs s). er_id r = i) \<and> (\<forall>r \<in> set (ev_runs s). er_id r = i \<longrightarrow> er_started_at r = started)"

lemma working_on_failed: "working_on i t db s \<Longrightarrow> working_on i t db (s\<lparr>ev_failed := True\<rparr>)"
  by (auto simp: working_on_def runs_wf_def only_run_def unique_job_ids_def unique_day_scores_def unique_reviewer_reports_def)

lemma to_float_finite: "coerce_score p v = Inr r \<Longrightarrow> is_finite r"
  by (auto simp: coerce_score_def bind_result_Inr_iff split: if_splits)

lemma coerce_unit_in_range: "coerce_unit_interval_score w f q v = Inr r \<Longrightarrow> score_in_range r"
  by (auto simp: coerce_unit_interval_score_def score_in_range_def bind_result_Inr_iff split: if_splits)

lemma coerce_recommendation_in: "coerce_recommendation w q v = Inr r \<Longrightarrow> set_option r \<subseteq> set EVALUATION_RECOMMENDATIONS"
  by (auto simp: coerce_recommendation_def Let_def split: if_splits)

lemma coerce_score_day_in: "coerce_score_day p v = Inr d \<Longrightarrow> d \<in> {1..5}"
  by (auto simp: coerce_score_day_def split: json.splits if_splits)

lemma normalize_str_nonempty: "normalize_non_empty_str f v = Inr s \<Longrightarrow> s \<noteq> []"
  by (auto simp: normalize_non_empty_str_def split: if_splits)

lemma normalized_day_scores:
  "normalize_day_scores u run i seen vs = Inr ds \<Longrightarrow>
   (\<forall>d \<in> set ds. day_score_ok {run} d) \<and> distinct (map ds_day_index ds) \<and> set (map ds_day_index ds) \<inter> set seen = {}"
proof (induction vs arbitrary: i seen ds)
  case (Cons v vs)
  from Cons.prems obtain entry day score rubric pointers rest where
    day: "coerce_score_day (index_path ''day_scores'' i @ ''.day_index'') (dict_get ''day_index'' entry) = Inr day"
    and new: "day \<notin> set seen"
    and score: "coerce_score (index_path ''day_scores'' i @ ''.score'') (dict_get ''score'' entry) = Inr score"
    and rest: "normalize_day_scores u run (Suc i) (day # seen) vs = Inr rest"
    and ds: "ds = \<lparr>ds_run_id = run, ds_day_index = day, ds_score = score, ds_rubric_results_json = rubric,
                   ds_evidence_pointers_json = pointers\<rparr> # rest"
    by (auto simp: Let_def bind_result_Inr_iff split: json.splits if_splits)
  from Cons.IH[OF rest] have IH: "\<forall>d \<in> set rest. day_score_ok {run} d" "distinct (map ds_day_index rest)"
    "set (map ds_day_index rest) \<inter> set (day # seen) = {}" by blast+
  have "day_score_ok {run} (hd ds)" using coerce_score_day_in[OF day] to_float_finite[OF score] by (simp add: ds day_score_ok_def)
  with IH new show ?case by (auto simp: ds)
qed simp

lemma normalized_report_entry:
  assumes "normalize_report_entry u run i seen v = Inr r"
  shows "reviewer_report_ok {run} r" and "report_identity r \<notin> set seen"
proof -
  let ?p = "index_path ''reviewer_reports'' i"
  obtain entry where v: "v = JObj entry" using assms by (cases v) (auto simp: normalize_report_entry_def)
  obtain day agent kind score prose where
    day: "coerce_score_day (?p @ ''.day_index'') (dict_get ''day_index'' entry) = Inr day"
    and agent: "normalize_non_empty_str (?p @ ''.reviewer_agent_key'') (dict_get ''reviewer_agent_key'' entry) = Inr agent"
    and new: "(day, agent, py_lower kind) \<notin> set seen"
    and score: "coerce_score (?p @ ''.score'') (dict_get ''score'' entry) = Inr score"
    and prose: "normalize_non_empty_str (?p @ ''.assessment_text'') (dict_get ''assessment_text'' entry) = Inr prose"
    and r: "rr_run_id r = run" "rr_reviewer_agent_key r = agent" "rr_day_index r = day" "rr_submission_kind r = py_lower kind"
      "rr_score r = score" "rr_assessment_text r = prose"
    using assms unfolding v normalize_report_entry_def Let_def json.case
    by (elim bind_resultE) (simp split: if_splits, elim bind_resultE, force)
  show "reviewer_report_ok {run} r"
    using coerce_score_day_in[OF day] to_float_finite[OF score] normalize_str_nonempty[OF agent] normalize_str_nonempty[OF prose]
    by (simp add: r reviewer_report_ok_def)
  show "report_identity r \<notin> set seen" using new by (simp add: r report_identity_def)
qed

lemma normalized_reviewer_reports:
  "normalize_reviewer_reports u run i seen vs = Inr rs \<Longrightarrow> (\<forall>r \<in> set rs. reviewer_report_ok {run} r)"
  by (induction vs arbitrary: i seen rs) (auto simp: bind_result_Inr_iff dest: normalized_report_entry)

section \<open>Working on one run keeps the tables well formed\<close>

lemma ids_of_only_run: "only_run i db s \<Longrightarrow> map er_id (ev_runs s) = map er_id (ev_runs db)"
proof -
  assume "only_run i db s"
  then have "map fst (map (\<lambda>r. (er_id r, er_started_at r, er_job_id r)) (ev_runs s)) =
      map fst (map (\<lambda>r. (er_id r, er_started_at r, er_job_id r)) (ev_runs db))" by (simp only: only_run_def)
  then show ?thesis by (simp add: comp_def)
qed

lemma working_on_insert_scores:
  assumes "working_on i t db s" and new: "\<forall>d \<in> set ds. day_score_ok {i} d"
    and ok: "unique_day_scores (s\<lparr>ev_day_scores := ev_day_scores s @ ds\<rparr>)"
  shows "working_on i t db (s\<lparr>ev_day_scores := ev_day_scores s @ ds\<rparr>)"
proof -
  have none: "filter (\<lambda>d. ds_run_id d \<noteq> i) ds = []" using new by (auto simp: filter_empty_conv day_score_ok_def)
  have i: "i \<in> er_id ` set (ev_runs s)" using assms(1) by (auto simp: working_on_def)
  have "\<forall>d \<in> set ds. day_score_ok (er_id ` set (ev_runs s)) d" using new i by (auto simp: day_score_ok_def)
  moreover have w: "runs_wf s" "only_run i db s" using assms(1) by (simp_all add: working_on_def)
  ultimately have "runs_wf (s\<lparr>ev_day_scores := ev_day_scores s @ ds\<rparr>)"
    using ok by (simp add: runs_wf_def unique_job_ids_def unique_reviewer_reports_def ball_Un)
  moreover have "only_run i db (s\<lparr>ev_day_scores := ev_day_scores s @ ds\<rparr>)" using w(2) none by (simp add: only_run_def)
  ultimately show ?thesis using assms(1) by (simp add: working_on_def)
qed

lemma working_on_insert_reports:
  assumes "working_on i t db s" and new: "\<forall>r \<in> set rs. reviewer_report_ok {i} r"
    and ok: "unique_reviewer_reports (s\<lparr>ev_reviewer_reports := ev_reviewer_reports s @ rs\<rparr>)"
  shows "working_on i t db (s\<lparr>ev_reviewer_reports := ev_reviewer_reports s @ rs\<rparr>)"
proof -
  have none: "filter (\<lambda>r. rr_run_id r \<noteq> i) rs = []" using new by (auto simp: filter_empty_conv reviewer_report_ok_def)
  have i: "i \<in> er_id ` set (ev_runs s)" using assms(1) by (auto simp: working_on_def)
  have "\<forall>r \<in> set rs. reviewer_report_ok (er_id ` set (ev_runs s)) r" using new i by (auto simp: reviewer_report_ok_def)
  moreover have w: "runs_wf s" "only_run i db s" using assms(1) by (simp_all add: working_on_def)
  ultimately have "runs_wf (s\<lparr>ev_reviewer_reports := ev_reviewer_reports s @ rs\<rparr>)"
    using ok by (simp add: runs_wf_def unique_job_ids_def unique_day_scores_def ball_Un)
  moreover have "only_run i db (s\<lparr>ev_reviewer_reports := ev_reviewer_reports s @ rs\<rparr>)" using w(2) none by (simp add: only_run_def)
  ultimately show ?thesis using assms(1) by (simp add: working_on_def)
qed

lemma add_day_scores_keeps [keeps_rules]:
  "keeps (working_on i t db) (add_day_scores u i vs e) (\<lambda>_. True)"
  unfolding add_day_scores_def
proof (rule keeps_bind[OF keeps_lift[where Q = "\<lambda>ds. \<forall>d \<in> set ds. day_score_ok {i} d"]])
  show "\<forall>d \<in> set ds. day_score_ok {i} d" if "normalize_day_score_payload u i e vs = Inr ds" for ds
    using that normalized_day_scores by (auto simp: normalize_day_score_payload_def split: if_splits)
  show "keeps (working_on i t db) (if ds = [] then query_op (\<lambda>_. [])
     else bind_op (query_op (\<lambda>db. map ds_day_index (filter (\<lambda>d. ds_run_id d = i) (ev_day_scores db)))) (\<lambda>existing.
     let duplicates = sorted_list_of_set (set (map ds_day_index ds) \<inter> set existing)
     in if duplicates \<noteq> []
        then lift_op (Inl (ValueError (''run already has day scores for day_index values: '' @
               py_join '', '' (map int_str duplicates))))
        else bind_op (insert_op unique_day_scores (\<lambda>db. db\<lparr>ev_day_scores := ev_day_scores db @ ds\<rparr>)) (\<lambda>_.
             lift_op (Inr ds)))) (\<lambda>_. True)" if ds: "\<forall>d \<in> set ds. day_score_ok {i} d" for ds
  proof (cases "ds = []")
    case True
    then show ?thesis by (simp add: keeps_query)
  next
    case False
    have ins: "keeps (working_on i t db) (insert_op unique_day_scores (\<lambda>db. db\<lparr>ev_day_scores := ev_day_scores db @ ds\<rparr>)) (\<lambda>_. True)"
      using working_on_insert_scores[OF _ ds] working_on_failed by (intro keeps_insert) blast+
    show ?thesis unfolding if_not_P[OF False] Let_def
      by (rule keeps_bind[OF keeps_query[where Q = "\<lambda>_. True"]]) (auto intro!: keeps_lift keeps_bind[OF ins])
  qed
qed

lemma resolve_reports_new: "resolve_reports ex rs = Inr (new, all) \<Longrightarrow> set new \<subseteq> set rs"
  by (induction rs arbitrary: new all) (fastforce simp: bind_result_Inr_iff split: option.splits if_splits)+

lemma add_reviewer_reports_keeps [keeps_rules]:
  "keeps (working_on i t db) (add_reviewer_reports u i vs e) (\<lambda>_. True)"
  unfolding add_reviewer_reports_def
proof (rule keeps_bind[OF keeps_lift[where Q = "\<lambda>rs. \<forall>r \<in> set rs. reviewer_report_ok {i} r"]])
  show "\<forall>r \<in> set rs. reviewer_report_ok {i} r" if "normalize_reviewer_report_payload u i e vs = Inr rs" for rs
    using that normalized_reviewer_reports by (auto simp: normalize_reviewer_report_payload_def split: if_splits)
  show "keeps (working_on i t db) (if rs = [] then query_op (\<lambda>_. [])
     else bind_op (query_op (\<lambda>db. filter (\<lambda>r. rr_run_id r = i) (ev_reviewer_reports db))) (\<lambda>existing.
     bind_op (lift_op (resolve_reports existing rs)) (\<lambda>(new, all).
     bind_op (insert_op unique_reviewer_reports (\<lambda>db. db\<lparr>ev_reviewer_reports := ev_reviewer_reports db @ new\<rparr>)) (\<lambda>_.
     lift_op (Inr all))))) (\<lambda>_. True)" if rs: "\<forall>r \<in> set rs. reviewer_report_ok {i} r" for rs
  proof (cases "rs = []")
    case True
    then show ?thesis by (simp add: keeps_query)
  next
    case False
    have ins: "keeps (working_on i t db) (insert_op unique_reviewer_reports (\<lambda>db. db\<lparr>ev_reviewer_reports := ev_reviewer_reports db @ new\<rparr>)) (\<lambda>_. True)"
      if "set new \<subseteq> set rs" for new
      using working_on_insert_reports[of i t db _ new] working_on_failed that rs by (intro keeps_insert) blast+
    show ?thesis unfolding if_not_P[OF False]
      by (rule keeps_bind[OF keeps_query[where Q = "\<lambda>_. True"]])
        (auto intro!: keeps_bind[OF keeps_lift[where Q = "\<lambda>(new, all). set new \<subseteq> set rs"]] keeps_bind[OF ins] keeps_lift
          dest: resolve_reports_new)
  qed
qed

lemma filter_update_other: "(\<And>r. k (f r) = k r) \<Longrightarrow> filter (\<lambda>r. k r \<noteq> i) (update_rows (\<lambda>r. k r = i) f rs) = filter (\<lambda>r. k r \<noteq> i) rs"
  by (induction rs) (auto simp: update_rows_def)

lemma working_on_set_run:
  assumes w: "working_on i t db s"
    and same: "\<And>r. er_id (f r) = er_id r \<and> er_started_at (f r) = er_started_at r \<and> er_job_id (f r) = er_job_id r"
    and ok: "\<And>r. run_ok r \<Longrightarrow> er_started_at r = t \<Longrightarrow> run_ok (f r)"
  shows "working_on i t db (s\<lparr>ev_runs := update_rows (\<lambda>r. er_id r = i) f (ev_runs s)\<rparr>)"
proof -
  let ?rs = "update_rows (\<lambda>r. er_id r = i) f (ev_runs s)"
  have m: "map (\<lambda>r. (er_id r, er_started_at r, er_job_id r)) ?rs = map (\<lambda>r. (er_id r, er_started_at r, er_job_id r)) (ev_runs s)"
    using same by (auto simp: update_rows_def)
  have ids: "map er_id ?rs = map er_id (ev_runs s)" using same by (auto simp: update_rows_def)
  have jobs: "List.map_filter er_job_id ?rs = List.map_filter er_job_id (ev_runs s)"
    using same by (simp add: update_rows_def map_filter_def filter_map comp_def cong: if_cong)
  have others: "filter (\<lambda>r. er_id r \<noteq> i) ?rs = filter (\<lambda>r. er_id r \<noteq> i) (ev_runs s)"
    using same by (intro filter_update_other) simp
  have rows: "r \<in> set ?rs \<Longrightarrow> run_ok r \<and> er_id r < ev_next_run_id s \<and> (er_id r = i \<longrightarrow> er_started_at r = t)" for r
    using w same ok by (auto simp: set_update_rows working_on_def runs_wf_def)
  have idset: "er_id ` set ?rs = er_id ` set (ev_runs s)" using ids by (metis set_map)
  have "i \<in> er_id ` set ?rs" unfolding idset using w by (auto simp: working_on_def)
  then have i: "\<exists>r \<in> set ?rs. er_id r = i" by blast
  have r: "runs_wf s" "only_run i db s" using w by (simp_all add: working_on_def)
  let ?s = "s\<lparr>ev_runs := ?rs\<rparr>"
  have "runs_wf ?s"
    using r(1) rows unfolding runs_wf_def unique_job_ids_def unique_day_scores_def unique_reviewer_reports_def
    by (simp add: ids jobs idset)
  moreover have "only_run i db ?s"
    using r(2) unfolding only_run_def by (simp add: m others)
  ultimately show ?thesis using i rows by (simp add: working_on_def)
qed

lemma set_run_keeps:
  assumes "\<And>r. er_id (f r) = er_id r \<and> er_started_at (f r) = er_started_at r \<and> er_job_id (f r) = er_job_id r"
    and "\<And>r. run_ok r \<Longrightarrow> er_started_at r = t \<Longrightarrow> run_ok (f r)"
  shows "keeps (working_on i t db) (set_run i f) (\<lambda>_. True)"
  unfolding set_run_def using working_on_set_run[OF _ assms] by (intro keeps_modify) blast

lemma load_run_keeps: "keeps (working_on i t db) (load_run i) (\<lambda>run. er_id run = i \<and> er_started_at run = t)"
  unfolding load_run_def get_run_by_id_def
  by (rule keeps_bind[OF keeps_query[where Q = "\<lambda>r. \<forall>run. r = Some run \<longrightarrow> er_id run = i \<and> er_started_at run = t"]])
    (auto intro!: keeps_lift dest: find_row_SomeD simp: working_on_def split: option.splits)

lemma complete_run_keeps: "keeps (working_on i t db) (complete_run u i cn now) (\<lambda>_. True)"
proof -
  have set: "keeps (working_on i t db) (set_run i f) (\<lambda>_. True)"
    if "f = (\<lambda>r. r\<lparr>er_overall_winoe_score := v\<rparr>) \<and> score_in_range v \<or> f = (\<lambda>r. r\<lparr>er_confidence := v\<rparr>) \<and> score_in_range v \<or>
      f = (\<lambda>r. r\<lparr>er_recommendation := w\<rparr>) \<and> set_option w \<subseteq> set EVALUATION_RECOMMENDATIONS \<or>
      f = (\<lambda>r. r\<lparr>er_raw_report_json := raw, er_error_code := None\<rparr>) \<or>
      f = (\<lambda>r. case metadata of None \<Rightarrow> r | Some m \<Rightarrow> r\<lparr>er_metadata_json := Some m\<rparr>)"
    for f v w raw metadata
    by (rule set_run_keeps; insert that) (elim disjE; auto simp: run_ok_def split: option.splits)+
  have fin: "keeps (working_on i t db) (set_run i (\<lambda>r. r\<lparr>er_status := ''completed'', er_completed_at := Some c, er_generated_at := Some g\<rparr>)) (\<lambda>_. True)"
    if "t \<le> c" "t \<le> g" for c g
    by (rule set_run_keeps) (use that in \<open>auto simp: run_ok_def EVALUATION_RUN_STATUSES_def open_status_def\<close>)
  show ?thesis
    unfolding complete_run_def Let_def
    apply (rule keeps_bind[OF load_run_keeps])
    apply (rule keeps_bind[OF keeps_lift[where Q = "\<lambda>_. True"]], simp)
    apply (rule keeps_bind[OF add_reviewer_reports_keeps])
    apply (rule keeps_bind[OF add_day_scores_keeps])
    apply (rule keeps_bind[OF keeps_lift[where Q = "\<lambda>_. t \<le> resolved_time (cn_completed_at cn) now"]], simp add: after_start_def)
    apply (rule keeps_bind[OF keeps_lift[where Q = "\<lambda>_. t \<le> resolved_time (cn_generated_at cn) now"]], simp add: after_start_def)
    apply (rule keeps_bind[OF fin], assumption, assumption)
    apply (rule keeps_bind[OF keeps_lift[where Q = score_in_range]], erule coerce_unit_in_range)
    apply (rule keeps_bind[OF set], blast)
    apply (rule keeps_bind[OF keeps_lift[where Q = "\<lambda>r. set_option r \<subseteq> set EVALUATION_RECOMMENDATIONS"]], erule coerce_recommendation_in)
    apply (rule keeps_bind[OF set], blast)
    apply (rule keeps_bind[OF keeps_lift[where Q = score_in_range]], erule coerce_unit_in_range)
    apply (rule keeps_bind[OF set], blast)
    apply (rule keeps_bind[OF keeps_lift[where Q = "\<lambda>_. True"]], simp)
    apply (rule keeps_bind[OF set], blast)
    apply (rule keeps_bind[OF keeps_lift[where Q = "\<lambda>_. True"]], simp)
    apply (rule keeps_bind[OF set], blast)
    apply (rule keeps_weaken[OF load_run_keeps], simp)
    done
qed

lemma fail_run_keeps: "keeps (working_on i t db) (fail_run i c code m msg now) (\<lambda>_. True)"
proof -
  have set: "keeps (working_on i t db) (set_run i (\<lambda>r. r\<lparr>er_status := ''failed'', er_completed_at := Some d,
        er_error_code := ec, er_metadata_json := md\<rparr>)) (\<lambda>_. True)" if "t \<le> d" for d ec md
    by (rule set_run_keeps) (use that in \<open>auto simp: run_ok_def EVALUATION_RUN_STATUSES_def open_status_def\<close>)
  show ?thesis
    unfolding fail_run_def Let_def
    apply (rule keeps_bind[OF load_run_keeps])
    apply (rule keeps_bind[OF keeps_lift[where Q = "\<lambda>_. True"]], simp)
    apply (rule keeps_bind[OF keeps_lift[where Q = "\<lambda>_. t \<le> resolved_time c now"]], simp add: after_start_def)
    apply (rule keeps_bind[OF keeps_lift[where Q = "\<lambda>_. True"]], simp)
    apply (rule keeps_bind[OF set], assumption)
    apply (rule keeps_weaken[OF load_run_keeps], simp)
    done
qed

lemma op_simps [simp]:
  "lift_op r s = (s, r)" "modify_op g s = (g s, Inr ())"
  "query_op q s = (s', Inr x) \<longleftrightarrow> \<not> ev_failed s \<and> s' = s \<and> x = q s"
  "insert_op ok f s = (s', Inr u) \<longleftrightarrow> \<not> ev_failed s \<and> ok (f s) \<and> s' = f s"
  by (auto simp: lift_op_def modify_op_def query_op_def insert_op_def)

lemma load_run_eq:
  "load_run i s = (if ev_failed s then (s, Inl TransactionAborted)
     else (s, case find_row (\<lambda>r. er_id r = i) (ev_runs s) of
         None \<Rightarrow> Inl (ValueError (''evaluation run not found: '' @ int_str i)) | Some run \<Rightarrow> Inr run))"
  by (simp add: load_run_def get_run_by_id_def bind_op_def query_op_def lift_op_def split: option.splits)

lemma load_run_Inr: "load_run i s = (s', Inr r) \<longleftrightarrow> \<not> ev_failed s \<and> s' = s \<and> find_row (\<lambda>r. er_id r = i) (ev_runs s) = Some r"
  unfolding load_run_eq by (auto split: option.splits)

lemma started_working:
  assumes wf: "runs_wf db" and r: "find_row (\<lambda>r. er_id r = i) (ev_runs db) = Some run"
  shows "working_on i (er_started_at run) db db"
proof -
  have d: "distinct (map er_id (ev_runs db))" using wf by (simp add: runs_wf_def)
  have "run \<in> set (ev_runs db)" "er_id run = i" using find_row_SomeD[OF r] by auto
  moreover have "x = run" if "x \<in> set (ev_runs db)" "er_id x = i" for x
    using find_row_unique[OF d that(1)] that(2) r by simp
  ultimately have "\<exists>r \<in> set (ev_runs db). er_id r = i" "\<forall>r \<in> set (ev_runs db). er_id r = i \<longrightarrow> er_started_at r = er_started_at run"
    by blast+
  with wf show ?thesis by (simp add: working_on_def only_run_def)
qed

lemma complete_run_transition:
  assumes "complete_run u i cn now db = (db', x)"
  shows "db' = db \<or> (\<exists>run. find_row (\<lambda>r. er_id r = i) (ev_runs db) = Some run \<and> er_status run = ''running'')"
proof -
  obtain y where l: "load_run i db = (db, y)" unfolding load_run_eq by (cases "ev_failed db") simp_all
  show ?thesis
  proof (cases y)
    case (Inl e)
    with assms l show ?thesis by (simp add: complete_run_def bind_op_def)
  next
    case (Inr run)
    show ?thesis
    proof (cases "er_status run = ''running''")
      case True
      with l Inr show ?thesis by (auto simp: load_run_Inr)
    next
      case False
      then have "ensure_transition (er_status run) ''completed'' \<noteq> Inr ()"
        by (simp add: ensure_transition_def RUN_TRANSITIONS_def)
      with assms l Inr show ?thesis
        by (cases "ensure_transition (er_status run) ''completed''") (simp_all add: complete_run_def bind_op_def)
    qed
  qed
qed

lemma fail_run_transition:
  assumes "fail_run i c code m msg now db = (db', Inr r)"
  obtains run where "find_row (\<lambda>r. er_id r = i) (ev_runs db) = Some run" "open_status (er_status run)" "\<not> ev_failed db"
  using assms that
  by (auto simp: fail_run_def bind_op_Inr_iff load_run_Inr Let_def ensure_transition_def RUN_TRANSITIONS_def open_status_def
      split: if_splits)

lemma complete_run_works:
  assumes wf: "runs_wf db" and c: "complete_run u i cn now db = (db', x)"
  shows "runs_wf db' \<and> only_run i db db'"
proof -
  from complete_run_transition[OF c] consider "db' = db"
    | run where "find_row (\<lambda>r. er_id r = i) (ev_runs db) = Some run" by blast
  then show ?thesis
  proof cases
    case 1
    with wf show ?thesis by (simp add: only_run_def)
  next
    case (2 run)
    from keepsD(1)[OF complete_run_keeps c started_working[OF wf 2]] show ?thesis by (simp add: working_on_def)
  qed
qed

lemma fail_run_works:
  assumes wf: "runs_wf db" and f: "fail_run i c code m msg now db = (db', Inr r)"
  shows "runs_wf db' \<and> only_run i db db'"
proof -
  obtain run where "find_row (\<lambda>r. er_id r = i) (ev_runs db) = Some run" using fail_run_transition[OF f] by metis
  from keepsD(1)[OF fail_run_keeps f started_working[OF wf this]] show ?thesis by (simp add: working_on_def)
qed

lemma only_run_trans: "only_run i a b \<Longrightarrow> only_run i b c \<Longrightarrow> only_run i a c"
  unfolding only_run_def by metis

lemma time_fields_ok:
  assumes "normalize_run_time_fields st a b c now = Inr (t, done, gen)"
  shows "open_status st \<Longrightarrow> done = None \<and> gen = None" "st = ''completed'' \<Longrightarrow> done \<noteq> None \<and> gen \<noteq> None"
    "\<forall>x \<in> set_option done \<union> set_option gen. t \<le> x"
proof -
  have o: "\<not> (open_status ''completed'')" by (simp add: open_status_def)
  show "open_status st \<Longrightarrow> done = None \<and> gen = None" "st = ''completed'' \<Longrightarrow> done \<noteq> None \<and> gen \<noteq> None"
    "\<forall>x \<in> set_option done \<union> set_option gen. t \<le> x"
    using assms o by (cases b; cases c; simp add: normalize_run_time_fields_def Let_def split: if_splits; fastforce)+
qed

lemma run_row_ok:
  assumes "run_row rq now = Inr r" shows "run_ok r"
proof -
  obtain st: "normalize_status (rq_status rq) = Inr (er_status r)"
    and tm: "normalize_run_time_fields (er_status r) (rq_started_at rq) (rq_completed_at rq) (rq_generated_at rq) now =
      Inr (er_started_at r, er_completed_at r, er_generated_at r)"
    and sc: "coerce_unit_interval_score '' when provided'' ''overall_winoe_score'' False (rq_overall_winoe_score rq) = Inr (er_overall_winoe_score r)"
      "coerce_unit_interval_score '' when provided'' ''confidence'' False (rq_confidence rq) = Inr (er_confidence r)"
    and rec: "coerce_recommendation '' when provided'' False (rq_recommendation rq) = Inr (er_recommendation r)"
    using assms unfolding run_row_def by (elim bind_resultE) (simp split: prod.splits, elim bind_resultE, force)
  have "er_status r \<in> set EVALUATION_RUN_STATUSES" using st by (auto simp: normalize_status_def Let_def split: if_splits)
  then show ?thesis
    using time_fields_ok[OF tm] coerce_unit_in_range[OF sc(1)] coerce_unit_in_range[OF sc(2)] coerce_recommendation_in[OF rec]
    unfolding run_ok_def by blast
qed

section \<open>The life of the evaluation tables\<close>

lemma create_run_Inr:
  assumes "create_run rq now db = (db', Inr r)"
  obtains row where "run_row rq now = Inr row" "r = row\<lparr>er_id := ev_next_run_id db\<rparr>" "db' = add_run row db"
    "unique_job_ids (add_run row db)" "\<not> ev_failed db"
  using assms by (auto simp: create_run_def bind_op_Inr_iff)

lemma add_run_simps [simp]:
  "ev_runs (add_run r db) = ev_runs db @ [r\<lparr>er_id := ev_next_run_id db\<rparr>]" "ev_day_scores (add_run r db) = ev_day_scores db"
  "ev_reviewer_reports (add_run r db) = ev_reviewer_reports db" "ev_next_run_id (add_run r db) = ev_next_run_id db + 1"
  "ev_failed (add_run r db) = ev_failed db"
  by (simp_all add: add_run_def)

lemma create_run_works:
  assumes wf: "runs_wf db" and c: "create_run rq now db = (db', Inr r)"
  shows "runs_wf db'" and "ev_runs db' = ev_runs db @ [r]" "er_id r = ev_next_run_id db" "ev_day_scores db' = ev_day_scores db"
    "ev_reviewer_reports db' = ev_reviewer_reports db" "run_ok r"
proof -
  obtain row where row: "run_row rq now = Inr row" and r: "r = row\<lparr>er_id := ev_next_run_id db\<rparr>" and db': "db' = add_run row db"
    and u: "unique_job_ids (add_run row db)" using c by (rule create_run_Inr)
  show ok: "run_ok r" using run_row_ok[OF row] by (simp add: r run_ok_def)
  have "ev_next_run_id db \<notin> er_id ` set (ev_runs db)" using wf by (auto simp: runs_wf_def)
  moreover have "day_score_ok ids d \<Longrightarrow> day_score_ok (insert x ids) d" "reviewer_report_ok ids q \<Longrightarrow> reviewer_report_ok (insert x ids) q"
    for ids d x q by (auto simp: day_score_ok_def reviewer_report_ok_def)
  ultimately show "runs_wf db'"
    using wf ok u unfolding db' runs_wf_def unique_day_scores_def unique_reviewer_reports_def
    by (auto simp: r)
qed (use c in \<open>auto elim: create_run_Inr\<close>)

inductive eval_step :: "'x eval_db_scheme \<Rightarrow> 'x eval_db_scheme \<Rightarrow> bool" where
  created: "create_run rq now db = (db', Inr r) \<Longrightarrow> eval_step db db'"
| scored: "create_run_with_day_scores u rq vs now db = (db', Inr r) \<Longrightarrow> eval_step db db'"
| completed: "complete_run u i cn now db = (db', Inr r) \<Longrightarrow> eval_step db db'"
| failed: "fail_run i c code m msg now db = (db', Inr r) \<Longrightarrow> eval_step db db'"
| abandoned: "complete_run u i cn now db = (db1, Inl e) \<Longrightarrow> fail_run i c code m msg later db1 = (db', Inr r) \<Longrightarrow>
    eval_step db db'"

lemma scored_works:
  assumes wf: "runs_wf db" and s: "create_run_with_day_scores u rq vs now db = (db', Inr r)"
  shows "runs_wf db' \<and> (\<exists>db1 run. create_run rq now db = (db1, Inr run) \<and> only_run (er_id run) db1 db')"
proof -
  from s obtain db1 run where c: "create_run rq now db = (db1, Inr run)"
    and a: "\<exists>ds. add_day_scores u (er_id run) vs False db1 = (db', Inr ds)"
    by (auto simp: create_run_with_day_scores_def bind_op_Inr_iff)
  note w = create_run_works[OF wf c]
  have "distinct (map er_id (ev_runs db1))" using w(1) by (simp add: runs_wf_def)
  then have "find_row (\<lambda>x. er_id x = er_id run) (ev_runs db1) = Some run" using w(2) by (intro find_row_unique) simp_all
  from a keepsD(1)[OF add_day_scores_keeps _ started_working[OF w(1) this]] have "working_on (er_id run) (er_started_at run) db1 db'" by blast
  with c show ?thesis unfolding working_on_def by blast
qed

lemma step_keeps_wf: "eval_step db db' \<Longrightarrow> runs_wf db \<Longrightarrow> runs_wf db'"
  by (induction rule: eval_step.induct) (blast dest: create_run_works(1) scored_works complete_run_works fail_run_works)+

text \<open>What a step leaves alone: everything of a run that is over.\<close>

definition run_is_over :: "evaluation_run \<Rightarrow> bool" where
  "run_is_over r \<longleftrightarrow> er_status r \<in> {''completed'', ''failed''}"

definition of_run :: "int \<Rightarrow> 'x eval_db_scheme \<Rightarrow> day_score list \<times> reviewer_report list" where
  "of_run i db = (filter (\<lambda>d. ds_run_id d = i) (ev_day_scores db), filter (\<lambda>r. rr_run_id r = i) (ev_reviewer_reports db))"

lemma only_run_others:
  assumes "only_run i db db'" "j \<noteq> i"
  shows "of_run j db' = of_run j db" and "r \<in> set (ev_runs db) \<Longrightarrow> er_id r = j \<Longrightarrow> r \<in> set (ev_runs db')"
proof -
  have f: "filter (\<lambda>x. k x = j) xs = filter (\<lambda>x. k x = j) (filter (\<lambda>x. k x \<noteq> i) xs)" for k :: "'z \<Rightarrow> int" and xs
    using assms(2) by (induction xs) auto
  have "filter (\<lambda>d. ds_run_id d = j) (ev_day_scores db') = filter (\<lambda>d. ds_run_id d = j) (ev_day_scores db)"
    "filter (\<lambda>r. rr_run_id r = j) (ev_reviewer_reports db') = filter (\<lambda>r. rr_run_id r = j) (ev_reviewer_reports db)"
    using assms(1) f unfolding only_run_def by metis+
  then show "of_run j db' = of_run j db" by (simp add: of_run_def)
  have e: "filter (\<lambda>r. er_id r \<noteq> i) (ev_runs db') = filter (\<lambda>r. er_id r \<noteq> i) (ev_runs db)"
    using assms(1) by (simp add: only_run_def)
  show "r \<in> set (ev_runs db')" if "r \<in> set (ev_runs db)" "er_id r = j"
  proof -
    from that assms(2) have "r \<in> set (filter (\<lambda>r. er_id r \<noteq> i) (ev_runs db))" by simp
    then show ?thesis unfolding e[symmetric] by simp
  qed
qed

lemma not_over_other:
  assumes wf: "runs_wf db" and r: "r \<in> set (ev_runs db)" "run_is_over r"
    and run: "find_row (\<lambda>x. er_id x = i) (ev_runs db) = Some run" "open_status (er_status run)"
  shows "er_id r \<noteq> i"
proof
  assume "er_id r = i"
  moreover have "distinct (map er_id (ev_runs db))" using wf by (simp add: runs_wf_def)
  ultimately have "run = r" using find_row_unique[OF _ r(1)] run(1) by fastforce
  with r(2) run(2) show False by (auto simp: run_is_over_def open_status_def)
qed

lemma step_keeps_over:
  assumes "eval_step db db'" "runs_wf db" "r \<in> set (ev_runs db)" "run_is_over r"
  shows "r \<in> set (ev_runs db') \<and> of_run (er_id r) db' = of_run (er_id r) db"
  using assms
proof (induction rule: eval_step.induct)
  case (created rq now db db' r')
  with create_run_works[OF created(2,1)] show ?case by (auto simp: of_run_def)
next
  case (scored u rq vs now db db' r')
  from scored_works[OF scored(2,1)] obtain db1 run where c: "create_run rq now db = (db1, Inr run)"
    and o: "only_run (er_id run) db1 db'" by blast
  note w = create_run_works[OF scored(2) c]
  have ne: "er_id r \<noteq> er_id run" using scored(2,3) w(3) by (auto simp: runs_wf_def)
  have "r \<in> set (ev_runs db1)" "of_run (er_id r) db1 = of_run (er_id r) db" using w scored(3) by (auto simp: of_run_def)
  with only_run_others[OF o ne] show ?case by auto
next
  case (completed u i cn now db db' r')
  from complete_run_transition[OF completed(1)] show ?case
  proof
    assume "\<exists>run. find_row (\<lambda>r. er_id r = i) (ev_runs db) = Some run \<and> er_status run = ''running''"
    then have "er_id r \<noteq> i" using not_over_other[OF completed(2,3,4)] by (auto simp: open_status_def)
    with only_run_others[of i db db' "er_id r"] complete_run_works[OF completed(2,1)] completed(3) show ?case by auto
  qed (use completed in auto)
next
  case (failed i c code m msg now db db' r')
  obtain run where "find_row (\<lambda>r. er_id r = i) (ev_runs db) = Some run" "open_status (er_status run)"
    using fail_run_transition[OF failed(1)] by metis
  then have "er_id r \<noteq> i" using not_over_other[OF failed(2,3,4)] by auto
  with only_run_others[of i db db' "er_id r"] fail_run_works[OF failed(2,1)] failed(3) show ?case by auto
next
  case (abandoned u i cn now db db1 e c code m msg later db' r')
  have w: "runs_wf db1" "only_run i db db1" using complete_run_works[OF abandoned(3,1)] by auto
  have "er_id r \<noteq> i"
    using complete_run_transition[OF abandoned(1)]
  proof
    assume "db1 = db"
    moreover obtain run where "find_row (\<lambda>r. er_id r = i) (ev_runs db1) = Some run" "open_status (er_status run)"
      using fail_run_transition[OF abandoned(2)] by metis
    ultimately show ?thesis using not_over_other[OF abandoned(3,4,5)] by auto
  next
    assume "\<exists>run. find_row (\<lambda>r. er_id r = i) (ev_runs db) = Some run \<and> er_status run = ''running''"
    then show ?thesis using not_over_other[OF abandoned(3,4,5)] by (auto simp: open_status_def)
  qed
  moreover have "only_run i db db'" using only_run_trans[OF w(2)] fail_run_works[OF w(1) abandoned(2)] by blast
  ultimately show ?case using only_run_others[of i db db' "er_id r"] abandoned(4) by auto
qed

definition no_runs :: "'x eval_db_scheme \<Rightarrow> bool" where
  "no_runs db \<longleftrightarrow> ev_runs db = [] \<and> ev_day_scores db = [] \<and> ev_reviewer_reports db = []"

interpretation evaluation_life: step_system no_runs eval_step runs_wf
proof unfold_locales
  show "runs_wf db" if "no_runs db" for db :: "'x eval_db_scheme"
    using that by (simp add: no_runs_def runs_wf_def unique_job_ids_def unique_day_scores_def unique_reviewer_reports_def map_filter_def)
qed (rule step_keeps_wf)

section \<open>Properties\<close>

text \<open>
  Property C32. The evaluation tables stay well formed in every run of the system that
  creates, scores, completes and fails evaluation runs, a run that was abandoned in the
  middle of its completion included: ids and job ids are unique, an open run has no end,
  a completed one has, no end lies before the start, scores lie in the unit interval,
  recommendations and statuses in their sets, and no run has two scores for a day or two
  reports of a reviewer for a day.
\<close>

theorem evaluation_tables_invariant: "eval_step\<^sup>*\<^sup>* db db' \<Longrightarrow> runs_wf db \<Longrightarrow> runs_wf db'"
  by (rule evaluation_life.inv_steps)

text \<open>
  Property C14. A run that is over is final: whatever runs are created, scored, completed,
  failed or abandoned later, its row, its day scores and its reviewer reports stay exactly
  as they are.
\<close>

theorem finished_runs_are_final:
  assumes "eval_step\<^sup>*\<^sup>* db db'" "runs_wf db" "r \<in> set (ev_runs db)" "run_is_over r"
  shows "r \<in> set (ev_runs db') \<and> of_run (er_id r) db' = of_run (er_id r) db"
  using assms
proof (induction rule: rtranclp_induct)
  case (step db1 db2)
  have "runs_wf db1" using evaluation_life.inv_steps[OF step(1)] step(4) by blast
  with step_keeps_over[OF step(2), of r] step show ?case by auto
qed simp

definition demo_request :: run_request where
  "demo_request = \<lparr>rq_candidate_session_id = 7, rq_scenario_version_id = 2, rq_model_name = ''m'', rq_model_version = ''1'',
     rq_prompt_version = ''p'', rq_rubric_version = ''r'', rq_day2_checkpoint_sha = ''a'', rq_day3_final_sha = ''b'',
     rq_cutoff_commit_sha = ''c'', rq_transcript_reference = ''t'', rq_job_id = Some ''j1'', rq_basis_fingerprint = Some ''f'',
     rq_overall_winoe_score = JNull, rq_recommendation = JNull, rq_confidence = JNull, rq_generated_at = None,
     rq_raw_report_json = JNull, rq_error_code = None, rq_status = ''pending'', rq_started_at = Some 100,
     rq_completed_at = None, rq_metadata_json = JNull\<rparr>"

definition demo_score :: "int \<Rightarrow> json" where
  "demo_score day = JObj [(''day_index'', JInt day), (''score'', JFloat ''0.5''), (''rubric_results_json'', JObj []),
     (''evidence_pointers_json'', JList [])]"

definition demo_completion :: completion where
  "demo_completion = \<lparr>cn_day_scores = map demo_score [1, 2], cn_reviewer_reports = [], cn_overall_winoe_score = JFloat ''0.75'',
     cn_recommendation = JStr ''Positive_Signal'', cn_confidence = JInt 1, cn_raw_report_json = JObj [],
     cn_completed_at = None, cn_generated_at = None, cn_metadata_json = JNull, cn_allow_empty_day_scores = True\<rparr>"

definition no_urls :: "string \<Rightarrow> (string \<times> string) res" where
  "no_urls _ = Inl (ValueError [])"

definition empty_eval :: eval_db where
  "empty_eval = \<lparr>ev_runs = [], ev_day_scores = [], ev_reviewer_reports = [], ev_next_run_id = 1, ev_failed = False\<rparr>"

definition demo_eval_run :: "eval_db \<times> evaluation_run res" where
  "demo_eval_run = bind_op (start_run demo_request 100) (\<lambda>r. complete_run no_urls (er_id r) demo_completion 3000000) empty_eval"

lemma empty_eval_wf: "runs_wf empty_eval"
  by (rule evaluation_life.inv_start) (simp add: no_runs_def empty_eval_def)

lemma demo_eval_steps:
  "\<exists>r. demo_eval_run = (fst demo_eval_run, Inr r) \<and> eval_step\<^sup>*\<^sup>* empty_eval (fst demo_eval_run) \<and>
     er_status r = ''completed'' \<and> er_recommendation r = Some ''hire'' \<and> er_confidence r = Some ''1.0'' \<and>
     r \<in> set (ev_runs (fst demo_eval_run)) \<and> length (ev_day_scores (fst demo_eval_run)) = 2"
proof -
  have "case demo_eval_run of (db, Inl _) \<Rightarrow> False
     | (db, Inr r) \<Rightarrow> er_status r = ''completed'' \<and> er_recommendation r = Some ''hire'' \<and> er_confidence r = Some ''1.0'' \<and>
         find_row (\<lambda>x. er_id x = er_id r) (ev_runs db) = Some r \<and> length (ev_day_scores db) = 2" by code_simp
  then obtain db r where d: "demo_eval_run = (db, Inr r)"
    and r: "er_status r = ''completed''" "er_recommendation r = Some ''hire''" "er_confidence r = Some ''1.0''"
      "find_row (\<lambda>x. er_id x = er_id r) (ev_runs db) = Some r" "length (ev_day_scores db) = 2"
    by (auto split: prod.splits sum.splits)
  from d obtain db1 r1 where s: "start_run demo_request 100 empty_eval = (db1, Inr r1)"
    and c: "complete_run no_urls (er_id r1) demo_completion 3000000 db1 = (db, Inr r)"
    using d[unfolded demo_eval_run_def bind_op_Inr_iff] by blast
  have "eval_step empty_eval db1" using s unfolding start_run_def by (rule eval_step.created)
  moreover have "eval_step db1 db" using c by (rule eval_step.completed)
  ultimately have "eval_step\<^sup>*\<^sup>* empty_eval db" by simp
  moreover have "fst demo_eval_run = db" unfolding d by (rule fst_conv)
  moreover have "r \<in> set (ev_runs db)" using find_row_SomeD[OF r(4)] by blast
  ultimately show ?thesis using d r(1,2,3,5) by metis
qed

theorem evaluation_tables_invariant_witness:
  "runs_wf (fst demo_eval_run) \<and> ev_runs (fst demo_eval_run) \<noteq> []"
  using evaluation_tables_invariant[OF _ empty_eval_wf, of "fst demo_eval_run"] demo_eval_steps by auto

theorem finished_runs_are_final_witness:
  "\<exists>r db r2. eval_step (fst demo_eval_run) db \<and> r2 \<in> set (ev_runs db) - set (ev_runs (fst demo_eval_run)) \<and>
     r \<in> set (ev_runs db) \<and> er_status r = ''completed'' \<and> of_run (er_id r) db = of_run (er_id r) (fst demo_eval_run)"
proof -
  let ?db = "fst demo_eval_run" and ?rq = "demo_request\<lparr>rq_job_id := None\<rparr>"
  obtain r where st: "eval_step\<^sup>*\<^sup>* empty_eval ?db" and r: "r \<in> set (ev_runs ?db)" "er_status r = ''completed''"
    using demo_eval_steps by blast
  have wf: "runs_wf ?db" using evaluation_life.inv_steps[OF st empty_eval_wf] .
  have "isl (snd (start_run ?rq 200 ?db)) = False" by code_simp
  then obtain db r2 where s: "start_run ?rq 200 ?db = (db, Inr r2)" by (metis isl_def sumE surjective_pairing)
  note w = create_run_works[OF wf s[unfolded start_run_def]]
  have step: "eval_step ?db db" using s unfolding start_run_def by (rule eval_step.created)
  have new: "r2 \<in> set (ev_runs db) - set (ev_runs ?db)" using w(2,3) wf by (auto simp: runs_wf_def)
  have "run_is_over r" using r(2) by (simp add: run_is_over_def)
  then have "r \<in> set (ev_runs db) \<and> of_run (er_id r) db = of_run (er_id r) ?db"
    using finished_runs_are_final[OF _ wf r(1)] step by blast
  with step new r(2) show ?thesis by blast
qed

end
