(* ===== verification/AdminSessions.thy ===== *)
theory AdminSessions
  imports DayClose AdminJobs EvaluationRuns
begin

text \<open>
  The admin's controls on a candidate session: the reset of its claim and schedule, and the
  control that moves a day's window, which answers only in a local or test environment
  (\<open>local_env\<close>). The state is the work tables with the audit trail; \<open>other\<close> is what other
  transactions commit before a day audit is inserted.
\<close>

section \<open>Loading and updating the session\<close>

definition load_candidate_session_for_update :: "int \<Rightarrow> app_db \<Rightarrow> candidate_session res" where
  "load_candidate_session_for_update c app =
     (case get_session c app of None \<Rightarrow> Inl (HTTPError 404 ''Candidate session not found'') | Some cs \<Rightarrow> Inr cs)"

definition is_evaluated_candidate_session :: "evaluation_run list \<Rightarrow> int \<Rightarrow> bool" where
  "is_evaluated_candidate_session runs c \<longleftrightarrow>
     (\<exists>r \<in> set runs. er_candidate_session_id r = c \<and> er_status r = ''completed'')"

text \<open>The names of the columns an update changes, in the order in which the updates name them.\<close>

definition changed_fields :: "candidate_session \<Rightarrow> candidate_session \<Rightarrow> string list" where
  "changed_fields cs cs' = map fst (filter snd
     [(''status'', cs_status cs \<noteq> cs_status cs'), (''claimed_at'', cs_claimed_at cs \<noteq> cs_claimed_at cs'),
      (''candidate_auth0_sub'', cs_candidate_auth0_sub cs \<noteq> cs_candidate_auth0_sub cs'),
      (''candidate_email'', cs_candidate_email cs \<noteq> cs_candidate_email cs'),
      (''candidate_auth0_email'', cs_candidate_auth0_email cs \<noteq> cs_candidate_auth0_email cs'),
      (''started_at'', cs_started_at cs \<noteq> cs_started_at cs'), (''completed_at'', cs_completed_at cs \<noteq> cs_completed_at cs'),
      (''scheduled_start_at'', cs_scheduled_start_at cs \<noteq> cs_scheduled_start_at cs'),
      (''candidate_timezone'', cs_candidate_timezone cs \<noteq> cs_candidate_timezone cs'),
      (''day_windows_json'', \<not> py_equal (cs_day_windows_json cs) (cs_day_windows_json cs')),
      (''schedule_locked_at'', cs_schedule_locked_at cs \<noteq> cs_schedule_locked_at cs'),
      (''github_username'', cs_github_username cs \<noteq> cs_github_username cs')])"

definition audit_changes :: "candidate_session \<Rightarrow> candidate_session \<Rightarrow> obj" where
  "audit_changes cs cs' =
     [(''noOp'', JBool (changed_fields cs cs' = [])), (''changedFields'', JList (map JStr (changed_fields cs cs')))]"

section \<open>Resetting a session\<close>

definition CANDIDATE_SESSION_RESET_ACTION :: string where
  "CANDIDATE_SESSION_RESET_ACTION = ''candidate_session_reset''"

definition now_unless_set :: "datetime \<Rightarrow> datetime option \<Rightarrow> datetime option" where
  "now_unless_set now t = Some (case t of None \<Rightarrow> now | Some x \<Rightarrow> x)"

definition build_session_reset_fields :: "string \<Rightarrow> datetime \<Rightarrow> candidate_session \<Rightarrow> candidate_session res" where
  "build_session_reset_fields target_state now cs =
     (let unscheduled = cs\<lparr>cs_completed_at := None, cs_scheduled_start_at := None, cs_candidate_timezone := None,
            cs_day_windows_json := JNull, cs_schedule_locked_at := None\<rparr> in
      if target_state = ''not_started''
      then Inr (unscheduled\<lparr>cs_status := ''not_started'', cs_claimed_at := None, cs_candidate_auth0_sub := None,
             cs_candidate_email := None, cs_candidate_auth0_email := None, cs_started_at := None, cs_github_username := None\<rparr>)
      else if target_state \<notin> {''claimed'', ''in_progress''}
      then Inl (ValueError (''Unsupported target_state: '' @ target_state))
      else if py_strip (nonempty_or (cs_candidate_auth0_sub cs) []) = []
      then Inl (unsafe_operation ''Cannot reset to a claimed state without an existing claimant identity.''
             [(''targetState'', JStr target_state), (''requires'', JStr ''candidate_auth0_sub'')])
      else Inr (unscheduled\<lparr>cs_status := (if target_state = ''in_progress'' then ''in_progress'' else ''not_started''),
             cs_claimed_at := now_unless_set now (cs_claimed_at cs),
             cs_started_at := (if target_state = ''claimed'' then None else now_unless_set now (cs_started_at cs))\<rparr>))"

record session_reset_result =
  sx_candidate_session_id :: int
  sx_reset_to :: string
  sx_status :: string
  sx_audit_id :: "string option"

definition reset_candidate_session ::
    "string \<Rightarrow> demo_admin_actor \<Rightarrow> int \<Rightarrow> string \<Rightarrow> string \<Rightarrow> bool \<Rightarrow> bool \<Rightarrow> evaluation_run list \<Rightarrow> datetime \<Rightarrow> datetime \<Rightarrow>
     (app_db \<times> admin_action_audit list, session_reset_result) op" where
  "reset_candidate_session new_id actor c target_state reason override_if_evaluated dry_run runs now clk = (\<lambda>(app, audits).
     let evaluated = is_evaluated_candidate_session runs c in
     case bind_result (load_candidate_session_for_update c app) (\<lambda>cs.
       if evaluated \<and> \<not> override_if_evaluated
       then Inl (unsafe_operation ''Candidate session has completed evaluation runs.''
              [(''candidateSessionId'', JInt c), (''overrideFlag'', JStr ''overrideIfEvaluated'')])
       else bind_result (build_session_reset_fields target_state now cs) (\<lambda>cs'.
         if dry_run then Inr (app, audits, None)
         else bind_result (insert_audit new_id actor CANDIDATE_SESSION_RESET_ACTION ''candidate_session'' (int_str c)
             ([(''reason'', JStr (sanitized_reason reason)), (''targetState'', JStr target_state),
               (''overrideIfEvaluated'', JBool override_if_evaluated)] @ audit_changes cs cs' @ [(''evaluated'', JBool evaluated)])
             clk audits) (\<lambda>(audit_id, audits'). Inr (put_session cs' app, audits', Some audit_id)))) of
       Inl e \<Rightarrow> ((app, audits), Inl e)
     | Inr (app', audits', audit_id) \<Rightarrow>
         ((app', audits'),
          Inr \<lparr>sx_candidate_session_id = c, sx_reset_to = target_state,
               sx_status = (if dry_run then ''dry_run'' else ''ok''), sx_audit_id = audit_id\<rparr>))"

section \<open>The times of the moved window\<close>

text \<open>Points in time of a wall clock are microseconds, as in \<open>DayWindows\<close>.\<close>

definition floor_to_minute :: "int \<Rightarrow> int" where
  "floor_to_minute value = value - value mod seconds 60"

definition ceil_to_minute :: "int \<Rightarrow> int" where
  "ceil_to_minute value = floor_to_minute (if value mod seconds 60 \<noteq> 0 then value + seconds 60 else value)"

definition resolve_relative_window_times :: "int \<Rightarrow> int \<Rightarrow> int \<Rightarrow> (int \<times> int) res" where
  "resolve_relative_window_times now_local minutes_already_open minutes_until_cutoff =
     (let day_start = now_local - now_local mod microseconds_per_day;
          day_end = day_start + seconds (86400 - 60);
          start_dt = floor_to_minute (max day_start (now_local - seconds (60 * minutes_already_open)));
          end_dt = min day_end (ceil_to_minute (min day_end (now_local + seconds (60 * minutes_until_cutoff))))
      in if end_dt \<le> start_dt
         then Inl (HTTPError 422 ''Unable to derive an active local day window from the requested cutoff settings.'')
         else Inr (start_dt mod microseconds_per_day, end_dt mod microseconds_per_day))"

definition resolve_window_times :: "int \<Rightarrow> int \<Rightarrow> int \<Rightarrow> string option \<Rightarrow> string option \<Rightarrow> (int \<times> int) res" where
  "resolve_window_times now_local minutes_already_open minutes_until_cutoff window_start_local window_end_local =
     (case (window_start_local, window_end_local) of
        (None, None) \<Rightarrow> resolve_relative_window_times now_local minutes_already_open minutes_until_cutoff
      | (Some s, Some e) \<Rightarrow>
          bind_result (parse_local_time (JStr s)) (\<lambda>start_local.
          bind_result (parse_local_time (JStr e)) (\<lambda>end_local.
            if end_local \<le> start_local then Inl (HTTPError 422 ''windowEndLocal must be after windowStartLocal.'')
            else Inr (start_local, end_local)))
      | _ \<Rightarrow> Inl (HTTPError 422 ''windowStartLocal and windowEndLocal must be provided together.''))"

definition hm_text :: "int \<Rightarrow> string" where
  "hm_text t = pad 2 (t div seconds 3600) @ '':'' @ pad 2 (t div seconds 60 mod 60)"

section \<open>Moving a day's window\<close>

definition CANDIDATE_SESSION_DAY_WINDOW_CONTROL_ACTION :: string where
  "CANDIDATE_SESSION_DAY_WINDOW_CONTROL_ACTION = ''candidate_session_day_window_control''"

record day_window_request =
  dq_candidate_session_id :: int
  dq_target_day_index :: int
  dq_reason :: string
  dq_candidate_timezone :: "string option"
  dq_minutes_already_open :: int
  dq_minutes_until_cutoff :: int
  dq_window_start_local :: "string option"
  dq_window_end_local :: "string option"
  dq_dry_run :: bool

record day_window_plan =
  dp_zone :: string
  dp_window_start :: int
  dp_window_end :: int
  dp_scheduled_start_at :: datetime
  dp_day_windows :: "day_window list"
  dp_current :: "(day_window \<times> schedule_window_state) option"

record day_window_result =
  dr_status :: string
  dr_plan :: day_window_plan
  dr_schedule_locked_at :: datetime
  dr_audit_id :: "string option"

definition plan_day_window :: "tz_database \<Rightarrow> datetime \<Rightarrow> day_window_request \<Rightarrow> candidate_session \<Rightarrow> day_window_plan res" where
  "plan_day_window tz now rq cs =
     (let existing_timezone = py_strip (nonempty_or (cs_candidate_timezone cs) []);
          timezone_value = py_strip (nonempty_or (dq_candidate_timezone rq) existing_timezone) in
      if py_strip (nonempty_or (cs_candidate_auth0_sub cs) []) = []
      then Inl (unsafe_operation ''Candidate session must be claimed before day-window controls can be used.''
             [(''candidateSessionId'', JInt (dq_candidate_session_id rq))])
      else if timezone_value = []
      then Inl (HTTPError 422 ''candidateTimezone is required when the session is not yet scheduled.'')
      else bind_result (validate_timezone (tz_known tz) timezone_value) (\<lambda>zone.
        let local_now = tz_to_local tz zone now in
        bind_result (resolve_window_times local_now (dq_minutes_already_open rq) (dq_minutes_until_cutoff rq)
            (dq_window_start_local rq) (dq_window_end_local rq)) (\<lambda>(window_start, window_end).
        let day1 = local_now div microseconds_per_day - (dq_target_day_index rq - 1);
            scheduled = tz_from_local tz zone (day1 * microseconds_per_day + window_start) in
        bind_result (derive_day_windows tz scheduled zone window_start window_end JNull False 5) (\<lambda>day_windows.
          Inr \<lparr>dp_zone = zone, dp_window_start = window_start, dp_window_end = window_end,
               dp_scheduled_start_at = scheduled, dp_day_windows = day_windows,
               dp_current = derive_current_day_window day_windows now\<rparr>))))"

definition with_day_window :: "day_window_plan \<Rightarrow> datetime \<Rightarrow> candidate_session \<Rightarrow> candidate_session" where
  "with_day_window plan now cs =
     cs\<lparr>cs_status := ''in_progress'', cs_started_at := now_unless_set now (cs_started_at cs), cs_completed_at := None,
        cs_scheduled_start_at := Some (dp_scheduled_start_at plan), cs_candidate_timezone := Some (dp_zone plan),
        cs_day_windows_json :=
          (let windows = serialize_day_windows (dp_day_windows plan)
           in if py_equal (cs_day_windows_json cs) windows then cs_day_windows_json cs else windows),
        cs_schedule_locked_at := now_unless_set now (cs_schedule_locked_at cs)\<rparr>"

text \<open>
  A workspace has no columns \<open>precommit_sha\<close> and \<open>base_template_sha\<close>, which the code asks for too.
\<close>

definition fallback_day_cutoff_commit_sha :: "workspace option \<Rightarrow> string" where
  "fallback_day_cutoff_commit_sha w =
     (case w of None \<Rightarrow> [] | Some x \<Rightarrow> py_strip (nonempty_or (ws_latest_commit_sha x) []))"

definition fallback_day_cutoff_basis_ref :: "workspace option \<Rightarrow> string" where
  "fallback_day_cutoff_basis_ref w =
     (let default_branch = (case w of None \<Rightarrow> ''main'' | Some x \<Rightarrow> py_strip (nonempty_or (ws_default_branch x) ''main''))
      in ''refs/heads/'' @ (if default_branch = [] then ''main'' else default_branch) @ ''@cutoff'')"

text \<open>
  Reading an expired attribute outside a greenlet: a rollback expires the loaded rows, and the
  next read of one ends the run.
\<close>

definition missing_greenlet :: error where
  "missing_greenlet = ExternalError ''MissingGreenlet'' ''greenlet_spawn has not been called''"

definition retime_day_audit :: "int \<Rightarrow> int \<Rightarrow> datetime \<Rightarrow> work_db \<Rightarrow> work_db" where
  "retime_day_audit c day cutoff_at db =
     db\<lparr>wk_audits := update_rows (\<lambda>a. audit_key a = (c, day)) (\<lambda>a. a\<lparr>da_cutoff_at := cutoff_at\<rparr>) (wk_audits db)\<rparr>"

text \<open>
  The day audit of the moved window: the stored one is retimed, otherwise one is inserted. When
  another transaction inserts it first, the insert rolls back and the run ends.
\<close>

definition control_day_audit ::
    "(work_db \<Rightarrow> work_db) \<Rightarrow> int \<Rightarrow> int \<Rightarrow> datetime \<Rightarrow> workspace option \<Rightarrow> (work_db, unit) op" where
  "control_day_audit other c day cutoff_at w db =
     (case get_day_audit c day db of
        Some _ \<Rightarrow> (retime_day_audit c day cutoff_at db, Inr ())
      | None \<Rightarrow>
          (case create_day_audit_once other
              \<lparr>da_candidate_session_id = c, da_day_index = day, da_cutoff_at = cutoff_at,
               da_cutoff_commit_sha = fallback_day_cutoff_commit_sha w,
               da_eval_basis_ref = fallback_day_cutoff_basis_ref w\<rparr> db of
             (db1, Inl e) \<Rightarrow> (db1, Inl e)
           | (db1, Inr (_, created)) \<Rightarrow> if created then (db1, Inr ()) else (db1, Inl missing_greenlet)))"

definition move_cutoff ::
    "(work_db \<Rightarrow> work_db) \<Rightarrow> day_window_request \<Rightarrow> day_window_plan \<Rightarrow> workspace option \<Rightarrow> (work_db, unit) op" where
  "move_cutoff other rq plan w =
     (case dp_current plan of
        None \<Rightarrow> lift_op (Inr ())
      | Some (current, _) \<Rightarrow>
          if dq_target_day_index rq \<notin> {2, 3} then lift_op (Inr ())
          else bind_op (control_day_audit other (dq_candidate_session_id rq) (dq_target_day_index rq) (dw_windowEndAt current) w)
            (\<lambda>_. modify_op (case w of None \<Rightarrow> (\<lambda>db. db) | Some x \<Rightarrow> set_access_revocation_state x (Some (dw_windowEndAt current)) None)))"

text \<open>What a rollback leaves: what other transactions committed before the insert of an audit.\<close>

definition rolled_back :: "(work_db \<Rightarrow> work_db) \<Rightarrow> day_window_request \<Rightarrow> day_window_plan \<Rightarrow> work_db \<Rightarrow> work_db" where
  "rolled_back other rq plan db =
     (if dp_current plan \<noteq> None \<and> dq_target_day_index rq \<in> {2, 3} \<and>
         get_day_audit (dq_candidate_session_id rq) (dq_target_day_index rq) db = None
      then other db else db)"

definition day_window_target ::
    "tz_database \<Rightarrow> datetime \<Rightarrow> day_window_request \<Rightarrow> work_db \<Rightarrow> (candidate_session \<times> day_window_plan \<times> workspace option) res" where
  "day_window_target tz now rq db =
     bind_result (load_candidate_session_for_update (dq_candidate_session_id rq) (wk_app db)) (\<lambda>cs.
     bind_result (plan_day_window tz now rq cs) (\<lambda>plan.
     bind_result (scalar_one_or_none (map tk_id (filter (\<lambda>t. tk_trial_id t = cs_trial_id cs \<and>
         tk_day_index t = dq_target_day_index rq) (wk_tasks db)))) (\<lambda>task_id.
       Inr (cs, plan, case task_id of None \<Rightarrow> None | Some k \<Rightarrow> get_by_session_and_task (dq_candidate_session_id rq) k db))))"

definition day_window_payload :: "day_window_request \<Rightarrow> day_window_plan \<Rightarrow> candidate_session \<Rightarrow> candidate_session \<Rightarrow> obj" where
  "day_window_payload rq plan cs cs' =
     [(''reason'', JStr (sanitized_reason (dq_reason rq))), (''targetDayIndex'', JInt (dq_target_day_index rq)),
      (''candidateTimezone'', JStr (dp_zone plan)), (''windowStartLocal'', JStr (hm_text (dp_window_start plan))),
      (''windowEndLocal'', JStr (hm_text (dp_window_end plan))), (''minutesAlreadyOpen'', JInt (dq_minutes_already_open rq)),
      (''minutesUntilCutoff'', JInt (dq_minutes_until_cutoff rq))] @ audit_changes cs cs'"

definition set_candidate_session_day_window ::
    "tz_database \<Rightarrow> (string \<Rightarrow> datetime option) \<Rightarrow> bool \<Rightarrow> (work_db \<Rightarrow> work_db) \<Rightarrow> bool \<Rightarrow> string \<Rightarrow> datetime \<Rightarrow> datetime \<Rightarrow>
     day_window_request \<Rightarrow> (work_db \<times> admin_action_audit list, day_window_result) op" where
  "set_candidate_session_day_window tz from_iso local_env other aborts new_id now clk rq = (\<lambda>(db, audits).
     if \<not> local_env then ((db, audits), Inl (HTTPError 404 ''Not found''))
     else case day_window_target tz now rq db of
       Inl e \<Rightarrow> ((db, audits), Inl e)
     | Inr (cs, plan, w) \<Rightarrow>
         (case move_cutoff other rq plan w db of
            (db1, Inl e) \<Rightarrow> ((db1, audits), Inl e)
          | (db1, Inr _) \<Rightarrow>
              (let cs' = with_day_window plan now cs; rolled = rolled_back other rq plan db;
                   result = (\<lambda>status audit_id. \<lparr>dr_status = status, dr_plan = plan,
                     dr_schedule_locked_at = (case cs_schedule_locked_at cs of None \<Rightarrow> now | Some t \<Rightarrow> t), dr_audit_id = audit_id\<rparr>) in
               case enqueue_day_close_jobs tz from_iso (wk_tasks db1) aborts cs' clk clk (put_session cs' (wk_app db1)) of
                 Inl e \<Rightarrow> ((rolled, audits), Inl e)
               | Inr (_, app) \<Rightarrow>
                   if dq_dry_run rq then ((rolled, audits), Inr (result ''dry_run'' None))
                   else (case create_audit new_id ''admin_api_key'' ''local_admin_key''
                       CANDIDATE_SESSION_DAY_WINDOW_CONTROL_ACTION ''candidate_session'' (int_str (cs_id cs))
                       (day_window_payload rq plan cs cs') clk audits of
                     Inl e \<Rightarrow> ((rolled, audits), Inl e)
                   | Inr (a, audits') \<Rightarrow> ((db1\<lparr>wk_app := app\<rparr>, audits'), Inr (result ''ok'' (Some (au_id a))))))))"

section \<open>Facts\<close>

text \<open>A reset that is stored undoes the schedule, and touches no other session.\<close>

lemma reset_unschedules:
  assumes r: "reset_candidate_session i actor c target reason ov dry runs now clk (app, audits) = ((app', audits'), Inr r)"
  shows "if dry then app' = app \<and> audits' = audits \<and> sx_audit_id r = None
    else (\<exists>cs cs' :: candidate_session. get_session c app = Some cs \<and> app' = put_session cs' app \<and> cs_id cs' = c \<and>
       cs_scheduled_start_at cs' = None \<and> cs_schedule_locked_at cs' = None \<and> cs_day_windows_json cs' = JNull \<and>
       (target = ''not_started'' \<longrightarrow> cs_candidate_auth0_sub cs' = None)) \<and>
      (is_evaluated_candidate_session runs c \<longrightarrow> ov) \<and> length audits' = Suc (length audits)"
proof (cases dry)
  case True
  with r show ?thesis
    by (auto simp: reset_candidate_session_def Let_def bind_result_Inr_iff split: sum.splits if_splits prod.splits)
next
  case False
  from r False obtain cs cs' x where f: "get_session c app = Some cs" "build_session_reset_fields target now cs = Inr cs'"
    "app' = put_session cs' app" "is_evaluated_candidate_session runs c \<longrightarrow> ov" "audits' = audits @ [x]"
    by (auto simp: reset_candidate_session_def Let_def bind_result_Inr_iff load_candidate_session_for_update_def insert_audit_def
        split: sum.splits if_splits prod.splits option.splits dest!: create_audit_InrD)
  have "cs_id cs = c" using f(1) by (auto simp: get_session_def dest: find_row_SomeD)
  with f(2) have "cs_id cs' = c \<and> cs_scheduled_start_at cs' = None \<and> cs_schedule_locked_at cs' = None \<and> cs_day_windows_json cs' = JNull \<and>
    (target = ''not_started'' \<longrightarrow> cs_candidate_auth0_sub cs' = None)"
    by (auto simp: build_session_reset_fields_def Let_def split: if_splits)
  with f False show ?thesis by auto
qed

lemma control_only_local:
  "\<not> local_env \<Longrightarrow> set_candidate_session_day_window tz from_iso local_env other aborts i now clk rq (db, audits) =
     ((db, audits), Inl (HTTPError 404 ''Not found''))"
  by (simp add: set_candidate_session_day_window_def)

text \<open>The tables the control leaves: the moved cut-off with another session table and queue, or what a rollback leaves.\<close>

lemma control_cases:
  assumes "set_candidate_session_day_window tz from_iso local_env other aborts i now clk rq (db, audits) = ((db', audits'), r)"
  obtains "db' = db" | plan where "db' = rolled_back other rq plan db"
  | plan w db1 x app where "local_env" "move_cutoff other rq plan w db = (db1, x)" "db' = db1\<lparr>wk_app := app\<rparr>"
proof (cases "local_env")
  case False
  with assms that(1) show thesis by (simp add: control_only_local)
next
  case True
  show thesis
  proof (cases "day_window_target tz now rq db")
    case (Inl e)
    with assms that(1) show thesis by (simp add: set_candidate_session_day_window_def split: if_splits)
  next
    case t: (Inr y)
    obtain cs plan w where y: "y = (cs, plan, w)" by (cases y)
    obtain db1 x where m: "move_cutoff other rq plan w db = (db1, x)" by fastforce
    show thesis
    proof (cases x)
      case (Inl e)
      with assms t y m True have "db' = db1\<lparr>wk_app := wk_app db1\<rparr>" by (simp add: set_candidate_session_day_window_def)
      with that(3)[OF True m] show thesis .
    next
      case (Inr u)
      with assms t y m True have "db' = rolled_back other rq plan db \<or> (\<exists>app. db' = db1\<lparr>wk_app := app\<rparr>)"
        by (auto simp: set_candidate_session_day_window_def Let_def split: sum.splits if_splits prod.splits)
      with that(2,3) True m show thesis by blast
    qed
  qed
qed

end
