(* ===== verification/WorkflowEvents.thy ===== *)
theory WorkflowEvents
  imports DayClose RateLimits
begin

text \<open>
  GitHub's workflow events (\<open>app/integrations/github/webhooks\<close>, the webhook route, the handler of
  the \<open>github_workflow_artifact_parse\<close> job): a delivery is authenticated, its run is matched to a
  submission, the outcome of the run is written to the submission and its workspace, and a job is
  queued that reads the run's artifacts and writes the test results.

  The keyed hash \<open>hmac\<close>, \<open>json.loads\<close> and \<open>datetime.fromisoformat\<close> are arguments; the last gives
  the point in time and its UTC offset in microseconds (0 where the text names none).
\<close>

section \<open>Numbers and times of a payload\<close>

text \<open>
  \<open>int\<close> of a float, from its \<open>repr\<close>. With an exponent the text is not the value of the float but
  within half a unit of its last place: the float is the integer of 53 significant bits nearest to it.
\<close>

function bit_len :: "int \<Rightarrow> nat" where
  "bit_len n = (if n \<le> 0 then 0 else Suc (bit_len (n div 2)))"
  by pat_completeness auto
termination
  by (relation "measure nat") auto

declare bit_len.simps [simp del]

definition nearest_double :: "int \<Rightarrow> int" where
  "nearest_double n =
     (if n < 2 ^ 53 then n
      else let k = bit_len n - 53; q = n div 2 ^ k; r = n mod 2 ^ k; half = 2 ^ (k - 1)
           in (if r > half \<or> r = half \<and> odd q then q + 1 else q) * 2 ^ k)"

definition int_of_float :: "string \<Rightarrow> int res" where
  "int_of_float r =
     (if r = ''nan'' then Inl (ValueError ''cannot convert float NaN to integer'')
      else if r \<in> {''inf'', ''-inf''} then Inl (OverflowError ''cannot convert float infinity to integer'')
      else let body = (if starts_with ''-'' r then tl r else r);
               mantissa = takeWhile (\<lambda>c. c \<noteq> CHR ''e'') body; exponent = drop 1 (dropWhile (\<lambda>c. c \<noteq> CHR ''e'') body);
               whole = takeWhile (\<lambda>c. c \<noteq> CHR ''.'') mantissa; frac = drop 1 (dropWhile (\<lambda>c. c \<noteq> CHR ''.'') mantissa);
               n = (if exponent = [] then digits_value whole
                    else if hd exponent = CHR ''-'' then 0
                    else nearest_double (digits_value (whole @ frac) * 10 ^ (nat (digits_value (tl exponent)) - length frac)))
           in Inr (if starts_with ''-'' r then - n else n))"

definition normalized_lower :: "json \<Rightarrow> string option" where
  "normalized_lower value =
     (case value of JStr s \<Rightarrow> if py_strip s = [] then None else Some (py_lower (py_strip s)) | _ \<Rightarrow> None)"

definition coerce_positive_int :: "json \<Rightarrow> int option res" where
  "coerce_positive_int value =
     (let positive = (\<lambda>i. if i > 0 then Some i else None) in
      case value of
        JInt i \<Rightarrow> Inr (positive i)
      | JBool b \<Rightarrow> Inr (positive (if b then 1 else 0))
      | JFloat r \<Rightarrow> (case int_of_float r of Inr i \<Rightarrow> Inr (positive i) | Inl (ValueError _) \<Rightarrow> Inr None | Inl e \<Rightarrow> Inl e)
      | JStr s \<Rightarrow> Inr (case py_int_of_str s of None \<Rightarrow> None | Some i \<Rightarrow> positive i)
      | _ \<Rightarrow> Inr None)"

type_synonym aware_datetime = "datetime \<times> int"

definition parse_github_datetime :: "(string \<Rightarrow> aware_datetime option) \<Rightarrow> json \<Rightarrow> aware_datetime option" where
  "parse_github_datetime from_iso value =
     (case value of JStr s \<Rightarrow> if py_strip s = [] then None else from_iso (replace_z (py_strip s)) | _ \<Rightarrow> None)"

text \<open>The offset of \<open>isoformat\<close>, and the text of an aware time with \<open>+00:00\<close> spelled \<open>Z\<close>.\<close>

definition offset_text :: "int \<Rightarrow> string" where
  "offset_text off =
     (let s = abs off div 1000000; us = abs off mod 1000000 in
      (if off < 0 then ''-'' else ''+'') @ pad 2 (s div 3600) @ '':'' @ pad 2 (s div 60 mod 60) @
      (if s mod 60 = 0 \<and> us = 0 then []
       else '':'' @ pad 2 (s mod 60) @ (if us = 0 then [] else ''.'' @ pad 6 us)))"

definition aware_isoformat_z :: "aware_datetime \<Rightarrow> string" where
  "aware_isoformat_z = (\<lambda>(t, off).
     iso_body (t + off) @
     (if starts_with ''+00:00'' (offset_text off) then ''Z'' @ drop 6 (offset_text off) else offset_text off))"

section \<open>The event of a completed run\<close>

record workflow_run_event =
  we_workflow_run_id :: int
  we_run_attempt :: "int option"
  we_conclusion :: "string option"
  we_completed_at :: "aware_datetime option"
  we_head_sha :: "string option"
  we_repo_full_name :: string

record webhook_outcome =
  wo_outcome :: string
  wo_reason_code :: "string option"
  wo_submission_id :: "int option"
  wo_workflow_run_id :: "int option"
  wo_enqueued_artifact_parse :: bool

definition GITHUB_WORKFLOW_ARTIFACT_PARSE_JOB_TYPE :: string where
  "GITHUB_WORKFLOW_ARTIFACT_PARSE_JOB_TYPE = ''github_workflow_artifact_parse''"

definition NON_TERMINAL_WORKFLOW_STATUSES :: "string list" where
  "NON_TERMINAL_WORKFLOW_STATUSES = [''queued'', ''in_progress'', ''requested'', ''pending'', ''waiting'']"

definition parse_workflow_run_completed_event ::
    "(string \<Rightarrow> aware_datetime option) \<Rightarrow> obj \<Rightarrow> workflow_run_event option res" where
  "parse_workflow_run_completed_event from_iso payload =
     (case (dict_get ''workflow_run'' payload, dict_get ''repository'' payload) of
        (JObj workflow_run, JObj repository) \<Rightarrow>
          bind_result (coerce_positive_int (dict_get ''id'' workflow_run)) (\<lambda>run_id.
          let repo_full_name = text_of (dict_get ''full_name'' repository) in
          case run_id of
            None \<Rightarrow> Inr None
          | Some i \<Rightarrow>
              if repo_full_name = [] then Inr None
              else bind_result (coerce_positive_int (dict_get ''run_attempt'' workflow_run)) (\<lambda>run_attempt.
                Inr (Some
                  \<lparr>we_workflow_run_id = i, we_run_attempt = run_attempt,
                   we_conclusion = normalized_lower (dict_get ''conclusion'' workflow_run),
                   we_completed_at = parse_github_datetime from_iso (dict_get ''completed_at'' workflow_run),
                   we_head_sha = (case dict_get ''head_sha'' workflow_run of JStr s \<Rightarrow> Some (py_strip s) | _ \<Rightarrow> None),
                   we_repo_full_name = repo_full_name\<rparr>)))
      | _ \<Rightarrow> Inr None)"

section \<open>The submission of a run\<close>

definition find_submission_by_workflow_run_id :: "int \<Rightarrow> string \<Rightarrow> work_db \<Rightarrow> submission list" where
  "find_submission_by_workflow_run_id run_id repo db =
     filter (\<lambda>s. sb_workflow_run_id s = Some (int_str run_id) \<and> sb_code_repo_path s = Some repo) (wk_submissions db)"

definition awaits_run :: "submission \<Rightarrow> bool" where
  "awaits_run s \<longleftrightarrow>
     sb_last_run_at s \<noteq> None \<and> sb_workflow_run_id s \<in> {None, Some []} \<and>
     (case sb_workflow_run_status s of None \<Rightarrow> True | Some st \<Rightarrow> st = [] \<or> py_lower st \<in> set NON_TERMINAL_WORKFLOW_STATUSES) \<and>
     sb_workflow_run_conclusion s = None \<and> sb_workflow_run_completed_at s = None"

definition find_submission_by_head_sha_fallback :: "string \<Rightarrow> string \<Rightarrow> work_db \<Rightarrow> submission list" where
  "find_submission_by_head_sha_fallback repo head_sha db =
     filter (\<lambda>s. sb_code_repo_path s = Some repo \<and> sb_commit_sha s = Some head_sha \<and> awaits_run s) (wk_submissions db)"

definition resolve_submission_mapping :: "workflow_run_event \<Rightarrow> work_db \<Rightarrow> submission option \<times> string" where
  "resolve_submission_mapping e db =
     (case find_submission_by_workflow_run_id (we_workflow_run_id e) (we_repo_full_name e) db of
        [s] \<Rightarrow> (Some s, ''matched_by_workflow_run_id'')
      | _ # _ # _ \<Rightarrow> (None, ''mapping_ambiguous_workflow_run_id'')
      | [] \<Rightarrow>
          (case we_head_sha e of
             None \<Rightarrow> (None, ''mapping_unmatched'')
           | Some sha \<Rightarrow>
               if sha = [] then (None, ''mapping_unmatched'')
               else (case find_submission_by_head_sha_fallback (we_repo_full_name e) sha db of
                       [s] \<Rightarrow> (Some s, ''matched_by_repo_head_sha'')
                     | _ # _ # _ \<Rightarrow> (None, ''mapping_ambiguous_repo_head_sha'')
                     | [] \<Rightarrow> (None, ''mapping_unmatched''))))"

definition company_id_for_submission :: "submission \<Rightarrow> work_db \<Rightarrow> int option" where
  "company_id_for_submission s db =
     (case get_session (sb_candidate_session_id s) (wk_app db) of
        None \<Rightarrow> None
      | Some cs \<Rightarrow> map_option t_company_id (find_row (\<lambda>t. t_id t = cs_trial_id cs) (trials (wk_app db))))"

definition workspace_for_submission :: "submission \<Rightarrow> work_db \<Rightarrow> workspace option" where
  "workspace_for_submission s db = task_workspace (sb_candidate_session_id s) (sb_task_id s) db"

section \<open>Writing the outcome\<close>

text \<open>One conditional assignment and the flag \<open>changed\<close>.\<close>

definition assign_if :: "('r \<Rightarrow> bool) \<Rightarrow> ('r \<Rightarrow> 'r) \<Rightarrow> 'r \<times> bool \<Rightarrow> 'r \<times> bool" where
  "assign_if P f = (\<lambda>(r, changed). if P r then (f r, True) else (r, changed))"

definition nonempty_sha :: "string option \<Rightarrow> bool" where
  "nonempty_sha sha \<longleftrightarrow> sha \<noteq> None \<and> sha \<noteq> Some []"

definition apply_run_times :: "datetime \<Rightarrow> workflow_run_event \<Rightarrow> submission \<times> bool \<Rightarrow> submission \<times> bool" where
  "apply_run_times now e sc =
     (case we_completed_at e of
        Some (t, _) \<Rightarrow>
          assign_if (\<lambda>s. sb_last_run_at s \<noteq> Some t) (\<lambda>s. s\<lparr>sb_last_run_at := Some t\<rparr>)
            (assign_if (\<lambda>s. sb_workflow_run_completed_at s \<noteq> Some t) (\<lambda>s. s\<lparr>sb_workflow_run_completed_at := Some t\<rparr>) sc)
      | None \<Rightarrow> assign_if (\<lambda>s. sb_last_run_at s = None) (\<lambda>s. s\<lparr>sb_last_run_at := Some (drop_microseconds now)\<rparr>) sc)"

definition apply_submission_completion :: "datetime \<Rightarrow> workflow_run_event \<Rightarrow> submission \<Rightarrow> submission \<times> bool" where
  "apply_submission_completion now e sub =
     (let run_id = Some (int_str (we_workflow_run_id e)) in
      assign_if (\<lambda>s. nonempty_sha (we_head_sha e) \<and> sb_commit_sha s \<noteq> we_head_sha e) (\<lambda>s. s\<lparr>sb_commit_sha := we_head_sha e\<rparr>)
      (apply_run_times now e
      (assign_if (\<lambda>s. we_run_attempt e \<noteq> None \<and> sb_workflow_run_attempt s \<noteq> we_run_attempt e)
        (\<lambda>s. s\<lparr>sb_workflow_run_attempt := we_run_attempt e\<rparr>)
      (assign_if (\<lambda>s. sb_workflow_run_conclusion s \<noteq> we_conclusion e) (\<lambda>s. s\<lparr>sb_workflow_run_conclusion := we_conclusion e\<rparr>)
      (assign_if (\<lambda>s. sb_workflow_run_status s \<noteq> Some ''completed'') (\<lambda>s. s\<lparr>sb_workflow_run_status := Some ''completed''\<rparr>)
      (assign_if (\<lambda>s. sb_workflow_run_id s \<noteq> run_id) (\<lambda>s. s\<lparr>sb_workflow_run_id := run_id\<rparr>) (sub, False)))))))"

definition apply_workspace_completion :: "workflow_run_event \<Rightarrow> workspace \<Rightarrow> workspace \<times> bool" where
  "apply_workspace_completion e ws =
     (let run_id = Some (int_str (we_workflow_run_id e)) in
      assign_if (\<lambda>w. nonempty_sha (we_head_sha e) \<and> ws_latest_commit_sha w \<noteq> we_head_sha e)
        (\<lambda>w. w\<lparr>ws_latest_commit_sha := we_head_sha e\<rparr>)
      (assign_if (\<lambda>w. ws_last_workflow_conclusion w \<noteq> we_conclusion e) (\<lambda>w. w\<lparr>ws_last_workflow_conclusion := we_conclusion e\<rparr>)
      (assign_if (\<lambda>w. ws_last_workflow_run_id w \<noteq> run_id) (\<lambda>w. w\<lparr>ws_last_workflow_run_id := run_id\<rparr>) (ws, False))))"

definition apply_to_workspace :: "workflow_run_event \<Rightarrow> workspace option \<Rightarrow> workspace option \<times> bool" where
  "apply_to_workspace e ws =
     (case ws of None \<Rightarrow> (None, False) | Some w \<Rightarrow> apfst Some (apply_workspace_completion e w))"

definition write_submission :: "submission \<Rightarrow> work_db \<Rightarrow> work_db" where
  "write_submission s db = db\<lparr>wk_submissions := update_rows (\<lambda>x. sb_id x = sb_id s) (\<lambda>_. s) (wk_submissions db)\<rparr>"

definition write_workspace :: "workspace option \<Rightarrow> work_db \<Rightarrow> work_db" where
  "write_workspace ws db =
     (case ws of None \<Rightarrow> db
      | Some w \<Rightarrow> db\<lparr>wk_workspaces := update_rows (\<lambda>x. ws_id x = ws_id w) (\<lambda>_. w) (wk_workspaces db)\<rparr>)"

section \<open>Queueing the parse job\<close>

definition build_artifact_parse_job_idempotency_key :: "int \<Rightarrow> int \<Rightarrow> int option \<Rightarrow> string" where
  "build_artifact_parse_job_idempotency_key submission_id run_id run_attempt =
     ''github_workflow_artifact_parse:'' @ int_str submission_id @ '':'' @ int_str run_id @ '':'' @
     int_str (case run_attempt of None \<Rightarrow> 1 | Some a \<Rightarrow> if a = 0 then 1 else a)"

definition artifact_parse_spec :: "submission \<Rightarrow> workflow_run_event \<Rightarrow> string option \<Rightarrow> idempotent_job_spec" where
  "artifact_parse_spec s e delivery_id =
     \<lparr>sp_job_type = GITHUB_WORKFLOW_ARTIFACT_PARSE_JOB_TYPE,
      sp_idempotency_key = build_artifact_parse_job_idempotency_key (sb_id s) (we_workflow_run_id e) (we_run_attempt e),
      sp_payload_json =
        [(''submissionId'', JInt (sb_id s)), (''candidateSessionId'', JInt (sb_candidate_session_id s)),
         (''taskId'', JInt (sb_task_id s)), (''repoFullName'', JStr (we_repo_full_name e)),
         (''workflowRunId'', JInt (we_workflow_run_id e)), (''workflowRunAttempt'', opt_int (we_run_attempt e)),
         (''workflowCompletedAt'', opt_json (\<lambda>t. JStr (aware_isoformat_z t)) (we_completed_at e)),
         (''githubDeliveryId'', opt_json JStr delivery_id)],
      sp_candidate_session_id = Some (sb_candidate_session_id s), sp_max_attempts = 3,
      sp_correlation_id = Some (''github_workflow_run:'' @ int_str (we_workflow_run_id e)), sp_next_run_at = None\<rparr>"

definition enqueue_artifact_parse_job ::
    "submission \<Rightarrow> int \<Rightarrow> workflow_run_event \<Rightarrow> string option \<Rightarrow> datetime \<Rightarrow> jobs_db \<Rightarrow> (bool \<times> jobs_db) res" where
  "enqueue_artifact_parse_job s company_id e delivery_id clk q =
     (let spec = artifact_parse_spec s e delivery_id;
          existing = load_idempotent_job company_id (sp_job_type spec) (sp_idempotency_key spec) q
      in bind_result (create_or_get_idempotent (\<lambda>q. q) spec company_id False clk q) (\<lambda>(_, q').
           Inr (existing = None, q')))"

section \<open>Processing an event\<close>

definition unmatched :: "string \<Rightarrow> int option \<Rightarrow> int \<Rightarrow> webhook_outcome" where
  "unmatched reason submission_id run_id =
     \<lparr>wo_outcome = ''unmatched'', wo_reason_code = Some reason, wo_submission_id = submission_id,
      wo_workflow_run_id = Some run_id, wo_enqueued_artifact_parse = False\<rparr>"

definition record_completion ::
    "datetime \<Rightarrow> datetime \<Rightarrow> string option \<Rightarrow> workflow_run_event \<Rightarrow> submission \<Rightarrow> string \<Rightarrow> int \<Rightarrow> (work_db, webhook_outcome) op" where
  "record_completion now clk delivery_id e s reason company_id db =
     (let (s', updated_submission) = apply_submission_completion now e s;
          (ws', updated_workspace) = apply_to_workspace e (workspace_for_submission s db)
      in case enqueue_artifact_parse_job s' company_id e delivery_id clk (queue (wk_app db)) of
           Inl err \<Rightarrow> (db, Inl err)
         | Inr (enqueued, q) \<Rightarrow>
             (let db1 = write_workspace ws' (write_submission s' db)
              in (db1\<lparr>wk_app := (wk_app db1)\<lparr>queue := q\<rparr>\<rparr>,
                  Inr \<lparr>wo_outcome = (if updated_submission \<or> updated_workspace then ''updated_status'' else ''duplicate_noop''),
                       wo_reason_code = Some reason, wo_submission_id = Some (sb_id s),
                       wo_workflow_run_id = Some (we_workflow_run_id e), wo_enqueued_artifact_parse = enqueued\<rparr>)))"

definition process_workflow_run_completed_event ::
    "(string \<Rightarrow> aware_datetime option) \<Rightarrow> datetime \<Rightarrow> datetime \<Rightarrow> string option \<Rightarrow> obj \<Rightarrow> (work_db, webhook_outcome) op" where
  "process_workflow_run_completed_event from_iso now clk delivery_id payload db =
     (case parse_workflow_run_completed_event from_iso payload of
        Inl err \<Rightarrow> (db, Inl err)
      | Inr None \<Rightarrow>
          (db, Inr \<lparr>wo_outcome = ''ignored'', wo_reason_code = Some ''workflow_run_payload_invalid'', wo_submission_id = None,
                    wo_workflow_run_id = None, wo_enqueued_artifact_parse = False\<rparr>)
      | Inr (Some e) \<Rightarrow>
          (case resolve_submission_mapping e db of
             (None, reason) \<Rightarrow> (db, Inr (unmatched reason None (we_workflow_run_id e)))
           | (Some s, reason) \<Rightarrow>
               (case company_id_for_submission s db of
                  None \<Rightarrow> (db, Inr (unmatched ''submission_company_unresolved'' (Some (sb_id s)) (we_workflow_run_id e)))
                | Some company_id \<Rightarrow> record_completion now clk delivery_id e s reason company_id db)))"

section \<open>Receiving a delivery\<close>

definition SIGNATURE_PREFIX :: string where "SIGNATURE_PREFIX = ''sha256=''"

definition build_github_signature :: "(string \<Rightarrow> string \<Rightarrow> string) \<Rightarrow> string \<Rightarrow> string \<Rightarrow> string" where
  "build_github_signature hmac secret raw_body = SIGNATURE_PREFIX @ hmac (concat (map utf8_char secret)) raw_body"

text \<open>\<open>hmac.compare_digest\<close> on two texts, which it wants in ASCII.\<close>

definition compare_digest :: "string \<Rightarrow> string \<Rightarrow> bool res" where
  "compare_digest a b =
     (if \<exists>c \<in> set (a @ b). 128 \<le> code_point c
      then Inl (TypeError ''comparing strings with non-ASCII characters is not supported'') else Inr (a = b))"

definition verify_github_signature :: "(string \<Rightarrow> string \<Rightarrow> string) \<Rightarrow> string option \<Rightarrow> string \<Rightarrow> string option \<Rightarrow> bool res" where
  "verify_github_signature hmac secret raw_body provided =
     (let normalized_secret = py_strip (nonempty_or secret []); normalized_header = py_strip (nonempty_or provided [])
      in if normalized_secret = [] \<or> normalized_header = [] then Inr False
         else if \<not> starts_with SIGNATURE_PREFIX normalized_header then Inr False
         else compare_digest (build_github_signature hmac normalized_secret raw_body) normalized_header)"

record webhook_request =
  wq_delivery :: "string option"
  wq_event :: "string option"
  wq_signature :: "string option"
  wq_raw_body :: string
  wq_client_fingerprint :: string

record webhook_settings =
  wt_secret :: "string option"
  wt_max_body_bytes :: int
  wt_rate_limit_enabled :: bool

definition GITHUB_WEBHOOK_RATE_LIMIT :: rate_limit_rule where
  "GITHUB_WEBHOOK_RATE_LIMIT = \<lparr>rl_limit = 240, rl_window_seconds = seconds 60\<rparr>"

definition webhook_rate_limit :: "bool \<Rightarrow> string \<Rightarrow> int \<Rightarrow> (limiter, unit) op" where
  "webhook_rate_limit enabled client now =
     (if enabled then allow (rate_limit_key [''github_webhooks'', client]) GITHUB_WEBHOOK_RATE_LIMIT now else lift_op (Inr ()))"

definition parse_webhook_payload :: "(string \<Rightarrow> json res) \<Rightarrow> string \<Rightarrow> obj res" where
  "parse_webhook_payload json_loads raw_body =
     (case json_loads raw_body of
        Inr (JObj payload) \<Rightarrow> Inr payload
      | Inl (ExternalError kind msg) \<Rightarrow>
          Inl (if kind = ''JSONDecodeError'' then HTTPError 400 ''Malformed JSON payload.'' else ExternalError kind msg)
      | Inl e \<Rightarrow> Inl e
      | _ \<Rightarrow> Inl (HTTPError 400 ''Malformed JSON payload.''))"

definition webhook_action :: "obj \<Rightarrow> string res" where
  "webhook_action payload =
     (let action = dict_get ''action'' payload
      in if \<not> truthy action then Inr []
         else (case action of JStr s \<Rightarrow> Inr (py_lower (py_strip s)) | _ \<Rightarrow> Inl (AttributeError ''strip'')))"

text \<open>What a delivery must pass before its payload is looked at.\<close>

definition admit_delivery ::
    "(string \<Rightarrow> string \<Rightarrow> string) \<Rightarrow> (string \<Rightarrow> json res) \<Rightarrow> webhook_settings \<Rightarrow> webhook_request \<Rightarrow> obj res" where
  "admit_delivery hmac json_loads settings rq =
     (let secret = py_strip (nonempty_or (wt_secret settings) []) in
      if secret = [] then Inl (HTTPError 503 ''GitHub webhook secret is not configured.'')
      else if py_len (wq_raw_body rq) > wt_max_body_bytes settings then Inl (HTTPError 413 ''Webhook payload too large.'')
      else bind_result (verify_github_signature hmac (Some secret) (wq_raw_body rq) (wq_signature rq)) (\<lambda>verified.
        if \<not> verified then Inl (HTTPError 401 ''Invalid webhook signature.'')
        else parse_webhook_payload json_loads (wq_raw_body rq)))"

definition accepted_status :: obj where
  "accepted_status = [(''status'', JStr ''accepted'')]"

definition receive_github_webhook ::
    "(string \<Rightarrow> string \<Rightarrow> string) \<Rightarrow> (string \<Rightarrow> json res) \<Rightarrow> (string \<Rightarrow> aware_datetime option) \<Rightarrow> webhook_settings \<Rightarrow>
     int \<Rightarrow> datetime \<Rightarrow> datetime \<Rightarrow> webhook_request \<Rightarrow> (limiter \<times> work_db, obj) op" where
  "receive_github_webhook hmac json_loads from_iso settings tick now clk rq = (\<lambda>(l, db).
     (let stripped_id = py_strip (nonempty_or (wq_delivery rq) []);
          delivery_id = (if stripped_id = [] then None else Some stripped_id);
          event_type = py_lower (py_strip (nonempty_or (wq_event rq) [])) in
      case webhook_rate_limit (wt_rate_limit_enabled settings) (wq_client_fingerprint rq) tick l of
        (l', Inl e) \<Rightarrow> ((l', db), Inl e)
      | (l', Inr _) \<Rightarrow>
          (case bind_result (admit_delivery hmac json_loads settings rq) (\<lambda>payload.
                  bind_result (webhook_action payload) (\<lambda>action. Inr (payload, action))) of
             Inl e \<Rightarrow> ((l', db), Inl e)
           | Inr (payload, action) \<Rightarrow>
               if event_type \<noteq> ''workflow_run'' \<or> action \<noteq> ''completed'' then ((l', db), Inr accepted_status)
               else (case process_workflow_run_completed_event from_iso now clk delivery_id payload db of
                       (db', Inl e) \<Rightarrow> ((l', db'), Inl e)
                     | (db', Inr _) \<Rightarrow> ((l', db'), Inr accepted_status)))))"

section \<open>The artifact parse job\<close>

record artifact_parse_payload =
  ap_submission_id :: "int option"
  ap_workflow_run_id :: "int option"
  ap_workflow_run_attempt :: "int option"
  ap_repo_full_name :: "string option"
  ap_payload_candidate_session_id :: "int option"
  ap_payload_task_id :: "int option"
  ap_workflow_completed_at :: "datetime option"

definition normalized_text :: "json \<Rightarrow> string option" where
  "normalized_text value = (case value of JStr s \<Rightarrow> if py_strip s = [] then None else Some (py_strip s) | _ \<Rightarrow> None)"

definition build_payload :: "(string \<Rightarrow> datetime option) \<Rightarrow> obj \<Rightarrow> artifact_parse_payload res" where
  "build_payload from_iso payload =
     bind_result (parse_positive_int (dict_get ''submissionId'' payload)) (\<lambda>submission_id.
     bind_result (parse_positive_int (dict_get ''workflowRunId'' payload)) (\<lambda>run_id.
     bind_result (parse_positive_int (dict_get ''workflowRunAttempt'' payload)) (\<lambda>run_attempt.
     bind_result (parse_positive_int (dict_get ''candidateSessionId'' payload)) (\<lambda>c.
     bind_result (parse_positive_int (dict_get ''taskId'' payload)) (\<lambda>task_id.
       Inr \<lparr>ap_submission_id = submission_id, ap_workflow_run_id = run_id, ap_workflow_run_attempt = run_attempt,
            ap_repo_full_name = normalized_text (dict_get ''repoFullName'' payload), ap_payload_candidate_session_id = c,
            ap_payload_task_id = task_id,
            ap_workflow_completed_at = parse_iso_datetime from_iso (dict_get ''workflowCompletedAt'' payload)\<rparr>)))))"

text \<open>What the handler compares before it asks GitHub: the status and the fields of the refusal.\<close>

definition parse_refusal :: "artifact_parse_payload \<Rightarrow> int \<Rightarrow> submission \<Rightarrow> obj option" where
  "parse_refusal p run_id s =
     (let stored = py_strip (nonempty_or (sb_workflow_run_id s) []) in
      if ap_payload_candidate_session_id p \<noteq> None \<and> ap_payload_candidate_session_id p \<noteq> Some (sb_candidate_session_id s)
      then Some [(''status'', JStr ''skipped_candidate_session_mismatch''), (''submissionId'', JInt (sb_id s)),
                 (''candidateSessionId'', JInt (sb_candidate_session_id s)),
                 (''payloadCandidateSessionId'', opt_int (ap_payload_candidate_session_id p)), (''workflowRunId'', JInt run_id)]
      else if ap_payload_task_id p \<noteq> None \<and> ap_payload_task_id p \<noteq> Some (sb_task_id s)
      then Some [(''status'', JStr ''skipped_task_mismatch''), (''submissionId'', JInt (sb_id s)), (''taskId'', JInt (sb_task_id s)),
                 (''payloadTaskId'', opt_int (ap_payload_task_id p)), (''workflowRunId'', JInt run_id)]
      else if stored \<noteq> [] \<and> stored \<noteq> int_str run_id
      then Some [(''status'', JStr ''skipped_workflow_run_mismatch''), (''submissionId'', JInt (sb_id s)),
                 (''workflowRunId'', JInt run_id), (''storedWorkflowRunId'', JStr stored)]
      else None)"

definition normalized_conclusion :: "actions_run_result \<Rightarrow> string option" where
  "normalized_conclusion r = map_option py_lower (normalized_text (opt_json JStr (ar_conclusion r)))"

definition with_run_result :: "datetime \<Rightarrow> artifact_parse_payload \<Rightarrow> actions_run_result \<Rightarrow> submission \<Rightarrow> submission" where
  "with_run_result now p r s =
     s\<lparr>sb_tests_passed := ar_passed r, sb_tests_failed := ar_failed r,
       sb_test_output := Some (json_dumps_plain (JObj (as_test_output r))),
       sb_workflow_run_id := Some (int_str (ar_run_id r)), sb_workflow_run_status := Some ''completed'',
       sb_workflow_run_conclusion := normalized_conclusion r,
       sb_workflow_run_attempt := (case ap_workflow_run_attempt p of None \<Rightarrow> sb_workflow_run_attempt s | Some a \<Rightarrow> Some a),
       sb_workflow_run_completed_at := (case ap_workflow_completed_at p of None \<Rightarrow> sb_workflow_run_completed_at s | Some t \<Rightarrow> Some t),
       sb_last_run_at := (case ap_workflow_completed_at p of
            Some t \<Rightarrow> Some t
          | None \<Rightarrow> (case sb_last_run_at s of None \<Rightarrow> Some (drop_microseconds now) | Some t \<Rightarrow> Some t)),
       sb_commit_sha := (if nonempty_sha (ar_head_sha r) then ar_head_sha r else sb_commit_sha s)\<rparr>"

definition workspace_with_run_result :: "actions_run_result \<Rightarrow> workspace \<Rightarrow> workspace" where
  "workspace_with_run_result r w =
     w\<lparr>ws_last_workflow_run_id := Some (int_str (ar_run_id r)), ws_last_workflow_conclusion := normalized_conclusion r,
       ws_latest_commit_sha := ar_head_sha r,
       ws_last_test_summary_json := Some (json_dumps_plain (JObj (as_test_output r)))\<rparr>"

definition persist_artifact_parse_result ::
    "(string \<Rightarrow> int \<Rightarrow> actions_run_result res) \<Rightarrow> datetime \<Rightarrow> artifact_parse_payload \<Rightarrow> int \<Rightarrow> int \<Rightarrow> string \<Rightarrow> (work_db, obj) op" where
  "persist_artifact_parse_result fetch_run_result now p submission_id run_id repo db =
     (case find_row (\<lambda>s. sb_id s = submission_id) (wk_submissions db) of
        None \<Rightarrow> (db, Inr [(''status'', JStr ''submission_not_found''), (''submissionId'', JInt submission_id),
                          (''workflowRunId'', JInt run_id), (''repoFullName'', JStr repo)])
      | Some s \<Rightarrow>
          (case parse_refusal p run_id s of
             Some response \<Rightarrow> (db, Inr response)
           | None \<Rightarrow>
               (let ws = workspace_for_submission s db in
                case fetch_run_result repo run_id of
                  Inl e \<Rightarrow> (db, Inl e)
                | Inr r \<Rightarrow>
                    (write_workspace (map_option (workspace_with_run_result r) ws) (write_submission (with_run_result now p r s) db),
                     Inr [(''status'', JStr ''parsed_and_persisted''), (''submissionId'', JInt (sb_id s)),
                          (''candidateSessionId'', JInt (sb_candidate_session_id s)), (''taskId'', JInt (sb_task_id s)),
                          (''workflowRunId'', JInt (ar_run_id r)), (''workspaceId'', opt_json (\<lambda>w. JStr (ws_id w)) ws)]))))"

definition handle_github_workflow_artifact_parse ::
    "(string \<Rightarrow> datetime option) \<Rightarrow> (string \<Rightarrow> int \<Rightarrow> actions_run_result res) \<Rightarrow> datetime \<Rightarrow> obj \<Rightarrow> (work_db, obj) op" where
  "handle_github_workflow_artifact_parse from_iso fetch_run_result now payload_json db =
     (case build_payload from_iso payload_json of
        Inl e \<Rightarrow> (db, Inl e)
      | Inr p \<Rightarrow>
          (case (ap_submission_id p, ap_workflow_run_id p, ap_repo_full_name p) of
             (Some submission_id, Some run_id, Some repo) \<Rightarrow>
               persist_artifact_parse_result fetch_run_result now p submission_id run_id repo db
           | _ \<Rightarrow> (db, Inr [(''status'', JStr ''skipped_invalid_payload''), (''submissionId'', opt_int (ap_submission_id p)),
                            (''workflowRunId'', opt_int (ap_workflow_run_id p)),
                            (''repoFullName'', opt_json JStr (ap_repo_full_name p))])))"

end
