(* ===== verification/Recordings.thy ===== *)
theory Recordings
  imports DayClose
begin

text \<open>
  The media tables: recordings, transcripts, purge audits and the consent columns of the
  sessions, with the queries and row operations of \<open>app/media/repositories\<close>; the ids and
  storage keys of recordings and the validation of an upload. The object store is a map of
  keys to objects; its client is an argument of the services.
\<close>

section \<open>Rows\<close>

definition RECORDING_ASSET_STATUS_UPLOADING :: string where "RECORDING_ASSET_STATUS_UPLOADING = ''uploading''"
definition RECORDING_ASSET_STATUS_UPLOADED :: string where "RECORDING_ASSET_STATUS_UPLOADED = ''uploaded''"
definition RECORDING_ASSET_STATUS_PROCESSING :: string where "RECORDING_ASSET_STATUS_PROCESSING = ''processing''"
definition RECORDING_ASSET_STATUS_READY :: string where "RECORDING_ASSET_STATUS_READY = ''ready''"
definition RECORDING_ASSET_STATUS_FAILED :: string where "RECORDING_ASSET_STATUS_FAILED = ''failed''"
definition RECORDING_ASSET_STATUS_DELETED :: string where "RECORDING_ASSET_STATUS_DELETED = ''deleted''"
definition RECORDING_ASSET_STATUS_PURGED :: string where "RECORDING_ASSET_STATUS_PURGED = ''purged''"

definition RECORDING_ASSET_STATUSES :: "string list" where
  "RECORDING_ASSET_STATUSES = [RECORDING_ASSET_STATUS_UPLOADING, RECORDING_ASSET_STATUS_UPLOADED, RECORDING_ASSET_STATUS_PROCESSING,
     RECORDING_ASSET_STATUS_READY, RECORDING_ASSET_STATUS_FAILED, RECORDING_ASSET_STATUS_DELETED, RECORDING_ASSET_STATUS_PURGED]"

lemmas recording_status_defs = RECORDING_ASSET_STATUS_UPLOADING_def RECORDING_ASSET_STATUS_UPLOADED_def
  RECORDING_ASSET_STATUS_PROCESSING_def RECORDING_ASSET_STATUS_READY_def RECORDING_ASSET_STATUS_FAILED_def
  RECORDING_ASSET_STATUS_DELETED_def RECORDING_ASSET_STATUS_PURGED_def

definition TRANSCRIPT_STATUSES :: "string list" where
  "TRANSCRIPT_STATUSES = [''pending'', ''processing'', ''ready'', ''failed'']"

record recording_asset =
  ra_id :: int
  ra_candidate_session_id :: int
  ra_task_id :: int
  ra_storage_key :: string
  ra_content_type :: string
  ra_bytes :: int
  ra_asset_kind :: string
  ra_duration_seconds :: "int option"
  ra_status :: string
  ra_deleted_at :: "datetime option"
  ra_purged_at :: "datetime option"
  ra_retention_expires_at :: "datetime option"
  ra_purge_reason :: "string option"
  ra_purge_status :: "string option"
  ra_consent_version :: "string option"
  ra_consent_timestamp :: "datetime option"
  ra_ai_notice_version :: "string option"
  ra_created_at :: datetime

record transcript =
  tr_id :: int
  tr_recording_id :: int
  tr_text :: "string option"
  tr_segments_json :: "obj list option"
  tr_model_name :: "string option"
  tr_last_error :: "string option"
  tr_status :: string
  tr_deleted_at :: "datetime option"
  tr_created_at :: datetime

record media_purge_audit =
  mp_media_id :: int
  mp_candidate_session_id :: int
  mp_trial_id :: "int option"
  mp_candidate_user_id :: "int option"
  mp_actor_type :: string
  mp_actor_id :: "string option"
  mp_purge_reason :: string
  mp_outcome :: string
  mp_error_summary :: "string option"

text \<open>The columns of a candidate session that only the media services use.\<close>

record media_session =
  mc_session_id :: int
  mc_candidate_user_id :: "int option"
  mc_consent_version :: "string option"
  mc_consent_timestamp :: "datetime option"
  mc_ai_notice_version :: "string option"

record storage_object =
  so_content_type :: string
  so_size_bytes :: int
  so_duration_seconds :: "int option"

type_synonym objects = "string \<Rightarrow> storage_object option"

record media_db =
  md_work :: work_db
  md_sessions :: "media_session list"
  md_recordings :: "recording_asset list"
  md_next_recording_id :: int
  md_transcripts :: "transcript list"
  md_next_transcript_id :: int
  md_purge_audits :: "media_purge_audit list"
  md_objects :: objects

section \<open>Predicates\<close>

definition DOWNLOADABLE_RECORDING_STATUSES :: "string list" where
  "DOWNLOADABLE_RECORDING_STATUSES = [RECORDING_ASSET_STATUS_UPLOADED, RECORDING_ASSET_STATUS_PROCESSING, RECORDING_ASSET_STATUS_READY]"

definition is_deleted_or_purged :: "recording_asset \<Rightarrow> bool" where
  "is_deleted_or_purged r \<longleftrightarrow> ra_deleted_at r \<noteq> None \<or> ra_purged_at r \<noteq> None \<or>
     ra_status r \<in> {RECORDING_ASSET_STATUS_DELETED, RECORDING_ASSET_STATUS_PURGED}"

definition is_downloadable :: "recording_asset option \<Rightarrow> bool" where
  "is_downloadable r = (case r of None \<Rightarrow> False
     | Some r \<Rightarrow> \<not> is_deleted_or_purged r \<and> ra_status r \<in> set DOWNLOADABLE_RECORDING_STATUSES)"

definition is_playback_safe :: "recording_asset option \<Rightarrow> bool" where
  "is_playback_safe r = (case r of None \<Rightarrow> False | Some a \<Rightarrow> ra_asset_kind a = ''recording'' \<and> is_downloadable r)"

definition transcript_evaluation_state :: "transcript option \<Rightarrow> string" where
  "transcript_evaluation_state tr =
     (case tr of
        None \<Rightarrow> ''missing''
      | Some t \<Rightarrow>
          if tr_deleted_at t \<noteq> None then ''missing''
          else if tr_status t \<noteq> ''ready'' then (if tr_status t = ''failed'' then ''failed'' else ''not_ready'')
          else (case tr_text t of None \<Rightarrow> ''empty'' | Some s \<Rightarrow> if py_strip s = [] then ''empty'' else ''ready''))"

definition transcript_is_ready_for_evaluation :: "transcript option \<Rightarrow> bool" where
  "transcript_is_ready_for_evaluation tr \<longleftrightarrow> transcript_evaluation_state tr = ''ready''"

section \<open>Ids and storage keys\<close>

definition recording_public_id :: "int \<Rightarrow> string" where
  "recording_public_id i = ''rec_'' @ int_str i"

text \<open>
  The text is stripped, so a final line feed cannot slip through \<open>fullmatch\<close>; the digit class of the
  pattern holds on Latin-1 the ASCII digits, \<open>isdigit\<close> also the superscripts, at which \<open>int\<close> raises.
\<close>

definition parse_recording_public_id :: "string \<Rightarrow> int res" where
  "parse_recording_public_id value =
     (let candidate = py_strip value;
          matched = (if starts_with ''rec_'' candidate \<and> drop 4 candidate \<noteq> [] \<and> list_all is_digit (drop 4 candidate)
                     then bind_result (py_int (drop 4 candidate)) (\<lambda>parsed.
                          if parsed \<le> 0 then Inl (ValueError ''recordingId must be positive'') else Inr parsed)
                     else Inl (ValueError ''recordingId must be a positive integer or rec_<id>''))
      in if py_isdigit candidate
         then bind_result (py_int candidate) (\<lambda>parsed. if parsed > 0 then Inr parsed else matched)
         else matched)"

definition extension_char :: "char \<Rightarrow> bool" where
  "extension_char c \<longleftrightarrow> is_digit c \<or> (let n = code_point c in 97 \<le> n \<and> n \<le> 122)"

definition drop_dots :: "string \<Rightarrow> string" where
  "drop_dots s = dropWhile (\<lambda>c. c = CHR ''.'') s"

definition normalize_extension :: "string \<Rightarrow> string res" where
  "normalize_extension extension =
     (let normalized = drop_dots (py_lower (py_strip extension)) in
      if normalized = [] then Inl (ValueError ''File extension is required'')
      else if \<not> list_all extension_char normalized then Inl (ValueError ''Invalid file extension'')
      else Inr normalized)"

text \<open>\<open>str.split\<close> at every occurrence of one character.\<close>

fun split_char :: "char \<Rightarrow> string \<Rightarrow> string list" where
  "split_char d [] = [[]]"
| "split_char d (c # cs) =
     (if c = d then [] # split_char d cs
      else (case split_char d cs of [] \<Rightarrow> [[c]] | part # parts \<Rightarrow> (c # part) # parts))"

definition safe_key_char :: "char \<Rightarrow> bool" where
  "safe_key_char c \<longleftrightarrow> extension_char c \<or> c \<in> set ''/_.-''"

definition storage_error :: "string \<Rightarrow> error" where
  "storage_error m = ExternalError ''StorageMediaError'' m"

definition ensure_safe_storage_key :: "string \<Rightarrow> string res" where
  "ensure_safe_storage_key key =
     (let normalized = py_strip key in
      if normalized = [] then Inl (storage_error ''Storage key is required'')
      else if hd normalized = CHR ''/'' \<or> hd normalized = CHR 0x5C then Inl (storage_error ''Storage key must be relative'')
      else if CHR 0x5C \<in> set normalized then Inl (storage_error ''Storage key must not contain backslashes'')
      else if \<exists>part \<in> set (split_char (CHR ''/'') normalized). part = [] \<or> part = ''.'' \<or> part = ''..''
      then Inl (storage_error ''Storage key path segments are invalid'')
      else if \<not> list_all safe_key_char normalized then Inl (storage_error ''Storage key contains unsupported characters'')
      else Inr normalized)"

text \<open>The opaque part is \<open>uuid4().hex\<close>, drawn by the caller here.\<close>

definition build_recording_storage_key :: "int \<Rightarrow> int \<Rightarrow> string \<Rightarrow> string \<Rightarrow> string res" where
  "build_recording_storage_key c task_id extension opaque =
     bind_result (require (0 < c \<and> 0 < task_id) (ValueError ''candidate_session_id and task_id must be positive'')) (\<lambda>_.
     bind_result (normalize_extension extension) (\<lambda>ext.
     ensure_safe_storage_key (''candidate-trials/'' @ int_str c @ ''/tasks/'' @ int_str task_id @ ''/recordings/'' @ opaque @ ''.'' @ ext)))"

section \<open>Validation of an upload\<close>

text \<open>The settings of \<open>settings.storage_media\<close> that the services read.\<close>

record media_settings =
  ms_allowed_content_types :: "string list"
  ms_allowed_extensions :: "string list"
  ms_max_upload_bytes :: int
  ms_retention_days :: int
  ms_delete_enabled :: bool
  ms_signed_url_expires_seconds :: int
  ms_signed_url_min_seconds :: int
  ms_signed_url_max_seconds :: int

definition clamp_expires_seconds :: "int \<Rightarrow> int \<Rightarrow> int \<Rightarrow> int" where
  "clamp_expires_seconds requested min_seconds max_seconds =
     (if requested < min_seconds then min_seconds else if requested > max_seconds then max_seconds else requested)"

definition resolve_signed_url_ttl :: "media_settings \<Rightarrow> int option \<Rightarrow> int" where
  "resolve_signed_url_ttl cfg expires_seconds =
     clamp_expires_seconds (case expires_seconds of None \<Rightarrow> ms_signed_url_expires_seconds cfg | Some s \<Rightarrow> s)
       (ms_signed_url_min_seconds cfg) (ms_signed_url_max_seconds cfg)"

definition unprocessable :: "string \<Rightarrow> error" where
  "unprocessable detail = HTTPError 422 detail"

definition normalize_content_type :: "string \<Rightarrow> string" where
  "normalize_content_type value = py_lower (py_strip (before '';'' value))"

text \<open>
  \<open>Path(filename).suffix\<close> (POSIX, Python 3.11 to 3.13): the last path component that is neither
  empty nor a dot, from its last dot on, unless that is its first or its last character.
\<close>

definition path_name :: "string \<Rightarrow> string" where
  "path_name filename =
     (case filter (\<lambda>p. p \<noteq> [] \<and> p \<noteq> ''.'') (split_char (CHR ''/'') filename) of [] \<Rightarrow> [] | parts \<Rightarrow> last parts)"

definition path_suffix :: "string \<Rightarrow> string" where
  "path_suffix filename =
     (let name = path_name filename; suffix = rev (takeWhile (\<lambda>c. c \<noteq> CHR ''.'') (rev name))
      in if length suffix + 1 < length name \<and> suffix \<noteq> [] then CHR ''.'' # suffix else [])"

record upload_input =
  ui_content_type :: string
  ui_size_bytes :: int
  ui_extension :: string
  ui_duration_seconds :: "int option"

definition DEFAULT_EXTENSION_BY_CONTENT_TYPE :: "(string \<times> string) list" where
  "DEFAULT_EXTENSION_BY_CONTENT_TYPE = [(''video/mp4'', ''mp4'')]"

definition resolve_extension :: "string \<Rightarrow> string option \<Rightarrow> string list \<Rightarrow> string \<Rightarrow> string res" where
  "resolve_extension content_type filename allowed_extensions asset_kind =
     (if filename \<noteq> None \<and> filename \<noteq> Some []
      then let extension = drop_dots (py_lower (path_suffix (the filename))) in
           bind_result (require (extension \<noteq> []) (unprocessable ''filename must include an extension'')) (\<lambda>_.
           bind_result (normalize_extension extension) (\<lambda>normalized.
           if asset_kind = ''recording'' \<and> normalized \<notin> set allowed_extensions
           then Inl (unprocessable ''Unsupported file extension'') else Inr normalized))
      else case map_of DEFAULT_EXTENSION_BY_CONTENT_TYPE content_type of
             None \<Rightarrow> Inl (unprocessable (if asset_kind = ''supplemental'' then ''filename must include an extension''
                                       else ''Unable to infer extension from contentType''))
           | Some mapped \<Rightarrow>
               bind_result (normalize_extension mapped) (\<lambda>normalized.
               if normalized \<notin> set allowed_extensions then Inl (unprocessable ''Unsupported file extension'') else Inr normalized))"

definition request_too_large :: "string \<Rightarrow> int \<Rightarrow> int \<Rightarrow> error" where
  "request_too_large detail max_bytes actual =
     ApiError 413 detail ''REQUEST_TOO_LARGE'' (Some False)
       [(''field'', JStr ''sizeBytes''), (''maxBytes'', JInt max_bytes), (''actualBytes'', JInt actual)]"

definition validate_upload_input ::
    "media_settings \<Rightarrow> string \<Rightarrow> int \<Rightarrow> string option \<Rightarrow> string \<Rightarrow> int option \<Rightarrow> upload_input res" where
  "validate_upload_input cfg content_type size_bytes filename asset_kind duration_seconds =
     (let kind = (if py_lower (py_strip asset_kind) = [] then ''recording'' else py_lower (py_strip asset_kind));
          allowed_types = map (\<lambda>i. py_lower (py_strip i)) (filter (\<lambda>i. py_strip i \<noteq> []) (ms_allowed_content_types cfg));
          allowed_extensions = map (\<lambda>i. drop_dots (py_lower (py_strip i))) (filter (\<lambda>i. py_strip i \<noteq> []) (ms_allowed_extensions cfg));
          normalized_type = normalize_content_type content_type;
          max_bytes = ms_max_upload_bytes cfg
      in bind_result (require (normalized_type \<noteq> []) (unprocessable ''Unsupported contentType'')) (\<lambda>_.
         bind_result (require (\<not> (kind = ''recording'' \<and> normalized_type \<notin> set allowed_types)) (unprocessable ''Unsupported contentType'')) (\<lambda>_.
         bind_result (require (0 < size_bytes) (unprocessable ''sizeBytes must be greater than 0'')) (\<lambda>_.
         bind_result (require (size_bytes \<le> max_bytes)
           (request_too_large (''sizeBytes exceeds max '' @ int_str max_bytes) max_bytes size_bytes)) (\<lambda>_.
         bind_result (resolve_extension normalized_type filename allowed_extensions kind) (\<lambda>extension.
         bind_result (require (\<not> (kind = ''recording'' \<and> (\<exists>d \<in> set_option duration_seconds. d \<le> 0)))
           (unprocessable ''durationSeconds must be greater than 0'')) (\<lambda>_.
         Inr \<lparr>ui_content_type = normalized_type, ui_size_bytes = size_bytes, ui_extension = extension,
              ui_duration_seconds = duration_seconds\<rparr>)))))))"

section \<open>Queries\<close>

definition get_recording :: "int \<Rightarrow> media_db \<Rightarrow> recording_asset option" where
  "get_recording i db = find_row (\<lambda>r. ra_id r = i) (md_recordings db)"

definition get_transcript :: "int \<Rightarrow> media_db \<Rightarrow> transcript option" where
  "get_transcript i db = find_row (\<lambda>t. tr_recording_id t = i) (md_transcripts db)"

definition get_transcript_by_recording_id :: "int \<Rightarrow> media_db \<Rightarrow> transcript option" where
  "get_transcript_by_recording_id i db = find_row (\<lambda>t. tr_recording_id t = i \<and> tr_deleted_at t = None) (md_transcripts db)"

definition media_session_of :: "int \<Rightarrow> media_db \<Rightarrow> media_session" where
  "media_session_of c db =
     (case find_row (\<lambda>m. mc_session_id m = c) (md_sessions db) of
        None \<Rightarrow> \<lparr>mc_session_id = c, mc_candidate_user_id = None, mc_consent_version = None, mc_consent_timestamp = None, mc_ai_notice_version = None\<rparr>
      | Some m \<Rightarrow> m)"

definition oldest_first :: "recording_asset list \<Rightarrow> recording_asset list" where
  "oldest_first rs = sort_key ra_created_at (sort_key ra_id rs)"

definition first_recording :: "recording_asset list \<Rightarrow> recording_asset option" where
  "first_recording rs = (case rs of [] \<Rightarrow> None | r # _ \<Rightarrow> Some r)"

definition get_latest_for_task_session :: "int \<Rightarrow> int \<Rightarrow> string option \<Rightarrow> media_db \<Rightarrow> recording_asset option" where
  "get_latest_for_task_session c task_id asset_kind db =
     first_recording (rev (oldest_first (filter (\<lambda>r. ra_candidate_session_id r = c \<and> ra_task_id r = task_id \<and>
       (\<forall>k \<in> set_option asset_kind. ra_asset_kind r = k)) (md_recordings db))))"

definition get_latest_playback_safe_for_task_session :: "int \<Rightarrow> int \<Rightarrow> media_db \<Rightarrow> recording_asset option" where
  "get_latest_playback_safe_for_task_session c task_id db =
     first_recording (rev (oldest_first (filter (\<lambda>r. ra_candidate_session_id r = c \<and> ra_task_id r = task_id \<and> ra_asset_kind r = ''recording'' \<and>
       ra_status r \<in> set DOWNLOADABLE_RECORDING_STATUSES \<and> ra_deleted_at r = None \<and> ra_purged_at r = None) (md_recordings db))))"

definition list_for_task_session :: "int \<Rightarrow> int \<Rightarrow> string option \<Rightarrow> media_db \<Rightarrow> recording_asset list" where
  "list_for_task_session c task_id asset_kind db =
     oldest_first (filter (\<lambda>r. ra_candidate_session_id r = c \<and> ra_task_id r = task_id \<and>
       (\<forall>k \<in> set_option asset_kind. ra_asset_kind r = k)) (md_recordings db))"

definition days :: "int \<Rightarrow> datetime" where
  "days n = seconds (86400 * n)"

text \<open>Whether the retention of a recording is over, for sessions that completed early enough.\<close>

definition retention_expired :: "int \<Rightarrow> datetime \<Rightarrow> media_db \<Rightarrow> recording_asset \<Rightarrow> bool" where
  "retention_expired retention_days now db r \<longleftrightarrow>
     (let cutoff = now - days (max 1 retention_days) in
      (case get_session (ra_candidate_session_id r) (wk_app (md_work db)) of
         None \<Rightarrow> False
       | Some cs \<Rightarrow> (case cs_completed_at cs of None \<Rightarrow> False | Some t \<Rightarrow> t \<le> cutoff)) \<and>
      ra_purged_at r = None \<and>
      ra_status r \<in> {RECORDING_ASSET_STATUS_UPLOADED, RECORDING_ASSET_STATUS_READY, RECORDING_ASSET_STATUS_FAILED,
        RECORDING_ASSET_STATUS_DELETED} \<and>
      (case ra_retention_expires_at r of Some t \<Rightarrow> t \<le> now | None \<Rightarrow> ra_created_at r \<le> cutoff))"

definition get_expired_for_retention :: "int \<Rightarrow> datetime \<Rightarrow> int \<Rightarrow> media_db \<Rightarrow> recording_asset list" where
  "get_expired_for_retention retention_days now limit db =
     take (nat (max 1 limit)) (oldest_first (filter (retention_expired retention_days now db) (md_recordings db)))"

definition list_for_candidate_session :: "int \<Rightarrow> bool \<Rightarrow> int \<Rightarrow> media_db \<Rightarrow> recording_asset list" where
  "list_for_candidate_session c include_purged limit db =
     take (nat (max 1 limit)) (oldest_first (filter (\<lambda>r. ra_candidate_session_id r = c \<and> (include_purged \<or> ra_purged_at r = None))
       (md_recordings db)))"

section \<open>Row operations\<close>

definition update_recording :: "int \<Rightarrow> (recording_asset \<Rightarrow> recording_asset) \<Rightarrow> media_db \<Rightarrow> media_db" where
  "update_recording i f db = db\<lparr>md_recordings := update_rows (\<lambda>r. ra_id r = i) f (md_recordings db)\<rparr>"

definition update_transcript :: "int \<Rightarrow> (transcript \<Rightarrow> transcript) \<Rightarrow> media_db \<Rightarrow> media_db" where
  "update_transcript i f db = db\<lparr>md_transcripts := update_rows (\<lambda>t. tr_recording_id t = i) f (md_transcripts db)\<rparr>"

definition create_recording_asset :: "recording_asset \<Rightarrow> media_db \<Rightarrow> (recording_asset \<times> media_db) res" where
  "create_recording_asset row db =
     (if \<exists>r \<in> set (md_recordings db). ra_storage_key r = ra_storage_key row then Inl IntegrityError
      else (let r = row\<lparr>ra_id := md_next_recording_id db\<rparr>
            in Inr (r, db\<lparr>md_recordings := md_recordings db @ [r], md_next_recording_id := md_next_recording_id db + 1\<rparr>)))"

definition mark_recording_deleted :: "datetime \<Rightarrow> recording_asset \<Rightarrow> recording_asset" where
  "mark_recording_deleted now r =
     r\<lparr>ra_deleted_at := Some (case ra_deleted_at r of None \<Rightarrow> now | Some t \<Rightarrow> t),
       ra_status := (if ra_status r \<noteq> RECORDING_ASSET_STATUS_PURGED then RECORDING_ASSET_STATUS_DELETED else ra_status r)\<rparr>"

definition mark_recording_purged :: "string \<Rightarrow> datetime \<Rightarrow> recording_asset \<Rightarrow> recording_asset" where
  "mark_recording_purged purge_reason now r =
     r\<lparr>ra_deleted_at := Some (case ra_deleted_at r of None \<Rightarrow> now | Some t \<Rightarrow> t),
       ra_purged_at := Some (case ra_purged_at r of None \<Rightarrow> now | Some t \<Rightarrow> t),
       ra_status := RECORDING_ASSET_STATUS_PURGED, ra_purge_reason := Some purge_reason, ra_purge_status := Some ''purged''\<rparr>"

definition create_transcript :: "int \<Rightarrow> string \<Rightarrow> datetime \<Rightarrow> media_db \<Rightarrow> media_db" where
  "create_transcript i status now db =
     db\<lparr>md_transcripts := md_transcripts db @ [\<lparr>tr_id = md_next_transcript_id db, tr_recording_id = i, tr_text = None,
          tr_segments_json = None, tr_model_name = None, tr_last_error = None, tr_status = status, tr_deleted_at = None, tr_created_at = now\<rparr>],
        md_next_transcript_id := md_next_transcript_id db + 1\<rparr>"

text \<open>The unique key on the recording makes the insert fail when there is a row, deleted or not.\<close>

definition get_or_create_transcript :: "int \<Rightarrow> string \<Rightarrow> datetime \<Rightarrow> media_db \<Rightarrow> media_db" where
  "get_or_create_transcript i status now db =
     (if get_transcript i db \<noteq> None then db else create_transcript i status now db)"

definition mark_transcript_deleted :: "datetime \<Rightarrow> transcript \<Rightarrow> transcript" where
  "mark_transcript_deleted now t =
     t\<lparr>tr_deleted_at := Some (case tr_deleted_at t of None \<Rightarrow> now | Some d \<Rightarrow> d), tr_text := None, tr_segments_json := None\<rparr>"

definition redact_transcript :: "datetime \<Rightarrow> transcript \<Rightarrow> transcript" where
  "redact_transcript now t =
     t\<lparr>tr_text := None, tr_segments_json := None, tr_last_error := None,
       tr_deleted_at := Some (case tr_deleted_at t of None \<Rightarrow> now | Some d \<Rightarrow> d)\<rparr>"

definition redact_by_recording_id :: "int \<Rightarrow> datetime \<Rightarrow> media_db \<Rightarrow> media_db" where
  "redact_by_recording_id i now db = update_transcript i (redact_transcript now) db"

definition create_purge_audit :: "media_purge_audit \<Rightarrow> media_db \<Rightarrow> media_db" where
  "create_purge_audit a db = db\<lparr>md_purge_audits := md_purge_audits db @ [a]\<rparr>"

text \<open>Creates the row of a handoff or moves its recording and its time; the key is unique.\<close>

definition upsert_handoff_submission :: "int \<Rightarrow> int \<Rightarrow> int \<Rightarrow> datetime \<Rightarrow> work_db \<Rightarrow> int \<times> work_db" where
  "upsert_handoff_submission c task_id recording_id submitted_at db =
     (case get_submission c task_id db of
        Some s \<Rightarrow> (sb_id s, db\<lparr>wk_submissions := update_rows (\<lambda>x. submission_key x = (c, task_id))
          (\<lambda>x. x\<lparr>sb_recording_id := Some recording_id, sb_submitted_at := submitted_at\<rparr>) (wk_submissions db)\<rparr>)
      | None \<Rightarrow>
          (let row = \<lparr>sb_id = wk_next_submission_id db, sb_candidate_session_id = c, sb_task_id = task_id,
             sb_recording_id = Some recording_id, sb_submitted_at = submitted_at, sb_content_text = JNull, sb_content_json = JNull,
             sb_code_repo_path = None, sb_commit_sha = None, sb_checkpoint_sha = None, sb_final_sha = None,
             sb_workflow_run_id = None, sb_workflow_run_attempt = None, sb_workflow_run_status = None, sb_workflow_run_conclusion = None,
             sb_workflow_run_completed_at = None, sb_diff_summary_json = None, sb_tests_passed = None, sb_tests_failed = None,
             sb_test_output = None, sb_last_run_at = None\<rparr>
           in (sb_id row, db\<lparr>wk_submissions := wk_submissions db @ [row], wk_next_submission_id := wk_next_submission_id db + 1\<rparr>)))"

end
