(* ===== verification/CandidateWork.thy ===== *)
theory CandidateWork
  imports AdminSessions WorkflowEvents Recordings JobSystem
begin

text \<open>
  The tables of a candidate's work under every operation that writes them: submitting, saving
  a draft, the two close-of-day jobs, and whatever the rest of the system commits between.
  Submissions, audits and finalised drafts are final, and the two clocks of a day (the
  candidate's window, the close job) meet in one submission.
\<close>

section \<open>The invariant\<close>

definition work_wf :: "work_db \<Rightarrow> bool" where
  "work_wf db \<longleftrightarrow>
     distinct (map submission_key (wk_submissions db)) \<and> distinct (map sb_id (wk_submissions db)) \<and>
     (\<forall>s \<in> set (wk_submissions db). sb_id s < wk_next_submission_id db) \<and>
     distinct (map draft_key (wk_drafts db)) \<and> distinct (map audit_key (wk_audits db)) \<and>
     (\<forall>a \<in> set (wk_audits db). da_day_index a \<in> {2, 3}) \<and>
     (\<forall>d \<in> set (wk_drafts db). \<forall>i. td_finalized_submission_id d = Some i \<longrightarrow>
        (\<exists>s \<in> set (wk_submissions db). sb_id s = i \<and> submission_key s = draft_key d))"

text \<open>
  What later transactions keep of a submission, of a finalised draft and of a cut-off: its time
  is moved by the day-window control of a local or test environment only.
\<close>

definition same_work :: "submission \<Rightarrow> submission \<Rightarrow> bool" where
  "same_work s s' \<longleftrightarrow> sb_id s' = sb_id s \<and> submission_key s' = submission_key s \<and>
     sb_content_text s' = sb_content_text s \<and> sb_content_json s' = sb_content_json s"

definition same_draft :: "task_draft \<Rightarrow> task_draft \<Rightarrow> bool" where
  "same_draft d d' \<longleftrightarrow> draft_key d' = draft_key d \<and> td_finalized_submission_id d' = td_finalized_submission_id d \<and>
     td_content_text d' = td_content_text d \<and> td_content_json d' = td_content_json d"

definition same_audit :: "bool \<Rightarrow> day_audit \<Rightarrow> day_audit \<Rightarrow> bool" where
  "same_audit local_env a a' \<longleftrightarrow> audit_key a' = audit_key a \<and> da_cutoff_commit_sha a' = da_cutoff_commit_sha a \<and>
     da_eval_basis_ref a' = da_eval_basis_ref a \<and> (\<not> local_env \<longrightarrow> da_cutoff_at a' = da_cutoff_at a)"

definition work_grows :: "bool \<Rightarrow> work_db \<Rightarrow> work_db \<Rightarrow> bool" where
  "work_grows local_env db db' \<longleftrightarrow>
     (\<forall>s \<in> set (wk_submissions db). \<exists>s' \<in> set (wk_submissions db'). same_work s s') \<and>
     (\<forall>a \<in> set (wk_audits db). \<exists>a' \<in> set (wk_audits db'). same_audit local_env a a') \<and>
     (\<forall>d \<in> set (wk_drafts db). td_finalized_submission_id d \<noteq> None \<longrightarrow> (\<exists>d' \<in> set (wk_drafts db'). same_draft d d'))"

lemma same_work_refl [simp]: "same_work s s"
  by (simp add: same_work_def)

lemma same_draft_refl [simp]: "same_draft d d"
  by (simp add: same_draft_def)

lemma same_audit_refl [simp]: "same_audit local_env a a"
  by (simp add: same_audit_def)

lemma work_grows_refl [simp]: "work_grows local_env db db"
  by (auto simp: work_grows_def intro: same_work_refl same_draft_refl same_audit_refl)

lemma work_grows_trans:
  assumes ab: "work_grows local_env a b" and bc: "work_grows local_env b c"
  shows "work_grows local_env a c"
  unfolding work_grows_def
proof (intro conjI ballI impI)
  fix s assume "s \<in> set (wk_submissions a)"
  with ab obtain s1 where 1: "s1 \<in> set (wk_submissions b)" "same_work s s1" unfolding work_grows_def by blast
  with bc obtain s2 where "s2 \<in> set (wk_submissions c)" "same_work s1 s2" unfolding work_grows_def by blast
  with 1 show "\<exists>s' \<in> set (wk_submissions c). same_work s s'" by (intro bexI[of _ s2]) (auto simp: same_work_def)
next
  fix d assume "d \<in> set (wk_drafts a)" "td_finalized_submission_id d \<noteq> None"
  with ab obtain d1 where 1: "d1 \<in> set (wk_drafts b)" "same_draft d d1" unfolding work_grows_def by blast
  with \<open>td_finalized_submission_id d \<noteq> None\<close> have "td_finalized_submission_id d1 \<noteq> None" by (simp add: same_draft_def)
  with 1 bc obtain d2 where "d2 \<in> set (wk_drafts c)" "same_draft d1 d2" unfolding work_grows_def by blast
  with 1 show "\<exists>d' \<in> set (wk_drafts c). same_draft d d'" by (intro bexI[of _ d2]) (auto simp: same_draft_def)
next
  fix x assume "x \<in> set (wk_audits a)"
  with ab obtain y where 1: "y \<in> set (wk_audits b)" "same_audit local_env x y" unfolding work_grows_def by blast
  with bc obtain z where "z \<in> set (wk_audits c)" "same_audit local_env y z" unfolding work_grows_def by blast
  with 1 show "\<exists>x' \<in> set (wk_audits c). same_audit local_env x x'" by (intro bexI[of _ z]) (auto simp: same_audit_def)
qed

text \<open>A state that some operation reached from \<open>db0\<close>, and what other transactions may commit.\<close>

definition reached_from :: "bool \<Rightarrow> work_db \<Rightarrow> work_db \<Rightarrow> bool" where
  "reached_from local_env db0 db \<longleftrightarrow> work_wf db \<and> work_grows local_env db0 db"

definition work_commits :: "bool \<Rightarrow> (work_db \<Rightarrow> work_db) \<Rightarrow> bool" where
  "work_commits local_env other \<longleftrightarrow> (\<forall>db. work_wf db \<longrightarrow> work_wf (other db) \<and> work_grows local_env db (other db))"

lemma work_commits_id: "work_commits local_env (\<lambda>db. db)"
  by (simp add: work_commits_def)

lemma reached_self: "work_wf db \<Longrightarrow> reached_from local_env db db"
  by (simp add: reached_from_def)

lemma reached_commits: "reached_from local_env db0 db \<Longrightarrow> work_commits local_env other \<Longrightarrow> reached_from local_env db0 (other db)"
  unfolding reached_from_def work_commits_def using work_grows_trans by blast

lemma reached_same:
  assumes "reached_from local_env db0 db" "wk_submissions db' = wk_submissions db" "wk_next_submission_id db' = wk_next_submission_id db"
    "wk_drafts db' = wk_drafts db" "wk_audits db' = wk_audits db"
  shows "reached_from local_env db0 db'"
  using assms unfolding reached_from_def work_wf_def work_grows_def by simp

lemma get_submission_SomeD:
  "get_submission c k db = Some s \<Longrightarrow> s \<in> set (wk_submissions db) \<and> sb_candidate_session_id s = c \<and> sb_task_id s = k"
  by (auto simp: get_submission_def submission_key_def dest: find_row_SomeD)

lemma get_submission_in:
  assumes "work_wf db" "s \<in> set (wk_submissions db)" "submission_key s = (c, k)"
  shows "get_submission c k db = Some s"
  using find_row_unique[of submission_key "wk_submissions db" s] assms by (simp add: get_submission_def work_wf_def)

lemma get_submission_None: "get_submission c k db = None \<longleftrightarrow> (c, k) \<notin> submission_key ` set (wk_submissions db)"
  unfolding get_submission_def find_row_None_iff by force

lemma get_submission_grows:
  assumes "reached_from local_env db0 db" "work_wf db0" "get_submission c k db0 = Some s"
  obtains s' where "get_submission c k db = Some s'" "same_work s s'"
proof -
  from get_submission_SomeD[OF assms(3)] have s: "s \<in> set (wk_submissions db0)" "submission_key s = (c, k)"
    by (auto simp: submission_key_def)
  with assms(1) obtain s' where "s' \<in> set (wk_submissions db)" "same_work s s'" unfolding reached_from_def work_grows_def by blast
  with s get_submission_in[of db s' c k] assms(1) that show thesis by (auto simp: reached_from_def same_work_def)
qed

section \<open>The row operations\<close>

lemma insert_submission_cases:
  assumes "insert_submission sub db = (db', r)"
  obtains e where "r = Inl e" "db' = db" "get_submission (sb_candidate_session_id sub) (sb_task_id sub) db \<noteq> None"
  | "get_submission (sb_candidate_session_id sub) (sb_task_id sub) db = None"
    "r = Inr (sub\<lparr>sb_id := wk_next_submission_id db\<rparr>)"
    "db' = db\<lparr>wk_submissions := wk_submissions db @ [sub\<lparr>sb_id := wk_next_submission_id db\<rparr>],
              wk_next_submission_id := wk_next_submission_id db + 1\<rparr>"
  using assms by (cases "get_submission (sb_candidate_session_id sub) (sb_task_id sub) db")
    (auto simp: insert_submission_def Let_def)

lemma insert_submission_reached:
  assumes h: "reached_from local_env db0 db" and i: "insert_submission sub db = (db', r)"
  shows "reached_from local_env db0 db'"
  using i
proof (cases rule: insert_submission_cases)
  case 2
  let ?row = "sub\<lparr>sb_id := wk_next_submission_id db\<rparr>"
  have key: "submission_key ?row \<notin> submission_key ` set (wk_submissions db)"
    using 2(1) unfolding get_submission_None by (simp add: submission_key_def)
  have wf: "work_wf db" and g: "work_grows local_env db0 db" using h by (simp_all add: reached_from_def)
  have "sb_id ?row \<notin> sb_id ` set (wk_submissions db)" using wf by (auto simp: work_wf_def)
  with key wf have "work_wf db'" unfolding work_wf_def 2(3) by (auto simp: less_le_trans)
  moreover have "work_grows local_env db db'" unfolding work_grows_def 2(3) by (auto intro: same_work_refl same_draft_refl same_audit_refl)
  ultimately show ?thesis using work_grows_trans[OF g] by (simp add: reached_from_def)
qed (use h in simp)

lemma mark_finalized_reached:
  assumes h: "reached_from local_env db0 db" and s: "s \<in> set (wk_submissions db)" "submission_key s = draft_key d"
  shows "reached_from local_env db0 (mark_finalized d (sb_id s) at db)"
proof (cases "td_finalized_submission_id d")
  case None
  let ?mark = "\<lambda>x. x\<lparr>td_finalized_submission_id := Some (sb_id s), td_finalized_at := Some at\<rparr>"
  let ?db = "mark_finalized d (sb_id s) at db"
  have db: "?db = db\<lparr>wk_drafts := update_rows (\<lambda>x. draft_key x = draft_key d) ?mark (wk_drafts db)\<rparr>"
    using None by (simp add: mark_finalized_def)
  have wf: "work_wf db" and g: "work_grows local_env db0 db" using h by (simp_all add: reached_from_def)
  have keys: "map draft_key (wk_drafts ?db) = map draft_key (wk_drafts db)"
    unfolding db by (simp add: update_rows_def draft_key_def comp_def)
  have mem: "x \<in> set (wk_drafts ?db) \<longleftrightarrow>
      (\<exists>y \<in> set (wk_drafts db). x = (if draft_key y = draft_key d then ?mark y else y))" for x
    unfolding db by (auto simp: update_rows_def)
  have ptr: "\<exists>s \<in> set (wk_submissions ?db). sb_id s = i \<and> submission_key s = draft_key x"
    if "x \<in> set (wk_drafts ?db)" "td_finalized_submission_id x = Some i" for x i
  proof -
    from that(1) mem obtain y where y: "y \<in> set (wk_drafts db)" "x = (if draft_key y = draft_key d then ?mark y else y)" by blast
    show ?thesis
    proof (cases "draft_key y = draft_key d")
      case True
      with y(2) that(2) have "i = sb_id s" "draft_key x = draft_key d" by (auto simp: draft_key_def)
      with s show ?thesis by (intro bexI[of _ s]) (auto simp: db)
    next
      case False
      with y that(2) wf show ?thesis unfolding work_wf_def db by simp
    qed
  qed
  have "work_wf ?db"
    using wf keys ptr unfolding work_wf_def by (simp add: db)
  moreover have "work_grows local_env db ?db"
    unfolding work_grows_def
  proof (intro conjI ballI impI)
    fix x assume x: "x \<in> set (wk_drafts db)" "td_finalized_submission_id x \<noteq> None"
    let ?x = "if draft_key x = draft_key d then ?mark x else x"
    have "?x \<in> set (wk_drafts ?db)" using x(1) mem by blast
    moreover have "same_draft x ?x"
    proof (cases "draft_key x = draft_key d")
      case True
      from x obtain i where i: "td_finalized_submission_id x = Some i" by blast
      with x(1) wf obtain s0 where "s0 \<in> set (wk_submissions db)" "sb_id s0 = i" "submission_key s0 = draft_key x"
        unfolding work_wf_def by blast
      with s True wf have "sb_id s = i" by (auto simp: work_wf_def distinct_map inj_on_def)
      with True i show ?thesis by (simp add: same_draft_def draft_key_def)
    qed (simp add: same_draft_def)
    ultimately show "\<exists>x' \<in> set (wk_drafts ?db). same_draft x x'" by blast
  qed (auto simp: db intro: same_work_refl same_audit_refl)
  ultimately show ?thesis using work_grows_trans[OF g] by (simp add: reached_from_def)
qed (use h in \<open>simp add: mark_finalized_def\<close>)

text \<open>Saving a draft, and recording an audit.\<close>

lemma upsert_draft_reached:
  assumes h: "reached_from local_env db0 db" and u: "upsert_draft c k body content_json at db = (db', r)"
  shows "reached_from local_env db0 db'"
proof -
  have wf: "work_wf db" and g: "work_grows local_env db0 db" using h by (simp_all add: reached_from_def)
  have "work_wf db' \<and> work_grows local_env db db'"
  proof (cases "get_draft c k db")
    case None
    let ?d = "\<lparr>td_candidate_session_id = c, td_task_id = k, td_content_text = body, td_content_json = content_json,
      td_updated_at = at, td_finalized_at = None, td_finalized_submission_id = None\<rparr>"
    from u None have db': "db' = db\<lparr>wk_drafts := wk_drafts db @ [?d]\<rparr>" by (simp add: upsert_draft_def Let_def)
    have "draft_key ?d \<notin> draft_key ` set (wk_drafts db)"
      using None by (auto simp: get_draft_def find_row_None_iff draft_key_def)
    with wf have "work_wf db'" unfolding db' work_wf_def by auto
    moreover have "work_grows local_env db db'" unfolding db' work_grows_def by (auto intro: same_work_refl same_draft_refl same_audit_refl)
    ultimately show ?thesis by blast
  next
    case (Some d)
    show ?thesis
    proof (cases "is_finalized d")
      case True
      with u Some wf show ?thesis by (simp add: upsert_draft_def)
    next
      case False
      let ?d = "d\<lparr>td_content_text := body, td_content_json := content_json, td_updated_at := at\<rparr>"
      from u Some False have db': "db' = db\<lparr>wk_drafts := update_rows (\<lambda>x. draft_key x = (c, k)) (\<lambda>_. ?d) (wk_drafts db)\<rparr>"
        by (simp add: upsert_draft_def Let_def)
      have d: "d \<in> set (wk_drafts db)" "draft_key d = (c, k)" using Some by (auto simp: get_draft_def dest: find_row_SomeD)
      have open_d: "td_finalized_submission_id d = None" using False by (simp add: is_finalized_def)
      have one: "x = d" if "x \<in> set (wk_drafts db)" "draft_key x = (c, k)" for x
        using wf d that by (auto simp: work_wf_def distinct_map inj_on_def)
      have keys: "map draft_key (wk_drafts db') = map draft_key (wk_drafts db)"
        using d(2) by (auto simp: db' update_rows_def draft_key_def)
      have mem: "x \<in> set (wk_drafts db') \<Longrightarrow> x = ?d \<or> x \<in> set (wk_drafts db)" for x
        by (auto simp: db' update_rows_def)
      have "work_wf db'" unfolding work_wf_def keys
      proof (intro conjI ballI allI impI)
        fix x i assume "x \<in> set (wk_drafts db')" "td_finalized_submission_id x = Some i"
        with mem open_d wf show "\<exists>s \<in> set (wk_submissions db'). sb_id s = i \<and> submission_key s = draft_key x"
          unfolding work_wf_def by (fastforce simp: db')
      qed (use wf in \<open>auto simp: work_wf_def db'\<close>)
      moreover have "work_grows local_env db db'" unfolding work_grows_def
      proof (intro conjI ballI impI)
        fix x assume "x \<in> set (wk_drafts db)" "td_finalized_submission_id x \<noteq> None"
        with one open_d have "x \<in> set (wk_drafts db')" by (force simp: db' set_update_rows)
        then show "\<exists>x' \<in> set (wk_drafts db'). same_draft x x'" using same_draft_refl by blast
      qed (auto simp: db' intro: same_work_refl same_audit_refl)
      ultimately show ?thesis by blast
    qed
  qed
  with work_grows_trans[OF g] show ?thesis by (simp add: reached_from_def)
qed

lemma create_day_audit_once_cases:
  assumes "create_day_audit_once other a db = (db', r)"
  obtains x where "r = Inr (x, False)" "db' \<in> {db, other db}" "get_day_audit (da_candidate_session_id a) (da_day_index a) db' = Some x"
  | "r = Inr (a, True)" "get_day_audit (da_candidate_session_id a) (da_day_index a) (other db) = None" "da_day_index a \<in> {2, 3}"
    "db' = (other db)\<lparr>wk_audits := wk_audits (other db) @ [a]\<rparr>"
  | "r = Inl IntegrityError" "db' = other db"
proof (cases "get_day_audit (da_candidate_session_id a) (da_day_index a) db")
  case (Some x)
  with assms that(1)[of x] show thesis by (simp add: create_day_audit_once_def)
next
  case n: None
  show thesis
  proof (cases "get_day_audit (da_candidate_session_id a) (da_day_index a) (other db)")
    case (Some x)
    with n assms that(1)[of x] show thesis by (simp add: create_day_audit_once_def)
  next
    case None
    with n assms that(2,3) show thesis by (cases "da_day_index a \<in> {2, 3}") (auto simp: create_day_audit_once_def Let_def)
  qed
qed

lemma create_day_audit_once_reached:
  assumes h: "reached_from local_env db0 db" and other: "work_commits local_env other" and c: "create_day_audit_once other a db = (db', r)"
  shows "reached_from local_env db0 db'"
  using c
proof (cases rule: create_day_audit_once_cases)
  case 2
  let ?db = "other db"
  have wf: "work_wf ?db" and g: "work_grows local_env db0 ?db" using reached_commits[OF h other] by (simp_all add: reached_from_def)
  have "audit_key a \<notin> audit_key ` set (wk_audits ?db)"
    using 2(2) by (auto simp: get_day_audit_def find_row_None_iff audit_key_def)
  with wf 2(3) have "work_wf db'" unfolding 2(4) work_wf_def by auto
  moreover have "work_grows local_env ?db db'" unfolding 2(4) work_grows_def by (auto intro: same_work_refl same_draft_refl same_audit_refl)
  ultimately show ?thesis using work_grows_trans[OF g] by (simp add: reached_from_def)
qed (use h reached_commits[OF h other] in auto)

section \<open>What follows a submission\<close>

lemma progress_after_submission_cases:
  assumes "progress_after_submission tz from_iso cs tasks now at db = Inr (db', committed, p)"
  obtains "progress_snapshot tz from_iso cs tasks at db = Inr p"
    "db' = (if pg_is_complete p \<and> cs_status cs \<noteq> ''completed'' then complete_session cs now db else db)"
    "committed \<longleftrightarrow> pg_is_complete p \<and> cs_status cs \<noteq> ''completed''"
  using assms by (auto simp: progress_after_submission_def bind_result_Inr_iff split: if_splits)

lemma reached_complete: "reached_from local_env db0 db \<Longrightarrow> reached_from local_env db0 (complete_session cs now db)"
  by (rule reached_same) (simp_all add: complete_session_def)

lemma progress_after_reached:
  assumes "reached_from local_env db0 db" "progress_after_submission tz from_iso cs tasks now at db = Inr (db', committed, p)"
  shows "reached_from local_env db0 db'"
  using assms(2)
proof (rule progress_after_submission_cases)
  assume "db' = (if pg_is_complete p \<and> cs_status cs \<noteq> ''completed'' then complete_session cs now db else db)"
  with assms(1) reached_complete[OF assms(1), of cs now] show ?thesis by presburger
qed

lemma settle_submission_reached:
  assumes h: "reached_from local_env db0 db" and s: "sub \<in> set (wk_submissions db)" "submission_key sub = (cs_id cs, tk_id t)"
    and r: "settle_submission tz from_iso cs t tasks sub now at db = (db', r)"
  shows "reached_from local_env db0 db'"
proof -
  define pending where "pending = (case get_draft (cs_id cs) (tk_id t) db of None \<Rightarrow> db | Some d \<Rightarrow> mark_finalized d (sb_id sub) now db)"
  have p: "reached_from local_env db0 pending"
  proof (cases "get_draft (cs_id cs) (tk_id t) db")
    case (Some d)
    then have "draft_key d = (cs_id cs, tk_id t)" by (auto simp: get_draft_def dest: find_row_SomeD)
    with Some s mark_finalized_reached[OF h s(1), of d now] show ?thesis by (simp add: pending_def)
  qed (use h in \<open>simp add: pending_def\<close>)
  show ?thesis
  proof (cases "progress_after_submission tz from_iso cs tasks now at pending")
    case (Inl e)
    with r h show ?thesis by (simp add: settle_submission_def pending_def[symmetric])
  next
    case (Inr x)
    obtain db1 committed q where x: "x = (db1, committed, q)" by (cases x)
    have 1: "reached_from local_env db0 db1" using progress_after_reached[OF p] Inr x by blast
    from r Inr x have "db' = db \<or> db' = db1 \<or> (\<exists>app. db' = db1\<lparr>wk_app := app\<rparr>)"
      by (auto simp: settle_submission_def pending_def[symmetric] Let_def split: if_splits sum.splits)
    then show ?thesis using h 1 reached_same[OF 1] by auto
  qed
qed

text \<open>The code run touches the workspace only.\<close>

lemma run_code_reached:
  assumes h: "reached_from local_env db0 db" and r: "run_code_submission gh now cs t payload db = (db', r)"
  shows "reached_from local_env db0 db'"
proof -
  have "wk_submissions db' = wk_submissions db \<and> wk_next_submission_id db' = wk_next_submission_id db \<and>
    wk_drafts db' = wk_drafts db \<and> wk_audits db' = wk_audits db"
    using r by (auto simp: run_code_submission_def record_run_result_def Let_def split: sum.splits prod.splits option.splits if_splits)
  then show ?thesis by (intro reached_same[OF h]) auto
qed

lemma create_submission_reached:
  assumes h: "reached_from local_env db0 db" and o: "work_commits local_env other"
    and c: "create_submission other cs t body now content_json actions ws diff db = (db', r)"
  shows "reached_from local_env db0 db'"
  using c unfolding create_submission_def by (rule insert_submission_reached[OF reached_commits[OF h o]])

lemma create_submission_Inr:
  assumes "create_submission other cs t body now content_json actions ws diff db = (db', Inr s)"
  obtains "get_submission (cs_id cs) (tk_id t) (other db) = None" "s \<in> set (wk_submissions db')" "submission_key s = (cs_id cs, tk_id t)"
    "s = (build_submission cs t body content_json now ws diff actions)\<lparr>sb_id := wk_next_submission_id (other db)\<rparr>"
    "db' = (other db)\<lparr>wk_submissions := wk_submissions (other db) @ [s], wk_next_submission_id := wk_next_submission_id (other db) + 1\<rparr>"
  using assms unfolding create_submission_def
  by (elim insert_submission_cases) (auto simp: build_submission_def submission_key_def Let_def)

lemma create_submission_Inl:
  assumes "create_submission other cs t body now content_json actions ws diff db = (db', Inl e)"
  shows "get_submission (cs_id cs) (tk_id t) db' \<noteq> None" and "db' = other db"
  using assms unfolding create_submission_def
  by (auto elim!: insert_submission_cases simp: build_submission_def Let_def)

section \<open>The whole operations\<close>

lemma submit_allowed_reached:
  assumes h: "reached_from local_env db0 db" and o: "work_commits local_env other"
    and r: "submit_task_allowed tz from_iso gh other clock cs k payload db = (db', r)"
  shows "reached_from local_env db0 db'"
proof (cases "validate_submission_flow tz from_iso clock cs k payload db")
  case (Inl e)
  with r h show ?thesis by (simp add: submit_task_allowed_def bind_op_def)
next
  case (Inr x)
  obtain t content_json tasks where x: "x = (t, content_json, tasks)" by (cases x)
  obtain db1 y where y: "(if is_code_task t then run_code_submission gh (clock 4) cs t payload else lift_op (Inr (None, None, None))) db = (db1, y)"
    by fastforce
  have 1: "reached_from local_env db0 db1"
    using y h run_code_reached[OF h] by (auto simp: lift_op_def split: if_splits)
  show ?thesis
  proof (cases y)
    case (Inl e)
    with r Inr x y 1 show ?thesis by (simp add: submit_task_allowed_def bind_op_def)
  next
    case run: (Inr z)
    obtain actions diff ws where z: "z = (actions, diff, ws)" by (cases z)
    obtain db2 w where w: "create_submission other cs t (py_contentText payload) (clock 3) content_json actions ws diff db1 = (db2, w)" by fastforce
    have 2: "reached_from local_env db0 db2" using create_submission_reached[OF 1 o w] .
    show ?thesis
    proof (cases w)
      case (Inl e)
      with r Inr x y run z w 2 show ?thesis by (simp add: submit_task_allowed_def bind_op_def)
    next
      case sub: (Inr s)
      with w have s: "s \<in> set (wk_submissions db2)" "submission_key s = (cs_id cs, tk_id t)" by (auto elim: create_submission_Inr)
      from r Inr x y run z w sub have "settle_submission tz from_iso cs t tasks s (clock 3) (clock 5) db2 = (db', r)"
        by (simp add: submit_task_allowed_def bind_op_def)
      from settle_submission_reached[OF 2 s this] show ?thesis .
    qed
  qed
qed

lemma submit_task_reached:
  assumes "reached_from local_env db0 (snd s)" "work_commits local_env other"
    "submit_task tz from_iso gh other clock limited ticks cs k payload s = (s', r)"
  shows "reached_from local_env db0 (snd s')"
  using assms submit_allowed_reached[OF assms(1,2)] by (auto simp: submit_task_def split: prod.splits sum.splits)

lemma put_task_draft_reached:
  assumes "reached_from local_env db0 db" "put_task_draft tz from_iso clock cs k body content_json db = (db', r)"
  shows "reached_from local_env db0 db'"
  using assms upsert_draft_reached[OF assms(1)] unfolding put_task_draft_def by (auto split: sum.splits)

lemma settle_progress_reached:
  "reached_from local_env db0 db \<Longrightarrow> settle_progress tz from_iso cs now at db = (db', r) \<Longrightarrow> reached_from local_env db0 db'"
  using progress_after_reached by (fastforce simp: settle_progress_def split: sum.splits prod.splits)

text \<open>Both ways to finish the close of a text task: point the draft to the row, bring progress up to date.\<close>

abbreviation finish_close ::
    "tz_database \<Rightarrow> (string \<Rightarrow> datetime option) \<Rightarrow> candidate_session \<Rightarrow> task_draft option \<Rightarrow> submission \<Rightarrow> datetime \<Rightarrow> datetime \<Rightarrow> obj \<Rightarrow>
     (work_db, obj) op" where
  "finish_close tz from_iso cs draft s now at response \<equiv>
     bind_op (modify_op (mark_draft_finalized_if_pending draft (sb_id s) now)) (\<lambda>_.
     bind_op (settle_progress tz from_iso cs now at) (\<lambda>_. lift_op (Inr response)))"

lemma finish_close_reached:
  assumes h: "reached_from local_env db0 db" and s: "s \<in> set (wk_submissions db)" and d: "\<And>d. draft = Some d \<Longrightarrow> draft_key d = submission_key s"
    and r: "finish_close tz from_iso cs draft s now at response db = (db', r)"
  shows "reached_from local_env db0 db' \<and> wk_submissions db' = wk_submissions db"
proof -
  let ?m = "mark_draft_finalized_if_pending draft (sb_id s) now db"
  have m: "reached_from local_env db0 ?m" "wk_submissions ?m = wk_submissions db"
    using h mark_finalized_reached[OF h s] d
    by (auto simp: mark_draft_finalized_if_pending_def mark_finalized_def split: option.splits)
  obtain db1 x where p: "settle_progress tz from_iso cs now at ?m = (db1, x)" by fastforce
  from r p have "db' = db1" by (cases x) (simp_all add: bind_op_def modify_op_def lift_op_def)
  moreover have "wk_submissions db1 = wk_submissions ?m"
    using p by (auto simp: settle_progress_def complete_session_def split: sum.splits elim!: progress_after_submission_cases)
  ultimately show ?thesis using settle_progress_reached[OF m(1) p] m(2) by simp
qed

text \<open>
  The close of a text task, whether it returns or raises in the end: a row that was there
  stays the only one, otherwise the row of another transaction or of the draft is there.
\<close>

lemma finalize_cutoff_facts:
  assumes h: "reached_from local_env db0 db" and o: "work_commits local_env other"
    and r: "finalize_submission_from_cutoff tz from_iso other cs t now at db = (db', r)"
  obtains "get_submission (cs_id cs) (tk_id t) db \<noteq> None" "wk_submissions db' = wk_submissions db" "reached_from local_env db0 db'"
  | "get_submission (cs_id cs) (tk_id t) (other db) \<noteq> None" "wk_submissions db' = wk_submissions (other db)" "reached_from local_env db0 db'"
  | s where "get_submission (cs_id cs) (tk_id t) (other db) = None" "get_submission (cs_id cs) (tk_id t) db = None"
      "wk_submissions db' = wk_submissions (other db) @ [s]"
      "reached_from local_env db0 db'" "submission_key s = (cs_id cs, tk_id t)" "sb_submitted_at s = now"
      "(sb_content_text s, sb_content_json s) =
         (case get_draft (cs_id cs) (tk_id t) db of None \<Rightarrow> (JStr [], NO_DRAFT_AT_CUTOFF_MARKER) | Some d \<Rightarrow> (td_content_text d, td_content_json d))"
proof -
  let ?draft = "get_draft (cs_id cs) (tk_id t) db"
  have dk: "get_draft (cs_id cs) (tk_id t) x = Some d \<Longrightarrow> draft_key d = (cs_id cs, tk_id t)" for x d
    by (auto simp: get_draft_def dest: find_row_SomeD)
  have fin: "reached_from local_env db0 db' \<and> wk_submissions db' = wk_submissions db1"
    if "reached_from local_env db0 db1" "s \<in> set (wk_submissions db1)" "submission_key s = (cs_id cs, tk_id t)"
      "finish_close tz from_iso cs1 (get_draft (cs_id cs) (tk_id t) x) s now at response db1 = (db', r)" for cs1 x db1 s response
    using finish_close_reached[OF that(1,2) _ that(4)] dk that(3) by simp
  show thesis
  proof (cases "get_submission (cs_id cs) (tk_id t) db")
    case (Some s)
    from get_submission_SomeD[OF Some] have s: "s \<in> set (wk_submissions db)" "submission_key s = (cs_id cs, tk_id t)"
      by (auto simp: submission_key_def)
    have "\<exists>response. finish_close tz from_iso cs ?draft s now at response db = (db', r)"
      using r unfolding finalize_submission_from_cutoff_def Let_def Some option.case by blast
    then obtain response where "finish_close tz from_iso cs ?draft s now at response db = (db', r)" by blast
    from that(1) fin[OF h s this] Some show thesis by simp
  next
    case None
    obtain body content_json source where p: "payload_for_draft ?draft = (body, content_json, source)" by (cases "payload_for_draft ?draft")
    then have content: "(body, content_json) = (case ?draft of None \<Rightarrow> (JStr [], NO_DRAFT_AT_CUTOFF_MARKER) | Some d \<Rightarrow> (td_content_text d, td_content_json d))"
      by (auto simp: payload_for_draft_def split: option.splits)
    obtain db1 x where c: "create_submission other cs t body now content_json None None None db = (db1, x)" by fastforce
    have h1: "reached_from local_env db0 db1" using create_submission_reached[OF h o c] .
    show thesis
    proof (cases x)
      case (Inr s)
      have "get_submission (cs_id cs) (tk_id t) (other db) = None \<and> s \<in> set (wk_submissions db1) \<and> submission_key s = (cs_id cs, tk_id t) \<and>
        s = (build_submission cs t body content_json now None None None)\<lparr>sb_id := wk_next_submission_id (other db)\<rparr> \<and>
        wk_submissions db1 = wk_submissions (other db) @ [s]"
        using c[unfolded Inr] by (rule create_submission_Inr) (intro conjI; simp)
      then have s: "get_submission (cs_id cs) (tk_id t) (other db) = None" "s \<in> set (wk_submissions db1)"
        "submission_key s = (cs_id cs, tk_id t)" "wk_submissions db1 = wk_submissions (other db) @ [s]"
        "(sb_content_text s, sb_content_json s) = (body, content_json)" "sb_submitted_at s = now"
        by (simp_all add: build_submission_def Let_def submission_key_def)
      have "\<exists>response. finish_close tz from_iso cs ?draft s now at response db1 = (db', r)"
        using r unfolding finalize_submission_from_cutoff_def Let_def None p option.case prod.case c Inr sum.case by blast
      then obtain response where "finish_close tz from_iso cs ?draft s now at response db1 = (db', r)" by blast
      note f = fin[OF h1 s(2,3) this]
      with content f s that(3)[of s] None show thesis by simp
    next
      case (Inl e)
      note i = create_submission_Inl[OF c[unfolded Inl]]
      then obtain s where g: "get_submission (cs_id cs) (tk_id t) db1 = Some s" by blast
      from get_submission_SomeD[OF g] have s: "s \<in> set (wk_submissions db1)" "submission_key s = (cs_id cs, tk_id t)"
        by (auto simp: submission_key_def)
      have "\<exists>response. finish_close tz from_iso (reloaded_session cs db1) (get_draft (cs_id cs) (tk_id t) db1) s now at response db1 = (db', r)"
        using r unfolding finalize_submission_from_cutoff_def Let_def None p option.case prod.case c Inl sum.case g by blast
      then obtain response where "finish_close tz from_iso (reloaded_session cs db1) (get_draft (cs_id cs) (tk_id t) db1) s now at response db1 = (db', r)" by blast
      from that(2) fin[OF h1 s this] i show thesis by simp
    qed
  qed
qed

lemma finalize_cutoff_reached:
  assumes "reached_from local_env db0 db" "work_commits local_env other"
    "finalize_submission_from_cutoff tz from_iso other cs t now at db = (db', r)"
  shows "reached_from local_env db0 db'"
  using assms by (rule finalize_cutoff_facts)

lemma reschedule_app:
  assumes "reschedule_close from_iso cs t end_at now scheduled db = (db', r)"
  shows "\<exists>app. db' = db\<lparr>wk_app := app\<rparr>"
proof -
  have "db' = db \<or> (\<exists>app. db' = db\<lparr>wk_app := app\<rparr>)"
    using assms unfolding reschedule_close_def by (auto split: option.splits sum.splits)
  then show ?thesis by (auto intro: exI[of _ "wk_app db"])
qed

lemma reschedule_reached:
  assumes "reached_from local_env db0 db" "reschedule_close from_iso cs t end_at now scheduled db = (db', r)"
  shows "reached_from local_env db0 db'"
  using reschedule_app[OF assms(2)] reached_same[OF assms(1)] by auto

lemma finalize_text_for_reached:
  assumes "reached_from local_env db0 db" "work_commits local_env other"
    "finalize_text_for tz from_iso other c k day scheduled now at db = (db', r)"
  shows "reached_from local_env db0 db'"
  using assms(3) finalize_cutoff_reached[OF assms(1,2)] reschedule_reached[OF assms(1)] assms(1)
  unfolding finalize_text_for_def by (auto simp: Let_def split: option.splits sum.splits if_splits)

text \<open>The payload names a session and a task, or the handler does nothing.\<close>

lemma close_payload_cases:
  assumes "handle_day_close_finalize_text tz from_iso other now at payload db = (db', r)"
  obtains "db' = db" | c k day where "parse_positive_int (dict_get ''candidateSessionId'' payload) = Inr (Some c)"
    "parse_positive_int (dict_get ''taskId'' payload) = Inr (Some k)"
    "finalize_text_for tz from_iso other c k day (parse_iso_datetime from_iso (dict_get ''windowEndAt'' payload)) now at db = (db', r)"
  using assms by (auto simp: handle_day_close_finalize_text_def bind_op_def lift_op_def split: sum.splits option.splits)

lemma handle_finalize_reached:
  assumes h: "reached_from local_env db0 db" and o: "work_commits local_env other"
    and r: "handle_day_close_finalize_text tz from_iso other now at payload db = (db', r)"
  shows "reached_from local_env db0 db'"
  using r by (rule close_payload_cases) (use h finalize_text_for_reached[OF h o] in blast)+

lemma keeps_record_cutoff:
  assumes o: "work_commits local_env other"
  shows "keeps (reached_from local_env db0) (record_cutoff gh other cs t w at) (\<lambda>_. True)"
  unfolding record_cutoff_def Let_def
proof (intro keeps_bind_any keeps_lift_any)
  show "keeps (reached_from local_env db0) (modify_op (set_access_revocation_state w (Some at) None)) (\<lambda>_. True)"
    by (rule keeps_modify, erule reached_same) (simp_all add: set_access_revocation_state_def)
next
  fix branch sha
  show "keeps (reached_from local_env db0) (case sha of None \<Rightarrow> lift_op (Inl (RuntimeError ''day_close_enforcement_missing_branch_head_sha''))
      | Some cutoff_commit_sha \<Rightarrow> bind_op (create_day_audit_once other
          \<lparr>da_candidate_session_id = cs_id cs, da_day_index = tk_day_index t, da_cutoff_at = at,
           da_cutoff_commit_sha = cutoff_commit_sha, da_eval_basis_ref = ''refs/heads/'' @ branch @ ''@cutoff''\<rparr>)
          (\<lambda>(a, created). lift_op (Inr (if created then cutoff_response ''cutoff_persisted'' cs t a @ [(''repoFullName'', JStr (py_strip (ws_repo_full_name w))), (''revokeStatus'', JStr status)]
               else cutoff_response ''no_op_cutoff_exists'' cs t a)))) (\<lambda>_. True)" for status
  proof (cases sha)
    case (Some x)
    have "keeps (reached_from local_env db0) (create_day_audit_once other a) (\<lambda>_. True)" for a
      using create_day_audit_once_reached[OF _ o] by (auto simp: keeps_def)
    with Some show ?thesis by (auto intro!: keeps_bind_any keeps_lift_any)
  qed (simp add: keeps_lift_any)
qed

lemma enforce_for_reached:
  assumes "reached_from local_env db0 db" "work_commits local_env other" "enforce_for gh other c k day at db = (db', r)"
  shows "reached_from local_env db0 db'"
  using assms(3) keepsD(1)[OF keeps_record_cutoff[OF assms(2)] _ assms(1)] assms(1)
  unfolding enforce_for_def by (auto simp: Let_def split: option.splits if_splits)

lemma enforcement_payload_cases:
  assumes "handle_day_close_enforcement from_iso gh other now payload db = (db', r)"
  obtains "db' = db" | c k day at where "enforce_for gh other c k day at db = (db', r)"
  using assms by (auto simp: handle_day_close_enforcement_def bind_op_def lift_op_def split: sum.splits option.splits if_splits)

lemma handle_enforcement_reached:
  assumes h: "reached_from local_env db0 db" and o: "work_commits local_env other"
    and r: "handle_day_close_enforcement from_iso gh other now payload db = (db', r)"
  shows "reached_from local_env db0 db'"
  using r by (rule enforcement_payload_cases) (use h enforce_for_reached[OF h o] in blast)+

section \<open>The other writers of the tables\<close>

text \<open>The writers of the tables outside this theory: a handed-off recording, GitHub's workflow events, the day-window control.\<close>

lemma update_submissions_reached:
  assumes h: "reached_from local_env db0 db"
    and db': "wk_submissions db' = update_rows P f (wk_submissions db)" "wk_next_submission_id db' = wk_next_submission_id db"
      "wk_drafts db' = wk_drafts db" "wk_audits db' = wk_audits db"
    and f: "\<And>s. s \<in> set (wk_submissions db) \<Longrightarrow> P s \<Longrightarrow> same_work s (f s)"
  shows "reached_from local_env db0 db'"
proof -
  let ?f = "\<lambda>s. if P s then f s else s"
  have wf: "work_wf db" and g: "work_grows local_env db0 db" using h by (simp_all add: reached_from_def)
  have same: "same_work s (?f s)" if "s \<in> set (wk_submissions db)" for s using f[OF that] by simp
  have rows: "wk_submissions db' = map ?f (wk_submissions db)" by (simp add: db' update_rows_def)
  have "map submission_key (wk_submissions db') = map submission_key (wk_submissions db)"
    "map sb_id (wk_submissions db') = map sb_id (wk_submissions db)"
    unfolding rows map_map by (rule map_cong[OF refl], use same in \<open>simp only: comp_def same_work_def\<close>)+
  note keys = this
  have "\<exists>s' \<in> set (wk_submissions db'). sb_id s' = sb_id s \<and> submission_key s' = submission_key s"
    if "s \<in> set (wk_submissions db)" for s
    using same[OF that] imageI[OF that, of ?f] unfolding rows set_map same_work_def by blast
  moreover have "sb_id s < wk_next_submission_id db" if "s \<in> set (wk_submissions db')" for s
  proof -
    from that have "sb_id s \<in> set (map sb_id (wk_submissions db'))" by simp
    with wf show ?thesis unfolding keys(2) by (auto simp: work_wf_def)
  qed
  ultimately have "work_wf db'"
    using wf keys unfolding work_wf_def db'(2-4) by metis
  moreover have "work_grows local_env db db'"
    unfolding work_grows_def db'(3,4) rows set_map
    using same same_audit_refl same_draft_refl by (intro conjI ballI impI) (blast intro: imageI)+
  ultimately show ?thesis using work_grows_trans[OF g] by (simp add: reached_from_def)
qed

lemma upsert_handoff_reached:
  assumes h: "reached_from local_env db0 db" and u: "upsert_handoff_submission c k i at db = (j, db')"
  shows "reached_from local_env db0 db'"
proof (cases "get_submission c k db")
  case (Some s)
  with u have db': "db' = db\<lparr>wk_submissions := update_rows (\<lambda>x. submission_key x = (c, k))
      (\<lambda>x. x\<lparr>sb_recording_id := Some i, sb_submitted_at := at\<rparr>) (wk_submissions db)\<rparr>"
    by (simp add: upsert_handoff_submission_def)
  show ?thesis
    by (rule update_submissions_reached[OF h, of db' "\<lambda>x. submission_key x = (c, k)" "\<lambda>x. x\<lparr>sb_recording_id := Some i, sb_submitted_at := at\<rparr>"])
      (simp_all add: db' same_work_def submission_key_def)
next
  case None
  define row where "row = \<lparr>sb_id = 0, sb_candidate_session_id = c, sb_task_id = k,
     sb_recording_id = Some i, sb_submitted_at = at, sb_content_text = JNull, sb_content_json = JNull,
     sb_code_repo_path = None, sb_commit_sha = None, sb_checkpoint_sha = None, sb_final_sha = None,
     sb_workflow_run_id = None, sb_workflow_run_attempt = None, sb_workflow_run_status = None, sb_workflow_run_conclusion = None,
     sb_workflow_run_completed_at = None, sb_diff_summary_json = None, sb_tests_passed = None, sb_tests_failed = None,
     sb_test_output = None, sb_last_run_at = None\<rparr>"
  from u None have "insert_submission row db = (db', Inr (row\<lparr>sb_id := wk_next_submission_id db\<rparr>))"
    by (auto simp: upsert_handoff_submission_def insert_submission_def Let_def row_def)
  from insert_submission_reached[OF h this] show ?thesis .
qed

lemma write_submission_reached:
  assumes h: "reached_from local_env db0 db" and s: "s \<in> set (wk_submissions db)" "same_work s s'"
    and db': "wk_submissions db' = wk_submissions (write_submission s' db)" "wk_next_submission_id db' = wk_next_submission_id db"
      "wk_drafts db' = wk_drafts db" "wk_audits db' = wk_audits db"
  shows "reached_from local_env db0 db'"
proof (rule update_submissions_reached[OF h _ db'(2-4)])
  show "wk_submissions db' = update_rows (\<lambda>x. sb_id x = sb_id s') (\<lambda>_. s') (wk_submissions db)"
    by (simp add: db' write_submission_def)
  show "same_work x s'" if "x \<in> set (wk_submissions db)" "sb_id x = sb_id s'" for x
  proof -
    have "distinct (map sb_id (wk_submissions db))" using h by (simp add: reached_from_def work_wf_def)
    with that s have "x = s" by (auto simp: same_work_def distinct_map inj_on_def)
    with s show ?thesis by simp
  qed
qed

lemma assign_same_work:
  assumes "same_work s (fst sc)" "\<And>x. same_work x (f x)"
  shows "same_work s (fst (assign_if P f sc))"
  using assms(1) assms(2)[of "fst sc"] by (auto simp: assign_if_def same_work_def split: prod.splits)

lemma completion_same_work: "same_work s (fst (apply_submission_completion now e s))"
proof -
  have times: "same_work s (fst (apply_run_times now e sc))" if "same_work s (fst sc)" for sc
  proof (cases "we_completed_at e")
    case None
    show ?thesis unfolding apply_run_times_def None option.case
      by (intro assign_same_work that) (simp_all add: same_work_def submission_key_def)
  next
    case (Some x)
    show ?thesis unfolding apply_run_times_def Some option.case case_prod_beta
      by (intro assign_same_work that) (simp_all add: same_work_def submission_key_def)
  qed
  show ?thesis unfolding apply_submission_completion_def Let_def
    by (intro assign_same_work times) (simp_all add: same_work_def submission_key_def)
qed

lemma resolved_submission: "resolve_submission_mapping e db = (Some s, reason) \<Longrightarrow> s \<in> set (wk_submissions db)"
  by (auto simp: resolve_submission_mapping_def find_submission_by_workflow_run_id_def find_submission_by_head_sha_fallback_def
      split: list.splits option.splits if_splits dest!: arg_cong[of _ _ set])

lemma write_workspace_tables [simp]:
  "wk_submissions (write_workspace w db) = wk_submissions db" "wk_next_submission_id (write_workspace w db) = wk_next_submission_id db"
  "wk_drafts (write_workspace w db) = wk_drafts db" "wk_audits (write_workspace w db) = wk_audits db"
  by (simp_all add: write_workspace_def split: option.splits)

lemma write_submission_tables [simp]:
  "wk_next_submission_id (write_submission s db) = wk_next_submission_id db"
  "wk_drafts (write_submission s db) = wk_drafts db" "wk_audits (write_submission s db) = wk_audits db"
  by (simp_all add: write_submission_def)

lemma process_event_reached:
  assumes h: "reached_from local_env db0 db"
    and p: "process_workflow_run_completed_event from_iso now clk delivery payload db = (db', r)"
  shows "reached_from local_env db0 db'"
proof (cases "db' = db")
  case False
  with p obtain e s reason company where e: "resolve_submission_mapping e db = (Some s, reason)"
    "record_completion now clk delivery e s reason company db = (db', r)"
    by (auto simp: process_workflow_run_completed_event_def split: sum.splits option.splits prod.splits)
  from e(2) False obtain ws q where "db' = (let db1 = write_workspace ws (write_submission (fst (apply_submission_completion now e s)) db)
      in db1\<lparr>wk_app := (wk_app db1)\<lparr>queue := q\<rparr>\<rparr>)"
    by (auto simp: record_completion_def Let_def split: sum.splits prod.splits)
  with write_submission_reached[OF h resolved_submission[OF e(1)] completion_same_work, of db' now e]
  show ?thesis by (simp add: Let_def)
qed (use h in simp)

lemma receive_webhook_reached:
  assumes h: "reached_from local_env db0 db"
    and r: "receive_github_webhook hmac json_loads from_iso settings tick now clk rq (l, db) = ((l', db'), r)"
  shows "reached_from local_env db0 db'"
proof -
  have "db' = db \<or> (\<exists>delivery payload r. process_workflow_run_completed_event from_iso now clk delivery payload db = (db', r))"
    using r by (auto simp: receive_github_webhook_def Let_def split: prod.splits sum.splits if_splits)
  with h process_event_reached[OF h] show ?thesis by blast
qed

lemma artifact_parse_reached:
  assumes h: "reached_from local_env db0 db"
    and r: "handle_github_workflow_artifact_parse from_iso fetch now payload db = (db', r)"
  shows "reached_from local_env db0 db'"
proof (cases "db' = db")
  case False
  with r obtain p i run_id repo s x ws where s: "find_row (\<lambda>s. sb_id s = i) (wk_submissions db) = Some s"
    "db' = write_workspace ws (write_submission (with_run_result now p x s) db)"
    by (auto simp: handle_github_workflow_artifact_parse_def persist_artifact_parse_result_def Let_def
        split: sum.splits option.splits)
  have "same_work s (with_run_result now p x s)" by (simp add: with_run_result_def same_work_def submission_key_def)
  from write_submission_reached[OF h _ this, of db'] find_row_SomeD[OF s(1)] s(2) show ?thesis by simp
qed (use h in simp)

text \<open>The day-window control moves the time of a cut-off, and only where it answers.\<close>

lemma retime_reached:
  assumes h: "reached_from True db0 db"
  shows "reached_from True db0 (retime_day_audit c day at db)"
proof -
  let ?f = "\<lambda>a. if audit_key a = (c, day) then a\<lparr>da_cutoff_at := at\<rparr> else a"
  have f: "audit_key (?f a) = audit_key a" "da_day_index (?f a) = da_day_index a" for a by (simp_all add: audit_key_def)
  have rows: "wk_audits (retime_day_audit c day at db) = map ?f (wk_audits db)"
    by (simp add: retime_day_audit_def update_rows_def)
  have "work_wf (retime_day_audit c day at db)"
    using h unfolding reached_from_def work_wf_def rows map_map comp_def f set_map ball_simps
    by (simp add: retime_day_audit_def)
  moreover have "work_grows True db (retime_day_audit c day at db)"
  proof -
    have "same_audit True a (?f a)" for a by (simp add: same_audit_def audit_key_def)
    moreover have "wk_submissions (retime_day_audit c day at db) = wk_submissions db"
      "wk_drafts (retime_day_audit c day at db) = wk_drafts db" by (simp_all add: retime_day_audit_def)
    ultimately show ?thesis unfolding work_grows_def rows set_map
      using same_work_refl same_draft_refl by (simp only:) (intro conjI ballI impI; blast intro: imageI)
  qed
  ultimately show ?thesis using h work_grows_trans by (auto simp: reached_from_def)
qed

lemma move_cutoff_reached:
  assumes h: "reached_from True db0 db" and o: "work_commits True other" and m: "move_cutoff other rq plan w db = (db', r)"
  shows "reached_from True db0 db'"
proof -
  have audit: "reached_from True db0 db1" if "control_day_audit other c day at w db = (db1, x)" for c day at db1 x
    using that retime_reached[OF h] create_day_audit_once_reached[OF h o]
    by (auto simp: control_day_audit_def split: option.splits prod.splits sum.splits if_splits)
  have "reached_from True db0 (set_access_revocation_state x t e db1)" if "reached_from True db0 db1" for x t e db1
    by (rule reached_same[OF that]) (simp_all add: set_access_revocation_state_def)
  with audit h m show ?thesis
    by (auto simp: move_cutoff_def lift_op_def modify_op_def bind_op_def split: option.splits prod.splits sum.splits if_splits)
qed

lemma control_reached:
  assumes h: "reached_from local_env db0 db" and o: "work_commits local_env other"
    and c: "set_candidate_session_day_window tz from_iso local_env other aborts i now clk rq (db, audits) = ((db', audits'), r)"
  shows "reached_from local_env db0 db'"
  using c
proof (cases rule: control_cases)
  case (2 plan)
  with h reached_commits[OF h o] show ?thesis by (simp add: rolled_back_def)
next
  case (3 plan w db1 x app)
  have env: "local_env = True" using 3(1) by simp
  have "reached_from local_env db0 db1" using move_cutoff_reached[of db0 db other] h o 3(2) unfolding env by blast
  from reached_same[OF this, of db'] 3(3) show ?thesis by simp
qed (use h in simp)

section \<open>Runs of the system\<close>

text \<open>
  One committed operation on the tables. Within its transaction, what the others commit
  (\<open>other\<close>) is itself a run of these operations. The last rule stands for every operation of
  the system that writes none of the four tables: it may change sessions, tasks, workspaces and
  the queue in any way.
\<close>

inductive work_step :: "bool \<Rightarrow> work_db \<Rightarrow> work_db \<Rightarrow> bool" for local_env where
  submitted: "submit_task tz from_iso gh other clock limited ticks cs k payload (l, db) = ((l', db'), r) \<Longrightarrow>
    \<forall>x. (work_step local_env)\<^sup>*\<^sup>* x (other x) \<Longrightarrow> work_step local_env db db'"
| drafted: "put_task_draft tz from_iso clock cs k body content_json db = (db', r) \<Longrightarrow> work_step local_env db db'"
| closed: "handle_day_close_finalize_text tz from_iso other now at job_payload db = (db', r) \<Longrightarrow>
    \<forall>x. (work_step local_env)\<^sup>*\<^sup>* x (other x) \<Longrightarrow> work_step local_env db db'"
| enforced: "handle_day_close_enforcement from_iso gh other now job_payload db = (db', r) \<Longrightarrow>
    \<forall>x. (work_step local_env)\<^sup>*\<^sup>* x (other x) \<Longrightarrow> work_step local_env db db'"
| handed_off: "upsert_handoff_submission c k recording_id at db = (i, db') \<Longrightarrow> work_step local_env db db'"
| delivered: "receive_github_webhook hmac json_loads aware_from_iso settings tick now clk rq (l, db) = ((l', db'), r') \<Longrightarrow>
    work_step local_env db db'"
| parsed: "handle_github_workflow_artifact_parse from_iso fetch now job_payload db = (db', r) \<Longrightarrow> work_step local_env db db'"
| moved: "set_candidate_session_day_window tz from_iso local_env other aborts new_id now clk dq (db, audits) = ((db', audits'), r'') \<Longrightarrow>
    \<forall>x. (work_step local_env)\<^sup>*\<^sup>* x (other x) \<Longrightarrow> work_step local_env db db'"
| elsewhere: "wk_submissions db' = wk_submissions db \<Longrightarrow> wk_next_submission_id db' = wk_next_submission_id db \<Longrightarrow>
    wk_drafts db' = wk_drafts db \<Longrightarrow> wk_audits db' = wk_audits db \<Longrightarrow> work_step local_env db db'"

definition keeps_work :: "bool \<Rightarrow> work_db \<Rightarrow> work_db \<Rightarrow> bool" where
  "keeps_work local_env db db' \<longleftrightarrow> (work_wf db \<longrightarrow> reached_from local_env db db')"

lemma keeps_work_steps: "(keeps_work local_env)\<^sup>*\<^sup>* db db' \<Longrightarrow> keeps_work local_env db db'"
proof (induction rule: rtranclp_induct)
  case base
  then show ?case by (simp add: keeps_work_def reached_self)
next
  case (step x y)
  then show ?case unfolding keeps_work_def reached_from_def using work_grows_trans by blast
qed

lemma keeps_work_commits:
  assumes "\<forall>x. (\<lambda>a b. work_step local_env a b \<and> keeps_work local_env a b)\<^sup>*\<^sup>* x (other x)"
  shows "work_commits local_env other"
proof -
  have "(keeps_work local_env)\<^sup>*\<^sup>* x (other x)" for x
    using assms[rule_format, of x] by (rule rtranclp_mono[THEN predicate2D, rotated]) auto
  from keeps_work_steps[OF this] show ?thesis by (simp add: work_commits_def keeps_work_def reached_from_def)
qed

lemma work_step_keeps: "work_step local_env db db' \<Longrightarrow> keeps_work local_env db db'"
proof (induction rule: work_step.induct)
  case (submitted tz from_iso gh other clock limited ticks cs k payload l db l' db' r)
  then show ?case unfolding keeps_work_def
    using submit_task_reached[of local_env db "(l, db)", OF _ keeps_work_commits[OF submitted(2)] submitted(1)] reached_self by fastforce
next
  case (drafted tz from_iso clock cs k body content_json db db' r)
  then show ?case using put_task_draft_reached reached_self unfolding keeps_work_def by blast
next
  case (closed tz from_iso other now at job_payload db db' r)
  then show ?case using handle_finalize_reached[OF reached_self keeps_work_commits[OF closed(2)]] unfolding keeps_work_def by blast
next
  case (enforced from_iso gh other now job_payload db db' r)
  then show ?case using handle_enforcement_reached[OF reached_self keeps_work_commits[OF enforced(2)]] unfolding keeps_work_def by blast
next
  case (handed_off c k recording_id at db i db')
  then show ?case using upsert_handoff_reached reached_self unfolding keeps_work_def by blast
next
  case (delivered hmac json_loads aware_from_iso settings tick now clk rq l db l' db' r')
  then show ?case using receive_webhook_reached reached_self unfolding keeps_work_def by blast
next
  case (parsed from_iso fetch now job_payload db db' r)
  then show ?case using artifact_parse_reached reached_self unfolding keeps_work_def by blast
next
  case (moved tz from_iso other aborts new_id now clk dq db audits db' audits' r'')
  then show ?case using control_reached[OF reached_self keeps_work_commits[OF moved(2)]] unfolding keeps_work_def by blast
next
  case (elsewhere db' db)
  then show ?case unfolding keeps_work_def by (blast intro: reached_same reached_self)
qed

lemma work_steps_reached:
  assumes "(work_step local_env)\<^sup>*\<^sup>* db db'" "work_wf db"
  shows "reached_from local_env db db'"
proof -
  have "(keeps_work local_env)\<^sup>*\<^sup>* db db'"
    using assms(1) by (rule rtranclp_mono[THEN predicate2D, rotated]) (auto dest: work_step_keeps)
  from keeps_work_steps[OF this] assms(2) show ?thesis by (simp add: keeps_work_def)
qed

text \<open>What the theorems ask of other transactions holds of every run of the operations above.\<close>

lemma runs_commit: "(\<And>x. (work_step local_env)\<^sup>*\<^sup>* x (other x)) \<Longrightarrow> work_commits local_env other"
  unfolding work_commits_def using work_steps_reached by (auto simp: reached_from_def)



lemma get_day_audit_in:
  assumes "work_wf db" "a \<in> set (wk_audits db)" "audit_key a = (c, day)"
  shows "get_day_audit c day db = Some a"
  using find_row_unique[of audit_key "wk_audits db" a] assms by (simp add: get_day_audit_def work_wf_def)

lemma get_day_audit_SomeD: "get_day_audit c day db = Some a \<Longrightarrow> a \<in> set (wk_audits db) \<and> audit_key a = (c, day)"
  by (auto simp: get_day_audit_def dest: find_row_SomeD)

text \<open>A recorded cut-off keeps its commit and its branch, and where there is no day-window control also its time.\<close>

lemma cutoff_kept:
  assumes "reached_from local_env db0 db" "get_day_audit c day db0 = Some a"
  obtains a' where "get_day_audit c day db = Some a'" "da_cutoff_commit_sha a' = da_cutoff_commit_sha a"
    "da_eval_basis_ref a' = da_eval_basis_ref a" "\<not> local_env \<Longrightarrow> a' = a"
proof -
  from get_day_audit_SomeD[OF assms(2)] have a: "a \<in> set (wk_audits db0)" "audit_key a = (c, day)" by auto
  with assms(1) obtain a' where a': "a' \<in> set (wk_audits db)" "same_audit local_env a a'"
    unfolding reached_from_def work_grows_def by blast
  have "a' = a" if "\<not> local_env" using a'(2) that by (auto simp: same_audit_def audit_key_def intro!: day_audit.equality)
  with that[of a'] get_day_audit_in[of db a' c day] a a' assms(1) show thesis by (auto simp: same_audit_def reached_from_def)
qed


section \<open>Accepted submissions\<close>

text \<open>What a successful request went through.\<close>

lemma submit_task_InrD:
  assumes "submit_task tz from_iso gh other clock limited ticks cs k payload (l, db) = ((l', db'), Inr r)"
  obtains t content_json tasks actions diff ws db1 db2 s where
    "validate_submission_flow tz from_iso clock cs k payload db = Inr (t, content_json, tasks)"
    "(if is_code_task t then run_code_submission gh (clock 4) cs t payload else lift_op (Inr (None, None, None))) db = (db1, Inr (actions, diff, ws))"
    "create_submission other cs t (py_contentText payload) (clock 3) content_json actions ws diff db1 = (db2, Inr s)"
    "settle_submission tz from_iso cs t tasks s (clock 3) (clock 5) db2 = (db', Inr r)"
proof -
  from assms have "submit_task_allowed tz from_iso gh other clock cs k payload db = (db', Inr r)"
    by (auto simp: submit_task_def split: prod.splits sum.splits)
  then show thesis
    unfolding submit_task_allowed_def
  proof (elim bind_opE)
    fix s1 x s2 y s3 z
    assume a: "(db, validate_submission_flow tz from_iso clock cs k payload db) = (s1, Inr x)"
      "(case x of (t, content_json, tasks) \<Rightarrow> bind_op
         (if is_code_task t then run_code_submission gh (clock 4) cs t payload else lift_op (Inr (None, None, None))) (\<lambda>(actions, diff, ws).
         bind_op (create_submission other cs t (py_contentText payload) (clock 3) content_json actions ws diff) (\<lambda>sub.
         settle_submission tz from_iso cs t tasks sub (clock 3) (clock 5)))) s1 = (db', Inr r)"
    obtain t content_json tasks where x: "x = (t, content_json, tasks)" by (cases x)
    from a(2)[unfolded x prod.case] obtain s2 y where
      b: "(if is_code_task t then run_code_submission gh (clock 4) cs t payload else lift_op (Inr (None, None, None))) s1 = (s2, Inr y)"
      "(case y of (actions, diff, ws) \<Rightarrow> bind_op (create_submission other cs t (py_contentText payload) (clock 3) content_json actions ws diff)
         (\<lambda>sub. settle_submission tz from_iso cs t tasks sub (clock 3) (clock 5))) s2 = (db', Inr r)" by (rule bind_opE)
    obtain actions diff ws where y: "y = (actions, diff, ws)" by (cases y)
    from b(2)[unfolded y prod.case] obtain s3 z where
      "create_submission other cs t (py_contentText payload) (clock 3) content_json actions ws diff s2 = (s3, Inr z)"
      "settle_submission tz from_iso cs t tasks z (clock 3) (clock 5) s3 = (db', Inr r)" by (rule bind_opE)
    with that a(1) b(1) show thesis unfolding x y by blast
  qed
qed

lemma validate_flow_InrD:
  assumes "validate_submission_flow tz from_iso clock cs k payload db = Inr (t, content_json, tasks)"
  obtains p where "load_task k db = Some t" "tk_trial_id t = cs_trial_id cs"
    "require_active_window tz from_iso (wk_app db) cs t (clock 0) = Inr ()"
    "ensure_day_flow_open (clock 1) cs t None db = Inr ()"
    "progress_snapshot tz from_iso cs [] (clock 2) db = Inr p" "k \<notin> set (pg_completed_ids p)"
    "ensure_in_order (pg_current p) k = Inr ()" "validate_submission_payload t payload = Inr content_json" "tasks = pg_tasks p"
  using assms unfolding validate_submission_flow_def
  by (auto simp: bind_result_Inr_iff load_task_or_404_def ensure_task_belongs_def split: option.splits)

lemma settle_submission_InrD:
  assumes "settle_submission tz from_iso cs t tasks s now at db = (db', Inr r)"
  obtains committed p db1 where
    "progress_after_submission tz from_iso cs tasks now at
       (case get_draft (cs_id cs) (tk_id t) db of None \<Rightarrow> db | Some d \<Rightarrow> mark_finalized d (sb_id s) now db) = Inr (db1, committed, p)"
    "sr_task r = t" "sr_submission r = s" "sr_is_complete r = pg_is_complete p"
    "if pg_is_complete p then (\<exists>j app. enqueue_candidate_completed_notification (cs_id cs) (cs_trial_id cs) at (wk_app db1) = Inr (j, app) \<and>
        db' = db1\<lparr>wk_app := app\<rparr>) else db' = db1"
  using assms by (auto simp: settle_submission_def Let_def split: sum.splits prod.splits if_splits)

lemma day_flow_open_before_cutoff:
  assumes "ensure_day_flow_open now cs t ws db = Inr ()" "get_day_audit (cs_id cs) (tk_day_index t) db = Some a" "work_wf db"
  shows "now < da_cutoff_at a"
proof -
  have a: "a \<in> set (wk_audits db)" "da_day_index a = tk_day_index t"
    using assms(2) by (auto simp: get_day_audit_def audit_key_def dest: find_row_SomeD)
  with assms(3) have "tk_day_index t \<in> {2, 3}" by (auto simp: work_wf_def)
  with assms(1,2) show ?thesis by (auto simp: ensure_day_flow_open_def split: if_splits)
qed

lemma accepted_before_cutoff:
  assumes sub: "submit_task tz from_iso gh other clock limited ticks cs k payload (l, db) = ((l', db'), Inr r)"
    and a: "get_day_audit (cs_id cs) (tk_day_index (sr_task r)) db = Some a" and wf: "work_wf db"
  shows "clock 1 < da_cutoff_at a"
proof -
  obtain t content_json tasks s now2 db2 where v: "validate_submission_flow tz from_iso clock cs k payload db = Inr (t, content_json, tasks)"
    and "settle_submission tz from_iso cs t tasks s now2 (clock 5) db2 = (db', Inr r)" using submit_task_InrD[OF sub] by metis
  from settle_submission_InrD[OF this(2)] have "sr_task r = t" by metis
  moreover have "ensure_day_flow_open (clock 1) cs t None db = Inr ()" using v by (rule validate_flow_InrD)
  ultimately show ?thesis using day_flow_open_before_cutoff a wf by blast
qed

lemma progress_after_tables:
  assumes "progress_after_submission tz from_iso cs tasks now at db = Inr (db', committed, p)"
  shows "wk_submissions db' = wk_submissions db \<and> wk_drafts db' = wk_drafts db \<and> queue (wk_app db') = queue (wk_app db)"
proof -
  have "db' = db \<or> db' = complete_session cs now db"
    using assms by (rule progress_after_submission_cases) argo
  then show ?thesis by (auto simp: complete_session_def)
qed

text \<open>The row an accepted request leaves: there was none, in the request's view or when it inserted.\<close>

lemma settle_keeps_submissions:
  assumes "settle_submission tz from_iso cs t tasks s now at db = (db', Inr r)"
  shows "wk_submissions db' = wk_submissions db"
proof -
  obtain committed p db1 where p: "progress_after_submission tz from_iso cs tasks now at
       (case get_draft (cs_id cs) (tk_id t) db of None \<Rightarrow> db | Some d \<Rightarrow> mark_finalized d (sb_id s) now db) = Inr (db1, committed, p)"
    and "db' = db1 \<or> (\<exists>app. db' = db1\<lparr>wk_app := app\<rparr>)"
    using assms by (rule settle_submission_InrD) (auto split: if_splits)
  with progress_after_tables[OF p] show ?thesis by (auto simp: mark_finalized_def split: option.splits)
qed

lemma load_task_SomeD: "load_task k db = Some t \<Longrightarrow> t \<in> set (wk_tasks db) \<and> tk_id t = k"
  by (auto simp: load_task_def dest: find_row_SomeD)

lemma accepted_row:
  assumes res: "submit_task tz from_iso gh other clock limited ticks cs k payload (l, db) = ((l', db'), Inr r)"
    and wf: "work_wf db" and o: "work_commits local_env other"
  shows "get_submission (cs_id cs) k db = None"
    and "\<exists>before. wk_submissions db' = before @ [sr_submission r] \<and> (\<forall>s \<in> set before. submission_key s \<noteq> (cs_id cs, k))"
proof -
  obtain t content_json tasks actions diff ws db1 db2 s where v: "validate_submission_flow tz from_iso clock cs k payload db = Inr (t, content_json, tasks)"
    and run: "(if is_code_task t then run_code_submission gh (clock 4) cs t payload else lift_op (Inr (None, None, None))) db = (db1, Inr (actions, diff, ws))"
    and c: "create_submission other cs t (py_contentText payload) (clock 3) content_json actions ws diff db1 = (db2, Inr s)"
    and st: "settle_submission tz from_iso cs t tasks s (clock 3) (clock 5) db2 = (db', Inr r)" by (rule submit_task_InrD[OF res])
  have k: "tk_id t = k" using validate_flow_InrD[OF v] load_task_SomeD by metis
  have h1: "reached_from local_env db db1" using run run_code_reached[OF reached_self[OF wf]] reached_self[OF wf]
    by (auto simp: lift_op_def split: if_splits)
  have new: "get_submission (cs_id cs) k (other db1) = None \<and> wk_submissions db2 = wk_submissions (other db1) @ [s]"
    using c unfolding k[symmetric] by (rule create_submission_Inr) simp
  have "sr_submission r = s" using settle_submission_InrD[OF st] by metis
  with new settle_keeps_submissions[OF st]
  show "\<exists>before. wk_submissions db' = before @ [sr_submission r] \<and> (\<forall>s \<in> set before. submission_key s \<noteq> (cs_id cs, k))"
    unfolding get_submission_None by force
  show "get_submission (cs_id cs) k db = None"
  proof (cases "get_submission (cs_id cs) k db")
    case (Some s0)
    from get_submission_grows[OF reached_commits[OF h1 o] wf Some] new show ?thesis by auto
  qed
qed

text \<open>
  Property C1. A submission is accepted only for a task of the candidate's trial, while the
  task's window is open, before the recorded cut-off of its day, in order (every task of an
  earlier day of the trial has been submitted already), and once: the candidate had no
  submission of the task, neither when the request looked nor when it inserted, and the accepted
  one is the only one afterwards, whatever other transactions commit meanwhile.
\<close>

theorem accepted_submissions_are_in_order:
  assumes res: "submit_task tz from_iso gh other clock limited ticks cs k payload (l, db) = ((l', db'), Inr r)"
    and wf: "work_wf db" and ids: "distinct (map tk_id (wk_tasks db))"
    and o: "\<And>x. (work_step local_env)\<^sup>*\<^sup>* x (other x)"
  shows "sr_task r \<in> set (wk_tasks db) \<and> tk_id (sr_task r) = k \<and> tk_trial_id (sr_task r) = cs_trial_id cs \<and>
    require_active_window tz from_iso (wk_app db) cs (sr_task r) (clock 0) = Inr () \<and>
    (\<forall>a. get_day_audit (cs_id cs) (tk_day_index (sr_task r)) db = Some a \<longrightarrow> clock 1 < da_cutoff_at a) \<and>
    (\<forall>u \<in> set (wk_tasks db). tk_trial_id u = cs_trial_id cs \<and> tk_day_index u < tk_day_index (sr_task r) \<longrightarrow>
       get_submission (cs_id cs) (tk_id u) db \<noteq> None) \<and>
    (\<forall>s \<in> set (wk_submissions db). submission_key s \<noteq> (cs_id cs, k)) \<and>
    (\<exists>before. wk_submissions db' = before @ [sr_submission r] \<and> (\<forall>s \<in> set before. submission_key s \<noteq> (cs_id cs, k)))"
proof -
  obtain t content_json tasks s now db2 where v: "validate_submission_flow tz from_iso clock cs k payload db = Inr (t, content_json, tasks)"
    and st: "settle_submission tz from_iso cs t tasks s now (clock 5) db2 = (db', Inr r)" using submit_task_InrD[OF res] by metis
  have t: "sr_task r = t" using st by (rule settle_submission_InrD)
  obtain p where p: "load_task k db = Some t" "tk_trial_id t = cs_trial_id cs"
    "require_active_window tz from_iso (wk_app db) cs t (clock 0) = Inr ()"
    "ensure_day_flow_open (clock 1) cs t None db = Inr ()"
    "progress_snapshot tz from_iso cs [] (clock 2) db = Inr p" "k \<notin> set (pg_completed_ids p)"
    "ensure_in_order (pg_current p) k = Inr ()" using validate_flow_InrD[OF v] by metis
  note in_tasks = load_task_SomeD[OF p(1)]
  let ?window = "\<lambda>t. compute_task_window tz from_iso (wk_app db) cs t (clock 2)"
  let ?tasks = "tasks_for_trial (cs_trial_id cs) db"
  define submitted where "submitted = map tk_id (filter (\<lambda>t. tk_id t \<in> set (completed_task_ids (cs_id cs) db)) ?tasks)"
  have sub: "set submitted \<subseteq> set (completed_task_ids (cs_id cs) db)" by (auto simp: submitted_def)
  from p(5) have po: "progress_of ?window (clock 2) ?tasks submitted = Inr p"
    by (auto simp: progress_snapshot_def load_tasks_with_completion_state_def Let_def bind_result_Inr_iff submitted_def split: if_splits)
  from p(7) obtain t0 where t0: "pg_current p = Some t0" "tk_id t0 = k" by (auto simp: ensure_in_order_def split: option.splits)
  from current_task_exact(2)[OF po t0(1)] t0(2) p(6) have cur: "t0 \<in> set ?tasks"
    and earlier: "\<forall>u \<in> set ?tasks. tk_day_index u < tk_day_index t0 \<longrightarrow> tk_id u \<in> set (pg_completed_ids p)" by auto
  have "t0 = t" using cur in_tasks t0(2) ids by (auto simp: in_tasks_for_trial distinct_map inj_on_def)
  have kept: "set (pg_completed_ids p) \<subseteq> set submitted"
    using discard_early_kept progress_of_Inr[OF po] by metis
  have "get_submission (cs_id cs) (tk_id u) db \<noteq> None"
    if "u \<in> set (wk_tasks db)" "tk_trial_id u = cs_trial_id cs" "tk_day_index u < tk_day_index t" for u
  proof -
    have "u \<in> set ?tasks" using that by (simp add: in_tasks_for_trial)
    with earlier that(3) \<open>t0 = t\<close> have "tk_id u \<in> set (pg_completed_ids p)" by blast
    with kept sub have "tk_id u \<in> set (completed_task_ids (cs_id cs) db)" by blast
    then show ?thesis unfolding get_submission_None in_completed by force
  qed
  moreover note accepted_row(2)[OF res wf runs_commit[OF o]]
  moreover have "\<forall>s \<in> set (wk_submissions db). submission_key s \<noteq> (cs_id cs, k)"
    using accepted_row(1)[OF res wf runs_commit[OF o]] unfolding get_submission_None by force
  moreover have "clock 1 < da_cutoff_at a" if "get_day_audit (cs_id cs) (tk_day_index t) db = Some a" for a
    using accepted_before_cutoff[OF res _ wf] that unfolding t .
  ultimately show ?thesis using p(2,3) in_tasks unfolding t by blast
qed

section \<open>What an acceptance does\<close>

text \<open>
  Property C34. An accepted submission is the one row of its task with the payload's text, it
  finalises the draft of the task, and when it completes the trial the session is marked
  completed (unless it was already) and the talent partner's notification is queued.
\<close>

theorem accepted_submission_effects:
  assumes res: "submit_task tz from_iso gh other clock limited ticks cs k payload (l, db) = ((l', db'), Inr r)"
    and wf: "work_wf db" and o: "work_commits local_env other"
    and q: "jobs_wf (queue (wk_app db))" "\<And>db. jobs_wf (queue (wk_app db)) \<Longrightarrow> jobs_wf (queue (wk_app (other db)))"
  shows "get_submission (cs_id cs) k db' = Some (sr_submission r) \<and>
    get_submission (cs_id cs) k db = None \<and>
    sb_content_text (sr_submission r) = py_contentText payload \<and> sb_submitted_at (sr_submission r) = clock 3 \<and>
    (\<forall>d. get_draft (cs_id cs) k db' = Some d \<longrightarrow> td_finalized_submission_id d = Some (sb_id (sr_submission r))) \<and>
    (sr_is_complete r \<longrightarrow>
       (cs_status cs \<noteq> ''completed'' \<longrightarrow> (\<forall>c \<in> set (sessions (wk_app db')). cs_id c = cs_id cs \<longrightarrow> cs_status c = ''completed'')) \<and>
       (\<exists>j \<in> set (jobs (queue (wk_app db'))). j_job_type j = ''candidate_completed_notification'' \<and>
          j_idempotency_key j = candidate_completed_key (cs_id cs)))"
proof -
  obtain t content_json tasks actions diff ws db1 db2 s where v: "validate_submission_flow tz from_iso clock cs k payload db = Inr (t, content_json, tasks)"
    and run: "(if is_code_task t then run_code_submission gh (clock 4) cs t payload else lift_op (Inr (None, None, None))) db = (db1, Inr (actions, diff, ws))"
    and c: "create_submission other cs t (py_contentText payload) (clock 3) content_json actions ws diff db1 = (db2, Inr s)"
    and st: "settle_submission tz from_iso cs t tasks s (clock 3) (clock 5) db2 = (db', Inr r)" by (rule submit_task_InrD[OF res])
  have k: "tk_id t = k" using validate_flow_InrD[OF v] load_task_SomeD by metis
  have h1: "reached_from local_env db db1" using run run_code_reached[OF reached_self[OF wf]] reached_self[OF wf]
    by (auto simp: lift_op_def split: if_splits)
  have h2: "reached_from local_env db db2" using create_submission_reached[OF h1 o c] .
  have "get_submission (cs_id cs) (tk_id t) (other db1) = None \<and> s \<in> set (wk_submissions db2) \<and> submission_key s = (cs_id cs, tk_id t)"
    using c by (rule create_submission_Inr) (intro conjI; assumption)
  then have s: "get_submission (cs_id cs) k (other db1) = None" "s \<in> set (wk_submissions db2)" "submission_key s = (cs_id cs, k)"
    unfolding k by blast+
  have row: "sb_content_text s = py_contentText payload \<and> sb_submitted_at s = clock 3"
    using c by (rule create_submission_Inr) (simp add: build_submission_def Let_def)
  have db2: "wk_app db2 = wk_app (other db1) \<and> wk_drafts db2 = wk_drafts (other db1)"
    using c by (rule create_submission_Inr) simp
  have wf': "work_wf db'" using settle_submission_reached[OF h2 s(2) _ st] s(3) k by (simp add: reached_from_def)
  note subs = settle_keeps_submissions[OF st]
  have got: "get_submission (cs_id cs) k db' = Some s" using get_submission_in[OF wf'] s(2,3) subs by simp
  note new = accepted_row(1)[OF res wf o]
  define pending where "pending = (case get_draft (cs_id cs) k db2 of None \<Rightarrow> db2 | Some d \<Rightarrow> mark_finalized d (sb_id s) (clock 3) db2)"
  obtain committed p db3 where p: "progress_after_submission tz from_iso cs tasks (clock 3) (clock 5) pending = Inr (db3, committed, p)"
    "sr_task r = t" "sr_submission r = s" "sr_is_complete r = pg_is_complete p"
    "if pg_is_complete p then (\<exists>j app. enqueue_candidate_completed_notification (cs_id cs) (cs_trial_id cs) (clock 5) (wk_app db3) = Inr (j, app) \<and>
        db' = db3\<lparr>wk_app := app\<rparr>) else db' = db3" using settle_submission_InrD[OF st] unfolding pending_def k by metis
  have db3: "db3 = (if pg_is_complete p \<and> cs_status cs \<noteq> ''completed'' then complete_session cs (clock 3) pending else pending)"
    using p(1) by (rule progress_after_submission_cases)
  have "wk_drafts db' = wk_drafts pending"
    using p(5) db3 by (auto simp: complete_session_def split: if_splits)
  moreover have "td_finalized_submission_id d = Some (sb_id s)" if "get_draft (cs_id cs) k pending = Some d" for d
  proof (cases "get_draft (cs_id cs) k db2")
    case None
    with that show ?thesis by (simp add: pending_def)
  next
    case (Some d0)
    then have d0: "d0 \<in> set (wk_drafts db2)" "draft_key d0 = (cs_id cs, k)" by (auto simp: get_draft_def dest: find_row_SomeD)
    have "td_finalized_submission_id d0 = None"
    proof (rule ccontr)
      assume "td_finalized_submission_id d0 \<noteq> None"
      with d0 db2 reached_commits[OF h1 o] obtain s0 where "s0 \<in> set (wk_submissions (other db1))" "submission_key s0 = (cs_id cs, k)"
        unfolding reached_from_def work_wf_def by (metis option.exhaust)
      with s(1) show False unfolding get_submission_None by force
    qed
    with Some that d0(2) show ?thesis
      by (auto simp: pending_def mark_finalized_def get_draft_def update_rows_def draft_key_def dest!: find_row_SomeD)
  qed
  ultimately have drafts: "td_finalized_submission_id d = Some (sb_id s)" if "get_draft (cs_id cs) k db' = Some d" for d
    using that by (simp add: get_draft_def)
  have app: "wk_app pending = wk_app (other db1)" using db2 by (auto simp: pending_def mark_finalized_def split: option.splits)
  have q1: "jobs_wf (queue (wk_app db1))"
    using run q(1) by (auto simp: lift_op_def run_code_submission_def record_run_result_def Let_def split: if_splits sum.splits prod.splits option.splits)
  have done_facts: "(cs_status cs \<noteq> ''completed'' \<longrightarrow> (\<forall>c \<in> set (sessions (wk_app db')). cs_id c = cs_id cs \<longrightarrow> cs_status c = ''completed'')) \<and>
       (\<exists>j \<in> set (jobs (queue (wk_app db'))). j_job_type j = ''candidate_completed_notification'' \<and>
          j_idempotency_key j = candidate_completed_key (cs_id cs))" if "pg_is_complete p"
  proof -
    from p(5) that obtain j app where e: "enqueue_candidate_completed_notification (cs_id cs) (cs_trial_id cs) (clock 5) (wk_app db3) = Inr (j, app)"
      and db': "db' = db3\<lparr>wk_app := app\<rparr>" by auto
    have "queue (wk_app db3) = queue (wk_app (other db1))" using db3 app by (simp add: complete_session_def)
    then have "jobs_wf (queue (wk_app db3))" using q(2)[OF q1] by simp
    from notification_job_queued[OF e[unfolded enqueue_candidate_completed_notification_def] this completed_key_stripped(2,1)]
    obtain x where "get_trial (cs_trial_id cs) (wk_app db3) = Some x" "jobs_wf (queue app)" and j: "j \<in> set (jobs (queue app))" "job_key j = (t_company_id x, CANDIDATE_COMPLETED_NOTIFICATION_JOB_TYPE, candidate_completed_key (cs_id cs))"
      and a: "app = (wk_app db3)\<lparr>queue := queue app\<rparr>" .
    have "sessions app = sessions (wk_app db3)" by (subst a) simp
    with that db3 have "cs_status c = ''completed''" if "c \<in> set (sessions app)" "cs_id c = cs_id cs" "cs_status cs \<noteq> ''completed''" for c
      using that by (auto simp: complete_session_def set_update_rows)
    with j show ?thesis by (auto simp: db' job_key_def CANDIDATE_COMPLETED_NOTIFICATION_JOB_TYPE_def)
  qed
  show ?thesis unfolding p(3,4) using got new row drafts done_facts by blast
qed

section \<open>The close of a text task\<close>

lemma finalize_text_open:
  assumes "finalize_text_for tz from_iso other c k day scheduled now at db = (db', r)"
    and "get_session c (wk_app db) = Some cs" "load_task_for_session k (cs_trial_id cs) db = Some t"
    and "py_lower (py_strip (tk_type t)) \<in> set TEXT_TASK_TYPES"
    and "compute_task_window tz from_iso (wk_app db) cs t now = Inr w" "tw_window_end_at w = Some end_at" "end_at \<le> now"
  shows "finalize_submission_from_cutoff tz from_iso other cs t now at db = (db', r)"
  using assms by (simp add: finalize_text_for_def Let_def)

lemma get_session_id: "get_session c app = Some cs \<Longrightarrow> cs_id cs = c"
  by (auto simp: get_session_def dest: find_row_SomeD)

lemma load_task_for_session_id: "load_task_for_session k trial db = Some t \<Longrightarrow> tk_id t = k"
  by (auto simp: load_task_for_session_def dest: find_row_SomeD)

lemma finalize_text_for_cases:
  assumes r: "finalize_text_for tz from_iso other c k day scheduled now at db = (db', r)"
  obtains app where "db' = db\<lparr>wk_app := app\<rparr>"
  | cs t where "get_session c (wk_app db) = Some cs" "load_task_for_session k (cs_trial_id cs) db = Some t"
      "finalize_submission_from_cutoff tz from_iso other cs t now at db = (db', r)"
proof (cases "db' = db")
  case True
  then show thesis by (intro that(1)[of "wk_app db"]) simp
next
  case False
  from r False obtain cs where cs: "get_session c (wk_app db) = Some cs" by (auto simp: finalize_text_for_def split: option.splits)
  from r False cs obtain t where t: "load_task_for_session k (cs_trial_id cs) db = Some t"
    by (auto simp: finalize_text_for_def split: option.splits)
  from r False cs t obtain w e where w: "compute_task_window tz from_iso (wk_app db) cs t now = Inr w" "tw_window_end_at w = Some e"
    by (auto simp: finalize_text_for_def Let_def split: option.splits sum.splits if_splits)
  show thesis
  proof (cases "now < e")
    case True
    with r False cs t w have "reschedule_close from_iso cs t e now scheduled db = (db', r)"
      by (simp add: finalize_text_for_def Let_def split: if_splits)
    with reschedule_app that(1) show thesis by blast
  next
    case later: False
    with r False cs t w have "finalize_submission_from_cutoff tz from_iso other cs t now at db = (db', r)"
      by (simp add: finalize_text_for_def Let_def split: if_splits)
    with cs t that(2) show thesis by blast
  qed
qed

text \<open>A close that finds the task submitted adds nothing.\<close>

lemma finalize_text_submitted:
  assumes r: "finalize_text_for tz from_iso other c k day scheduled now at db = (db', r)"
    and s: "get_submission c k db \<noteq> None" and wf: "work_wf db" and o: "work_commits local_env other"
  shows "wk_submissions db' = wk_submissions db"
  using r
proof (cases rule: finalize_text_for_cases)
  case (2 cs t)
  have "cs_id cs = c" "tk_id t = k" using 2(1,2) get_session_id load_task_for_session_id by blast+
  with s obtain s0 where "get_submission (cs_id cs) (tk_id t) db = Some s0" by auto
  note s0 = this get_submission_SomeD[OF this]
  let ?draft = "get_draft (cs_id cs) (tk_id t) db"
  have "\<exists>response. finish_close tz from_iso cs ?draft s0 now at response db = (db', r)"
    using 2(3) unfolding finalize_submission_from_cutoff_def Let_def s0(1) option.case by blast
  then obtain response where "finish_close tz from_iso cs ?draft s0 now at response db = (db', r)" by blast
  moreover have "?draft = Some d \<Longrightarrow> draft_key d = submission_key s0" for d
    using s0(2) by (auto simp: get_draft_def submission_key_def dest: find_row_SomeD)
  ultimately show ?thesis using finish_close_reached[OF reached_self[OF wf] s0(2)[THEN conjunct1]] by blast
qed simp

text \<open>
  Property C13. Once the window of a text task has ended, running its close job leaves a
  submission for the task, whatever happens after the insert: the one that was there or that
  another transaction committed first, otherwise one with the content of the draft, or with the
  marker that there was none. Running the job again, at any time, adds nothing.
\<close>

theorem close_job_leaves_a_submission:
  assumes run: "handle_day_close_finalize_text tz from_iso other now at payload db = (db', r)"
    and wf: "work_wf db" and o: "work_commits local_env other"
    and ids: "parse_positive_int (dict_get ''candidateSessionId'' payload) = Inr (Some c)"
      "parse_positive_int (dict_get ''taskId'' payload) = Inr (Some k)" "parse_positive_int (dict_get ''dayIndex'' payload) = Inr day"
    and rows: "get_session c (wk_app db) = Some cs" "load_task_for_session k (cs_trial_id cs) db = Some t"
    and type: "py_lower (py_strip (tk_type t)) \<in> set TEXT_TASK_TYPES"
    and ended: "compute_task_window tz from_iso (wk_app db) cs t now = Inr w" "tw_window_end_at w = Some end_at" "end_at \<le> now"
  shows "\<exists>s. get_submission c k db' = Some s \<and>
      (\<forall>s0. get_submission c k db = Some s0 \<longrightarrow> wk_submissions db' = wk_submissions db) \<and>
      (\<forall>s0. get_submission c k db = None \<and> get_submission c k (other db) = Some s0 \<longrightarrow> wk_submissions db' = wk_submissions (other db)) \<and>
      (get_submission c k db = None \<and> get_submission c k (other db) = None \<longrightarrow>
         wk_submissions db' = wk_submissions (other db) @ [s] \<and> sb_submitted_at s = now \<and>
         (sb_content_text s, sb_content_json s) =
           (case get_draft c k db of None \<Rightarrow> (JStr [], NO_DRAFT_AT_CUTOFF_MARKER) | Some d \<Rightarrow> (td_content_text d, td_content_json d))) \<and>
      (\<forall>other2 now2 at2 db2 r2. work_commits local_env other2 \<and> handle_day_close_finalize_text tz from_iso other2 now2 at2 payload db' = (db2, r2) \<longrightarrow>
         wk_submissions db2 = wk_submissions db')"
proof -
  from run ids have "finalize_text_for tz from_iso other c k day (parse_iso_datetime from_iso (dict_get ''windowEndAt'' payload)) now at db = (db', r)"
    by (simp add: handle_day_close_finalize_text_def bind_op_def lift_op_def)
  note f = finalize_text_open[OF this rows type ended]
  have id: "cs_id cs = c" "tk_id t = k" using rows get_session_id load_task_for_session_id by blast+
  have wf': "work_wf db'" using finalize_cutoff_reached[OF reached_self[OF wf] o f] by (simp add: reached_from_def)
  have once: "wk_submissions db2 = wk_submissions db'"
    if "get_submission c k db' = Some s" "work_commits local_env other2" "handle_day_close_finalize_text tz from_iso other2 now2 at2 payload db' = (db2, r2)"
    for s other2 now2 at2 db2 r2
  proof -
    from that(3) ids have "finalize_text_for tz from_iso other2 c k day (parse_iso_datetime from_iso (dict_get ''windowEndAt'' payload)) now2 at2 db' = (db2, r2)"
      by (simp add: handle_day_close_finalize_text_def bind_op_def lift_op_def)
    from finalize_text_submitted[OF this _ wf' that(2)] that(1) show ?thesis by simp
  qed
  note same = get_submission_def
  show ?thesis
  proof (cases "get_submission c k db")
    case (Some s)
    have "finalize_text_for tz from_iso other c k day (parse_iso_datetime from_iso (dict_get ''windowEndAt'' payload)) now at db = (db', r)" by fact
    from finalize_text_submitted[OF this _ wf o] Some have subs: "wk_submissions db' = wk_submissions db" by simp
    with Some have got: "get_submission c k db' = Some s" by (simp add: get_submission_def)
    show ?thesis using subs Some got once[OF got] by (intro exI[of _ s]) auto
  next
    case None
    from reached_self[OF wf] o f show ?thesis
    proof (cases rule: finalize_cutoff_facts)
      case 1
      with None id show ?thesis by simp
    next
      case 2
      then obtain s where s: "get_submission c k (other db) = Some s" using id by auto
      with 2(2) have got: "get_submission c k db' = Some s" by (simp add: get_submission_def)
      show ?thesis using 2(2) None s got once[OF got] by (intro exI[of _ s]) auto
    next
      case (3 s)
      have "s \<in> set (wk_submissions db')" using 3(3) by simp
      from get_submission_in[OF wf' this, of c k] 3(5) id have got: "get_submission c k db' = Some s" by simp
      show ?thesis using 3(1,3,6,7) id None got once[OF got] by (intro exI[of _ s]) auto
    qed
  qed
qed

section \<open>The cut-off of a coding day\<close>

lemma response_status [simp]:
  "dict_get ''status'' (close_response s c k d @ extra) = JStr s" "dict_get ''status'' (close_response s c k d) = JStr s"
  "dict_get ''status'' (cutoff_response s cs t a @ extra) = JStr s" "dict_get ''status'' (cutoff_response s cs t a) = JStr s"
  by (simp_all add: close_response_def cutoff_response_def dict_get_def dict_lookup_def)

lemma record_cutoff_persisted:
  assumes r: "record_cutoff gh other cs t w at db = (db', Inr resp)" and st: "dict_get ''status'' resp = JStr ''cutoff_persisted''"
  obtains a status where "revoke_repo_write_access gh (py_strip (ws_repo_full_name w)) (cs_github_username cs) = Inr status"
    "audit_key a = (cs_id cs, tk_day_index t)" "da_cutoff_at a = at" "a \<in> set (wk_audits db')"
proof -
  from r obtain status where "revoke_repo_write_access gh (py_strip (ws_repo_full_name w)) (cs_github_username cs) = Inr status"
    unfolding record_cutoff_def Let_def by (elim bind_opE lift_opE)
  moreover from r obtain db1 a x where
    a: "create_day_audit_once other a db1 = (db', Inr x)" "audit_key a = (cs_id cs, tk_day_index t)" "da_cutoff_at a = at"
    and resp: "snd x \<or> dict_get ''status'' resp = JStr ''no_op_cutoff_exists''"
    unfolding record_cutoff_def Let_def
    by (auto elim!: bind_opE lift_opE split: option.splits prod.splits if_splits simp: audit_key_def)
  from a(1) have "x = (a, True) \<and> a \<in> set (wk_audits db')" using resp st
    by (auto elim!: create_day_audit_once_cases)
  ultimately show thesis using that a by blast
qed

lemma enforce_for_persisted:
  assumes r: "enforce_for gh other c k day at db = (db', Inr resp)" and st: "dict_get ''status'' resp = JStr ''cutoff_persisted''"
  obtains cs t w where "get_session c (wk_app db) = Some cs" "load_task_for_session k (cs_trial_id cs) db = Some t"
    "tk_day_index t \<in> {2, 3}" "get_day_audit c (tk_day_index t) db = None" "record_cutoff gh other cs t w at db = (db', Inr resp)"
    "enforcement_workspace cs t db = Some w"
  using assms unfolding enforce_for_def
  by (auto simp: Let_def DAY_CLOSE_ENFORCEMENT_DAY_INDEXES_def split: option.splits if_splits)

text \<open>
  Property C4. A cut-off is recorded only after the candidate lost write access to the
  repository, at the end of the window the job names. From then on the day always has a cut-off,
  with that commit and branch; its time stays as recorded unless the day-window control of a
  local or test environment moves it; and no request that reads a clock at or past the cut-off
  in force ever submits a task of that day.
\<close>

theorem cutoff_closes_the_day:
  assumes run: "handle_day_close_enforcement from_iso gh other now payload db = (db1, Inr resp)"
    and st: "dict_get ''status'' resp = JStr ''cutoff_persisted''" and wf: "work_wf db"
    and o: "\<And>x. (work_step local_env)\<^sup>*\<^sup>* x (other x)"
  shows "\<exists>cs t w a. enforcement_workspace cs t db = Some w \<and>
    (\<exists>status. revoke_repo_write_access gh (py_strip (ws_repo_full_name w)) (cs_github_username cs) = Inr status) \<and>
    da_cutoff_at a = (case parse_iso_datetime from_iso (dict_get ''windowEndAt'' payload) of Some at \<Rightarrow> at | None \<Rightarrow> now) \<and>
    get_day_audit (cs_id cs) (tk_day_index t) db = None \<and> get_day_audit (cs_id cs) (tk_day_index t) db1 = Some a \<and>
    (\<forall>db2. (work_step local_env)\<^sup>*\<^sup>* db1 db2 \<longrightarrow>
      (\<exists>a2. get_day_audit (cs_id cs) (tk_day_index t) db2 = Some a2 \<and> da_cutoff_commit_sha a2 = da_cutoff_commit_sha a \<and>
        da_eval_basis_ref a2 = da_eval_basis_ref a \<and> (\<not> local_env \<longrightarrow> da_cutoff_at a2 = da_cutoff_at a) \<and>
        (\<forall>tz read gh2 other2 clock limited ticks cs2 k p l l' db3 r.
           submit_task tz read gh2 other2 clock limited ticks cs2 k p (l, db2) = ((l', db3), Inr r) \<and>
           cs_id cs2 = cs_id cs \<and> tk_day_index (sr_task r) = tk_day_index t \<longrightarrow> clock 1 < da_cutoff_at a2)))"
proof -
  let ?at = "case parse_iso_datetime from_iso (dict_get ''windowEndAt'' payload) of Some at \<Rightarrow> at | None \<Rightarrow> now"
  from run st obtain c k day where e: "enforce_for gh other c k day ?at db = (db1, Inr resp)"
    by (auto simp: handle_day_close_enforcement_def bind_op_def lift_op_def split: sum.splits option.splits if_splits)
  from enforce_for_persisted[OF e st] obtain cs t w where
    cs: "get_session c (wk_app db) = Some cs" "load_task_for_session k (cs_trial_id cs) db = Some t" "tk_day_index t \<in> {2, 3}"
    "get_day_audit c (tk_day_index t) db = None" "record_cutoff gh other cs t w ?at db = (db1, Inr resp)"
    "enforcement_workspace cs t db = Some w" .
  have c: "cs_id cs = c" using get_session_id[OF cs(1)] .
  from record_cutoff_persisted[OF cs(5) st] obtain a status where
    a: "revoke_repo_write_access gh (py_strip (ws_repo_full_name w)) (cs_github_username cs) = Inr status"
    "audit_key a = (cs_id cs, tk_day_index t)" "da_cutoff_at a = ?at" "a \<in> set (wk_audits db1)" .
  have wf1: "work_wf db1" using enforce_for_reached[OF reached_self[OF wf] runs_commit[OF o] e] by (simp add: reached_from_def)
  note here = get_day_audit_in[OF wf1 a(4,2)]
  have later: "\<exists>a2. get_day_audit (cs_id cs) (tk_day_index t) db2 = Some a2 \<and> da_cutoff_commit_sha a2 = da_cutoff_commit_sha a \<and>
      da_eval_basis_ref a2 = da_eval_basis_ref a \<and> (\<not> local_env \<longrightarrow> da_cutoff_at a2 = da_cutoff_at a) \<and>
      (\<forall>tz read gh2 other2 clock limited ticks cs2 k p l l' db3 r.
         submit_task tz read gh2 other2 clock limited ticks cs2 k p (l, db2) = ((l', db3), Inr r) \<and>
         cs_id cs2 = cs_id cs \<and> tk_day_index (sr_task r) = tk_day_index t \<longrightarrow> clock 1 < da_cutoff_at a2)"
    if run2: "(work_step local_env)\<^sup>*\<^sup>* db1 db2" for db2
  proof -
    note r = work_steps_reached[OF run2 wf1]
    obtain a2 where a2: "get_day_audit (cs_id cs) (tk_day_index t) db2 = Some a2" "da_cutoff_commit_sha a2 = da_cutoff_commit_sha a"
      "da_eval_basis_ref a2 = da_eval_basis_ref a" "\<not> local_env \<Longrightarrow> a2 = a" using cutoff_kept[OF r here] by metis
    have "clock 1 < da_cutoff_at a2"
      if sub: "submit_task tz read gh2 other2 clock limited ticks cs2 k p (l, db2) = ((l', db3), Inr r)"
        and same: "cs_id cs2 = cs_id cs" "tk_day_index (sr_task r) = tk_day_index t"
      for tz read gh2 other2 clock limited ticks cs2 k p l l' db3 r
      using accepted_before_cutoff[OF sub] a2(1) same r by (simp add: reached_from_def)
    then show ?thesis using a2 by (intro exI[of _ a2]) auto
  qed
  show ?thesis
  proof (intro exI[of _ cs] exI[of _ t] exI[of _ w] exI[of _ a] conjI)
    show "get_day_audit (cs_id cs) (tk_day_index t) db = None" using cs(4) c by simp
  qed (use cs(6) a(1,3) here in blast, use cs(6) a(1,3) here in blast, use a(3) in blast, use here in blast,
      rule allI, rule impI, erule later)
qed

section \<open>Progress\<close>


section \<open>Instances\<close>

definition demo_text_task :: task where
  "demo_text_task = \<lparr>tk_id = 20, tk_trial_id = 3, tk_day_index = 1, tk_type = ''design''\<rparr>"

definition no_cleanup :: cleanup_columns where
  "no_cleanup = \<lparr>cl_status = None, cl_attempted_at = None, cl_cleaned_at = None, cl_error = None, cl_retention_expires_at = None\<rparr>"

definition demo_workspace :: workspace where
  "demo_workspace = \<lparr>ws_id = ''w'', ws_workspace_group_id = None, ws_candidate_session_id = 7, ws_task_id = 21,
     ws_template_repo_full_name = Some ''org/base'', ws_repo_full_name = ''org/repo'',
     ws_default_branch = Some ''main'', ws_bootstrap_commit_sha = Some ''b0'', ws_created_at = 1,
     ws_latest_commit_sha = None, ws_last_workflow_run_id = None, ws_last_workflow_conclusion = None,
     ws_last_test_summary_json = None, ws_cleanup = no_cleanup, ws_access_revoked_at = None, ws_access_revocation_error = None\<rparr>"

definition demo_candidate :: candidate_session where
  "demo_candidate = demo_scheduled\<lparr>cs_status := ''in_progress'', cs_github_username := Some ''ada''\<rparr>"

definition demo_work :: "task list \<Rightarrow> work_db" where
  "demo_work tasks = \<lparr>wk_app = demo_app\<lparr>sessions := [demo_candidate]\<rparr>, wk_tasks = tasks, wk_submissions = [], wk_next_submission_id = 1,
     wk_drafts = [], wk_audits = [], wk_workspaces = [demo_workspace], wk_workspace_groups = []\<rparr>"

definition demo_github :: github where
  "demo_github = \<lparr>gh_dispatch_and_wait = (\<lambda>_ _ _. Inl (GithubError None ''down'')),
     gh_get_branch = (\<lambda>_ _. Inr (JObj [(''commit'', JObj [(''sha'', JStr ''abc'')])])),
     gh_get_compare = (\<lambda>_ _ _. Inr []), gh_get_repo = (\<lambda>_. Inr []), gh_remove_collaborator = (\<lambda>_ _. Inr ())\<rparr>"

definition demo_close :: obj where
  "demo_close = [(''candidateSessionId'', JInt 7), (''taskId'', JInt 20), (''dayIndex'', JInt 1)]"

definition demo_payload :: submission_payload where
  "demo_payload = \<lparr>py_contentText = JStr ''my plan'', py_reflection = JNull, py_branch = None, py_workflowInputs = None\<rparr>"

abbreviation "demo_submit tasks \<equiv>
  submit_task demo_zones (\<lambda>_. None) demo_github (\<lambda>db. db) (\<lambda>_. seconds 40000) True 0 demo_candidate 20 demo_payload
    (new_limiter, demo_work tasks)"


lemma demo_work_wf: "work_wf (demo_work tasks)"
  by (simp add: work_wf_def demo_work_def)

lemma demo_accepted:
  obtains l db r where "demo_submit [demo_text_task] = ((l, db), Inr r)" "sr_is_complete r"
    "get_submission 7 20 db \<noteq> None"
proof -
  have "case demo_submit [demo_text_task] of ((l, db), Inl e) \<Rightarrow> False
    | ((l, db), Inr r) \<Rightarrow> sr_is_complete r \<and> get_submission 7 20 db \<noteq> None" by code_simp
  then show thesis using that by (auto split: prod.splits sum.splits)
qed

theorem accepted_submissions_are_in_order_witness:
  "\<exists>l db r. demo_submit [demo_text_task, demo_task] = ((l, db), Inr r) \<and>
     require_active_window demo_zones (\<lambda>_. None) (wk_app (demo_work [])) demo_candidate (sr_task r) (seconds 40000) = Inr ()"
proof -
  have "case demo_submit [demo_text_task, demo_task] of ((l, db), Inl e) \<Rightarrow> False | ((l, db), Inr r) \<Rightarrow> True" by code_simp
  then obtain l db r where s: "demo_submit [demo_text_task, demo_task] = ((l, db), Inr r)" by (auto split: prod.splits sum.splits)
  have "distinct (map tk_id (wk_tasks (demo_work [demo_text_task, demo_task])))" by code_simp
  from accepted_submissions_are_in_order[OF s demo_work_wf this rtranclp.rtrancl_refl] s show ?thesis by (auto simp: demo_work_def)
qed

theorem accepted_submission_effects_witness:
  "\<exists>l db r. demo_submit [demo_text_task] = ((l, db), Inr r) \<and> sb_content_text (sr_submission r) = JStr ''my plan'' \<and>
     (\<forall>c \<in> set (sessions (wk_app db)). cs_id c = 7 \<longrightarrow> cs_status c = ''completed'') \<and>
     (\<exists>j \<in> set (jobs (queue (wk_app db))). j_idempotency_key j = ''candidate_completed:7'')"
proof -
  obtain l db r where s: "demo_submit [demo_text_task] = ((l, db), Inr r)" and c: "sr_is_complete r" by (rule demo_accepted)
  have q: "jobs_wf (queue (wk_app (demo_work [demo_text_task])))" using busy_db_wf by (simp add: demo_work_def demo_app_def)
  have k: "candidate_completed_key 7 = ''candidate_completed:7''" "cs_id demo_candidate = 7" "cs_status demo_candidate \<noteq> ''completed''"
    by code_simp+
  from accepted_submission_effects[OF s demo_work_wf work_commits_id[of False] q] c k s show ?thesis
    by (auto simp: demo_payload_def)
qed


abbreviation "demo_finalize \<equiv>
  handle_day_close_finalize_text demo_zones (\<lambda>_. None) (\<lambda>db. db) (seconds 70000) (seconds 70000) demo_close"

theorem close_job_leaves_a_submission_witness:
  "\<exists>db r s. demo_finalize (demo_work [demo_text_task]) = (db, r) \<and> get_submission 7 20 db = Some s \<and>
     sb_content_json s = NO_DRAFT_AT_CUTOFF_MARKER"
proof -
  let ?db = "demo_work [demo_text_task]"
  obtain db r where run: "demo_finalize ?db = (db, r)" by fastforce
  have ids: "parse_positive_int (dict_get ''candidateSessionId'' demo_close) = Inr (Some 7)"
    "parse_positive_int (dict_get ''taskId'' demo_close) = Inr (Some 20)"
    "parse_positive_int (dict_get ''dayIndex'' demo_close) = Inr (Some 1)" by code_simp+
  have rows: "get_session 7 (wk_app ?db) = Some demo_candidate" "load_task_for_session 20 (cs_trial_id demo_candidate) ?db = Some demo_text_task"
    "py_lower (py_strip (tk_type demo_text_task)) \<in> set TEXT_TASK_TYPES" by code_simp+
  have "case compute_task_window demo_zones (\<lambda>_. None) (wk_app ?db) demo_candidate demo_text_task (seconds 70000) of
      Inl _ \<Rightarrow> False | Inr w \<Rightarrow> tw_window_end_at w = Some (seconds 61200)" by code_simp
  then obtain w where w: "compute_task_window demo_zones (\<lambda>_. None) (wk_app ?db) demo_candidate demo_text_task (seconds 70000) = Inr w"
    "tw_window_end_at w = Some (seconds 61200)" by (auto split: sum.splits)
  have late: "seconds 61200 \<le> seconds 70000" by simp
  have none: "get_submission 7 20 ?db = None" "get_draft 7 20 ?db = None" by (simp_all add: demo_work_def get_submission_def get_draft_def)
  from close_job_leaves_a_submission[OF run demo_work_wf work_commits_id[of False] ids rows w late] none run show ?thesis by auto
qed

definition demo_enforcement :: obj where
  "demo_enforcement = [(''candidateSessionId'', JInt 7), (''taskId'', JInt 21), (''dayIndex'', JInt 2)]"

theorem cutoff_closes_the_day_witness:
  "\<exists>db a. get_day_audit 7 2 db = Some a \<and> da_cutoff_at a = seconds 150000 \<and>
     (\<forall>db'. (work_step False)\<^sup>*\<^sup>* db db' \<longrightarrow> (\<exists>a'. get_day_audit 7 2 db' = Some a' \<and> da_cutoff_at a' = seconds 150000))"
proof -
  let ?run = "handle_day_close_enforcement (\<lambda>_. None) demo_github (\<lambda>db. db) (seconds 150000) demo_enforcement (demo_work [demo_task])"
  have "case ?run of (_, Inl _) \<Rightarrow> False | (db, Inr resp) \<Rightarrow> dict_get ''status'' resp = JStr ''cutoff_persisted''"
    by code_simp
  then obtain db resp where run: "?run = (db, Inr resp)" and st: "dict_get ''status'' resp = JStr ''cutoff_persisted''"
    by (auto split: prod.splits sum.splits)
  have own: "\<forall>x. (work_step False)\<^sup>*\<^sup>* x ((\<lambda>db. db) x)" by simp
  have at: "(case parse_iso_datetime (\<lambda>_. None) (dict_get ''windowEndAt'' demo_enforcement) of Some at \<Rightarrow> at | None \<Rightarrow> seconds 150000) = seconds 150000"
    by code_simp
  have one: "map audit_key (wk_audits db) = [(7, 2)]"
  proof -
    have "map audit_key (wk_audits (fst ?run)) = [(7, 2)]" by code_simp
    then show ?thesis unfolding run by simp
  qed
  note f = cutoff_closes_the_day[OF run st demo_work_wf own[rule_format]]
  show ?thesis using f
  proof (elim exE conjE)
    fix cs :: candidate_session and t :: task and w a
    assume at_a: "da_cutoff_at a = (case parse_iso_datetime (\<lambda>_. None) (dict_get ''windowEndAt'' demo_enforcement) of Some at \<Rightarrow> at | None \<Rightarrow> seconds 150000)"
      and here: "get_day_audit (cs_id cs) (tk_day_index t) db = Some a"
      and all: "\<forall>db2. (work_step False)\<^sup>*\<^sup>* db db2 \<longrightarrow>
        (\<exists>a2. get_day_audit (cs_id cs) (tk_day_index t) db2 = Some a2 \<and> da_cutoff_commit_sha a2 = da_cutoff_commit_sha a \<and>
          da_eval_basis_ref a2 = da_eval_basis_ref a \<and> (\<not> False \<longrightarrow> da_cutoff_at a2 = da_cutoff_at a) \<and>
          (\<forall>tz read gh2 other2 clock limited ticks cs2 k p l l' db3 r.
             submit_task tz read gh2 other2 clock limited ticks cs2 k p (l, db2) = ((l', db3), Inr r) \<and>
             cs_id cs2 = cs_id cs \<and> tk_day_index (sr_task r) = tk_day_index t \<longrightarrow> clock 1 < da_cutoff_at a2))"
    have "\<exists>a2. get_day_audit (cs_id cs) (tk_day_index t) db2 = Some a2 \<and> (\<not> False \<longrightarrow> da_cutoff_at a2 = da_cutoff_at a)"
      if "(work_step False)\<^sup>*\<^sup>* db db2" for db2
      by (rule ex_forward[OF all[rule_format, OF that]]) (elim conjE, intro conjI, assumption+)
    moreover have "a \<in> set (wk_audits db)" "audit_key a = (cs_id cs, tk_day_index t)" using get_day_audit_SomeD[OF here] by auto
    with one have "cs_id cs = 7" "tk_day_index t = 2" by (cases "wk_audits db"; auto)+
    ultimately show ?thesis using at_a here unfolding at by (intro exI[of _ db] exI[of _ a]) auto
  qed
qed


end
