(* ===== verification/EvidenceTrail.thy ===== *)
theory EvidenceTrail
  imports PyText "HOL-Library.AList"
begin

text \<open>
  The evidence trail of a Winoe Report: the evaluation input bundle, the citation formats,
  which citations resolve in the bundle, and the validation that lets a report pass only
  when every dimension and every paragraph is backed by citations. The regular expressions
  are deterministic parsers: each of their repetitions ends at a character the rest cannot
  start with. \<open>TypeError\<close> is the error of iterating over a JSON number or truth value.
\<close>

section \<open>The evaluation input\<close>

record code_implementation_evidence =
  ce_repository_snapshot :: json
  ce_repository_url :: "string option"
  ce_repository_reference :: "string option"
  ce_repository_artifact_references :: "json list"
  ce_commit_history :: "json list"
  ce_file_creation_timeline :: "json list"
  ce_test_coverage_progression :: "json list"
  ce_dependency_metadata :: json
  ce_documentation_evolution :: "json list"
  ce_evidence_status :: "(string \<times> string) list"

record day_evaluation_input =
  de_day_index :: int
  de_task_id :: "int option"
  de_task_type :: "string option"
  de_submission_id :: "int option"
  de_content_text :: "string option"
  de_content_json :: json
  de_repo_full_name :: "string option"
  de_commit_sha :: "string option"
  de_workflow_run_id :: "string option"
  de_diff_summary :: json
  de_tests_passed :: "int option"
  de_tests_failed :: "int option"
  de_transcript_reference :: "string option"
  de_transcript_segments :: "json list"
  de_cutoff_commit_sha :: "string option"
  de_eval_basis_ref :: "string option"

record evaluation_input_bundle =
  eb_candidate_session_id :: int
  eb_scenario_version_id :: int
  eb_model_name :: string
  eb_model_version :: string
  eb_prompt_version :: string
  eb_rubric_version :: string
  eb_disabled_day_indexes :: "int list"
  eb_day_inputs :: "day_evaluation_input list"
  eb_code_implementation_evidence :: "code_implementation_evidence option"
  eb_trial_context_json :: json
  eb_ai_policy_snapshot_json :: json
  eb_ai_policy_snapshot_digest :: "string option"
  eb_company_prompt_overrides_json :: json
  eb_trial_prompt_overrides_json :: json

record validation_result =
  vr_passed :: bool
  vr_errors :: "string list"
  vr_warnings :: "string list"
  vr_metadata :: obj

definition FORBIDDEN_TERMS :: "string list" where
  "FORBIDDEN_TERMS = [''recruiter'', ''tenon'', ''simulation'', ''fit profile'', ''fit score'', ''eliminate'',
     ''reject'', ''filter out'', ''screen out'', ''discard'', ''a-player'', ''culture fit'']"

definition KNOWN_DAY_PATH_PREFIXES :: "(string \<times> int) list" where
  "KNOWN_DAY_PATH_PREFIXES = [(''day1-design-doc.md'', 1), (''day1.md'', 1), (''day2-code-submission.md'', 2),
     (''day2.md'', 2), (''day3-code-submission.md'', 3), (''day3.md'', 3), (''day5-reflection.md'', 5), (''day5.md'', 5)]"

section \<open>Citation formats\<close>

definition path_char :: "char \<Rightarrow> bool" where
  "path_char c \<longleftrightarrow> c \<notin> {CHR '':'', CHR ''['', CHR '']''}"

definition is_hex :: "char \<Rightarrow> bool" where
  "is_hex c \<longleftrightarrow> is_digit c \<or> (97 \<le> code_point c \<and> code_point c \<le> 102) \<or> (65 \<le> code_point c \<and> code_point c \<le> 70)"

definition line_range :: "string \<Rightarrow> (string \<times> string \<times> string) option" where
  "line_range s =
     (let s1 = drop 2 s; a = takeWhile is_digit s1; r = dropWhile is_digit s1;
          r1 = drop 2 r; b = takeWhile is_digit r1
      in if starts_with '':L'' s \<and> a \<noteq> [] \<and> starts_with ''-L'' r \<and> b \<noteq> []
         then Some (a, b, dropWhile is_digit r1) else None)"

definition line_ref :: "string \<Rightarrow> (string \<times> string \<times> string \<times> string) option" where
  "line_ref s =
     (let path = takeWhile path_char s
      in if path = [] then None
         else map_option (\<lambda>m. (path, m)) (line_range (dropWhile path_char s)))"

definition commit_ref :: "string \<Rightarrow> (string \<times> string \<times> string \<times> string \<times> string) option" where
  "commit_ref s =
     (let sha = takeWhile is_hex s; r = dropWhile is_hex s
      in if 7 \<le> length sha \<and> length sha \<le> 40 \<and> starts_with '':'' r
         then map_option (\<lambda>m. (sha, m)) (line_ref (tl r)) else None)"

definition markdown_ref_match :: "string \<Rightarrow> (string option \<times> string \<times> string \<times> string) option" where
  "markdown_ref_match s =
     (let plain = (case line_ref s of
            Some (p, a, b, rest) \<Rightarrow> if at_end rest then Some (None, p, a, b) else None
          | None \<Rightarrow> None)
      in case commit_ref s of
           Some (sha, p, a, b, rest) \<Rightarrow> if at_end rest then Some (Some sha, p, a, b) else plain
         | None \<Rightarrow> plain)"

definition clock_text :: "string \<Rightarrow> bool" where
  "clock_text t \<longleftrightarrow> length t = 5 \<and> list_all is_digit (take 2 t) \<and> take 1 (drop 2 t) = '':'' \<and> list_all is_digit (drop 3 t)"

definition time_range :: "string \<Rightarrow> (string \<times> string \<times> string) option" where
  "time_range s =
     (let a = take 5 (drop 1 s); b = take 5 (drop 7 s)
      in if starts_with ''['' s \<and> clock_text a \<and> starts_with ''-'' (drop 6 s) \<and> clock_text b \<and> starts_with '']'' (drop 12 s)
         then Some (a, b, drop 13 s) else None)"

definition timestamp_ref_match :: "string \<Rightarrow> (string \<times> string) option" where
  "timestamp_ref_match s =
     (case time_range s of Some (a, b, rest) \<Rightarrow> if at_end rest then Some (a, b) else None | None \<Rightarrow> None)"

definition submission_prefix :: "string \<Rightarrow> (string \<times> string) option" where
  "submission_prefix s =
     (let r = drop 11 s; ds = takeWhile is_digit r
      in if starts_with ''submission:'' s \<and> ds \<noteq> [] \<and> hd ds \<noteq> CHR ''0''
         then Some (ds, dropWhile is_digit r) else None)"

definition submission_ref_match :: "string \<Rightarrow> string option" where
  "submission_ref_match s =
     (case submission_prefix s of Some (ds, rest) \<Rightarrow> if at_end rest then Some ds else None | None \<Rightarrow> None)"

definition citation_at :: "string \<Rightarrow> bool" where
  "citation_at s \<longleftrightarrow> submission_prefix s \<noteq> None \<or> commit_ref s \<noteq> None \<or> line_ref s \<noteq> None \<or> time_range s \<noteq> None"

fun citation_search :: "string \<Rightarrow> bool" where
  "citation_search [] = citation_at []"
| "citation_search (c # cs) = (citation_at (c # cs) \<or> citation_search cs)"

definition parse_timestamp :: "string \<Rightarrow> int option" where
  "parse_timestamp value =
     (if clock_text value
      then (case (int_digits 0 (take 2 value), int_digits 0 (drop 3 value)) of
              (Some m, Some s) \<Rightarrow> if s \<ge> 60 then None else Some (m * 60 + s)
            | _ \<Rightarrow> None)
      else None)"

definition resolve_day_index_from_path :: "string \<Rightarrow> int option" where
  "resolve_day_index_from_path path =
     (let normalized = py_strip path
      in case map_of KNOWN_DAY_PATH_PREFIXES normalized of
           Some d \<Rightarrow> Some d
         | None \<Rightarrow>
             if starts_with ''day'' normalized \<and> ends_with ''.md'' normalized
             then (case py_int_of_str (drop 3 (before ''.md'' normalized)) of
                     Some i \<Rightarrow> if 1 \<le> i \<and> i \<le> 5 then Some i else None
                   | None \<Rightarrow> None)
             else None)"

section \<open>What the bundle contains\<close>

definition day_inputs :: "evaluation_input_bundle option \<Rightarrow> day_evaluation_input list" where
  "day_inputs bundle = (case bundle of None \<Rightarrow> [] | Some b \<Rightarrow> eb_day_inputs b)"

definition line_count_for_day :: "evaluation_input_bundle option \<Rightarrow> int \<Rightarrow> int option" where
  "line_count_for_day bundle day =
     map_option (\<lambda>d. py_len (py_splitlines (the (de_content_text d))))
       (find_row (\<lambda>d. de_day_index d = day \<and>
          (case de_content_text d of None \<Rightarrow> False | Some t \<Rightarrow> py_strip t \<noteq> [])) (day_inputs bundle))"

definition transcript_segments_for_day :: "evaluation_input_bundle option \<Rightarrow> int \<Rightarrow> obj list" where
  "transcript_segments_for_day bundle day =
     (case find_row (\<lambda>d. de_day_index d = day) (day_inputs bundle) of
        None \<Rightarrow> []
      | Some d \<Rightarrow> objects (de_transcript_segments d))"

definition submission_ids_for_bundle :: "evaluation_input_bundle option \<Rightarrow> int set" where
  "submission_ids_for_bundle bundle = set (List.map_filter de_submission_id (day_inputs bundle))"

text \<open>The index of the code evidence: commits, paths, and which paths a commit vouches for.\<close>

record code_index =
  ci_shas :: "string list"
  ci_paths :: "string list"
  ci_pairs :: "(string \<times> string) list"

definition given :: "json \<Rightarrow> string list" where
  "given v = (if text_of v = [] then [] else [text_of v])"

definition snapshot_shas :: "json \<Rightarrow> string list res" where
  "snapshot_shas snapshot =
     (case snapshot of
        JObj d \<Rightarrow> bind_result (items_or_empty (dict_get ''daySubmissionRefs'' d)) (\<lambda>refs.
          Inr (concat (map (\<lambda>e. given (dict_get ''commitSha'' e) @ given (dict_get ''cutoffCommitSha'' e)) (objects refs))))
      | _ \<Rightarrow> Inr [])"

definition commit_entry :: "obj \<Rightarrow> code_index res" where
  "commit_entry e =
     bind_result (items_or_empty (dict_get ''filesChangedPaths'' e)) (\<lambda>vs.
       let sha = given (dict_get ''sha'' e); paths = concat (map given vs)
       in Inr \<lparr>ci_shas = sha, ci_paths = paths, ci_pairs = List.product sha paths\<rparr>)"

definition timeline_entry :: "obj \<Rightarrow> code_index" where
  "timeline_entry e =
     (let path = given (dict_get ''path'' e);
          sha = (if path = [] then [] else given (dict_get ''firstCommitSha'' e))
      in \<lparr>ci_shas = sha, ci_paths = path, ci_pairs = List.product sha path\<rparr>)"

definition artifact_entry :: "obj \<Rightarrow> code_index" where
  "artifact_entry e =
     (let path = given (json_or (dict_get ''path'' e) (dict_get ''filePath'' e));
          sha = given (json_or (dict_get ''sha'' e) (dict_get ''commitSha'' e))
      in \<lparr>ci_shas = sha, ci_paths = path, ci_pairs = List.product sha path\<rparr>)"

definition join_indexes :: "string list \<Rightarrow> code_index list \<Rightarrow> code_index" where
  "join_indexes shas is = \<lparr>ci_shas = shas @ concat (map ci_shas is), ci_paths = concat (map ci_paths is),
     ci_pairs = concat (map ci_pairs is)\<rparr>"

definition bundle_code :: "evaluation_input_bundle option \<Rightarrow> code_implementation_evidence option" where
  "bundle_code bundle = (case bundle of None \<Rightarrow> None | Some b \<Rightarrow> eb_code_implementation_evidence b)"

definition candidate_code_evidence :: "evaluation_input_bundle option \<Rightarrow> code_index res" where
  "candidate_code_evidence bundle =
     (case bundle_code bundle of
        None \<Rightarrow> Inr (join_indexes [] [])
      | Some ev \<Rightarrow>
          bind_result (snapshot_shas (ce_repository_snapshot ev)) (\<lambda>shas.
          bind_result (map_result commit_entry (objects (ce_commit_history ev))) (\<lambda>commits.
          Inr (join_indexes shas (commits @ map timeline_entry (objects (ce_file_creation_timeline ev)) @
            map artifact_entry (objects (ce_repository_artifact_references ev)))))))"

fun first_some :: "('a \<Rightarrow> 'b option) \<Rightarrow> 'a list \<Rightarrow> 'b option" where
  "first_some f [] = None"
| "first_some f (x # xs) = (case f x of Some y \<Rightarrow> Some y | None \<Rightarrow> first_some f xs)"

definition filled_text :: "json \<Rightarrow> string option" where
  "filled_text v = (case v of JStr s \<Rightarrow> if py_strip s \<noteq> [] then Some s else None | _ \<Rightarrow> None)"

definition content_in_source :: "string \<Rightarrow> json \<Rightarrow> string option" where
  "content_in_source path source =
     (case source of
        JObj d \<Rightarrow> filled_text (dict_get path d)
      | JList items \<Rightarrow>
          first_some (\<lambda>item.
            (case json_or (dict_get ''path'' item) (dict_get ''filePath'' item) of
               JStr p \<Rightarrow> if py_strip p = path
                 then first_some (\<lambda>k. filled_text (dict_get k item)) [''content'', ''contentText'', ''text'', ''md'']
                 else None
             | _ \<Rightarrow> None)) (objects items)
      | _ \<Rightarrow> None)"

definition code_content_for_path :: "evaluation_input_bundle option \<Rightarrow> string \<Rightarrow> string option" where
  "code_content_for_path bundle path =
     (case bundle_code bundle of
        None \<Rightarrow> None
      | Some ev \<Rightarrow> (case ce_repository_snapshot ev of
            JObj d \<Rightarrow> first_some (\<lambda>k. content_in_source path (dict_get k d)) [''fileContents'', ''repositoryFiles'', ''files'']
          | _ \<Rightarrow> None))"

definition transcript_overlap_exists :: "evaluation_input_bundle option \<Rightarrow> int \<Rightarrow> int \<Rightarrow> bool" where
  "transcript_overlap_exists bundle start_seconds end_seconds \<longleftrightarrow>
     list_ex (\<lambda>segment. case (int_of (dict_get ''startMs'' segment), int_of (dict_get ''endMs'' segment)) of
         (Some s, Some e) \<Rightarrow> s \<le> e \<and> s div 1000 \<le> end_seconds \<and> e div 1000 \<ge> start_seconds
       | _ \<Rightarrow> False) (transcript_segments_for_day bundle 4)"

section \<open>Validation\<close>

definition quoted :: "string \<Rightarrow> string" where
  "quoted s = [CHR 0x27] @ s @ [CHR 0x27]"

type_synonym verdict = "string list \<times> string list"

definition complain :: "string \<Rightarrow> verdict res" where
  "complain e = Inr ([e], [])"

definition accept :: "verdict res" where
  "accept = Inr ([], [])"

text \<open>The line range against the content, when the content is known.\<close>

definition check_content :: "string \<Rightarrow> string \<Rightarrow> string \<Rightarrow> int \<Rightarrow> string option \<Rightarrow> verdict res" where
  "check_content label path ref end_line content =
     (case content of
        None \<Rightarrow> Inr ([], [''Accepted '' @ label @ '' citation without line-content coverage: '' @ ref])
      | Some c \<Rightarrow> if end_line > py_len (py_splitlines c)
          then complain (''Citation range exceeds available lines for '' @ path @ '': '' @ ref) else accept)"

definition validate_markdown_ref ::
    "evaluation_input_bundle option \<Rightarrow> string \<Rightarrow> string option \<times> string \<times> string \<times> string \<Rightarrow> verdict res" where
  "validate_markdown_ref bundle ref m =
     (case m of (sha, raw_path, start, end) \<Rightarrow>
      bind_result (int_of_digits start) (\<lambda>start_line.
      bind_result (int_of_digits end) (\<lambda>end_line.
      if start_line < 1 \<or> end_line < start_line then complain (''Malformed line range in citation: '' @ ref)
      else let path = py_strip raw_path in
        (case sha of
           Some raw_sha \<Rightarrow>
             bind_result (candidate_code_evidence bundle) (\<lambda>ci.
             if py_strip raw_sha \<notin> set (ci_shas ci) then complain (''Unresolvable commit SHA in citation: '' @ ref)
             else if path \<notin> set (ci_paths ci) then complain (''Unresolvable code path in citation: '' @ ref)
             else if (py_strip raw_sha, path) \<notin> set (ci_pairs ci)
             then complain (''Unresolvable code path in citation: '' @ ref)
             else check_content ''code'' path ref end_line (code_content_for_path bundle path))
         | None \<Rightarrow>
             (case resolve_day_index_from_path path of
                None \<Rightarrow>
                  bind_result (candidate_code_evidence bundle) (\<lambda>ci.
                  if path \<notin> set (ci_paths ci) then complain (''Unresolvable markdown citation path: '' @ ref)
                  else check_content ''markdown'' path ref end_line (code_content_for_path bundle path))
              | Some day \<Rightarrow>
                  (case line_count_for_day bundle day of
                     None \<Rightarrow> complain (''Missing bundle text for citation: '' @ ref)
                   | Some n \<Rightarrow> if end_line > n
                       then complain (''Citation range exceeds available lines for '' @ path @ '': '' @ ref)
                       else accept))))))"

definition validate_timestamp_ref :: "evaluation_input_bundle option \<Rightarrow> string \<Rightarrow> string \<times> string \<Rightarrow> verdict res" where
  "validate_timestamp_ref bundle ref m =
     (case (parse_timestamp (fst m), parse_timestamp (snd m)) of
        (Some s, Some e) \<Rightarrow>
          if s > e then complain (''Malformed transcript citation: '' @ ref)
          else if transcript_segments_for_day bundle 4 = [] then complain ''Day 4 transcript is missing required segments.''
          else if \<not> transcript_overlap_exists bundle s e
          then complain (''Transcript citation does not overlap an available segment: '' @ ref)
          else accept
      | _ \<Rightarrow> complain (''Malformed transcript citation: '' @ ref))"

definition validate_citation_ref :: "evaluation_input_bundle option \<Rightarrow> obj \<Rightarrow> verdict res" where
  "validate_citation_ref bundle citation =
     (let ref = text_of (dict_get ''artifact_ref'' citation)
      in if ref = [] then complain ''Citation is missing artifact_ref.''
         else case submission_ref_match ref of
           Some ds \<Rightarrow> bind_result (int_of_digits ds) (\<lambda>i.
             if i \<notin> submission_ids_for_bundle bundle then complain (''Unresolvable submission citation: '' @ ref)
             else accept)
         | None \<Rightarrow> (case markdown_ref_match ref of
             Some m \<Rightarrow> validate_markdown_ref bundle ref m
           | None \<Rightarrow> (case timestamp_ref_match ref of
               Some m \<Rightarrow> validate_timestamp_ref bundle ref m
             | None \<Rightarrow> complain (''Unsupported citation format: '' @ ref))))"

type_synonym identity = "string \<times> string \<times> string"

definition citation_identity :: "obj \<Rightarrow> identity" where
  "citation_identity c = (text_of (dict_get ''dimension'' c), text_of (dict_get ''artifact_ref'' c),
     text_of (dict_get ''excerpt'' c))"

definition missing_field :: "string \<Rightarrow> string \<Rightarrow> string \<Rightarrow> string list" where
  "missing_field dimension label value =
     (if value = [] then [''Citation for '' @ quoted dimension @ '' is missing '' @ label @ ''.''] else [])"

definition citation_entry ::
    "evaluation_input_bundle option \<Rightarrow> json \<Rightarrow> (string list \<times> string list \<times> (string \<times> identity) list) res" where
  "citation_entry bundle v =
     (case v of
        JObj c \<Rightarrow>
          (let dimension = text_of (dict_get ''dimension'' c)
           in if dimension = [] then Inr ([''Citation is missing dimension.''], [], [])
              else bind_result (validate_citation_ref bundle c) (\<lambda>(errors, warnings).
                Inr (missing_field dimension ''artifact_type'' (text_of (dict_get ''artifact_type'' c)) @
                     missing_field dimension ''artifact_ref'' (text_of (dict_get ''artifact_ref'' c)) @
                     missing_field dimension ''excerpt'' (text_of (dict_get ''excerpt'' c)) @ errors,
                     warnings, [(dimension, citation_identity c)])))
      | _ \<Rightarrow> Inr ([''Citation entry must be an object.''], [], []))"

definition add_citation :: "string \<times> identity \<Rightarrow> (string \<times> identity list) list \<Rightarrow> (string \<times> identity list) list" where
  "add_citation e groups =
     (let ids = (case map_of groups (fst e) of None \<Rightarrow> [] | Some ids \<Rightarrow> ids)
      in AList.update (fst e) (if snd e \<in> set ids then ids else ids @ [snd e]) groups)"

definition numeric_score :: "json \<Rightarrow> bool" where
  "numeric_score v \<longleftrightarrow> (case v of JInt _ \<Rightarrow> True | JFloat _ \<Rightarrow> True | _ \<Rightarrow> False)"

definition dimension_errors :: "(string \<times> identity list) list \<Rightarrow> json \<Rightarrow> string list" where
  "dimension_errors groups v =
     (case v of
        JObj d \<Rightarrow>
          (let name = text_of (dict_get ''name'' d);
               n = length (case map_of groups name of None \<Rightarrow> [] | Some ids \<Rightarrow> ids)
           in if name = [] then [''Dimension is missing name.'']
              else (if numeric_score (dict_get ''score'' d) then []
                    else [''Dimension '' @ quoted name @ '' is missing a numeric score.'']) @
                   (if text_of (dict_get ''justification'' d) \<noteq> [] then []
                    else [''Dimension '' @ quoted name @ '' is missing justification.'']) @
                   (if n < 2 then [''Dimension '' @ quoted name @ '' has only '' @ int_str (int n) @ '' citation'' @
                                   (if n \<noteq> 1 then ''s'' else [])]
                    else []))
      | _ \<Rightarrow> [''Dimension entry must be an object.''])"

definition narrative_paragraphs :: "obj \<Rightarrow> string list" where
  "narrative_paragraphs report =
     (let narrative = text_of (dict_get ''narrative_assessment'' report)
      in if narrative = [] then [] else filter (\<lambda>p. p \<noteq> []) (map py_strip (split_paragraphs narrative)))"

definition validate_narrative_paragraphs :: "obj \<Rightarrow> string list" where
  "validate_narrative_paragraphs report =
     (if text_of (dict_get ''narrative_assessment'' report) = [] then [''narrative_assessment is blank.'']
      else concat (map (\<lambda>(i, p). if citation_search p then []
             else [''Narrative paragraph '' @ int_str (int i) @ '' is missing a citation.''])
           (enumerate 1 (narrative_paragraphs report))))"

definition persona_fields :: "obj \<Rightarrow> obj list \<Rightarrow> (string \<times> string) list" where
  "persona_fields report dimensions =
     fold (\<lambda>d fields.
        let name = text_of (dict_get ''name'' d)
        in if name = [] then fields
           else AList.update (''dimension:'' @ name) (text_of (dict_get ''justification'' d)) fields) dimensions
       [(''verdict_one_liner'', text_of (dict_get ''verdict_one_liner'' report)),
        (''narrative_assessment'', text_of (dict_get ''narrative_assessment'' report)),
        (''cohort_context'', text_of (dict_get ''cohort_context'' report))]"

definition persona_error :: "string \<times> string \<Rightarrow> string list" where
  "persona_error field =
     (case List.find (\<lambda>term. contains term (py_lower (snd field))) FORBIDDEN_TERMS of
        None \<Rightarrow> []
      | Some term \<Rightarrow> [''Persona compliance violation in '' @ fst field @ '': forbidden term '' @ quoted term @ ''.''])"

definition validate_persona_compliance :: "obj \<Rightarrow> string list res" where
  "validate_persona_compliance report =
     bind_result (items_or_empty (dict_get ''dimensions'' report)) (\<lambda>dimensions.
     Inr (concat (map persona_error (persona_fields report (objects dimensions)))))"

definition list_field :: "string \<Rightarrow> obj \<Rightarrow> json list" where
  "list_field k report = (case dict_get k report of JList xs \<Rightarrow> xs | _ \<Rightarrow> [])"

definition trail_metadata ::
    "obj \<Rightarrow> json list \<Rightarrow> json list \<Rightarrow> (string \<times> identity list) list \<Rightarrow> string list \<Rightarrow> obj" where
  "trail_metadata report dimensions citations groups warnings =
     [(''dimensionCount'', JInt (py_len dimensions)),
      (''citationCount'', JInt (py_len citations)),
      (''citationCountsByDimension'', JObj (map (\<lambda>(d, ids). (d, JInt (py_len ids))) groups)),
      (''citationWarnings'', JList (map JStr warnings)),
      (''paragraphCount'', JInt (py_len (narrative_paragraphs report))),
      (''warningCount'', JInt (py_len warnings))]"

definition validate_winoe_report_evidence_trail ::
    "obj \<Rightarrow> evaluation_input_bundle option \<Rightarrow> validation_result res" where
  "validate_winoe_report_evidence_trail report bundle =
     (let dimensions = list_field ''dimensions'' report;
          citations = list_field ''citations'' report;
          shape = (if dimensions = [] then [''Winoe Report is missing dimensions.''] else []) @
            (if citations = [] then [''Winoe Report is missing citations.''] else []) @
            (if length dimensions < 8 then [''Winoe Report must include at least 8 dimensions.''] else []) @
            (if length dimensions > 12 then [''Winoe Report cannot include more than 12 dimensions.''] else [])
      in bind_result (map_result (citation_entry bundle) citations) (\<lambda>checked.
         let groups = fold add_citation (concat (map (\<lambda>(_, _, g). g) checked)) [];
             warnings = concat (map (\<lambda>(_, w, _). w) checked)
         in bind_result (validate_persona_compliance report) (\<lambda>persona.
            let errors = shape @ concat (map fst checked) @ concat (map (dimension_errors groups) dimensions) @
                  validate_narrative_paragraphs report @ persona
            in Inr \<lparr>vr_passed = (errors = []), vr_errors = errors, vr_warnings = warnings,
                 vr_metadata = trail_metadata report dimensions citations groups warnings\<rparr>)))"

section \<open>The citation formats as grammars\<close>

datatype citation_target =
    Submission string
  | Lines "string option" string string string
  | Clock string string

definition number_text :: "string \<Rightarrow> bool" where
  "number_text ds \<longleftrightarrow> ds \<noteq> [] \<and> list_all is_digit ds"

definition sha_text :: "string \<Rightarrow> bool" where
  "sha_text h \<longleftrightarrow> 7 \<le> length h \<and> length h \<le> 40 \<and> list_all is_hex h"

definition spells :: "string \<Rightarrow> citation_target \<Rightarrow> bool" where
  "spells ref target \<longleftrightarrow> (\<exists>rest. at_end rest \<and>
     (case target of
        Submission ds \<Rightarrow> ref = ''submission:'' @ ds @ rest \<and> number_text ds \<and> hd ds \<noteq> CHR ''0''
      | Lines sha p a b \<Rightarrow>
          ref = (case sha of None \<Rightarrow> [] | Some h \<Rightarrow> h @ '':'') @ p @ '':L'' @ a @ ''-L'' @ b @ rest \<and>
          (case sha of None \<Rightarrow> True | Some h \<Rightarrow> sha_text h) \<and>
          p \<noteq> [] \<and> list_all path_char p \<and> number_text a \<and> number_text b
      | Clock a b \<Rightarrow> ref = ''['' @ a @ ''-'' @ b @ '']'' @ rest \<and> clock_text a \<and> clock_text b))"

definition parse_ref :: "string \<Rightarrow> citation_target option" where
  "parse_ref ref =
     (case submission_ref_match ref of
        Some ds \<Rightarrow> Some (Submission ds)
      | None \<Rightarrow> (case markdown_ref_match ref of
          Some (sha, p, a, b) \<Rightarrow> Some (Lines sha p a b)
        | None \<Rightarrow> map_option (\<lambda>(a, b). Clock a b) (timestamp_ref_match ref)))"

lemma span:
  "takeWhile P s = xs \<and> dropWhile P s = ys \<longleftrightarrow> s = xs @ ys \<and> list_all P xs \<and> (ys = [] \<or> \<not> P (hd ys))"
  (is "?l \<longleftrightarrow> ?r")
proof
  assume ?l
  then show ?r using hd_dropWhile[of P s] set_takeWhileD[of _ P s] by (auto simp: list_all_iff)
next
  assume r: ?r
  then have "takeWhile P ys = []" "dropWhile P ys = ys" by (cases ys; simp)+
  with r show ?l by (simp add: list_all_iff takeWhile_append2 dropWhile_append2)
qed

lemma at_end_no_digit: "at_end t \<Longrightarrow> t = [] \<or> \<not> is_digit (hd t)"
  by (auto simp: at_end_def is_digit_def code_point_def)

lemma line_range_iff:
  "line_range s = Some (a, b, t) \<longleftrightarrow>
   s = '':L'' @ a @ ''-L'' @ b @ t \<and> number_text a \<and> number_text b \<and> (t = [] \<or> \<not> is_digit (hd t))"
proof
  assume l: "line_range s = Some (a, b, t)"
  let ?r = "dropWhile is_digit (drop 2 s)"
  have c: "starts_with '':L'' s" "starts_with ''-L'' ?r" "a \<noteq> []" "b \<noteq> []"
    and a: "takeWhile is_digit (drop 2 s) = a"
    and bt: "takeWhile is_digit (drop 2 ?r) = b" "dropWhile is_digit (drop 2 ?r) = t"
    using l by (auto simp: line_range_def Let_def split: if_splits)
  from c(1) have s: "s = '':L'' @ drop 2 s" by (auto simp: starts_with_iff)
  from c(2) have r: "?r = ''-L'' @ drop 2 ?r" by (auto simp: starts_with_iff)
  have 1: "drop 2 s = a @ ?r \<and> list_all is_digit a" using span[of is_digit "drop 2 s" a ?r] a by simp
  have 2: "drop 2 ?r = b @ t \<and> list_all is_digit b \<and> (t = [] \<or> \<not> is_digit (hd t))"
    using span[of is_digit "drop 2 ?r" b t] bt by simp
  have "s = '':L'' @ a @ ''-L'' @ b @ t" using s 1 r 2 by metis
  with 1 2 c show "s = '':L'' @ a @ ''-L'' @ b @ t \<and> number_text a \<and> number_text b \<and> (t = [] \<or> \<not> is_digit (hd t))"
    by (simp add: number_text_def)
next
  assume r: "s = '':L'' @ a @ ''-L'' @ b @ t \<and> number_text a \<and> number_text b \<and> (t = [] \<or> \<not> is_digit (hd t))"
  have d: "\<not> is_digit (CHR ''-'')" by (simp add: is_digit_def code_point_def)
  have "takeWhile is_digit (drop 2 s) = a \<and> dropWhile is_digit (drop 2 s) = ''-L'' @ b @ t"
    unfolding span using r d by (simp add: number_text_def)
  moreover have "takeWhile is_digit (b @ t) = b \<and> dropWhile is_digit (b @ t) = t"
    unfolding span using r by (simp add: number_text_def)
  ultimately show "line_range s = Some (a, b, t)" using r by (simp add: line_range_def number_text_def)
qed

lemma line_ref_iff:
  "line_ref s = Some (p, a, b, t) \<longleftrightarrow>
   s = p @ '':L'' @ a @ ''-L'' @ b @ t \<and> p \<noteq> [] \<and> list_all path_char p \<and>
   number_text a \<and> number_text b \<and> (t = [] \<or> \<not> is_digit (hd t))"
proof
  assume l: "line_ref s = Some (p, a, b, t)"
  then have p: "takeWhile path_char s = p" "p \<noteq> []" and r: "line_range (dropWhile path_char s) = Some (a, b, t)"
    by (auto simp: line_ref_def Let_def split: if_splits)
  have "s = p @ dropWhile path_char s \<and> list_all path_char p"
    using span[of path_char s p "dropWhile path_char s"] p by simp
  with r[unfolded line_range_iff] p show "s = p @ '':L'' @ a @ ''-L'' @ b @ t \<and> p \<noteq> [] \<and> list_all path_char p \<and>
   number_text a \<and> number_text b \<and> (t = [] \<or> \<not> is_digit (hd t))" by metis
next
  assume r: "s = p @ '':L'' @ a @ ''-L'' @ b @ t \<and> p \<noteq> [] \<and> list_all path_char p \<and>
   number_text a \<and> number_text b \<and> (t = [] \<or> \<not> is_digit (hd t))"
  have "takeWhile path_char s = p \<and> dropWhile path_char s = '':L'' @ a @ ''-L'' @ b @ t"
    unfolding span using r by (simp add: path_char_def)
  moreover have "line_range ('':L'' @ a @ ''-L'' @ b @ t) = Some (a, b, t)" unfolding line_range_iff using r by simp
  ultimately show "line_ref s = Some (p, a, b, t)" using r by (simp add: line_ref_def)
qed

lemma commit_ref_iff:
  "commit_ref s = Some (h, m) \<longleftrightarrow> (\<exists>r. s = h @ '':'' @ r \<and> sha_text h \<and> line_ref r = Some m)"
proof
  assume l: "commit_ref s = Some (h, m)"
  let ?r = "dropWhile is_hex s"
  have h: "takeWhile is_hex s = h" "7 \<le> length h" "length h \<le> 40" "starts_with '':'' ?r" "line_ref (tl ?r) = Some m"
    using l by (auto simp: commit_ref_def Let_def split: if_splits)
  have 1: "s = h @ ?r \<and> list_all is_hex h" using span[of is_hex s h ?r] h(1) by simp
  have 2: "?r = '':'' @ tl ?r" using h(4) by (auto simp: starts_with_iff)
  have "s = h @ '':'' @ tl ?r" using 1 2 by metis
  with 1 h show "\<exists>r. s = h @ '':'' @ r \<and> sha_text h \<and> line_ref r = Some m" unfolding sha_text_def by blast
next
  assume "\<exists>r. s = h @ '':'' @ r \<and> sha_text h \<and> line_ref r = Some m"
  then obtain r where r: "s = h @ '':'' @ r" "sha_text h" "line_ref r = Some m" by blast
  have "\<not> is_hex (CHR '':'')" by (simp add: is_hex_def is_digit_def code_point_def)
  then have "takeWhile is_hex s = h \<and> dropWhile is_hex s = '':'' @ r"
    unfolding span using r by (simp add: sha_text_def)
  with r show "commit_ref s = Some (h, m)" by (simp add: commit_ref_def sha_text_def)
qed

lemma hex_is_path: "is_hex c \<Longrightarrow> path_char c"
  by (auto simp: is_hex_def is_digit_def path_char_def code_point_def)

lemma markdown_ref_match_iff:
  "markdown_ref_match s = Some (sha, p, a, b) \<longleftrightarrow> spells s (Lines sha p a b)"
proof (cases sha)
  case None
  have no: False if c: "commit_ref s = Some (h, p', a', b', t')" and l: "line_ref s = Some (p, a, b, t)" and t: "at_end t"
    for h p' a' b' t' t
  proof -
    from c obtain r where r: "s = h @ '':'' @ r" "sha_text h" "line_ref r = Some (p', a', b', t')"
      unfolding commit_ref_iff by blast
    have col: "\<not> path_char (CHR '':'')" by (simp add: path_char_def)
    have "takeWhile path_char s = h \<and> dropWhile path_char s = '':'' @ r"
      unfolding span using r col hex_is_path by (auto simp: sha_text_def list_all_iff)
    moreover have "takeWhile path_char s = p \<and> dropWhile path_char s = '':L'' @ a @ ''-L'' @ b @ t"
      unfolding span using l col by (auto simp: line_ref_iff)
    ultimately have "r = ''L'' @ a @ ''-L'' @ b @ t" by auto
    moreover have "CHR '':'' \<in> set r" using r(3) by (auto simp: line_ref_iff)
    ultimately show False using l t by (auto simp: line_ref_iff number_text_def list_all_iff at_end_def is_digit_def code_point_def)
  qed
  have "markdown_ref_match s = Some (None, p, a, b) \<longleftrightarrow> (\<exists>t. at_end t \<and> line_ref s = Some (p, a, b, t))"
    by (auto simp: markdown_ref_match_def Let_def split: option.splits if_splits dest: no)
  then show ?thesis using at_end_no_digit by (auto simp: None spells_def line_ref_iff)
next
  case (Some h)
  have "markdown_ref_match s = Some (Some h, p, a, b) \<longleftrightarrow> (\<exists>t. at_end t \<and> commit_ref s = Some (h, p, a, b, t))"
    by (auto simp: markdown_ref_match_def Let_def split: option.splits if_splits)
  then show ?thesis using at_end_no_digit by (auto simp: Some spells_def commit_ref_iff line_ref_iff)
qed

lemma submission_prefix_iff:
  "submission_prefix s = Some (ds, t) \<longleftrightarrow>
   s = ''submission:'' @ ds @ t \<and> number_text ds \<and> hd ds \<noteq> CHR ''0'' \<and> (t = [] \<or> \<not> is_digit (hd t))"
proof
  assume l: "submission_prefix s = Some (ds, t)"
  then have c: "starts_with ''submission:'' s" "ds \<noteq> []" "hd ds \<noteq> CHR ''0''"
    and d: "takeWhile is_digit (drop 11 s) = ds \<and> dropWhile is_digit (drop 11 s) = t"
    by (auto simp: submission_prefix_def Let_def split: if_splits)
  from c(1) have "s = ''submission:'' @ drop 11 s" by (auto simp: starts_with_iff)
  with d[unfolded span] c show "s = ''submission:'' @ ds @ t \<and> number_text ds \<and> hd ds \<noteq> CHR ''0'' \<and> (t = [] \<or> \<not> is_digit (hd t))"
    by (simp add: number_text_def)
next
  assume r: "s = ''submission:'' @ ds @ t \<and> number_text ds \<and> hd ds \<noteq> CHR ''0'' \<and> (t = [] \<or> \<not> is_digit (hd t))"
  have "takeWhile is_digit (ds @ t) = ds \<and> dropWhile is_digit (ds @ t) = t"
    unfolding span using r by (simp add: number_text_def)
  with r show "submission_prefix s = Some (ds, t)" by (simp add: submission_prefix_def number_text_def)
qed

lemma time_range_iff:
  "time_range s = Some (a, b, t) \<longleftrightarrow> s = ''['' @ a @ ''-'' @ b @ '']'' @ t \<and> clock_text a \<and> clock_text b"
proof
  assume l: "time_range s = Some (a, b, t)"
  then have c: "starts_with ''['' s" "starts_with ''-'' (drop 6 s)" "starts_with '']'' (drop 12 s)"
    and ab: "a = take 5 (drop 1 s)" "b = take 5 (drop 7 s)" "t = drop 13 s" "clock_text a" "clock_text b"
    by (auto simp: time_range_def Let_def split: if_splits)
  have cut: "drop n s = take k (drop n s) @ drop (n + k) s" for n k
    by (metis add.commute append_take_drop_id drop_drop)
  from c obtain u v w where "s = CHR ''['' # u" "drop 6 s = CHR ''-'' # v" "drop 12 s = CHR '']'' # w"
    by (auto simp: starts_with_iff)
  then have "s = ''['' @ drop 1 s" "drop 6 s = ''-'' @ drop 7 s" "drop 12 s = '']'' @ t"
    using cut[of 6 1] cut[of 12 1] ab(3) by simp_all
  moreover have "drop 1 s = a @ drop 6 s" "drop 7 s = b @ drop 12 s"
    using cut[of 1 5] cut[of 7 5] ab by simp_all
  ultimately have "s = ''['' @ a @ ''-'' @ b @ '']'' @ t" by metis
  with ab show "s = ''['' @ a @ ''-'' @ b @ '']'' @ t \<and> clock_text a \<and> clock_text b" by blast
next
  assume r: "s = ''['' @ a @ ''-'' @ b @ '']'' @ t \<and> clock_text a \<and> clock_text b"
  then have "length a = 5" "length b = 5" by (simp_all add: clock_text_def)
  with r show "time_range s = Some (a, b, t)" by (simp add: time_range_def)
qed

lemma timestamp_ref_match_iff: "timestamp_ref_match s = Some (a, b) \<longleftrightarrow> spells s (Clock a b)"
proof -
  have "timestamp_ref_match s = Some (a, b) \<longleftrightarrow> (\<exists>t. at_end t \<and> time_range s = Some (a, b, t))"
    by (auto simp: timestamp_ref_match_def split: option.splits)
  then show ?thesis by (auto simp: spells_def time_range_iff)
qed

lemma submission_ref_match_iff: "submission_ref_match s = Some ds \<longleftrightarrow> spells s (Submission ds)"
proof -
  have "submission_ref_match s = Some ds \<longleftrightarrow> (\<exists>t. at_end t \<and> submission_prefix s = Some (ds, t))"
    by (auto simp: submission_ref_match_def split: option.splits)
  then show ?thesis using at_end_no_digit by (auto simp: spells_def submission_prefix_iff)
qed

lemma hd_digit: "number_text ds \<Longrightarrow> is_digit (hd (ds @ t))"
  by (cases ds) (auto simp: number_text_def)

lemma submission_is_no_lines: "spells s (Submission ds) \<Longrightarrow> \<not> spells s (Lines sha p a b)"
proof
  assume "spells s (Submission ds)" and "spells s (Lines sha p a b)"
  then obtain t where s: "s = ''submission:'' @ ds @ t" and n: "number_text ds" and t: "at_end t"
    by (auto simp: spells_def)
  from \<open>spells s (Lines sha p a b)\<close> obtain h q r where w: "s = h @ '':'' @ r" "list_all path_char h"
    and r: "CHR ''L'' \<in> set r" 
    by (cases sha) (auto simp: spells_def sha_text_def list_all_iff hex_is_path)
  have col: "\<not> path_char (CHR '':'')" by (simp add: path_char_def)
  have "takeWhile path_char s = ''submission'' \<and> dropWhile path_char s = '':'' @ ds @ t"
    unfolding span s by (simp add: path_char_def)
  moreover have "takeWhile path_char s = h \<and> dropWhile path_char s = '':'' @ r"
    unfolding span using w col by simp
  ultimately have "r = ds @ t" by auto
  with r n t show False by (auto simp: number_text_def list_all_iff at_end_def is_digit_def code_point_def)
qed

lemma clock_starts: "spells s (Clock a b) \<Longrightarrow> hd s = CHR ''[''"
  by (auto simp: spells_def)

lemma others_start: "spells s (Lines sha p a b) \<Longrightarrow> hd s \<noteq> CHR ''[''" "spells s (Submission ds) \<Longrightarrow> hd s \<noteq> CHR ''[''"
proof -
  show "hd s \<noteq> CHR ''[''" if "spells s (Lines sha p a b)"
  proof -
    from that obtain c cs where "s = c # cs" "path_char c"
      by (cases sha; cases p; cases "the sha") (auto simp: spells_def sha_text_def hex_is_path)
    then show ?thesis by (auto simp: path_char_def)
  qed
  show "hd s \<noteq> CHR ''[''" if "spells s (Submission ds)" using that by (auto simp: spells_def)
qed

lemma parse_ref_iff: "parse_ref s = Some target \<longleftrightarrow> spells s target"
proof (cases target)
  case (Submission ds)
  then show ?thesis
    using submission_ref_match_iff[of s ds] by (auto simp: parse_ref_def split: option.splits)
next
  case (Lines sha p a b)
  then show ?thesis
    using markdown_ref_match_iff[of s sha p a b] submission_is_no_lines[of s _ sha p a b] submission_ref_match_iff[of s]
    by (auto simp: parse_ref_def split: option.splits)
next
  case (Clock a b)
  have "spells s (Clock a b) \<Longrightarrow> submission_ref_match s = None \<and> markdown_ref_match s = None"
    using clock_starts others_start submission_ref_match_iff[of s] markdown_ref_match_iff[of s]
    by (metis not_Some_eq prod_cases3 surj_pair)
  with Clock show ?thesis
    using timestamp_ref_match_iff[of s a b] by (auto simp: parse_ref_def split: option.splits)
qed

section \<open>What a passing report promises\<close>

definition text_lines :: "string \<Rightarrow> int" where
  "text_lines content = py_len (py_splitlines content)"

definition covers :: "string option \<Rightarrow> int \<Rightarrow> bool" where
  "covers content n \<longleftrightarrow> (case content of None \<Rightarrow> True | Some c \<Rightarrow> n \<le> text_lines c)"

text \<open>The target of a citation exists in the bundle.\<close>

definition resolves :: "evaluation_input_bundle option \<Rightarrow> citation_target \<Rightarrow> bool" where
  "resolves bundle target \<longleftrightarrow>
     (case target of
        Submission ds \<Rightarrow> \<exists>i. int_of_digits ds = Inr i \<and> i \<in> submission_ids_for_bundle bundle
      | Lines sha raw_path a b \<Rightarrow>
          (\<exists>m n. int_of_digits a = Inr m \<and> int_of_digits b = Inr n \<and> 1 \<le> m \<and> m \<le> n \<and>
             (let path = py_strip raw_path in
              case (sha, resolve_day_index_from_path path) of
                (Some h, _) \<Rightarrow> covers (code_content_for_path bundle path) n \<and>
                  (\<exists>ci. candidate_code_evidence bundle = Inr ci \<and> (py_strip h, path) \<in> set (ci_pairs ci))
              | (None, Some day) \<Rightarrow> \<exists>k. line_count_for_day bundle day = Some k \<and> n \<le> k
              | (None, None) \<Rightarrow> covers (code_content_for_path bundle path) n \<and>
                  (\<exists>ci. candidate_code_evidence bundle = Inr ci \<and> path \<in> set (ci_paths ci))))
      | Clock a b \<Rightarrow>
          (\<exists>s e. parse_timestamp a = Some s \<and> parse_timestamp b = Some e \<and> s \<le> e \<and>
             (\<exists>segment \<in> set (transcript_segments_for_day bundle 4). \<exists>x y.
                int_of (dict_get ''startMs'' segment) = Some x \<and> int_of (dict_get ''endMs'' segment) = Some y \<and>
                x \<le> y \<and> x div 1000 \<le> e \<and> s \<le> y div 1000)))"

lemma product_index: "List.product shas paths = ps \<Longrightarrow> set ps \<subseteq> set shas \<times> set paths"
  by auto

lemma evidence_pairs:
  assumes "candidate_code_evidence bundle = Inr ci"
  shows "set (ci_pairs ci) \<subseteq> set (ci_shas ci) \<times> set (ci_paths ci)"
proof -
  have join: "set (ci_pairs (join_indexes shas is)) \<subseteq> set (ci_shas (join_indexes shas is)) \<times> set (ci_paths (join_indexes shas is))"
    if "\<And>i. i \<in> set is \<Longrightarrow> set (ci_pairs i) \<subseteq> set (ci_shas i) \<times> set (ci_paths i)" for shas "is"
    using that by (fastforce simp: join_indexes_def)
  have c: "set (ci_pairs i) \<subseteq> set (ci_shas i) \<times> set (ci_paths i)"
    if "map_result commit_entry es = Inr is" "i \<in> set is" for es "is" i
    using map_result_in[OF that] by (auto simp: bind_result_Inr_iff commit_entry_def Let_def)
  show ?thesis
  proof (cases "bundle_code bundle")
    case None
    with assms show ?thesis by (auto simp: candidate_code_evidence_def join_indexes_def)
  next
    case (Some ev)
    with assms obtain shas commits where commits: "map_result commit_entry (objects (ce_commit_history ev)) = Inr commits"
      and ci: "ci = join_indexes shas (commits @ map timeline_entry (objects (ce_file_creation_timeline ev)) @
            map artifact_entry (objects (ce_repository_artifact_references ev)))"
      by (auto simp: candidate_code_evidence_def bind_result_Inr_iff)
    show ?thesis unfolding ci
      by (rule join) (auto simp: timeline_entry_def artifact_entry_def Let_def dest: c[OF commits, THEN subsetD])
  qed
qed

lemma check_content_clean:
  "check_content label path ref n content = Inr ([], ws) \<Longrightarrow> covers content n"
  "check_content label path ref n content = Inr (es, ws) \<Longrightarrow> covers content n \<Longrightarrow> es = []"
  by (auto simp: check_content_def covers_def text_lines_def complain_def accept_def split: option.splits if_splits)

lemma int_of_digits_fun: "int_of_digits ds = Inr i \<Longrightarrow> int_of_digits ds = Inr j \<longleftrightarrow> j = i"
  by auto

lemma validate_markdown_clean:
  assumes "validate_markdown_ref bundle ref (sha, p, a, b) = Inr (es, ws)"
  shows "es = [] \<longleftrightarrow> resolves bundle (Lines sha p a b)"
proof -
  from assms obtain m n where m: "int_of_digits a = Inr m" and n: "int_of_digits b = Inr n"
    by (auto simp: validate_markdown_ref_def bind_result_Inr_iff)
  show ?thesis
  proof (cases "m < 1 \<or> n < m")
    case True
    with assms m n show ?thesis by (auto simp: validate_markdown_ref_def resolves_def complain_def)
  next
    case lines: False
    show ?thesis
    proof (cases sha)
      case sha: (Some h)
      with assms m n lines obtain ci where ci: "candidate_code_evidence bundle = Inr ci"
        by (auto simp: validate_markdown_ref_def bind_result_Inr_iff Let_def)
      have "(py_strip h, py_strip p) \<in> set (ci_pairs ci) \<Longrightarrow> py_strip h \<in> set (ci_shas ci) \<and> py_strip p \<in> set (ci_paths ci)"
        using evidence_pairs[OF ci] by auto
      with assms m n lines sha ci show ?thesis
        using check_content_clean
        by (auto simp: validate_markdown_ref_def resolves_def complain_def Let_def split: if_splits)
    next
      case sha: None
      show ?thesis
      proof (cases "resolve_day_index_from_path (py_strip p)")
        case (Some day)
        with assms m n lines sha show ?thesis
          by (auto simp: validate_markdown_ref_def resolves_def complain_def accept_def Let_def split: if_splits option.splits)
      next
        case None
        with assms m n lines sha obtain ci where ci: "candidate_code_evidence bundle = Inr ci"
          by (auto simp: validate_markdown_ref_def bind_result_Inr_iff Let_def)
        with assms m n lines sha None show ?thesis
          using check_content_clean
          by (auto simp: validate_markdown_ref_def resolves_def complain_def Let_def split: if_splits)
      qed
    qed
  qed
qed

lemma validate_timestamp_clean:
  "validate_timestamp_ref bundle ref (a, b) = Inr (es, ws) \<Longrightarrow> es = [] \<longleftrightarrow> resolves bundle (Clock a b)"
  by (auto simp: validate_timestamp_ref_def resolves_def complain_def accept_def transcript_overlap_exists_def list_ex_iff
      split: option.splits if_splits)

lemma validate_ref_eq:
  "validate_citation_ref bundle c =
   (let ref = text_of (dict_get ''artifact_ref'' c)
    in if ref = [] then complain ''Citation is missing artifact_ref.''
       else case parse_ref ref of
         None \<Rightarrow> complain (''Unsupported citation format: '' @ ref)
       | Some (Submission ds) \<Rightarrow> bind_result (int_of_digits ds) (\<lambda>i.
           if i \<notin> submission_ids_for_bundle bundle then complain (''Unresolvable submission citation: '' @ ref) else accept)
       | Some (Lines sha p a b) \<Rightarrow> validate_markdown_ref bundle ref (sha, p, a, b)
       | Some (Clock a b) \<Rightarrow> validate_timestamp_ref bundle ref (a, b))"
  by (simp add: validate_citation_ref_def parse_ref_def Let_def split: option.splits prod.splits)

lemma validate_citation_clean:
  assumes "validate_citation_ref bundle c = Inr (es, ws)"
  shows "es = [] \<longleftrightarrow> (\<exists>target. spells (text_of (dict_get ''artifact_ref'' c)) target \<and> resolves bundle target)"
proof -
  let ?ref = "text_of (dict_get ''artifact_ref'' c)"
  have sp: "spells ?ref t \<longleftrightarrow> parse_ref ?ref = Some t" for t by (simp add: parse_ref_iff)
  have empty: "\<not> spells [] t" for t by (cases t) (auto simp: spells_def split: option.splits)
  show ?thesis
  proof (cases "?ref = []")
    case True
    with assms empty show ?thesis by (auto simp: validate_ref_eq complain_def)
  next
    case ne: False
    show ?thesis
    proof (cases "parse_ref ?ref")
      case None
      with assms ne sp show ?thesis by (auto simp: validate_ref_eq Let_def complain_def)
    next
      case (Some t)
      with sp have "(\<exists>target. spells ?ref target \<and> resolves bundle target) \<longleftrightarrow> resolves bundle t" by auto
      moreover have "es = [] \<longleftrightarrow> resolves bundle t"
        using assms ne Some validate_markdown_clean validate_timestamp_clean
        by (cases t) (auto simp: validate_ref_eq Let_def bind_result_Inr_iff resolves_def[of _ "Submission _"] complain_def accept_def
              split: if_splits)
      ultimately show ?thesis by simp
    qed
  qed
qed

subsection \<open>Citations, dimensions, paragraphs\<close>

definition supported_citation :: "evaluation_input_bundle option \<Rightarrow> json \<Rightarrow> bool" where
  "supported_citation bundle v \<longleftrightarrow> (\<exists>c. v = JObj c \<and>
     text_of (dict_get ''dimension'' c) \<noteq> [] \<and> text_of (dict_get ''artifact_type'' c) \<noteq> [] \<and>
     text_of (dict_get ''excerpt'' c) \<noteq> [] \<and>
     (\<exists>target. spells (text_of (dict_get ''artifact_ref'' c)) target \<and> resolves bundle target))"

text \<open>The citations of a dimension, told apart by reference and excerpt.\<close>

definition citations_of :: "json list \<Rightarrow> string \<Rightarrow> identity set" where
  "citations_of citations name =
     {citation_identity c | c. JObj c \<in> set citations \<and> text_of (dict_get ''dimension'' c) = name}"

definition backed_dimension :: "json list \<Rightarrow> json \<Rightarrow> bool" where
  "backed_dimension citations v \<longleftrightarrow> (\<exists>d. v = JObj d \<and> text_of (dict_get ''name'' d) \<noteq> [] \<and>
     numeric_score (dict_get ''score'' d) \<and> text_of (dict_get ''justification'' d) \<noteq> [] \<and>
     2 \<le> card (citations_of citations (text_of (dict_get ''name'' d))))"

definition cited_narrative :: "string \<Rightarrow> bool" where
  "cited_narrative narrative \<longleftrightarrow> narrative \<noteq> [] \<and>
     (\<forall>p \<in> set (split_paragraphs narrative). py_strip p \<noteq> [] \<longrightarrow> (\<exists>u v. py_strip p = u @ v \<and> citation_at v))"

definition clean_text :: "string \<Rightarrow> bool" where
  "clean_text t \<longleftrightarrow> (\<forall>term \<in> set FORBIDDEN_TERMS. \<nexists>u v. py_lower t = u @ term @ v)"

definition last_named :: "obj list \<Rightarrow> obj \<Rightarrow> bool" where
  "last_named ds d \<longleftrightarrow> text_of (dict_get ''name'' d) \<noteq> [] \<and>
     (\<exists>us vs. ds = us @ d # vs \<and> (\<forall>e \<in> set vs. text_of (dict_get ''name'' e) \<noteq> text_of (dict_get ''name'' d)))"

lemma citation_entry_groups:
  "citation_entry bundle v = Inr (es, ws, g) \<Longrightarrow>
   (d, i) \<in> set g \<longleftrightarrow> (\<exists>c. v = JObj c \<and> d \<noteq> [] \<and> text_of (dict_get ''dimension'' c) = d \<and> citation_identity c = i)"
  by (auto simp: citation_entry_def bind_result_Inr_iff Let_def split: json.splits if_splits)

lemma citation_entry_clean:
  assumes "citation_entry bundle v = Inr (es, ws, g)"
  shows "es = [] \<longleftrightarrow> supported_citation bundle v"
proof (cases v)
  case (JObj c)
  show ?thesis
  proof (cases "text_of (dict_get ''dimension'' c) = []")
    case True
    with assms JObj show ?thesis by (auto simp: citation_entry_def supported_citation_def)
  next
    case False
    with assms JObj obtain errors where r: "validate_citation_ref bundle c = Inr (errors, ws)"
      and es: "es = missing_field (text_of (dict_get ''dimension'' c)) ''artifact_type'' (text_of (dict_get ''artifact_type'' c)) @
                 missing_field (text_of (dict_get ''dimension'' c)) ''artifact_ref'' (text_of (dict_get ''artifact_ref'' c)) @
                 missing_field (text_of (dict_get ''dimension'' c)) ''excerpt'' (text_of (dict_get ''excerpt'' c)) @ errors"
      by (auto simp: citation_entry_def bind_result_Inr_iff Let_def)
    have "\<not> spells [] t" for t by (cases t) (auto simp: spells_def split: option.splits)
    with validate_citation_clean[OF r] False es JObj show ?thesis
      by (auto simp: supported_citation_def missing_field_def)
  qed
qed (use assms in \<open>auto simp: citation_entry_def supported_citation_def\<close>)

lemma groups_of_citations:
  fixes es :: "(string \<times> identity) list"
  shows "distinct (case map_of (fold add_citation es []) d of None \<Rightarrow> [] | Some ids \<Rightarrow> ids) \<and>
   set (case map_of (fold add_citation es []) d of None \<Rightarrow> [] | Some ids \<Rightarrow> ids) = {i. (d, i) \<in> set es}"
proof (induction es rule: rev_induct)
  case (snoc e es)
  obtain k a b c where e: "e = (k, a, b, c)" by (cases e)
  with snoc show ?case
    by (cases "k = d") (auto simp: add_citation_def Let_def update_conv split: option.splits)
qed simp

lemma dimension_errors_clean:
  assumes g: "\<And>d. distinct (case map_of groups d of None \<Rightarrow> [] | Some ids \<Rightarrow> ids)"
    "\<And>d. d \<noteq> [] \<Longrightarrow> set (case map_of groups d of None \<Rightarrow> [] | Some ids \<Rightarrow> ids) = citations_of citations d"
  shows "dimension_errors groups v = [] \<longleftrightarrow> backed_dimension citations v"
proof (cases v)
  case (JObj d)
  let ?n = "text_of (dict_get ''name'' d)"
  have "?n \<noteq> [] \<Longrightarrow> length (case map_of groups ?n of None \<Rightarrow> [] | Some ids \<Rightarrow> ids) = card (citations_of citations ?n)"
    using g(2)[of ?n] distinct_card[OF g(1)[of ?n]] by simp
  with JObj show ?thesis by (auto simp: dimension_errors_def backed_dimension_def Let_def)
qed (auto simp: dimension_errors_def backed_dimension_def)

lemma citation_search_iff: "citation_search s \<longleftrightarrow> (\<exists>u v. s = u @ v \<and> citation_at v)"
proof (induction s)
  case (Cons c cs)
  have "(\<exists>u v. c # cs = u @ v \<and> citation_at v) \<longleftrightarrow> citation_at (c # cs) \<or> (\<exists>u v. cs = u @ v \<and> citation_at v)"
    by (metis append_Cons append_Nil neq_Nil_conv list.inject)
  with Cons show ?case by simp
qed simp

lemma narrative_clean:
  "validate_narrative_paragraphs report = [] \<longleftrightarrow> cited_narrative (text_of (dict_get ''narrative_assessment'' report))"
proof -
  have "concat (map (\<lambda>(i, p). if citation_search p then [] else [f i]) (enumerate n ps)) = [] \<longleftrightarrow>
      (\<forall>p \<in> set ps. citation_search p)" for f :: "nat \<Rightarrow> string" and n ps
    by (induction ps arbitrary: n) auto
  then show ?thesis
    by (auto simp: validate_narrative_paragraphs_def cited_narrative_def narrative_paragraphs_def Let_def citation_search_iff)
qed

lemma set_alist_update:
  "distinct (map fst al) \<Longrightarrow> set (AList.update k v al) = insert (k, v) {p \<in> set al. fst p \<noteq> k}"
  by (induction al) force+

lemma last_named_snoc:
  "last_named (ds @ [e]) d \<longleftrightarrow> text_of (dict_get ''name'' d) \<noteq> [] \<and>
     (d = e \<or> last_named ds d \<and> text_of (dict_get ''name'' e) \<noteq> text_of (dict_get ''name'' d))"
  (is "?l \<longleftrightarrow> ?r")
proof
  assume ?l
  then obtain us vs where n: "text_of (dict_get ''name'' d) \<noteq> []" and s: "ds @ [e] = us @ d # vs"
    and v: "\<forall>e \<in> set vs. text_of (dict_get ''name'' e) \<noteq> text_of (dict_get ''name'' d)" unfolding last_named_def by blast
  show ?r
  proof (cases vs rule: rev_cases)
    case Nil
    with s n show ?thesis by simp
  next
    case (snoc ws w)
    with s have "ds = us @ d # ws" "e = w" by simp_all
    with n v snoc show ?thesis unfolding last_named_def by auto
  qed
next
  assume r: ?r
  then consider "d = e" | us vs where "ds = us @ d # vs" "\<forall>x \<in> set (vs @ [e]). text_of (dict_get ''name'' x) \<noteq> text_of (dict_get ''name'' d)"
    unfolding last_named_def by auto
  then show ?l
  proof cases
    case 1
    with r show ?thesis unfolding last_named_def by fastforce
  next
    case (2 us vs)
    then have "ds @ [e] = us @ d # (vs @ [e])" by simp
    with r 2(2) show ?thesis unfolding last_named_def by blast
  qed
qed

lemma other_keys:
  "(\<And>b. b \<in> B \<Longrightarrow> fst b \<noteq> k) \<Longrightarrow> {p \<in> B \<union> f ` A. fst p \<noteq> k} = B \<union> f ` {d \<in> A. fst (f d) \<noteq> k}"
  by auto

lemma persona_fields_set:
  "distinct (map fst (persona_fields report ds)) \<and>
   set (persona_fields report ds) =
     {(''verdict_one_liner'', text_of (dict_get ''verdict_one_liner'' report)),
      (''narrative_assessment'', text_of (dict_get ''narrative_assessment'' report)),
      (''cohort_context'', text_of (dict_get ''cohort_context'' report))} \<union>
     (\<lambda>d. (''dimension:'' @ text_of (dict_get ''name'' d), text_of (dict_get ''justification'' d))) ` {d. last_named ds d}"
proof (induction ds rule: rev_induct)
  case Nil
  then show ?case by (simp add: persona_fields_def last_named_def)
next
  case (snoc e ds)
  let ?n = "text_of (dict_get ''name'' e)"
  have step: "persona_fields report (ds @ [e]) = (if ?n = [] then persona_fields report ds
      else AList.update (''dimension:'' @ ?n) (text_of (dict_get ''justification'' e)) (persona_fields report ds))"
    by (simp add: persona_fields_def Let_def)
  show ?case
  proof (cases "?n = []")
    case True
    then have "{d. last_named (ds @ [e]) d} = {d. last_named ds d}"
      using last_named_snoc[of ds e] by (auto simp: last_named_def)
    with snoc step True show ?thesis by simp
  next
    case False
    then have last: "{d. last_named (ds @ [e]) d} = insert e {d. last_named ds d \<and> text_of (dict_get ''name'' d) \<noteq> ?n}"
      using last_named_snoc[of ds e] by (auto simp: last_named_def)
    let ?f = "\<lambda>d. (''dimension:'' @ text_of (dict_get ''name'' d), text_of (dict_get ''justification'' d))"
    let ?B = "{(''verdict_one_liner'', text_of (dict_get ''verdict_one_liner'' report)),
      (''narrative_assessment'', text_of (dict_get ''narrative_assessment'' report)),
      (''cohort_context'', text_of (dict_get ''cohort_context'' report))}"
    have old: "set (persona_fields report ds) = ?B \<union> ?f ` {d. last_named ds d}" using snoc by blast
    have base_keys: "\<And>b. b \<in> ?B \<Longrightarrow> fst b \<noteq> ''dimension:'' @ ?n" by auto
    have cut: "{p \<in> ?B \<union> ?f ` {d. last_named ds d}. fst p \<noteq> ''dimension:'' @ ?n} =
        ?B \<union> ?f ` {d. last_named ds d \<and> text_of (dict_get ''name'' d) \<noteq> ?n}"
      using other_keys[of ?B "''dimension:'' @ ?n" ?f "{d. last_named ds d}", OF base_keys] by (simp only: mem_Collect_eq fst_conv same_append_eq)
    have "set (persona_fields report (ds @ [e])) = insert (?f e) {p \<in> set (persona_fields report ds). fst p \<noteq> ''dimension:'' @ ?n}"
      unfolding step using snoc by (simp only: False if_False set_alist_update)
    then have "set (persona_fields report (ds @ [e])) = ?B \<union> ?f ` {d. last_named (ds @ [e]) d}"
      unfolding old cut last image_insert by blast
    with snoc show ?thesis unfolding step by (simp add: False distinct_update)
  qed
qed

lemma persona_error_clean: "persona_error (k, t) = [] \<longleftrightarrow> clean_text t"
proof (cases "List.find (\<lambda>term. contains term (py_lower t)) FORBIDDEN_TERMS")
  case None
  then have "\<forall>term \<in> set FORBIDDEN_TERMS. \<not> contains term (py_lower t)" by (simp add: find_None_iff)
  with None show ?thesis by (simp add: persona_error_def clean_text_def contains_iff)
next
  case (Some w)
  then have "w \<in> set FORBIDDEN_TERMS \<and> contains w (py_lower t)" by (auto simp: find_Some_iff)
  with Some show ?thesis by (auto simp: persona_error_def clean_text_def contains_iff)
qed

definition passing_report :: "obj \<Rightarrow> evaluation_input_bundle option \<Rightarrow> bool" where
  "passing_report report bundle \<longleftrightarrow> (\<exists>ds cs.
     dict_get ''dimensions'' report = JList ds \<and> dict_get ''citations'' report = JList cs \<and>
     8 \<le> length ds \<and> length ds \<le> 12 \<and>
     (\<forall>d \<in> set ds. backed_dimension cs d) \<and> (\<forall>c \<in> set cs. supported_citation bundle c) \<and>
     cited_narrative (text_of (dict_get ''narrative_assessment'' report)) \<and>
     (\<forall>k \<in> {''verdict_one_liner'', ''narrative_assessment'', ''cohort_context''}. clean_text (text_of (dict_get k report))) \<and>
     (\<forall>d. last_named (objects ds) d \<longrightarrow> clean_text (text_of (dict_get ''justification'' d))))"

lemma persona_clean:
  assumes "validate_persona_compliance report = Inr es" and "dict_get ''dimensions'' report = JList ds" "ds \<noteq> []"
  shows "es = [] \<longleftrightarrow>
     (\<forall>k \<in> {''verdict_one_liner'', ''narrative_assessment'', ''cohort_context''}. clean_text (text_of (dict_get k report))) \<and>
     (\<forall>d. last_named (objects ds) d \<longrightarrow> clean_text (text_of (dict_get ''justification'' d)))"
proof -
  have "es = concat (map persona_error (persona_fields report (objects ds)))"
    using assms by (simp add: validate_persona_compliance_def items_or_empty_def)
  then have "es = [] \<longleftrightarrow> (\<forall>f \<in> set (persona_fields report (objects ds)). clean_text (snd f))"
    using persona_error_clean by auto
  then show ?thesis using persona_fields_set[of report "objects ds"] by auto
qed

lemma checked_citations:
  assumes "map_result (citation_entry bundle) cs = Inr checked"
  shows "(d, i) \<in> set (concat (map (\<lambda>(_, _, g). g) checked)) \<longleftrightarrow> d \<noteq> [] \<and> i \<in> citations_of cs d"
    and "(\<forall>x \<in> set checked. fst x = []) \<longleftrightarrow> (\<forall>v \<in> set cs. supported_citation bundle v)"
proof -
  have "((d, i) \<in> set (concat (map (\<lambda>(_, _, g). g) checked)) \<longleftrightarrow> d \<noteq> [] \<and> i \<in> citations_of cs d) \<and>
     ((\<forall>x \<in> set checked. fst x = []) \<longleftrightarrow> (\<forall>v \<in> set cs. supported_citation bundle v))"
    using assms
  proof (induction cs arbitrary: checked)
    case Nil
    then show ?case by (simp add: citations_of_def)
  next
    case (Cons v cs)
    then obtain e w g xs where v: "citation_entry bundle v = Inr (e, w, g)"
      and xs: "map_result (citation_entry bundle) cs = Inr xs" and ch: "checked = (e, w, g) # xs"
      by (auto simp: bind_result_Inr_iff)
    have "d \<noteq> [] \<and> i \<in> citations_of (v # cs) d \<longleftrightarrow> (d, i) \<in> set g \<or> d \<noteq> [] \<and> i \<in> citations_of cs d"
      unfolding citation_entry_groups[OF v] by (auto simp: citations_of_def)
    with Cons.IH[OF xs] citation_entry_clean[OF v] ch show ?case by simp
  qed
  then show "(d, i) \<in> set (concat (map (\<lambda>(_, _, g). g) checked)) \<longleftrightarrow> d \<noteq> [] \<and> i \<in> citations_of cs d"
    "(\<forall>x \<in> set checked. fst x = []) \<longleftrightarrow> (\<forall>v \<in> set cs. supported_citation bundle v)" by blast+
qed

lemma no_dimensions_no_citations:
  assumes "backed_dimension cs d" shows "cs \<noteq> []"
proof
  assume "cs = []"
  then have "citations_of cs n = {}" for n by (simp add: citations_of_def)
  with assms show False by (auto simp: backed_dimension_def)
qed

section \<open>Properties\<close>

text \<open>
  Property C33. The three citation formats are unambiguous and the parsers read exactly them:
  a reference parses to a submission, a line range of a path (of a commit, when a SHA
  precedes the path) or a time range exactly when it is spelled that way, so a reference
  names at most one target.
\<close>

theorem citation_formats_exact: "parse_ref s = Some target \<longleftrightarrow> spells s target"
  by (rule parse_ref_iff)

lemma trail_passed_iff:
  assumes r: "validate_winoe_report_evidence_trail report bundle = Inr r"
  shows "vr_passed r \<longleftrightarrow> passing_report report bundle"
proof -
  let ?ds = "list_field ''dimensions'' report" and ?cs = "list_field ''citations'' report"
  from r obtain checked persona where c: "map_result (citation_entry bundle) ?cs = Inr checked"
    and p: "validate_persona_compliance report = Inr persona"
    and passed: "vr_passed r \<longleftrightarrow> ?ds \<noteq> [] \<and> ?cs \<noteq> [] \<and> 8 \<le> length ?ds \<and> length ?ds \<le> 12 \<and>
       (\<forall>x \<in> set checked. fst x = []) \<and>
       (\<forall>d \<in> set ?ds. dimension_errors (fold add_citation (concat (map (\<lambda>(_, _, g). g) checked)) []) d = []) \<and>
       validate_narrative_paragraphs report = [] \<and> persona = []"
    by (auto simp: validate_winoe_report_evidence_trail_def Let_def bind_result_Inr_iff)
  let ?es = "concat (map (\<lambda>(_, _, g). g) checked)"
  note es = checked_citations(1)[OF c]
  note groups = groups_of_citations[of ?es]
  have dims: "dimension_errors (fold add_citation ?es []) d = [] \<longleftrightarrow> backed_dimension ?cs d" for d
    by (rule dimension_errors_clean) (use groups es in auto)
  have cits: "(\<forall>x \<in> set checked. fst x = []) \<longleftrightarrow> (\<forall>v \<in> set ?cs. supported_citation bundle v)"
    by (rule checked_citations(2)[OF c])
  have field: "list_field k report \<noteq> [] \<longleftrightarrow> (\<exists>xs. dict_get k report = JList xs \<and> xs \<noteq> [])" for k
    by (simp add: list_field_def split: json.splits)
  show ?thesis
  proof (cases "?ds \<noteq> [] \<and> ?cs \<noteq> []")
    case True
    then obtain ds cs where d: "dict_get ''dimensions'' report = JList ds" "ds \<noteq> []"
      and cs: "dict_get ''citations'' report = JList cs" unfolding field by blast
    then have l: "?ds = ds" "?cs = cs" by (simp_all add: list_field_def)
    show ?thesis
      unfolding passed dims cits narrative_clean persona_clean[OF p d] using d cs True
      by (simp add: passing_report_def l conj_ac)
  next
    case False
    have "\<not> passing_report report bundle"
    proof
      assume "passing_report report bundle"
      then obtain ds cs where d: "dict_get ''dimensions'' report = JList ds" and cs: "dict_get ''citations'' report = JList cs"
        and n: "8 \<le> length ds" and b: "\<forall>d \<in> set ds. backed_dimension cs d" unfolding passing_report_def by blast
      have ne: "ds \<noteq> []" using n by auto
      then have "cs \<noteq> []" using b no_dimensions_no_citations[of cs "hd ds"] by simp
      with ne d cs False show False by (simp add: list_field_def)
    qed
    with False passed show ?thesis by blast
  qed
qed

text \<open>
  Property C12. The evidence trail is sound and complete: the validator passes a report
  exactly when it has 8 to 12 dimensions, each with a name, a numeric score, a justification
  and two citations that differ; every citation is spelled in one of the three formats and
  its target exists in the bundle, within the lines or the transcript that are there; every
  paragraph of the narrative contains a citation; and no text that candidates are judged by
  uses a forbidden term.
\<close>

theorem evidence_trail_exact:
  assumes "validate_winoe_report_evidence_trail report bundle = Inr r"
  shows "vr_passed r \<longleftrightarrow> passing_report report bundle"
  using assms by (rule trail_passed_iff)

definition demo_day :: day_evaluation_input where
  "demo_day = \<lparr>de_day_index = 1, de_task_id = Some 20, de_task_type = Some ''design'', de_submission_id = Some 5,
     de_content_text = Some (''a'' @ [CHR 0x0A] @ ''b''), de_content_json = JNull, de_repo_full_name = None, de_commit_sha = None,
     de_workflow_run_id = None, de_diff_summary = JNull, de_tests_passed = None, de_tests_failed = None,
     de_transcript_reference = None, de_transcript_segments = [], de_cutoff_commit_sha = None, de_eval_basis_ref = None\<rparr>"

definition demo_talk :: day_evaluation_input where
  "demo_talk = demo_day\<lparr>de_day_index := 4, de_submission_id := None, de_content_text := None,
     de_transcript_segments := [JObj [(''startMs'', JInt 61000), (''endMs'', JInt 65000)]]\<rparr>"

definition demo_evidence :: code_implementation_evidence where
  "demo_evidence = \<lparr>ce_repository_snapshot = JNull, ce_repository_url = None, ce_repository_reference = None,
     ce_repository_artifact_references = [],
     ce_commit_history = [JObj [(''sha'', JStr ''abcdef1''), (''filesChangedPaths'', JList [JStr ''m.py''])]],
     ce_file_creation_timeline = [], ce_test_coverage_progression = [], ce_dependency_metadata = JNull,
     ce_documentation_evolution = [], ce_evidence_status = []\<rparr>"

definition demo_bundle :: evaluation_input_bundle where
  "demo_bundle = \<lparr>eb_candidate_session_id = 7, eb_scenario_version_id = 2, eb_model_name = ''m'', eb_model_version = ''1'',
     eb_prompt_version = ''1'', eb_rubric_version = ''1'', eb_disabled_day_indexes = [], eb_day_inputs = [demo_day, demo_talk],
     eb_code_implementation_evidence = Some demo_evidence, eb_trial_context_json = JNull,
     eb_ai_policy_snapshot_json = JNull, eb_ai_policy_snapshot_digest = None,
     eb_company_prompt_overrides_json = JNull, eb_trial_prompt_overrides_json = JNull\<rparr>"

definition demo_citation :: "string \<Rightarrow> json" where
  "demo_citation ref = JObj [(''dimension'', JStr ''d''), (''artifact_type'', JStr ''t''), (''artifact_ref'', JStr ref), (''excerpt'', JStr ''e'')]"

definition demo_dimension :: "string \<Rightarrow> json" where
  "demo_dimension why = JObj [(''name'', JStr ''d''), (''score'', JFloat ''7.5''), (''justification'', JStr why)]"

definition demo_report :: obj where
  "demo_report = [(''dimensions'', JList (demo_dimension ''we reject'' # replicate 7 (demo_dimension ''ok''))),
     (''citations'', JList (map demo_citation [''submission:5'', ''day1.md:L1-L2'', ''abcdef1:m.py:L3-L4'', ''[01:00-01:02]''])),
     (''narrative_assessment'', JStr ''see submission:5''), (''verdict_one_liner'', JStr ''ok''), (''cohort_context'', JStr [])]"

theorem evidence_trail_exact_witness:
  "\<exists>r. validate_winoe_report_evidence_trail demo_report (Some demo_bundle) = Inr r \<and> vr_passed r \<and>
     passing_report demo_report (Some demo_bundle) \<and> length (vr_warnings r) = 1"
proof -
  have "case validate_winoe_report_evidence_trail demo_report (Some demo_bundle) of Inl _ \<Rightarrow> False
     | Inr r \<Rightarrow> vr_passed r \<and> length (vr_warnings r) = 1" by code_simp
  then obtain r where r: "validate_winoe_report_evidence_trail demo_report (Some demo_bundle) = Inr r"
    and p: "vr_passed r" "length (vr_warnings r) = 1" by (auto split: sum.splits)
  from evidence_trail_exact[OF r] r p show ?thesis by blast
qed

end
