(* ===== verification/EvaluationPipeline.thy ===== *)
theory EvaluationPipeline
  imports EvidenceTrail EvaluationRuns Notifications
begin

text \<open>
  The evaluation job from the moment its inputs are assembled: finding or starting the run,
  evaluating with up to three attempts until the evidence trail passes, completing the run,
  storing the report marker and its citations, finalising the trial's evaluation state and
  queuing the notification, and recording a failed run. The evaluator (a language model) is
  the argument \<open>evaluator\<close>, its answer to each attempt; \<open>retryable\<close> errors of the provider
  leave the job. The state carries the application's tables and the job queue.
\<close>

section \<open>Rows\<close>

record winoe_report =
  wr_id :: int
  wr_candidate_session_id :: int
  wr_generated_at :: datetime

record winoe_report_citation =
  wc_report_id :: int
  wc_dimension :: string
  wc_artifact_type :: string
  wc_artifact_ref :: string
  wc_excerpt :: string

record trial_evaluation_state =
  ts_trial_id :: int
  ts_candidate_session_id :: int
  ts_state :: string
  ts_correlation_id :: "string option"
  ts_reviewer_status_json :: json
  ts_winoe_synthesis_status :: "string option"
  ts_evidence_trail_validation_status :: "string option"
  ts_report_finalization_status :: "string option"
  ts_notification_status :: "string option"
  ts_failure_context_json :: json
  ts_updated_at :: datetime

record report_db = eval_db +
  rd_reports :: "winoe_report list"
  rd_next_report_id :: int
  rd_citations :: "winoe_report_citation list"
  rd_states :: "trial_evaluation_state list"
  rd_app :: app_db

record day_evaluation_result =
  dr_day_index :: json
  dr_score :: json
  dr_rubric_breakdown :: json
  dr_evidence :: json

record reviewer_report_result =
  rp_reviewer_agent_key :: json
  rp_day_index :: json
  rp_submission_kind :: json
  rp_score :: json
  rp_dimensional_scores_json :: json
  rp_evidence_citations_json :: json
  rp_assessment_text :: json
  rp_strengths_json :: json
  rp_risks_json :: json
  rp_raw_output_json :: json

record evaluation_result =
  re_overall_winoe_score :: json
  re_recommendation :: json
  re_confidence :: json
  re_day_results :: "day_evaluation_result list"
  re_report_json :: json
  re_reviewer_reports :: "reviewer_report_result list"

section \<open>Payloads of the evaluator's result\<close>

definition validation_error_class :: "string \<Rightarrow> string" where
  "validation_error_class e =
     (let lowered = py_lower e
      in if contains ''citation'' lowered \<and> contains ''missing'' lowered then ''citation_coverage''
         else if contains ''citation'' lowered \<and>
              (contains ''unsupported'' lowered \<or> contains ''malformed'' lowered \<or> contains ''unresolvable'' lowered)
         then ''citation_resolution''
         else if contains ''narrative'' lowered then ''narrative_coverage''
         else if contains ''persona compliance'' lowered then ''persona_compliance''
         else if contains ''dimension'' lowered then ''dimension_coverage''
         else ''structure'')"

definition validation_error_classes :: "string list \<Rightarrow> string list" where
  "validation_error_classes errors = sort (remdups (map validation_error_class errors))"

definition build_day_score :: "day_evaluation_result \<Rightarrow> json res" where
  "build_day_score d =
     (let path = ''day_results['' @ py_str (dr_day_index d) @ '']''
      in bind_result (coerce_unit_interval_score [] (path @ ''.score'') True (dr_score d)) (\<lambda>score.
         case dr_rubric_breakdown d of
           JObj rubric \<Rightarrow> (case dr_evidence d of
             JList evidence \<Rightarrow> Inr (JObj [(''day_index'', dr_day_index d), (''score'', JFloat (the score)),
               (''rubric_results_json'', JObj rubric), (''evidence_pointers_json'', JList evidence)])
           | _ \<Rightarrow> Inl (ValueError (path @ '' evidence must be a list.'')))
         | _ \<Rightarrow> Inl (ValueError (path @ '' rubric_breakdown must be an object.''))))"

definition build_day_scores :: "evaluation_result \<Rightarrow> json list res" where
  "build_day_scores result = map_result build_day_score (re_day_results result)"

definition build_reviewer_report :: "reviewer_report_result \<Rightarrow> json" where
  "build_reviewer_report r = JObj [(''day_index'', rp_day_index r), (''reviewer_agent_key'', rp_reviewer_agent_key r),
     (''submission_kind'', rp_submission_kind r), (''score'', rp_score r),
     (''dimensional_scores_json'', rp_dimensional_scores_json r), (''evidence_citations_json'', rp_evidence_citations_json r),
     (''assessment_text'', rp_assessment_text r), (''strengths_json'', rp_strengths_json r),
     (''risks_json'', rp_risks_json r), (''raw_output_json'', rp_raw_output_json r)]"

definition build_reviewer_reports :: "evaluation_result \<Rightarrow> json list" where
  "build_reviewer_reports result = map build_reviewer_report (re_reviewer_reports result)"

definition completed_report_json :: "obj \<Rightarrow> obj \<Rightarrow> obj" where
  "completed_report_json report run_metadata =
     (let version = (case dict_get ''version'' report of JObj v \<Rightarrow> v | _ \<Rightarrow> []);
          pack = text_of (dict_get ''promptPackVersion'' run_metadata)
      in dict_set ''version''
           (JObj (if pack = [] then version else dict_set ''promptPackVersion'' (JStr pack) version)) report)"

section \<open>Attempts\<close>

definition validate_attempt :: "evaluation_input_bundle \<Rightarrow> nat \<Rightarrow> evaluation_result \<Rightarrow> validation_result res" where
  "validate_attempt bundle attempt result =
     (case re_report_json result of
        JObj report \<Rightarrow> validate_winoe_report_evidence_trail report (Some bundle)
      | _ \<Rightarrow> Inr \<lparr>vr_passed = False, vr_errors = [''Winoe synthesis output is not an object.''], vr_warnings = [],
               vr_metadata = [(''attempt'', JInt (int attempt))]\<rparr>)"

function evaluate_from ::
    "(nat \<Rightarrow> evaluation_result res) \<Rightarrow> evaluation_input_bundle \<Rightarrow> nat \<Rightarrow> (evaluation_result \<times> validation_result) res" where
  "evaluate_from evaluator bundle attempt =
     bind_result (evaluator attempt) (\<lambda>result.
     bind_result (validate_attempt bundle attempt result) (\<lambda>v.
     if vr_passed v then Inr (result, v)
     else if attempt \<ge> 3 then Inl (EvidenceTrailValidationError (vr_errors v))
     else evaluate_from evaluator bundle (Suc attempt)))"
  by pat_completeness auto
termination by (relation "measure (\<lambda>(_, _, attempt). 4 - attempt)") auto

declare evaluate_from.simps [simp del]

section \<open>The report and its citations\<close>

definition upsert_marker :: "int \<Rightarrow> datetime \<Rightarrow> (report_db, winoe_report) op" where
  "upsert_marker c generated_at =
     bind_op (query_op (\<lambda>db. find_row (\<lambda>m. wr_candidate_session_id m = c) (rd_reports db))) (\<lambda>existing.
     case existing of
       None \<Rightarrow>
         bind_op (query_op (\<lambda>db. \<lparr>wr_id = rd_next_report_id db, wr_candidate_session_id = c, wr_generated_at = generated_at\<rparr>)) (\<lambda>m.
         bind_op (modify_op (\<lambda>db. db\<lparr>rd_reports := rd_reports db @ [m], rd_next_report_id := rd_next_report_id db + 1\<rparr>)) (\<lambda>_.
         lift_op (Inr m)))
     | Some m \<Rightarrow>
         bind_op (modify_op (\<lambda>db. db\<lparr>rd_reports := update_rows (\<lambda>x. wr_id x = wr_id m)
            (\<lambda>x. x\<lparr>wr_generated_at := generated_at\<rparr>) (rd_reports db)\<rparr>)) (\<lambda>_.
         lift_op (Inr (m\<lparr>wr_generated_at := generated_at\<rparr>))))"

definition required_text :: "string \<Rightarrow> obj \<Rightarrow> string res" where
  "required_text k entry =
     (case dict_lookup k entry of None \<Rightarrow> Inl (KeyError k) | Some v \<Rightarrow> Inr (py_strip (py_str v)))"

definition citation_row :: "int \<Rightarrow> obj \<Rightarrow> winoe_report_citation res" where
  "citation_row report_id entry =
     bind_result (required_text ''dimension'' entry) (\<lambda>dimension.
     bind_result (required_text ''artifact_type'' entry) (\<lambda>artifact_type.
     bind_result (required_text ''artifact_ref'' entry) (\<lambda>artifact_ref.
     bind_result (required_text ''excerpt'' entry) (\<lambda>excerpt.
     Inr \<lparr>wc_report_id = report_id, wc_dimension = dimension, wc_artifact_type = artifact_type,
          wc_artifact_ref = artifact_ref, wc_excerpt = excerpt\<rparr>))))"

definition replace_report_citations :: "int \<Rightarrow> obj list \<Rightarrow> (report_db, winoe_report_citation list) op" where
  "replace_report_citations report_id citations =
     bind_op (query_op (\<lambda>_. ())) (\<lambda>_.
     bind_op (modify_op (\<lambda>db. db\<lparr>rd_citations := filter (\<lambda>c. wc_report_id c \<noteq> report_id) (rd_citations db)\<rparr>)) (\<lambda>_.
     bind_op (lift_op (map_result (citation_row report_id) citations)) (\<lambda>rows.
     bind_op (modify_op (\<lambda>db. db\<lparr>rd_citations := rd_citations db @ rows\<rparr>)) (\<lambda>_.
     lift_op (Inr rows)))))"

definition list_report_citations :: "int \<Rightarrow> string option \<Rightarrow> report_db \<Rightarrow> winoe_report_citation list" where
  "list_report_citations report_id dimension db =
     sort_key wc_dimension (filter (\<lambda>c. wc_report_id c = report_id \<and>
       (case dimension of None \<Rightarrow> True | Some d \<Rightarrow> py_strip d = [] \<or> wc_dimension c = py_strip d)) (rd_citations db))"

definition evaluation_correlation :: "int \<Rightarrow> int \<Rightarrow> string" where
  "evaluation_correlation trial_id c = ''trial:'' @ int_str trial_id @ '':candidate_session:'' @ int_str c @ '':evaluation''"

definition new_evaluation_state :: "int \<Rightarrow> int \<Rightarrow> datetime \<Rightarrow> trial_evaluation_state" where
  "new_evaluation_state trial_id c now =
     \<lparr>ts_trial_id = trial_id, ts_candidate_session_id = c, ts_state = ''report_finalized'',
      ts_correlation_id = Some (evaluation_correlation trial_id c), ts_reviewer_status_json = JNull,
      ts_winoe_synthesis_status = None, ts_evidence_trail_validation_status = None,
      ts_report_finalization_status = None, ts_notification_status = None, ts_failure_context_json = JNull, ts_updated_at = now\<rparr>"

definition finalized_state :: "validation_result \<Rightarrow> datetime \<Rightarrow> trial_evaluation_state \<Rightarrow> trial_evaluation_state" where
  "finalized_state v now s =
     s\<lparr>ts_state := ''report_finalized'', ts_winoe_synthesis_status := Some ''complete'',
       ts_evidence_trail_validation_status := Some ''passed'', ts_report_finalization_status := Some ''finalized'',
       ts_notification_status := Some ''queued_or_pending'',
       ts_failure_context_json := JObj [(''validation'', JObj [(''passed'', JBool True),
          (''warnings'', JList (map JStr (vr_warnings v))), (''metadata'', JObj (vr_metadata v))])],
       ts_updated_at := now\<rparr>"

definition mark_evaluation_state_report_finalized ::
    "int \<Rightarrow> int \<Rightarrow> validation_result \<Rightarrow> datetime \<Rightarrow> (report_db, unit) op" where
  "mark_evaluation_state_report_finalized c trial_id v now =
     bind_op (query_op (\<lambda>db. find_row (\<lambda>s. ts_candidate_session_id s = c) (rd_states db))) (\<lambda>existing.
     modify_op (\<lambda>db. db\<lparr>rd_states :=
       (case existing of
          None \<Rightarrow> rd_states db @ [finalized_state v now (new_evaluation_state trial_id c now)]
        | Some _ \<Rightarrow> update_rows (\<lambda>s. ts_candidate_session_id s = c) (finalized_state v now) (rd_states db))\<rparr>))"

section \<open>The notification\<close>

definition enqueue_winoe_report_ready_notification :: "int \<Rightarrow> int \<Rightarrow> datetime \<Rightarrow> (report_db, job) op" where
  "enqueue_winoe_report_ready_notification c trial_id now =
     bind_op (query_op rd_app) (\<lambda>app.
     bind_op (lift_op (enqueue_talent_partner_notification_job WINOE_REPORT_READY_NOTIFICATION_JOB_TYPE
        (winoe_report_ready_key c) c trial_id now app)) (\<lambda>(j, app').
     bind_op (modify_op (\<lambda>db. db\<lparr>rd_app := app'\<rparr>)) (\<lambda>_. lift_op (Inr j))))"

section \<open>The job\<close>

record job_inputs =
  ji_session_id :: int
  ji_trial_id :: int
  ji_bundle :: evaluation_input_bundle
  ji_request :: run_request
  ji_run_metadata :: obj
  ji_policy_metadata :: obj

definition report_of :: "evaluation_result \<Rightarrow> obj" where
  "report_of result = (case re_report_json result of JObj r \<Rightarrow> r | _ \<Rightarrow> [])"

definition completion_of :: "evaluation_result \<Rightarrow> json list \<Rightarrow> obj \<Rightarrow> completion" where
  "completion_of result day_scores run_metadata =
     \<lparr>cn_day_scores = day_scores, cn_reviewer_reports = build_reviewer_reports result,
      cn_overall_winoe_score = re_overall_winoe_score result, cn_recommendation = re_recommendation result,
      cn_confidence = re_confidence result,
      cn_raw_report_json = JObj (completed_report_json (report_of result) run_metadata),
      cn_completed_at = None, cn_generated_at = None, cn_metadata_json = JObj run_metadata,
      cn_allow_empty_day_scores = True\<rparr>"

text \<open>The writes once the run is completed.\<close>

definition publish_report ::
    "job_inputs \<Rightarrow> evaluation_result \<Rightarrow> validation_result \<Rightarrow> datetime \<Rightarrow> evaluation_run \<Rightarrow> (report_db, evaluation_run) op" where
  "publish_report ji result v now run =
     bind_op (upsert_marker (ji_session_id ji) (case er_generated_at run of Some t \<Rightarrow> t | None \<Rightarrow> now)) (\<lambda>marker.
     bind_op (lift_op (items_or_empty (dict_get ''citations'' (report_of result)))) (\<lambda>items.
     bind_op (replace_report_citations (wr_id marker) (objects items)) (\<lambda>_.
     bind_op (mark_evaluation_state_report_finalized (ji_session_id ji) (ji_trial_id ji) v now) (\<lambda>_.
     bind_op (enqueue_winoe_report_ready_notification (ji_session_id ji) (ji_trial_id ji) now) (\<lambda>_.
     bind_op (query_op (\<lambda>_. ())) (\<lambda>_.
     lift_op (Inr run)))))))"

definition evaluate_and_finalize_run ::
    "(string \<Rightarrow> (string \<times> string) res) \<Rightarrow> (nat \<Rightarrow> evaluation_result res) \<Rightarrow> job_inputs \<Rightarrow> obj \<Rightarrow> int \<Rightarrow> datetime \<Rightarrow>
     (report_db, evaluation_run) op" where
  "evaluate_and_finalize_run urlparse evaluator ji run_metadata run_id now =
     bind_op (lift_op (evaluate_from evaluator (ji_bundle ji) 1)) (\<lambda>rv.
     bind_op (lift_op (build_day_scores (fst rv))) (\<lambda>day_scores.
     bind_op (complete_run urlparse run_id (completion_of (fst rv) day_scores run_metadata) now) (\<lambda>run.
     publish_report ji (fst rv) (snd rv) now run)))"

definition mark_failed_run :: "int \<Rightarrow> obj \<Rightarrow> string \<Rightarrow> datetime \<Rightarrow> (report_db, evaluation_run) op" where
  "mark_failed_run run_id run_metadata code now =
     fail_run run_id None (Some code) (JObj run_metadata) (Some ''evaluation_run_failed'') now"

text \<open>What \<open>_get_or_start_run\<close> returns: the run and, when there is nothing to evaluate, its status.\<close>

definition get_or_start_run :: "run_request \<Rightarrow> datetime \<Rightarrow> ('x eval_db_scheme, evaluation_run \<times> string option) op" where
  "get_or_start_run rq now =
     bind_op (case rq_job_id rq of
        Some j \<Rightarrow> get_run_by_job_id j (Some (rq_candidate_session_id rq))
      | None \<Rightarrow> (case rq_basis_fingerprint rq of
          None \<Rightarrow> lift_op (Inr None)
        | Some b \<Rightarrow> get_latest_run_for_candidate_session (rq_candidate_session_id rq) None (Some b))) (\<lambda>existing.
     case existing of
       None \<Rightarrow> bind_op (start_run rq now) (\<lambda>run. lift_op (Inr (run, None)))
     | Some run \<Rightarrow>
         lift_op (Inr (run,
           if er_status run = ''completed'' then Some ''completed''
           else if er_status run = ''failed'' then Some ''failed''
           else if rq_job_id rq = None then Some ''running'' else None)))"

definition RETRYABLE_PROVIDER_ERROR_MARKERS :: "string list" where
  "RETRYABLE_PROVIDER_ERROR_MARKERS = [''ratelimiterror'', ''too many requests'', ''rate limit'', ''429'',
     ''apitimeouterror'', ''apiconnectionerror'', ''internalservererror'', ''serviceunavailableerror'', ''overloadederror'']"

definition is_retryable_provider_error :: "error \<Rightarrow> bool" where
  "is_retryable_provider_error e =
     (case e of ProviderError msg \<Rightarrow>
        (let normalized = py_lower (py_strip msg)
         in normalized \<noteq> [] \<and> list_ex (\<lambda>marker. contains marker normalized) RETRYABLE_PROVIDER_ERROR_MARKERS)
      | _ \<Rightarrow> False)"

text \<open>
  The outcome of the job: the response's status and run, or the error that leaves it. The
  database afterwards is the committed one; what was not committed is rolled back.
\<close>

definition process_evaluation_run_job ::
    "(string \<Rightarrow> (string \<times> string) res) \<Rightarrow> (nat \<Rightarrow> evaluation_result res) \<Rightarrow> job_inputs \<Rightarrow> datetime \<Rightarrow> report_db \<Rightarrow>
     report_db \<times> (string \<times> int) res" where
  "process_evaluation_run_job urlparse evaluator ji now db0 =
     (case get_or_start_run (ji_request ji) now db0 of
        (_, Inl e) \<Rightarrow> (db0, Inl e)
      | (db1, Inr (run, Some status)) \<Rightarrow> (db0, Inr (status, er_id run))
      | (db1, Inr (run, None)) \<Rightarrow>
          (let run_metadata = dict_update (ji_run_metadata ji) (ji_policy_metadata ji) in
           case evaluate_and_finalize_run urlparse evaluator ji run_metadata (er_id run) now db1 of
             (db2, Inr done_run) \<Rightarrow> (db2, Inr (''completed'', er_id done_run))
           | (db2, Inl e) \<Rightarrow>
               if is_retryable_provider_error e then (db0, Inl e)
               else (case mark_failed_run (er_id run) run_metadata
                       (case error_code e of Some code \<Rightarrow> code | None \<Rightarrow> ''evaluation_failed'') now db2 of
                       (db3, Inr _) \<Rightarrow> (db3, Inr (''failed'', er_id run))
                     | (_, Inl e2) \<Rightarrow> (db0, Inl e2))))"

section \<open>What the operations on runs leave alone\<close>

lemma keeps_query_any: "keeps P (query_op q) (\<lambda>_. True)"
  by (rule keeps_query) simp

lemmas keeps_any = keeps_bind_any keeps_lift_any keeps_query_any keeps_if

lemma add_scores_and_reports_keep:
  assumes "\<And>s ds. P s \<Longrightarrow> P (s\<lparr>ev_day_scores := ds\<rparr>)" "\<And>s rs. P s \<Longrightarrow> P (s\<lparr>ev_reviewer_reports := rs\<rparr>)"
    "\<And>s b. P s \<Longrightarrow> P (s\<lparr>ev_failed := b\<rparr>)"
  shows "keeps P (add_day_scores u i vs e) (\<lambda>_. True)" and "keeps P (add_reviewer_reports u i vs e) (\<lambda>_. True)"
proof -
  have a: "keeps P (insert_op unique_day_scores (\<lambda>db. db\<lparr>ev_day_scores := ev_day_scores db @ ds\<rparr>)) (\<lambda>_. True)" for ds
    by (intro keeps_insert assms)
  have b: "keeps P (insert_op unique_reviewer_reports (\<lambda>db. db\<lparr>ev_reviewer_reports := ev_reviewer_reports db @ rs\<rparr>)) (\<lambda>_. True)" for rs
    by (intro keeps_insert assms)
  show "keeps P (add_day_scores u i vs e) (\<lambda>_. True)"
    unfolding add_day_scores_def Let_def by (intro keeps_any a)
  show "keeps P (add_reviewer_reports u i vs e) (\<lambda>_. True)"
    unfolding add_reviewer_reports_def
    by (intro keeps_any, unfold case_prod_unfold) (intro keeps_any b)
qed

lemma add_keep_runs:
  "keeps (\<lambda>s. ev_runs s = rs) (add_day_scores u i vs e) (\<lambda>_. True)"
  "keeps (\<lambda>s. ev_runs s = rs) (add_reviewer_reports u i vs e) (\<lambda>_. True)"
  by (rule add_scores_and_reports_keep; simp)+

lemma load_run_keeps_any: "keeps P (load_run i) (\<lambda>_. True)"
  unfolding load_run_def get_run_by_id_def by (intro keeps_any)

lemma complete_run_more: "keeps (\<lambda>s. eval_db.more s = m) (complete_run u i cn now) (\<lambda>_. True)"
proof -
  have set: "keeps (\<lambda>s. eval_db.more s = m) (set_run i f) (\<lambda>_. True)" for f
    unfolding set_run_def by (rule keeps_modify) simp
  have add: "keeps (\<lambda>s. eval_db.more s = m) (add_day_scores u i vs e) (\<lambda>_. True)"
    "keeps (\<lambda>s. eval_db.more s = m) (add_reviewer_reports u i vs e) (\<lambda>_. True)" for vs e
    by (rule add_scores_and_reports_keep; simp)+
  show ?thesis unfolding complete_run_def Let_def by (intro keeps_any set add load_run_keeps_any)
qed

lemma fail_run_more: "keeps (\<lambda>s. eval_db.more s = m) (fail_run i c code md msg now) (\<lambda>_. True)"
proof -
  have set: "keeps (\<lambda>s. eval_db.more s = m) (set_run i f) (\<lambda>_. True)" for f
    unfolding set_run_def by (rule keeps_modify) simp
  show ?thesis unfolding fail_run_def Let_def by (intro keeps_any set load_run_keeps_any)
qed

lemma more_fields:
  assumes "eval_db.more s = eval_db.more (t :: report_db)"
  shows "rd_reports s = rd_reports t" "rd_next_report_id s = rd_next_report_id t" "rd_citations s = rd_citations t"
    "rd_states s = rd_states t" "rd_app s = rd_app t"
  using assms by (cases s; cases t; simp)+

abbreviation row_of :: "int \<Rightarrow> 'x eval_db_scheme \<Rightarrow> evaluation_run option" where
  "row_of i s \<equiv> find_row (\<lambda>r. er_id r = i) (ev_runs s)"

lemma row_of_set_run:
  assumes "\<And>r. er_id (f r) = er_id r"
  shows "row_of i (s\<lparr>ev_runs := update_rows (\<lambda>r. er_id r = i) f (ev_runs s)\<rparr>) = map_option f (row_of i s)"
  using row_update.find_same[of er_id f i "ev_runs s"] assms by (simp add: row_update_def)

lemma set_run_Inr: "set_run i f s = (s', Inr u) \<longleftrightarrow> s' = s\<lparr>ev_runs := update_rows (\<lambda>r. er_id r = i) f (ev_runs s)\<rparr>"
  by (auto simp: set_run_def modify_op_def)

lemma query_opE:
  assumes "query_op q s = (s', Inr x)" obtains "s' = s" "x = q s" "\<not> ev_failed s"
  using assms by auto

definition completed_row :: "completion \<Rightarrow> datetime \<Rightarrow> string option \<Rightarrow> string option \<Rightarrow> string option \<Rightarrow> obj option \<Rightarrow>
    obj option \<Rightarrow> evaluation_run \<Rightarrow> evaluation_run" where
  "completed_row cn now overall recommendation confidence raw metadata r =
     (case metadata of None \<Rightarrow> id | Some m \<Rightarrow> er_metadata_json_update (\<lambda>_. Some m))
     (r\<lparr>er_status := ''completed'', er_completed_at := Some (resolved_time (cn_completed_at cn) now),
       er_generated_at := Some (resolved_time (cn_generated_at cn) now), er_overall_winoe_score := overall,
       er_recommendation := recommendation, er_confidence := confidence, er_raw_report_json := raw, er_error_code := None\<rparr>)"

lemma row_of_set_run_Inr:
  assumes "set_run i f s = (s', Inr u)" "row_of i s = Some r" "\<And>r. er_id (f r) = er_id r"
  shows "row_of i s' = Some (f r)" "ev_failed s' = ev_failed s"
proof -
  have "s' = s\<lparr>ev_runs := update_rows (\<lambda>r. er_id r = i) f (ev_runs s)\<rparr>" using assms(1) by (simp add: set_run_def)
  then show "row_of i s' = Some (f r)" "ev_failed s' = ev_failed s" using row_of_set_run[of f i s] assms by simp_all
qed

lemma complete_run_success:
  assumes c: "complete_run u i cn now s = (s', Inr r)"
  obtains run overall recommendation confidence raw metadata where "row_of i s = Some run" "er_status run = ''running''"
    "row_of i s' = Some r" "r = completed_row cn now overall recommendation confidence raw metadata run"
    "\<And>d. cn_raw_report_json cn = JObj d \<Longrightarrow> raw = Some d" "\<not> ev_failed s" "\<not> ev_failed s'"
proof -
  let ?t = "resolved_time (cn_completed_at cn) now" and ?g = "resolved_time (cn_generated_at cn) now"
  from c obtain run s1 s2 s3 s4 s5 s6 s7 rs ds v2 v3 v4 v5 v6 v7 v8 overall recommendation confidence raw metadata where
    run: "\<not> ev_failed s" "row_of i s = Some run" and tr: "ensure_transition (er_status run) ''completed'' = Inr v2"
    and a: "add_reviewer_reports u i (cn_reviewer_reports cn) True s = (s1, Inr rs)"
    and b: "add_day_scores u i (cn_day_scores cn) (cn_allow_empty_day_scores cn) s1 = (s2, Inr ds)"
    and raw: "(case cn_raw_report_json cn of JNull \<Rightarrow> Inr None | JObj d \<Rightarrow> Inr (Some d)
        | _ \<Rightarrow> Inl (ValueError ''raw_report_json must be an object.'')) = Inr raw"
    and sets: "set_run i (\<lambda>r. r\<lparr>er_status := ''completed'', er_completed_at := Some ?t, er_generated_at := Some ?g\<rparr>) s2 = (s3, Inr v3)"
      "set_run i (\<lambda>r. r\<lparr>er_overall_winoe_score := overall\<rparr>) s3 = (s4, Inr v4)"
      "set_run i (\<lambda>r. r\<lparr>er_recommendation := recommendation\<rparr>) s4 = (s5, Inr v5)"
      "set_run i (\<lambda>r. r\<lparr>er_confidence := confidence\<rparr>) s5 = (s6, Inr v6)"
      "set_run i (\<lambda>r. r\<lparr>er_raw_report_json := raw, er_error_code := None\<rparr>) s6 = (s7, Inr v7)"
      "set_run i (\<lambda>r. case metadata of None \<Rightarrow> r | Some m \<Rightarrow> r\<lparr>er_metadata_json := Some m\<rparr>) s7 = (s', Inr v8)"
    and fin: "\<not> ev_failed s'" "row_of i s' = Some r"
    unfolding complete_run_def Let_def
    by (elim bind_opE, simp only: lift_op_def prod.inject sum.inject load_run_Inr, elim conjE, hypsubst) (rule that; assumption)
  have s2: "row_of i s2 = Some run"
    using keepsD(1)[OF add_keep_runs(2) a refl] keepsD(1)[OF add_keep_runs(1) b refl] run(2) by simp
  note 3 = row_of_set_run_Inr(1)[OF sets(1) s2, simplified]
  note 4 = row_of_set_run_Inr(1)[OF sets(2) 3, simplified]
  note 5 = row_of_set_run_Inr(1)[OF sets(3) 4, simplified]
  note 6 = row_of_set_run_Inr(1)[OF sets(4) 5, simplified]
  note 7 = row_of_set_run_Inr(1)[OF sets(5) 6, simplified]
  have 8: "row_of i s' = Some (completed_row cn now overall recommendation confidence raw metadata run)"
    using row_of_set_run_Inr(1)[OF sets(6) 7] by (simp add: completed_row_def split: option.splits)
  have "er_status run = ''running''" using tr by (auto simp: ensure_transition_def RUN_TRANSITIONS_def split: if_splits)
  moreover have "raw = Some d" if "cn_raw_report_json cn = JObj d" for d using raw that by simp
  ultimately show thesis using that run fin 8 by auto
qed

section \<open>The attempts\<close>

lemma evaluate_from_Inr:
  "evaluate_from evaluator b k = Inr (result, v) \<Longrightarrow>
   \<exists>j report. k \<le> j \<and> (k \<le> 3 \<longrightarrow> j \<le> 3) \<and> evaluator j = Inr result \<and> re_report_json result = JObj report \<and>
     validate_winoe_report_evidence_trail report (Some b) = Inr v \<and> vr_passed v"
proof (induction evaluator b k rule: evaluate_from.induct)
  case (1 evaluator b k)
  from "1.prems" obtain r w where r: "evaluator k = Inr r" and w: "validate_attempt b k r = Inr w"
    and rest: "(if vr_passed w then Inr (r, w) else if k \<ge> 3 then Inl (EvidenceTrailValidationError (vr_errors w))
       else evaluate_from evaluator b (Suc k)) = Inr (result, v)"
    unfolding evaluate_from.simps[of evaluator b k] by (elim bind_resultE)
  show ?case
  proof (cases "vr_passed w")
    case True
    with rest have e: "result = r" "v = w" by auto
    from w True obtain report where "re_report_json r = JObj report"
      "validate_winoe_report_evidence_trail report (Some b) = Inr w"
      by (cases "re_report_json r") (auto simp: validate_attempt_def)
    with r e True show ?thesis by auto
  next
    case False
    with rest have k: "\<not> k \<ge> 3" and n: "evaluate_from evaluator b (Suc k) = Inr (result, v)" by (auto split: if_splits)
    from "1.IH"[OF False k n] k obtain j report where "Suc k \<le> j" "j \<le> 3" "evaluator j = Inr result"
      "re_report_json result = JObj report" "validate_winoe_report_evidence_trail report (Some b) = Inr v" "vr_passed v" by auto
    then show ?thesis using k by (intro exI[of _ j] exI[of _ report]) auto
  qed
qed

lemma evaluate_from_bounded:
  "\<forall>j. k \<le> j \<and> j \<le> 3 \<longrightarrow> ev j = ev' j \<Longrightarrow> k \<le> 3 \<Longrightarrow> evaluate_from ev b k = evaluate_from ev' b k"
proof (induction ev b k rule: evaluate_from.induct)
  case (1 ev b k)
  have e: "ev k = ev' k" using 1(2,3) by simp
  have n: "evaluate_from ev b (Suc k) = evaluate_from ev' b (Suc k)"
    if "ev k = Inr r" "validate_attempt b k r = Inr w" "\<not> vr_passed w" "\<not> k \<ge> 3" for r w
    using 1(1)[OF that(3,4)] 1(2,3) that(4) by simp
  note step = evaluate_from.simps[of ev b k] evaluate_from.simps[of ev' b k] e[symmetric]
  show ?case
  proof (cases "ev k")
    case (Inl x)
    show ?thesis unfolding step Inl by simp
  next
    case (Inr r)
    show ?thesis
    proof (cases "validate_attempt b k r")
      case (Inl x)
      show ?thesis unfolding step Inr bind_result_Inr Inl by simp
    next
      case w: (Inr w)
      show ?thesis unfolding step Inr bind_result_Inr w using n[OF Inr w] by simp
    qed
  qed
qed

section \<open>Finalising\<close>

lemma upsert_marker_Inr:
  assumes "upsert_marker c t s = (s', Inr m)"
  shows "wr_candidate_session_id m = c" "m \<in> set (rd_reports s')" "ev_runs s' = ev_runs s" "rd_citations s' = rd_citations s"
    "rd_states s' = rd_states s" "rd_app s' = rd_app s" "ev_failed s' = ev_failed s"
  using assms
  by (auto simp: upsert_marker_def bind_op_Inr_iff set_update_rows split: option.splits dest: find_row_SomeD)

lemma replace_citations_Inr:
  assumes "replace_report_citations i cs s = (s', Inr rows)"
  shows "map_result (citation_row i) cs = Inr rows" "filter (\<lambda>c. wc_report_id c = i) (rd_citations s') = rows"
    "ev_runs s' = ev_runs s" "rd_reports s' = rd_reports s" "rd_states s' = rd_states s" "rd_app s' = rd_app s"
proof -
  show m: "map_result (citation_row i) cs = Inr rows" and "ev_runs s' = ev_runs s" "rd_reports s' = rd_reports s"
    "rd_states s' = rd_states s" "rd_app s' = rd_app s"
    using assms by (auto simp: replace_report_citations_def bind_op_Inr_iff)
  have "wc_report_id r = i" if "r \<in> set rows" for r
    using map_result_in[OF m that] by (auto simp: citation_row_def bind_result_Inr_iff)
  then have "filter (\<lambda>c. wc_report_id c = i) rows = rows" by (simp add: filter_id_conv)
  moreover have "rd_citations s' = filter (\<lambda>c. wc_report_id c \<noteq> i) (rd_citations s) @ rows"
    using assms by (auto simp: replace_report_citations_def bind_op_Inr_iff)
  ultimately show "filter (\<lambda>c. wc_report_id c = i) (rd_citations s') = rows" by simp
qed

lemma mark_finalized_Inr:
  assumes "mark_evaluation_state_report_finalized c t v now s = (s', Inr u)"
  shows "\<exists>x \<in> set (rd_states s'). ts_candidate_session_id x = c \<and> ts_state x = ''report_finalized'' \<and>
     ts_evidence_trail_validation_status x = Some ''passed'' \<and> ts_report_finalization_status x = Some ''finalized''"
    and "ev_runs s' = ev_runs s" "rd_reports s' = rd_reports s" "rd_citations s' = rd_citations s" "rd_app s' = rd_app s"
proof -
  from assms have s': "s' = s\<lparr>rd_states := (case find_row (\<lambda>s. ts_candidate_session_id s = c) (rd_states s) of
          None \<Rightarrow> rd_states s @ [finalized_state v now (new_evaluation_state t c now)]
        | Some _ \<Rightarrow> update_rows (\<lambda>s. ts_candidate_session_id s = c) (finalized_state v now) (rd_states s))\<rparr>"
    by (auto simp: mark_evaluation_state_report_finalized_def bind_op_Inr_iff)
  show "\<exists>x \<in> set (rd_states s'). ts_candidate_session_id x = c \<and> ts_state x = ''report_finalized'' \<and>
     ts_evidence_trail_validation_status x = Some ''passed'' \<and> ts_report_finalization_status x = Some ''finalized''"
  proof (cases "find_row (\<lambda>s. ts_candidate_session_id s = c) (rd_states s)")
    case None
    then show ?thesis by (simp add: s' finalized_state_def new_evaluation_state_def)
  next
    case (Some x)
    from find_row_SomeD[OF this] have "finalized_state v now x \<in> set (rd_states s')" "ts_candidate_session_id x = c"
      by (auto simp: s' Some set_update_rows)
    then show ?thesis by (intro bexI[of _ "finalized_state v now x"]) (simp_all add: finalized_state_def)
  qed
qed (use assms in \<open>auto simp: mark_evaluation_state_report_finalized_def bind_op_Inr_iff\<close>)

lemma notification_Inr:
  assumes "enqueue_winoe_report_ready_notification c t now s = (s', Inr j)" and wf: "jobs_wf (queue (rd_app s))"
  shows "\<exists>x. get_trial t (rd_app s) = Some x \<and> jobs_wf (queue (rd_app s')) \<and> j \<in> set (jobs (queue (rd_app s'))) \<and>
     job_key j = (t_company_id x, WINOE_REPORT_READY_NOTIFICATION_JOB_TYPE, winoe_report_ready_key c)"
    and "ev_runs s' = ev_runs s" "rd_reports s' = rd_reports s" "rd_citations s' = rd_citations s" "rd_states s' = rd_states s"
proof -
  from assms(1) obtain app' where e: "enqueue_talent_partner_notification_job WINOE_REPORT_READY_NOTIFICATION_JOB_TYPE
        (winoe_report_ready_key c) c t now (rd_app s) = Inr (j, app')" and s': "s' = s\<lparr>rd_app := app'\<rparr>"
    by (auto simp: enqueue_winoe_report_ready_notification_def bind_op_Inr_iff)
  show "\<exists>x. get_trial t (rd_app s) = Some x \<and> jobs_wf (queue (rd_app s')) \<and> j \<in> set (jobs (queue (rd_app s'))) \<and>
     job_key j = (t_company_id x, WINOE_REPORT_READY_NOTIFICATION_JOB_TYPE, winoe_report_ready_key c)"
    by (rule notification_job_queued[OF e wf]) (simp_all add: s')
  show "ev_runs s' = ev_runs s" "rd_reports s' = rd_reports s" "rd_citations s' = rd_citations s" "rd_states s' = rd_states s"
    by (simp_all add: s')
qed

lemma completed_row_simps [simp]:
  "er_status (completed_row cn now a b c raw md r) = ''completed''" "er_raw_report_json (completed_row cn now a b c raw md r) = raw"
  "er_id (completed_row cn now a b c raw md r) = er_id r" "er_job_id (completed_row cn now a b c raw md r) = er_job_id r"
  "er_candidate_session_id (completed_row cn now a b c raw md r) = er_candidate_session_id r"
  by (simp_all add: completed_row_def split: option.splits)

lemma fail_run_success:
  assumes f: "fail_run i c code md msg now s = (s', Inr r)"
  obtains run where "row_of i s = Some run" "row_of i s' = Some r" "er_status r = ''failed''" "er_id r = i"
    "er_job_id r = er_job_id run" "er_candidate_session_id r = er_candidate_session_id run"
    "er_error_code r = stored_code code" "\<not> ev_failed s'" "open_status (er_status run)"
proof -
  obtain run where run: "row_of i s = Some run" "open_status (er_status run)" "\<not> ev_failed s"
    using f by (rule fail_run_transition)
  from f obtain run' metadata v2 v3 v5 where run': "row_of i s = Some run'"
    and set: "set_run i (\<lambda>r. r\<lparr>er_status := ''failed'', er_completed_at := Some (resolved_time c now),
        er_error_code := stored_code code, er_metadata_json := failed_metadata (er_metadata_json run') metadata msg\<rparr>) s = (s', Inr v5)"
    and fin: "\<not> ev_failed s'" "row_of i s' = Some r"
    unfolding fail_run_def
    by (elim bind_opE, simp only: lift_op_def prod.inject sum.inject load_run_Inr, elim conjE, hypsubst) (rule that; assumption)
  from row_of_set_run_Inr(1)[OF set run']
  have e: "r = run'\<lparr>er_status := ''failed'', er_completed_at := Some (resolved_time c now),
        er_error_code := stored_code code, er_metadata_json := failed_metadata (er_metadata_json run') metadata msg\<rparr>"
    using fin(2) by simp
  have "er_id run = i" using find_row_SomeD[OF run(1)] by simp
  with that[OF run(1) fin(2)] e run run' fin(1) show thesis by simp
qed

text \<open>What the job stores about the report it finalised.\<close>

definition report_stored :: "int \<Rightarrow> obj \<Rightarrow> report_db \<Rightarrow> bool" where
  "report_stored c report db \<longleftrightarrow>
     (\<exists>m \<in> set (rd_reports db). \<exists>items. wr_candidate_session_id m = c \<and>
        items_or_empty (dict_get ''citations'' report) = Inr items \<and>
        map_result (citation_row (wr_id m)) (objects items) = Inr (filter (\<lambda>x. wc_report_id x = wr_id m) (rd_citations db)))"

definition state_finalized :: "int \<Rightarrow> report_db \<Rightarrow> bool" where
  "state_finalized c db \<longleftrightarrow>
     (\<exists>x \<in> set (rd_states db). ts_candidate_session_id x = c \<and> ts_state x = ''report_finalized'' \<and>
        ts_evidence_trail_validation_status x = Some ''passed'' \<and> ts_report_finalization_status x = Some ''finalized'')"

definition notification_queued :: "int \<Rightarrow> int \<Rightarrow> report_db \<Rightarrow> bool" where
  "notification_queued c trial_id db \<longleftrightarrow>
     (\<exists>t. get_trial trial_id (rd_app db) = Some t \<and> (\<exists>j \<in> set (jobs (queue (rd_app db))).
        job_key j = (t_company_id t, WINOE_REPORT_READY_NOTIFICATION_JOB_TYPE, winoe_report_ready_key c)))"

lemma notification_keeps_trials:
  "enqueue_winoe_report_ready_notification c t now s = (s', Inr j) \<Longrightarrow> get_trial k (rd_app s') = get_trial k (rd_app s)"
  by (auto simp: enqueue_winoe_report_ready_notification_def bind_op_Inr_iff enqueue_talent_partner_notification_job_def
      bind_result_Inr_iff get_trial_def split: option.splits)

lemma publish_report_Inr:
  assumes p: "publish_report ji result v now run s = (s', Inr x)" and wf: "jobs_wf (queue (rd_app s))"
  shows "x = run" "ev_runs s' = ev_runs s" "\<not> ev_failed s'" "report_stored (ji_session_id ji) (report_of result) s'"
    "state_finalized (ji_session_id ji) s'" "notification_queued (ji_session_id ji) (ji_trial_id ji) s'"
proof -
  from p obtain m s2 items s3 rows s4 w s5 j where
    m: "upsert_marker (ji_session_id ji) (case er_generated_at run of Some t \<Rightarrow> t | None \<Rightarrow> now) s = (s2, Inr m)"
    and it: "items_or_empty (dict_get ''citations'' (report_of result)) = Inr items"
    and r: "replace_report_citations (wr_id m) (objects items) s2 = (s3, Inr rows)"
    and st: "mark_evaluation_state_report_finalized (ji_session_id ji) (ji_trial_id ji) v now s3 = (s4, Inr w)"
    and n: "enqueue_winoe_report_ready_notification (ji_session_id ji) (ji_trial_id ji) now s4 = (s', Inr j)"
    and fin: "\<not> ev_failed s'" and x: "Inr run = (Inr x :: evaluation_run res)"
    unfolding publish_report_def
    by (elim bind_opE lift_opE query_opE, hypsubst) (rule that; (assumption | rule refl))
  note M = upsert_marker_Inr[OF m] and R = replace_citations_Inr[OF r] and S = mark_finalized_Inr[OF st]
  have wf4: "jobs_wf (queue (rd_app s4))" using wf M R S by simp
  note N = notification_Inr[OF n wf4]
  show "x = run" using x by simp
  show "\<not> ev_failed s'" by (fact fin)
  show "ev_runs s' = ev_runs s" using M R S N by simp
  have "m \<in> set (rd_reports s')" "filter (\<lambda>c. wc_report_id c = wr_id m) (rd_citations s') = rows" using M R S N by simp_all
  with R(1) it M(1) show "report_stored (ji_session_id ji) (report_of result) s'" unfolding report_stored_def by blast
  show "state_finalized (ji_session_id ji) s'" using S(1) N(5) unfolding state_finalized_def by simp
  show "notification_queued (ji_session_id ji) (ji_trial_id ji) s'"
    using N(1) notification_keeps_trials[OF n] unfolding notification_queued_def by auto
qed

lemma finalize_Inr:
  assumes f: "evaluate_and_finalize_run u ev ji md i now s = (s', Inr run)" and wf: "jobs_wf (queue (rd_app s))"
  obtains k result report cn s1 where "1 \<le> k" "k \<le> 3" "ev k = Inr result" "re_report_json result = JObj report"
    "passing_report report (Some (ji_bundle ji))" "complete_run u i cn now s = (s1, Inr run)"
    "er_raw_report_json run = Some (completed_report_json report md)" "er_status run = ''completed''"
    "ev_runs s' = ev_runs s1" "\<not> ev_failed s'"
    "report_stored (ji_session_id ji) report s'" "state_finalized (ji_session_id ji) s'"
    "notification_queued (ji_session_id ji) (ji_trial_id ji) s'"
proof -
  from f obtain rv day_scores s1 run1 where e: "evaluate_from ev (ji_bundle ji) 1 = Inr rv"
    and c: "complete_run u i (completion_of (fst rv) day_scores md) now s = (s1, Inr run1)"
    and p: "publish_report ji (fst rv) (snd rv) now run1 s1 = (s', Inr run)"
    unfolding evaluate_and_finalize_run_def
    by (elim bind_opE lift_opE, hypsubst) (rule that; assumption)
  from evaluate_from_Inr[of ev "ji_bundle ji" 1 "fst rv" "snd rv"] e obtain k report where
    k: "1 \<le> k" "k \<le> 3" "ev k = Inr (fst rv)" "re_report_json (fst rv) = JObj report"
    and val: "validate_winoe_report_evidence_trail report (Some (ji_bundle ji)) = Inr (snd rv)" "vr_passed (snd rv)" by auto
  have pass: "passing_report report (Some (ji_bundle ji))" using trail_passed_iff[OF val(1)] val(2) by blast
  have rep: "report_of (fst rv) = report" using k(4) by (simp add: report_of_def)
  have "jobs_wf (queue (rd_app s1))" using wf more_fields(5)[of s1 s] keepsD(1)[OF complete_run_more c refl] by simp
  note P = publish_report_Inr[OF p this]
  obtain run0 a b cc raw m where r: "run1 = completed_row (completion_of (fst rv) day_scores md) now a b cc raw m run0"
    and raw: "\<And>d. cn_raw_report_json (completion_of (fst rv) day_scores md) = JObj d \<Longrightarrow> raw = Some d"
    using complete_run_success[OF c] by metis
  have "raw = Some (completed_report_json report md)" using raw by (simp add: completion_of_def rep)
  then have raw': "er_raw_report_json run = Some (completed_report_json report md)" "er_status run = ''completed''"
    using r P(1) by simp_all
  from that[OF k pass _ raw' P(2,3)] c P show thesis by (simp add: rep)
qed

section \<open>Outcomes of the job\<close>

lemma first_newest: "first_row (newest_runs rs) = Some r \<Longrightarrow> r \<in> set rs"
  by (cases "newest_runs rs") (auto simp: first_row_def newest_runs_def dest: arg_cong[of _ _ set])

lemma get_by_job_Inr:
  "get_run_by_job_id j c s = (s', Inr x) \<longleftrightarrow> s' = s \<and> py_strip j \<noteq> [] \<and> \<not> ev_failed s \<and>
   x = first_row (newest_runs (filter (\<lambda>r. er_job_id r = Some (py_strip j) \<and>
       (case c of None \<Rightarrow> True | Some c \<Rightarrow> er_candidate_session_id r = c)) (ev_runs s)))"
  by (auto simp: get_run_by_job_id_def bind_op_Inr_iff normalize_non_empty_str_def)

lemma get_or_start_cases:
  assumes g: "get_or_start_run rq now s = (s1, Inr (run, st))"
  obtains "st = None" "start_run rq now s = (s1, Inr run)"
  | "s1 = s" "run \<in> set (ev_runs s)" "st = (if er_status run = ''completed'' then Some ''completed''
           else if er_status run = ''failed'' then Some ''failed''
           else if rq_job_id rq = None then Some ''running'' else None)"
      "\<And>j. rq_job_id rq = Some j \<Longrightarrow> er_job_id run = Some (py_strip j) \<and> er_candidate_session_id run = rq_candidate_session_id rq"
proof -
  from g obtain s2 existing where e: "(case rq_job_id rq of
        Some j \<Rightarrow> get_run_by_job_id j (Some (rq_candidate_session_id rq))
      | None \<Rightarrow> (case rq_basis_fingerprint rq of
          None \<Rightarrow> lift_op (Inr None)
        | Some b \<Rightarrow> get_latest_run_for_candidate_session (rq_candidate_session_id rq) None (Some b))) s = (s2, Inr existing)"
    and r: "(case existing of
       None \<Rightarrow> bind_op (start_run rq now) (\<lambda>run. lift_op (Inr (run, None)))
     | Some run \<Rightarrow>
         lift_op (Inr (run,
           if er_status run = ''completed'' then Some ''completed''
           else if er_status run = ''failed'' then Some ''failed''
           else if rq_job_id rq = None then Some ''running'' else None))) s2 = (s1, Inr (run, st))"
    unfolding get_or_start_run_def by (rule bind_opE)
  have s2: "s2 = s" and ex: "\<And>x. existing = Some x \<Longrightarrow> x \<in> set (ev_runs s) \<and>
      (\<forall>j. rq_job_id rq = Some j \<longrightarrow> er_job_id x = Some (py_strip j) \<and> er_candidate_session_id x = rq_candidate_session_id rq)"
    using e
    by (auto simp: get_by_job_Inr get_latest_run_for_candidate_session_def bind_op_Inr_iff
        split: option.splits dest!: first_newest first_newest[OF sym])
  show thesis
  proof (cases existing)
    case None
    with r s2 have "st = None" "start_run rq now s = (s1, Inr run)" by (auto simp: bind_op_Inr_iff)
    then show thesis by (rule that(1))
  next
    case (Some x)
    with r s2 ex[OF Some] have "s1 = s" "x = run" "run \<in> set (ev_runs s)" and "st = (if er_status run = ''completed'' then Some ''completed''
           else if er_status run = ''failed'' then Some ''failed''
           else if rq_job_id rq = None then Some ''running'' else None)" by auto
    then show thesis using that(2) ex[OF Some] by blast
  qed
qed

lemma start_run_more: "start_run rq now s = (s1, Inr run) \<Longrightarrow> eval_db.more s1 = eval_db.more s"
  by (auto simp: start_run_def add_run_def elim!: create_run_Inr)

lemma get_or_start_more: "get_or_start_run rq now s = (s1, Inr x) \<Longrightarrow> eval_db.more s1 = eval_db.more s"
  by (cases x) (auto elim!: get_or_start_cases dest: start_run_more)

text \<open>The two ways in which a job that evaluates ends with a response.\<close>

lemma process_cases:
  assumes p: "process_evaluation_run_job u ev ji now db = (db', Inr (status, i))"
  obtains (over) run where "db' = db" "run \<in> set (ev_runs db)" "i = er_id run" "status \<in> {''completed'', ''failed'', ''running''}"
      "status \<noteq> ''running'' \<Longrightarrow> er_status run = status"
      "get_or_start_run (ji_request ji) now db = (db, Inr (run, Some status))"
  | (finished) db1 run r where "get_or_start_run (ji_request ji) now db = (db1, Inr (run, None))" "status = ''completed''" "i = er_id r"
      "evaluate_and_finalize_run u ev ji (dict_update (ji_run_metadata ji) (ji_policy_metadata ji)) (er_id run) now db1 = (db', Inr r)"
  | (lost) db1 run db2 e r where "get_or_start_run (ji_request ji) now db = (db1, Inr (run, None))" "status = ''failed''" "i = er_id run"
      "evaluate_and_finalize_run u ev ji (dict_update (ji_run_metadata ji) (ji_policy_metadata ji)) (er_id run) now db1 = (db2, Inl e)"
      "mark_failed_run (er_id run) (dict_update (ji_run_metadata ji) (ji_policy_metadata ji))
         (case error_code e of Some code \<Rightarrow> code | None \<Rightarrow> ''evaluation_failed'') now db2 = (db', Inr r)"
      "\<not> is_retryable_provider_error e"
proof -
  obtain db1 x where g: "get_or_start_run (ji_request ji) now db = (db1, x)" by fastforce
  with p obtain run st where x: "x = Inr (run, st)" by (cases x) (auto simp: process_evaluation_run_job_def)
  show thesis
  proof (cases st)
    case (Some t)
    with p g x have e: "db' = db" "status = t" "i = er_id run" by (auto simp: process_evaluation_run_job_def)
    from g[unfolded x] show thesis
    proof (cases rule: get_or_start_cases)
      case 2
      with Some e g x show thesis by (intro over[of run]) (auto split: if_splits)
    qed (use Some in simp)
  next
    case None
    let ?md = "dict_update (ji_run_metadata ji) (ji_policy_metadata ji)"
    obtain db2 y where y: "evaluate_and_finalize_run u ev ji ?md (er_id run) now db1 = (db2, y)" by fastforce
    show thesis
    proof (cases y)
      case (Inr r)
      with p g x None y show thesis by (intro finished[of db1 run r]) (auto simp: process_evaluation_run_job_def Let_def)
    next
      case (Inl e)
      obtain db3 z where z: "mark_failed_run (er_id run) ?md (case error_code e of Some code \<Rightarrow> code | None \<Rightarrow> ''evaluation_failed'') now db2 = (db3, z)"
        by fastforce
      with p g x None y Inl show thesis
        by (intro lost[of db1 run db2 e "projr z"])
          (cases z; auto simp: process_evaluation_run_job_def Let_def split: if_splits)+
    qed
  qed
qed

end
