(* ===== verification/EvaluationOutcomes.thy ===== *)
theory EvaluationOutcomes
  imports EvaluationPipeline
begin

text \<open>
  What a call of the evaluation job leaves behind: a completed response is backed by a report
  that passes the evidence trail, a failed one changes no table but the runs', the evaluator is
  asked three times at most, and a repeated call answers as the first did.
\<close>

section \<open>Completing in stages\<close>

abbreviation run_completed :: "int \<Rightarrow> 'x eval_db_scheme \<Rightarrow> bool" where
  "run_completed i s \<equiv> \<exists>r. row_of i s = Some r \<and> er_status r = ''completed''"

lemma set_run_keeps_completed:
  assumes "\<And>r. er_id (f r) = er_id r" "\<And>r. er_status (f r) = er_status r"
  shows "keeps (run_completed i) (set_run i f) (\<lambda>_. True)"
  unfolding set_run_def
proof (rule keeps_modify)
  fix s assume "run_completed i s"
  then obtain r where "row_of i s = Some r" "er_status r = ''completed''" by blast
  with row_of_set_run[of f i s, OF assms(1)] show "run_completed i (s\<lparr>ev_runs := update_rows (\<lambda>r. er_id r = i) f (ev_runs s)\<rparr>)"
    by (intro exI[of _ "f r"]) (simp add: assms(2))
qed

lemma add_keep_completed:
  "keeps (run_completed i) (add_day_scores u i vs e) (\<lambda>_. True)"
  "keeps (run_completed i) (add_reviewer_reports u i vs e) (\<lambda>_. True)"
  by (rule add_scores_and_reports_keep; simp)+

text \<open>A completion that raises either changed no run or had already set the status.\<close>

lemma complete_run_staged:
  assumes "row_of i db = Some run"
  shows "staged (\<lambda>s. ev_runs s = ev_runs db) (run_completed i) (complete_run u i cn now)"
proof -
  let ?done = "\<lambda>r. r\<lparr>er_status := ''completed'', er_completed_at := Some (resolved_time (cn_completed_at cn) now),
    er_generated_at := Some (resolved_time (cn_generated_at cn) now)\<rparr>"
  have enter: "run_completed i s'" if "ev_runs s = ev_runs db" "set_run i ?done s = (s', x)" for s s' and x :: "unit res"
    using that assms row_of_set_run[of ?done i s] by (auto simp: set_run_def)
  show ?thesis
    unfolding complete_run_def Let_def
    by (intro staged_bind load_run_keeps_any keeps_any add_keep_runs staged_enter[where R = "run_completed i", OF enter]
        set_run_keeps_completed; (assumption | simp split: option.splits))
qed

section \<open>Publishing\<close>

lemma publish_keeps:
  assumes "\<And>s x. P s \<Longrightarrow> P (s\<lparr>rd_reports := x\<rparr>)" "\<And>s x n. P s \<Longrightarrow> P (s\<lparr>rd_reports := x, rd_next_report_id := n\<rparr>)"
    "\<And>s x. P s \<Longrightarrow> P (s\<lparr>rd_citations := x\<rparr>)" "\<And>s x. P s \<Longrightarrow> P (s\<lparr>rd_states := x\<rparr>)" "\<And>s x. P s \<Longrightarrow> P (s\<lparr>rd_app := x\<rparr>)"
  shows "keeps P (publish_report ji result v now run) (\<lambda>_. True)"
proof -
  have a: "keeps P (upsert_marker c t) (\<lambda>_. True)" for c t
    unfolding upsert_marker_def by (intro keeps_bind_any keeps_query_any, split option.split)
      (intro conjI allI impI keeps_any keeps_modify assms; assumption)
  have b: "keeps P (replace_report_citations i cs) (\<lambda>_. True)" for i cs
    unfolding replace_report_citations_def by (intro keeps_any keeps_modify assms)
  have c: "keeps P (mark_evaluation_state_report_finalized c t v now) (\<lambda>_. True)" for c t
    unfolding mark_evaluation_state_report_finalized_def by (intro keeps_any keeps_modify assms)
  have d: "keeps P (enqueue_winoe_report_ready_notification c t now) (\<lambda>_. True)" for c t
    unfolding enqueue_winoe_report_ready_notification_def case_prod_unfold by (intro keeps_any keeps_modify assms)
  show ?thesis unfolding publish_report_def by (intro keeps_any a b c d)
qed

lemma publish_keeps_runs: "keeps (\<lambda>s. ev_runs s = rs) (publish_report ji result v now run) (\<lambda>_. True)"
  by (rule publish_keeps) simp_all

lemma publish_keeps_wf: "keeps runs_wf (publish_report ji result v now run) (\<lambda>_. True)"
  by (rule publish_keeps) (simp_all add: runs_wf_def unique_job_ids_def unique_day_scores_def unique_reviewer_reports_def)

lemma complete_keeps_wf: "keeps runs_wf (complete_run u i cn now) (\<lambda>_. True)"
  unfolding keeps_def using complete_run_works by blast

lemma finalize_keeps_wf: "keeps runs_wf (evaluate_and_finalize_run u ev ji md i now) (\<lambda>_. True)"
  unfolding evaluate_and_finalize_run_def by (intro keeps_bind_any keeps_lift_any complete_keeps_wf publish_keeps_wf)

text \<open>An evaluation that raises before the status was set has touched the scores' tables only.\<close>

lemma finalize_Inl:
  assumes e: "evaluate_and_finalize_run u ev ji md i now s = (s', Inl e)" and run: "row_of i s = Some run"
  shows "(ev_runs s' = ev_runs s \<and> eval_db.more s' = eval_db.more s) \<or> run_completed i s'"
proof -
  let ?P = "\<lambda>t. ev_runs t = ev_runs s \<and> eval_db.more t = eval_db.more s"
  have c: "staged (\<lambda>t. ev_runs t = ev_runs s) (run_completed i) (complete_run u i cn now)" for cn
    by (rule complete_run_staged[OF run])
  have tail: "staged ?P (run_completed i) (bind_op (complete_run u i cn now) (publish_report ji result v now))" for cn result v
    unfolding staged_def
  proof (intro allI impI)
    fix t t' x
    assume t: "?P t" "bind_op (complete_run u i cn now) (publish_report ji result v now) t = (t', x)"
    obtain t1 y where y: "complete_run u i cn now t = (t1, y)" by fastforce
    show "?P t' \<or> run_completed i t'"
    proof (cases y)
      case (Inl a)
      with t y have "t' = t1" by (simp add: bind_op_def)
      with y t(1) c[of cn] keepsD(1)[OF complete_run_more y refl] show ?thesis unfolding staged_def by metis
    next
      case (Inr r)
      with t y have p: "publish_report ji result v now r t1 = (t', x)" by (simp add: bind_op_def)
      have "run_completed i t1" using complete_run_success[OF y[unfolded Inr]] by (metis completed_row_simps(1))
      with keepsD(1)[OF publish_keeps_runs p refl] show ?thesis by simp
    qed
  qed
  have "staged ?P (run_completed i) (evaluate_and_finalize_run u ev ji md i now)"
    unfolding evaluate_and_finalize_run_def by (rule staged_bind[OF keeps_lift_any])+ (rule tail)
  with e show ?thesis unfolding staged_def by blast
qed

text \<open>A run that can still be failed after the evaluation raised was never completed.\<close>

lemma failed_after_evaluation:
  assumes e: "evaluate_and_finalize_run u ev ji md i now s = (s', Inl e)" and run: "row_of i s = Some run"
    and f: "mark_failed_run i md' code now' s' = (s2, Inr r)"
  shows "row_of i s' = Some run \<and> eval_db.more s2 = eval_db.more s"
proof -
  from f obtain x where x: "row_of i s' = Some x" "open_status (er_status x)"
    unfolding mark_failed_run_def by (rule fail_run_transition)
  then have "\<not> run_completed i s'" by (auto simp: open_status_def)
  with finalize_Inl[OF e run] have s': "ev_runs s' = ev_runs s" "eval_db.more s' = eval_db.more s" by blast+
  then show ?thesis using run keepsD(1)[OF fail_run_more f[unfolded mark_failed_run_def] refl] by simp
qed

lemma publish_report_run: "publish_report ji result v now run s = (s', Inr x) \<Longrightarrow> x = run"
  unfolding publish_report_def by (elim bind_opE lift_opE) simp

section \<open>The three outcomes\<close>

lemma started_run_row: "runs_wf s \<Longrightarrow> r \<in> set (ev_runs s) \<Longrightarrow> row_of (er_id r) s = Some r"
  by (simp add: runs_wf_def find_row_unique)

lemma start_run_wf:
  assumes "start_run rq now s = (s1, Inr run)" "runs_wf s"
  shows "runs_wf s1" "row_of (er_id run) s1 = Some run"
proof -
  note w = create_run_works[OF assms(2) assms(1)[unfolded start_run_def]]
  show "runs_wf s1" by (fact w(1))
  then show "row_of (er_id run) s1 = Some run" by (rule started_run_row) (simp add: w(2))
qed

lemma start_run_identity:
  assumes "start_run rq now s = (s1, Inr run)"
  shows "er_candidate_session_id run = rq_candidate_session_id rq"
    "rq_job_id rq = Some j \<Longrightarrow> py_strip j \<noteq> [] \<Longrightarrow> er_job_id run = Some (py_strip j)" "er_status run = ''running''"
proof -
  from assms obtain row where row: "run_row (rq\<lparr>rq_status := ''running'', rq_overall_winoe_score := JNull, rq_recommendation := JNull,
       rq_confidence := JNull, rq_generated_at := None, rq_raw_report_json := JNull, rq_error_code := None,
       rq_completed_at := None\<rparr>) now = Inr row" and run: "run = row\<lparr>er_id := ev_next_run_id s\<rparr>"
    unfolding start_run_def by (rule create_run_Inr)
  show "er_candidate_session_id run = rq_candidate_session_id rq"
    using row by (auto simp: run run_row_def bind_result_Inr_iff split: prod.splits)
  have n: "normalize_status ''running'' = Inr ''running''" by code_simp
  show "er_status run = ''running''"
    using row by (auto simp: run run_row_def bind_result_Inr_iff n split: prod.splits)
  show "er_job_id run = Some (py_strip j)" if "rq_job_id rq = Some j" "py_strip j \<noteq> []"
    using row that by (auto simp: run run_row_def bind_result_Inr_iff normalize_optional_non_empty_str_def
        normalize_non_empty_str_def split: prod.splits if_splits)
qed

lemma get_or_start_working:
  assumes g: "get_or_start_run rq now s = (s1, Inr (run, st))" and wf: "runs_wf s"
  shows "runs_wf s1" "row_of (er_id run) s1 = Some run"
  using g by (elim get_or_start_cases; use wf in \<open>simp add: start_run_wf started_run_row\<close>)+

lemma get_or_start_job:
  assumes g: "get_or_start_run rq now s = (s1, Inr (run, st))" and j: "rq_job_id rq = Some j"
  shows "er_job_id run = Some (py_strip j)" "er_candidate_session_id run = rq_candidate_session_id rq" "py_strip j \<noteq> []" "\<not> ev_failed s"
proof -
  from g j obtain s2 x where "get_run_by_job_id j (Some (rq_candidate_session_id rq)) s = (s2, Inr x)"
    unfolding get_or_start_run_def by (auto elim!: bind_opE)
  then show ne: "py_strip j \<noteq> []" and "\<not> ev_failed s" by (simp_all add: get_by_job_Inr)
  show "er_job_id run = Some (py_strip j)" "er_candidate_session_id run = rq_candidate_session_id rq"
    using get_or_start_cases[OF g] start_run_identity[of rq now s s1 run] j ne by metis+
qed

lemma outcome_row:
  assumes p: "process_evaluation_run_job u ev ji now db = (db', Inr (status, i))" and wf: "runs_wf db"
  shows "runs_wf db' \<and> (\<exists>r \<in> set (ev_runs db'). er_id r = i \<and> (er_status r = status \<or> status = ''running'') \<and>
     (\<forall>j. rq_job_id (ji_request ji) = Some j \<longrightarrow>
        er_job_id r = Some (py_strip j) \<and> er_candidate_session_id r = rq_candidate_session_id (ji_request ji)))"
  using p
proof (cases rule: process_cases)
  case (over run)
  then show ?thesis using wf get_or_start_job[OF over(6)] by (auto intro!: bexI[of _ run])
next
  case (finished db1 run r)
  note w = get_or_start_working[OF finished(1) wf]
  from finished(4) obtain rv cn s1 run1 where c1: "complete_run u (er_id run) cn now db1 = (s1, Inr run1)"
    and pub: "publish_report ji (fst rv) (snd rv) now run1 s1 = (db', Inr r)"
    unfolding evaluate_and_finalize_run_def by (elim bind_opE lift_opE, hypsubst) (rule that; assumption)
  have c: "complete_run u (er_id run) cn now db1 = (s1, Inr r)" using c1 publish_report_run[OF pub] by simp
  have runs: "ev_runs db' = ev_runs s1" using keepsD(1)[OF publish_keeps_runs pub refl] .
  obtain run0 where run0: "row_of (er_id run) db1 = Some run0" "row_of (er_id run) s1 = Some r" "er_status r = ''completed''"
      "er_job_id r = er_job_id run0" "er_candidate_session_id r = er_candidate_session_id run0"
    using complete_run_success[OF c] by (metis completed_row_simps(1,4,5))
  then have "run0 = run" using w(2) by simp
  moreover have "r \<in> set (ev_runs db')" using find_row_SomeD[OF run0(2)] runs by simp
  moreover have "runs_wf db'" using keepsD(1)[OF finalize_keeps_wf finished(4) w(1)] .
  ultimately show ?thesis
    using finished run0 get_or_start_job[OF finished(1)] by (intro conjI bexI[of _ r]) auto
next
  case (lost db1 run db2 e r)
  note w = get_or_start_working[OF lost(1) wf]
  note f = failed_after_evaluation[OF lost(4) w(2) lost(5)]
  have "runs_wf db2" using keepsD(1)[OF finalize_keeps_wf lost(4) w(1)] .
  then have "runs_wf db'" using fail_run_works lost(5) unfolding mark_failed_run_def by blast
  moreover obtain run0 where run0: "row_of (er_id run) db2 = Some run0" "row_of (er_id run) db' = Some r" "er_status r = ''failed''"
      "er_id r = er_id run" "er_job_id r = er_job_id run0" "er_candidate_session_id r = er_candidate_session_id run0"
    by (rule fail_run_success[OF lost(5)[unfolded mark_failed_run_def]]) (rule that; assumption)
  moreover have "r \<in> set (ev_runs db')" using find_row_SomeD[OF run0(2)] by simp
  ultimately show ?thesis
    using lost(2,3) f get_or_start_job[OF lost(1)] by (intro conjI bexI[of _ r]) auto
qed

lemma outcome_not_aborted:
  assumes p: "process_evaluation_run_job u ev ji now db = (db', Inr (status, i))" and j: "rq_job_id (ji_request ji) = Some j"
    and wf: "jobs_wf (queue (rd_app db))"
  shows "\<not> ev_failed db' \<and> py_strip j \<noteq> []"
  using p
proof (cases rule: process_cases)
  case (over run)
  then show ?thesis using get_or_start_job(3,4)[OF over(6) j] by simp
next
  case (finished db1 run r)
  have "jobs_wf (queue (rd_app db1))" using wf more_fields(5)[of db1 db] get_or_start_more[OF finished(1)] by simp
  have "\<not> ev_failed db'" by (rule finalize_Inr[OF finished(4) \<open>jobs_wf (queue (rd_app db1))\<close>])
  then show ?thesis using get_or_start_job(3)[OF finished(1) j] by simp
next
  case (lost db1 run db2 e r)
  have "\<not> ev_failed db'" by (rule fail_run_success[OF lost(5)[unfolded mark_failed_run_def]])
  then show ?thesis using get_or_start_job(3)[OF lost(1) j] by simp
qed

lemma unique_job_lookup:
  assumes "unique_job_ids db" "r \<in> set (ev_runs db)" "er_job_id r = Some x" "Q r"
  shows "filter (\<lambda>r. er_job_id r = Some x \<and> Q r) (ev_runs db) = [r]"
proof -
  have "distinct (List.map_filter er_job_id rs) \<Longrightarrow> r \<in> set rs \<Longrightarrow> filter (\<lambda>r. er_job_id r = Some x \<and> Q r) rs = [r]" for rs
  proof (induction rs)
    case (Cons a rs)
    have in_ids: "x \<in> set (List.map_filter er_job_id rs)" if "b \<in> set rs" "er_job_id b = Some x" for b
      using that by (force simp: map_filter_def)
    show ?case
    proof (cases "a = r")
      case True
      have "filter (\<lambda>r. er_job_id r = Some x \<and> Q r) rs = []"
        using Cons.prems(1) in_ids True assms(3) by (auto simp: filter_empty_conv map_filter_simps)
      with True assms(3,4) show ?thesis by simp
    next
      case False
      with Cons.prems have r: "r \<in> set rs" by simp
      have "er_job_id a \<noteq> Some x" using Cons.prems(1) in_ids[OF r assms(3)] by (auto simp: map_filter_simps)
      with Cons.IH r Cons.prems(1) show ?thesis by (auto simp: map_filter_simps split: option.splits)
    qed
  qed simp
  with assms(1,2) show ?thesis by (simp add: unique_job_ids_def)
qed

lemma known_job_answers:
  assumes r: "unique_job_ids db" "r \<in> set (ev_runs db)" "\<not> ev_failed db" "er_status r \<in> {''completed'', ''failed''}"
    and j: "rq_job_id (ji_request ji) = Some j" "py_strip j \<noteq> []" "er_job_id r = Some (py_strip j)"
      "er_candidate_session_id r = rq_candidate_session_id (ji_request ji)"
  shows "process_evaluation_run_job u ev ji now db = (db, Inr (er_status r, er_id r))"
proof -
  note f = unique_job_lookup[OF r(1,2) j(3), of "\<lambda>r. er_candidate_session_id r = rq_candidate_session_id (ji_request ji)", OF j(4)]
  have "get_run_by_job_id j (Some (rq_candidate_session_id (ji_request ji))) db = (db, Inr (Some r))"
    using r(3) j(2) f by (simp add: get_by_job_Inr first_row_def newest_runs_def)
  then have "get_or_start_run (ji_request ji) now db = (db, Inr (r, Some (er_status r)))"
    using r(4) j(1) by (auto simp: get_or_start_run_def bind_op_def lift_op_def)
  then show ?thesis by (simp add: process_evaluation_run_job_def)
qed

section \<open>The properties\<close>

text \<open>
  Property C3. A completed response is backed: either the run was completed before and nothing
  changes, or one of at most three answers of the evaluator carries a report that passes the
  whole evidence trail check, the run is completed with that report, the report's marker, its
  citations and the finalised evaluation state are stored, and the notification job is queued.
\<close>

theorem completed_evaluation_is_backed:
  assumes wf: "jobs_wf (queue (rd_app db))"
    and p: "process_evaluation_run_job u ev ji now db = (db', Inr (''completed'', i))"
  shows "(db' = db \<and> (\<exists>run \<in> set (ev_runs db). er_id run = i \<and> er_status run = ''completed'')) \<or>
    (\<exists>k \<in> {1..3}. \<exists>result report. ev k = Inr result \<and> re_report_json result = JObj report \<and>
       passing_report report (Some (ji_bundle ji)) \<and>
       (\<exists>run \<in> set (ev_runs db'). er_id run = i \<and> er_status run = ''completed'' \<and>
          er_raw_report_json run = Some (completed_report_json report (dict_update (ji_run_metadata ji) (ji_policy_metadata ji)))) \<and>
       report_stored (ji_session_id ji) report db' \<and> state_finalized (ji_session_id ji) db' \<and>
       notification_queued (ji_session_id ji) (ji_trial_id ji) db')"
  using p
proof (cases rule: process_cases)
  case (over run)
  then show ?thesis by auto
next
  case (finished db1 run r)
  have wf1: "jobs_wf (queue (rd_app db1))" using wf more_fields(5)[of db1 db] get_or_start_more[OF finished(1)] by simp
  show ?thesis
  proof (rule finalize_Inr[OF finished(4) wf1], goal_cases)
    case (1 k result report cn s1)
    have "r \<in> set (ev_runs db')"
      using complete_run_success[OF 1(6)] 1(9) find_row_SomeD by metis
    with 1 finished(3) show ?case by (intro disjI2 bexI[of _ k] exI[of _ result] exI[of _ report] conjI bexI[of _ r]) simp_all
  qed
qed simp

text \<open>
  Property C29. A failed response stores no report: the reports, their citations, the
  evaluation states, the trials and the job queue are those of before the call, and the run
  named in the response is recorded as failed.
\<close>

theorem failed_evaluation_stores_no_report:
  assumes p: "process_evaluation_run_job u ev ji now db = (db', Inr (''failed'', i))" and wf: "runs_wf db"
  shows "(\<exists>run \<in> set (ev_runs db'). er_id run = i \<and> er_status run = ''failed'') \<and> rd_reports db' = rd_reports db \<and>
    rd_citations db' = rd_citations db \<and> rd_states db' = rd_states db \<and> rd_app db' = rd_app db"
proof -
  have "eval_db.more db' = eval_db.more db"
    using p
  proof (cases rule: process_cases)
    case (lost db1 run db2 e r)
    show ?thesis
      using failed_after_evaluation[OF lost(4) get_or_start_working(2)[OF lost(1) wf] lost(5)] get_or_start_more[OF lost(1)] by simp
  qed simp_all
  with more_fields[OF this] outcome_row[OF p wf] show ?thesis by auto
qed

text \<open>
  Property C30. The evaluator is asked three times at most: two evaluators that agree on the
  first three attempts lead to the same outcome and the same tables.
\<close>

theorem evaluator_asked_at_most_three_times:
  assumes "\<forall>k \<in> {1..3}. ev k = ev' k"
  shows "process_evaluation_run_job u ev ji now db = process_evaluation_run_job u ev' ji now db"
proof -
  have "evaluate_from ev b 1 = evaluate_from ev' b 1" for b using assms by (intro evaluate_from_bounded) auto
  then have "evaluate_and_finalize_run u ev ji = evaluate_and_finalize_run u ev' ji"
    unfolding evaluate_and_finalize_run_def by simp
  then show ?thesis unfolding process_evaluation_run_job_def by simp
qed

text \<open>
  Property C31. The job is idempotent: once a call with a job id has ended completed or failed,
  every later call for the same job and session, whatever its other inputs and whatever the
  evaluator would say, gives the same response and changes nothing.
\<close>

theorem repeated_job_answers_alike:
  assumes p: "process_evaluation_run_job u ev ji now db = (db', Inr (status, i))" and fin: "status \<noteq> ''running''"
    and wf: "runs_wf db" "jobs_wf (queue (rd_app db))" and j: "rq_job_id (ji_request ji) = Some j"
    and same: "rq_job_id (ji_request ji') = Some j"
      "rq_candidate_session_id (ji_request ji') = rq_candidate_session_id (ji_request ji)"
  shows "process_evaluation_run_job u' ev' ji' later db' = (db', Inr (status, i))"
proof -
  from outcome_row[OF p wf(1)] j fin obtain r where r: "runs_wf db'" "r \<in> set (ev_runs db')" "er_id r = i" "er_status r = status"
    "er_job_id r = Some (py_strip j)" "er_candidate_session_id r = rq_candidate_session_id (ji_request ji)" by auto
  have st: "status \<in> {''completed'', ''failed''}" using p fin by (cases rule: process_cases) auto
  have "unique_job_ids db'" using r(1) by (simp add: runs_wf_def)
  with known_job_answers[of db' r ji' j] r st outcome_not_aborted[OF p j wf(2)] same show ?thesis by simp
qed

lemma three_rejections:
  assumes "\<forall>k \<in> {1..3}. \<exists>result v. ev k = Inr result \<and> validate_attempt b k result = Inr v \<and> \<not> vr_passed v"
  shows "\<exists>errors. evaluate_from ev b 1 = Inl (EvidenceTrailValidationError errors)"
proof -
  obtain r1 v1 r2 v2 r3 v3 where "ev 1 = Inr r1" "validate_attempt b 1 r1 = Inr v1" "\<not> vr_passed v1"
    "ev 2 = Inr r2" "validate_attempt b 2 r2 = Inr v2" "\<not> vr_passed v2" "ev 3 = Inr r3" "validate_attempt b 3 r3 = Inr v3" "\<not> vr_passed v3"
    using assms[rule_format, of 1] assms[rule_format, of 2] assms[rule_format, of 3] by auto
  then show ?thesis
    unfolding evaluate_from.simps[of ev b 1] evaluate_from.simps[of ev b "Suc 1"] evaluate_from.simps[of ev b "Suc (Suc 1)"]
    by (simp add: numeral_2_eq_2 numeral_3_eq_3)
qed

lemma fail_run_works_here:
  assumes "row_of i s = Some run" "open_status (er_status run)" "\<not> ev_failed s" "er_started_at run \<le> resolved_time None now"
  shows "\<exists>s' r. fail_run i None code (JObj md) msg now s = (s', Inr r) \<and> row_of i s' = Some r \<and>
    er_error_code r = stored_code code \<and> er_raw_report_json r = er_raw_report_json run \<and> er_id r = i"
proof -
  let ?f = "\<lambda>r. r\<lparr>er_status := ''failed'', er_completed_at := Some (resolved_time None now), er_error_code := stored_code code,
    er_metadata_json := failed_metadata (er_metadata_json run) (Some md) msg\<rparr>"
  let ?s = "s\<lparr>ev_runs := update_rows (\<lambda>r. er_id r = i) ?f (ev_runs s)\<rparr>"
  have row: "row_of i ?s = Some (?f run)" using row_of_set_run[of ?f i s] assms(1) by simp
  have "load_run i s = (s, Inr run)" "load_run i ?s = (?s, Inr (?f run))"
    using assms(1,3) row by (simp_all add: load_run_eq)
  then have "fail_run i None code (JObj md) msg now s = (?s, Inr (?f run))"
    using assms(2,4)
    by (auto simp: fail_run_def bind_op_def lift_op_def ensure_transition_def RUN_TRANSITIONS_def open_status_def after_start_def
        require_def coerce_object_def set_run_def modify_op_def)
  then show ?thesis using row find_row_SomeD[OF assms(1)] by auto
qed

text \<open>
  When the evaluator answers all three attempts and none of the reports passes,
  the job ends with a failed response, and the run is recorded with the error code
  \<open>evidence_trail_validation_failed\<close> and no new report.
\<close>

theorem rejected_reports_fail_the_run:
  assumes wf: "runs_wf db" and g: "get_or_start_run (ji_request ji) now db = (db1, Inr (run, None))"
    and ok: "\<not> ev_failed db1" "er_started_at run \<le> resolved_time None now"
    and rej: "\<forall>k \<in> {1..3}. \<exists>result v. ev k = Inr result \<and> validate_attempt (ji_bundle ji) k result = Inr v \<and> \<not> vr_passed v"
  shows "\<exists>db' r. process_evaluation_run_job u ev ji now db = (db', Inr (''failed'', er_id run)) \<and> r \<in> set (ev_runs db') \<and>
    er_id r = er_id run \<and> er_error_code r = Some ''evidence_trail_validation_failed'' \<and>
    er_raw_report_json r = er_raw_report_json run"
proof -
  let ?md = "dict_update (ji_run_metadata ji) (ji_policy_metadata ji)" and ?code = "''evidence_trail_validation_failed''"
  note w = get_or_start_working[OF g wf]
  have run: "run_ok run" using w find_row_SomeD[OF w(2)] by (auto simp: runs_wf_def)
  have open_run: "open_status (er_status run)"
    by (rule get_or_start_cases[OF g])
      (use run in \<open>auto simp: open_status_def run_ok_def EVALUATION_RUN_STATUSES_def start_run_identity(3) split: if_splits\<close>)
  obtain errors where e: "evaluate_from ev (ji_bundle ji) 1 = Inl (EvidenceTrailValidationError errors)"
    using three_rejections[OF rej] by blast
  have f: "evaluate_and_finalize_run u ev ji ?md (er_id run) now db1 = (db1, Inl (EvidenceTrailValidationError errors))"
    unfolding evaluate_and_finalize_run_def e by (simp add: bind_op_def lift_op_def)
  obtain db2 r where r: "fail_run (er_id run) None (Some ?code) (JObj ?md) (Some ''evaluation_run_failed'') now db1 = (db2, Inr r)"
    "row_of (er_id run) db2 = Some r" "er_error_code r = stored_code (Some ?code)" "er_raw_report_json r = er_raw_report_json run" "er_id r = er_id run"
    using fail_run_works_here[OF w(2) open_run ok] by blast
  have c: "stored_code (Some ?code) = Some ?code" by code_simp
  have "process_evaluation_run_job u ev ji now db = (db2, Inr (''failed'', er_id run))"
    unfolding process_evaluation_run_job_def g mark_failed_run_def
    using f r(1) by (simp add: is_retryable_provider_error_def error_code_def mark_failed_run_def)
  then show ?thesis using r c find_row_SomeD[OF r(2)] by auto
qed

section \<open>A concrete evaluation\<close>

definition demo_job_inputs :: job_inputs where
  "demo_job_inputs = \<lparr>ji_session_id = 7, ji_trial_id = 3, ji_bundle = demo_bundle, ji_request = demo_request,
     ji_run_metadata = [(''promptPackVersion'', JStr ''v9'')], ji_policy_metadata = []\<rparr>"

definition demo_result :: "json \<Rightarrow> evaluation_result" where
  "demo_result report = \<lparr>re_overall_winoe_score = JFloat ''0.75'', re_recommendation = JStr ''hire'', re_confidence = JInt 1,
     re_day_results = [], re_report_json = report, re_reviewer_reports = []\<rparr>"

text \<open>The first answer is no object; the second is a report that passes.\<close>

definition demo_evaluator :: "nat \<Rightarrow> evaluation_result res" where
  "demo_evaluator k = Inr (demo_result (if k = 1 then JNull else JObj demo_report))"

definition useless_evaluator :: "nat \<Rightarrow> evaluation_result res" where
  "useless_evaluator k = (if k \<le> 3 then Inr (demo_result JNull) else Inl (ValueError []))"

definition demo_report_db :: report_db where
  "demo_report_db = \<lparr>ev_runs = [], ev_day_scores = [], ev_reviewer_reports = [], ev_next_run_id = 1, ev_failed = False,
     rd_reports = [], rd_next_report_id = 1, rd_citations = [], rd_states = [],
     rd_app = \<lparr>trials = [demo_trial], scenario_versions = [], sessions = [demo_session], queue = empty_jobs_db\<rparr>\<rparr>"

lemma demo_report_db_wf: "runs_wf demo_report_db" "jobs_wf (queue (rd_app demo_report_db))"
  by (simp_all add: demo_report_db_def runs_wf_def unique_job_ids_def unique_day_scores_def unique_reviewer_reports_def
      map_filter_simps)

lemma demo_completes:
  "\<exists>db. process_evaluation_run_job no_urls demo_evaluator demo_job_inputs 3000000 demo_report_db = (db, Inr (''completed'', 1))"
proof -
  have "snd (process_evaluation_run_job no_urls demo_evaluator demo_job_inputs 3000000 demo_report_db) = Inr (''completed'', 1)"
    by code_simp
  then show ?thesis by (metis prod.collapse)
qed

theorem completed_evaluation_is_backed_witness:
  "\<exists>db. process_evaluation_run_job no_urls demo_evaluator demo_job_inputs 3000000 demo_report_db = (db, Inr (''completed'', 1)) \<and>
     state_finalized 7 db \<and> notification_queued 7 3 db"
proof -
  obtain db where p: "process_evaluation_run_job no_urls demo_evaluator demo_job_inputs 3000000 demo_report_db = (db, Inr (''completed'', 1))"
    using demo_completes by blast
  have "ji_session_id demo_job_inputs = 7" "ji_trial_id demo_job_inputs = 3" "ev_runs demo_report_db = []"
    by (simp_all add: demo_job_inputs_def demo_report_db_def)
  with completed_evaluation_is_backed[OF demo_report_db_wf(2) p] p show ?thesis by auto
qed

theorem failed_evaluation_stores_no_report_witness:
  "\<exists>db. process_evaluation_run_job no_urls useless_evaluator demo_job_inputs 3000000 demo_report_db = (db, Inr (''failed'', 1)) \<and>
     ev_runs db \<noteq> [] \<and> rd_reports db = []"
proof -
  have "snd (process_evaluation_run_job no_urls useless_evaluator demo_job_inputs 3000000 demo_report_db) = Inr (''failed'', 1)"
    by code_simp
  then obtain db where p: "process_evaluation_run_job no_urls useless_evaluator demo_job_inputs 3000000 demo_report_db = (db, Inr (''failed'', 1))"
    by (metis prod.collapse)
  have "rd_reports demo_report_db = []" by (simp add: demo_report_db_def)
  with failed_evaluation_stores_no_report[OF p demo_report_db_wf(1)] p show ?thesis by fastforce
qed

theorem evaluator_asked_at_most_three_times_witness:
  "process_evaluation_run_job no_urls useless_evaluator demo_job_inputs 3000000 demo_report_db =
     process_evaluation_run_job no_urls (\<lambda>_. Inr (demo_result JNull)) demo_job_inputs 3000000 demo_report_db \<and>
     useless_evaluator 4 \<noteq> Inr (demo_result JNull)"
  using evaluator_asked_at_most_three_times[of useless_evaluator "\<lambda>_. Inr (demo_result JNull)"]
  by (simp add: useless_evaluator_def)

theorem repeated_job_answers_alike_witness:
  "\<exists>db. process_evaluation_run_job no_urls demo_evaluator demo_job_inputs 3000000 demo_report_db = (db, Inr (''completed'', 1)) \<and>
     process_evaluation_run_job no_urls useless_evaluator demo_job_inputs 9000000 db = (db, Inr (''completed'', 1))"
proof -
  obtain db where p: "process_evaluation_run_job no_urls demo_evaluator demo_job_inputs 3000000 demo_report_db = (db, Inr (''completed'', 1))"
    using demo_completes by blast
  have "rq_job_id (ji_request demo_job_inputs) = Some ''j1''" by (simp add: demo_job_inputs_def demo_request_def)
  from repeated_job_answers_alike[OF p _ demo_report_db_wf this this refl] p show ?thesis by simp
qed

theorem rejected_reports_fail_the_run_witness:
  "\<exists>db r. process_evaluation_run_job no_urls useless_evaluator demo_job_inputs 3000000 demo_report_db = (db, Inr (''failed'', 1)) \<and>
     r \<in> set (ev_runs db) \<and> er_error_code r = Some ''evidence_trail_validation_failed''"
proof -
  have "case get_or_start_run (ji_request demo_job_inputs) 3000000 demo_report_db of (db1, Inl _) \<Rightarrow> False
    | (db1, Inr (run, st)) \<Rightarrow> st = None \<and> er_id run = 1 \<and> \<not> ev_failed db1 \<and> er_started_at run \<le> resolved_time None 3000000"
    by code_simp
  then obtain db1 run where g: "get_or_start_run (ji_request demo_job_inputs) 3000000 demo_report_db = (db1, Inr (run, None))"
    and i: "er_id run = 1" and ok: "\<not> ev_failed db1" "er_started_at run \<le> resolved_time None 3000000"
    by (auto split: prod.splits sum.splits)
  have "\<forall>k \<in> {1..3}. \<exists>result v. useless_evaluator k = Inr result \<and>
      validate_attempt (ji_bundle demo_job_inputs) k result = Inr v \<and> \<not> vr_passed v"
    by (auto simp: useless_evaluator_def demo_result_def validate_attempt_def)
  from rejected_reports_fail_the_run[OF demo_report_db_wf(1) g ok this, of no_urls] i show ?thesis by metis
qed

end
