(* ===== verification/MailTemplates.thy ===== *)
theory MailTemplates
  imports Errors
begin

text \<open>
  The notification templates (\<open>notifications_templates_service\<close>): subject, text and HTML of each
  mail and the check that every rendered mail has to pass. The em dash of two subjects lies
  outside Latin-1 and is written as its three UTF-8 bytes, which no check looks at.
\<close>

record rendered_template =
  rt_template_name :: string
  rt_subject :: string
  rt_text :: string
  rt_html :: string

definition RETIRED_TERMINOLOGY :: "string list" where
  "RETIRED_TERMINOLOGY = [''Fit Profile'', ''Fit Score'', ''screening'', ''screened'', ''hiring decision'']"

definition em_dash :: string where
  "em_dash = [CHR 0xE2, CHR 0x80, CHR 0x94]"

definition context_value :: "obj \<Rightarrow> string \<Rightarrow> string \<Rightarrow> string" where
  "context_value context key fallback =
     (case dict_get key context of
        JNull \<Rightarrow> fallback
      | v \<Rightarrow> if py_strip (py_str v) = [] then fallback else py_strip (py_str v))"

definition optional_url :: "obj \<Rightarrow> string option" where
  "optional_url context =
     (let v = (if truthy (dict_get ''url'' context) then dict_get ''url'' context
               else if truthy (dict_get ''dashboard_url'' context) then dict_get ''dashboard_url'' context else JStr []);
          s = py_strip (py_str v)
      in if s = [] then None else Some s)"

definition escape_char :: "char \<Rightarrow> string" where
  "escape_char c =
     (if c = CHR 0x26 then ''&amp;'' else if c = CHR 0x3C then ''&lt;'' else if c = CHR 0x3E then ''&gt;''
      else if c = CHR 0x22 then ''&quot;'' else if c = CHR 0x27 then ''&#x27;'' else [c])"

definition escape_html :: "string \<Rightarrow> string" where
  "escape_html s = concat (map escape_char s)"

definition html_shell :: "string \<Rightarrow> string \<Rightarrow> string option \<Rightarrow> string" where
  "html_shell heading body cta_url =
     ''<div style=\"font-family:Geist Sans,-apple-system,BlinkMacSystemFont,'' @
     ''Segoe UI,sans-serif;color:#1f2933;line-height:1.5;max-width:620px\">'' @
     ''<div style=\"border-bottom:3px solid #D8BE7F;padding:0 0 14px;'' @
     ''margin-bottom:22px;font-weight:700;color:#111827\">Winoe AI</div>'' @
     ''<h1 style=\"font-size:22px;line-height:1.25;margin:0 0 14px\">'' @ escape_html heading @ ''</h1>'' @ body @
     (case cta_url of None \<Rightarrow> [] | Some url \<Rightarrow>
        ''<p><a href=\"'' @ escape_html url @ ''\" '' @
        ''style=\"display:inline-block;background:#111827;color:#ffffff;'' @
        ''text-decoration:none;padding:10px 14px;border-radius:6px;'' @
        ''font-weight:600\">Open Winoe AI</a></p>'') @
     ''<p style=\"color:#6b7280;font-size:13px;margin-top:28px\">'' @
     ''Winoe AI organizes Trial evidence for Talent Partners. '' @
     ''The Talent Partner decides what to do with that evidence.</p></div>''"

definition mail_paragraphs :: "string list \<Rightarrow> string" where
  "mail_paragraphs lines = concat (map (\<lambda>l. ''<p>'' @ escape_html l @ ''</p>'') (filter (\<lambda>l. l \<noteq> []) lines))"

definition render :: "string \<Rightarrow> string \<Rightarrow> string \<Rightarrow> string list \<Rightarrow> string option \<Rightarrow> rendered_template" where
  "render template_name subject heading lines cta_url =
     \<lparr>rt_template_name = template_name, rt_subject = subject, rt_text = py_join [CHR 0x0A, CHR 0x0A] lines,
      rt_html = html_shell heading (mail_paragraphs lines)
        (case cta_url of None \<Rightarrow> None | Some u \<Rightarrow> if u = [] then None else Some u)\<rparr>"

definition candidate_invite :: "obj \<Rightarrow> rendered_template" where
  "candidate_invite context =
     (let role = context_value context ''role'' ''this role''; company = context_value context ''company'' ''the company'';
          candidate = context_value context ''candidate_name'' ''there''; invite_url = context_value context ''invite_url'' [];
          expires_on = context_value context ''expires_on'' ''soon''
      in render ''candidate_invite.html'' (''You're invited to a Winoe Trial for '' @ role @ '' at '' @ company) ''Winoe Trial invite''
           ([''Hi '' @ candidate @ '','',
             ''You've been invited to a Winoe Trial for the '' @ role @ '' role at '' @ company @ ''.'',
             ''The Trial is designed to collect real-work evidence against the Project Brief, Calibration, and Benchmarks.'',
             ''Your invite is available until '' @ expires_on @ ''.''] @
            (if invite_url = [] then [] else [''Open your invite: '' @ invite_url])) (Some invite_url))"

definition start_date_confirmed :: "obj \<Rightarrow> rendered_template" where
  "start_date_confirmed context =
     (let date = context_value context ''date'' ''your selected date''; role = context_value context ''role'' ''this role''
      in render ''start_date_confirmed.html'' (''Your Winoe Trial begins '' @ date) ''Trial schedule confirmed''
           [''Your Winoe Trial for '' @ role @ '' begins '' @ date @ ''.'',
            ''Your daily Trial window is locked. Winoe AI will open each day at the scheduled time.''] (optional_url context))"

definition day_unlocked :: "obj \<Rightarrow> rendered_template" where
  "day_unlocked context =
     (let day_number = context_value context ''n'' ''1''; label = context_value context ''label'' ''today's Trial work''
      in render ''day_unlocked.html'' (''Day '' @ day_number @ '': '' @ label @ '' is now open'') (''Day '' @ day_number @ '' is open'')
           [''Day '' @ day_number @ '' is now open.'',
            ''Use the Project Brief and the day's instructions to complete the work in your Trial workspace.''] (optional_url context))"

definition day_completed :: "obj \<Rightarrow> rendered_template" where
  "day_completed context =
     (let day_number = context_value context ''n'' ''1''
      in render ''day_completed.html'' (''Day '' @ day_number @ '' submitted '' @ em_dash @ '' see you tomorrow at 9 AM'')
           (''Day '' @ day_number @ '' submitted'')
           [''Day '' @ day_number @ '' has been submitted.'',
            ''Winoe AI has recorded the submission and will reopen your Trial workspace at the next scheduled window.''] None)"

definition trial_completed :: "obj \<Rightarrow> rendered_template" where
  "trial_completed context =
     (let candidate = context_value context ''candidate_name'' ''the candidate''
      in render ''trial_completed.html'' (''Trial complete '' @ em_dash @ '' your report is being prepared'') ''Trial complete''
           [candidate @ [CHR 0x27] @ ''s Trial is complete.'',
            ''Winoe AI is preparing the Winoe Report and Evidence Trail for Talent Partner review.''] (optional_url context))"

definition report_ready_tp :: "obj \<Rightarrow> rendered_template" where
  "report_ready_tp context =
     (let candidate = context_value context ''candidate_name'' ''Candidate''; role = context_value context ''role'' ''the role''
      in render ''report_ready_tp.html'' (candidate @ [CHR 0x27] @ ''s Winoe Report is ready'') ''Winoe Report ready''
           [''The Winoe Report for '' @ candidate @ [CHR 0x27] @ ''s Trial is ready.'',
            ''The report includes a Winoe Score and linked Evidence Trail for the '' @ role @ '' role.'',
            ''Review the evidence in the Talent Partner dashboard before deciding next steps.''] (optional_url context))"

definition report_ready_candidate :: "obj \<Rightarrow> rendered_template" where
  "report_ready_candidate context =
     (let role = context_value context ''role'' ''the role''
      in render ''report_ready_candidate.html'' ''Your Winoe Trial submission is reviewed'' ''Trial submission reviewed''
           [''Your Winoe Trial submission for '' @ role @ '' has been reviewed.'',
            ''The Talent Partner now has the Winoe Report and linked Evidence Trail.'',
            ''They decide next steps from the evidence.''] (optional_url context))"

definition trial_terminated :: "obj \<Rightarrow> rendered_template" where
  "trial_terminated context =
     (let role = context_value context ''role'' ''this role''
      in render ''trial_terminated.html'' (''Update on your Winoe Trial for '' @ role) ''Trial update''
           [''There is an update on your Winoe Trial for '' @ role @ ''.'',
            ''The Trial is no longer active. Any submitted work remains part of the Trial record unless the Talent Partner tells you otherwise.'']
           (optional_url context))"

definition RENDERERS :: "(string \<times> (obj \<Rightarrow> rendered_template)) list" where
  "RENDERERS = [(''candidate_invite.html'', candidate_invite), (''start_date_confirmed.html'', start_date_confirmed),
     (''day_unlocked.html'', day_unlocked), (''day_completed.html'', day_completed), (''trial_completed.html'', trial_completed),
     (''report_ready_tp.html'', report_ready_tp), (''report_ready_candidate.html'', report_ready_candidate),
     (''trial_terminated.html'', trial_terminated)]"

definition validate_rendered_template :: "rendered_template \<Rightarrow> unit res" where
  "validate_rendered_template r =
     (let combined = rt_subject r @ [CHR 0x0A] @ rt_text r @ [CHR 0x0A] @ rt_html r in
      if CHR ''!'' \<in> set combined then Inl (ValueError (rt_template_name r @ '' contains an exclamation mark''))
      else if \<exists>word \<in> set RETIRED_TERMINOLOGY. contains (py_lower word) (py_lower combined)
      then Inl (ValueError (rt_template_name r @ '' contains retired terminology''))
      else Inr ())"

definition render_notification_template :: "string \<Rightarrow> obj \<Rightarrow> rendered_template res" where
  "render_notification_template template_name context =
     (case map_of RENDERERS (py_strip template_name) of
        None \<Rightarrow> Inl (ValueError (''unknown notification template: '' @ template_name))
      | Some renderer \<Rightarrow>
          bind_result (validate_rendered_template (renderer context)) (\<lambda>_. Inr (renderer context)))"

section \<open>What a rendered mail cannot contain\<close>

definition clean_mail :: "rendered_template \<Rightarrow> bool" where
  "clean_mail r \<longleftrightarrow> (\<forall>part \<in> {rt_subject r, rt_text r, rt_html r}.
     CHR ''!'' \<notin> set part \<and> (\<forall>word \<in> set RETIRED_TERMINOLOGY. \<not> contains (py_lower word) (py_lower part)))"

lemma contains_append: "contains p s \<Longrightarrow> contains p (u @ s @ v)"
  unfolding contains_iff by (metis append.assoc)

lemma rendered_clean:
  assumes "render_notification_template n context = Inr r"
  shows "clean_mail r"
proof -
  from assms have v: "validate_rendered_template r = Inr ()"
    by (auto simp: render_notification_template_def bind_result_Inr_iff split: option.splits)
  let ?all = "rt_subject r @ [CHR 0x0A] @ rt_text r @ [CHR 0x0A] @ rt_html r"
  from v have x: "CHR ''!'' \<notin> set ?all" and t: "\<forall>word \<in> set RETIRED_TERMINOLOGY. \<not> contains (py_lower word) (py_lower ?all)"
    by (auto simp: validate_rendered_template_def Let_def split: if_splits)
  have part: "\<exists>u v. ?all = u @ part @ v" if "part \<in> {rt_subject r, rt_text r, rt_html r}" for part
  proof -
    have "?all = [] @ rt_subject r @ ([CHR 0x0A] @ rt_text r @ [CHR 0x0A] @ rt_html r)"
      "?all = (rt_subject r @ [CHR 0x0A]) @ rt_text r @ ([CHR 0x0A] @ rt_html r)"
      "?all = (rt_subject r @ [CHR 0x0A] @ rt_text r @ [CHR 0x0A]) @ rt_html r @ []" by simp_all
    with that show ?thesis by blast
  qed
  show ?thesis unfolding clean_mail_def
  proof (intro ballI conjI)
    fix p assume "p \<in> {rt_subject r, rt_text r, rt_html r}"
    from part[OF this] obtain u v where uv: "?all = u @ p @ v" by blast
    show "CHR ''!'' \<notin> set p" using x unfolding uv by simp
    fix word assume "word \<in> set RETIRED_TERMINOLOGY"
    with t have "\<not> contains (py_lower word) (py_lower (u @ p @ v))" unfolding uv by blast
    then show "\<not> contains (py_lower word) (py_lower p)"
      using contains_append[of "py_lower word" "py_lower p"] by (auto simp: py_lower_def)
  qed
qed

text \<open>A name or a role with an exclamation mark makes the mail unrenderable.\<close>

lemma exclaimed_role_unrenderable:
  "render_notification_template ''report_ready_candidate.html'' [(''role'', JStr ''SRE at Yahoo!'')] =
     Inl (ValueError ''report_ready_candidate.html contains an exclamation mark'')"
  by code_simp

section \<open>Mails that can be rendered\<close>

text \<open>
  A rendered mail as a list of short pieces, and the search of the retired terms by their first
  three letters, in either case, piece by piece.
\<close>

fun either_case :: "(char \<times> char) list \<Rightarrow> string \<Rightarrow> bool" where
  "either_case [] s = True"
| "either_case (p # ps) [] = False"
| "either_case (p # ps) (c # cs) = ((c = fst p \<or> c = snd p) \<and> either_case ps cs)"

fun occurs_in_either_case :: "(char \<times> char) list \<Rightarrow> string \<Rightarrow> bool" where
  "occurs_in_either_case ps [] = False"
| "occurs_in_either_case ps (c # cs) = (either_case ps (c # cs) \<or> occurs_in_either_case ps cs)"

fun last_two :: "string \<Rightarrow> string" where
  "last_two (a # b # c # s) = last_two (b # c # s)"
| "last_two s = s"

fun absent_from_pieces :: "(char \<times> char) list \<Rightarrow> string \<Rightarrow> string list \<Rightarrow> bool" where
  "absent_from_pieces ps carry [] = True"
| "absent_from_pieces ps carry (x # xs) = (\<not> occurs_in_either_case ps (carry @ x) \<and> absent_from_pieces ps (last_two (carry @ x)) xs)"

definition letter_pairs :: "(char \<times> char) list" where
  "letter_pairs = zip ''fitscrh'' ''FITSCRH''"

lemma lower_char_letter:
  assumes "(l, u) \<in> set letter_pairs" "lower_char c = l"
  shows "c = l \<or> c = u"
proof -
  have u: "code_point u + 32 = code_point l" using assms(1) by (auto simp: letter_pairs_def code_point_def)
  have "c = l \<or> (code_point c \<le> 222 \<and> char_of (code_point c + 32) = l)"
    using assms(2) by (auto simp: lower_char_def Let_def split: if_splits)
  moreover have "c = u" if "code_point c \<le> 222" "char_of (code_point c + 32) = l"
  proof -
    have "code_point c mod 256 = code_point c" by (simp add: code_point_def)
    then have "0 \<le> code_point c" by (metis pos_mod_sign zero_less_numeral)
    then have "code_point l = code_point c + 32" using that unfolding code_point_def by (auto simp: that(2)[symmetric])
    with u have "code_point c = code_point u" by simp
    then show ?thesis by (simp add: code_point_def)
  qed
  ultimately show ?thesis by blast
qed

lemma starts_in_either_case: "set ps \<subseteq> set letter_pairs \<Longrightarrow> starts_with (map fst ps) (map lower_char s) \<Longrightarrow> either_case ps s"
proof (induction ps s rule: either_case.induct)
  case (3 p ps c cs)
  then have "p \<in> set letter_pairs" "lower_char c = fst p" "either_case ps cs" by simp_all
  then show ?case using lower_char_letter by (metis either_case.simps(3) prod.collapse)
qed simp_all

lemma contained_in_either_case:
  "set ps \<subseteq> set letter_pairs \<Longrightarrow> ps \<noteq> [] \<Longrightarrow> contains (map fst ps) (py_lower s) \<Longrightarrow> occurs_in_either_case ps s"
proof (induction s)
  case (Cons c s)
  then show ?case using starts_in_either_case[of ps "c # s"] by (simp add: py_lower_def) blast
qed (simp add: py_lower_def)

lemma last_two_drop: "last_two s = drop (length s - 2) s"
  by (induction s rule: last_two.induct) auto

lemma either_case_append: "either_case ps (a @ b) \<Longrightarrow> length ps \<le> length a \<Longrightarrow> either_case ps a"
  by (induction ps a rule: either_case.induct) auto

lemma occurs_append:
  "occurs_in_either_case ps (a @ b) \<Longrightarrow> length ps \<le> 3 \<Longrightarrow> occurs_in_either_case ps a \<or> occurs_in_either_case ps (last_two a @ b)"
proof (induction a rule: last_two.induct)
  case (1 x y z s)
  then show ?case using either_case_append[of ps "x # y # z # s" b] by auto
qed auto

lemma absent_concat:
  "absent_from_pieces ps carry xs \<Longrightarrow> length ps \<le> 3 \<Longrightarrow> \<not> occurs_in_either_case ps carry \<Longrightarrow> \<not> occurs_in_either_case ps (carry @ concat xs)"
proof (induction xs arbitrary: carry)
  case (Cons x xs)
  have "\<not> occurs_in_either_case ps (last_two s)" if "\<not> occurs_in_either_case ps s" for s
    using that by (induction s rule: last_two.induct) auto
  with Cons occurs_append[of ps "carry @ x" "concat xs"] show ?case by auto
qed simp


definition term_starts :: "(char \<times> char) list list" where
  "term_starts = [zip ''fit'' ''FIT'', zip ''scr'' ''SCR'', zip ''hir'' ''HIR'']"

fun joined_pieces :: "string list \<Rightarrow> string list" where
  "joined_pieces [] = []"
| "joined_pieces [x] = [x]"
| "joined_pieces (x # y # ys) = x # [CHR 0x0A, CHR 0x0A] # joined_pieces (y # ys)"

definition mail_pieces :: "string \<Rightarrow> string \<Rightarrow> string list \<Rightarrow> string list" where
  "mail_pieces subject heading lines =
     [subject, [CHR 0x0A]] @ joined_pieces lines @
     [[CHR 0x0A], ''<div style=\"font-family:Geist Sans,-apple-system,BlinkMacSystemFont,'',
      ''Segoe UI,sans-serif;color:#1f2933;line-height:1.5;max-width:620px\">'',
      ''<div style=\"border-bottom:3px solid #D8BE7F;padding:0 0 14px;'',
      ''margin-bottom:22px;font-weight:700;color:#111827\">Winoe AI</div>'',
      ''<h1 style=\"font-size:22px;line-height:1.25;margin:0 0 14px\">'', escape_html heading, ''</h1>''] @
     concat (map (\<lambda>l. [''<p>'', escape_html l, ''</p>'']) (filter (\<lambda>l. l \<noteq> []) lines)) @
     [''<p style=\"color:#6b7280;font-size:13px;margin-top:28px\">'',
      ''Winoe AI organizes Trial evidence for Talent Partners. '',
      ''The Talent Partner decides what to do with that evidence.</p></div>'']"

lemma concat_joined_pieces: "concat (joined_pieces lines) = py_join [CHR 0x0A, CHR 0x0A] lines"
  by (induction lines rule: joined_pieces.induct) simp_all

lemma concat_mail_pieces:
  "concat (mail_pieces subject heading lines) =
     subject @ [CHR 0x0A] @ rt_text (render n subject heading lines None) @ [CHR 0x0A] @ rt_html (render n subject heading lines None)"
proof -
  have "concat (concat (map (\<lambda>l. [''<p>'', escape_html l, ''</p>'']) ls)) = concat (map (\<lambda>l. ''<p>'' @ escape_html l @ ''</p>'') ls)" for ls
    by (induction ls) simp_all
  then show ?thesis
    by (simp only: mail_pieces_def render_def html_shell_def mail_paragraphs_def rendered_template.simps concat_append concat.simps
        concat_joined_pieces option.case append_assoc append_Nil append_Nil2)
qed

lemma pieces_valid:
  assumes x: "list_all (\<lambda>s. CHR ''!'' \<notin> set s) (mail_pieces subject heading lines)"
    and t: "list_all (\<lambda>ps. absent_from_pieces ps [] (mail_pieces subject heading lines)) term_starts"
  shows "validate_rendered_template (render n subject heading lines None) = Inr ()"
proof -
  let ?all = "concat (mail_pieces subject heading lines)"
  have "\<not> contains (py_lower word) (py_lower ?all)" if "word \<in> set RETIRED_TERMINOLOGY" for word
  proof
    assume c: "contains (py_lower word) (py_lower ?all)"
    have "\<forall>word \<in> set RETIRED_TERMINOLOGY. \<exists>ps \<in> set term_starts. take 3 (py_lower word) = map fst ps" by code_simp
    with that obtain ps where ps: "ps \<in> set term_starts" "take 3 (py_lower word) = map fst ps" by blast
    have "contains (take 3 (py_lower word)) (py_lower ?all)"
      using c unfolding contains_iff by (metis append.assoc append_take_drop_id)
    moreover have "set ps \<subseteq> set letter_pairs" "ps \<noteq> []" "length ps \<le> 3"
      using ps(1) by (auto simp: term_starts_def letter_pairs_def)
    ultimately show False
      using contained_in_either_case[of ps ?all] absent_concat[of ps "[]" "mail_pieces subject heading lines"] t ps
      by (simp add: list_all_iff)
  qed
  moreover have "CHR ''!'' \<notin> set ?all" using x by (auto simp: list_all_iff)
  moreover have "rt_subject (render n subject heading lines None) = subject" by (simp add: render_def)
  ultimately show ?thesis
    unfolding validate_rendered_template_def Let_def by (simp only: concat_mail_pieces[symmetric]) simp
qed

end
