(* ===== verification/Deliveries.thy ===== *)
theory Deliveries
  imports DayClose EvaluationPipeline MailTemplates "HOL-Library.Sublist"
begin

text \<open>
  The jobs that send the notification mails: the sender with its attempts, the audit of every
  delivery, the check that keeps a mail from being sent twice, and the two jobs. The provider
  is the argument \<open>provider\<close>, its reaction to the n-th call; \<open>dl_calls\<close> records what it was
  asked and whether it took the mail, which no rollback undoes.
\<close>

section \<open>Sending\<close>

record email_message =
  em_to :: string
  em_subject :: string
  em_text :: string
  em_html :: string

datatype send_outcome =
    Accepted "string option"
  | SendError string bool
  | Raised error

type_synonym provider = "email_message \<Rightarrow> nat \<Rightarrow> send_outcome"

record email_send_result =
  es_status :: string
  es_message_id :: "string option"
  es_error :: "string option"

record delivery_audit =
  na_notification_type :: string
  na_candidate_session_id :: int
  na_trial_id :: int
  na_recipient_email :: string
  na_recipient_role :: string
  na_subject :: string
  na_status :: string
  na_provider :: string
  na_provider_message_id :: "string option"
  na_error :: "string option"
  na_correlation_id :: string
  na_idempotency_key :: string
  na_payload_json :: obj
  na_attempted_at :: datetime
  na_sent_at :: "datetime option"

record delivery_db =
  dl_reports :: report_db
  dl_users :: "(int \<times> string) list"
  dl_audits :: "delivery_audit list"
  dl_calls :: "(email_message \<times> bool) list"

definition log_call :: "email_message \<Rightarrow> bool \<Rightarrow> delivery_db \<Rightarrow> delivery_db" where
  "log_call msg taken db = db\<lparr>dl_calls := dl_calls db @ [(msg, taken)]\<rparr>"

fun send_attempts :: "provider \<Rightarrow> email_message \<Rightarrow> nat \<Rightarrow> (delivery_db, email_send_result) op" where
  "send_attempts provider msg 0 db = (db, Inr \<lparr>es_status = ''failed'', es_message_id = None, es_error = Some ''Email send failed''\<rparr>)"
| "send_attempts provider msg (Suc n) db =
     (case provider msg (length (dl_calls db)) of
        Accepted message_id \<Rightarrow> (log_call msg True db, Inr \<lparr>es_status = ''sent'', es_message_id = message_id, es_error = None\<rparr>)
      | SendError m retryable \<Rightarrow>
          if retryable \<and> n > 0 then send_attempts provider msg n (log_call msg False db)
          else (log_call msg False db, Inr \<lparr>es_status = ''failed'', es_message_id = None, es_error = Some m\<rparr>)
      | Raised e \<Rightarrow> (log_call msg False db, Inl e))"

definition send_email :: "provider \<Rightarrow> int \<Rightarrow> string \<Rightarrow> rendered_template \<Rightarrow> (delivery_db, email_send_result) op" where
  "send_email provider max_attempts recipient r =
     send_attempts provider \<lparr>em_to = recipient, em_subject = rt_subject r, em_text = rt_text r, em_html = rt_html r\<rparr>
       (nat (max 1 max_attempts))"

section \<open>Audits\<close>

text \<open>The columns of an audit row have bounded widths; a value that does not fit fails the flush.\<close>

definition audit_fits :: "delivery_audit \<Rightarrow> bool" where
  "audit_fits a \<longleftrightarrow> length (na_notification_type a) \<le> 100 \<and> length (na_recipient_email a) \<le> 255 \<and> length (na_recipient_role a) \<le> 50 \<and>
     length (na_subject a) \<le> 255 \<and> length (na_status a) \<le> 50 \<and> length (na_provider a) \<le> 100 \<and>
     (\<forall>i \<in> set_option (na_provider_message_id a). length i \<le> 255) \<and> length (na_correlation_id a) \<le> 255 \<and>
     length (na_idempotency_key a) \<le> 255"

definition sanitize_delivery_error :: "string option \<Rightarrow> string option" where
  "sanitize_delivery_error e = map_option (take 500) e"

definition record_notification_delivery_audit :: "delivery_audit \<Rightarrow> (delivery_db, unit) op" where
  "record_notification_delivery_audit a db =
     (if audit_fits a then (db\<lparr>dl_audits := dl_audits db @ [a\<lparr>na_error := sanitize_delivery_error (na_error a)\<rparr>]\<rparr>, Inr ())
      else (db, Inl (DataError ''value too long'')))"

definition delivered_to :: "int \<Rightarrow> string \<Rightarrow> string \<Rightarrow> string \<Rightarrow> delivery_audit \<Rightarrow> bool" where
  "delivered_to c notification_type email role a \<longleftrightarrow>
     na_candidate_session_id a = c \<and> na_notification_type a = notification_type \<and> na_recipient_role a = role \<and>
     na_recipient_email a = email \<and> na_status a = ''sent''"

definition has_successful_notification_delivery :: "int \<Rightarrow> string \<Rightarrow> string \<Rightarrow> string \<Rightarrow> delivery_db \<Rightarrow> bool" where
  "has_successful_notification_delivery c notification_type email role db \<longleftrightarrow>
     (\<exists>a \<in> set (dl_audits db). delivered_to c notification_type email role a)"

definition delivery_idempotency_key :: "string \<Rightarrow> string \<Rightarrow> int \<Rightarrow> int \<Rightarrow> string" where
  "delivery_idempotency_key notification_type email trial_id c =
     notification_type @ '':'' @ py_lower email @ '':'' @ int_str trial_id @ '':'' @ int_str c"

record delivery_request =
  dq_type :: string
  dq_email :: string
  dq_role :: string
  dq_session_id :: int
  dq_trial_id :: int
  dq_rendered :: rendered_template

definition delivery_row :: "string \<Rightarrow> delivery_request \<Rightarrow> datetime \<Rightarrow> email_send_result \<Rightarrow> delivery_audit" where
  "delivery_row provider_name q sent_at result =
     \<lparr>na_notification_type = dq_type q, na_candidate_session_id = dq_session_id q, na_trial_id = dq_trial_id q,
      na_recipient_email = dq_email q, na_recipient_role = dq_role q, na_subject = rt_subject (dq_rendered q),
      na_status = es_status result, na_provider = provider_name, na_provider_message_id = es_message_id result,
      na_error = es_error result,
      na_correlation_id = ''candidate_session:'' @ int_str (dq_session_id q) @ '':'' @ dq_type q,
      na_idempotency_key = delivery_idempotency_key (dq_type q) (dq_email q) (dq_trial_id q) (dq_session_id q),
      na_payload_json = [(''templateName'', JStr (rt_template_name (dq_rendered q)))],
      na_attempted_at = sent_at, na_sent_at = (if es_status result = ''sent'' then Some sent_at else None)\<rparr>"

definition delivery_entry :: "delivery_request \<Rightarrow> string option \<Rightarrow> obj" where
  "delivery_entry q message_id =
     [(''status'', JStr ''sent''), (''to'', JStr (dq_email q)), (''recipientRole'', JStr (dq_role q)),
      (''messageId'', opt_json JStr message_id)]"

text \<open>Sending and recording; the audit is committed before a failure is raised.\<close>

definition deliver :: "provider \<Rightarrow> int \<Rightarrow> string \<Rightarrow> datetime \<Rightarrow> delivery_request \<Rightarrow> (delivery_db, obj) op" where
  "deliver provider max_attempts provider_name sent_at q =
     bind_op (send_email provider max_attempts (dq_email q) (dq_rendered q)) (\<lambda>result.
     bind_op (record_notification_delivery_audit (delivery_row provider_name q sent_at result)) (\<lambda>_.
     lift_op (if es_status result \<noteq> ''sent''
              then Inl (RuntimeError (nonempty_or (es_error result) (dq_type q @ ''_send_failed'')))
              else Inr (delivery_entry q (es_message_id result)))))"

definition send_one_notification :: "provider \<Rightarrow> int \<Rightarrow> string \<Rightarrow> datetime \<Rightarrow> delivery_request \<Rightarrow> (delivery_db, obj) op" where
  "send_one_notification provider max_attempts provider_name sent_at q db =
     (if has_successful_notification_delivery (dq_session_id q) (dq_type q) (dq_email q) (dq_role q) db
      then (db, Inr (delivery_entry q None @ [(''skipped'', JBool True)]))
      else deliver provider max_attempts provider_name sent_at q db)"

section \<open>The two jobs\<close>

definition REPORT_READY_CANDIDATE_NOTIFICATION_TYPE :: string where
  "REPORT_READY_CANDIDATE_NOTIFICATION_TYPE = ''report_ready_candidate_notification''"

definition load_talent_partner_notification_row ::
    "int \<Rightarrow> delivery_db \<Rightarrow> (candidate_session \<times> trial \<times> string option \<times> datetime option) res" where
  "load_talent_partner_notification_row c db =
     (case get_session c (rd_app (dl_reports db)) of
        None \<Rightarrow> Inl (LookupError ''candidate_session_not_found'')
      | Some cs \<Rightarrow>
          (case session_trial (rd_app (dl_reports db)) cs of
             None \<Rightarrow> Inl (LookupError ''candidate_session_not_found'')
           | Some t \<Rightarrow> Inr (cs, t, map_of (dl_users db) (t_created_by t),
               map_option wr_generated_at (find_row (\<lambda>r. wr_candidate_session_id r = c) (rd_reports (dl_reports db))))))"

definition is_report_finalized_for_notification :: "int \<Rightarrow> delivery_db \<Rightarrow> bool" where
  "is_report_finalized_for_notification c db \<longleftrightarrow>
     (case find_row (\<lambda>s. ts_candidate_session_id s = c) (rd_states (dl_reports db)) of
        None \<Rightarrow> False
      | Some s \<Rightarrow> ts_report_finalization_status s = Some ''finalized'' \<and>
          ts_evidence_trail_validation_status s = Some ''passed'' \<and> ts_state s \<in> {''report_finalized'', ''notification_sent''})"

definition fmt_dt :: "datetime option \<Rightarrow> string" where
  "fmt_dt v = (case v of None \<Rightarrow> ''Unavailable'' | Some t \<Rightarrow> take 10 (iso_body t) @ '' '' @ take 5 (drop 11 (iso_body t)) @ '' UTC'')"

definition candidate_identity :: "candidate_session \<Rightarrow> string \<times> string" where
  "candidate_identity cs =
     (if cs_candidate_name cs = [] then ''Candidate'' else cs_candidate_name cs,
      nonempty_or (cs_candidate_email cs) (if cs_invite_email cs = [] then ''Unavailable'' else cs_invite_email cs))"

definition update_context :: "candidate_session \<Rightarrow> trial \<Rightarrow> string \<Rightarrow> datetime option \<Rightarrow> obj" where
  "update_context cs t stamp at =
     [(''candidate_name'', JStr (fst (candidate_identity cs))), (''candidate_email'', JStr (snd (candidate_identity cs))),
      (''role'', JStr (t_role t)), (''trial_title'', JStr (t_title t)), (stamp, JStr (fmt_dt at))]"

definition completed_request :: "candidate_session \<Rightarrow> trial \<Rightarrow> string \<Rightarrow> delivery_request res" where
  "completed_request cs t email =
     bind_result (render_notification_template ''trial_completed.html'' (update_context cs t ''completed_at'' (cs_completed_at cs))) (\<lambda>r.
     Inr \<lparr>dq_type = CANDIDATE_COMPLETED_NOTIFICATION_JOB_TYPE, dq_email = email, dq_role = ''talent_partner'',
          dq_session_id = cs_id cs, dq_trial_id = t_id t, dq_rendered = r\<lparr>rt_template_name := ''trial_completed.html''\<rparr>\<rparr>)"

definition report_ready_request :: "candidate_session \<Rightarrow> trial \<Rightarrow> string \<Rightarrow> datetime option \<Rightarrow> delivery_db \<Rightarrow> delivery_request res" where
  "report_ready_request cs t email generated_at db =
     bind_result (require (generated_at \<noteq> None) (RuntimeError ''winoe_report_not_finalized'')) (\<lambda>_.
     bind_result (require (is_report_finalized_for_notification (cs_id cs) db) (RuntimeError ''winoe_report_not_finalized'')) (\<lambda>_.
     bind_result (render_notification_template ''report_ready_tp.html'' (update_context cs t ''generated_at'' generated_at)) (\<lambda>r.
     Inr \<lparr>dq_type = WINOE_REPORT_READY_NOTIFICATION_JOB_TYPE, dq_email = email, dq_role = ''talent_partner'',
          dq_session_id = cs_id cs, dq_trial_id = t_id t, dq_rendered = r\<lparr>rt_template_name := ''report_ready_tp.html''\<rparr>\<rparr>)))"

definition candidate_ready_request :: "candidate_session \<Rightarrow> trial \<Rightarrow> delivery_request res" where
  "candidate_ready_request cs t =
     bind_result (render_notification_template ''report_ready_candidate.html'' [(''role'', JStr (t_role t)), (''trial_title'', JStr (t_title t))]) (\<lambda>r.
     Inr \<lparr>dq_type = REPORT_READY_CANDIDATE_NOTIFICATION_TYPE, dq_email = snd (candidate_identity cs), dq_role = ''candidate'',
          dq_session_id = cs_id cs, dq_trial_id = t_id t, dq_rendered = r\<lparr>rt_template_name := ''report_ready_candidate.html''\<rparr>\<rparr>)"

definition sent_response :: "int \<Rightarrow> string \<Rightarrow> obj list \<Rightarrow> obj" where
  "sent_response c mode deliveries =
     [(''status'', JStr ''sent''), (''candidateSessionId'', JInt c), (''mode'', JStr mode), (''deliveries'', JList (map JObj deliveries))]"

text \<open>The second mail of a finished report, to the candidate, and the response.\<close>

definition send_candidate_copy ::
    "provider \<Rightarrow> int \<Rightarrow> string \<Rightarrow> datetime \<Rightarrow> candidate_session \<Rightarrow> trial \<Rightarrow> string \<Rightarrow> obj \<Rightarrow> (delivery_db, obj) op" where
  "send_candidate_copy provider max_attempts provider_name at cs t mode d1 =
     (if mode = ''winoe_report_ready'' \<and> snd (candidate_identity cs) \<noteq> ''Unavailable''
      then bind_op (lift_op (candidate_ready_request cs t)) (\<lambda>q2.
           bind_op (send_one_notification provider max_attempts provider_name at q2) (\<lambda>d2.
           lift_op (Inr (sent_response (cs_id cs) mode [d1, d2]))))
      else lift_op (Inr (sent_response (cs_id cs) mode [d1])))"

definition send_talent_partner_update_email ::
    "provider \<Rightarrow> int \<Rightarrow> string \<Rightarrow> (nat \<Rightarrow> datetime) \<Rightarrow> int \<Rightarrow> string \<Rightarrow> (delivery_db, obj) op" where
  "send_talent_partner_update_email provider max_attempts provider_name clock c mode db =
     (case load_talent_partner_notification_row c db of
        Inl e \<Rightarrow> (db, Inl e)
      | Inr (cs, t, talent_partner_email, generated_at) \<Rightarrow>
          (if py_strip (nonempty_or talent_partner_email []) = []
           then (db, Inr [(''status'', JStr ''skipped''), (''reason'', JStr ''missing_talent_partner_email'')])
           else bind_op (lift_op (if mode = ''candidate_completed'' then completed_request cs t (the talent_partner_email)
                                  else report_ready_request cs t (the talent_partner_email) generated_at db)) (\<lambda>q.
             bind_op (send_one_notification provider max_attempts provider_name (clock 0) q)
               (send_candidate_copy provider max_attempts provider_name (clock 1) cs t mode)) db))"

definition parse_candidate_session_id :: "obj \<Rightarrow> int res" where
  "parse_candidate_session_id payload =
     bind_result (parse_positive_int (dict_get ''candidateSessionId'' payload)) (\<lambda>c.
     case c of None \<Rightarrow> Inl (ValueError ''candidateSessionId is required'') | Some i \<Rightarrow> Inr i)"

definition process_candidate_completed_notification_job ::
    "provider \<Rightarrow> int \<Rightarrow> string \<Rightarrow> (nat \<Rightarrow> datetime) \<Rightarrow> obj \<Rightarrow> (delivery_db, obj) op" where
  "process_candidate_completed_notification_job provider max_attempts provider_name clock payload =
     bind_op (lift_op (parse_candidate_session_id payload)) (\<lambda>c.
     send_talent_partner_update_email provider max_attempts provider_name clock c ''candidate_completed'')"

definition process_winoe_report_ready_notification_job ::
    "provider \<Rightarrow> int \<Rightarrow> string \<Rightarrow> (nat \<Rightarrow> datetime) \<Rightarrow> obj \<Rightarrow> (delivery_db, obj) op" where
  "process_winoe_report_ready_notification_job provider max_attempts provider_name clock payload =
     bind_op (lift_op (parse_candidate_session_id payload)) (\<lambda>c.
     send_talent_partner_update_email provider max_attempts provider_name clock c ''winoe_report_ready'')"

section \<open>One delivery per recipient\<close>

text \<open>
  The two tallies: sent audits of a recipient, and calls that the provider took. \<open>deliveries_ok\<close>:
  every recipient has at most one sent audit per kind of mail and session.
\<close>

definition sent_to :: "int \<Rightarrow> string \<Rightarrow> string \<Rightarrow> string \<Rightarrow> delivery_db \<Rightarrow> nat" where
  "sent_to c notification_type email role db = count_rows (delivered_to c notification_type email role) (dl_audits db)"

definition mails_taken :: "delivery_db \<Rightarrow> nat" where
  "mails_taken db = length (filter snd (dl_calls db))"

definition deliveries_ok :: "delivery_db \<Rightarrow> bool" where
  "deliveries_ok db \<longleftrightarrow> (\<forall>c ty e role. sent_to c ty e role db \<le> 1)"

definition stored :: "'a res \<Rightarrow> bool" where
  "stored r \<longleftrightarrow> (\<forall>m. r \<noteq> Inl (DataError m))"

lemma send_attempts_facts:
  assumes "send_attempts provider msg n db = (db', r)"
  shows "\<exists>calls. dl_calls db' = dl_calls db @ calls \<and> db' = db\<lparr>dl_calls := dl_calls db @ calls\<rparr> \<and> (\<forall>x \<in> set calls. fst x = msg) \<and>
    (case r of Inr res \<Rightarrow> length (filter snd calls) = (if es_status res = ''sent'' then 1 else 0) | Inl _ \<Rightarrow> filter snd calls = [])"
  using assms
proof (induction n arbitrary: db)
  case (Suc n)
  show ?case
  proof (cases "provider msg (length (dl_calls db))")
    case (SendError m retryable)
    show ?thesis
    proof (cases "retryable \<and> n > 0")
      case True
      with Suc.prems SendError have "send_attempts provider msg n (log_call msg False db) = (db', r)" by simp
      from Suc.IH[OF this] obtain calls where c: "dl_calls db' = dl_calls (log_call msg False db) @ calls"
        "db' = (log_call msg False db)\<lparr>dl_calls := dl_calls (log_call msg False db) @ calls\<rparr>" "\<forall>x \<in> set calls. fst x = msg"
        "case r of Inr res \<Rightarrow> length (filter snd calls) = (if es_status res = ''sent'' then 1 else 0) | Inl _ \<Rightarrow> filter snd calls = []" by blast
      then show ?thesis by (intro exI[of _ "(msg, False) # calls"]) (auto simp: log_call_def split: sum.splits)
    next
      case False
      with Suc.prems SendError show ?thesis by (intro exI[of _ "[(msg, False)]"]) (auto simp: log_call_def)
    qed
  next
    case (Accepted i)
    with Suc.prems show ?thesis by (intro exI[of _ "[(msg, True)]"]) (auto simp: log_call_def)
  next
    case (Raised e)
    with Suc.prems show ?thesis by (intro exI[of _ "[(msg, False)]"]) (auto simp: log_call_def)
  qed
qed auto

text \<open>What one delivery leaves: the calls of its mail, and its audit if the sender returned.\<close>

lemma deliver_facts:
  assumes "deliver provider n name at q db = (db', r)"
  obtains calls audits where "db' = db\<lparr>dl_calls := dl_calls db @ calls, dl_audits := dl_audits db @ audits\<rparr>"
    "\<forall>x \<in> set calls. em_to (fst x) = dq_email q \<and> em_subject (fst x) = rt_subject (dq_rendered q) \<and>
       em_text (fst x) = rt_text (dq_rendered q) \<and> em_html (fst x) = rt_html (dq_rendered q)"
    "length audits \<le> 1" "stored r \<Longrightarrow> length (filter snd calls) = count_rows (\<lambda>a. na_status a = ''sent'') audits"
    "\<forall>a \<in> set audits. na_candidate_session_id a = dq_session_id q \<and> na_notification_type a = dq_type q \<and>
       na_recipient_email a = dq_email q \<and> na_recipient_role a = dq_role q"
    "\<forall>a \<in> set audits. na_subject a = rt_subject (dq_rendered q)"
    "\<not> isl r \<Longrightarrow> \<exists>a \<in> set audits. na_status a = ''sent''"
    "length (filter snd calls) \<le> 1" "\<not> stored r \<Longrightarrow> audits = []"
proof -
  let ?msg = "\<lparr>em_to = dq_email q, em_subject = rt_subject (dq_rendered q), em_text = rt_text (dq_rendered q), em_html = rt_html (dq_rendered q)\<rparr>"
  obtain db1 s where s: "send_email provider n (dq_email q) (dq_rendered q) db = (db1, s)" by fastforce
  from send_attempts_facts[OF s[unfolded send_email_def]] obtain calls where
    c: "db1 = db\<lparr>dl_calls := dl_calls db @ calls\<rparr>" "\<forall>x \<in> set calls. fst x = ?msg"
    "case s of Inr res \<Rightarrow> length (filter snd calls) = (if es_status res = ''sent'' then 1 else 0) | Inl _ \<Rightarrow> filter snd calls = []" by blast
  show thesis
  proof (cases s)
    case (Inl e)
    with assms s have "db' = db1" "r = Inl e" by (simp_all add: deliver_def bind_op_def)
    with c Inl show thesis by (intro that[where calls = calls and audits = "[]"]) (auto simp: count_rows_def)
  next
    case (Inr res)
    let ?row = "delivery_row name q at res"
    show thesis
    proof (cases "audit_fits ?row")
      case False
      with assms s Inr have "db' = db1" "r = Inl (DataError ''value too long'')"
        by (simp_all add: deliver_def bind_op_def record_notification_delivery_audit_def)
      with c Inr show thesis by (intro that[where calls = calls and audits = "[]"]) (auto simp: stored_def)
    next
      case True
      let ?a = "?row\<lparr>na_error := sanitize_delivery_error (na_error ?row)\<rparr>"
      from assms s Inr True have db': "db' = db1\<lparr>dl_audits := dl_audits db1 @ [?a]\<rparr>" and r: "\<not> isl r \<Longrightarrow> es_status res = ''sent''"
        by (auto simp: deliver_def bind_op_def lift_op_def record_notification_delivery_audit_def split: if_splits)
      have st: "na_status ?a = es_status res" by (simp add: delivery_row_def)
      have ok: "stored r" using assms s Inr True
        by (auto simp: stored_def deliver_def bind_op_def lift_op_def record_notification_delivery_audit_def split: if_splits)
      show thesis using c Inr db' r st ok
        by (intro that[where calls = calls and audits = "[?a]"]) (auto simp: count_rows_def delivery_row_def)
    qed
  qed
qed

lemma count_rows_append: "count_rows P (xs @ ys) = count_rows P xs + count_rows P ys"
  by (simp add: count_rows_def)

lemma count_rows_le_length: "count_rows P xs \<le> length xs"
  by (simp add: count_rows_def)

text \<open>Delivering to a recipient that has none yet keeps the tally.\<close>

lemma deliver_ok:
  assumes ok: "deliveries_ok db" and r: "deliver provider n name at q db = (db', r)"
    and none: "\<not> has_successful_notification_delivery (dq_session_id q) (dq_type q) (dq_email q) (dq_role q) db"
  shows "deliveries_ok db'"
proof -
  obtain calls audits where f: "db' = db\<lparr>dl_calls := dl_calls db @ calls, dl_audits := dl_audits db @ audits\<rparr>"
    "length audits \<le> 1"
    "\<forall>a \<in> set audits. na_candidate_session_id a = dq_session_id q \<and> na_notification_type a = dq_type q \<and>
       na_recipient_email a = dq_email q \<and> na_recipient_role a = dq_role q"
    using r by (rule deliver_facts) (rule that; assumption)
  have "sent_to c ty e role db' \<le> 1" for c ty e role
  proof (cases "(c, ty, e, role) = (dq_session_id q, dq_type q, dq_email q, dq_role q)")
    case True
    with none have "sent_to c ty e role db = 0"
      by (auto simp: sent_to_def count_rows_def filter_empty_conv has_successful_notification_delivery_def)
    with f(1,2) count_rows_le_length[of "delivered_to c ty e role" audits] show ?thesis
      by (simp add: sent_to_def count_rows_append)
  next
    case False
    with f(3) have "count_rows (delivered_to c ty e role) audits = 0"
      by (auto simp: count_rows_def filter_empty_conv delivered_to_def)
    with ok f(1) show ?thesis by (simp add: deliveries_ok_def sent_to_def count_rows_append)
  qed
  then show ?thesis by (simp add: deliveries_ok_def)
qed

lemma send_one_ok: "deliveries_ok db \<Longrightarrow> send_one_notification provider n name at q db = (db', r) \<Longrightarrow> deliveries_ok db'"
  unfolding send_one_notification_def using deliver_ok by (auto split: if_splits)

lemma keeps_send_update:
  assumes one: "\<And>at q. keeps I (send_one_notification provider n name at q) (\<lambda>_. True)"
  shows "keeps I (send_talent_partner_update_email provider n name clock c mode) (\<lambda>_. True)"
  unfolding keeps_def
proof (intro allI impI conjI TrueI)
  fix db db' r
  assume r: "I db" "send_talent_partner_update_email provider n name clock c mode db = (db', r)"
  show "I db'"
  proof (cases "load_talent_partner_notification_row c db")
    case (Inl e)
    with r show ?thesis by (simp add: send_talent_partner_update_email_def)
  next
    case (Inr x)
    obtain cs t email at where x: "x = (cs, t, email, at)" by (cases x)
    let ?request = "if mode = ''candidate_completed'' then completed_request cs t (the email) else report_ready_request cs t (the email) at db"
    let ?op = "bind_op (lift_op ?request) (\<lambda>q.
        bind_op (send_one_notification provider n name (clock 0) q) (send_candidate_copy provider n name (clock 1) cs t mode))"
    have "keeps I (send_candidate_copy provider n name (clock 1) cs t mode d1) (\<lambda>_. True)" for d1
      unfolding send_candidate_copy_def by (cases "mode = ''winoe_report_ready'' \<and> snd (candidate_identity cs) \<noteq> ''Unavailable''")
        (simp_all add: keeps_bind_any keeps_lift_any one)
    then have k: "keeps I ?op (\<lambda>_. True)" by (intro keeps_bind_any keeps_lift_any one)
    show ?thesis
    proof (cases "py_strip (nonempty_or email []) = []")
      case True
      with r Inr x show ?thesis by (simp add: send_talent_partner_update_email_def)
    next
      case False
      with r Inr x have "?op db = (db', r)" by (simp add: send_talent_partner_update_email_def)
      from keepsD(1)[OF k this r(1)] show ?thesis .
    qed
  qed
qed

text \<open>
  The mails that the provider took, and those that the audits say were sent: recipient and
  subject. An operation is \<open>matched\<close> if the audits that it adds are, in order, those of the mails
  that were taken, except for one mail without an audit if the operation ends in a failed flush.
\<close>

definition taken_mails :: "(email_message \<times> bool) list \<Rightarrow> (string \<times> string) list" where
  "taken_mails calls = map (\<lambda>x. (em_to (fst x), em_subject (fst x))) (filter snd calls)"

definition sent_mails :: "delivery_audit list \<Rightarrow> (string \<times> string) list" where
  "sent_mails audits = map (\<lambda>a. (na_recipient_email a, na_subject a)) (filter (\<lambda>a. na_status a = ''sent'') audits)"

definition matched_by :: "nat \<Rightarrow> delivery_db \<Rightarrow> delivery_db \<Rightarrow> bool" where
  "matched_by lost db db' \<longleftrightarrow> (\<exists>calls audits. dl_calls db' = dl_calls db @ calls \<and> dl_audits db' = dl_audits db @ audits \<and>
     subseq (sent_mails audits) (taken_mails calls) \<and> length (taken_mails calls) \<le> length (sent_mails audits) + lost)"

definition lost_by :: "'a res \<Rightarrow> nat" where
  "lost_by r = (if stored r then 0 else 1)"

definition matched :: "(delivery_db, 'a) op \<Rightarrow> bool" where
  "matched f \<longleftrightarrow> (\<forall>db db' r. f db = (db', r) \<longrightarrow> matched_by (lost_by r) db db')"

lemma matched_by_same: "dl_calls db' = dl_calls db \<Longrightarrow> dl_audits db' = dl_audits db \<Longrightarrow> matched_by lost db db'"
  unfolding matched_by_def by (intro exI[of _ "[]"]) (simp add: sent_mails_def taken_mails_def)

lemma matched_by_trans:
  assumes "matched_by k a b" "matched_by l b c"
  shows "matched_by (k + l) a c"
proof -
  from assms obtain calls audits calls' audits' where
    1: "dl_calls b = dl_calls a @ calls" "dl_audits b = dl_audits a @ audits" "subseq (sent_mails audits) (taken_mails calls)"
      "length (taken_mails calls) \<le> length (sent_mails audits) + k"
    and 2: "dl_calls c = dl_calls b @ calls'" "dl_audits c = dl_audits b @ audits'" "subseq (sent_mails audits') (taken_mails calls')"
      "length (taken_mails calls') \<le> length (sent_mails audits') + l" unfolding matched_by_def by blast
  have "subseq (sent_mails (audits @ audits')) (taken_mails (calls @ calls'))"
    using list_emb_append_mono[OF 1(3) 2(3)] by (simp add: sent_mails_def taken_mails_def)
  moreover have "length (taken_mails (calls @ calls')) \<le> length (sent_mails (audits @ audits')) + (k + l)"
    using 1(4) 2(4) by (simp add: sent_mails_def taken_mails_def)
  ultimately show ?thesis unfolding matched_by_def using 1(1,2) 2(1,2)
    by (intro exI[of _ "calls @ calls'"] exI[of _ "audits @ audits'"]) simp
qed

lemma matched_lift: "matched (lift_op r)"
  by (simp add: matched_def lift_op_def matched_by_same)

lemma matched_bind:
  assumes f: "matched f" and g: "\<And>x. matched (g x)"
  shows "matched (bind_op f g)"
  unfolding matched_def
proof (intro allI impI)
  fix db db' r
  assume r: "bind_op f g db = (db', r)"
  obtain db1 x where x: "f db = (db1, x)" by fastforce
  with f have m: "matched_by (lost_by x) db db1" by (simp add: matched_def)
  show "matched_by (lost_by r) db db'"
  proof (cases x)
    case (Inl e)
    with r x have "db' = db1" "lost_by r = lost_by x" by (auto simp: bind_op_def lost_by_def stored_def)
    with m show ?thesis by simp
  next
    case (Inr y)
    with r x have "g y db1 = (db', r)" by (simp add: bind_op_def)
    with g have "matched_by (lost_by r) db1 db'" by (simp add: matched_def)
    from matched_by_trans[OF m this] Inr show ?thesis by (simp add: lost_by_def stored_def)
  qed
qed

lemma matched_send_one: "matched (send_one_notification provider n name at q)"
  unfolding matched_def
proof (intro allI impI)
  fix db db' r
  assume r: "send_one_notification provider n name at q db = (db', r)"
  show "matched_by (lost_by r) db db'"
  proof (cases "has_successful_notification_delivery (dq_session_id q) (dq_type q) (dq_email q) (dq_role q) db")
    case True
    with r show ?thesis by (simp add: send_one_notification_def matched_by_same)
  next
    case False
    with r have "deliver provider n name at q db = (db', r)" by (simp add: send_one_notification_def)
    then show ?thesis
    proof (rule deliver_facts)
      fix calls audits
      assume f: "db' = db\<lparr>dl_calls := dl_calls db @ calls, dl_audits := dl_audits db @ audits\<rparr>"
        "\<forall>x \<in> set calls. em_to (fst x) = dq_email q \<and> em_subject (fst x) = rt_subject (dq_rendered q) \<and>
           em_text (fst x) = rt_text (dq_rendered q) \<and> em_html (fst x) = rt_html (dq_rendered q)"
        "stored r \<Longrightarrow> length (filter snd calls) = count_rows (\<lambda>a. na_status a = ''sent'') audits"
        "\<forall>a \<in> set audits. na_candidate_session_id a = dq_session_id q \<and> na_notification_type a = dq_type q \<and>
           na_recipient_email a = dq_email q \<and> na_recipient_role a = dq_role q" "\<forall>a \<in> set audits. na_subject a = rt_subject (dq_rendered q)"
        "length (filter snd calls) \<le> 1" "\<not> stored r \<Longrightarrow> audits = []"
      let ?m = "(dq_email q, rt_subject (dq_rendered q))"
      have t: "taken_mails calls = replicate (length (filter snd calls)) ?m"
        unfolding taken_mails_def using f(2) by (auto simp: map_replicate_const[symmetric] intro!: map_cong)
      have s: "sent_mails audits = replicate (count_rows (\<lambda>a. na_status a = ''sent'') audits) ?m"
        unfolding sent_mails_def count_rows_def using f(4,5) by (auto simp: map_replicate_const[symmetric] intro!: map_cong)
      have "subseq (sent_mails audits) (taken_mails calls) \<and> length (taken_mails calls) \<le> length (sent_mails audits) + lost_by r"
      proof (cases "stored r")
        case True
        with f(3) show ?thesis by (simp add: t s)
      next
        case False
        with f(6,7) show ?thesis by (simp add: t sent_mails_def lost_by_def)
      qed
      with f(1) show ?thesis unfolding matched_by_def by auto
    qed
  qed
qed

lemma matched_send_update: "matched (send_talent_partner_update_email provider n name clock c mode)"
  unfolding matched_def
proof (intro allI impI)
  fix db db' r
  assume r: "send_talent_partner_update_email provider n name clock c mode db = (db', r)"
  have keep: "keeps (\<lambda>x. True) f (\<lambda>_. True)" for f :: "(delivery_db, obj) op" by (simp add: keeps_def)
  show "matched_by (lost_by r) db db'"
  proof (cases "load_talent_partner_notification_row c db")
    case (Inl e)
    with r show ?thesis by (simp add: send_talent_partner_update_email_def matched_by_same)
  next
    case (Inr x)
    obtain cs t email at where x: "x = (cs, t, email, at)" by (cases x)
    let ?request = "if mode = ''candidate_completed'' then completed_request cs t (the email) else report_ready_request cs t (the email) at db"
    let ?op = "bind_op (lift_op ?request) (\<lambda>q.
        bind_op (send_one_notification provider n name (clock 0) q) (send_candidate_copy provider n name (clock 1) cs t mode))"
    have "matched (send_candidate_copy provider n name (clock 1) cs t mode d1)" for d1
      unfolding send_candidate_copy_def by (cases "mode = ''winoe_report_ready'' \<and> snd (candidate_identity cs) \<noteq> ''Unavailable''")
        (simp_all add: matched_bind matched_lift matched_send_one)
    then have m: "matched ?op" by (intro matched_bind matched_lift matched_send_one)
    show ?thesis
    proof (cases "py_strip (nonempty_or email []) = []")
      case True
      with r Inr x show ?thesis by (simp add: send_talent_partner_update_email_def matched_by_same)
    next
      case False
      with r Inr x have "?op db = (db', r)" by (simp add: send_talent_partner_update_email_def)
      with m show ?thesis unfolding matched_def by blast
    qed
  qed
qed

text \<open>A run of one of the jobs; the steps of the whole system, and its runs with their results.\<close>

inductive notification_run :: "delivery_db \<Rightarrow> obj res \<Rightarrow> delivery_db \<Rightarrow> bool" where
  completed: "process_candidate_completed_notification_job provider n name clock payload db = (db', r) \<Longrightarrow> notification_run db r db'"
| ready: "process_winoe_report_ready_notification_job provider n name clock payload db = (db', r) \<Longrightarrow> notification_run db r db'"

lemma run_keeps_deliveries: "notification_run db r db' \<Longrightarrow> deliveries_ok db \<Longrightarrow> deliveries_ok db'"
proof (induction rule: notification_run.induct)
  case (completed provider n name clock payload db db' r)
  have "keeps deliveries_ok (process_candidate_completed_notification_job provider n name clock payload) (\<lambda>_. True)"
    unfolding process_candidate_completed_notification_job_def
    by (intro keeps_bind_any keeps_lift_any keeps_send_update) (use send_one_ok in \<open>auto simp: keeps_def\<close>)
  from keepsD(1)[OF this completed] show ?case .
next
  case (ready provider n name clock payload db db' r)
  have "keeps deliveries_ok (process_winoe_report_ready_notification_job provider n name clock payload) (\<lambda>_. True)"
    unfolding process_winoe_report_ready_notification_job_def
    by (intro keeps_bind_any keeps_lift_any keeps_send_update) (use send_one_ok in \<open>auto simp: keeps_def\<close>)
  from keepsD(1)[OF this ready] show ?case .
qed

lemma run_matched: "notification_run db r db' \<Longrightarrow> matched_by (lost_by r) db db'"
proof (induction rule: notification_run.induct)
  case (completed provider n name clock payload db db' r)
  have "matched (process_candidate_completed_notification_job provider n name clock payload)"
    unfolding process_candidate_completed_notification_job_def by (intro matched_bind matched_lift matched_send_update)
  with completed show ?case unfolding matched_def by blast
next
  case (ready provider n name clock payload db db' r)
  have "matched (process_winoe_report_ready_notification_job provider n name clock payload)"
    unfolding process_winoe_report_ready_notification_job_def by (intro matched_bind matched_lift matched_send_update)
  with ready show ?case unfolding matched_def by blast
qed

inductive delivery_step :: "delivery_db \<Rightarrow> delivery_db \<Rightarrow> bool" where
  run: "notification_run db r db' \<Longrightarrow> delivery_step db db'"
| elsewhere: "dl_audits db' = dl_audits db \<Longrightarrow> dl_calls db' = dl_calls db \<Longrightarrow> delivery_step db db'"

inductive delivery_runs :: "delivery_db \<Rightarrow> obj res list \<Rightarrow> delivery_db \<Rightarrow> bool" where
  none: "delivery_runs db [] db"
| run: "delivery_runs db0 rs db \<Longrightarrow> notification_run db r db' \<Longrightarrow> delivery_runs db0 (rs @ [r]) db'"
| elsewhere: "delivery_runs db0 rs db \<Longrightarrow> dl_audits db' = dl_audits db \<Longrightarrow> dl_calls db' = dl_calls db \<Longrightarrow> delivery_runs db0 rs db'"

lemma runs_steps: "delivery_runs db0 rs db \<Longrightarrow> delivery_step\<^sup>*\<^sup>* db0 db"
  by (induction rule: delivery_runs.induct) (auto intro: rtranclp.rtrancl_into_rtrancl delivery_step.intros)

definition no_mails :: "delivery_db \<Rightarrow> bool" where
  "no_mails db \<longleftrightarrow> dl_audits db = [] \<and> dl_calls db = []"

lemma elsewhere_ok: "dl_audits db' = dl_audits db \<Longrightarrow> deliveries_ok db' = deliveries_ok db"
  by (simp add: deliveries_ok_def sent_to_def)

interpretation mail_deliveries: step_system no_mails delivery_step deliveries_ok
proof unfold_locales
  show "deliveries_ok s" if "no_mails s" for s
    using that by (simp add: no_mails_def deliveries_ok_def sent_to_def count_rows_def)
  show "deliveries_ok t" if "deliveries_ok s" "delivery_step s t" for s t
    using that(2,1) run_keeps_deliveries elsewhere_ok by (induction rule: delivery_step.induct) blast+
qed

lemma runs_matched: "delivery_runs db0 rs db \<Longrightarrow> matched_by (length (filter (\<lambda>r. \<not> stored r) rs)) db0 db"
proof (induction rule: delivery_runs.induct)
  case (run db0 rs db r db')
  from matched_by_trans[OF run.IH run_matched[OF run.hyps(2)]] show ?case by (cases "stored r") (simp_all add: lost_by_def)
next
  case (elsewhere db0 rs db db')
  from matched_by_trans[OF elsewhere.IH matched_by_same[OF elsewhere.hyps(3,2)], of 0] show ?case by simp
qed (simp add: matched_by_same)

text \<open>
  Property C17. However often the notification jobs run one after the other, for any sessions
  and with any answers of the mail provider: a recipient has at most one audit of a sent mail of
  a kind for a session; and the mails that the provider took are, in order, those that the audits
  name as sent, to the recipient and with the subject they name, and besides them at most one
  mail for each run that ended in a failed flush of an audit row. So if no flush failed, a
  recipient got at most one mail of a kind for a session, and every mail is recorded. (Runs that
  overlap can send a mail twice: \<open>concurrent_workers_send_twice\<close>.)
\<close>

theorem taken_mails_are_recorded:
  assumes "no_mails db0" "delivery_runs db0 results db"
  shows "length (filter (delivered_to c notification_type email role) (dl_audits db)) \<le> 1 \<and>
    (let sent = map (\<lambda>a. (na_recipient_email a, na_subject a)) (filter (\<lambda>a. na_status a = ''sent'') (dl_audits db));
         taken = map (\<lambda>x. (em_to (fst x), em_subject (fst x))) (filter snd (dl_calls db));
         failed = length (filter (\<lambda>r. \<exists>m. r = Inl (DataError m)) results)
     in subseq sent taken \<and> length taken \<le> length sent + failed \<and> (failed = 0 \<longrightarrow> taken = sent))"
proof -
  have "deliveries_ok db" using mail_deliveries.inv_reachable[OF assms(1) runs_steps[OF assms(2)]] .
  then have one: "length (filter (delivered_to c notification_type email role) (dl_audits db)) \<le> 1"
    by (simp add: deliveries_ok_def sent_to_def count_rows_def)
  have failed: "(\<lambda>r :: obj res. \<not> stored r) = (\<lambda>r. \<exists>m. r = Inl (DataError m))" by (simp add: stored_def fun_eq_iff)
  from runs_matched[OF assms(2)] assms(1) have m: "subseq (sent_mails (dl_audits db)) (taken_mails (dl_calls db))"
    "length (taken_mails (dl_calls db)) \<le> length (sent_mails (dl_audits db)) + length (filter (\<lambda>r. \<exists>m. r = Inl (DataError m)) results)"
    by (auto simp: matched_by_def no_mails_def failed)
  have eq: "length (filter (\<lambda>r. \<exists>m. r = Inl (DataError m)) results) = 0 \<longrightarrow> taken_mails (dl_calls db) = sent_mails (dl_audits db)"
  proof
    assume "length (filter (\<lambda>r. \<exists>m. r = Inl (DataError m)) results) = 0"
    with m(2) list_emb_length[OF m(1)] have "length (sent_mails (dl_audits db)) = length (taken_mails (dl_calls db))" by simp
    from subseq_same_length[OF m(1) this] show "taken_mails (dl_calls db) = sent_mails (dl_audits db)" ..
  qed
  show ?thesis unfolding Let_def using one m eq by (simp only: taken_mails_def sent_mails_def simp_thms)
qed

text \<open>
  A subject that does not fit its column is sent, fails the flush and leaves no audit: a run
  with the same request afterwards sends the mail again.
\<close>

lemma overlong_subject_sent_unrecorded:
  assumes long: "255 < length (rt_subject (dq_rendered q))"
    and none: "\<not> has_successful_notification_delivery (dq_session_id q) (dq_type q) (dq_email q) (dq_role q) db"
    and took: "\<And>m i. provider m i = Accepted (message_id i)"
    and run: "send_one_notification provider n name at q db = (db', r)"
  shows "mails_taken db' = mails_taken db + 1 \<and> dl_audits db' = dl_audits db \<and> (\<exists>m. r = Inl (DataError m))"
proof -
  obtain k where k: "nat (max 1 n) = Suc k" by (metis gr0_conv_Suc max.strict_coboundedI1 zero_less_nat_eq zero_less_one)
  from run none have "deliver provider n name at q db = (db', r)" by (simp add: send_one_notification_def)
  with k took long show ?thesis
    by (auto simp: deliver_def bind_op_def send_email_def log_call_def record_notification_delivery_audit_def audit_fits_def
        delivery_row_def mails_taken_def)
qed

text \<open>
  The check and the send are not one transaction: two workers that both found no delivery
  send the mail twice.
\<close>

lemma concurrent_workers_send_twice:
  assumes "deliver provider n name at q db = (db1, Inr d1)" "deliver provider n' name' at' q db1 = (db2, Inr d2)"
  shows "2 \<le> sent_to (dq_session_id q) (dq_type q) (dq_email q) (dq_role q) db2"
proof -
  have one: "\<exists>audits. dl_audits y = dl_audits x @ audits \<and> 1 \<le> count_rows (delivered_to (dq_session_id q) (dq_type q) (dq_email q) (dq_role q)) audits"
    if d: "deliver provider n name at q x = (y, Inr r)" for provider n name at x y r
  proof -
    obtain calls audits where f: "y = x\<lparr>dl_calls := dl_calls x @ calls, dl_audits := dl_audits x @ audits\<rparr>"
      "\<forall>a \<in> set audits. na_candidate_session_id a = dq_session_id q \<and> na_notification_type a = dq_type q \<and>
         na_recipient_email a = dq_email q \<and> na_recipient_role a = dq_role q" "\<exists>a \<in> set audits. na_status a = ''sent''"
      using d by (rule deliver_facts) (rule that; simp)
    then obtain a where "a \<in> set (filter (delivered_to (dq_session_id q) (dq_type q) (dq_email q) (dq_role q)) audits)"
      by (auto simp: delivered_to_def)
    then have "1 \<le> count_rows (delivered_to (dq_session_id q) (dq_type q) (dq_email q) (dq_role q)) audits"
      unfolding count_rows_def by (cases "filter (delivered_to (dq_session_id q) (dq_type q) (dq_email q) (dq_role q)) audits") auto
    with f(1) show ?thesis by simp
  qed
  from one[OF assms(1)] one[OF assms(2)] show ?thesis by (auto simp: sent_to_def count_rows_append)
qed

section \<open>What is sent, and when\<close>

definition mail_of :: "delivery_request \<Rightarrow> email_message \<Rightarrow> bool" where
  "mail_of q m \<longleftrightarrow> em_to m = dq_email q \<and> em_subject m = rt_subject (dq_rendered q) \<and> em_text m = rt_text (dq_rendered q) \<and>
     em_html m = rt_html (dq_rendered q)"

lemma send_one_calls:
  assumes "send_one_notification provider n name at q db = (db', r)"
  obtains calls where "dl_calls db' = dl_calls db @ calls" "\<forall>x \<in> set calls. mail_of q (fst x)" "dl_reports db' = dl_reports db"
    "dl_users db' = dl_users db"
    "\<not> isl r \<Longrightarrow> has_successful_notification_delivery (dq_session_id q) (dq_type q) (dq_email q) (dq_role q) db'"
    "set (dl_audits db) \<subseteq> set (dl_audits db')"
proof (cases "has_successful_notification_delivery (dq_session_id q) (dq_type q) (dq_email q) (dq_role q) db")
  case True
  with assms show thesis by (intro that[of "[]"]) (simp_all add: send_one_notification_def)
next
  case False
  with assms have "deliver provider n name at q db = (db', r)" by (simp add: send_one_notification_def)
  then show thesis
  proof (rule deliver_facts)
    fix calls audits
    assume f: "db' = db\<lparr>dl_calls := dl_calls db @ calls, dl_audits := dl_audits db @ audits\<rparr>"
      "\<forall>x \<in> set calls. em_to (fst x) = dq_email q \<and> em_subject (fst x) = rt_subject (dq_rendered q) \<and>
         em_text (fst x) = rt_text (dq_rendered q) \<and> em_html (fst x) = rt_html (dq_rendered q)"
      "\<forall>a \<in> set audits. na_candidate_session_id a = dq_session_id q \<and> na_notification_type a = dq_type q \<and>
         na_recipient_email a = dq_email q \<and> na_recipient_role a = dq_role q"
      "\<not> isl r \<Longrightarrow> \<exists>a \<in> set audits. na_status a = ''sent''"
    have "has_successful_notification_delivery (dq_session_id q) (dq_type q) (dq_email q) (dq_role q) db'" if "\<not> isl r"
    proof -
      from f(4)[OF that] obtain a where a: "a \<in> set audits" "na_status a = ''sent''" by blast
      with f(3) have "delivered_to (dq_session_id q) (dq_type q) (dq_email q) (dq_role q) a" by (simp add: delivered_to_def)
      with a f(1) show ?thesis by (auto simp: has_successful_notification_delivery_def)
    qed
    with f show thesis by (intro that[of calls]) (auto simp: mail_of_def)
  qed
qed

lemma requests_clean:
  "completed_request cs t e = Inr q \<Longrightarrow> clean_mail (dq_rendered q) \<and> dq_email q = e"
  "report_ready_request cs t e at db = Inr q \<Longrightarrow> clean_mail (dq_rendered q) \<and> dq_email q = e \<and> at \<noteq> None \<and>
     is_report_finalized_for_notification (cs_id cs) db"
  "candidate_ready_request cs t = Inr q \<Longrightarrow> clean_mail (dq_rendered q) \<and> dq_email q = snd (candidate_identity cs)"
  using rendered_clean
  by (auto simp: completed_request_def report_ready_request_def candidate_ready_request_def bind_result_Inr_iff clean_mail_def)

definition clean_message :: "email_message \<Rightarrow> bool" where
  "clean_message m \<longleftrightarrow> (\<forall>part \<in> {em_subject m, em_text m, em_html m}.
     CHR ''!'' \<notin> set part \<and> (\<forall>word \<in> set RETIRED_TERMINOLOGY. \<not> contains (py_lower word) (py_lower part)))"

lemma mail_of_clean: "mail_of q m \<Longrightarrow> clean_mail (dq_rendered q) \<Longrightarrow> clean_message m"
  by (simp add: mail_of_def clean_mail_def clean_message_def)

lemma send_update_calls:
  assumes r: "send_talent_partner_update_email provider n name clock c mode db = (db', r)"
  obtains "dl_calls db' = dl_calls db"
  | cs t email at calls where "load_talent_partner_notification_row c db = Inr (cs, t, Some email, at)"
      "mode = ''candidate_completed'' \<or> at \<noteq> None \<and> is_report_finalized_for_notification (cs_id cs) db"
      "dl_calls db' = dl_calls db @ calls"
      "\<forall>x \<in> set calls. clean_message (fst x) \<and>
         (em_to (fst x) = email \<or> mode = ''winoe_report_ready'' \<and> em_to (fst x) = snd (candidate_identity cs))"
proof (cases "dl_calls db' = dl_calls db")
  case False
  from r False obtain cs t email at where l: "load_talent_partner_notification_row c db = Inr (cs, t, email, at)"
    by (auto simp: send_talent_partner_update_email_def split: sum.splits)
  from r False l have ne: "py_strip (nonempty_or email []) \<noteq> []" by (auto simp: send_talent_partner_update_email_def)
  have "py_strip [] = []" by (simp add: py_strip_def)
  with ne obtain e where e: "email = Some e" by (cases email) (auto simp: nonempty_or_def)
  let ?req = "if mode = ''candidate_completed'' then completed_request cs t e else report_ready_request cs t e at db"
  let ?rest = "send_candidate_copy provider n name (clock 1) cs t mode"
  from r l ne e have run: "bind_op (lift_op ?req) (\<lambda>q. bind_op (send_one_notification provider n name (clock 0) q) ?rest) db = (db', r)"
    unfolding send_talent_partner_update_email_def e option.sel by (simp only: l[unfolded e] sum.case prod.case if_False ne[unfolded e] option.sel)
  from run False obtain q where q: "?req = Inr q" by (cases ?req) (auto simp: bind_op_def lift_op_def)
  from q requests_clean have qc: "clean_mail (dq_rendered q)" "dq_email q = e"
    "mode = ''candidate_completed'' \<or> at \<noteq> None \<and> is_report_finalized_for_notification (cs_id cs) db" by (auto split: if_splits)
  obtain db1 x where s: "send_one_notification provider n name (clock 0) q db = (db1, x)" by fastforce
  obtain calls1 where c1: "dl_calls db1 = dl_calls db @ calls1" "\<forall>x \<in> set calls1. mail_of q (fst x)"
    using s by (rule send_one_calls)
  have m1: "\<forall>x \<in> set calls1. clean_message (fst x) \<and> em_to (fst x) = e"
    using c1(2) qc mail_of_clean by (auto simp: mail_of_def)
  obtain calls2 where c2: "dl_calls db' = dl_calls db1 @ calls2"
    "\<forall>x \<in> set calls2. clean_message (fst x) \<and> mode = ''winoe_report_ready'' \<and> em_to (fst x) = snd (candidate_identity cs)"
  proof (cases "\<exists>d1 q2. x = Inr d1 \<and> mode = ''winoe_report_ready'' \<and> snd (candidate_identity cs) \<noteq> ''Unavailable'' \<and>
      candidate_ready_request cs t = Inr q2")
    case True
    then obtain d1 q2 where d: "x = Inr d1" "mode = ''winoe_report_ready''" "snd (candidate_identity cs) \<noteq> ''Unavailable''"
      "candidate_ready_request cs t = Inr q2" by blast
    obtain db2 y where s2: "send_one_notification provider n name (clock 1) q2 db1 = (db2, y)" by fastforce
    from run q s d s2 have "db' = db2" by (cases y) (auto simp: bind_op_def lift_op_def send_candidate_copy_def)
    moreover obtain calls where "dl_calls db2 = dl_calls db1 @ calls" "\<forall>x \<in> set calls. mail_of q2 (fst x)"
      using s2 by (rule send_one_calls)
    moreover have "clean_mail (dq_rendered q2)" "dq_email q2 = snd (candidate_identity cs)" using requests_clean(3)[OF d(4)] by auto
    moreover from calculation have "\<forall>x \<in> set calls. clean_message (fst x)" using mail_of_clean by blast
    ultimately show thesis using that[of calls] d(2) by (auto simp: mail_of_def)
  next
    case no: False
    have "db' = db1"
    proof (cases x)
      case (Inl e)
      with run q s show ?thesis by (simp add: bind_op_def lift_op_def)
    next
      case (Inr d1)
      with run q s have "?rest d1 db1 = (db', r)" by (simp add: bind_op_def lift_op_def)
      with no Inr show ?thesis by (cases "candidate_ready_request cs t") (auto simp: send_candidate_copy_def bind_op_def lift_op_def split: if_splits)
    qed
    then show thesis using that[of "[]"] by simp
  qed
  show thesis using l e qc(3) c1(1) c2 m1 by (intro that(2)[of cs t e at "calls1 @ calls2"]) auto
qed (rule that(1))

text \<open>
  Property C38. No mail about a report is handed to the provider unless the report exists and
  its evaluation is finalised with a passed evidence trail, and every mail that is handed over
  is free of exclamation marks and retired terms and goes to the talent partner's address or,
  for a finished report, to the candidate's.
\<close>

theorem report_mails_are_backed:
  assumes run: "process_winoe_report_ready_notification_job provider n name clock payload db = (db', r)"
    and c: "parse_positive_int (dict_get ''candidateSessionId'' payload) = Inr (Some c)"
  shows "\<exists>calls. dl_calls db' = dl_calls db @ calls \<and>
    (calls \<noteq> [] \<longrightarrow> (\<exists>report \<in> set (rd_reports (dl_reports db)). wr_candidate_session_id report = c) \<and>
       (\<exists>s \<in> set (rd_states (dl_reports db)). ts_candidate_session_id s = c \<and> ts_report_finalization_status s = Some ''finalized'' \<and>
          ts_evidence_trail_validation_status s = Some ''passed'')) \<and>
    (\<forall>x \<in> set calls. clean_message (fst x)) \<and>
    (\<forall>x \<in> set calls. \<exists>cs t email at. load_talent_partner_notification_row c db = Inr (cs, t, Some email, at) \<and>
       em_to (fst x) \<in> {email, snd (candidate_identity cs)})"
proof -
  from run c have s: "send_talent_partner_update_email provider n name clock c ''winoe_report_ready'' db = (db', r)"
    by (simp add: process_winoe_report_ready_notification_job_def parse_candidate_session_id_def bind_op_def lift_op_def)
  then show ?thesis
  proof (rule send_update_calls)
    fix cs t email at calls
    assume a: "load_talent_partner_notification_row c db = Inr (cs, t, Some email, at)"
      "''winoe_report_ready'' = ''candidate_completed'' \<or> at \<noteq> None \<and> is_report_finalized_for_notification (cs_id cs) db"
      "dl_calls db' = dl_calls db @ calls"
      "\<forall>x \<in> set calls. clean_message (fst x) \<and> (em_to (fst x) = email \<or>
         ''winoe_report_ready'' = ''winoe_report_ready'' \<and> em_to (fst x) = snd (candidate_identity cs))"
    from a(1) have cs: "cs_id cs = c" "at = map_option wr_generated_at (find_row (\<lambda>r. wr_candidate_session_id r = c) (rd_reports (dl_reports db)))"
      by (auto simp: load_talent_partner_notification_row_def get_session_def dest: find_row_SomeD split: option.splits)
    from a(2) cs have "\<exists>report \<in> set (rd_reports (dl_reports db)). wr_candidate_session_id report = c"
      by (auto dest: find_row_SomeD)
    moreover from a(2) cs have "\<exists>s \<in> set (rd_states (dl_reports db)). ts_candidate_session_id s = c \<and>
        ts_report_finalization_status s = Some ''finalized'' \<and> ts_evidence_trail_validation_status s = Some ''passed''"
      by (auto simp: is_report_finalized_for_notification_def dest: find_row_SomeD split: option.splits)
    ultimately show ?thesis using a(1,3,4) by (intro exI[of _ calls]) auto
  qed (auto intro: exI[of _ "[]"])
qed

section \<open>A job that returns has delivered\<close>

lemma delivered_mono: "set (dl_audits db) \<subseteq> set (dl_audits db') \<Longrightarrow> has_successful_notification_delivery c ty e role db \<Longrightarrow>
   has_successful_notification_delivery c ty e role db'"
  by (auto simp: has_successful_notification_delivery_def)

lemma completed_run_cases:
  assumes run: "process_candidate_completed_notification_job provider n name clock payload db = (db', Inr resp)"
    and st: "dict_get ''status'' resp = JStr ''sent''"
  obtains c cs t email at q d1 where "parse_candidate_session_id payload = Inr c"
    "load_talent_partner_notification_row c db = Inr (cs, t, Some email, at)" "py_strip email \<noteq> []" "completed_request cs t email = Inr q"
    "send_one_notification provider n name (clock 0) q db = (db', Inr d1)"
proof -
  from run obtain c where c: "parse_candidate_session_id payload = Inr c"
    and r: "send_talent_partner_update_email provider n name clock c ''candidate_completed'' db = (db', Inr resp)"
    unfolding process_candidate_completed_notification_job_def by (elim bind_opE lift_opE) simp
  from r obtain cs t email at where l: "load_talent_partner_notification_row c db = Inr (cs, t, email, at)"
    by (auto simp: send_talent_partner_update_email_def split: sum.splits)
  have ne: "py_strip (nonempty_or email []) \<noteq> []" using r l st by (auto simp: send_talent_partner_update_email_def dict_get_def dict_lookup_def)
  have "py_strip [] = []" by (simp add: py_strip_def)
  with ne obtain e where e: "email = Some e" "py_strip e \<noteq> []" by (cases email) (auto simp: nonempty_or_def split: if_splits)
  from r l ne e have "bind_op (lift_op (completed_request cs t e)) (\<lambda>q. bind_op (send_one_notification provider n name (clock 0) q)
      (send_candidate_copy provider n name (clock 1) cs t ''candidate_completed'')) db = (db', Inr resp)"
    by (simp add: send_talent_partner_update_email_def)
  then obtain q d1 where "completed_request cs t e = Inr q" "send_one_notification provider n name (clock 0) q db = (db', Inr d1)"
    by (elim bind_opE lift_opE) (auto simp: send_candidate_copy_def elim!: lift_opE)
  with that c l e show thesis by blast
qed

text \<open>What a delivery that returns did: one mail taken, after refusals only, and its audit.\<close>

lemma send_one_delivers:
  assumes run: "send_one_notification provider n name at q db = (db', Inr d)"
  shows "if has_successful_notification_delivery (dq_session_id q) (dq_type q) (dq_email q) (dq_role q) db then db' = db
    else \<exists>calls a. dl_calls db' = dl_calls db @ calls \<and> (\<forall>x \<in> set calls. mail_of q (fst x)) \<and> length (filter snd calls) = 1 \<and>
      dl_audits db' = dl_audits db @ [a] \<and> delivered_to (dq_session_id q) (dq_type q) (dq_email q) (dq_role q) a"
proof (cases "has_successful_notification_delivery (dq_session_id q) (dq_type q) (dq_email q) (dq_role q) db")
  case True
  with run show ?thesis by (simp add: send_one_notification_def)
next
  case False
  with run have "deliver provider n name at q db = (db', Inr d)" by (simp add: send_one_notification_def)
  then have "\<exists>calls a. dl_calls db' = dl_calls db @ calls \<and> (\<forall>x \<in> set calls. mail_of q (fst x)) \<and> length (filter snd calls) = 1 \<and>
      dl_audits db' = dl_audits db @ [a] \<and> delivered_to (dq_session_id q) (dq_type q) (dq_email q) (dq_role q) a"
  proof (rule deliver_facts)
    fix calls audits
    assume f: "db' = db\<lparr>dl_calls := dl_calls db @ calls, dl_audits := dl_audits db @ audits\<rparr>"
      "\<forall>x \<in> set calls. em_to (fst x) = dq_email q \<and> em_subject (fst x) = rt_subject (dq_rendered q) \<and>
         em_text (fst x) = rt_text (dq_rendered q) \<and> em_html (fst x) = rt_html (dq_rendered q)"
      "length audits \<le> 1"
      "stored (Inr d :: obj res) \<Longrightarrow> length (filter snd calls) = count_rows (\<lambda>a. na_status a = ''sent'') audits"
      "\<forall>a \<in> set audits. na_candidate_session_id a = dq_session_id q \<and> na_notification_type a = dq_type q \<and>
         na_recipient_email a = dq_email q \<and> na_recipient_role a = dq_role q" "\<forall>a \<in> set audits. na_subject a = rt_subject (dq_rendered q)"
      "\<not> isl (Inr d :: obj res) \<Longrightarrow> \<exists>a \<in> set audits. na_status a = ''sent''"
    from f(3,7) obtain a where a: "audits = [a]" "na_status a = ''sent''" by (cases audits) auto
    with f(1,2,4,5) show ?thesis
      by (intro exI[of _ calls] exI[of _ a]) (auto simp: stored_def count_rows_def mail_of_def delivered_to_def)
  qed
  with False show ?thesis by simp
qed

text \<open>
  Property C18. When the job for a completed candidate reports success, the mail is delivered: if
  a delivery to the talent partner was recorded before, the run hands nothing to the provider and
  records nothing; otherwise it hands over nothing but the mail of the session, to the talent
  partner's address, the provider took exactly one of them, and the run records it. Exactly one
  audit of a sent mail is there afterwards, and running the job again hands nothing to the
  provider. (An earlier run whose audit failed its flush may have delivered the mail as well.)
\<close>

theorem completed_job_delivers:
  assumes ok: "no_mails db0" "delivery_step\<^sup>*\<^sup>* db0 db"
    and run: "process_candidate_completed_notification_job provider n name clock payload db = (db', Inr resp)"
    and st: "dict_get ''status'' resp = JStr ''sent''"
    and c: "parse_positive_int (dict_get ''candidateSessionId'' payload) = Inr (Some c)"
  shows "\<exists>cs t email at q calls audits.
    load_talent_partner_notification_row c db = Inr (cs, t, Some email, at) \<and> completed_request cs t email = Inr q \<and>
    dl_calls db' = dl_calls db @ calls \<and> dl_audits db' = dl_audits db @ audits \<and>
    (if \<exists>a \<in> set (dl_audits db). delivered_to c ''candidate_completed_notification'' email ''talent_partner'' a
     then calls = [] \<and> audits = []
     else (\<forall>x \<in> set calls. em_to (fst x) = email \<and> em_subject (fst x) = rt_subject (dq_rendered q) \<and>
             em_text (fst x) = rt_text (dq_rendered q) \<and> em_html (fst x) = rt_html (dq_rendered q)) \<and>
          length (filter snd calls) = 1 \<and> length audits = 1) \<and>
    length (filter (delivered_to c ''candidate_completed_notification'' email ''talent_partner'') (dl_audits db')) = 1 \<and>
    (\<forall>provider2 n2 name2 clock2 db2 r2.
       process_candidate_completed_notification_job provider2 n2 name2 clock2 payload db' = (db2, r2) \<longrightarrow> dl_calls db2 = dl_calls db')"
proof -
  have pc: "parse_candidate_session_id payload = Inr c" using c by (simp add: parse_candidate_session_id_def)
  from completed_run_cases[OF run st] pc obtain cs t email at q d1 where
    a: "parse_candidate_session_id payload = Inr c" "load_talent_partner_notification_row c db = Inr (cs, t, Some email, at)"
    "py_strip email \<noteq> []" "completed_request cs t email = Inr q" "send_one_notification provider n name  (clock 0) q db = (db', Inr d1)" by (metis sum.inject(2))
  have cs: "cs_id cs = c" using a(2) by (auto simp: load_talent_partner_notification_row_def get_session_def dest: find_row_SomeD split: option.splits)
  have q: "dq_session_id q = c" "dq_type q = ''candidate_completed_notification''" "dq_email q = email" "dq_role q = ''talent_partner''"
    using a(4) cs by (auto simp: completed_request_def bind_result_Inr_iff CANDIDATE_COMPLETED_NOTIFICATION_JOB_TYPE_def)
  have handed: "\<exists>calls audits. dl_calls db' = dl_calls db @ calls \<and> dl_audits db' = dl_audits db @ audits \<and>
    (if \<exists>a \<in> set (dl_audits db). delivered_to c ''candidate_completed_notification'' email ''talent_partner'' a
     then calls = [] \<and> audits = []
     else (\<forall>x \<in> set calls. em_to (fst x) = email \<and> em_subject (fst x) = rt_subject (dq_rendered q) \<and>
             em_text (fst x) = rt_text (dq_rendered q) \<and> em_html (fst x) = rt_html (dq_rendered q)) \<and>
          length (filter snd calls) = 1 \<and> length audits = 1)"
    using send_one_delivers[OF a(5)] unfolding q has_successful_notification_delivery_def mail_of_def
    by (auto split: if_splits)
  obtain calls where same: "dl_reports db' = dl_reports db" "dl_users db' = dl_users db"
    and "\<not> isl (Inr d1 :: obj res) \<Longrightarrow> has_successful_notification_delivery (dq_session_id q) (dq_type q) (dq_email q) (dq_role q) db'"
    using a(5) by (rule send_one_calls) (rule that; assumption)
  then have has: "has_successful_notification_delivery (dq_session_id q) (dq_type q) (dq_email q) (dq_role q) db'" by simp
  then obtain x where "x \<in> set (filter (delivered_to c ''candidate_completed_notification'' email ''talent_partner'') (dl_audits db'))"
    unfolding q has_successful_notification_delivery_def by auto
  then have ge: "1 \<le> length (filter (delivered_to c ''candidate_completed_notification'' email ''talent_partner'') (dl_audits db'))"
    by (cases "filter (delivered_to c ''candidate_completed_notification'' email ''talent_partner'') (dl_audits db')") auto
  have "deliveries_ok db'"
    using send_one_ok[OF mail_deliveries.inv_reachable[OF ok] a(5)] .
  then have le: "length (filter (delivered_to c ''candidate_completed_notification'' email ''talent_partner'') (dl_audits db')) \<le> 1"
    by (simp add: deliveries_ok_def sent_to_def count_rows_def)
  have again: "dl_calls db2 = dl_calls db'"
    if r2: "process_candidate_completed_notification_job provider2 n2 name2 clock2 payload db' = (db2, r2)" for provider2 n2 name2 clock2 db2 r2
  proof -
    have l: "load_talent_partner_notification_row c db' = Inr (cs, t, Some email, at)"
      using a(2) unfolding load_talent_partner_notification_row_def same .
    have e: "py_strip (nonempty_or (Some email) []) \<noteq> []" using a(3) by (auto simp: nonempty_or_def)
    have "send_one_notification provider2 n2 name2 (clock2 0) q db' = (db', Inr (delivery_entry q None @ [(''skipped'', JBool True)]))"
      using has by (simp add: send_one_notification_def)
    with r2 a(1,4) l e show ?thesis
      by (simp add: process_candidate_completed_notification_job_def bind_op_def lift_op_def send_talent_partner_update_email_def send_candidate_copy_def)
  qed
  from handed obtain calls audits where h: "dl_calls db' = dl_calls db @ calls" "dl_audits db' = dl_audits db @ audits"
    "if \<exists>a \<in> set (dl_audits db). delivered_to c ''candidate_completed_notification'' email ''talent_partner'' a
     then calls = [] \<and> audits = []
     else (\<forall>x \<in> set calls. em_to (fst x) = email \<and> em_subject (fst x) = rt_subject (dq_rendered q) \<and>
             em_text (fst x) = rt_text (dq_rendered q) \<and> em_html (fst x) = rt_html (dq_rendered q)) \<and>
          length (filter snd calls) = 1 \<and> length audits = 1" by blast
  show ?thesis
    by (rule exI[of _ cs], rule exI[of _ t], rule exI[of _ email], rule exI[of _ at], rule exI[of _ q], rule exI[of _ calls],
        rule exI[of _ audits], intro conjI a(2,4) h le_antisym[OF le ge] allI impI) (rule again)
qed

section \<open>Instances\<close>

definition demo_deliveries :: delivery_db where
  "demo_deliveries = \<lparr>dl_reports = \<lparr>ev_runs = [], ev_day_scores = [], ev_reviewer_reports = [], ev_next_run_id = 1, ev_failed = False,
       rd_reports = [\<lparr>wr_id = 1, wr_candidate_session_id = 7, wr_generated_at = 3000000\<rparr>], rd_next_report_id = 2, rd_citations = [],
       rd_states = [\<lparr>ts_trial_id = 3, ts_candidate_session_id = 7, ts_state = ''report_finalized'', ts_correlation_id = None, ts_reviewer_status_json = JNull,
         ts_winoe_synthesis_status = Some ''completed'', ts_evidence_trail_validation_status = Some ''passed'',
         ts_report_finalization_status = Some ''finalized'', ts_notification_status = None, ts_failure_context_json = JNull, ts_updated_at = 3000000\<rparr>],
       rd_app = \<lparr>trials = [demo_trial], scenario_versions = [], sessions = [demo_session], queue = empty_jobs_db\<rparr>\<rparr>,
     dl_users = [(9, ''tp@example.com'')], dl_audits = [], dl_calls = []\<rparr>"

text \<open>A provider that fails at the first call and takes every later mail.\<close>

definition flaky_provider :: provider where
  "flaky_provider m i = (if i = 0 then SendError ''busy'' True else Accepted (Some ''id''))"

definition demo_clock :: "nat \<Rightarrow> datetime" where
  "demo_clock i = 3000000 + int i"

lemma demo_row:
  "load_talent_partner_notification_row 7 demo_deliveries = Inr (demo_session, demo_trial, Some ''tp@example.com'', Some 3000000)"
  by code_simp

lemma demo_completed_request:
  obtains q where "completed_request demo_session demo_trial ''tp@example.com'' = Inr q" "dq_email q = ''tp@example.com''"
    "dq_type q = ''candidate_completed_notification''" "dq_role q = ''talent_partner''" "dq_session_id q = 7" "dq_trial_id q = 3"
    "length (rt_subject (dq_rendered q)) \<le> 255"
proof -
  let ?ctx = "update_context demo_session demo_trial ''completed_at'' None"
  let ?subject = "''Trial complete '' @ em_dash @ '' your report is being prepared''"
  let ?lines = "[''Ada'' @ [CHR 0x27] @ ''s Trial is complete.'',
    ''Winoe AI is preparing the Winoe Report and Evidence Trail for Talent Partner review.'']"
  have c: "context_value ?ctx ''candidate_name'' ''the candidate'' = ''Ada''" "optional_url ?ctx = None" by code_simp+
  have "trial_completed ?ctx = render ''trial_completed.html'' ?subject ''Trial complete'' ?lines None"
    unfolding trial_completed_def c Let_def ..
  moreover have "validate_rendered_template (render ''trial_completed.html'' ?subject ''Trial complete'' ?lines None) = Inr ()"
  proof (rule pieces_valid)
    show "list_all (\<lambda>s. CHR ''!'' \<notin> set s) (mail_pieces ?subject ''Trial complete'' ?lines)" by code_simp
    show "list_all (\<lambda>ps. absent_from_pieces ps [] (mail_pieces ?subject ''Trial complete'' ?lines)) term_starts" by code_simp
  qed
  moreover have "length (rt_subject (render ''trial_completed.html'' ?subject ''Trial complete'' ?lines None)) \<le> 255"
    by (simp add: render_def em_dash_def)
  ultimately have "validate_rendered_template (trial_completed ?ctx) = Inr ()" "length (rt_subject (trial_completed ?ctx)) \<le> 255"
    by simp_all
  moreover have "py_strip ''trial_completed.html'' = ''trial_completed.html''" by code_simp
  moreover have "map_of RENDERERS ''trial_completed.html'' = Some trial_completed" by (simp add: RENDERERS_def)
  moreover have "cs_completed_at demo_session = None" "cs_id demo_session = 7" "t_id demo_trial = 3"
    by (simp_all add: demo_session_def demo_trial_def)
  ultimately show thesis
    by (intro that) (auto simp: completed_request_def render_notification_template_def CANDIDATE_COMPLETED_NOTIFICATION_JOB_TYPE_def)
qed

lemma demo_ready_request:
  obtains q where "report_ready_request demo_session demo_trial ''tp@example.com'' (Some 3000000) demo_deliveries = Inr q"
    "dq_email q = ''tp@example.com''" "dq_session_id q = 7"
proof -
  let ?ctx = "update_context demo_session demo_trial ''generated_at'' (Some 3000000)"
  let ?subject = "''Ada'' @ [CHR 0x27] @ ''s Winoe Report is ready''"
  let ?lines = "[''The Winoe Report for '' @ ''Ada'' @ [CHR 0x27] @ ''s Trial is ready.'',
    ''The report includes a Winoe Score and linked Evidence Trail for the '' @ ''dev'' @ '' role.'',
    ''Review the evidence in the Talent Partner dashboard before deciding next steps.'']"
  have c: "context_value ?ctx ''candidate_name'' ''Candidate'' = ''Ada''" "context_value ?ctx ''role'' ''the role'' = ''dev''"
    "optional_url ?ctx = None" by code_simp+
  have "report_ready_tp ?ctx = render ''report_ready_tp.html'' ?subject ''Winoe Report ready'' ?lines None"
    unfolding report_ready_tp_def c Let_def ..
  moreover have "validate_rendered_template (render ''report_ready_tp.html'' ?subject ''Winoe Report ready'' ?lines None) = Inr ()"
  proof (rule pieces_valid)
    show "list_all (\<lambda>s. CHR ''!'' \<notin> set s) (mail_pieces ?subject ''Winoe Report ready'' ?lines)" by code_simp
    show "list_all (\<lambda>ps. absent_from_pieces ps [] (mail_pieces ?subject ''Winoe Report ready'' ?lines)) term_starts" by code_simp
  qed
  ultimately have "validate_rendered_template (report_ready_tp ?ctx) = Inr ()" by simp
  moreover have "py_strip ''report_ready_tp.html'' = ''report_ready_tp.html''" by code_simp
  moreover have "map_of RENDERERS ''report_ready_tp.html'' = Some report_ready_tp" by (simp add: RENDERERS_def)
  moreover have "is_report_finalized_for_notification (cs_id demo_session) demo_deliveries" "cs_id demo_session = 7" by code_simp+
  ultimately show thesis
    by (intro that) (auto simp: report_ready_request_def render_notification_template_def require_def)
qed

lemma demo_deliver:
  assumes "dl_calls db = []" "dq_email q = ''tp@example.com''" "dq_type q = ''candidate_completed_notification''" "dq_role q = ''talent_partner''"
    "dq_session_id q = 7" "dq_trial_id q = 3" "length (rt_subject (dq_rendered q)) \<le> 255"
  shows "\<exists>db' d. deliver flaky_provider 2 ''resend'' at q db = (db', Inr d) \<and> length (dl_calls db') = 2"
proof -
  have "length (delivery_idempotency_key ''candidate_completed_notification'' ''tp@example.com'' 3 7) \<le> 255"
    "length (''candidate_session:'' @ int_str 7 @ '':'' @ ''candidate_completed_notification'') \<le> 255" by code_simp+
  with assms have "audit_fits (delivery_row ''resend'' q at \<lparr>es_status = ''sent'', es_message_id = Some ''id'', es_error = None\<rparr>)"
    by (simp add: audit_fits_def delivery_row_def)
  with assms(1) show ?thesis
    by (simp add: deliver_def send_email_def flaky_provider_def bind_op_def lift_op_def log_call_def
        record_notification_delivery_audit_def numeral_2_eq_2)
qed

lemma demo_deliveries_empty: "no_mails demo_deliveries"
  by (simp add: no_mails_def demo_deliveries_def)

lemma demo_payload:
  "parse_candidate_session_id [(''candidateSessionId'', JInt 7)] = Inr 7"
  "parse_positive_int (dict_get ''candidateSessionId'' [(''candidateSessionId'', JInt 7)]) = Inr (Some 7)"
  "py_strip ''tp@example.com'' \<noteq> []"
  by code_simp+

lemma demo_completed_run:
  "\<exists>db resp. process_candidate_completed_notification_job flaky_provider 2 ''resend'' demo_clock [(''candidateSessionId'', JInt 7)] demo_deliveries =
     (db, Inr resp) \<and> dict_get ''status'' resp = JStr ''sent'' \<and> length (dl_calls db) = 2"
proof -
  have e: "dl_calls demo_deliveries = []" "dl_audits demo_deliveries = []" by (simp_all add: demo_deliveries_def)
  obtain q db' d where q: "completed_request demo_session demo_trial ''tp@example.com'' = Inr q"
    and d: "deliver flaky_provider 2 ''resend'' (demo_clock 0) q demo_deliveries = (db', Inr d)" "length (dl_calls db') = 2"
    using demo_completed_request demo_deliver[OF e(1)] by metis
  have "send_one_notification flaky_provider 2 ''resend'' (demo_clock 0) q demo_deliveries = (db', Inr d)"
    using d(1) e(2) by (simp add: send_one_notification_def has_successful_notification_delivery_def)
  with q d(2) show ?thesis
    by (simp add: process_candidate_completed_notification_job_def bind_op_def lift_op_def demo_payload demo_row
        send_talent_partner_update_email_def nonempty_or_def send_candidate_copy_def sent_response_def dict_get_def dict_lookup_def)
qed

text \<open>A provider that refuses every mail.\<close>

definition refusing_provider :: provider where
  "refusing_provider m i = SendError ''refused'' False"

lemma demo_ready_run:
  "\<exists>db e. process_winoe_report_ready_notification_job refusing_provider 2 ''resend'' demo_clock [(''candidateSessionId'', JInt 7)] demo_deliveries =
     (db, Inl e) \<and> length (dl_calls db) = 1"
proof -
  obtain q where q: "report_ready_request demo_session demo_trial ''tp@example.com'' (Some 3000000) demo_deliveries = Inr q"
    using demo_ready_request by blast
  have e: "dl_calls demo_deliveries = []" "dl_audits demo_deliveries = []" by (simp_all add: demo_deliveries_def)
  then have "\<exists>db' x. send_one_notification refusing_provider 2 ''resend'' (demo_clock 0) q demo_deliveries = (db', Inl x) \<and> length (dl_calls db') = 1"
    by (simp add: send_one_notification_def has_successful_notification_delivery_def deliver_def send_email_def refusing_provider_def
      bind_op_def lift_op_def log_call_def record_notification_delivery_audit_def numeral_2_eq_2)
  with q show ?thesis
    by (auto simp: process_winoe_report_ready_notification_job_def bind_op_def lift_op_def demo_payload demo_row
        send_talent_partner_update_email_def nonempty_or_def)
qed

theorem taken_mails_are_recorded_witness:
  "\<exists>db resp. process_candidate_completed_notification_job flaky_provider 2 ''resend'' demo_clock [(''candidateSessionId'', JInt 7)] demo_deliveries =
     (db, Inr resp) \<and> length (dl_calls db) = 2 \<and>
     map (\<lambda>x. (em_to (fst x), em_subject (fst x))) (filter snd (dl_calls db)) =
       map (\<lambda>a. (na_recipient_email a, na_subject a)) (filter (\<lambda>a. na_status a = ''sent'') (dl_audits db))"
proof -
  obtain db resp where r: "process_candidate_completed_notification_job flaky_provider 2 ''resend'' demo_clock
      [(''candidateSessionId'', JInt 7)] demo_deliveries = (db, Inr resp)" "length (dl_calls db) = 2"
    using demo_completed_run by blast
  have "notification_run demo_deliveries (Inr resp) db" using r(1) by (rule notification_run.completed)
  then have "delivery_runs demo_deliveries [Inr resp] db"
    using delivery_runs.run[OF delivery_runs.none] by fastforce
  from taken_mails_are_recorded[OF demo_deliveries_empty this] r show ?thesis by (auto simp: Let_def)
qed

theorem report_mails_are_backed_witness:
  "\<exists>db e. process_winoe_report_ready_notification_job refusing_provider 2 ''resend'' demo_clock [(''candidateSessionId'', JInt 7)] demo_deliveries =
     (db, Inl e) \<and> length (dl_calls db) = 1 \<and> (\<forall>x \<in> set (dl_calls db). clean_message (fst x))"
proof -
  obtain db e where r: "process_winoe_report_ready_notification_job refusing_provider 2 ''resend'' demo_clock
      [(''candidateSessionId'', JInt 7)] demo_deliveries = (db, Inl e)" "length (dl_calls db) = 1"
    using demo_ready_run by blast
  have d: "dl_calls demo_deliveries = []" by (simp add: demo_deliveries_def)
  from report_mails_are_backed[OF r(1) demo_payload(2)] d r show ?thesis by auto
qed

theorem completed_job_delivers_witness:
  "\<exists>db resp. process_candidate_completed_notification_job flaky_provider 2 ''resend'' demo_clock [(''candidateSessionId'', JInt 7)] demo_deliveries =
     (db, Inr resp) \<and>
     (\<exists>email. length (filter (delivered_to 7 ''candidate_completed_notification'' email ''talent_partner'') (dl_audits db)) = 1)"
proof -
  obtain db resp where r: "process_candidate_completed_notification_job flaky_provider 2 ''resend'' demo_clock
      [(''candidateSessionId'', JInt 7)] demo_deliveries = (db, Inr resp)" "dict_get ''status'' resp = JStr ''sent''"
    using demo_completed_run by blast
  show ?thesis using completed_job_delivers[OF demo_deliveries_empty rtranclp.rtrancl_refl r demo_payload(2)] r(1) by blast
qed

end
