(* ===== verification/Media.thy ===== *)
theory Media
  imports Recordings CandidateWork
begin

text \<open>
  The media services: consent, the upload of a handoff recording from its first request to its
  completion, deletion by the candidate, the purges of the retention policy and of a data
  request, and the transcription job. The clients of the object store and of the transcription
  service are arguments; the store itself is part of the state, because a deletion in it is
  not undone by a rollback.
\<close>

section \<open>The clients\<close>

datatype external_error =
    StorageMediaError string
  | TranscriptionProviderError string
  | OtherError string string

type_synonym 'a external = "(external_error, 'a) result"

fun exc_text :: "external_error \<Rightarrow> string" where
  "exc_text (StorageMediaError m) = m"
| "exc_text (TranscriptionProviderError m) = m"
| "exc_text (OtherError n m) = m"

fun exc_type_name :: "external_error \<Rightarrow> string" where
  "exc_type_name (StorageMediaError m) = ''StorageMediaError''"
| "exc_type_name (TranscriptionProviderError m) = ''TranscriptionProviderError''"
| "exc_type_name (OtherError n m) = n"

record storage_client =
  sc_upload_url :: "string \<Rightarrow> string \<Rightarrow> int \<Rightarrow> int \<Rightarrow> int option \<Rightarrow> string external"
  sc_download_url :: "string \<Rightarrow> int \<Rightarrow> string external"
  sc_metadata :: "string \<Rightarrow> objects \<Rightarrow> storage_object option external"
  sc_delete :: "string \<Rightarrow> objects \<Rightarrow> objects \<times> unit external"

record transcription_result =
  tn_text :: string
  tn_segments :: json
  tn_model_name :: "string option"

type_synonym transcriber = "string \<Rightarrow> string \<Rightarrow> transcription_result external"

text \<open>
  What the services rely on: reading an object's metadata reads the store, a deletion that
  returns has removed that object, and no deletion touches another one.
\<close>

locale object_store =
  fixes client :: storage_client
  assumes metadata_reads: "ensure_safe_storage_key k = Inr k \<Longrightarrow> sc_metadata client k objs = Inr m \<Longrightarrow> m = objs k"
    and delete_removes: "ensure_safe_storage_key k = Inr k \<Longrightarrow> sc_delete client k objs = (objs', Inr ()) \<Longrightarrow> objs' k = None"
    and delete_others: "ensure_safe_storage_key k = Inr k \<Longrightarrow> sc_delete client k objs = (objs', x) \<Longrightarrow> k' \<noteq> k \<Longrightarrow> objs' k' = objs k'"

text \<open>The provider for tests and local development, without a directory on disk.\<close>

definition fake_safe_key :: "string \<Rightarrow> string external" where
  "fake_safe_key k = (case ensure_safe_storage_key k of Inl (ExternalError n m) \<Rightarrow> Inl (StorageMediaError m) | Inl e \<Rightarrow> Inl (StorageMediaError []) | Inr s \<Rightarrow> Inr s)"

definition fake_get_object_metadata :: "string \<Rightarrow> objects \<Rightarrow> storage_object option external" where
  "fake_get_object_metadata k objs = bind_result (fake_safe_key k) (\<lambda>s. Inr (objs s))"

definition fake_set_object_metadata :: "string \<Rightarrow> string \<Rightarrow> int \<Rightarrow> int option \<Rightarrow> objects \<Rightarrow> objects external" where
  "fake_set_object_metadata k content_type size_bytes duration_seconds objs =
     bind_result (fake_safe_key k) (\<lambda>s. Inr (objs(s \<mapsto> \<lparr>so_content_type = normalize_content_type content_type, so_size_bytes = size_bytes,
       so_duration_seconds = Some (case duration_seconds of None \<Rightarrow> 600 | Some d \<Rightarrow> d)\<rparr>)))"

definition fake_delete_object :: "string \<Rightarrow> objects \<Rightarrow> objects \<times> unit external" where
  "fake_delete_object k objs = (case fake_safe_key k of Inl e \<Rightarrow> (objs, Inl e) | Inr s \<Rightarrow> (objs(s := None), Inr ()))"

text \<open>Its signed URLs are made of the key, the lifetime and a keyed digest, which is an argument.\<close>

definition fake_provider :: "(string \<Rightarrow> string) \<Rightarrow> storage_client" where
  "fake_provider sign =
     \<lparr>sc_upload_url = (\<lambda>k ct size expires d. bind_result (fake_safe_key k) (\<lambda>s. Inr (sign s))),
      sc_download_url = (\<lambda>k expires. bind_result (fake_safe_key k) (\<lambda>s. Inr (sign s))),
      sc_metadata = fake_get_object_metadata, sc_delete = fake_delete_object\<rparr>"

interpretation fake_store: object_store "fake_provider sign"
  by unfold_locales (auto simp: fake_provider_def fake_get_object_metadata_def fake_delete_object_def fake_safe_key_def split: sum.splits)

section \<open>Consent\<close>

definition normalized_notice_version :: "string \<Rightarrow> string res" where
  "normalized_notice_version value =
     (if py_strip value = [] then Inl (unprocessable ''noticeVersion is required'') else Inr (py_strip value))"

definition require_media_consent :: "media_session \<Rightarrow> unit res" where
  "require_media_consent m =
     require (py_strip (nonempty_or (mc_consent_version m) []) \<noteq> [] \<and> mc_consent_timestamp m \<noteq> None)
       (HTTPError 409 ''Consent is required before upload completion'')"

definition put_media_session :: "media_session \<Rightarrow> media_db \<Rightarrow> media_db" where
  "put_media_session m db =
     db\<lparr>md_sessions := m # filter (\<lambda>x. mc_session_id x \<noteq> mc_session_id m) (md_sessions db)\<rparr>"

definition record_candidate_session_consent ::
    "int \<Rightarrow> string \<Rightarrow> string option \<Rightarrow> datetime \<Rightarrow> media_db \<Rightarrow> (media_session \<times> media_db) res" where
  "record_candidate_session_consent c notice_version ai_notice_version now db =
     bind_result (normalized_notice_version notice_version) (\<lambda>notice.
       let m = media_session_of c db;
           given = py_strip (nonempty_or ai_notice_version []);
           kept = py_strip (nonempty_or (mc_ai_notice_version m) []);
           ai = (if given \<noteq> [] then given else if kept \<noteq> [] then kept else notice)
       in if mc_consent_version m = Some notice \<and> mc_ai_notice_version m = Some ai \<and> mc_consent_timestamp m \<noteq> None
          then Inr (m, db)
          else let m' = m\<lparr>mc_consent_version := Some notice, mc_consent_timestamp := Some now, mc_ai_notice_version := Some ai\<rparr>
               in Inr (m', put_media_session m' db))"

definition copy_candidate_consent_if_missing :: "media_session \<Rightarrow> recording_asset \<Rightarrow> recording_asset" where
  "copy_candidate_consent_if_missing m r =
     (if ra_consent_timestamp r \<noteq> None \<or> mc_consent_timestamp m = None then r
      else r\<lparr>ra_consent_version := mc_consent_version m, ra_consent_timestamp := mc_consent_timestamp m,
             ra_ai_notice_version := mc_ai_notice_version m\<rparr>)"

section \<open>Upload of a handoff recording\<close>

definition ensure_handoff_task :: "string \<Rightarrow> unit res" where
  "ensure_handoff_task task_type =
     require (py_lower task_type = ''handoff'') (unprocessable ''Media upload is only supported for handoff tasks'')"

definition media_storage_unavailable :: error where
  "media_storage_unavailable = ApiError 502 ''Media storage unavailable'' ''MEDIA_STORAGE_UNAVAILABLE'' (Some True) []"

text \<open>A storage failure becomes the 502 response; another exception leaves as it is.\<close>

definition storage_result :: "'a external \<Rightarrow> 'a res" where
  "storage_result r = (case r of Inr x \<Rightarrow> Inr x | Inl (StorageMediaError m) \<Rightarrow> Inl media_storage_unavailable
     | Inl e \<Rightarrow> Inl (ExternalError (exc_type_name e) (exc_text e)))"

definition new_recording :: "int \<Rightarrow> int \<Rightarrow> string \<Rightarrow> upload_input \<Rightarrow> string \<Rightarrow> datetime \<Rightarrow> recording_asset" where
  "new_recording c task_id storage_key input asset_kind now =
     \<lparr>ra_id = 0, ra_candidate_session_id = c, ra_task_id = task_id, ra_storage_key = storage_key, ra_content_type = ui_content_type input,
      ra_bytes = ui_size_bytes input, ra_asset_kind = asset_kind, ra_duration_seconds = ui_duration_seconds input,
      ra_status = RECORDING_ASSET_STATUS_UPLOADING, ra_deleted_at = None, ra_purged_at = None, ra_retention_expires_at = None,
      ra_purge_reason = None, ra_purge_status = None, ra_consent_version = None, ra_consent_timestamp = None,
      ra_ai_notice_version = None, ra_created_at = now\<rparr>"

record upload_request =
  uq_content_type :: string
  uq_size_bytes :: int
  uq_filename :: "string option"
  uq_asset_kind :: string
  uq_duration_seconds :: "int option"

definition init_handoff_upload ::
    "tz_database \<Rightarrow> (string \<Rightarrow> datetime option) \<Rightarrow> media_settings \<Rightarrow> storage_client \<Rightarrow> (nat \<Rightarrow> datetime) \<Rightarrow> string \<Rightarrow>
     candidate_session \<Rightarrow> int \<Rightarrow> upload_request \<Rightarrow> media_db \<Rightarrow> ((recording_asset \<times> string \<times> int) \<times> media_db) res" where
  "init_handoff_upload tz from_iso cfg client clock opaque cs task_id q db =
     bind_result (load_task_or_404 task_id (md_work db)) (\<lambda>t.
     bind_result (ensure_task_belongs t cs) (\<lambda>_.
     bind_result (ensure_handoff_task (tk_type t)) (\<lambda>_.
     bind_result (require_active_window tz from_iso (wk_app (md_work db)) cs t (clock 0)) (\<lambda>_.
     bind_result (validate_upload_input cfg (uq_content_type q) (uq_size_bytes q) (uq_filename q) (uq_asset_kind q) (uq_duration_seconds q)) (\<lambda>input.
       let kind = py_lower (py_strip (uq_asset_kind q)) in
     bind_result (require (kind \<in> {''recording'', ''supplemental''})
       (ApiError 422 ''Unsupported assetType'' ''invalid_asset_type'' (Some False) [])) (\<lambda>_.
     bind_result (build_recording_storage_key (cs_id cs) (tk_id t) (ui_extension input) opaque) (\<lambda>storage_key.
       let expires_seconds = resolve_signed_url_ttl cfg None in
     bind_result (create_recording_asset (new_recording (cs_id cs) (tk_id t) storage_key input kind (clock 1)) db) (\<lambda>(r, db').
     bind_result (storage_result (sc_upload_url client storage_key (ui_content_type input) (ui_size_bytes input) expires_seconds
       (if kind = ''recording'' then ui_duration_seconds input else None))) (\<lambda>url.
     Inr ((r, url, expires_seconds), db'))))))))))"

text \<open>The task with the company of its trial.\<close>

definition load_task_with_company_or_404 :: "int \<Rightarrow> work_db \<Rightarrow> (task \<times> int) res" where
  "load_task_with_company_or_404 task_id db =
     (case load_task task_id db of
        None \<Rightarrow> Inl task_not_found
      | Some t \<Rightarrow> (case get_trial (tk_trial_id t) (wk_app db) of None \<Rightarrow> Inl task_not_found | Some tr \<Rightarrow> Inr (t, t_company_id tr)))"

definition parse_recording_id_or_422 :: "string \<Rightarrow> int res" where
  "parse_recording_id_or_422 value =
     (case parse_recording_public_id value of Inl (ValueError m) \<Rightarrow> Inl (unprocessable m) | r \<Rightarrow> r)"

definition require_recording_access :: "recording_asset option \<Rightarrow> int \<Rightarrow> int \<Rightarrow> recording_asset res" where
  "require_recording_access recording c task_id =
     (case recording of
        None \<Rightarrow> Inl (HTTPError 404 ''Recording asset not found'')
      | Some r \<Rightarrow> if ra_candidate_session_id r \<noteq> c \<or> ra_task_id r \<noteq> task_id
                  then Inl (HTTPError 403 ''Not authorized for this recording asset'') else Inr r)"

definition load_uploaded_object_metadata :: "storage_client \<Rightarrow> string \<Rightarrow> objects \<Rightarrow> storage_object res" where
  "load_uploaded_object_metadata client storage_key objs =
     bind_result (storage_result (sc_metadata client storage_key objs)) (\<lambda>m.
     case m of None \<Rightarrow> Inl (unprocessable ''Uploaded object not found'') | Some x \<Rightarrow> Inr x)"

definition assert_uploaded_object_matches_expected :: "media_settings \<Rightarrow> recording_asset \<Rightarrow> storage_object \<Rightarrow> unit res" where
  "assert_uploaded_object_matches_expected cfg r x =
     (let max_bytes = ms_max_upload_bytes cfg in
      bind_result (require (so_size_bytes x \<le> max_bytes)
        (request_too_large (''Uploaded object size exceeds max '' @ int_str max_bytes) max_bytes (so_size_bytes x))) (\<lambda>_.
      bind_result (require (so_size_bytes x = ra_bytes r) (unprocessable ''Uploaded object size does not match expected size'')) (\<lambda>_.
      require (normalize_content_type (so_content_type x) = normalize_content_type (ra_content_type r))
        (unprocessable ''Uploaded object content type does not match expected contentType''))))"

definition MAX_HANDOFF_RECORDING_DURATION_SECONDS :: int where
  "MAX_HANDOFF_RECORDING_DURATION_SECONDS = 15 * 60"

definition assert_uploaded_recording_duration_within_limit :: "int option \<Rightarrow> unit res" where
  "assert_uploaded_recording_duration_within_limit duration =
     (case duration of
        None \<Rightarrow> Inl (unprocessable ''Uploaded recording is missing duration metadata'')
      | Some d \<Rightarrow>
          if d \<le> 0 then Inl (unprocessable ''Uploaded recording duration metadata is invalid'')
          else if d > MAX_HANDOFF_RECORDING_DURATION_SECONDS then Inl (unprocessable ''Uploaded recording exceeds the 15 minute limit'')
          else Inr ())"

definition compute_media_retention_expires_at :: "media_settings \<Rightarrow> datetime \<Rightarrow> datetime res" where
  "compute_media_retention_expires_at cfg anchor =
     bind_result (require (0 < ms_retention_days cfg) (ValueError ''MEDIA_RETENTION_DAYS must be > 0'')) (\<lambda>_.
     Inr (anchor + days (ms_retention_days cfg)))"

definition TRANSCRIBE_RECORDING_JOB_TYPE :: string where
  "TRANSCRIBE_RECORDING_JOB_TYPE = ''transcribe_recording''"

definition TRANSCRIBE_RECORDING_MAX_ATTEMPTS :: int where
  "TRANSCRIBE_RECORDING_MAX_ATTEMPTS = 7"

definition transcribe_recording_idempotency_key :: "int \<Rightarrow> string" where
  "transcribe_recording_idempotency_key i = ''transcribe_recording:'' @ int_str i"

definition build_transcribe_recording_payload :: "int \<Rightarrow> int \<Rightarrow> int \<Rightarrow> int \<Rightarrow> obj" where
  "build_transcribe_recording_payload i c task_id company_id =
     [(''recordingId'', JInt i), (''candidateSessionId'', JInt c), (''taskId'', JInt task_id), (''companyId'', JInt company_id)]"

definition ensure_transcription_job :: "recording_asset \<Rightarrow> int \<Rightarrow> datetime \<Rightarrow> work_db \<Rightarrow> work_db res" where
  "ensure_transcription_job r company_id now db =
     bind_result (create_or_get_idempotent id
       \<lparr>sp_job_type = TRANSCRIBE_RECORDING_JOB_TYPE, sp_idempotency_key = transcribe_recording_idempotency_key (ra_id r),
        sp_payload_json = build_transcribe_recording_payload (ra_id r) (ra_candidate_session_id r) (ra_task_id r) company_id,
        sp_candidate_session_id = Some (ra_candidate_session_id r), sp_max_attempts = TRANSCRIBE_RECORDING_MAX_ATTEMPTS,
        sp_correlation_id = Some (''recording:'' @ int_str (ra_id r)), sp_next_run_at = None\<rparr>
       company_id False now (queue (wk_app db))) (\<lambda>(j, q). Inr (db\<lparr>wk_app := (wk_app db)\<lparr>queue := q\<rparr>\<rparr>))"

text \<open>The check of the uploaded object, for a recording that is not yet accepted.\<close>

definition verify_upload :: "media_settings \<Rightarrow> storage_client \<Rightarrow> recording_asset \<Rightarrow> objects \<Rightarrow> unit res" where
  "verify_upload cfg client r objs =
     (if ra_status r \<in> {RECORDING_ASSET_STATUS_UPLOADING, RECORDING_ASSET_STATUS_FAILED}
      then bind_result (load_uploaded_object_metadata client (ra_storage_key r) objs) (\<lambda>x.
           bind_result (assert_uploaded_object_matches_expected cfg r x) (\<lambda>_.
           if ra_asset_kind r = [] \<or> ra_asset_kind r = ''recording''
           then assert_uploaded_recording_duration_within_limit (so_duration_seconds x) else Inr ()))
      else Inr ())"

definition accepted_recording :: "media_session \<Rightarrow> datetime option \<Rightarrow> recording_asset \<Rightarrow> recording_asset" where
  "accepted_recording m expires r =
     (copy_candidate_consent_if_missing m r)
       \<lparr>ra_status := (if ra_status r \<in> {RECORDING_ASSET_STATUS_UPLOADING, RECORDING_ASSET_STATUS_FAILED}
          then RECORDING_ASSET_STATUS_UPLOADED else ra_status r),
        ra_retention_expires_at := (case ra_retention_expires_at r of None \<Rightarrow> expires | Some t \<Rightarrow> Some t)\<rparr>"

text \<open>What the completion of a recording (not of a supplement) adds.\<close>

definition attach_recording :: "recording_asset \<Rightarrow> int \<Rightarrow> (nat \<Rightarrow> datetime) \<Rightarrow> media_db \<Rightarrow> media_db res" where
  "attach_recording r company_id clock db =
     (let db1 = get_or_create_transcript (ra_id r) ''pending'' (clock 2) db;
          work = snd (upsert_handoff_submission (ra_candidate_session_id r) (ra_task_id r) (ra_id r) (clock 3) (md_work db1))
      in bind_result (ensure_transcription_job r company_id (clock 4) work) (\<lambda>work'. Inr (db1\<lparr>md_work := work'\<rparr>)))"

definition complete_handoff_upload ::
    "tz_database \<Rightarrow> (string \<Rightarrow> datetime option) \<Rightarrow> media_settings \<Rightarrow> storage_client \<Rightarrow> (nat \<Rightarrow> datetime) \<Rightarrow>
     candidate_session \<Rightarrow> int \<Rightarrow> string \<Rightarrow> media_db \<Rightarrow> (recording_asset \<times> media_db) res" where
  "complete_handoff_upload tz from_iso cfg client clock cs task_id recording_id_value db =
     bind_result (load_task_with_company_or_404 task_id (md_work db)) (\<lambda>(t, company_id).
     bind_result (ensure_task_belongs t cs) (\<lambda>_.
     bind_result (ensure_handoff_task (tk_type t)) (\<lambda>_.
     bind_result (require_active_window tz from_iso (wk_app (md_work db)) cs t (clock 0)) (\<lambda>_.
     bind_result (require_media_consent (media_session_of (cs_id cs) db)) (\<lambda>_.
     bind_result (parse_recording_id_or_422 recording_id_value) (\<lambda>recording_id.
     bind_result (require_recording_access (get_recording recording_id db) (cs_id cs) (tk_id t)) (\<lambda>r.
     bind_result (verify_upload cfg client r (md_objects db)) (\<lambda>_.
     bind_result (if ra_retention_expires_at r = None
                  then bind_result (compute_media_retention_expires_at cfg (clock 1)) (\<lambda>e. Inr (Some e)) else Inr None) (\<lambda>expires.
       let kind = (if ra_asset_kind r = [] then ''recording'' else ra_asset_kind r);
           r' = accepted_recording (media_session_of (cs_id cs) db) expires r;
           db1 = update_recording (ra_id r) (\<lambda>_. r') db
       in if kind = ''recording'' then bind_result (attach_recording r' company_id clock db1) (\<lambda>db2. Inr (r', db2))
          else if kind = ''supplemental'' then Inr (r', db1)
          else Inl (ExternalError ''AssertionError'' (''Unsupported recording asset kind: '' @ kind)))))))))))"

definition get_handoff_status :: "candidate_session \<Rightarrow> int \<Rightarrow> media_db \<Rightarrow> (recording_asset option \<times> transcript option) res" where
  "get_handoff_status cs task_id db =
     bind_result (load_task_or_404 task_id (md_work db)) (\<lambda>t.
     bind_result (ensure_task_belongs t cs) (\<lambda>_.
     bind_result (ensure_handoff_task (tk_type t)) (\<lambda>_.
       let recording = get_latest_for_task_session (cs_id cs) (tk_id t) (Some ''recording'') db
       in Inr (recording, case recording of None \<Rightarrow> None | Some r \<Rightarrow> get_transcript_by_recording_id (ra_id r) db))))"

section \<open>Deletion and purge\<close>

definition delete_recording_asset :: "media_settings \<Rightarrow> int \<Rightarrow> candidate_session \<Rightarrow> datetime \<Rightarrow> media_db \<Rightarrow> (recording_asset \<times> media_db) res" where
  "delete_recording_asset cfg i cs now db =
     bind_result (require (ms_delete_enabled cfg) (HTTPError 403 ''Media deletion is disabled'')) (\<lambda>_.
     case get_recording i db of
       None \<Rightarrow> Inl (HTTPError 404 ''Recording asset not found'')
     | Some r \<Rightarrow>
         bind_result (require (ra_candidate_session_id r = cs_id cs) (HTTPError 403 ''Not authorized for this recording asset'')) (\<lambda>_.
         Inr (mark_recording_deleted now r,
              update_transcript i (mark_transcript_deleted now) (update_recording i (mark_recording_deleted now) db))))"

definition safe_error_summary :: "external_error \<Rightarrow> string" where
  "safe_error_summary e = take 255 (py_join '' '' (py_split (exc_text e)))"

definition candidate_context :: "int \<Rightarrow> media_db \<Rightarrow> int option \<times> int option" where
  "candidate_context c db =
     (case get_session c (wk_app (md_work db)) of None \<Rightarrow> (None, None)
      | Some cs \<Rightarrow> (Some (cs_trial_id cs), mc_candidate_user_id (media_session_of c db)))"

record purge_actor =
  pa_reason :: string
  pa_actor_type :: string
  pa_actor_id :: "string option"

definition write_audit :: "recording_asset \<Rightarrow> purge_actor \<Rightarrow> string \<Rightarrow> string option \<Rightarrow> media_db \<Rightarrow> media_db" where
  "write_audit r actor outcome error_summary db =
     (case candidate_context (ra_candidate_session_id r) db of (trial_id, user_id) \<Rightarrow>
        create_purge_audit \<lparr>mp_media_id = ra_id r, mp_candidate_session_id = ra_candidate_session_id r, mp_trial_id = trial_id,
          mp_candidate_user_id = user_id, mp_actor_type = pa_actor_type actor, mp_actor_id = pa_actor_id actor,
          mp_purge_reason = pa_reason actor, mp_outcome = outcome, mp_error_summary = error_summary\<rparr> db)"

definition failed_purge :: "recording_asset \<Rightarrow> purge_actor \<Rightarrow> external_error \<Rightarrow> media_db \<Rightarrow> media_db" where
  "failed_purge r actor e db =
     write_audit r actor ''failed''
       (Some (case e of StorageMediaError m \<Rightarrow> safe_error_summary e | _ \<Rightarrow> exc_type_name e))
       (update_recording (ra_id r) (\<lambda>x. x\<lparr>ra_purge_reason := Some (pa_reason actor), ra_purge_status := Some ''failed''\<rparr>) db)"

definition purged_row :: "purge_actor \<Rightarrow> datetime \<Rightarrow> recording_asset \<Rightarrow> recording_asset" where
  "purged_row actor now r =
     mark_recording_purged (pa_reason actor) now
       (if pa_reason actor = ''retention_expired'' \<and> ra_retention_expires_at r = None then r\<lparr>ra_retention_expires_at := Some now\<rparr> else r)"

text \<open>The pair says whether the recording was purged and whether it was skipped.\<close>

definition purge_recording :: "storage_client \<Rightarrow> purge_actor \<Rightarrow> datetime \<Rightarrow> int \<Rightarrow> media_db \<Rightarrow> (bool \<times> bool) \<times> media_db" where
  "purge_recording client actor now i db =
     (case get_recording i db of
        None \<Rightarrow> ((False, True), db)
      | Some r \<Rightarrow>
          if ra_purged_at r \<noteq> None \<or> ra_status r = RECORDING_ASSET_STATUS_PURGED
          then ((False, True), write_audit r actor ''skipped'' None db)
          else (case sc_delete client (ra_storage_key r) (md_objects db) of
                  (objs, Inl e) \<Rightarrow> ((False, False), failed_purge r actor e (db\<lparr>md_objects := objs\<rparr>))
                | (objs, Inr _) \<Rightarrow>
                    ((True, False), write_audit (purged_row actor now r) actor ''success'' None
                       (update_recording i (purged_row actor now) (redact_by_recording_id i now (db\<lparr>md_objects := objs\<rparr>))))))"

record purge_result =
  pr_scanned_count :: int
  pr_purged_count :: int
  pr_skipped_count :: int
  pr_failed_count :: int
  pr_purged_recording_ids :: "int list"

text \<open>
  The loop of both purges: the ids purged so far, the skipped and the failed ones. A failed
  deletion rolls the session back, which expires every loaded row; the failed recording is
  loaded again, the others are not. So the loop's next read of \<open>candidate.id\<close>, outside a query
  of the asynchronous session, raises SQLAlchemy's \<open>MissingGreenlet\<close> and ends the run, unless
  the recording that failed was the last one.
\<close>

fun purge_each ::
    "storage_client \<Rightarrow> purge_actor \<Rightarrow> datetime \<Rightarrow> int list \<Rightarrow> int list \<times> int \<times> int \<Rightarrow>
     media_db \<Rightarrow> media_db \<times> (int list \<times> int \<times> int) res" where
  "purge_each client actor now [] acc db = (db, Inr acc)"
| "purge_each client actor now (i # is) (ids, skipped, failed) db =
     (case purge_recording client actor now i db of
        ((purged, skip), db') \<Rightarrow>
          if \<not> purged \<and> \<not> skip \<and> is \<noteq> [] then (db', Inl missing_greenlet)
          else purge_each client actor now is
            (if purged then (ids @ [i], skipped, failed) else if skip then (ids, skipped + 1, failed) else (ids, skipped, failed + 1)) db')"

definition purge_all :: "storage_client \<Rightarrow> purge_actor \<Rightarrow> datetime \<Rightarrow> recording_asset list \<Rightarrow> (media_db, purge_result) op" where
  "purge_all client actor now recordings =
     bind_op (purge_each client actor now (map ra_id recordings) ([], 0, 0)) (\<lambda>(ids, skipped, failed).
       lift_op (Inr \<lparr>pr_scanned_count = py_len recordings, pr_purged_count = py_len ids, pr_skipped_count = skipped,
         pr_failed_count = failed, pr_purged_recording_ids = ids\<rparr>))"

definition purge_expired_media_assets ::
    "media_settings \<Rightarrow> storage_client \<Rightarrow> int option \<Rightarrow> int \<Rightarrow> datetime \<Rightarrow> string \<Rightarrow> string option \<Rightarrow> (media_db, purge_result) op" where
  "purge_expired_media_assets cfg client retention_days batch_limit now actor_type actor_id db =
     purge_all client \<lparr>pa_reason = ''retention_expired'', pa_actor_type = actor_type, pa_actor_id = actor_id\<rparr> now
       (get_expired_for_retention (case retention_days of None \<Rightarrow> ms_retention_days cfg | Some d \<Rightarrow> if d = 0 then ms_retention_days cfg else d)
         now batch_limit db) db"

definition purge_candidate_session_media_for_data_request ::
    "storage_client \<Rightarrow> int \<Rightarrow> int \<Rightarrow> datetime \<Rightarrow> string \<Rightarrow> string option \<Rightarrow> (media_db, purge_result) op" where
  "purge_candidate_session_media_for_data_request client c batch_limit now actor_type actor_id db =
     purge_all client \<lparr>pa_reason = ''data_request'', pa_actor_type = actor_type, pa_actor_id = actor_id\<rparr> now
       (list_for_candidate_session c False batch_limit db) db"

text \<open>The worker's handler of the retention job.\<close>

definition handle_media_retention_purge :: "media_settings \<Rightarrow> storage_client \<Rightarrow> datetime \<Rightarrow> obj \<Rightarrow> (media_db, obj) op" where
  "handle_media_retention_purge cfg client now payload =
     bind_op (lift_op (parse_positive_int (dict_get ''retentionDays'' payload))) (\<lambda>retention_days.
     bind_op (lift_op (parse_positive_int (dict_get ''batchLimit'' payload))) (\<lambda>limit.
     bind_op (purge_expired_media_assets cfg client retention_days (case limit of None \<Rightarrow> 200 | Some l \<Rightarrow> l) now ''system'' None) (\<lambda>res.
       lift_op (Inr [(''scannedCount'', JInt (pr_scanned_count res)), (''purgedCount'', JInt (pr_purged_count res)),
         (''skippedCount'', JInt (pr_skipped_count res)), (''failedCount'', JInt (pr_failed_count res))]))))"

definition media_retention_purge_idempotency_key :: string where
  "media_retention_purge_idempotency_key = ''media_retention_purge:global''"

definition build_media_retention_purge_payload :: "media_settings \<Rightarrow> int \<Rightarrow> int option \<Rightarrow> obj" where
  "build_media_retention_purge_payload cfg batch_limit retention_days =
     [(''batchLimit'', JInt (max 1 batch_limit)),
      (''retentionDays'', JInt (case retention_days of None \<Rightarrow> ms_retention_days cfg | Some d \<Rightarrow> d))]"

end
