(* ===== verification/Transcription.thy ===== *)
theory Transcription
  imports Media
begin

text \<open>
  The transcription job of the worker: the four states it writes, the text it takes from a
  provider's answer, and what it does with an exception. Between its transactions others may
  run; they are an argument, one for each gap.
\<close>

section \<open>Provider answers\<close>

definition coerce_segment_time :: "(string \<Rightarrow> int) \<Rightarrow> json \<Rightarrow> int res" where
  "coerce_segment_time float_int value =
     (case value of
        JInt i \<Rightarrow> Inr (max 0 i)
      | JFloat f \<Rightarrow> Inr (max 0 (float_int f))
      | JStr s \<Rightarrow> if py_isdigit (py_strip s) then bind_result (py_int (py_strip s)) (\<lambda>i. Inr (max 0 i)) else Inr 0
      | _ \<Rightarrow> Inr 0)"

definition normalize_segment :: "(string \<Rightarrow> int) \<Rightarrow> json \<Rightarrow> obj list res" where
  "normalize_segment float_int item =
     (case item of
        JObj d \<Rightarrow>
          (case dict_get ''text'' d of
             JStr s \<Rightarrow>
               bind_result (coerce_segment_time float_int (dict_get ''startMs'' d)) (\<lambda>start_ms.
               bind_result (coerce_segment_time float_int (dict_get ''endMs'' d)) (\<lambda>end_ms.
               Inr [[(''startMs'', JInt start_ms), (''endMs'', JInt end_ms), (''text'', JStr (py_strip s))]]))
           | _ \<Rightarrow> Inr [])
      | _ \<Rightarrow> Inr [])"

definition normalize_segments :: "(string \<Rightarrow> int) \<Rightarrow> json \<Rightarrow> obj list res" where
  "normalize_segments float_int raw =
     (case raw of JList items \<Rightarrow> bind_result (map_result (normalize_segment float_int) items) (\<lambda>parts. Inr (concat parts)) | _ \<Rightarrow> Inr [])"

definition resolve_transcript_text :: "transcription_result \<Rightarrow> string" where
  "resolve_transcript_text result =
     (if py_strip (tn_text result) \<noteq> [] then py_strip (tn_text result)
      else (case tn_segments result of
              JList segments \<Rightarrow>
                py_strip (py_join '' '' (filter (\<lambda>s. s \<noteq> []) (map (\<lambda>v. case v of JObj d \<Rightarrow> text_of (dict_get ''text'' d) | _ \<Rightarrow> []) segments)))
            | _ \<Rightarrow> []))"

definition RETRYABLE_TRANSCRIPTION_ERROR_MARKERS :: "string list" where
  "RETRYABLE_TRANSCRIPTION_ERROR_MARKERS =
     [''openai_transcription_failed:ratelimiterror'', ''openai_transcription_failed:apitimeouterror'',
      ''openai_transcription_failed:apiconnectionerror'', ''openai_transcription_failed:internalservererror'',
      ''openai_transcription_failed:serviceunavailableerror'', ''openai_transcription_failed:overloadederror'',
      ''rate limit'', ''too many requests'', ''429'']"

definition is_retryable_transcription_error :: "string \<Rightarrow> bool" where
  "is_retryable_transcription_error text \<longleftrightarrow>
     (let normalized = py_lower (py_strip text)
      in normalized \<noteq> [] \<and> (\<exists>marker \<in> set RETRYABLE_TRANSCRIPTION_ERROR_MARKERS. contains marker normalized))"

definition sanitize_transcription_error :: "string \<Rightarrow> string" where
  "sanitize_transcription_error text = take 512 (py_join '' '' (py_split text))"

section \<open>The four states\<close>

definition mark_processing :: "int \<Rightarrow> datetime \<Rightarrow> media_db \<Rightarrow> (string \<times> string) option \<times> media_db" where
  "mark_processing i now db =
     (case get_recording i db of
        None \<Rightarrow> (None, db)
      | Some r \<Rightarrow>
          if is_deleted_or_purged r then (Some (ra_status r, ''pending''), db)
          else (case get_transcript i db of
                  Some t \<Rightarrow>
                    if ra_status r = RECORDING_ASSET_STATUS_READY \<and> tr_status t = ''ready'' then (Some (ra_status r, tr_status t), db)
                    else (Some (RECORDING_ASSET_STATUS_PROCESSING, ''processing''),
                          update_transcript i (\<lambda>t. t\<lparr>tr_status := ''processing'', tr_last_error := None\<rparr>)
                            (update_recording i (\<lambda>r. r\<lparr>ra_status := RECORDING_ASSET_STATUS_PROCESSING\<rparr>) db))
                | None \<Rightarrow>
                    (Some (RECORDING_ASSET_STATUS_PROCESSING, ''processing''),
                     update_transcript i (\<lambda>t. t\<lparr>tr_status := ''processing'', tr_last_error := None\<rparr>)
                       (update_recording i (\<lambda>r. r\<lparr>ra_status := RECORDING_ASSET_STATUS_PROCESSING\<rparr>) (create_transcript i ''pending'' now db)))))"

text \<open>The other three write the recording and its transcript, unless the recording is gone.\<close>

definition mark_media :: "string \<Rightarrow> (transcript \<Rightarrow> transcript) \<Rightarrow> int \<Rightarrow> datetime \<Rightarrow> media_db \<Rightarrow> media_db" where
  "mark_media status f i now db =
     (case get_recording i db of
        None \<Rightarrow> db
      | Some r \<Rightarrow>
          if is_deleted_or_purged r then db
          else update_transcript i f (update_recording i (\<lambda>r. r\<lparr>ra_status := status\<rparr>) (get_or_create_transcript i ''pending'' now db)))"

definition mark_failure :: "string \<Rightarrow> int \<Rightarrow> datetime \<Rightarrow> media_db \<Rightarrow> media_db" where
  "mark_failure reason = mark_media RECORDING_ASSET_STATUS_FAILED
     (\<lambda>t. t\<lparr>tr_status := ''failed'', tr_text := None, tr_segments_json := None, tr_model_name := None, tr_last_error := Some reason\<rparr>)"

definition mark_retrying :: "string \<Rightarrow> int \<Rightarrow> datetime \<Rightarrow> media_db \<Rightarrow> media_db" where
  "mark_retrying reason = mark_media RECORDING_ASSET_STATUS_PROCESSING
     (\<lambda>t. t\<lparr>tr_status := ''processing'', tr_text := None, tr_segments_json := None, tr_model_name := None, tr_last_error := Some reason\<rparr>)"

definition mark_ready :: "string \<Rightarrow> obj list \<Rightarrow> string option \<Rightarrow> int \<Rightarrow> datetime \<Rightarrow> media_db \<Rightarrow> media_db" where
  "mark_ready transcript_text segments model_name = mark_media RECORDING_ASSET_STATUS_READY
     (\<lambda>t. t\<lparr>tr_status := ''ready'', tr_text := Some transcript_text, tr_segments_json := Some segments, tr_model_name := model_name,
            tr_last_error := None\<rparr>)"

section \<open>The handler\<close>

definition transcription_job_has_retry_headroom :: "job option \<Rightarrow> bool" where
  "transcription_job_has_retry_headroom j = (case j of None \<Rightarrow> False | Some j \<Rightarrow> j_attempt j + 1 < j_max_attempts j)"

text \<open>The answer of the providers for a recording: the text, the segments and the model, or an exception.\<close>

definition transcribe :: "media_settings \<Rightarrow> storage_client \<Rightarrow> transcriber \<Rightarrow> (string \<Rightarrow> int) \<Rightarrow> recording_asset \<Rightarrow>
    (string \<times> obj list \<times> string option) external" where
  "transcribe cfg client transcriber float_int r =
     bind_result (sc_download_url client (ra_storage_key r) (resolve_signed_url_ttl cfg (Some 300))) (\<lambda>url.
     bind_result (transcriber url (ra_content_type r)) (\<lambda>result.
     if resolve_transcript_text result = [] then Inl (TranscriptionProviderError ''provider returned empty transcript text'')
     else (case normalize_segments float_int (tn_segments result) of
             Inl (ValueError m) \<Rightarrow> Inl (OtherError ''ValueError'' m)
           | Inl e \<Rightarrow> Inl (OtherError ''Exception'' [])
           | Inr segments \<Rightarrow> Inr (resolve_transcript_text result, segments, tn_model_name result))))"

definition transcription_failed :: "int \<Rightarrow> int option \<Rightarrow> external_error \<Rightarrow> datetime \<Rightarrow> (media_db, obj) op" where
  "transcription_failed i company_id e now db =
     (let reason = sanitize_transcription_error (exc_text e);
          retrying_job = (case company_id of None \<Rightarrow> None
            | Some c \<Rightarrow> load_idempotent_job c TRANSCRIBE_RECORDING_JOB_TYPE (transcribe_recording_idempotency_key i) (queue (wk_app (md_work db))))
      in ((if is_retryable_transcription_error (exc_text e) \<and> transcription_job_has_retry_headroom retrying_job
           then mark_retrying reason i now db else mark_failure reason i now db),
          Inl (RuntimeError (''transcription_failed: '' @ reason))))"

definition response :: "string \<Rightarrow> int \<Rightarrow> obj" where
  "response status i = [(''status'', JStr status), (''recordingId'', JInt i)]"

definition handle_transcribe_recording ::
    "media_settings \<Rightarrow> storage_client \<Rightarrow> transcriber \<Rightarrow> (string \<Rightarrow> int) \<Rightarrow> (nat \<Rightarrow> media_db \<Rightarrow> media_db) \<Rightarrow> (nat \<Rightarrow> datetime) \<Rightarrow> int \<Rightarrow> obj \<Rightarrow>
     (media_db, obj) op" where
  "handle_transcribe_recording cfg client transcriber float_int other clock duration_ms payload =
     bind_op (lift_op (parse_positive_int (dict_get ''recordingId'' payload))) (\<lambda>recording_id.
     bind_op (lift_op (parse_positive_int (dict_get ''companyId'' payload))) (\<lambda>company_id db.
     case recording_id of
       None \<Rightarrow> (db, Inr [(''status'', JStr ''skipped_invalid_payload''), (''recordingId'', dict_get ''recordingId'' payload)])
     | Some i \<Rightarrow>
         (case mark_processing i (clock 0) db of
            (None, db1) \<Rightarrow> (db1, Inr (response ''recording_not_found'' i))
          | (Some (recording_status, transcript_status), db1) \<Rightarrow>
              if recording_status \<in> {RECORDING_ASSET_STATUS_DELETED, RECORDING_ASSET_STATUS_PURGED}
              then (db1, Inr (response ''recording_unavailable'' i))
              else if recording_status = RECORDING_ASSET_STATUS_READY \<and> transcript_status = ''ready''
              then (db1, Inr (response ''already_ready'' i))
              else let db2 = other 0 db1 in
                (case get_recording i db2 of
                   None \<Rightarrow> (db2, Inr (response ''recording_not_found'' i))
                 | Some r \<Rightarrow>
                     if is_deleted_or_purged r then (db2, Inr (response ''recording_unavailable'' i))
                     else (case transcribe cfg client transcriber float_int r of
                             Inl e \<Rightarrow> transcription_failed i company_id e (clock 2) (other 1 db2)
                           | Inr (transcript_text, segments, model_name) \<Rightarrow>
                               (mark_ready transcript_text segments model_name i (clock 1) (other 1 db2),
                                Inr (response ''ready'' i @ [(''durationMs'', JInt duration_ms)])))))))"

end
