(* ===== verification/MediaPrivacy.thy ===== *)
theory MediaPrivacy
  imports Transcription
begin

text \<open>
  What the media services keep: the invariant of the media tables and what no transaction takes
  back from a recording, for every upload, deletion, purge and transcription.
\<close>

section \<open>Lookups after row operations\<close>

lemma find_update:
  assumes "\<And>r. key (f r) = key r"
  shows "find_row (\<lambda>r. key r = j) (update_rows (\<lambda>r. key r = i) f rs) =
    (if j = i then map_option f (find_row (\<lambda>r. key r = i) rs) else find_row (\<lambda>r. key r = j) rs)"
  by (induction rs) (auto simp: update_rows_def find_row_Cons assms)

lemma get_recording_update [simp]:
  assumes "\<And>r. ra_id (f r) = ra_id r"
  shows "get_recording j (update_recording i f db) = (if j = i then map_option f (get_recording i db) else get_recording j db)"
  unfolding get_recording_def update_recording_def using find_update[of ra_id f j i] assms by simp

lemma get_transcript_update [simp]:
  assumes "\<And>t. tr_recording_id (f t) = tr_recording_id t"
  shows "get_transcript j (update_transcript i f db) = (if j = i then map_option f (get_transcript i db) else get_transcript j db)"
  unfolding get_transcript_def update_transcript_def using find_update[of tr_recording_id f j i] assms by simp

lemma other_table [simp]:
  "get_transcript j (update_recording i f db) = get_transcript j db"
  "get_recording j (update_transcript i g db) = get_recording j db"
  "get_recording j (get_or_create_transcript i s now db) = get_recording j db"
  "get_recording j (db\<lparr>md_work := w\<rparr>) = get_recording j db" "get_transcript j (db\<lparr>md_work := w\<rparr>) = get_transcript j db"
  "get_recording j (db\<lparr>md_objects := x\<rparr>) = get_recording j db" "get_transcript j (db\<lparr>md_objects := x\<rparr>) = get_transcript j db"
  "get_recording j (write_audit r actor oc e db) = get_recording j db" "get_transcript j (write_audit r actor oc e db) = get_transcript j db"
  "get_recording j (put_media_session m db) = get_recording j db" "get_transcript j (put_media_session m db) = get_transcript j db"
  by (simp_all add: get_recording_def get_transcript_def update_recording_def update_transcript_def get_or_create_transcript_def
      create_transcript_def write_audit_def create_purge_audit_def put_media_session_def split: prod.splits)

definition placeholder :: "int \<Rightarrow> int \<Rightarrow> string \<Rightarrow> datetime \<Rightarrow> transcript" where
  "placeholder t i status now = \<lparr>tr_id = t, tr_recording_id = i, tr_text = None, tr_segments_json = None, tr_model_name = None,
     tr_last_error = None, tr_status = status, tr_deleted_at = None, tr_created_at = now\<rparr>"

lemma get_transcript_create:
  "get_transcript j (get_or_create_transcript i s now db) =
     (if j = i then Some (case get_transcript i db of None \<Rightarrow> placeholder (md_next_transcript_id db) i s now | Some t \<Rightarrow> t)
      else get_transcript j db)"
  by (auto simp: get_transcript_def get_or_create_transcript_def create_transcript_def placeholder_def find_row_append
      find_row_Cons split: option.splits)

lemma get_recordingD: "get_recording i db = Some r \<Longrightarrow> r \<in> set (md_recordings db) \<and> ra_id r = i"
  by (auto simp: get_recording_def dest: find_row_SomeD)

lemma get_transcriptD: "get_transcript i db = Some t \<Longrightarrow> t \<in> set (md_transcripts db) \<and> tr_recording_id t = i"
  by (auto simp: get_transcript_def dest: find_row_SomeD)

section \<open>The invariant\<close>

text \<open>The keys of the tables.\<close>

definition media_keys_ok :: "media_db \<Rightarrow> bool" where
  "media_keys_ok db \<longleftrightarrow>
     distinct (map ra_id (md_recordings db)) \<and> (\<forall>r \<in> set (md_recordings db). ra_id r < md_next_recording_id db) \<and>
     distinct (map ra_storage_key (md_recordings db)) \<and>
     (\<forall>r \<in> set (md_recordings db). ensure_safe_storage_key (ra_storage_key r) = Inr (ra_storage_key r)) \<and>
     distinct (map tr_recording_id (md_transcripts db)) \<and>
     tr_recording_id ` set (md_transcripts db) \<subseteq> ra_id ` set (md_recordings db)"

text \<open>One recording and its transcript.\<close>

definition recording_ok :: "recording_asset \<Rightarrow> bool" where
  "recording_ok r \<longleftrightarrow> ra_status r \<in> set RECORDING_ASSET_STATUSES \<and>
     (ra_deleted_at r \<noteq> None \<longleftrightarrow> ra_status r \<in> {RECORDING_ASSET_STATUS_DELETED, RECORDING_ASSET_STATUS_PURGED}) \<and>
     (ra_purged_at r \<noteq> None \<longleftrightarrow> ra_status r = RECORDING_ASSET_STATUS_PURGED)"

definition has_content :: "transcript option \<Rightarrow> bool" where
  "has_content t = (case t of None \<Rightarrow> False | Some t \<Rightarrow> tr_text t \<noteq> None \<or> tr_segments_json t \<noteq> None)"

definition media_pair_ok :: "recording_asset \<Rightarrow> transcript option \<Rightarrow> bool" where
  "media_pair_ok r t \<longleftrightarrow> recording_ok r \<and> (\<forall>x \<in> set_option t. tr_status x \<in> set TRANSCRIPT_STATUSES) \<and>
     (is_deleted_or_purged r \<longrightarrow> \<not> has_content t) \<and>
     (ra_status r = RECORDING_ASSET_STATUS_PURGED \<longrightarrow> (\<forall>x \<in> set_option t. tr_last_error x = None)) \<and>
     (ra_status r = RECORDING_ASSET_STATUS_READY \<longrightarrow>
        (\<exists>x s. t = Some x \<and> tr_status x = ''ready'' \<and> tr_text x = Some s \<and> s \<noteq> []))"

definition media_wf :: "media_db \<Rightarrow> bool" where
  "media_wf db \<longleftrightarrow> media_keys_ok db \<and> (\<forall>i r. get_recording i db = Some r \<longrightarrow> media_pair_ok r (get_transcript i db))"

text \<open>What stays of a recording: its identity, its deletion and its purge.\<close>

definition recording_kept :: "recording_asset \<Rightarrow> recording_asset \<Rightarrow> bool" where
  "recording_kept r r' \<longleftrightarrow> ra_id r' = ra_id r \<and> ra_candidate_session_id r' = ra_candidate_session_id r \<and> ra_task_id r' = ra_task_id r \<and>
     ra_storage_key r' = ra_storage_key r \<and> (ra_deleted_at r \<noteq> None \<longrightarrow> ra_deleted_at r' = ra_deleted_at r) \<and>
     (ra_purged_at r \<noteq> None \<longrightarrow> ra_purged_at r' = ra_purged_at r \<and> ra_purge_reason r' = ra_purge_reason r)"

definition media_kept :: "media_db \<Rightarrow> media_db \<Rightarrow> bool" where
  "media_kept db db' \<longleftrightarrow> (\<forall>i r. get_recording i db = Some r \<longrightarrow> (\<exists>r'. get_recording i db' = Some r' \<and> recording_kept r r'))"

lemma recording_kept_refl [simp]: "recording_kept r r"
  by (simp add: recording_kept_def)

lemma media_kept_refl [simp]: "media_kept db db"
  by (auto simp: media_kept_def)

lemma recording_kept_trans: "recording_kept a b \<Longrightarrow> recording_kept b c \<Longrightarrow> recording_kept a c"
  by (auto simp: recording_kept_def)

lemma media_kept_trans: "media_kept a b \<Longrightarrow> media_kept b c \<Longrightarrow> media_kept a c"
  unfolding media_kept_def using recording_kept_trans by meson

definition media_step_ok :: "media_db \<Rightarrow> media_db \<Rightarrow> bool" where
  "media_step_ok db db' \<longleftrightarrow> (media_wf db \<longrightarrow> media_wf db' \<and> media_kept db db')"

lemma step_ok_refl [simp]: "media_step_ok db db"
  by (simp add: media_step_ok_def)

lemma step_ok_trans: "media_step_ok a b \<Longrightarrow> media_step_ok b c \<Longrightarrow> media_step_ok a c"
  unfolding media_step_ok_def using media_kept_trans by blast

text \<open>A transaction on one recording: its new row, its new transcript, nothing else.\<close>

lemma media_step_okI:
  assumes keys: "media_wf db \<Longrightarrow> media_keys_ok db'"
    and others: "\<And>j. j \<noteq> i \<Longrightarrow> get_recording j db' = get_recording j db \<and> get_transcript j db' = get_transcript j db"
    and here: "\<And>r. media_wf db \<Longrightarrow> get_recording i db = Some r \<Longrightarrow> media_pair_ok r (get_transcript i db) \<Longrightarrow>
      \<exists>r'. get_recording i db' = Some r' \<and> recording_kept r r' \<and> media_pair_ok r' (get_transcript i db')"
    and there: "get_recording i db = None \<Longrightarrow> get_recording i db' = None"
  shows "media_step_ok db db'"
  unfolding media_step_ok_def
proof
  assume wf: "media_wf db"
  have pair: "media_pair_ok r (get_transcript j db)" if "get_recording j db = Some r" for j r using wf that by (simp add: media_wf_def)
  have "\<exists>r'. get_recording j db' = Some r' \<and> recording_kept r r'" if "get_recording j db = Some r" for j r
    using others[of j] here[OF wf _ pair] that by (cases "j = i") auto
  moreover have "media_pair_ok r' (get_transcript j db')" if "get_recording j db' = Some r'" for j r'
  proof (cases "j = i")
    case True
    with that there obtain r where "get_recording i db = Some r" by (cases "get_recording i db") auto
    with here[OF wf this pair[OF this]] that True show ?thesis by auto
  next
    case False
    with others[of j] pair that show ?thesis by simp
  qed
  ultimately show "media_wf db' \<and> media_kept db db'" using keys[OF wf] by (auto simp: media_wf_def media_kept_def)
qed

text \<open>Operations that leave both tables alone.\<close>

lemma media_step_ok_same:
  "md_recordings db' = md_recordings db \<Longrightarrow> md_next_recording_id db' = md_next_recording_id db \<Longrightarrow>
   md_transcripts db' = md_transcripts db \<Longrightarrow> media_step_ok db db'"
  by (simp add: media_step_ok_def media_wf_def media_keys_ok_def media_kept_def get_recording_def get_transcript_def)

section \<open>The keys under row operations\<close>

lemma update_rows_keys: "(\<And>r. key (f r) = key r) \<Longrightarrow> map key (update_rows P f rs) = map key rs"
  by (simp add: update_rows_def)

lemma keys_update_recording:
  assumes "media_keys_ok db" "\<And>r. ra_id (f r) = ra_id r" "\<And>r. ra_storage_key (f r) = ra_storage_key r"
  shows "media_keys_ok (update_recording i f db)"
proof -
  have ids: "map ra_id (md_recordings (update_recording i f db)) = map ra_id (md_recordings db)"
    and ks: "map ra_storage_key (md_recordings (update_recording i f db)) = map ra_storage_key (md_recordings db)"
    using assms(2,3) by (simp_all add: update_recording_def update_rows_keys)
  have "\<forall>r \<in> set (md_recordings (update_recording i f db)). ra_id r \<in> ra_id ` set (md_recordings db) \<and> ra_storage_key r \<in> ra_storage_key ` set (md_recordings db)"
    using ids ks by (metis image_eqI image_set)
  moreover have "ra_id ` set (md_recordings (update_recording i f db)) = ra_id ` set (md_recordings db)" using ids by (metis image_set)
  moreover have "md_transcripts (update_recording i f db) = md_transcripts db" "md_next_recording_id (update_recording i f db) = md_next_recording_id db"
    by (simp_all add: update_recording_def)
  ultimately show ?thesis using assms(1) ids ks unfolding media_keys_ok_def by auto
qed

lemma keys_update_transcript:
  assumes "media_keys_ok db" "\<And>t. tr_recording_id (f t) = tr_recording_id t"
  shows "media_keys_ok (update_transcript i f db)"
proof -
  have "map tr_recording_id (md_transcripts (update_transcript i f db)) = map tr_recording_id (md_transcripts db)"
    using assms(2) by (simp add: update_transcript_def update_rows_keys)
  moreover from this have "tr_recording_id ` set (md_transcripts (update_transcript i f db)) = tr_recording_id ` set (md_transcripts db)"
    by (metis image_set)
  ultimately show ?thesis using assms(1) by (simp add: media_keys_ok_def update_transcript_def)
qed

lemma keys_create_transcript:
  assumes "media_keys_ok db" "get_recording i db \<noteq> None"
  shows "media_keys_ok (get_or_create_transcript i s now db)"
proof (cases "get_transcript i db")
  case None
  from assms(2) have "i \<in> ra_id ` set (md_recordings db)" by (auto dest: get_recordingD)
  moreover from None have "i \<notin> tr_recording_id ` set (md_transcripts db)" by (auto simp: get_transcript_def find_row_None_iff)
  ultimately show ?thesis using assms(1) None by (auto simp: media_keys_ok_def get_or_create_transcript_def create_transcript_def)
next
  case (Some t)
  with assms(1) show ?thesis by (simp add: get_or_create_transcript_def)
qed

lemma keys_same:
  "md_recordings db' = md_recordings db \<Longrightarrow> md_next_recording_id db' = md_next_recording_id db \<Longrightarrow>
   md_transcripts db' = md_transcripts db \<Longrightarrow> media_keys_ok db' = media_keys_ok db"
  by (simp add: media_keys_ok_def)

lemma keys_write_audit [simp]: "media_keys_ok (write_audit r actor oc e db) = media_keys_ok db"
  by (rule keys_same) (simp_all add: write_audit_def create_purge_audit_def split: prod.splits)

lemma keys_fields [simp]: "media_keys_ok (db\<lparr>md_work := w\<rparr>) = media_keys_ok db" "media_keys_ok (db\<lparr>md_objects := x\<rparr>) = media_keys_ok db"
  by (simp_all add: media_keys_ok_def)

lemmas keys_intros = keys_update_recording keys_update_transcript keys_create_transcript

section \<open>Every service keeps the invariant\<close>

lemma safe_key_normal:
  assumes "ensure_safe_storage_key k = Inr s"
  shows "ensure_safe_storage_key s = Inr s"
proof -
  from assms have "s = py_strip k" by (auto simp: ensure_safe_storage_key_def Let_def split: if_splits)
  with assms show ?thesis by (simp add: ensure_safe_storage_key_def)
qed

lemma init_InrD:
  assumes "init_handoff_upload tz from_iso cfg client clock opaque cs task_id q db = Inr ((r, url, ttl), db')"
  obtains t input key where "load_task task_id (md_work db) = Some t" "tk_trial_id t = cs_trial_id cs" "py_lower (tk_type t) = ''handoff''"
    "require_active_window tz from_iso (wk_app (md_work db)) cs t (clock 0) = Inr ()"
    "validate_upload_input cfg (uq_content_type q) (uq_size_bytes q) (uq_filename q) (uq_asset_kind q) (uq_duration_seconds q) = Inr input"
    "py_lower (py_strip (uq_asset_kind q)) \<in> {''recording'', ''supplemental''}"
    "build_recording_storage_key (cs_id cs) (tk_id t) (ui_extension input) opaque = Inr key"
    "create_recording_asset (new_recording (cs_id cs) (tk_id t) key input (py_lower (py_strip (uq_asset_kind q))) (clock 1)) db = Inr (r, db')"
proof -
  from assms obtain t input key y where
    t: "load_task_or_404 task_id (md_work db) = Inr t" "ensure_task_belongs t cs = Inr ()" "ensure_handoff_task (tk_type t) = Inr ()"
    "require_active_window tz from_iso (wk_app (md_work db)) cs t (clock 0) = Inr ()"
    and v: "validate_upload_input cfg (uq_content_type q) (uq_size_bytes q) (uq_filename q) (uq_asset_kind q) (uq_duration_seconds q) = Inr input"
    "require (py_lower (py_strip (uq_asset_kind q)) \<in> {''recording'', ''supplemental''})
       (ApiError 422 ''Unsupported assetType'' ''invalid_asset_type'' (Some False) []) = Inr ()"
    "build_recording_storage_key (cs_id cs) (tk_id t) (ui_extension input) opaque = Inr key"
    and c: "create_recording_asset (new_recording (cs_id cs) (tk_id t) key input (py_lower (py_strip (uq_asset_kind q))) (clock 1)) db = Inr y"
      "(case y of (r, db') \<Rightarrow> bind_result (storage_result (sc_upload_url client key (ui_content_type input) (ui_size_bytes input) (resolve_signed_url_ttl cfg None)
         (if py_lower (py_strip (uq_asset_kind q)) = ''recording'' then ui_duration_seconds input else None))) (\<lambda>url.
       Inr ((r, url, resolve_signed_url_ttl cfg None), db'))) = Inr ((r, url, ttl), db')"
    unfolding init_handoff_upload_def Let_def by (elim bind_resultE) (rule that; (assumption | simp))
  obtain r1 db1 where y: "y = (r1, db1)" by (cases y)
  from c(2)[unfolded y case_prod_conv] have "y = (r, db')" unfolding y by (elim bind_resultE) simp
  with c(1) have made: "create_recording_asset (new_recording (cs_id cs) (tk_id t) key input (py_lower (py_strip (uq_asset_kind q))) (clock 1)) db = Inr (r, db')"
    by simp
  have task: "load_task task_id (md_work db) = Some t" using t(1) by (auto simp: load_task_or_404_def split: option.splits)
  have own: "tk_trial_id t = cs_trial_id cs" "py_lower (tk_type t) = ''handoff''"
    using t(2,3) by (simp_all add: ensure_task_belongs_def ensure_handoff_task_def)
  have kind: "py_lower (py_strip (uq_asset_kind q)) \<in> {''recording'', ''supplemental''}" using v(2) by (simp only: require_Inr_iff)
  show thesis by (rule that[OF task own t(4) v(1) kind v(3) made])
qed

lemma init_step_ok:
  assumes "init_handoff_upload tz from_iso cfg client clock opaque cs task_id q db = Inr (x, db')"
  shows "media_step_ok db db'"
proof -
  obtain r url ttl where x: "x = (r, url, ttl)" by (cases x)
  define kind where "kind = py_lower (py_strip (uq_asset_kind q))"
  from assms[unfolded x] obtain t :: task and input key where
    key: "build_recording_storage_key (cs_id cs) (tk_id t) (ui_extension input) opaque = Inr key"
    and c: "create_recording_asset (new_recording (cs_id cs) (tk_id t) key input kind (clock 1)) db = Inr (r, db')"
    unfolding kind_def by (rule init_InrD)
  from key have safe: "ensure_safe_storage_key key = Inr key"
    by (auto simp: build_recording_storage_key_def bind_result_Inr_iff intro: safe_key_normal)
  define row where "row = (new_recording (cs_id cs) (tk_id t) key input kind (clock 1))\<lparr>ra_id := md_next_recording_id db\<rparr>"
  from c have fresh: "\<forall>r \<in> set (md_recordings db). ra_storage_key r \<noteq> key"
    and db': "db' = db\<lparr>md_recordings := md_recordings db @ [row], md_next_recording_id := md_next_recording_id db + 1\<rparr>"
    by (auto simp: create_recording_asset_def new_recording_def row_def Let_def split: if_splits)
  have row_new: "ra_id row = md_next_recording_id db" "ra_storage_key row = key" "ra_status row = RECORDING_ASSET_STATUS_UPLOADING"
    "ra_deleted_at row = None" "ra_purged_at row = None" by (simp_all add: row_def new_recording_def)
  show ?thesis unfolding media_step_ok_def
  proof
    assume wf: "media_wf db"
    then have below: "\<forall>r \<in> set (md_recordings db). ra_id r < md_next_recording_id db" and keys: "media_keys_ok db"
      by (simp_all add: media_wf_def media_keys_ok_def)
    have old: "get_recording i db' = Some r" if "get_recording i db = Some r" for i r
      using that by (simp add: get_recording_def db' find_row_append)
    have new: "r = row \<or> get_recording i db = Some r" if "get_recording i db' = Some r" for i r
      using that by (auto simp: get_recording_def db' find_row_append find_row_Cons split: option.splits if_splits)
    have trs: "get_transcript i db' = get_transcript i db" for i by (simp add: get_transcript_def db')
    have none: "get_transcript (ra_id row) db = None"
    proof (rule ccontr)
      assume "get_transcript (ra_id row) db \<noteq> None"
      then obtain x where "x \<in> set (md_transcripts db)" "tr_recording_id x = ra_id row" by (auto dest: get_transcriptD)
      then have "ra_id row \<in> tr_recording_id ` set (md_transcripts db)" by force
      with keys have "ra_id row \<in> ra_id ` set (md_recordings db)" unfolding media_keys_ok_def by blast
      with below row_new(1) show False by auto
    qed
    have "media_keys_ok db'" using keys below fresh safe row_new by (auto simp: media_keys_ok_def db')
    moreover have "media_pair_ok r (get_transcript i db')" if "get_recording i db' = Some r" for i r
      using new[OF that]
    proof
      assume "r = row"
      moreover from this get_recordingD[OF that] have "i = ra_id row" by simp
      ultimately show ?thesis using none row_new
        by (simp add: trs media_pair_ok_def recording_ok_def is_deleted_or_purged_def has_content_def RECORDING_ASSET_STATUSES_def recording_status_defs)
    qed (use wf in \<open>simp add: trs media_wf_def\<close>)
    ultimately show "media_wf db' \<and> media_kept db db'" using old by (auto simp: media_wf_def media_kept_def)
  qed
qed

lemma delete_step_ok:
  assumes "delete_recording_asset cfg i cs now db = Inr (r, db')"
  shows "media_step_ok db db'"
proof (rule media_step_okI[of db db' i])
  from assms obtain r0 where r0: "get_recording i db = Some r0"
    and db': "db' = update_transcript i (mark_transcript_deleted now) (update_recording i (mark_recording_deleted now) db)"
    by (auto simp: delete_recording_asset_def bind_result_Inr_iff split: option.splits)
  have ids: "\<And>r. ra_id (mark_recording_deleted now r) = ra_id r" "\<And>t. tr_recording_id (mark_transcript_deleted now t) = tr_recording_id t"
    by (simp_all add: mark_recording_deleted_def mark_transcript_deleted_def)
  show "media_keys_ok db'" if "media_wf db"
    unfolding db' using that by (intro keys_intros) (auto simp: media_wf_def ids mark_recording_deleted_def)
  show "get_recording j db' = get_recording j db \<and> get_transcript j db' = get_transcript j db" if "j \<noteq> i" for j
    using that by (simp add: db' ids)
  show "get_recording i db' = None" if "get_recording i db = None" using that r0 by simp
  show "\<exists>r'. get_recording i db' = Some r' \<and> recording_kept r r' \<and> media_pair_ok r' (get_transcript i db')"
    if "get_recording i db = Some r" "media_pair_ok r (get_transcript i db)" for r
    using that
    by (auto simp: db' ids mark_recording_deleted_def mark_transcript_deleted_def recording_kept_def media_pair_ok_def recording_ok_def
        has_content_def recording_status_defs RECORDING_ASSET_STATUSES_def is_deleted_or_purged_def split: option.splits)
qed

lemma mark_media_step_ok:
  assumes f: "\<And>t. tr_recording_id (f t) = tr_recording_id t" "\<And>t. tr_status (f t) \<in> set TRANSCRIPT_STATUSES"
    and status: "status \<in> {RECORDING_ASSET_STATUS_FAILED, RECORDING_ASSET_STATUS_PROCESSING} \<or>
      status = RECORDING_ASSET_STATUS_READY \<and> (\<forall>t. tr_status (f t) = ''ready'' \<and> (\<exists>s. tr_text (f t) = Some s \<and> s \<noteq> []))"
  shows "media_step_ok db (mark_media status f i now db)"
proof (cases "\<exists>r. get_recording i db = Some r \<and> \<not> is_deleted_or_purged r")
  case False
  then have "mark_media status f i now db = db" by (auto simp: mark_media_def split: option.splits)
  then show ?thesis by simp
next
  case True
  then obtain r0 where r0: "get_recording i db = Some r0" "\<not> is_deleted_or_purged r0" by blast
  then have db': "mark_media status f i now db =
      update_transcript i f (update_recording i (\<lambda>r. r\<lparr>ra_status := status\<rparr>) (get_or_create_transcript i ''pending'' now db))" (is "_ = ?db")
    by (simp add: mark_media_def)
  show ?thesis unfolding db'
  proof (rule media_step_okI[of db ?db i])
    show "media_keys_ok ?db" if "media_wf db"
      using that r0 by (intro keys_intros) (auto simp: media_wf_def f)
    show "get_recording j ?db = get_recording j db \<and> get_transcript j ?db = get_transcript j db" if "j \<noteq> i" for j
      using that by (simp add: f get_transcript_create)
    show "get_recording i ?db = None" if "get_recording i db = None" using that r0 by simp
    show "\<exists>r'. get_recording i ?db = Some r' \<and> recording_kept r r' \<and> media_pair_ok r' (get_transcript i ?db)"
      if "get_recording i db = Some r" "media_pair_ok r (get_transcript i db)" for r
      using that r0 status f(2)
      by (auto simp: f(1) get_transcript_create recording_kept_def media_pair_ok_def recording_ok_def is_deleted_or_purged_def
          recording_status_defs RECORDING_ASSET_STATUSES_def)
  qed
qed

lemma consent_step_ok:
  assumes "record_candidate_session_consent c notice ai now db = Inr (m, db')"
  shows "media_step_ok db db'"
proof -
  from assms have "db' = db \<or> (\<exists>m'. db' = put_media_session m' db)"
    by (auto simp: record_candidate_session_consent_def bind_result_Inr_iff Let_def split: if_splits)
  then show ?thesis by (auto simp: put_media_session_def intro: media_step_ok_same)
qed

text \<open>What a completion that returns has checked, and the state it leaves.\<close>

lemma complete_InrD:
  assumes "complete_handoff_upload tz from_iso cfg client clock cs task_id v db = Inr (r', db')"
  obtains t company i r expires where "load_task_with_company_or_404 task_id (md_work db) = Inr (t, company)"
    "tk_trial_id t = cs_trial_id cs" "py_lower (tk_type t) = ''handoff''"
    "require_active_window tz from_iso (wk_app (md_work db)) cs t (clock 0) = Inr ()"
    "require_media_consent (media_session_of (cs_id cs) db) = Inr ()"
    "parse_recording_id_or_422 v = Inr i" "get_recording i db = Some r"
    "ra_candidate_session_id r = cs_id cs" "ra_task_id r = tk_id t" "verify_upload cfg client r (md_objects db) = Inr ()"
    "ra_retention_expires_at r = None \<longrightarrow> 0 < ms_retention_days cfg \<and> expires = Some (clock 1 + days (ms_retention_days cfg))"
    "r' = accepted_recording (media_session_of (cs_id cs) db) expires r"
    "ra_asset_kind r \<in> {[], ''recording''} \<and> attach_recording r' company clock (update_recording (ra_id r) (\<lambda>_. r') db) = Inr db' \<or>
     ra_asset_kind r = ''supplemental'' \<and> db' = update_recording (ra_id r) (\<lambda>_. r') db"
proof -
  from assms obtain y where
    y: "load_task_with_company_or_404 task_id (md_work db) = Inr y" and
    rest: "(case y of (t, company_id) \<Rightarrow>
     bind_result (ensure_task_belongs t cs) (\<lambda>_.
     bind_result (ensure_handoff_task (tk_type t)) (\<lambda>_.
     bind_result (require_active_window tz from_iso (wk_app (md_work db)) cs t (clock 0)) (\<lambda>_.
     bind_result (require_media_consent (media_session_of (cs_id cs) db)) (\<lambda>_.
     bind_result (parse_recording_id_or_422 v) (\<lambda>recording_id.
     bind_result (require_recording_access (get_recording recording_id db) (cs_id cs) (tk_id t)) (\<lambda>r.
     bind_result (verify_upload cfg client r (md_objects db)) (\<lambda>_.
     bind_result (if ra_retention_expires_at r = None
                  then bind_result (compute_media_retention_expires_at cfg (clock 1)) (\<lambda>e. Inr (Some e)) else Inr None) (\<lambda>expires.
       let kind = (if ra_asset_kind r = [] then ''recording'' else ra_asset_kind r);
           r' = accepted_recording (media_session_of (cs_id cs) db) expires r;
           db1 = update_recording (ra_id r) (\<lambda>_. r') db
       in if kind = ''recording'' then bind_result (attach_recording r' company_id clock db1) (\<lambda>db2. Inr (r', db2))
          else if kind = ''supplemental'' then Inr (r', db1)
          else Inl (ExternalError ''AssertionError'' (''Unsupported recording asset kind: '' @ kind))))))))))) = Inr (r', db')"
    unfolding complete_handoff_upload_def bind_result_Inr_iff by blast
  obtain t company where yt: "y = (t, company)" by (cases y)
  from rest[unfolded yt case_prod_conv] obtain i r expires where
    own: "ensure_task_belongs t cs = Inr ()" "ensure_handoff_task (tk_type t) = Inr ()"
    and win: "require_active_window tz from_iso (wk_app (md_work db)) cs t (clock 0) = Inr ()"
    and con: "require_media_consent (media_session_of (cs_id cs) db) = Inr ()"
    and i: "parse_recording_id_or_422 v = Inr i"
    and acc: "require_recording_access (get_recording i db) (cs_id cs) (tk_id t) = Inr r"
    and ver: "verify_upload cfg client r (md_objects db) = Inr ()"
    and exp: "(if ra_retention_expires_at r = None
       then bind_result (compute_media_retention_expires_at cfg (clock 1)) (\<lambda>e. Inr (Some e)) else Inr None) = Inr expires"
    and fin: "(let kind = (if ra_asset_kind r = [] then ''recording'' else ra_asset_kind r);
           r' = accepted_recording (media_session_of (cs_id cs) db) expires r;
           db1 = update_recording (ra_id r) (\<lambda>_. r') db
       in if kind = ''recording'' then bind_result (attach_recording r' company clock db1) (\<lambda>db2. Inr (r', db2))
          else if kind = ''supplemental'' then Inr (r', db1)
          else Inl (ExternalError ''AssertionError'' (''Unsupported recording asset kind: '' @ kind))) = Inr (r', db')"
    by (elim bind_resultE) (rule that; (assumption | simp))
  have r: "get_recording i db = Some r" "ra_candidate_session_id r = cs_id cs" "ra_task_id r = tk_id t"
    using acc by (auto simp: require_recording_access_def split: option.splits if_splits)
  have e: "ra_retention_expires_at r = None \<longrightarrow> 0 < ms_retention_days cfg \<and> expires = Some (clock 1 + days (ms_retention_days cfg))"
    using exp by (auto simp: compute_media_retention_expires_at_def bind_result_Inr_iff)
  have last: "r' = accepted_recording (media_session_of (cs_id cs) db) expires r"
    "ra_asset_kind r \<in> {[], ''recording''} \<and> attach_recording r' company clock (update_recording (ra_id r) (\<lambda>_. r') db) = Inr db' \<or>
     ra_asset_kind r = ''supplemental'' \<and> db' = update_recording (ra_id r) (\<lambda>_. r') db"
    using fin by (auto simp: Let_def bind_result_Inr_iff split: if_splits)
  show thesis
    by (rule that[OF y[unfolded yt] _ _ win con i r ver e last])
       (use own in \<open>simp_all add: ensure_task_belongs_def ensure_handoff_task_def\<close>)
qed

lemma copy_consent_keeps [simp]:
  "ra_id (copy_candidate_consent_if_missing m r) = ra_id r" "ra_storage_key (copy_candidate_consent_if_missing m r) = ra_storage_key r"
  "ra_candidate_session_id (copy_candidate_consent_if_missing m r) = ra_candidate_session_id r"
  "ra_task_id (copy_candidate_consent_if_missing m r) = ra_task_id r" "ra_status (copy_candidate_consent_if_missing m r) = ra_status r"
  "ra_deleted_at (copy_candidate_consent_if_missing m r) = ra_deleted_at r" "ra_purged_at (copy_candidate_consent_if_missing m r) = ra_purged_at r"
  "ra_purge_reason (copy_candidate_consent_if_missing m r) = ra_purge_reason r"
  by (simp_all add: copy_candidate_consent_if_missing_def)

lemma accepted_keeps [simp]:
  "ra_id (accepted_recording m e r) = ra_id r" "ra_storage_key (accepted_recording m e r) = ra_storage_key r"
  "recording_kept r (accepted_recording m e r)"
  by (simp_all add: accepted_recording_def recording_kept_def)

lemma accepted_pair_ok:
  "media_pair_ok r t \<Longrightarrow> media_pair_ok (accepted_recording m e r) t"
  by (auto simp: accepted_recording_def media_pair_ok_def recording_ok_def is_deleted_or_purged_def recording_status_defs
      RECORDING_ASSET_STATUSES_def)

lemma pending_pair_ok:
  assumes "media_pair_ok r t"
  shows "media_pair_ok r (Some (case t of None \<Rightarrow> placeholder n i ''pending'' now | Some x \<Rightarrow> x))"
  using assms by (cases t) (auto simp: media_pair_ok_def placeholder_def has_content_def TRANSCRIPT_STATUSES_def)

text \<open>The update writes one row, so it can be read as an update by that row.\<close>

lemma update_recording_const:
  assumes "distinct (map ra_id (md_recordings db))" "get_recording i db = Some r"
  shows "update_recording i (\<lambda>_. f r) db = update_recording i f db"
proof -
  have "x = r" if "x \<in> set (md_recordings db)" "ra_id x = i" for x
    using assms that get_recordingD[of i db r] by (metis distinct_map inj_onD)
  then show ?thesis by (auto simp: update_recording_def update_rows_def)
qed

lemma attach_InrD:
  assumes "attach_recording r company clock db = Inr db'"
  obtains w where "ensure_transcription_job r company (clock 4)
      (snd (upsert_handoff_submission (ra_candidate_session_id r) (ra_task_id r) (ra_id r) (clock 3) (md_work db))) = Inr w"
    "db' = (get_or_create_transcript (ra_id r) ''pending'' (clock 2) db)\<lparr>md_work := w\<rparr>"
proof -
  have work: "md_work (get_or_create_transcript i s now db) = md_work db" for i s now
    by (simp add: get_or_create_transcript_def create_transcript_def)
  from assms show thesis using that by (auto simp: attach_recording_def Let_def work bind_result_Inr_iff)
qed

lemma complete_step_ok:
  assumes "complete_handoff_upload tz from_iso cfg client clock cs task_id v db = Inr (r', db')"
  shows "media_step_ok db db'"
proof -
  from assms obtain company :: int and i r expires where
    r: "get_recording i db = Some r" and r': "r' = accepted_recording (media_session_of (cs_id cs) db) expires r"
    and fin: "ra_asset_kind r \<in> {[], ''recording''} \<and> attach_recording r' company clock (update_recording (ra_id r) (\<lambda>_. r') db) = Inr db' \<or>
     ra_asset_kind r = ''supplemental'' \<and> db' = update_recording (ra_id r) (\<lambda>_. r') db"
    by (rule complete_InrD)
  let ?f = "accepted_recording (media_session_of (cs_id cs) db) expires"
  have id: "ra_id r = i" using r by (auto dest: get_recordingD)
  have step: "media_step_ok db db1"
    if wf: "media_wf db" and db1: "db1 = update_recording i ?f db \<or> (\<exists>now w. db1 = (get_or_create_transcript i ''pending'' now (update_recording i ?f db))\<lparr>md_work := w\<rparr>)" for db1
  proof (rule media_step_okI[of db db1 i])
    show "media_keys_ok db1" if "media_wf db" using that db1 r
      by (auto simp: media_wf_def intro!: keys_intros)
    show "get_recording j db1 = get_recording j db \<and> get_transcript j db1 = get_transcript j db" if "j \<noteq> i" for j
      using that db1 by (auto simp: get_transcript_create)
    show "get_recording i db1 = None" if "get_recording i db = None" using that r by simp
    show "\<exists>r'. get_recording i db1 = Some r' \<and> recording_kept r r' \<and> media_pair_ok r' (get_transcript i db1)"
      if "get_recording i db = Some r" "media_pair_ok r (get_transcript i db)" for r
      using that db1 by (auto simp: get_transcript_create accepted_pair_ok pending_pair_ok)
  qed
  show ?thesis
  proof (cases "media_wf db")
    case True
    then have one: "update_recording (ra_id r) (\<lambda>_. r') db = update_recording i ?f db"
      unfolding r' id using r by (intro update_recording_const) (simp_all add: media_wf_def media_keys_ok_def)
    from fin have "db' = update_recording i ?f db \<or> (\<exists>now w. db' = (get_or_create_transcript i ''pending'' now (update_recording i ?f db))\<lparr>md_work := w\<rparr>)"
    proof (elim disjE conjE)
      assume "attach_recording r' company clock (update_recording (ra_id r) (\<lambda>_. r') db) = Inr db'"
      then obtain w where "db' = (get_or_create_transcript (ra_id r') ''pending'' (clock 2) (update_recording (ra_id r) (\<lambda>_. r') db))\<lparr>md_work := w\<rparr>"
        by (rule attach_InrD)
      then show ?thesis unfolding one using id r' by auto
    qed (simp add: one)
    with True show ?thesis by (rule step)
  qed (simp add: media_step_ok_def)
qed

lemma write_audit_tables [simp]:
  "md_recordings (write_audit r actor oc e db) = md_recordings db" "md_next_recording_id (write_audit r actor oc e db) = md_next_recording_id db"
  "md_transcripts (write_audit r actor oc e db) = md_transcripts db" "md_objects (write_audit r actor oc e db) = md_objects db"
  "md_work (write_audit r actor oc e db) = md_work db"
  by (simp_all add: write_audit_def create_purge_audit_def split: prod.splits)

lemma purge_cases:
  obtains (missing) "get_recording i db = None" "purge_recording client actor now i db = ((False, True), db)"
  | (skipped) r where "get_recording i db = Some r" "ra_purged_at r \<noteq> None \<or> ra_status r = RECORDING_ASSET_STATUS_PURGED"
      "purge_recording client actor now i db = ((False, True), write_audit r actor ''skipped'' None db)"
  | (failed) r objs e where "get_recording i db = Some r" "ra_purged_at r = None" "ra_status r \<noteq> RECORDING_ASSET_STATUS_PURGED"
      "sc_delete client (ra_storage_key r) (md_objects db) = (objs, Inl e)"
      "purge_recording client actor now i db = ((False, False), failed_purge r actor e (db\<lparr>md_objects := objs\<rparr>))"
  | (purged) r objs where "get_recording i db = Some r" "ra_purged_at r = None" "ra_status r \<noteq> RECORDING_ASSET_STATUS_PURGED"
      "sc_delete client (ra_storage_key r) (md_objects db) = (objs, Inr ())"
      "purge_recording client actor now i db = ((True, False), write_audit (purged_row actor now r) actor ''success'' None
         (update_recording i (purged_row actor now) (redact_by_recording_id i now (db\<lparr>md_objects := objs\<rparr>))))"
proof (cases "get_recording i db")
  case None
  then show thesis by (rule missing) (simp add: purge_recording_def None)
next
  case (Some r)
  obtain objs x where d: "sc_delete client (ra_storage_key r) (md_objects db) = (objs, x)" by fastforce
  show thesis
  proof (cases "ra_purged_at r \<noteq> None \<or> ra_status r = RECORDING_ASSET_STATUS_PURGED")
    case True
    with Some show thesis by (intro skipped) (auto simp: purge_recording_def)
  next
    case False
    show thesis
    proof (cases x)
      case (Inl e)
      with False Some d show thesis by (intro failed) (auto simp: purge_recording_def)
    next
      case (Inr u)
      with False Some d show thesis by (intro purged) (auto simp: purge_recording_def)
    qed
  qed
qed

lemma purged_row_keeps [simp]:
  "ra_id (purged_row actor now r) = ra_id r" "ra_storage_key (purged_row actor now r) = ra_storage_key r"
  "ra_candidate_session_id (purged_row actor now r) = ra_candidate_session_id r"
  "ra_task_id (purged_row actor now r) = ra_task_id r" "ra_purged_at (purged_row actor now r) \<noteq> None"
  by (simp_all add: purged_row_def mark_recording_purged_def)

lemma purged_row_ok:
  assumes "ra_purged_at r = None" "media_pair_ok r t"
  shows "recording_kept r (purged_row actor now r)" "media_pair_ok (purged_row actor now r) (map_option (redact_transcript now) t)"
  using assms by (auto simp: purged_row_def mark_recording_purged_def recording_kept_def media_pair_ok_def recording_ok_def
      RECORDING_ASSET_STATUSES_def recording_status_defs redact_transcript_def has_content_def split: option.splits)

lemma purge_step_ok: "media_step_ok db (snd (purge_recording client actor now i db))"
proof (cases rule: purge_cases[of i db client actor now])
  case missing
  then show ?thesis by simp
next
  case (skipped r)
  then show ?thesis by (auto intro!: media_step_ok_same)
next
  case (failed r objs e)
  let ?db = "snd (purge_recording client actor now i db)"
  show ?thesis
  proof (rule media_step_okI[of db ?db i])
    have id: "ra_id r = i" using failed(1) by (auto dest: get_recordingD)
    show "media_keys_ok ?db" if "media_wf db" using that unfolding failed(5)
      by (auto simp: failed_purge_def media_wf_def intro!: keys_intros)
    show "get_recording j ?db = get_recording j db \<and> get_transcript j ?db = get_transcript j db" if "j \<noteq> i" for j
      using that unfolding failed(5) by (simp add: failed_purge_def id)
    show "get_recording i ?db = None" if "get_recording i db = None" using that failed(1) by simp
    show "\<exists>r'. get_recording i ?db = Some r' \<and> recording_kept x r' \<and> media_pair_ok r' (get_transcript i ?db)"
      if "get_recording i db = Some x" "media_pair_ok x (get_transcript i db)" for x
      using that failed(1,2) id unfolding failed(5)
      by (auto simp: failed_purge_def recording_kept_def media_pair_ok_def recording_ok_def is_deleted_or_purged_def)
  qed
next
  case (purged r objs)
  let ?db = "snd (purge_recording client actor now i db)"
  have ids: "tr_recording_id (redact_transcript now t) = tr_recording_id t" for t by (simp add: redact_transcript_def)
  show ?thesis
  proof (rule media_step_okI[of db ?db i])
    show "media_keys_ok ?db" if "media_wf db" using that unfolding purged(5)
      by (auto simp: media_wf_def redact_by_recording_id_def ids intro!: keys_intros)
    show "get_recording j ?db = get_recording j db \<and> get_transcript j ?db = get_transcript j db" if "j \<noteq> i" for j
      using that unfolding purged(5) by (simp add: redact_by_recording_id_def ids)
    show "get_recording i ?db = None" if "get_recording i db = None" using that purged(1) by simp
    show "\<exists>r'. get_recording i ?db = Some r' \<and> recording_kept r r' \<and> media_pair_ok r' (get_transcript i ?db)"
      if "get_recording i db = Some r" "media_pair_ok r (get_transcript i db)" for r
      using that purged(1,2) purged_row_ok unfolding purged(5) by (simp add: redact_by_recording_id_def ids)
  qed
qed

lemma purge_each_step_ok: "purge_each client actor now is acc db = (db', x) \<Longrightarrow> media_step_ok db db'"
proof (induction "is" arbitrary: acc db)
  case (Cons i "is")
  obtain ids s f where acc: "acc = (ids, s, f)" by (cases acc)
  obtain p k db1 where p: "purge_recording client actor now i db = ((p, k), db1)" by (metis surj_pair)
  have first: "media_step_ok db db1" using purge_step_ok[of db client actor now i] p by simp
  show ?case
  proof (cases "\<not> p \<and> \<not> k \<and> is \<noteq> []")
    case True
    with Cons.prems p first show ?thesis by (simp add: acc)
  next
    case False
    with Cons.prems p have "purge_each client actor now is
        (if p then (ids @ [i], s, f) else if k then (ids, s + 1, f) else (ids, s, f + 1)) db1 = (db', x)" by (auto simp: acc)
    then have "media_step_ok db1 db'" by (rule Cons.IH)
    with first show ?thesis using step_ok_trans by blast
  qed
qed simp

lemma purge_all_step_ok: "purge_all client actor now recordings db = (db', x) \<Longrightarrow> media_step_ok db db'"
  using purge_each_step_ok
  by (fastforce simp: purge_all_def bind_op_def lift_op_def split: prod.splits sum.splits)

lemma mark_processing_mark:
  "snd (mark_processing i now db) \<in> {db, mark_media RECORDING_ASSET_STATUS_PROCESSING (\<lambda>t. t\<lparr>tr_status := ''processing'', tr_last_error := None\<rparr>) i now db}"
  by (auto simp: mark_processing_def mark_media_def get_or_create_transcript_def split: option.splits)

lemma mark_processing_step_ok: "media_step_ok db (snd (mark_processing i now db))"
proof -
  have "media_step_ok db (mark_media RECORDING_ASSET_STATUS_PROCESSING (\<lambda>t. t\<lparr>tr_status := ''processing'', tr_last_error := None\<rparr>) i now db)"
    by (rule mark_media_step_ok) (simp_all add: TRANSCRIPT_STATUSES_def)
  with mark_processing_mark[of i now db] show ?thesis by auto
qed

lemma mark_failure_step_ok: "media_step_ok db (mark_failure reason i now db)"
  and mark_retrying_step_ok: "media_step_ok db (mark_retrying reason i now db)"
  unfolding mark_failure_def mark_retrying_def by (rule mark_media_step_ok; simp add: TRANSCRIPT_STATUSES_def)+

lemma mark_ready_step_ok: "s \<noteq> [] \<Longrightarrow> media_step_ok db (mark_ready s segments model i now db)"
  unfolding mark_ready_def by (rule mark_media_step_ok) (simp_all add: TRANSCRIPT_STATUSES_def)

lemma transcribe_text: "transcribe cfg client transcriber float_int r = Inr (s, segments, model) \<Longrightarrow> s \<noteq> []"
  by (auto simp: transcribe_def bind_result_Inr_iff split: if_splits sum.splits error.splits)

lemma failed_step_ok: "media_step_ok db (fst (transcription_failed i company e now db))"
  by (simp add: transcription_failed_def Let_def mark_failure_step_ok mark_retrying_step_ok)

definition media_commits :: "(media_db \<Rightarrow> media_db) \<Rightarrow> bool" where
  "media_commits other \<longleftrightarrow> (\<forall>db. media_step_ok db (other db))"

lemma transcription_step_ok:
  assumes "\<And>n. media_commits (other n)"
  shows "media_step_ok db (fst (handle_transcribe_recording cfg client transcriber float_int other clock duration_ms payload db))"
proof -
  have other: "media_step_ok a b \<Longrightarrow> media_step_ok a (other n b)" for a b n
    using assms[of n] step_ok_trans unfolding media_commits_def by blast
  have failed: "media_step_ok a b \<Longrightarrow> media_step_ok a (fst (transcription_failed i company e now b))" for a b i company e now
    using failed_step_ok step_ok_trans by blast
  have ready: "media_step_ok a b \<Longrightarrow> transcribe cfg client transcriber float_int r = Inr (s, segments, model) \<Longrightarrow>
      media_step_ok a (mark_ready s segments model i now b)" for a b r s segments model i now
    using mark_ready_step_ok transcribe_text step_ok_trans by blast
  have processing: "mark_processing i now db = (x, db1) \<Longrightarrow> media_step_ok db db1" for i now x db1
    using mark_processing_step_ok[of db i now] by simp
  show ?thesis
    by (auto simp: handle_transcribe_recording_def Let_def bind_op_def lift_op_def intro: other failed ready processing
        split: sum.splits option.splits prod.splits)
qed

section \<open>The media services as a step system\<close>

text \<open>
  One committed transaction. \<open>elsewhere\<close> is any other transaction: it may change the sessions,
  the work tables, the queue and the object store, and of the media tables what the invariant
  allows.
\<close>

inductive media_step :: "media_db \<Rightarrow> media_db \<Rightarrow> bool" where
  consented: "record_candidate_session_consent c notice ai now db = Inr (m, db') \<Longrightarrow> media_step db db'"
| started: "init_handoff_upload tz from_iso cfg client clock opaque cs task_id q db = Inr (x, db') \<Longrightarrow> media_step db db'"
| completed: "complete_handoff_upload tz from_iso cfg client clock cs task_id v db = Inr (r, db') \<Longrightarrow> media_step db db'"
| deleted: "delete_recording_asset cfg i cs now db = Inr (r, db') \<Longrightarrow> media_step db db'"
| retention: "purge_expired_media_assets cfg client retention_days batch_limit now actor_type actor_id db = (db', x) \<Longrightarrow> media_step db db'"
| data_request: "purge_candidate_session_media_for_data_request client c batch_limit now actor_type actor_id db = (db', x) \<Longrightarrow>
    media_step db db'"
| transcribed: "handle_transcribe_recording cfg client transcriber float_int other clock duration_ms payload db = (db', x) \<Longrightarrow>
    (\<And>n. media_commits (other n)) \<Longrightarrow> media_step db db'"
| elsewhere: "media_commits other \<Longrightarrow> media_step db (other db)"

lemma media_step_step_ok: "media_step db db' \<Longrightarrow> media_step_ok db db'"
proof (induction rule: media_step.induct)
  case (transcribed cfg client transcriber float_int other clock duration_ms payload db db' x)
  then show ?case using transcription_step_ok[of other db cfg client transcriber float_int clock duration_ms payload] by simp
qed (simp_all add: media_commits_def purge_expired_media_assets_def purge_candidate_session_media_for_data_request_def
  consent_step_ok init_step_ok complete_step_ok delete_step_ok purge_all_step_ok)

definition media_start :: "media_db \<Rightarrow> bool" where
  "media_start db \<longleftrightarrow> md_recordings db = [] \<and> md_transcripts db = []"

interpretation media_services: step_system media_start media_step media_wf
proof unfold_locales
  show "media_wf s" if "media_start s" for s
    using that by (simp add: media_start_def media_wf_def media_keys_ok_def get_recording_def)
  show "media_wf t" if "media_wf s" "media_step s t" for s t
    using media_step_step_ok[OF that(2)] that(1) by (simp add: media_step_ok_def)
qed

lemma media_steps_ok: "media_step\<^sup>*\<^sup>* db db' \<Longrightarrow> media_step_ok db db'"
  by (induction rule: rtranclp_induct) (auto intro: step_ok_trans media_step_step_ok)

end
