(* ===== verification/MediaOutcomes.thy ===== *)
theory MediaOutcomes
  imports MediaPrivacy
begin

text \<open>
  The properties of the media services: what an upload that is accepted has proved, what a
  purge does and what it leaves, what stays erased, and the ids under which recordings are
  named. The purge is proved once for every object store that meets the interface and rests,
  for the provider of tests and local development, on its interpretation.
\<close>

section \<open>Public ids\<close>

lemma digits_value_snoc: "digits_value (s @ [c]) = 10 * digits_value s + (code_point c - 48)"
  by (simp add: digits_value_def)

lemma digits_value_digits: "0 \<le> n \<Longrightarrow> digits_value (digits n) = n"
proof (induction n rule: digits.induct)
  case (1 n)
  have d: "code_point (digit_char k) = 48 + k" if "0 \<le> k" "k < 10" for k
    using that by (simp add: digit_char_def code_point_def)
  show ?case
  proof (cases "n < 10")
    case True
    with 1 d[of n] show ?thesis by (simp add: digits.simps[of n] digits_value_def)
  next
    case False
    with 1 d[of "n mod 10"] show ?thesis by (simp add: digits.simps[of n] digits_value_snoc)
  qed
qed

lemma digits_text:
  assumes "0 \<le> n"
  shows "py_strip (digits n) = digits n" "py_isdigit (digits n)" "list_all is_digit (digits n)"
proof -
  have all: "\<forall>c \<in> set (digits n). is_digit c" using digits_ascii[OF assms] by blast
  then show "py_isdigit (digits n)" "list_all is_digit (digits n)" using digits_nonempty by (auto simp: py_isdigit_def list_all_iff)
  show "py_strip (digits n) = digits n"
    using all digits_nonempty[of n] is_digit_no_space by (intro py_strip_id) auto
qed

lemma py_int_digits: "0 \<le> n \<Longrightarrow> length (digits n) \<le> 4300 \<Longrightarrow> py_int (digits n) = Inr n"
  using digits_ascii digits_nonempty by (auto simp: py_int_def digits_value_digits)

text \<open>
  Property C40. The id under which a recording is shown is read back as the row's key, with the
  prefix or as the bare number, for every positive key of at most 4300 digits (the limit of
  Python's conversion).
\<close>

theorem recording_id_roundtrip:
  assumes n: "0 < n" and short: "length (int_str n) \<le> 4300"
  shows "parse_recording_public_id (recording_public_id n) = Inr n \<and> parse_recording_public_id (int_str n) = Inr n"
proof -
  have ds: "int_str n = digits n" using n by (simp add: int_str_def)
  note text_facts = digits_text[of n] py_int_digits[of n] digits_nonempty[of n]
  have strip: "py_strip (''rec_'' @ digits n) = ''rec_'' @ digits n"
    using int_str_last[of n] digits_nonempty[of n] by (intro py_strip_id) (simp_all add: ds py_space_def code_point_def Let_def)
  have "\<not> py_isdigit (''rec_'' @ digits n)" by (simp add: py_isdigit_def is_digit_def code_point_def)
  moreover have "starts_with ''rec_'' (''rec_'' @ digits n)" by simp
  ultimately have "parse_recording_public_id (recording_public_id n) = Inr n"
    unfolding parse_recording_public_id_def recording_public_id_def ds strip Let_def using n short text_facts by (simp add: ds)
  moreover have "parse_recording_public_id (int_str n) = Inr n"
    unfolding parse_recording_public_id_def ds Let_def using n short text_facts by (simp add: ds)
  ultimately show ?thesis by blast
qed

theorem recording_id_roundtrip_witness: "parse_recording_public_id (recording_public_id 42) = Inr 42"
proof -
  have "length (int_str 42) \<le> 4300" by code_simp
  then show ?thesis using recording_id_roundtrip[of 42] by simp
qed

section \<open>Purges\<close>

definition purge_failed_row :: "purge_actor \<Rightarrow> recording_asset \<Rightarrow> recording_asset" where
  "purge_failed_row actor r = r\<lparr>ra_purge_reason := Some (pa_reason actor), ra_purge_status := Some ''failed''\<rparr>"

definition purgeable :: "media_db \<Rightarrow> int \<Rightarrow> bool" where
  "purgeable db i \<longleftrightarrow> (\<exists>r. get_recording i db = Some r \<and> ra_purged_at r = None \<and> ra_status r \<noteq> RECORDING_ASSET_STATUS_PURGED)"

text \<open>What the purge of recording \<open>i\<close> made of it, given whether it succeeded.\<close>

definition purge_outcome :: "purge_actor \<Rightarrow> datetime \<Rightarrow> media_db \<Rightarrow> media_db \<Rightarrow> bool \<Rightarrow> int \<Rightarrow> bool" where
  "purge_outcome actor now db db' success i \<longleftrightarrow> (\<exists>r. get_recording i db = Some r \<and>
     (if success
      then get_recording i db' = Some (purged_row actor now r) \<and> md_objects db' (ra_storage_key r) = None \<and>
           get_transcript i db' = map_option (redact_transcript now) (get_transcript i db)
      else get_recording i db' = Some (purge_failed_row actor r) \<and> get_transcript i db' = get_transcript i db))"

definition purge_untouched :: "media_db \<Rightarrow> media_db \<Rightarrow> int \<Rightarrow> bool" where
  "purge_untouched db db' i \<longleftrightarrow> get_recording i db' = get_recording i db \<and> get_transcript i db' = get_transcript i db \<and>
     (\<forall>r. get_recording i db = Some r \<longrightarrow> md_objects db' (ra_storage_key r) = md_objects db (ra_storage_key r))"

definition purge_audited :: "media_db \<Rightarrow> media_db \<Rightarrow> int list \<Rightarrow> int list \<Rightarrow> bool" where
  "purge_audited db db' is new \<longleftrightarrow> (\<exists>audits. md_purge_audits db' = md_purge_audits db @ audits \<and> map mp_media_id audits = is \<and>
     (\<forall>a \<in> set audits. mp_outcome a = (if mp_media_id a \<in> set new then ''success'' else ''failed'')))"

lemma write_audit_audited:
  assumes "md_purge_audits db1 = md_purge_audits db"
  shows "purge_audited db (write_audit r actor ''success'' e db1) [ra_id r] [ra_id r]"
    "purge_audited db (write_audit r actor ''failed'' e db1) [ra_id r] []"
  using assms by (auto simp: purge_audited_def write_audit_def create_purge_audit_def split: prod.split)

lemma purge_audited_append:
  assumes "purge_audited a b is1 n1" "purge_audited b c is2 n2" "set n1 \<subseteq> set is1" "set n2 \<subseteq> set is2" "set is1 \<inter> set is2 = {}"
  shows "purge_audited a c (is1 @ is2) (n1 @ n2)"
proof -
  from assms(1,2) obtain as1 as2 where
    1: "md_purge_audits b = md_purge_audits a @ as1" "map mp_media_id as1 = is1"
      "\<forall>x \<in> set as1. mp_outcome x = (if mp_media_id x \<in> set n1 then ''success'' else ''failed'')"
    and 2: "md_purge_audits c = md_purge_audits b @ as2" "map mp_media_id as2 = is2"
      "\<forall>x \<in> set as2. mp_outcome x = (if mp_media_id x \<in> set n2 then ''success'' else ''failed'')"
    unfolding purge_audited_def by blast
  have "mp_media_id x \<notin> set n2" if "x \<in> set as1" for x
    using imageI[OF that, of mp_media_id] assms(4,5) by (simp flip: 1(2)) blast
  moreover have "mp_media_id x \<notin> set n1" if "x \<in> set as2" for x
    using imageI[OF that, of mp_media_id] assms(3,5) by (simp flip: 2(2)) blast
  ultimately show ?thesis unfolding purge_audited_def using 1 2 by (intro exI[of _ "as1 @ as2"]) auto
qed

lemma media_wf_safe_key: "media_wf db \<Longrightarrow> get_recording i db = Some r \<Longrightarrow> ensure_safe_storage_key (ra_storage_key r) = Inr (ra_storage_key r)"
  by (auto simp: media_wf_def media_keys_ok_def dest!: get_recordingD)

lemma media_wf_other_key:
  assumes "media_wf db" "get_recording i db = Some r" "get_recording j db = Some s" "i \<noteq> j"
  shows "ra_storage_key r \<noteq> ra_storage_key s"
proof
  assume "ra_storage_key r = ra_storage_key s"
  moreover have "inj_on ra_storage_key (set (md_recordings db))" using assms(1) by (simp add: media_wf_def media_keys_ok_def distinct_map)
  ultimately have "r = s" using assms(2,3) by (auto dest!: get_recordingD inj_onD)
  with assms(2,3,4) show False by (auto dest!: get_recordingD)
qed

lemma update_tables [simp]:
  "md_purge_audits (update_recording i f db) = md_purge_audits db" "md_objects (update_recording i f db) = md_objects db"
  "md_work (update_recording i f db) = md_work db"
  "md_purge_audits (update_transcript i g db) = md_purge_audits db" "md_objects (update_transcript i g db) = md_objects db"
  "md_work (update_transcript i g db) = md_work db"
  by (simp_all add: update_recording_def update_transcript_def)

lemma redact_id [simp]: "tr_recording_id (redact_transcript now t) = tr_recording_id t"
  by (simp add: redact_transcript_def)

context object_store
begin

lemma purge_one:
  assumes wf: "media_wf db" and i: "purgeable db i" and p: "purge_recording client actor now i db = ((b, k), db')"
  shows "\<not> k \<and> purge_outcome actor now db db' b i \<and> (\<forall>j. j \<noteq> i \<longrightarrow> purge_untouched db db' j) \<and>
    purge_audited db db' [i] (if b then [i] else []) \<and> md_work db' = md_work db"
proof (cases rule: purge_cases[of i db client actor now])
  case (failed r objs e)
  note key = media_wf_safe_key[OF wf failed(1)]
  have id: "ra_id r = i" using failed(1) by (auto dest: get_recordingD)
  from p failed(5) have db': "b = False" "k = False" "db' = failed_purge r actor e (db\<lparr>md_objects := objs\<rparr>)" by auto
  have other: "objs (ra_storage_key s) = md_objects db (ra_storage_key s)" if "get_recording j db = Some s" "j \<noteq> i" for j s
    using delete_others[OF key failed(4)] media_wf_other_key[OF wf that(1) failed(1) that(2)] by blast
  show ?thesis
    using failed(1) other write_audit_audited(2)[of _ db r]
    by (auto simp: db' failed_purge_def id purge_outcome_def purge_failed_row_def purge_untouched_def)
next
  case (purged r objs)
  note key = media_wf_safe_key[OF wf purged(1)]
  have id: "ra_id r = i" using purged(1) by (auto dest: get_recordingD)
  from p purged(5) have db': "b = True" "k = False" "db' = write_audit (purged_row actor now r) actor ''success'' None
         (update_recording i (purged_row actor now) (redact_by_recording_id i now (db\<lparr>md_objects := objs\<rparr>)))" by auto
  have other: "objs (ra_storage_key s) = md_objects db (ra_storage_key s)" if "get_recording j db = Some s" "j \<noteq> i" for j s
    using delete_others[OF key purged(4)] media_wf_other_key[OF wf that(1) purged(1) that(2)] by blast
  have gone: "objs (ra_storage_key r) = None" using delete_removes[OF key purged(4)] .
  show ?thesis
    using purged(1) other gone write_audit_audited(1)[of _ db "purged_row actor now r"]
    by (auto simp: db' id redact_by_recording_id_def purge_outcome_def purge_untouched_def)
qed (use i in \<open>auto simp: purgeable_def\<close>)

lemma purge_each_exact:
  assumes "media_wf db" "distinct is" "\<forall>i \<in> set is. purgeable db i"
    "purge_each client actor now is (ids, s, f) db = (db', x)"
  shows "\<exists>seen rest new. is = seen @ rest \<and> (new = seen \<or> seen \<noteq> [] \<and> new = butlast seen) \<and>
    (if rest = [] then x = Inr (ids @ new, s, f + py_len seen - py_len new) else new \<noteq> seen \<and> x = Inl missing_greenlet) \<and>
    (\<forall>i \<in> set seen. purge_outcome actor now db db' (i \<in> set new) i) \<and> (\<forall>i. i \<notin> set seen \<longrightarrow> purge_untouched db db' i) \<and>
    purge_audited db db' seen new \<and> md_work db' = md_work db"
  using assms
proof (induction "is" arbitrary: ids s f db)
  case Nil
  then show ?case by (intro exI[of _ "[]"]) (auto simp: py_len_def purge_untouched_def purge_audited_def)
next
  case (Cons i "is")
  obtain b k db1 where p: "purge_recording client actor now i db = ((b, k), db1)" by (metis surj_pair)
  have "purgeable db i" using Cons.prems(3) by simp
  from purge_one[OF Cons.prems(1) this p] have one: "\<not> k" "purge_outcome actor now db db1 b i" "\<And>j. j \<noteq> i \<Longrightarrow> purge_untouched db db1 j"
    "purge_audited db db1 [i] (if b then [i] else [])" "md_work db1 = md_work db" by simp_all
  show ?case
  proof (cases b)
    case False
    with Cons.prems(4) p one(1) have "db1 = db'" "x = (if is = [] then Inr (ids, s, f + 1) else Inl missing_greenlet)"
      by (auto split: if_splits)
    with False one show ?thesis
      by (intro exI[of _ "[i]"] exI[of _ "is"] exI[of _ "[]"]) (auto simp: py_len_def)
  next
    case True
    have wf1: "media_wf db1" using purge_step_ok[of db client actor now i] Cons.prems(1) p by (simp add: media_step_ok_def)
    have able: "\<forall>j \<in> set is. purgeable db1 j"
    proof
      fix j assume j: "j \<in> set is"
      with Cons.prems(2) have "j \<noteq> i" by auto
      with j one(3)[of j] Cons.prems(3) show "purgeable db1 j" by (simp add: purgeable_def purge_untouched_def)
    qed
    from Cons.prems(4) p True have run: "purge_each client actor now is (ids @ [i], s, f) db1 = (db', x)" by simp
    from Cons.IH[OF wf1 _ able run] Cons.prems(2) obtain seen rest new where
      new: "is = seen @ rest" "new = seen \<or> seen \<noteq> [] \<and> new = butlast seen"
        "if rest = [] then x = Inr ((ids @ [i]) @ new, s, f + py_len seen - py_len new) else new \<noteq> seen \<and> x = Inl missing_greenlet"
        "\<forall>i \<in> set seen. purge_outcome actor now db1 db' (i \<in> set new) i" "\<forall>i. i \<notin> set seen \<longrightarrow> purge_untouched db1 db' i"
        "purge_audited db1 db' seen new" "md_work db' = md_work db1" by auto
    have sub: "set new \<subseteq> set seen" using new(2) by (auto dest: in_set_butlastD)
    have i: "i \<notin> set seen" "i \<notin> set new" using Cons.prems(2) new(1) sub by auto
    have "purge_outcome actor now db db' True i"
      using one(2) True new(5)[rule_format, OF i(1)] by (auto simp: purge_outcome_def purge_untouched_def)
    moreover have "purge_outcome actor now db db' (j \<in> set new) j" if "j \<in> set seen" for j
    proof -
      from i(1) that have "j \<noteq> i" by auto
      from new(4)[rule_format, OF that] one(3)[OF this] show ?thesis
        by (cases "j \<in> set new") (simp_all add: purge_outcome_def purge_untouched_def)
    qed
    ultimately have outcomes: "\<forall>j \<in> set (i # seen). purge_outcome actor now db db' (j \<in> set (i # new)) j"
      using i by (metis list.set_intros(1) set_ConsD list.set_intros(2))
    have others: "\<forall>j. j \<notin> set (i # seen) \<longrightarrow> purge_untouched db db' j"
      using one(3) new(5) by (auto simp: purge_untouched_def)
    have audited: "purge_audited db db' (i # seen) (i # new)"
      using purge_audited_append[OF one(4) new(6)] sub i(1) True by simp
    have "i # new = i # seen \<or> i # seen \<noteq> [] \<and> i # new = butlast (i # seen)" using new(2) by auto
    moreover have "if rest = [] then x = Inr (ids @ (i # new), s, f + py_len (i # seen) - py_len (i # new))
        else i # new \<noteq> i # seen \<and> x = Inl missing_greenlet" using new(3) by (auto simp: py_len_def split: if_splits)
    moreover have "i # is = (i # seen) @ rest" "md_work db' = md_work db" using new(1,7) one(5) by simp_all
    ultimately show ?thesis using outcomes others audited by blast
  qed
qed

end

lemma butlast_same: "butlast xs = xs \<longleftrightarrow> xs = []"
  by (cases xs rule: rev_cases) auto

lemma expired_selection:
  assumes "media_wf db"
  shows "set (get_expired_for_retention d now limit db) \<subseteq> {r \<in> set (md_recordings db). retention_expired d now db r}"
    "distinct (map ra_id (get_expired_for_retention d now limit db))"
    "r \<in> set (get_expired_for_retention d now limit db) \<Longrightarrow> get_recording (ra_id r) db = Some r \<and> purgeable db (ra_id r)"
proof -
  let ?sel = "get_expired_for_retention d now limit db"
  have ids: "distinct (map ra_id (md_recordings db))" using assms by (simp add: media_wf_def media_keys_ok_def)
  show sel: "set ?sel \<subseteq> {r \<in> set (md_recordings db). retention_expired d now db r}"
    using set_take_subset by (fastforce simp: get_expired_for_retention_def oldest_first_def)
  have "distinct ?sel" using ids
    by (simp add: get_expired_for_retention_def oldest_first_def distinct_map distinct_sort)
  moreover have "inj_on ra_id (set ?sel)" using ids sel by (auto simp: distinct_map intro: inj_on_subset)
  ultimately show "distinct (map ra_id ?sel)" by (simp add: distinct_map)
  show "get_recording (ra_id r) db = Some r \<and> purgeable db (ra_id r)" if "r \<in> set ?sel"
  proof -
    have r: "r \<in> set (md_recordings db)" "retention_expired d now db r" using sel that by auto
    have "get_recording (ra_id r) db = Some r"
      using find_row_unique[of ra_id "md_recordings db" r] ids r(1) by (simp add: get_recording_def)
    moreover have "ra_purged_at r = None" "ra_status r \<noteq> RECORDING_ASSET_STATUS_PURGED"
      using r(2) by (auto simp: retention_expired_def Let_def recording_status_defs)
    ultimately show ?thesis by (simp add: purgeable_def)
  qed
qed

lemma redacted_empty: "\<not> has_content (map_option (redact_transcript now) t)"
  by (cases t) (simp_all add: has_content_def redact_transcript_def)

text \<open>
  Property C21. A run of the retention purge looks at recordings whose retention is over, in the
  order of the selection, and at no others, up to the first whose deletion the store refuses: the
  run of those it looked at is purged (the row says when and why, the object is gone from the
  store, nothing is left of the transcript) except for a refused one at its end, which is marked
  as failed with its transcript as it was. If nothing of the selection is left, the run answers
  with exact counts; otherwise it ends with an exception and what is left waits for the next run.
  Every recording that was looked at has one new audit, in order, with its outcome, and no other
  recording or transcript changes.
\<close>

theorem retention_purge_exact:
  assumes "object_store client" "media_wf db"
    and run: "purge_expired_media_assets cfg client (Some retention_days) limit now actor_type actor_id db = (db', x)"
    and positive: "0 < retention_days"
  shows "\<exists>seen rest purged. get_expired_for_retention retention_days now limit db = seen @ rest \<and>
    (purged = seen \<or> seen \<noteq> [] \<and> purged = butlast seen) \<and>
    (if rest = [] then x = Inr \<lparr>pr_scanned_count = py_len seen, pr_purged_count = py_len purged, pr_skipped_count = 0,
         pr_failed_count = py_len seen - py_len purged, pr_purged_recording_ids = map ra_id purged\<rparr>
     else purged \<noteq> seen \<and> x = Inl missing_greenlet) \<and>
    (\<forall>r \<in> set seen. retention_expired retention_days now db r \<and>
       (if r \<in> set purged
        then (\<exists>r'. get_recording (ra_id r) db' = Some r' \<and> ra_status r' = RECORDING_ASSET_STATUS_PURGED \<and> ra_purged_at r' = Some now \<and>
                ra_purge_reason r' = Some ''retention_expired'') \<and>
             md_objects db' (ra_storage_key r) = None \<and> \<not> has_content (get_transcript (ra_id r) db')
        else (\<exists>r'. get_recording (ra_id r) db' = Some r' \<and> ra_status r' = ra_status r \<and> ra_purge_status r' = Some ''failed'') \<and>
             get_transcript (ra_id r) db' = get_transcript (ra_id r) db)) \<and>
    (\<forall>i. i \<notin> ra_id ` set seen \<longrightarrow> get_recording i db' = get_recording i db \<and> get_transcript i db' = get_transcript i db) \<and>
    purge_audited db db' (map ra_id seen) (map ra_id purged)"
proof -
  let ?actor = "\<lparr>pa_reason = ''retention_expired'', pa_actor_type = actor_type, pa_actor_id = actor_id\<rparr>"
  define sel where "sel = get_expired_for_retention retention_days now limit db"
  note sel_facts = expired_selection[OF assms(2), where d = retention_days and now = now and limit = limit, folded sel_def]
  obtain y where each: "purge_each client ?actor now (map ra_id sel) ([], 0, 0) db = (db', y)"
    and x: "x = bind_result y (\<lambda>(ids, s, f). Inr \<lparr>pr_scanned_count = py_len sel, pr_purged_count = py_len ids,
      pr_skipped_count = s, pr_failed_count = f, pr_purged_recording_ids = ids\<rparr>)"
    using run positive
    by (fastforce simp: purge_expired_media_assets_def sel_def[symmetric] purge_all_def bind_op_def lift_op_def bind_result_def
        split: prod.splits sum.splits)
  have "\<forall>i \<in> set (map ra_id sel). purgeable db i" using sel_facts(3) by auto
  from object_store.purge_each_exact[OF assms(1,2) sel_facts(2) this each] obtain seen_ids rest_ids new where
    ids: "map ra_id sel = seen_ids @ rest_ids" "new = seen_ids \<or> seen_ids \<noteq> [] \<and> new = butlast seen_ids"
      "if rest_ids = [] then y = Inr ([] @ new, 0, 0 + py_len seen_ids - py_len new) else new \<noteq> seen_ids \<and> y = Inl missing_greenlet"
      "\<forall>i \<in> set seen_ids. purge_outcome ?actor now db db' (i \<in> set new) i" "\<forall>i. i \<notin> set seen_ids \<longrightarrow> purge_untouched db db' i"
      "purge_audited db db' seen_ids new" by blast
  define seen rest where "seen = take (length seen_ids) sel" and "rest = drop (length seen_ids) sel"
  have split: "sel = seen @ rest" by (simp add: seen_def rest_def)
  have seen: "map ra_id seen = seen_ids" "map ra_id rest = rest_ids"
    using ids(1) by (simp_all add: seen_def rest_def flip: take_map drop_map)
  define purged where "purged = (if new = seen_ids then seen else butlast seen)"
  have purged: "map ra_id purged = new" "purged = seen \<or> seen \<noteq> [] \<and> purged = butlast seen" "(purged \<noteq> seen) = (new \<noteq> seen_ids)"
    using ids(2) seen(1) butlast_same[of seen] butlast_same[of seen_ids] by (auto simp: purged_def map_butlast)
  have inj: "inj_on ra_id (set sel)" using sel_facts(2) by (simp add: distinct_map)
  have sub: "set purged \<subseteq> set seen" using purged(2) by (auto dest: in_set_butlastD)
  have one: "retention_expired retention_days now db r \<and>
       (if r \<in> set purged
        then (\<exists>r'. get_recording (ra_id r) db' = Some r' \<and> ra_status r' = RECORDING_ASSET_STATUS_PURGED \<and> ra_purged_at r' = Some now \<and>
                ra_purge_reason r' = Some ''retention_expired'') \<and>
             md_objects db' (ra_storage_key r) = None \<and> \<not> has_content (get_transcript (ra_id r) db')
        else (\<exists>r'. get_recording (ra_id r) db' = Some r' \<and> ra_status r' = ra_status r \<and> ra_purge_status r' = Some ''failed'') \<and>
             get_transcript (ra_id r) db' = get_transcript (ra_id r) db)" if r: "r \<in> set seen" for r
  proof -
    have r': "r \<in> set sel" using r split by simp
    have new: "ra_id r \<in> set new \<longleftrightarrow> r \<in> set purged"
      unfolding purged(1)[symmetric] set_map using inj_on_image_mem_iff[OF inj r', of "set purged"] sub split by auto
    have "ra_purged_at r = None" using sel_facts(3)[OF r'] by (auto simp: purgeable_def)
    moreover have "purge_outcome ?actor now db db' (ra_id r \<in> set new) (ra_id r)" using ids(4) r by (auto simp flip: seen(1))
    moreover have "retention_expired retention_days now db r" using sel_facts(1) r' by auto
    ultimately show ?thesis using sel_facts(3)[OF r'] redacted_empty
      by (cases "r \<in> set purged") (simp_all add: new purge_outcome_def purged_row_def mark_recording_purged_def purge_failed_row_def)
  qed
  have others: "\<forall>i. i \<notin> ra_id ` set seen \<longrightarrow> get_recording i db' = get_recording i db \<and> get_transcript i db' = get_transcript i db"
    using ids(5) by (auto simp: purge_untouched_def simp flip: seen(1))
  have lens: "py_len seen_ids = py_len seen" "py_len new = py_len purged"
    using seen(1) purged(1) by (auto simp: py_len_def)
  have answer: "if rest = [] then x = Inr \<lparr>pr_scanned_count = py_len seen, pr_purged_count = py_len purged, pr_skipped_count = 0,
         pr_failed_count = py_len seen - py_len purged, pr_purged_recording_ids = map ra_id purged\<rparr>
     else purged \<noteq> seen \<and> x = Inl missing_greenlet"
    using ids(3) x seen(2) split by (auto simp: purged bind_result_def lens split: if_splits)
  show ?thesis
    using split purged(2) answer one others ids(6) unfolding seen(1)[symmetric] purged(1)[symmetric] sel_def by blast
qed

section \<open>Erased media\<close>

lemma transcript_of_recording:
  assumes "media_wf db" "get_transcript_by_recording_id i db = Some t"
  shows "get_transcript i db = Some t"
proof -
  from assms(2) have "t \<in> set (md_transcripts db)" "tr_recording_id t = i"
    by (auto simp: get_transcript_by_recording_id_def dest: find_row_SomeD)
  with assms(1) find_row_unique[of tr_recording_id "md_transcripts db" t] show ?thesis
    by (simp add: get_transcript_def media_wf_def media_keys_ok_def)
qed

lemma erased_pair:
  assumes "media_pair_ok r t" "is_deleted_or_purged r"
  shows "ra_deleted_at r \<noteq> None" "\<not> is_downloadable (Some r)" "\<not> has_content t"
  using assms by (auto simp: media_pair_ok_def recording_ok_def is_deleted_or_purged_def is_downloadable_def)

text \<open>
  Property C15. What a candidate deleted or a purge removed stays removed. From empty tables, under
  any sequence of consents, uploads, completions, deletions, purges, transcription jobs and other
  transactions: the recording keeps its deletion time (and a purged one its time and reason), it
  is never offered for download again, no text or segment of its transcript comes back (also from
  a transcription that was running when it was deleted), and no evaluation reads it.
\<close>

theorem erased_media_stay_erased:
  assumes start: "media_start db0" and past: "media_step\<^sup>*\<^sup>* db0 db1"
    and r: "get_recording i db1 = Some r" and erased: "is_deleted_or_purged r" and later: "media_step\<^sup>*\<^sup>* db1 db2"
  shows "\<exists>r'. get_recording i db2 = Some r' \<and> ra_deleted_at r' = ra_deleted_at r \<and> ra_deleted_at r \<noteq> None \<and>
    (ra_purged_at r \<noteq> None \<longrightarrow> ra_purged_at r' = ra_purged_at r \<and> ra_purge_reason r' = ra_purge_reason r) \<and>
    \<not> is_downloadable (Some r') \<and> \<not> is_playback_safe (Some r') \<and> \<not> has_content (get_transcript i db2) \<and>
    \<not> transcript_is_ready_for_evaluation (get_transcript_by_recording_id i db2)"
proof -
  have wf1: "media_wf db1" using media_services.inv_reachable[OF start past] .
  with media_steps_ok[OF later] have wf2: "media_wf db2" and kept: "media_kept db1 db2" by (simp_all add: media_step_ok_def)
  from kept r obtain r' where r': "get_recording i db2 = Some r'" "recording_kept r r'" unfolding media_kept_def by blast
  have p1: "media_pair_ok r (get_transcript i db1)" using wf1 r by (simp add: media_wf_def)
  have p2: "media_pair_ok r' (get_transcript i db2)" using wf2 r' by (simp add: media_wf_def)
  have e2: "is_deleted_or_purged r'" using erased_pair(1)[OF p1 erased] r'(2) by (auto simp: recording_kept_def is_deleted_or_purged_def)
  note now_erased = erased_pair[OF p2 e2]
  have "\<not> transcript_is_ready_for_evaluation (get_transcript_by_recording_id i db2)"
  proof (cases "get_transcript_by_recording_id i db2")
    case (Some t)
    with transcript_of_recording[OF wf2 Some] now_erased(3) show ?thesis
      by (auto simp: has_content_def transcript_is_ready_for_evaluation_def transcript_evaluation_state_def split: option.splits)
  qed (simp add: transcript_is_ready_for_evaluation_def transcript_evaluation_state_def)
  with r' now_erased erased_pair(1)[OF p1 erased] show ?thesis by (auto simp: recording_kept_def is_playback_safe_def)
qed

text \<open>
  Property C39. The media tables stay consistent: the storage keys are unique, relative and free of
  empty, dot and dot-dot segments, every recording has at most one transcript, a status is one of
  the known ones and agrees with the deletion and purge times, and a recording that is ready has
  a ready transcript with a non-empty text.
\<close>

theorem media_tables_consistent:
  assumes start: "media_start db0" and steps: "media_step\<^sup>*\<^sup>* db0 db"
  shows "distinct (map ra_storage_key (md_recordings db)) \<and> distinct (map tr_recording_id (md_transcripts db)) \<and>
    (\<forall>r \<in> set (md_recordings db).
       list_all safe_key_char (ra_storage_key r) \<and>
       (\<forall>part \<in> set (split_char (CHR ''/'') (ra_storage_key r)). part \<notin> {[], ''.'', ''..''}) \<and>
       ra_status r \<in> set RECORDING_ASSET_STATUSES \<and>
       (ra_purged_at r \<noteq> None \<longleftrightarrow> ra_status r = RECORDING_ASSET_STATUS_PURGED) \<and>
       (ra_deleted_at r \<noteq> None \<longleftrightarrow> ra_status r \<in> {RECORDING_ASSET_STATUS_DELETED, RECORDING_ASSET_STATUS_PURGED}) \<and>
       (ra_status r = RECORDING_ASSET_STATUS_READY \<longrightarrow>
          (\<exists>t s. get_transcript (ra_id r) db = Some t \<and> tr_status t = ''ready'' \<and> tr_text t = Some s \<and> s \<noteq> [])))"
proof -
  have wf: "media_wf db" using media_services.inv_reachable[OF start steps] .
  then have keys: "media_keys_ok db" by (simp add: media_wf_def)
  have safe: "list_all safe_key_char k \<and> (\<forall>part \<in> set (split_char (CHR ''/'') k). part \<notin> {[], ''.'', ''..''})"
    if "ensure_safe_storage_key k = Inr k" for k
  proof -
    from that have "py_strip k = k" by (auto simp: ensure_safe_storage_key_def Let_def split: if_splits)
    with that show ?thesis by (auto simp: ensure_safe_storage_key_def Let_def split: if_splits)
  qed
  show ?thesis
  proof (intro conjI ballI)
    fix r assume r: "r \<in> set (md_recordings db)"
    have "media_pair_ok r (get_transcript (ra_id r) db)"
      using find_row_unique[of ra_id "md_recordings db" r] wf keys r by (simp add: media_wf_def media_keys_ok_def get_recording_def)
    note pair = this[unfolded media_pair_ok_def recording_ok_def]
    show "part \<notin> {[], ''.'', ''..''}" if "part \<in> set (split_char (CHR ''/'') (ra_storage_key r))" for part
      using safe[of "ra_storage_key r"] keys r that by (simp add: media_keys_ok_def)
    show "list_all safe_key_char (ra_storage_key r)" using safe[of "ra_storage_key r"] keys r by (simp add: media_keys_ok_def)
    show "ra_status r \<in> set RECORDING_ASSET_STATUSES" "(ra_purged_at r \<noteq> None) = (ra_status r = RECORDING_ASSET_STATUS_PURGED)"
      "(ra_deleted_at r \<noteq> None) = (ra_status r \<in> {RECORDING_ASSET_STATUS_DELETED, RECORDING_ASSET_STATUS_PURGED})"
      "ra_status r = RECORDING_ASSET_STATUS_READY \<longrightarrow>
        (\<exists>t s. get_transcript (ra_id r) db = Some t \<and> tr_status t = ''ready'' \<and> tr_text t = Some s \<and> s \<noteq> [])"
      using pair by simp_all
  qed (use keys in \<open>simp_all add: media_keys_ok_def\<close>)
qed

section \<open>Accepted uploads\<close>

lemma transcribe_key_stripped [simp]:
  "py_strip (transcribe_recording_idempotency_key i) = transcribe_recording_idempotency_key i"
  "py_strip TRANSCRIBE_RECORDING_JOB_TYPE = TRANSCRIBE_RECORDING_JOB_TYPE"
proof -
  have w: "\<not> py_space (CHR ''t'')" by code_simp
  show "py_strip (transcribe_recording_idempotency_key i) = transcribe_recording_idempotency_key i"
    by (rule py_strip_id; simp add: transcribe_recording_idempotency_key_def int_str_last w)
  show "py_strip TRANSCRIBE_RECORDING_JOB_TYPE = TRANSCRIBE_RECORDING_JOB_TYPE" by code_simp
qed

lemma ensure_job_InrD:
  assumes "ensure_transcription_job r company now w = Inr w'" "jobs_wf (queue (wk_app w))"
  shows "load_idempotent_job company TRANSCRIBE_RECORDING_JOB_TYPE (transcribe_recording_idempotency_key (ra_id r)) (queue (wk_app w')) \<noteq> None"
    "wk_submissions w' = wk_submissions w" "jobs_wf (queue (wk_app w'))"
proof -
  let ?spec = "\<lparr>sp_job_type = TRANSCRIBE_RECORDING_JOB_TYPE, sp_idempotency_key = transcribe_recording_idempotency_key (ra_id r),
        sp_payload_json = build_transcribe_recording_payload (ra_id r) (ra_candidate_session_id r) (ra_task_id r) company,
        sp_candidate_session_id = Some (ra_candidate_session_id r), sp_max_attempts = TRANSCRIBE_RECORDING_MAX_ATTEMPTS,
        sp_correlation_id = Some (''recording:'' @ int_str (ra_id r)), sp_next_run_at = None\<rparr>"
  from assms(1) obtain j q where c: "create_or_get_idempotent (\<lambda>db. db) ?spec company False now (queue (wk_app w)) = Inr (j, q)"
    and w': "w' = w\<lparr>wk_app := (wk_app w)\<lparr>queue := q\<rparr>\<rparr>"
    unfolding ensure_transcription_job_def bind_result_Inr_iff id_def by auto
  note facts = create_or_get_facts[OF assms(2) commits_id c]
  show "load_idempotent_job company TRANSCRIBE_RECORDING_JOB_TYPE (transcribe_recording_idempotency_key (ra_id r)) (queue (wk_app w')) \<noteq> None"
    "wk_submissions w' = wk_submissions w" "jobs_wf (queue (wk_app w'))"
    using facts by (simp_all add: w')
qed

lemma upsert_submission:
  "\<exists>s. get_submission c k (snd (upsert_handoff_submission c k i now w)) = Some s \<and> sb_recording_id s = Some i \<and> sb_submitted_at s = now"
  "wk_app (snd (upsert_handoff_submission c k i now w)) = wk_app w"
proof -
  have key: "submission_key (x\<lparr>sb_recording_id := a, sb_submitted_at := b\<rparr>) = submission_key x" for x a b by (simp add: submission_key_def)
  show "\<exists>s. get_submission c k (snd (upsert_handoff_submission c k i now w)) = Some s \<and> sb_recording_id s = Some i \<and> sb_submitted_at s = now"
  proof (cases "get_submission c k w")
    case None
    then show ?thesis by (simp add: upsert_handoff_submission_def get_submission_def find_row_append find_row_Cons submission_key_def)
  next
    case (Some s)
    then show ?thesis by (simp add: upsert_handoff_submission_def get_submission_def find_update key)
  qed
qed (simp add: upsert_handoff_submission_def Let_def split: option.splits)

lemma attach_effects:
  assumes "attach_recording r company clock db = Inr db'" "jobs_wf (queue (wk_app (md_work db)))"
  shows "\<exists>s. get_submission (ra_candidate_session_id r) (ra_task_id r) (md_work db') = Some s \<and> sb_recording_id s = Some (ra_id r) \<and>
      sb_submitted_at s = clock 3"
    "load_idempotent_job company TRANSCRIBE_RECORDING_JOB_TYPE (transcribe_recording_idempotency_key (ra_id r)) (queue (wk_app (md_work db'))) \<noteq> None"
    "get_transcript (ra_id r) db' \<noteq> None" "get_recording i db' = get_recording i db"
proof -
  let ?w = "snd (upsert_handoff_submission (ra_candidate_session_id r) (ra_task_id r) (ra_id r) (clock 3) (md_work db))"
  from assms(1) obtain w where w: "ensure_transcription_job r company (clock 4) ?w = Inr w"
    and db': "db' = (get_or_create_transcript (ra_id r) ''pending'' (clock 2) db)\<lparr>md_work := w\<rparr>" by (rule attach_InrD)
  have "jobs_wf (queue (wk_app ?w))" using assms(2) by (simp add: upsert_submission(2))
  note job = ensure_job_InrD[OF w this]
  have "get_submission c k w = get_submission c k ?w" for c k by (simp add: get_submission_def job(2))
  with upsert_submission(1) show "\<exists>s. get_submission (ra_candidate_session_id r) (ra_task_id r) (md_work db') = Some s \<and>
      sb_recording_id s = Some (ra_id r) \<and> sb_submitted_at s = clock 3" by (simp add: db')
  show "load_idempotent_job company TRANSCRIBE_RECORDING_JOB_TYPE (transcribe_recording_idempotency_key (ra_id r)) (queue (wk_app (md_work db'))) \<noteq> None"
    using job(1) by (simp add: db')
  show "get_transcript (ra_id r) db' \<noteq> None" "get_recording i db' = get_recording i db" by (simp_all add: db' get_transcript_create)
qed

lemma verify_InrD:
  assumes "verify_upload cfg client r objs = Inr ()" "ra_status r \<in> {RECORDING_ASSET_STATUS_UPLOADING, RECORDING_ASSET_STATUS_FAILED}"
  shows "\<exists>x. sc_metadata client (ra_storage_key r) objs = Inr (Some x) \<and> so_size_bytes x = ra_bytes r \<and>
    so_size_bytes x \<le> ms_max_upload_bytes cfg \<and> normalize_content_type (so_content_type x) = normalize_content_type (ra_content_type r) \<and>
    (ra_asset_kind r \<noteq> ''supplemental'' \<longrightarrow> ra_asset_kind r \<in> {[], ''recording''} \<longrightarrow>
       (\<exists>d. so_duration_seconds x = Some d \<and> 0 < d \<and> d \<le> 900))"
  using assms
  by (auto simp: verify_upload_def bind_result_Inr_iff load_uploaded_object_metadata_def storage_result_def
      assert_uploaded_object_matches_expected_def assert_uploaded_recording_duration_within_limit_def Let_def
      MAX_HANDOFF_RECORDING_DURATION_SECONDS_def split: sum.splits external_error.splits option.splits if_splits)

text \<open>
  Property C16. A completed upload has been verified: the candidate owns the recording, the task is a
  hand-off task of the candidate's trial inside its open window, and consent was given; a
  recording that was not accepted before has an object in the store with exactly the announced
  size (within the limit) and content type and, unless it is a supplement, a duration of at most
  fifteen minutes. Then the row is no longer waiting for its upload, carries an expiry, and, for
  a recording, the submission of the task points at it, a transcript row exists and the
  transcription job is queued.
\<close>

theorem completed_upload_is_verified:
  assumes res: "complete_handoff_upload tz from_iso cfg client clock cs task_id v db = Inr (r', db')"
    and wf: "media_wf db" and q: "jobs_wf (queue (wk_app (md_work db)))"
  shows "\<exists>t company i r. load_task_with_company_or_404 task_id (md_work db) = Inr (t, company) \<and>
    tk_trial_id t = cs_trial_id cs \<and> py_lower (tk_type t) = ''handoff'' \<and>
    require_active_window tz from_iso (wk_app (md_work db)) cs t (clock 0) = Inr () \<and>
    mc_consent_timestamp (media_session_of (cs_id cs) db) \<noteq> None \<and>
    parse_recording_id_or_422 v = Inr i \<and> get_recording i db = Some r \<and>
    ra_candidate_session_id r = cs_id cs \<and> ra_task_id r = tk_id t \<and>
    (ra_status r \<in> {RECORDING_ASSET_STATUS_UPLOADING, RECORDING_ASSET_STATUS_FAILED} \<longrightarrow>
       (\<exists>x. sc_metadata client (ra_storage_key r) (md_objects db) = Inr (Some x) \<and> so_size_bytes x = ra_bytes r \<and>
          so_size_bytes x \<le> ms_max_upload_bytes cfg \<and> normalize_content_type (so_content_type x) = normalize_content_type (ra_content_type r) \<and>
          (ra_asset_kind r \<noteq> ''supplemental'' \<longrightarrow> (\<exists>d. so_duration_seconds x = Some d \<and> 0 < d \<and> d \<le> 900)))) \<and>
    get_recording i db' = Some r' \<and> ra_status r' \<notin> {RECORDING_ASSET_STATUS_UPLOADING, RECORDING_ASSET_STATUS_FAILED} \<and>
    ra_retention_expires_at r' \<noteq> None \<and> ra_consent_timestamp r' \<noteq> None \<and>
    (ra_asset_kind r \<noteq> ''supplemental'' \<longrightarrow>
       (\<exists>s. get_submission (cs_id cs) (tk_id t) (md_work db') = Some s \<and> sb_recording_id s = Some i \<and> sb_submitted_at s = clock 3) \<and>
       get_transcript i db' \<noteq> None \<and>
       load_idempotent_job company TRANSCRIBE_RECORDING_JOB_TYPE (transcribe_recording_idempotency_key i) (queue (wk_app (md_work db'))) \<noteq> None)"
proof -
  from res obtain t company i r expires where
    task: "load_task_with_company_or_404 task_id (md_work db) = Inr (t, company)" "tk_trial_id t = cs_trial_id cs" "py_lower (tk_type t) = ''handoff''"
    "require_active_window tz from_iso (wk_app (md_work db)) cs t (clock 0) = Inr ()"
    and con: "require_media_consent (media_session_of (cs_id cs) db) = Inr ()"
    and i: "parse_recording_id_or_422 v = Inr i" and r: "get_recording i db = Some r"
    and own: "ra_candidate_session_id r = cs_id cs" "ra_task_id r = tk_id t" and ver: "verify_upload cfg client r (md_objects db) = Inr ()"
    and exp: "ra_retention_expires_at r = None \<longrightarrow> 0 < ms_retention_days cfg \<and> expires = Some (clock 1 + days (ms_retention_days cfg))"
    and r': "r' = accepted_recording (media_session_of (cs_id cs) db) expires r"
    and fin: "ra_asset_kind r \<in> {[], ''recording''} \<and> attach_recording r' company clock (update_recording (ra_id r) (\<lambda>_. r') db) = Inr db' \<or>
      ra_asset_kind r = ''supplemental'' \<and> db' = update_recording (ra_id r) (\<lambda>_. r') db" by (rule complete_InrD)
  let ?m = "media_session_of (cs_id cs) db"
  have id: "ra_id r = i" using r by (auto dest: get_recordingD)
  have same: "ra_id r' = i" "ra_candidate_session_id r' = cs_id cs" "ra_task_id r' = tk_id t"
    using own by (simp_all add: r' id accepted_recording_def)
  have consent: "mc_consent_timestamp ?m \<noteq> None" using con by (simp add: require_media_consent_def)
  have row: "ra_status r' \<notin> {RECORDING_ASSET_STATUS_UPLOADING, RECORDING_ASSET_STATUS_FAILED} \<and> ra_retention_expires_at r' \<noteq> None \<and>
      ra_consent_timestamp r' \<noteq> None"
    using exp consent unfolding r'
    by (cases "ra_retention_expires_at r") (auto simp: accepted_recording_def copy_candidate_consent_if_missing_def recording_status_defs)
  have object: "\<exists>x. sc_metadata client (ra_storage_key r) (md_objects db) = Inr (Some x) \<and> so_size_bytes x = ra_bytes r \<and>
      so_size_bytes x \<le> ms_max_upload_bytes cfg \<and> normalize_content_type (so_content_type x) = normalize_content_type (ra_content_type r) \<and>
      (ra_asset_kind r \<noteq> ''supplemental'' \<longrightarrow> (\<exists>d. so_duration_seconds x = Some d \<and> 0 < d \<and> d \<le> 900))"
    if "ra_status r \<in> {RECORDING_ASSET_STATUS_UPLOADING, RECORDING_ASSET_STATUS_FAILED}"
    using verify_InrD[OF ver that] fin by auto
  have one: "update_recording (ra_id r) (\<lambda>_. r') db = update_recording i (accepted_recording ?m expires) db"
    unfolding r' id using r wf by (intro update_recording_const) (simp_all add: media_wf_def media_keys_ok_def)
  have here: "get_recording i (update_recording i (accepted_recording ?m expires) db) = Some r'" using r by (simp add: r')
  have effects: "get_recording i db' = Some r' \<and> (ra_asset_kind r \<noteq> ''supplemental'' \<longrightarrow>
       (\<exists>s. get_submission (cs_id cs) (tk_id t) (md_work db') = Some s \<and> sb_recording_id s = Some i \<and> sb_submitted_at s = clock 3) \<and>
       get_transcript i db' \<noteq> None \<and>
       load_idempotent_job company TRANSCRIBE_RECORDING_JOB_TYPE (transcribe_recording_idempotency_key i) (queue (wk_app (md_work db'))) \<noteq> None)"
    using fin unfolding one
  proof (elim disjE conjE)
    assume "attach_recording r' company clock (update_recording i (accepted_recording ?m expires) db) = Inr db'"
    from attach_effects[OF this] q here same show ?thesis by simp
  qed (simp add: here)
  show ?thesis using task consent i r own object row effects by blast
qed

section \<open>Runs on concrete tables\<close>

definition demo_media_settings :: media_settings where
  "demo_media_settings = \<lparr>ms_allowed_content_types = [''video/mp4''], ms_allowed_extensions = [''mp4''], ms_max_upload_bytes = 1000,
     ms_retention_days = 30, ms_delete_enabled = True, ms_signed_url_expires_seconds = 900, ms_signed_url_min_seconds = 60,
     ms_signed_url_max_seconds = 1800\<rparr>"

definition demo_handoff_task :: task where
  "demo_handoff_task = \<lparr>tk_id = 20, tk_trial_id = 3, tk_day_index = 1, tk_type = ''handoff''\<rparr>"

definition demo_media :: "recording_asset list \<Rightarrow> objects \<Rightarrow> media_db" where
  "demo_media rs objs = \<lparr>md_work = demo_work [demo_handoff_task],
     md_sessions = [\<lparr>mc_session_id = 7, mc_candidate_user_id = None, mc_consent_version = Some ''v1'', mc_consent_timestamp = Some 0,
       mc_ai_notice_version = Some ''v1''\<rparr>],
     md_recordings = rs, md_next_recording_id = 2, md_transcripts = [], md_next_transcript_id = 1, md_purge_audits = [], md_objects = objs\<rparr>"

definition demo_upload :: upload_request where
  "demo_upload = \<lparr>uq_content_type = ''video/mp4'', uq_size_bytes = 500, uq_filename = Some ''talk.MP4'', uq_asset_kind = ''recording'',
     uq_duration_seconds = Some 60\<rparr>"

definition demo_recording :: "string \<Rightarrow> recording_asset" where
  "demo_recording status = (new_recording 7 20 ''a/b.mp4''
     \<lparr>ui_content_type = ''video/mp4'', ui_size_bytes = 500, ui_extension = ''mp4'', ui_duration_seconds = Some 60\<rparr> ''recording'' 0)
     \<lparr>ra_id := 1, ra_status := status\<rparr>"

abbreviation "demo_object \<equiv> \<lparr>so_content_type = ''video/mp4'', so_size_bytes = 500, so_duration_seconds = Some 60\<rparr>"

abbreviation "demo_init \<equiv>
  init_handoff_upload demo_zones (\<lambda>_. None) demo_media_settings (fake_provider id) (\<lambda>_. seconds 40000) ''f00'' demo_candidate 20 demo_upload
    (demo_media [] (\<lambda>_. None))"

abbreviation "demo_complete \<equiv>
  complete_handoff_upload demo_zones (\<lambda>_. None) demo_media_settings (fake_provider id) (\<lambda>_. seconds 40000) demo_candidate 20 ''rec_1''
    (demo_media [demo_recording ''uploading''] (\<lambda>k. if k = ''a/b.mp4'' then Some demo_object else None))"

lemma demo_media_wf:
  assumes "status \<in> {''uploading'', ''failed''}"
  shows "media_wf (demo_media [demo_recording status] objs)"
proof -
  have "ensure_safe_storage_key ''a/b.mp4'' = Inr ''a/b.mp4''" by code_simp
  with assms show ?thesis
    by (auto simp: media_wf_def media_keys_ok_def demo_media_def demo_recording_def new_recording_def get_recording_def find_row_Cons
        get_transcript_def media_pair_ok_def recording_ok_def RECORDING_ASSET_STATUSES_def recording_status_defs is_deleted_or_purged_def
        has_content_def split: if_splits)
qed

theorem completed_upload_is_verified_witness:
  "\<exists>r db. demo_complete = Inr (r, db) \<and> get_transcript 1 db \<noteq> None \<and> ra_retention_expires_at r \<noteq> None"
proof -
  let ?db = "demo_media [demo_recording ''uploading''] (\<lambda>k. if k = ''a/b.mp4'' then Some demo_object else None)"
  have "case demo_complete of Inl _ \<Rightarrow> False | Inr (r, db) \<Rightarrow> ra_asset_kind r = ''recording''" by code_simp
  then obtain r db where c: "demo_complete = Inr (r, db)" by (auto split: sum.splits)
  have "jobs_wf (queue (wk_app (md_work ?db)))" using busy_db_wf by (simp add: demo_media_def demo_work_def demo_app_def)
  moreover have "parse_recording_id_or_422 ''rec_1'' = Inr 1" by code_simp
  moreover have "get_recording 1 ?db = Some (demo_recording ''uploading'')" "ra_asset_kind (demo_recording ''uploading'') = ''recording''"
    by (simp_all add: demo_media_def get_recording_def find_row_Cons demo_recording_def new_recording_def)
  ultimately show ?thesis
    using completed_upload_is_verified[OF c demo_media_wf] c by auto
qed

definition demo_expired :: media_db where
  "demo_expired = (demo_media [demo_recording ''failed''] (\<lambda>k. Some demo_object))
     \<lparr>md_work := (demo_work [])\<lparr>wk_app := demo_app\<lparr>sessions := [demo_candidate\<lparr>cs_completed_at := Some 0\<rparr>]\<rparr>\<rparr>\<rparr>"

lemma demo_expired_wf: "media_wf demo_expired"
  using demo_media_wf[of "''failed''" "\<lambda>k. Some demo_object"]
  by (simp add: demo_expired_def media_wf_def media_keys_ok_def get_recording_def get_transcript_def)

abbreviation "demo_purge \<equiv>
  purge_expired_media_assets demo_media_settings (fake_provider id) (Some 30) 200 (days 40) ''system'' None demo_expired"

theorem retention_purge_exact_witness:
  "\<exists>res db. demo_purge = (db, Inr res) \<and> pr_purged_recording_ids res = [1] \<and> md_objects db ''a/b.mp4'' = None"
proof -
  let ?r = "demo_recording ''failed''"
  obtain db x where run: "demo_purge = (db, x)" by (metis surj_pair)
  have "case demo_purge of (db, Inl _) \<Rightarrow> False | (db, Inr res) \<Rightarrow> pr_purged_recording_ids res = [1]" by code_simp
  then obtain res where x: "x = Inr res" and ids: "pr_purged_recording_ids res = [1]" by (auto simp: run split: sum.splits)
  have sel: "get_expired_for_retention 30 (days 40) 200 demo_expired = [?r]" by code_simp
  have row: "ra_id ?r = 1" "ra_storage_key ?r = ''a/b.mp4''" by (simp_all add: demo_recording_def new_recording_def)
  have days: "(0 :: int) < 30" by simp
  from retention_purge_exact[OF fake_store.object_store_axioms demo_expired_wf run days, unfolded sel x]
  obtain seen rest purged where split: "[?r] = seen @ rest"
    and answer: "if rest = [] then (Inr res :: purge_result res) = Inr \<lparr>pr_scanned_count = py_len seen, pr_purged_count = py_len purged,
         pr_skipped_count = 0, pr_failed_count = py_len seen - py_len purged, pr_purged_recording_ids = map ra_id purged\<rparr>
       else purged \<noteq> seen \<and> Inr res = Inl missing_greenlet"
    and purged: "purged = seen \<or> seen \<noteq> [] \<and> purged = butlast seen"
    and gone: "\<forall>r \<in> set seen. retention_expired 30 (days 40) demo_expired r \<and>
       (if r \<in> set purged
        then (\<exists>r'. get_recording (ra_id r) db = Some r' \<and> ra_status r' = RECORDING_ASSET_STATUS_PURGED \<and> ra_purged_at r' = Some (days 40) \<and>
                ra_purge_reason r' = Some ''retention_expired'') \<and>
             md_objects db (ra_storage_key r) = None \<and> \<not> has_content (get_transcript (ra_id r) db)
        else (\<exists>r'. get_recording (ra_id r) db = Some r' \<and> ra_status r' = ra_status r \<and> ra_purge_status r' = Some ''failed'') \<and>
             get_transcript (ra_id r) db = get_transcript (ra_id r) demo_expired)" by blast
  from answer ids have "rest = []" "map ra_id purged = [1]" by (auto split: if_splits)
  with split purged have "?r \<in> set seen" "?r \<in> set purged" by auto
  with gone row have "md_objects db ''a/b.mp4'' = None" by auto
  with run x ids show ?thesis by blast
qed

definition demo_start :: media_db where
  "demo_start = demo_media [] (\<lambda>_. None)"

lemma demo_start_ok: "media_start demo_start"
  by (simp add: media_start_def demo_start_def demo_media_def)

lemma demo_deleted:
  obtains db r where "media_step\<^sup>*\<^sup>* demo_start db" "get_recording 2 db = Some r" "is_deleted_or_purged r"
proof -
  let ?delete = "delete_recording_asset demo_media_settings 2 demo_candidate 50"
  have c: "case demo_init of Inl _ \<Rightarrow> False | Inr (x, db1) \<Rightarrow> (case ?delete db1 of Inl _ \<Rightarrow> False
     | Inr (r, db) \<Rightarrow> (case get_recording 2 db of None \<Rightarrow> False | Some r \<Rightarrow> is_deleted_or_purged r))" by code_simp
  then obtain x db1 where 1: "demo_init = Inr (x, db1)" by (auto split: sum.splits)
  from c 1 obtain r db where 2: "?delete db1 = Inr (r, db)" by (auto split: sum.splits)
  from c 1 2 obtain r2 where r: "get_recording 2 db = Some r2" "is_deleted_or_purged r2" by (auto split: option.splits)
  have "media_step demo_start db1" "media_step db1 db" using media_step.started[OF 1] media_step.deleted[OF 2] by (simp_all add: demo_start_def)
  then have "media_step\<^sup>*\<^sup>* demo_start db" by (meson r_into_rtranclp rtranclp.rtrancl_into_rtrancl)
  with r show thesis using that by blast
qed

theorem erased_media_stay_erased_witness:
  "\<exists>db r. media_step\<^sup>*\<^sup>* demo_start db \<and> get_recording 2 db = Some r \<and> is_deleted_or_purged r \<and> \<not> has_content (get_transcript 2 db)"
proof -
  obtain db r where d: "media_step\<^sup>*\<^sup>* demo_start db" "get_recording 2 db = Some r" "is_deleted_or_purged r" by (rule demo_deleted)
  from erased_media_stay_erased[OF demo_start_ok d rtranclp.rtrancl_refl] d show ?thesis by blast
qed

theorem media_tables_consistent_witness:
  "\<exists>db r. media_step\<^sup>*\<^sup>* demo_start db \<and> get_recording 2 db = Some r \<and> list_all safe_key_char (ra_storage_key r)"
proof -
  obtain db r where d: "media_step\<^sup>*\<^sup>* demo_start db" "get_recording 2 db = Some r" by (rule demo_deleted)
  from media_tables_consistent[OF demo_start_ok d(1)] get_recordingD[OF d(2)] d show ?thesis by blast
qed

section \<open>Retries of a transcription\<close>

text \<open>
  The worker gives a job another run while its attempt, which the claim has counted, is below
  the maximum; the handler's test adds one again, so that the last run but one already surfaces
  the failure, although another run follows.
\<close>

lemma headroom_counts_twice:
  assumes "j_attempt j = j_max_attempts j - 1"
  shows "\<not> transcription_job_has_retry_headroom (Some j) \<and> j_attempt j < j_max_attempts j"
  using assms by (simp add: transcription_job_has_retry_headroom_def)

text \<open>A failure of a second run of the same job erases the transcript of the first.\<close>

lemma failure_erases_ready_transcript:
  assumes "get_recording i db = Some r" "\<not> is_deleted_or_purged r" "get_transcript i db = Some t"
  shows "\<exists>t'. get_transcript i (mark_failure reason i now db) = Some t' \<and> tr_text t' = None \<and> tr_status t' = ''failed''"
  using assms by (simp add: mark_failure_def mark_media_def get_transcript_create)

end
