(* ===== verification/WorkspaceCleanup.thy ===== *)
theory WorkspaceCleanup
  imports CandidateWork "HOL-Library.AList" "HOL-Library.Product_Lexorder"
begin

text \<open>
  The jobs that take back the repositories of candidates: \<open>workspace_cleanup\<close> for a company and
  \<open>trial_cleanup\<close> for a terminated trial. A target is a workspace group or a workspace without a
  group. GitHub's reaction to the n-th call is an argument; the calls are recorded. The rows are
  those loaded at the start of the run, and every path commits the row it worked on.
\<close>

section \<open>Targets\<close>

definition WORKSPACE_CLEANUP_STATUS_PENDING :: string where "WORKSPACE_CLEANUP_STATUS_PENDING = ''pending''"
definition WORKSPACE_CLEANUP_STATUS_ARCHIVED :: string where "WORKSPACE_CLEANUP_STATUS_ARCHIVED = ''archived''"
definition WORKSPACE_CLEANUP_STATUS_DELETED :: string where "WORKSPACE_CLEANUP_STATUS_DELETED = ''deleted''"
definition WORKSPACE_CLEANUP_STATUS_FAILED :: string where "WORKSPACE_CLEANUP_STATUS_FAILED = ''failed''"

definition WORKSPACE_CLEANUP_TERMINAL_STATUSES :: "string list" where
  "WORKSPACE_CLEANUP_TERMINAL_STATUSES = [WORKSPACE_CLEANUP_STATUS_ARCHIVED, WORKSPACE_CLEANUP_STATUS_DELETED]"

lemmas cleanup_status_defs = WORKSPACE_CLEANUP_STATUS_PENDING_def WORKSPACE_CLEANUP_STATUS_ARCHIVED_def
  WORKSPACE_CLEANUP_STATUS_DELETED_def WORKSPACE_CLEANUP_STATUS_FAILED_def WORKSPACE_CLEANUP_TERMINAL_STATUSES_def

text \<open>What the jobs read and write of a group or of a workspace.\<close>

record cleanup_record =
  cr_is_group :: bool
  cr_id :: string
  cr_candidate_session_id :: int
  cr_template_repo_full_name :: "string option"
  cr_repo_full_name :: string
  cr_created_at :: datetime
  cr_cleanup :: cleanup_columns
  cr_access_revoked_at :: "datetime option"
  cr_access_revocation_error :: "string option"

definition record_of_group :: "workspace_group \<Rightarrow> cleanup_record" where
  "record_of_group g = \<lparr>cr_is_group = True, cr_id = wg_id g, cr_candidate_session_id = wg_candidate_session_id g,
     cr_template_repo_full_name = wg_template_repo_full_name g, cr_repo_full_name = wg_repo_full_name g, cr_created_at = wg_created_at g,
     cr_cleanup = wg_cleanup g, cr_access_revoked_at = wg_access_revoked_at g, cr_access_revocation_error = wg_access_revocation_error g\<rparr>"

definition record_of_workspace :: "workspace \<Rightarrow> cleanup_record" where
  "record_of_workspace w = \<lparr>cr_is_group = False, cr_id = ws_id w, cr_candidate_session_id = ws_candidate_session_id w,
     cr_template_repo_full_name = ws_template_repo_full_name w, cr_repo_full_name = ws_repo_full_name w, cr_created_at = ws_created_at w,
     cr_cleanup = ws_cleanup w, cr_access_revoked_at = ws_access_revoked_at w, cr_access_revocation_error = ws_access_revocation_error w\<rparr>"

definition store_record :: "cleanup_record \<Rightarrow> work_db \<Rightarrow> work_db" where
  "store_record r db =
     (if cr_is_group r
      then db\<lparr>wk_workspace_groups := update_rows (\<lambda>g. wg_id g = cr_id r) (\<lambda>g. g\<lparr>wg_cleanup := cr_cleanup r,
             wg_access_revoked_at := cr_access_revoked_at r, wg_access_revocation_error := cr_access_revocation_error r\<rparr>) (wk_workspace_groups db)\<rparr>
      else db\<lparr>wk_workspaces := update_rows (\<lambda>w. ws_id w = cr_id r) (\<lambda>w. w\<lparr>ws_cleanup := cr_cleanup r,
             ws_access_revoked_at := cr_access_revoked_at r, ws_access_revocation_error := cr_access_revocation_error r\<rparr>) (wk_workspaces db)\<rparr>)"

record cleanup_target =
  ct_record :: cleanup_record
  ct_session :: candidate_session
  ct_trial :: trial

definition normalize_repo_full_name :: "string option \<Rightarrow> string option" where
  "normalize_repo_full_name value = (let normalized = py_strip (nonempty_or value []) in if normalized = [] then None else Some normalized)"

definition cleanup_target_repo_key :: "cleanup_record \<Rightarrow> int \<times> string" where
  "cleanup_target_repo_key r = (cr_candidate_session_id r,
     case normalize_repo_full_name (Some (cr_repo_full_name r)) of
       Some repo \<Rightarrow> py_lower repo
     | None \<Rightarrow> ''id:'' @ (if cr_is_group r then ''workspace_group'' else ''workspace'') @ '':'' @ cr_id r)"

fun keep_first :: "('a \<Rightarrow> 'k) \<Rightarrow> 'k list \<Rightarrow> 'a list \<Rightarrow> 'a list" where
  "keep_first key seen [] = []"
| "keep_first key seen (x # xs) =
     (if key x \<in> set seen then keep_first key seen xs else x # keep_first key (key x # seen) xs)"

definition join_target :: "(trial \<Rightarrow> bool) \<Rightarrow> app_db \<Rightarrow> cleanup_record \<Rightarrow> cleanup_target list" where
  "join_target wanted app r =
     (case get_session (cr_candidate_session_id r) app of
        None \<Rightarrow> []
      | Some cs \<Rightarrow> (case get_trial (cs_trial_id cs) app of
          None \<Rightarrow> []
        | Some t \<Rightarrow> if wanted t then [\<lparr>ct_record = r, ct_session = cs, ct_trial = t\<rparr>] else []))"

definition by_age :: "(cleanup_record \<Rightarrow> datetime \<times> string)" where
  "by_age r = (cr_created_at r, cr_id r)"

definition list_cleanup_targets :: "(trial \<Rightarrow> bool) \<Rightarrow> work_db \<Rightarrow> cleanup_target list" where
  "list_cleanup_targets wanted db =
     (let grouped = sort_key by_age (map record_of_group (wk_workspace_groups db));
          legacy = sort_key by_age (map record_of_workspace (filter (\<lambda>w. ws_workspace_group_id w = None) (wk_workspaces db)));
          rows = concat (map (join_target wanted (wk_app db)) (grouped @ legacy))
      in sort_key (\<lambda>t. by_age (ct_record t)) (keep_first (\<lambda>t. cleanup_target_repo_key (ct_record t)) [] rows))"

definition list_company_cleanup_targets :: "int \<Rightarrow> work_db \<Rightarrow> cleanup_target list" where
  "list_company_cleanup_targets company_id = list_cleanup_targets (\<lambda>t. t_company_id t = company_id)"

definition list_trial_cleanup_targets :: "int \<Rightarrow> work_db \<Rightarrow> cleanup_target list" where
  "list_trial_cleanup_targets trial_id = list_cleanup_targets (\<lambda>t. t_id t = trial_id)"

definition load_sessions_with_cutoff :: "int list \<Rightarrow> work_db \<Rightarrow> int list" where
  "load_sessions_with_cutoff ids db = filter (\<lambda>c. c \<in> set ids) (map da_candidate_session_id (wk_audits db))"

section \<open>GitHub\<close>

datatype github_call =
    RemoveCollaborator string string
  | ArchiveRepo string
  | DeleteRepo string

text \<open>The reaction to a call: done, a \<open>GithubError\<close> with its status, or another exception by its type.\<close>

datatype call_outcome = Done | GithubFailed "int option" | Raised string

type_synonym github_host = "nat \<Rightarrow> github_call \<Rightarrow> call_outcome"

datatype cleanup_exception = WorkspaceCleanupRetryableError string | OtherException string

definition TRANSIENT_GITHUB_STATUS_CODES :: "int list" where
  "TRANSIENT_GITHUB_STATUS_CODES = [408, 409, 425, 429, 500, 502, 503, 504]"

definition is_transient_github_error :: "int option \<Rightarrow> bool" where
  "is_transient_github_error status = (case status of None \<Rightarrow> True | Some s \<Rightarrow> s \<in> set TRANSIENT_GITHUB_STATUS_CODES \<or> s \<ge> 500)"

definition github_error_code :: "int option \<Rightarrow> string" where
  "github_error_code status = (case status of None \<Rightarrow> ''github_request_failed'' | Some s \<Rightarrow> ''github_status_'' @ int_str s)"

section \<open>Revocation of access\<close>

definition cleanup_is_complete :: "cleanup_record \<Rightarrow> bool" where
  "cleanup_is_complete r \<longleftrightarrow>
     (\<exists>s \<in> set WORKSPACE_CLEANUP_TERMINAL_STATUSES. cl_status (cr_cleanup r) = Some s) \<and> cl_cleaned_at (cr_cleanup r) \<noteq> None"

type_synonym cleanup_state = "cleanup_record \<times> github_call list"

definition enforce_collaborator_revocation ::
    "github_host \<Rightarrow> candidate_session \<Rightarrow> bool \<Rightarrow> datetime \<Rightarrow> cleanup_state \<Rightarrow> cleanup_state \<times> (cleanup_exception, string) result" where
  "enforce_collaborator_revocation gh cs should_revoke now s =
     (case s of (r, calls) \<Rightarrow>
      if \<not> should_revoke then (s, Inr ''not_required'')
      else if cr_access_revoked_at r \<noteq> None \<and> py_strip (nonempty_or (cr_access_revocation_error r) []) = [] then (s, Inr ''already_revoked'')
      else case normalize_repo_full_name (Some (cr_repo_full_name r)) of
        None \<Rightarrow>
          if cleanup_is_complete r then (s, Inr ''already_cleaned'')
          else ((r\<lparr>cr_access_revocation_error := Some ''missing_repo_full_name''\<rparr>, calls), Inr ''missing_repo'')
      | Some repo \<Rightarrow>
          let username = py_strip (nonempty_or (cs_github_username cs) []) in
          if username = []
          then ((r\<lparr>cr_access_revocation_error := Some ''missing_github_username''\<rparr>, calls), Inr ''missing_github_username'')
          else let call = RemoveCollaborator repo username; calls' = calls @ [call];
                   gone = r\<lparr>cr_access_revoked_at := Some now, cr_access_revocation_error := None\<rparr> in
            (case gh (length calls) call of
               Done \<Rightarrow> ((gone, calls'), Inr ''collaborator_removed'')
             | GithubFailed status \<Rightarrow>
                 if status = Some 404 then ((gone, calls'), Inr ''collaborator_already_removed'')
                 else ((r\<lparr>cr_access_revocation_error := Some (github_error_code status)\<rparr>, calls'),
                       if is_transient_github_error status then Inl (WorkspaceCleanupRetryableError (github_error_code status))
                       else Inr ''collaborator_revocation_failed'')
             | Raised exc \<Rightarrow> ((r, calls'), Inl (OtherException exc))))"

section \<open>Retention\<close>

record cleanup_config =
  cf_retention_days :: int
  cf_cleanup_mode :: string
  cf_delete_enabled :: bool

definition retention_anchor :: "cleanup_record \<Rightarrow> candidate_session \<Rightarrow> datetime" where
  "retention_anchor r cs = (case cs_completed_at cs of Some t \<Rightarrow> t | None \<Rightarrow> cr_created_at r)"

definition workspace_retention_expires_at :: "datetime \<Rightarrow> int \<Rightarrow> datetime" where
  "workspace_retention_expires_at anchor retention_days = anchor + seconds (86400 * retention_days)"

definition retention_cleanup_eligible :: "candidate_session \<Rightarrow> trial \<Rightarrow> bool" where
  "retention_cleanup_eligible cs t \<longleftrightarrow> cs_completed_at cs \<noteq> None \<or> py_lower (py_strip (cs_status cs)) \<in> {''completed'', ''expired''} \<or>
     py_lower (py_strip (t_status t)) = ''terminated''"

definition set_cleanup :: "string \<Rightarrow> datetime option \<Rightarrow> string option \<Rightarrow> cleanup_record \<Rightarrow> cleanup_record" where
  "set_cleanup status cleaned_at err r =
     r\<lparr>cr_cleanup := (cr_cleanup r)\<lparr>cl_status := Some status, cl_cleaned_at := cleaned_at, cl_error := err\<rparr>\<rparr>"

definition failed_cleanup :: "string \<Rightarrow> cleanup_record \<Rightarrow> cleanup_record" where
  "failed_cleanup code r = set_cleanup WORKSPACE_CLEANUP_STATUS_FAILED (cl_cleaned_at (cr_cleanup r)) (Some code) r"

text \<open>The call that takes a repository away, and what its outcome makes of the row.\<close>

definition apply_cleanup_call ::
    "github_host \<Rightarrow> github_call \<Rightarrow> string \<Rightarrow> string \<Rightarrow> string \<Rightarrow> datetime \<Rightarrow> cleanup_state \<Rightarrow>
     cleanup_state \<times> (cleanup_exception, string) result" where
  "apply_cleanup_call gh call done_status done_answer failed_answer now s =
     (case s of (r, calls) \<Rightarrow> let calls' = calls @ [call] in
      case gh (length calls) call of
        Done \<Rightarrow> ((set_cleanup done_status (Some now) None r, calls'), Inr done_answer)
      | GithubFailed status \<Rightarrow>
          if status = Some 404
          then ((set_cleanup WORKSPACE_CLEANUP_STATUS_DELETED (Some now) None r, calls'), Inr ''deleted_repo_missing'')
          else ((failed_cleanup (github_error_code status) r, calls'),
                if is_transient_github_error status then Inl (WorkspaceCleanupRetryableError (github_error_code status))
                else Inr failed_answer)
      | Raised exc \<Rightarrow> ((r, calls'), Inl (OtherException exc)))"

definition apply_retention_cleanup ::
    "github_host \<Rightarrow> cleanup_config \<Rightarrow> datetime \<Rightarrow> cleanup_state \<Rightarrow> cleanup_state \<times> (cleanup_exception, string) result" where
  "apply_retention_cleanup gh cfg now s =
     (case s of (r, calls) \<Rightarrow>
      if cleanup_is_complete r then (s, Inr ''already_cleaned'')
      else case normalize_repo_full_name (Some (cr_repo_full_name r)) of
        None \<Rightarrow> ((failed_cleanup ''missing_repo_full_name'' r, calls), Inr ''failed_missing_repo'')
      | Some repo \<Rightarrow>
          if normalize_repo_full_name (cr_template_repo_full_name r) = Some repo
          then ((failed_cleanup ''protected_template_repo_match'' r, calls), Inr ''failed_protected_template_repo'')
          else if cf_cleanup_mode cfg = ''delete''
          then if \<not> cf_delete_enabled cfg
               then ((failed_cleanup ''delete_mode_disabled'' r, calls), Inr ''failed_delete_disabled'')
               else apply_cleanup_call gh (DeleteRepo repo) WORKSPACE_CLEANUP_STATUS_DELETED ''deleted'' ''failed_delete_permanent'' now s
          else apply_cleanup_call gh (ArchiveRepo repo) WORKSPACE_CLEANUP_STATUS_ARCHIVED ''archived'' ''failed_archive_permanent'' now s)"

section \<open>One target\<close>

type_synonym cleanup_summary = "(string \<times> int) list"

definition new_summary :: "int \<Rightarrow> cleanup_summary" where
  "new_summary n = [(''candidateCount'', n), (''processed'', 0), (''revoked'', 0), (''archived'', 0), (''deleted'', 0), (''failed'', 0),
     (''pending'', 0), (''alreadyCleaned'', 0), (''skippedActive'', 0)]"

definition summarize_result :: "string \<Rightarrow> cleanup_summary \<Rightarrow> cleanup_summary" where
  "summarize_result key s = AList.update key ((case map_of s key of None \<Rightarrow> 0 | Some n \<Rightarrow> n) + 1) s"

definition pending_unless_complete :: "cleanup_record \<Rightarrow> cleanup_record" where
  "pending_unless_complete r =
     (let status = (if cleanup_is_complete r then cl_status (cr_cleanup r) else Some WORKSPACE_CLEANUP_STATUS_PENDING)
      in r\<lparr>cr_cleanup := (cr_cleanup r)\<lparr>cl_status := status,
           cl_error := (if status = Some WORKSPACE_CLEANUP_STATUS_PENDING then None else cl_error (cr_cleanup r))\<rparr>\<rparr>)"

definition revocation_blocked :: "cleanup_record \<Rightarrow> cleanup_record" where
  "revocation_blocked r =
     (if cleanup_is_complete r then r
      else r\<lparr>cr_cleanup := (cr_cleanup r)\<lparr>cl_status := Some WORKSPACE_CLEANUP_STATUS_FAILED,
             cl_error := (if py_strip (nonempty_or (cr_access_revocation_error r) []) \<noteq> [] then cr_access_revocation_error r
                          else cl_error (cr_cleanup r))\<rparr>\<rparr>)"

definition outcome_key :: "string \<Rightarrow> string" where
  "outcome_key status =
     (if status = ''archived'' then ''archived'' else if status \<in> {''deleted'', ''deleted_repo_missing''} then ''deleted''
      else if status = ''already_cleaned'' then ''alreadyCleaned'' else if starts_with ''failed_'' status then ''failed'' else ''pending'')"

text \<open>The last step for an expired target, with what its exceptions leave.\<close>

definition settle_expired ::
    "github_host \<Rightarrow> cleanup_config \<Rightarrow> datetime \<Rightarrow> cleanup_state \<Rightarrow> cleanup_summary \<Rightarrow> cleanup_state \<times> (cleanup_exception, cleanup_summary) result" where
  "settle_expired gh cfg now s summary =
     (case apply_retention_cleanup gh cfg now s of
        (s', Inl e) \<Rightarrow> (s', Inl e)
      | (s', Inr status) \<Rightarrow> (s', Inr (summarize_result (outcome_key status) summary)))"

definition try_cleanup_target ::
    "github_host \<Rightarrow> cleanup_config \<Rightarrow> datetime \<Rightarrow> int list \<Rightarrow> cleanup_target \<Rightarrow> github_call list \<Rightarrow> cleanup_summary \<Rightarrow>
     cleanup_state \<times> (cleanup_exception, cleanup_summary) result" where
  "try_cleanup_target gh cfg now cutoff_ids t calls summary =
     (let cs = ct_session t; r0 = ct_record t;
          expires = workspace_retention_expires_at (retention_anchor r0 cs) (cf_retention_days cfg);
          r = r0\<lparr>cr_cleanup := (cr_cleanup r0)\<lparr>cl_attempted_at := Some now, cl_retention_expires_at := Some expires\<rparr>\<rparr>
      in case enforce_collaborator_revocation gh cs (cs_id cs \<in> set cutoff_ids) now (r, calls) of
           (s, Inl e) \<Rightarrow> (s, Inl e)
         | ((r1, calls1), Inr status) \<Rightarrow>
             if status \<in> {''missing_repo'', ''missing_github_username'', ''collaborator_revocation_failed''}
             then ((revocation_blocked r1, calls1), Inr (summarize_result ''failed'' summary))
             else let summary1 = (if status \<in> {''collaborator_removed'', ''collaborator_already_removed''}
                                  then summarize_result ''revoked'' summary else summary) in
               if \<not> retention_cleanup_eligible cs (ct_trial t)
               then ((pending_unless_complete r1, calls1), Inr (summarize_result ''skippedActive'' (summarize_result ''pending'' summary1)))
               else if \<not> expires < now
               then ((pending_unless_complete r1, calls1), Inr (summarize_result ''pending'' summary1))
               else settle_expired gh cfg now (r1, calls1) summary1)"

text \<open>The row as an exception leaves it, and the exception that leaves the handler.\<close>

definition failed_target :: "cleanup_exception \<Rightarrow> cleanup_record \<Rightarrow> cleanup_record" where
  "failed_target e r =
     r\<lparr>cr_cleanup := (cr_cleanup r)\<lparr>cl_status := Some WORKSPACE_CLEANUP_STATUS_FAILED,
       cl_error := (case e of OtherException n \<Rightarrow> Some n
         | WorkspaceCleanupRetryableError code \<Rightarrow> (case cl_error (cr_cleanup r) of None \<Rightarrow> Some code | Some x \<Rightarrow> Some x))\<rparr>\<rparr>"

definition raised :: "cleanup_exception \<Rightarrow> error" where
  "raised e = (case e of WorkspaceCleanupRetryableError code \<Rightarrow> RuntimeError code | OtherException n \<Rightarrow> ExternalError n [])"

record cleanup_db =
  cu_work :: work_db
  cu_calls :: "github_call list"

definition process_cleanup_target ::
    "github_host \<Rightarrow> cleanup_config \<Rightarrow> datetime \<Rightarrow> int list \<Rightarrow> cleanup_target \<Rightarrow> cleanup_summary \<Rightarrow> (cleanup_db, cleanup_summary) op" where
  "process_cleanup_target gh cfg now cutoff_ids t summary db =
     (case try_cleanup_target gh cfg now cutoff_ids t (cu_calls db) summary of
        ((r, calls), Inl e) \<Rightarrow> (\<lparr>cu_work = store_record (failed_target e r) (cu_work db), cu_calls = calls\<rparr>, Inl (raised e))
      | ((r, calls), Inr summary') \<Rightarrow>
          (\<lparr>cu_work = store_record r (cu_work db), cu_calls = calls\<rparr>, Inr (summarize_result ''processed'' summary')))"

fun process_cleanup_targets ::
    "github_host \<Rightarrow> cleanup_config \<Rightarrow> datetime \<Rightarrow> int list \<Rightarrow> cleanup_target list \<Rightarrow> cleanup_summary \<Rightarrow> (cleanup_db, cleanup_summary) op" where
  "process_cleanup_targets gh cfg now cutoff_ids [] summary = lift_op (Inr summary)"
| "process_cleanup_targets gh cfg now cutoff_ids (t # ts) summary =
     bind_op (process_cleanup_target gh cfg now cutoff_ids t summary) (process_cleanup_targets gh cfg now cutoff_ids ts)"

section \<open>The two jobs\<close>

definition run_cleanup :: "github_host \<Rightarrow> cleanup_config \<Rightarrow> datetime \<Rightarrow> cleanup_target list \<Rightarrow> (cleanup_db, cleanup_summary) op" where
  "run_cleanup gh cfg now targets db =
     process_cleanup_targets gh cfg now (load_sessions_with_cutoff (map (\<lambda>t. cs_id (ct_session t)) targets) (cu_work db)) targets
       (new_summary (py_len targets)) db"

definition summary_json :: "cleanup_summary \<Rightarrow> obj" where
  "summary_json s = map (\<lambda>(k, n). (k, JInt n)) s"

definition handle_workspace_cleanup :: "github_host \<Rightarrow> cleanup_config \<Rightarrow> datetime \<Rightarrow> obj \<Rightarrow> (cleanup_db, obj) op" where
  "handle_workspace_cleanup gh cfg now payload =
     bind_op (lift_op (parse_positive_int (dict_get ''companyId'' payload))) (\<lambda>company_id db.
     case company_id of
       None \<Rightarrow> (db, Inr [(''status'', JStr ''skipped_invalid_payload''), (''companyId'', JNull)])
     | Some c \<Rightarrow>
         bind_op (run_cleanup gh cfg now (list_company_cleanup_targets c (cu_work db))) (\<lambda>summary db'.
         (db', Inr ([(''status'', JStr ''completed''), (''companyId'', JInt c), (''cleanupMode'', JStr (cf_cleanup_mode cfg)),
           (''retentionDays'', JInt (cf_retention_days cfg))] @ summary_json summary))) db)"

definition handle_trial_cleanup :: "github_host \<Rightarrow> cleanup_config \<Rightarrow> datetime \<Rightarrow> obj \<Rightarrow> (cleanup_db, obj) op" where
  "handle_trial_cleanup gh cfg now payload =
     bind_op (lift_op (parse_positive_int (dict_get ''trialId'' payload))) (\<lambda>trial_id db.
     case trial_id of
       None \<Rightarrow> (db, Inr [(''status'', JStr ''skipped_invalid_payload''), (''trialId'', JNull)])
     | Some i \<Rightarrow>
         (case get_trial i (wk_app (cu_work db)) of
            None \<Rightarrow> (db, Inr [(''status'', JStr ''trial_not_found''), (''trialId'', JInt i)])
          | Some t \<Rightarrow>
              if t_status t \<noteq> ''terminated'' then (db, Inr [(''status'', JStr ''skipped_not_terminated''), (''trialId'', JInt i)])
              else bind_op (run_cleanup gh (cfg\<lparr>cf_retention_days := 0\<rparr>) now (list_trial_cleanup_targets i (cu_work db)))
                (\<lambda>summary db'. (db', Inr ([(''status'', JStr ''completed''), (''trialId'', JInt i)] @ summary_json summary))) db))"

section \<open>The job of a company\<close>

definition WORKSPACE_CLEANUP_JOB_TYPE :: string where "WORKSPACE_CLEANUP_JOB_TYPE = ''workspace_cleanup''"
definition WORKSPACE_CLEANUP_MAX_ATTEMPTS :: int where "WORKSPACE_CLEANUP_MAX_ATTEMPTS = 8"

definition workspace_cleanup_idempotency_key :: "int \<Rightarrow> string \<Rightarrow> string res" where
  "workspace_cleanup_idempotency_key company_id run_key =
     (if py_strip run_key = [] then Inl (ValueError ''run_key is required'')
      else Inr (''workspace_cleanup:'' @ int_str company_id @ '':'' @ py_strip run_key))"

text \<open>\<open>now_key\<close> is the current time as \<open>%Y%m%d%H%M%S\<close>.\<close>

definition enqueue_workspace_cleanup_job ::
    "(jobs_db \<Rightarrow> jobs_db) \<Rightarrow> int \<Rightarrow> string option \<Rightarrow> string \<Rightarrow> bool \<Rightarrow> datetime \<Rightarrow> jobs_db \<Rightarrow> (job \<times> jobs_db) res" where
  "enqueue_workspace_cleanup_job env company_id run_key now_key commit now db =
     (let resolved = nonempty_or run_key now_key in
      bind_result (workspace_cleanup_idempotency_key company_id resolved) (\<lambda>key.
      create_or_get_idempotent env
        \<lparr>sp_job_type = WORKSPACE_CLEANUP_JOB_TYPE, sp_idempotency_key = key,
         sp_payload_json = [(''companyId'', JInt company_id), (''runKey'', JStr resolved)], sp_candidate_session_id = None,
         sp_max_attempts = WORKSPACE_CLEANUP_MAX_ATTEMPTS, sp_correlation_id = Some (''workspace_cleanup:'' @ int_str company_id),
         sp_next_run_at = None\<rparr> company_id commit now db))"

end
