(* ===== verification/WorkspaceCleanupRuns.thy ===== *)
theory WorkspaceCleanupRuns
  imports WorkspaceCleanup
begin

text \<open>
  What a cleanup run does to GitHub and to the rows: every call it makes is justified by the
  session, the trial, the retention period and the configuration, and on a host that answers it
  takes away every repository of a terminated trial.
\<close>

section \<open>The calls of a run\<close>

text \<open>The repository of a target may be taken away.\<close>

definition may_take :: "cleanup_config \<Rightarrow> datetime \<Rightarrow> cleanup_target \<Rightarrow> bool" where
  "may_take cfg now t \<longleftrightarrow>
     (cl_cleaned_at (cr_cleanup (ct_record t)) = None \<or>
        cl_status (cr_cleanup (ct_record t)) \<notin> {Some ''archived'', Some ''deleted''}) \<and>
     (cs_completed_at (ct_session t) \<noteq> None \<or> py_lower (py_strip (cs_status (ct_session t))) = ''completed'' \<or>
        py_lower (py_strip (cs_status (ct_session t))) = ''expired'' \<or>
        py_lower (py_strip (t_status (ct_trial t))) = ''terminated'') \<and>
     (case cs_completed_at (ct_session t) of Some d \<Rightarrow> d | None \<Rightarrow> cr_created_at (ct_record t)) +
        seconds (86400 * cf_retention_days cfg) < now"

lemma may_take_eq: "may_take cfg now t \<longleftrightarrow>
    \<not> cleanup_is_complete (ct_record t) \<and> retention_cleanup_eligible (ct_session t) (ct_trial t) \<and>
     workspace_retention_expires_at (retention_anchor (ct_record t) (ct_session t)) (cf_retention_days cfg) < now"
  by (auto simp: may_take_def cleanup_is_complete_def retention_cleanup_eligible_def workspace_retention_expires_at_def
      retention_anchor_def cleanup_status_defs)

definition justified_call :: "cleanup_config \<Rightarrow> datetime \<Rightarrow> work_db \<Rightarrow> cleanup_target \<Rightarrow> github_call \<Rightarrow> bool" where
  "justified_call cfg now db t call =
     (case call of
        RemoveCollaborator repo username \<Rightarrow>
          normalize_repo_full_name (Some (cr_repo_full_name (ct_record t))) = Some repo \<and>
          username = py_strip (nonempty_or (cs_github_username (ct_session t)) []) \<and> username \<noteq> [] \<and>
          (\<exists>a \<in> set (wk_audits db). da_candidate_session_id a = cs_id (ct_session t))
      | ArchiveRepo repo \<Rightarrow>
          normalize_repo_full_name (Some (cr_repo_full_name (ct_record t))) = Some repo \<and>
          normalize_repo_full_name (cr_template_repo_full_name (ct_record t)) \<noteq> Some repo \<and>
          cf_cleanup_mode cfg \<noteq> ''delete'' \<and> may_take cfg now t
      | DeleteRepo repo \<Rightarrow>
          normalize_repo_full_name (Some (cr_repo_full_name (ct_record t))) = Some repo \<and>
          normalize_repo_full_name (cr_template_repo_full_name (ct_record t)) \<noteq> Some repo \<and>
          cf_cleanup_mode cfg = ''delete'' \<and> cf_delete_enabled cfg \<and> may_take cfg now t)"

definition takes_away :: "github_call \<Rightarrow> bool" where
  "takes_away call = (case call of RemoveCollaborator _ _ \<Rightarrow> False | _ \<Rightarrow> True)"

text \<open>The calls made for one target: at most one that revokes, then at most one that takes away.\<close>

definition target_calls :: "cleanup_config \<Rightarrow> datetime \<Rightarrow> work_db \<Rightarrow> cleanup_target \<Rightarrow> github_call list \<Rightarrow> bool" where
  "target_calls cfg now db t calls \<longleftrightarrow> (\<forall>call \<in> set calls. justified_call cfg now db t call) \<and>
     (\<exists>revoke take. calls = revoke @ take \<and> length revoke \<le> 1 \<and> length take \<le> 1 \<and>
        (\<forall>call \<in> set revoke. \<not> takes_away call) \<and> (\<forall>call \<in> set take. takes_away call))"

lemma enforce_calls:
  assumes "enforce_collaborator_revocation gh cs should now (r, calls) = ((r', calls'), x)"
  obtains revoke where "calls' = calls @ revoke" "length revoke \<le> 1"
    "\<forall>call \<in> set revoke. should \<and> (\<exists>repo. normalize_repo_full_name (Some (cr_repo_full_name r)) = Some repo \<and>
       call = RemoveCollaborator repo (py_strip (nonempty_or (cs_github_username cs) [])) \<and> py_strip (nonempty_or (cs_github_username cs) []) \<noteq> [])"
    "cr_cleanup r' = cr_cleanup r" "cr_repo_full_name r' = cr_repo_full_name r" "cr_is_group r' = cr_is_group r" "cr_id r' = cr_id r"
    "cr_template_repo_full_name r' = cr_template_repo_full_name r"
proof -
  let ?user = "py_strip (nonempty_or (cs_github_username cs) [])"
  have "\<exists>revoke. calls' = calls @ revoke \<and> length revoke \<le> 1 \<and>
     (\<forall>call \<in> set revoke. should \<and> (\<exists>repo. normalize_repo_full_name (Some (cr_repo_full_name r)) = Some repo \<and>
       call = RemoveCollaborator repo ?user \<and> ?user \<noteq> [])) \<and>
     cr_cleanup r' = cr_cleanup r \<and> cr_repo_full_name r' = cr_repo_full_name r \<and> cr_is_group r' = cr_is_group r \<and> cr_id r' = cr_id r \<and>
     cr_template_repo_full_name r' = cr_template_repo_full_name r"
    using assms by (auto simp: enforce_collaborator_revocation_def Let_def split: if_splits option.splits call_outcome.splits)
  then show thesis using that by blast
qed

lemma set_cleanup_keeps [simp]:
  "cr_repo_full_name (set_cleanup s c e r) = cr_repo_full_name r" "cr_is_group (set_cleanup s c e r) = cr_is_group r"
  "cr_id (set_cleanup s c e r) = cr_id r" "cr_is_group (failed_cleanup code r) = cr_is_group r" "cr_id (failed_cleanup code r) = cr_id r"
  by (simp_all add: set_cleanup_def failed_cleanup_def)

lemma apply_call_calls:
  assumes "apply_cleanup_call gh call a b c now (r, calls) = ((r', calls'), x)"
  shows "calls' = calls @ [call] \<and> cr_is_group r' = cr_is_group r \<and> cr_id r' = cr_id r"
  using assms by (auto simp: apply_cleanup_call_def Let_def split: call_outcome.splits if_splits)

lemma apply_calls:
  assumes "apply_retention_cleanup gh cfg now (r, calls) = ((r', calls'), x)"
  obtains take where "calls' = calls @ take" "length take \<le> 1"
    "\<forall>call \<in> set take. \<not> cleanup_is_complete r \<and> (\<exists>repo. normalize_repo_full_name (Some (cr_repo_full_name r)) = Some repo \<and>
       normalize_repo_full_name (cr_template_repo_full_name r) \<noteq> Some repo \<and>
       (if cf_cleanup_mode cfg = ''delete'' then cf_delete_enabled cfg \<and> call = DeleteRepo repo else call = ArchiveRepo repo))"
    "cr_is_group r' = cr_is_group r" "cr_id r' = cr_id r"
proof -
  have "\<exists>take. calls' = calls @ take \<and> length take \<le> 1 \<and>
    (\<forall>call \<in> set take. \<not> cleanup_is_complete r \<and> (\<exists>repo. normalize_repo_full_name (Some (cr_repo_full_name r)) = Some repo \<and>
       normalize_repo_full_name (cr_template_repo_full_name r) \<noteq> Some repo \<and>
       (if cf_cleanup_mode cfg = ''delete'' then cf_delete_enabled cfg \<and> call = DeleteRepo repo else call = ArchiveRepo repo))) \<and>
    cr_is_group r' = cr_is_group r \<and> cr_id r' = cr_id r"
    using assms by (auto simp: apply_retention_cleanup_def split: if_splits option.splits dest!: apply_call_calls)
  then show thesis using that by blast
qed

lemma settle_apply: "settle_expired gh cfg now s summary = (s', u) \<Longrightarrow>
    \<exists>z. apply_retention_cleanup gh cfg now s = (s', z) \<and> isl z = isl u"
  by (cases "apply_retention_cleanup gh cfg now s") (auto simp: settle_expired_def split: sum.splits)

lemma pending_keeps [simp]:
  "cr_is_group (pending_unless_complete r) = cr_is_group r" "cr_id (pending_unless_complete r) = cr_id r"
  "cr_is_group (revocation_blocked r) = cr_is_group r" "cr_id (revocation_blocked r) = cr_id r"
  by (simp_all add: pending_unless_complete_def revocation_blocked_def Let_def)

lemma complete_stamped [simp]:
  "cleanup_is_complete (r\<lparr>cr_cleanup := (cr_cleanup r)\<lparr>cl_attempted_at := a, cl_retention_expires_at := b\<rparr>\<rparr>) = cleanup_is_complete r"
  by (simp add: cleanup_is_complete_def)

lemma complete_cong: "cr_cleanup r' = cr_cleanup r \<Longrightarrow> cleanup_is_complete r' = cleanup_is_complete r"
  by (simp add: cleanup_is_complete_def)

abbreviation "stamped now expires r \<equiv>
  r\<lparr>cr_cleanup := (cr_cleanup r)\<lparr>cl_attempted_at := Some now, cl_retention_expires_at := Some expires\<rparr>\<rparr>"

abbreviation "target_expires cfg t \<equiv> workspace_retention_expires_at (retention_anchor (ct_record t) (ct_session t)) (cf_retention_days cfg)"

lemma try_target_cases:
  assumes "try_cleanup_target gh cfg now ids t calls summary = ((r', calls'), x)"
    and "enforce_collaborator_revocation gh (ct_session t) (cs_id (ct_session t) \<in> set ids) now
      (stamped now (target_expires cfg t) (ct_record t), calls) = ((r1, calls1), y)"
  shows "(\<exists>z. retention_cleanup_eligible (ct_session t) (ct_trial t) \<and> target_expires cfg t < now \<and>
      apply_retention_cleanup gh cfg now (r1, calls1) = ((r', calls'), z) \<and> isl z = isl x) \<or>
    calls' = calls1 \<and> r' \<in> {r1, revocation_blocked r1, pending_unless_complete r1} \<and> isl x = isl y \<and>
      (\<forall>status. y = Inr status \<longrightarrow> status \<in> {''missing_repo'', ''missing_github_username'', ''collaborator_revocation_failed''} \<or>
         \<not> retention_cleanup_eligible (ct_session t) (ct_trial t) \<or> \<not> target_expires cfg t < now)"
proof (cases y)
  case (Inl e)
  with assms show ?thesis by (auto simp: try_cleanup_target_def Let_def)
next
  case (Inr status)
  define blocked where "blocked \<longleftrightarrow> status \<in> {''missing_repo'', ''missing_github_username'', ''collaborator_revocation_failed''}"
  define summary1 where "summary1 = (if status \<in> {''collaborator_removed'', ''collaborator_already_removed''}
    then summarize_result ''revoked'' summary else summary)"
  have "(if blocked then ((revocation_blocked r1, calls1), Inr (summarize_result ''failed'' summary))
     else if \<not> retention_cleanup_eligible (ct_session t) (ct_trial t)
     then ((pending_unless_complete r1, calls1), Inr (summarize_result ''skippedActive'' (summarize_result ''pending'' summary1)))
     else if \<not> target_expires cfg t < now then ((pending_unless_complete r1, calls1), Inr (summarize_result ''pending'' summary1))
     else settle_expired gh cfg now (r1, calls1) summary1) = ((r', calls'), x)"
    using assms(1) unfolding try_cleanup_target_def Let_def assms(2)[unfolded Inr] prod.case sum.case blocked_def summary1_def .
  moreover have "blocked \<longleftrightarrow> (status = ''missing_repo'' \<or> status = ''missing_github_username'' \<or> status = ''collaborator_revocation_failed'')"
    by (simp add: blocked_def)
  ultimately show ?thesis using Inr
    by (cases blocked; cases "retention_cleanup_eligible (ct_session t) (ct_trial t)"; cases "target_expires cfg t < now")
      (auto dest: settle_apply)
qed

lemma try_target_calls:
  assumes res: "try_cleanup_target gh cfg now ids t calls summary = ((r', calls'), x)"
    and ids: "\<And>c. c \<in> set ids \<Longrightarrow> \<exists>a \<in> set (wk_audits db). da_candidate_session_id a = c"
  shows "\<exists>new. calls' = calls @ new \<and> target_calls cfg now db t new \<and> cr_is_group r' = cr_is_group (ct_record t) \<and> cr_id r' = cr_id (ct_record t)"
proof -
  let ?cs = "ct_session t" and ?r0 = "ct_record t"
  let ?expires = "workspace_retention_expires_at (retention_anchor ?r0 ?cs) (cf_retention_days cfg)"
  let ?r = "?r0\<lparr>cr_cleanup := (cr_cleanup ?r0)\<lparr>cl_attempted_at := Some now, cl_retention_expires_at := Some ?expires\<rparr>\<rparr>"
  obtain r1 calls1 y where e: "enforce_collaborator_revocation gh ?cs (cs_id ?cs \<in> set ids) now (?r, calls) = ((r1, calls1), y)" by (metis surj_pair)
  from e obtain revoke where rv: "calls1 = calls @ revoke" "length revoke \<le> 1"
    "\<forall>call \<in> set revoke. cs_id ?cs \<in> set ids \<and> (\<exists>repo. normalize_repo_full_name (Some (cr_repo_full_name ?r)) = Some repo \<and>
       call = RemoveCollaborator repo (py_strip (nonempty_or (cs_github_username ?cs) [])) \<and> py_strip (nonempty_or (cs_github_username ?cs) []) \<noteq> [])"
    and same: "cr_cleanup r1 = cr_cleanup ?r" "cr_repo_full_name r1 = cr_repo_full_name ?r" "cr_is_group r1 = cr_is_group ?r" "cr_id r1 = cr_id ?r"
      "cr_template_repo_full_name r1 = cr_template_repo_full_name ?r"
    by (rule enforce_calls)
  have revoke_ok: "justified_call cfg now db t call \<and> \<not> takes_away call" if "call \<in> set revoke" for call
    using rv(3)[rule_format, OF that] ids by (auto simp: justified_call_def takes_away_def)
  from try_target_cases[OF res e] consider (settled) z where "retention_cleanup_eligible ?cs (ct_trial t)" "?expires < now"
      "apply_retention_cleanup gh cfg now (r1, calls1) = ((r', calls'), z)"
    | (kept) "calls' = calls1" "r' \<in> {r1, revocation_blocked r1, pending_unless_complete r1}" by blast
  then show ?thesis
  proof cases
    case settled
    then obtain z where a: "apply_retention_cleanup gh cfg now (r1, calls1) = ((r', calls'), z)" and ok: "retention_cleanup_eligible ?cs (ct_trial t)" "?expires < now"
      by blast
    from a obtain take where tk: "calls' = calls1 @ take" "length take \<le> 1"
      "\<forall>call \<in> set take. \<not> cleanup_is_complete r1 \<and> (\<exists>repo. normalize_repo_full_name (Some (cr_repo_full_name r1)) = Some repo \<and>
       normalize_repo_full_name (cr_template_repo_full_name r1) \<noteq> Some repo \<and>
       (if cf_cleanup_mode cfg = ''delete'' then cf_delete_enabled cfg \<and> call = DeleteRepo repo else call = ArchiveRepo repo))"
      and same': "cr_is_group r' = cr_is_group r1" "cr_id r' = cr_id r1" by (rule apply_calls)
    have "cleanup_is_complete r1 = cleanup_is_complete ?r0" using complete_cong[OF same(1)] by simp
    then have "justified_call cfg now db t call \<and> takes_away call" if "call \<in> set take" for call
      using tk(3)[rule_format, OF that] same(2,5) ok by (auto simp: justified_call_def takes_away_def may_take_eq split: if_splits)
    with revoke_ok rv(2) tk(2) have "target_calls cfg now db t (revoke @ take)" unfolding target_calls_def by auto
    then show ?thesis using rv(1) tk(1) same same' by auto
  next
    case kept
    then have "calls' = calls1 \<and> cr_is_group r' = cr_is_group r1 \<and> cr_id r' = cr_id r1" by auto
    moreover from revoke_ok rv(2) have "target_calls cfg now db t revoke" unfolding target_calls_def
      by (metis append_Nil2 empty_iff empty_set le_numeral_extra(3) le0 list.size(3))
    ultimately show ?thesis using rv(1) same by auto
  qed
qed

section \<open>The whole run\<close>

lemma process_target_calls:
  assumes "process_cleanup_target gh cfg now ids t summary db = (db', x)"
    and "\<And>c. c \<in> set ids \<Longrightarrow> \<exists>a \<in> set (wk_audits w). da_candidate_session_id a = c"
  shows "\<exists>new. cu_calls db' = cu_calls db @ new \<and> target_calls cfg now w t new"
proof -
  obtain r calls y where t: "try_cleanup_target gh cfg now ids t (cu_calls db) summary = ((r, calls), y)" by (metis surj_pair)
  with assms(1) have "cu_calls db' = calls" by (auto simp: process_cleanup_target_def split: sum.splits)
  with try_target_calls[OF t assms(2)] show ?thesis by blast
qed

lemma process_targets_calls:
  assumes "process_cleanup_targets gh cfg now ids ts summary db = (db', x)"
    and "\<And>c. c \<in> set ids \<Longrightarrow> \<exists>a \<in> set (wk_audits w). da_candidate_session_id a = c"
  shows "\<exists>css. cu_calls db' = cu_calls db @ concat css \<and> length css \<le> length ts \<and> (\<not> isl x \<longrightarrow> length css = length ts) \<and>
    (\<forall>i < length css. target_calls cfg now w (ts ! i) (css ! i))"
  using assms(1)
proof (induction ts arbitrary: summary db)
  case Nil
  then show ?case by (auto simp: lift_op_def intro: exI[of _ "[]"])
next
  case (Cons t ts)
  obtain db1 y where p: "process_cleanup_target gh cfg now ids t summary db = (db1, y)" by (metis surj_pair)
  from process_target_calls[OF p assms(2)] obtain new where
    new: "cu_calls db1 = cu_calls db @ new" "target_calls cfg now w t new" by blast
  show ?case
  proof (cases y)
    case (Inl e)
    with Cons.prems p have "db' = db1" by (simp add: bind_op_def)
    moreover from Cons.prems p Inl have "isl x" by (auto simp: bind_op_def)
    ultimately show ?thesis using new by (intro exI[of _ "[new]"]) simp
  next
    case (Inr s1)
    with Cons.prems p have "process_cleanup_targets gh cfg now ids ts s1 db1 = (db', x)" by (simp add: bind_op_def)
    from Cons.IH[OF this] obtain css where css: "cu_calls db' = cu_calls db1 @ concat css" "length css \<le> length ts" "\<not> isl x \<longrightarrow> length css = length ts"
      "\<forall>i < length css. target_calls cfg now w (ts ! i) (css ! i)" by blast
    with new have "target_calls cfg now w ((t # ts) ! i) ((new # css) ! i)" if "i < length (new # css)" for i
      using that by (cases i) auto
    with css new show ?thesis by (intro exI[of _ "new # css"]) auto
  qed
qed

lemma keep_first_distinct: "distinct (map key (keep_first key seen xs)) \<and> set (map key (keep_first key seen xs)) \<inter> set seen = {}"
  by (induction key seen xs rule: keep_first.induct) auto

lemma keep_first_subset: "set (keep_first key seen xs) \<subseteq> set xs"
  by (induction key seen xs rule: keep_first.induct) auto

lemma keep_first_keys: "set (map key (keep_first key seen xs)) \<union> set seen = set (map key xs) \<union> set seen"
  by (induction key seen xs rule: keep_first.induct) auto

lemma targets_complete:
  assumes "r \<in> set (map record_of_group (wk_workspace_groups db)) \<or>
      r \<in> set (map record_of_workspace (filter (\<lambda>w. ws_workspace_group_id w = None) (wk_workspaces db)))"
    and "get_session (cr_candidate_session_id r) (wk_app db) = Some s" "get_trial (cs_trial_id s) (wk_app db) = Some t" "wanted t"
  shows "\<exists>x \<in> set (list_cleanup_targets wanted db). cleanup_target_repo_key (ct_record x) = cleanup_target_repo_key r"
proof -
  let ?key = "\<lambda>t. cleanup_target_repo_key (ct_record t)"
  define rows where "rows = concat (map (join_target wanted (wk_app db)) (sort_key by_age (map record_of_group (wk_workspace_groups db)) @
    sort_key by_age (map record_of_workspace (filter (\<lambda>w. ws_workspace_group_id w = None) (wk_workspaces db)))))"
  have "\<lparr>ct_record = r, ct_session = s, ct_trial = t\<rparr> \<in> set (join_target wanted (wk_app db) r)"
    using assms(2-4) by (simp add: join_target_def)
  with assms(1) have "\<lparr>ct_record = r, ct_session = s, ct_trial = t\<rparr> \<in> set rows"
    unfolding rows_def set_concat set_map set_append set_sort by blast
  then have "cleanup_target_repo_key r \<in> set (map ?key (keep_first ?key [] rows))"
    using keep_first_keys[of ?key "[]" rows] by force
  moreover have "set (list_cleanup_targets wanted db) = set (keep_first ?key [] rows)"
    by (simp add: list_cleanup_targets_def rows_def)
  ultimately show ?thesis by auto
qed

lemma targets_sorted: "sorted (map (\<lambda>t. by_age (ct_record t)) (list_cleanup_targets wanted db))"
  by (simp add: list_cleanup_targets_def Let_def)

lemma targets_listed:
  "distinct (map (\<lambda>t. cleanup_target_repo_key (ct_record t)) (list_cleanup_targets wanted db))"
  "t \<in> set (list_cleanup_targets wanted db) \<Longrightarrow> wanted (ct_trial t)"
proof -
  let ?key = "\<lambda>t. cleanup_target_repo_key (ct_record t)"
  define rows where "rows = concat (map (join_target wanted (wk_app db)) (sort_key by_age (map record_of_group (wk_workspace_groups db)) @
    sort_key by_age (map record_of_workspace (filter (\<lambda>w. ws_workspace_group_id w = None) (wk_workspaces db)))))"
  then have rows: "list_cleanup_targets wanted db = sort_key (\<lambda>t. by_age (ct_record t)) (keep_first ?key [] rows)"
    by (simp add: list_cleanup_targets_def)
  have wanted: "\<forall>t \<in> set rows. wanted (ct_trial t)"
    by (auto simp: rows_def join_target_def split: option.splits if_splits)
  show "distinct (map ?key (list_cleanup_targets wanted db))"
    using keep_first_distinct[of ?key "[]" rows] by (simp add: rows distinct_map)
  show "wanted (ct_trial t)" if "t \<in> set (list_cleanup_targets wanted db)"
    using that keep_first_subset[of ?key "[]" rows] wanted by (auto simp: rows)
qed

lemma run_calls:
  assumes "run_cleanup gh cfg now ts db = (db', x)"
  shows "\<exists>css. cu_calls db' = cu_calls db @ concat css \<and> length css \<le> length ts \<and> (\<not> isl x \<longrightarrow> length css = length ts) \<and>
    (\<forall>i < length css. target_calls cfg now (cu_work db) (ts ! i) (css ! i))"
  using assms unfolding run_cleanup_def
  by (rule process_targets_calls) (auto simp: load_sessions_with_cutoff_def)

text \<open>
  Property C19. A cleanup run of a company spares active work. Its targets are the rows of the
  company's candidates, oldest first, one for each candidate and repository name (names that
  differ in case are one); it goes through them in that order, to the end unless an exception
  stops it, and for each makes at most one call that revokes access, then at most one that takes
  the repository away. Access is revoked only for a candidate whose day was cut off. A repository
  is archived, or deleted in the delete mode when that is enabled, only after the candidate or
  the trial is done and the retention period has passed, only if its row does not say that it
  was archived or deleted, and not under the name that the row has for its template. (Two
  candidates whose rows name the same repository are two targets.)
\<close>

theorem cleanup_spares_active_work:
  assumes res: "handle_workspace_cleanup gh cfg now payload db = (db', x)"
    and company: "parse_positive_int (dict_get ''companyId'' payload) = Inr (Some c)"
  shows "let targets = list_company_cleanup_targets c (cu_work db) in
    distinct (map (\<lambda>t. cleanup_target_repo_key (ct_record t)) targets) \<and> (\<forall>t \<in> set targets. t_company_id (ct_trial t) = c) \<and>
    sorted (map (\<lambda>t. (cr_created_at (ct_record t), cr_id (ct_record t))) targets) \<and>
    (\<forall>w s t. (w \<in> record_of_group ` set (wk_workspace_groups (cu_work db)) \<or>
        w \<in> record_of_workspace ` {w \<in> set (wk_workspaces (cu_work db)). ws_workspace_group_id w = None}) \<and>
       get_session (cr_candidate_session_id w) (wk_app (cu_work db)) = Some s \<and>
       get_trial (cs_trial_id s) (wk_app (cu_work db)) = Some t \<and> t_company_id t = c \<longrightarrow>
       (\<exists>x \<in> set targets. cleanup_target_repo_key (ct_record x) = cleanup_target_repo_key w)) \<and>
    (\<exists>css. cu_calls db' = cu_calls db @ concat css \<and> length css \<le> length targets \<and> (\<not> isl x \<longrightarrow> length css = length targets) \<and>
       (\<forall>i < length css. target_calls cfg now (cu_work db) (targets ! i) (css ! i)))"
proof -
  let ?ts = "list_company_cleanup_targets c (cu_work db)"
  obtain db1 y where run: "run_cleanup gh cfg now ?ts db = (db1, y)" by (metis surj_pair)
  have "cu_calls db' = cu_calls db1 \<and> isl x = isl y" using res run company
    by (cases y) (auto simp: handle_workspace_cleanup_def bind_op_def lift_op_def)
  with run_calls[OF run] have calls: "\<exists>css. cu_calls db' = cu_calls db @ concat css \<and> length css \<le> length ?ts \<and>
      (\<not> isl x \<longrightarrow> length css = length ?ts) \<and> (\<forall>i < length css. target_calls cfg now (cu_work db) (?ts ! i) (css ! i))"
    by simp
  have all: "\<exists>x \<in> set ?ts. cleanup_target_repo_key (ct_record x) = cleanup_target_repo_key w"
    if "w \<in> record_of_group ` set (wk_workspace_groups (cu_work db)) \<or>
        w \<in> record_of_workspace ` {w \<in> set (wk_workspaces (cu_work db)). ws_workspace_group_id w = None}"
      "get_session (cr_candidate_session_id w) (wk_app (cu_work db)) = Some s"
      "get_trial (cs_trial_id s) (wk_app (cu_work db)) = Some t" "t_company_id t = c" for w s t
    unfolding list_company_cleanup_targets_def using that by (intro targets_complete) auto
  have sorted: "sorted (map (\<lambda>t. (cr_created_at (ct_record t), cr_id (ct_record t))) ?ts)"
    using targets_sorted[of "\<lambda>t. t_company_id t = c" "cu_work db"] by (simp add: list_company_cleanup_targets_def by_age_def)
  have listed: "distinct (map (\<lambda>t. cleanup_target_repo_key (ct_record t)) ?ts)" "\<forall>t \<in> set ?ts. t_company_id (ct_trial t) = c"
    using targets_listed[where wanted = "\<lambda>t. t_company_id t = c" and db = "cu_work db"]
    by (simp_all add: list_company_cleanup_targets_def)
  show ?thesis unfolding Let_def using listed sorted all calls by blast
qed

section \<open>Rows\<close>

definition stored_record :: "bool \<Rightarrow> string \<Rightarrow> work_db \<Rightarrow> cleanup_record option" where
  "stored_record is_group i db =
     (if is_group then map_option record_of_group (find_row (\<lambda>g. wg_id g = i) (wk_workspace_groups db))
      else map_option record_of_workspace (find_row (\<lambda>w. ws_id w = i) (wk_workspaces db)))"

definition row_key :: "cleanup_record \<Rightarrow> bool \<times> string" where
  "row_key r = (cr_is_group r, cr_id r)"

text \<open>The columns that a run writes.\<close>

definition written :: "cleanup_record \<Rightarrow> cleanup_columns \<times> datetime option" where
  "written r = (cr_cleanup r, cr_access_revoked_at r)"

lemma find_update_rows:
  assumes "\<And>r. key (f r) = key r"
  shows "find_row (\<lambda>r. key r = j) (update_rows (\<lambda>r. key r = i) f rs) =
    (if j = i then map_option f (find_row (\<lambda>r. key r = i) rs) else find_row (\<lambda>r. key r = j) rs)"
  by (induction rs) (auto simp: update_rows_def find_row_Cons assms)

lemma stored_after_store:
  "stored_record g i (store_record r db) \<noteq> None \<longleftrightarrow> stored_record g i db \<noteq> None"
  "row_key r \<noteq> (g, i) \<Longrightarrow> stored_record g i (store_record r db) = stored_record g i db"
  "stored_record (cr_is_group r) (cr_id r) (store_record r db) = Some x \<Longrightarrow> written x = written r"
  using find_update_rows[of wg_id "\<lambda>g. g\<lparr>wg_cleanup := cr_cleanup r, wg_access_revoked_at := cr_access_revoked_at r,
      wg_access_revocation_error := cr_access_revocation_error r\<rparr>" i "cr_id r" "wk_workspace_groups db"]
    find_update_rows[of wg_id "\<lambda>g. g\<lparr>wg_cleanup := cr_cleanup r, wg_access_revoked_at := cr_access_revoked_at r,
      wg_access_revocation_error := cr_access_revocation_error r\<rparr>" "cr_id r" "cr_id r" "wk_workspace_groups db"]
    find_update_rows[of ws_id "\<lambda>w. w\<lparr>ws_cleanup := cr_cleanup r, ws_access_revoked_at := cr_access_revoked_at r,
      ws_access_revocation_error := cr_access_revocation_error r\<rparr>" i "cr_id r" "wk_workspaces db"]
    find_update_rows[of ws_id "\<lambda>w. w\<lparr>ws_cleanup := cr_cleanup r, ws_access_revoked_at := cr_access_revoked_at r,
      ws_access_revocation_error := cr_access_revocation_error r\<rparr>" "cr_id r" "cr_id r" "wk_workspaces db"]
  by (auto simp: stored_record_def store_record_def row_key_def written_def record_of_group_def record_of_workspace_def split: if_splits)

section \<open>A host that answers\<close>

definition answering :: "github_host \<Rightarrow> bool" where
  "answering gh \<longleftrightarrow> (\<forall>n call. gh n call \<in> {Done, GithubFailed (Some 404)})"

lemma enforce_answers:
  assumes "answering gh"
  shows "\<exists>r' calls' status. enforce_collaborator_revocation gh cs should now (r, calls) = ((r', calls'), Inr status) \<and>
    (normalize_repo_full_name (Some (cr_repo_full_name r)) \<noteq> None \<longrightarrow> (should \<longrightarrow> py_strip (nonempty_or (cs_github_username cs) []) \<noteq> []) \<longrightarrow>
       status \<notin> {''missing_repo'', ''missing_github_username'', ''collaborator_revocation_failed''} \<and> (should \<longrightarrow> cr_access_revoked_at r' \<noteq> None))"
proof -
  have "gh (length calls) call = Done \<or> gh (length calls) call = GithubFailed (Some 404)" for call
    using assms unfolding answering_def by blast
  from this[of "RemoveCollaborator (the (normalize_repo_full_name (Some (cr_repo_full_name r)))) (py_strip (nonempty_or (cs_github_username cs) []))"]
  show ?thesis by (auto simp: enforce_collaborator_revocation_def Let_def split: option.splits)
qed

lemma complete_set [simp]:
  "s \<in> set WORKSPACE_CLEANUP_TERMINAL_STATUSES \<Longrightarrow> cleanup_is_complete (set_cleanup s (Some now) e r)"
  by (auto simp: cleanup_is_complete_def set_cleanup_def)

lemma terminal_statuses [simp]:
  "WORKSPACE_CLEANUP_STATUS_DELETED \<in> set WORKSPACE_CLEANUP_TERMINAL_STATUSES" "WORKSPACE_CLEANUP_STATUS_ARCHIVED \<in> set WORKSPACE_CLEANUP_TERMINAL_STATUSES"
  by (simp_all add: WORKSPACE_CLEANUP_TERMINAL_STATUSES_def)

lemma call_answers:
  assumes "answering gh" "a \<in> set WORKSPACE_CLEANUP_TERMINAL_STATUSES"
  shows "\<exists>r' calls' status. apply_cleanup_call gh call a b c now (r, calls) = ((r', calls'), Inr status) \<and> cleanup_is_complete r' \<and>
    cr_access_revoked_at r' = cr_access_revoked_at r"
proof -
  have "gh (length calls) call = Done \<or> gh (length calls) call = GithubFailed (Some 404)" using assms(1) unfolding answering_def by blast
  moreover have "cr_access_revoked_at (set_cleanup s t e r) = cr_access_revoked_at r" for s t e by (simp add: set_cleanup_def)
  ultimately show ?thesis using assms(2) by (auto simp: apply_cleanup_call_def Let_def)
qed

definition may_be_cleaned :: "cleanup_config \<Rightarrow> cleanup_record \<Rightarrow> bool" where
  "may_be_cleaned cfg r \<longleftrightarrow> normalize_repo_full_name (Some (cr_repo_full_name r)) \<notin> {None, normalize_repo_full_name (cr_template_repo_full_name r)} \<and>
     (cf_cleanup_mode cfg = ''delete'' \<longrightarrow> cf_delete_enabled cfg)"

lemma apply_answers:
  assumes "answering gh"
  shows "\<exists>r' calls' status. apply_retention_cleanup gh cfg now (r, calls) = ((r', calls'), Inr status) \<and>
    (may_be_cleaned cfg r \<longrightarrow> cleanup_is_complete r' \<and> cr_access_revoked_at r' = cr_access_revoked_at r)"
proof -
  note del = call_answers[OF assms terminal_statuses(1), where b = "''deleted''" and c = "''failed_delete_permanent''" and now = now and r = r and calls = calls]
  note arch = call_answers[OF assms terminal_statuses(2), where b = "''archived''" and c = "''failed_archive_permanent''" and now = now and r = r and calls = calls]
  show ?thesis
  proof (cases "cleanup_is_complete r \<or> \<not> may_be_cleaned cfg r")
    case True
    then consider "cleanup_is_complete r" | "normalize_repo_full_name (Some (cr_repo_full_name r)) = None" "\<not> may_be_cleaned cfg r"
      | repo where "normalize_repo_full_name (Some (cr_repo_full_name r)) = Some repo" "\<not> cleanup_is_complete r" "\<not> may_be_cleaned cfg r"
      by (cases "normalize_repo_full_name (Some (cr_repo_full_name r))") auto
    then show ?thesis by cases (auto simp: apply_retention_cleanup_def may_be_cleaned_def)
  next
    case False
    then obtain repo where repo: "normalize_repo_full_name (Some (cr_repo_full_name r)) = Some repo"
      "normalize_repo_full_name (cr_template_repo_full_name r) \<noteq> Some repo" "cf_cleanup_mode cfg = ''delete'' \<longrightarrow> cf_delete_enabled cfg"
      "\<not> cleanup_is_complete r" unfolding may_be_cleaned_def by (cases "normalize_repo_full_name (Some (cr_repo_full_name r))") auto
    show ?thesis
    proof (cases "cf_cleanup_mode cfg = ''delete''")
      case True
      with repo del[of "DeleteRepo repo"] show ?thesis by (simp add: apply_retention_cleanup_def) blast
    next
      case False
      with repo arch[of "ArchiveRepo repo"] show ?thesis by (simp add: apply_retention_cleanup_def) blast
    qed
  qed
qed

text \<open>The targets that a run on an answering host must clean.\<close>

definition due_target :: "cleanup_config \<Rightarrow> datetime \<Rightarrow> int list \<Rightarrow> cleanup_target \<Rightarrow> bool" where
  "due_target cfg now ids t \<longleftrightarrow> retention_cleanup_eligible (ct_session t) (ct_trial t) \<and> target_expires cfg t < now \<and> may_be_cleaned cfg (ct_record t) \<and>
     (cs_id (ct_session t) \<in> set ids \<longrightarrow> py_strip (nonempty_or (cs_github_username (ct_session t)) []) \<noteq> [])"

definition cleaned_row :: "int list \<Rightarrow> cleanup_target \<Rightarrow> cleanup_record \<Rightarrow> bool" where
  "cleaned_row ids t r \<longleftrightarrow> cleanup_is_complete r \<and> (cs_id (ct_session t) \<in> set ids \<longrightarrow> cr_access_revoked_at r \<noteq> None)"

lemma cleaned_written: "written r = written x \<Longrightarrow> cleaned_row ids t r = cleaned_row ids t x"
  by (simp add: written_def cleaned_row_def cleanup_is_complete_def)

lemma try_answers:
  assumes gh: "answering gh" and ids: "\<And>c. c \<in> set ids \<Longrightarrow> \<exists>a \<in> set (wk_audits (w :: work_db)). da_candidate_session_id a = c"
  shows "\<exists>r' calls' s'. try_cleanup_target gh cfg now ids t calls summary = ((r', calls'), Inr s') \<and> row_key r' = row_key (ct_record t) \<and>
    (due_target cfg now ids t \<longrightarrow> cleaned_row ids t r')"
proof -
  let ?r = "stamped now (target_expires cfg t) (ct_record t)" and ?cs = "ct_session t"
  from enforce_answers[OF gh, of ?cs "cs_id ?cs \<in> set ids" now ?r calls] obtain r1 calls1 status where
    e: "enforce_collaborator_revocation gh ?cs (cs_id ?cs \<in> set ids) now (?r, calls) = ((r1, calls1), Inr status)"
    and unblocked: "normalize_repo_full_name (Some (cr_repo_full_name ?r)) \<noteq> None \<longrightarrow>
       (cs_id ?cs \<in> set ids \<longrightarrow> py_strip (nonempty_or (cs_github_username ?cs) []) \<noteq> []) \<longrightarrow>
       status \<notin> {''missing_repo'', ''missing_github_username'', ''collaborator_revocation_failed''} \<and>
       (cs_id ?cs \<in> set ids \<longrightarrow> cr_access_revoked_at r1 \<noteq> None)" by blast
  from e have same: "cr_repo_full_name r1 = cr_repo_full_name ?r" "cr_template_repo_full_name r1 = cr_template_repo_full_name ?r"
    by - (rule enforce_calls, assumption+)+
  from apply_answers[OF gh, of cfg now r1 calls1] obtain r2 calls2 st where
    a: "apply_retention_cleanup gh cfg now (r1, calls1) = ((r2, calls2), Inr st)"
    and fin: "may_be_cleaned cfg r1 \<longrightarrow> cleanup_is_complete r2 \<and> cr_access_revoked_at r2 = cr_access_revoked_at r1" by blast
  obtain r' calls' x where res: "try_cleanup_target gh cfg now ids t calls summary = ((r', calls'), x)" by (metis surj_pair)
  note cases = try_target_cases[OF res e]
  from cases a have ok: "\<exists>s'. x = Inr s'" by (cases x) auto
  have "\<exists>new. calls' = calls @ new \<and> target_calls cfg now w t new \<and> cr_is_group r' = cr_is_group (ct_record t) \<and> cr_id r' = cr_id (ct_record t)"
    by (rule try_target_calls[OF res]) (rule ids)
  then have key: "row_key r' = row_key (ct_record t)" by (auto simp: row_key_def)
  have "cleaned_row ids t r'" if due: "due_target cfg now ids t"
  proof -
    have "normalize_repo_full_name (Some (cr_repo_full_name (ct_record t))) \<noteq> None" using due by (auto simp: due_target_def may_be_cleaned_def)
    with unblocked due have st: "status \<notin> {''missing_repo'', ''missing_github_username'', ''collaborator_revocation_failed''}"
      "cs_id ?cs \<in> set ids \<longrightarrow> cr_access_revoked_at r1 \<noteq> None" by (auto simp: due_target_def)
    have "may_be_cleaned cfg r1" using due same by (simp add: due_target_def may_be_cleaned_def)
    moreover from cases st(1) due a have "r' = r2" by (auto simp: due_target_def)
    ultimately show ?thesis using fin st(2) by (simp add: cleaned_row_def)
  qed
  with res ok key show ?thesis by blast
qed

lemma process_answers:
  assumes gh: "answering gh" and ids: "\<And>c. c \<in> set ids \<Longrightarrow> \<exists>a \<in> set (wk_audits (w :: work_db)). da_candidate_session_id a = c"
    and "distinct (map (\<lambda>t. row_key (ct_record t)) ts)"
  shows "\<exists>db' s'. process_cleanup_targets gh cfg now ids ts s db = (db', Inr s') \<and>
    (\<forall>g i. (g, i) \<notin> (\<lambda>t. row_key (ct_record t)) ` set ts \<longrightarrow> stored_record g i (cu_work db') = stored_record g i (cu_work db)) \<and>
    (\<forall>t \<in> set ts. \<forall>g i. row_key (ct_record t) = (g, i) \<longrightarrow> stored_record g i (cu_work db) \<noteq> None \<longrightarrow> due_target cfg now ids t \<longrightarrow>
       (\<exists>x. stored_record g i (cu_work db') = Some x \<and> cleaned_row ids t x))"
  using assms(3)
proof (induction ts arbitrary: s db)
  case (Cons t ts)
  from try_answers[OF gh ids] obtain r calls s1 where
    t: "try_cleanup_target gh cfg now ids t (cu_calls db) s = ((r, calls), Inr s1)" and key: "row_key r = row_key (ct_record t)"
    and cleaned: "due_target cfg now ids t \<longrightarrow> cleaned_row ids t r" by blast
  let ?db = "\<lparr>cu_work = store_record r (cu_work db), cu_calls = calls\<rparr>"
  from t have p: "process_cleanup_target gh cfg now ids t s db = (?db, Inr (summarize_result ''processed'' s1))"
    by (simp add: process_cleanup_target_def)
  from Cons.prems have d: "row_key r \<notin> (\<lambda>t. row_key (ct_record t)) ` set ts" "distinct (map (\<lambda>t. row_key (ct_record t)) ts)"
    by (auto simp: key)
  from Cons.IH[OF d(2), of "summarize_result ''processed'' s1" ?db] obtain db' s' where
    rest: "process_cleanup_targets gh cfg now ids ts (summarize_result ''processed'' s1) ?db = (db', Inr s')"
    and others: "\<forall>g i. (g, i) \<notin> (\<lambda>t. row_key (ct_record t)) ` set ts \<longrightarrow> stored_record g i (cu_work db') = stored_record g i (cu_work ?db)"
    and dues: "\<forall>t \<in> set ts. \<forall>g i. row_key (ct_record t) = (g, i) \<longrightarrow> stored_record g i (cu_work ?db) \<noteq> None \<longrightarrow> due_target cfg now ids t \<longrightarrow>
       (\<exists>x. stored_record g i (cu_work db') = Some x \<and> cleaned_row ids t x)" by blast
  have "\<exists>x. stored_record g i (cu_work db') = Some x \<and> cleaned_row ids t' x"
    if t': "t' \<in> set (t # ts)" "row_key (ct_record t') = (g, i)" "stored_record g i (cu_work db) \<noteq> None" "due_target cfg now ids t'" for t' g i
  proof (cases "t' \<in> set ts")
    case True
    with dues t' stored_after_store(1)[of g i r "cu_work db"] show ?thesis by simp
  next
    case False
    with t'(1) have eq: "t' = t" by simp
    with key t'(2) have gi: "g = cr_is_group r" "i = cr_id r" by (auto simp: row_key_def)
    obtain x where x: "stored_record g i (store_record r (cu_work db)) = Some x" using stored_after_store(1)[of g i r "cu_work db"] t'(3) by auto
    moreover have "(g, i) \<notin> (\<lambda>t. row_key (ct_record t)) ` set ts" using d(1) by (simp add: gi row_key_def)
    ultimately have "stored_record g i (cu_work db') = Some x" using others by simp
    moreover have "cleaned_row ids t' x" using cleaned t'(4) stored_after_store(3)[of r "cu_work db" x] x cleaned_written
      unfolding eq gi by blast
    ultimately show ?thesis by blast
  qed
  moreover have "stored_record g i (cu_work db') = stored_record g i (cu_work db)"
    if "(g, i) \<notin> (\<lambda>t. row_key (ct_record t)) ` set (t # ts)" for g i
    using that others key stored_after_store(2)[of r g i "cu_work db"] by (auto simp: image_iff)
  moreover have "process_cleanup_targets gh cfg now ids (t # ts) s db = (db', Inr s')" by (simp add: bind_op_def p rest)
  ultimately show ?case by blast
qed (simp add: lift_op_def)

section \<open>The targets of a terminated trial\<close>

lemma keep_first_distinct_by: "distinct (map f xs) \<Longrightarrow> distinct (map f (keep_first key seen xs))"
proof (induction key seen xs rule: keep_first.induct)
  case (2 key seen x xs)
  then show ?case using keep_first_subset[of key "key x # seen" xs] by auto
qed simp

lemma distinct_map_sort: "distinct (map f (sort_key k xs)) = distinct (map f xs)"
  by (simp add: distinct_map)

lemma joined_rows:
  "set (concat (map (join_target wanted app) rs)) \<subseteq> {t. ct_record t \<in> set rs \<and> wanted (ct_trial t) \<and>
     get_session (cr_candidate_session_id (ct_record t)) app = Some (ct_session t) \<and> get_trial (cs_trial_id (ct_session t)) app = Some (ct_trial t)}"
  "distinct (map row_key rs) \<Longrightarrow> distinct (map (\<lambda>t. row_key (ct_record t)) (concat (map (join_target wanted app) rs)))"
proof -
  show in_rows: "set (concat (map (join_target wanted app) rs)) \<subseteq> {t. ct_record t \<in> set rs \<and> wanted (ct_trial t) \<and>
     get_session (cr_candidate_session_id (ct_record t)) app = Some (ct_session t) \<and> get_trial (cs_trial_id (ct_session t)) app = Some (ct_trial t)}" for rs
    by (auto simp: join_target_def split: option.splits if_splits)
  show "distinct (map row_key rs) \<Longrightarrow> distinct (map (\<lambda>t. row_key (ct_record t)) (concat (map (join_target wanted app) rs)))"
  proof (induction rs)
    case (Cons r rs)
    define later where "later = concat (map (join_target wanted app) rs)"
    have "row_key r \<notin> (\<lambda>t. row_key (ct_record t)) ` set later"
      using Cons.prems in_rows[of rs, folded later_def] by auto
    moreover have "distinct (map (\<lambda>t. row_key (ct_record t)) later)" using Cons by (simp add: later_def)
    moreover have "concat (map (join_target wanted app) (r # rs)) = join_target wanted app r @ later" by (simp add: later_def)
    moreover have "join_target wanted app r = [] \<or> (\<exists>cs t. join_target wanted app r = [\<lparr>ct_record = r, ct_session = cs, ct_trial = t\<rparr>])"
      by (auto simp: join_target_def split: option.splits)
    ultimately show ?case by (elim disjE exE) simp_all
  qed simp
qed

lemma find_row_found: "x \<in> set rs \<Longrightarrow> P x \<Longrightarrow> \<exists>y. find_row P rs = Some y"
  by (cases "find_row P rs") (auto simp: find_row_None_iff)

lemma listed_targets:
  assumes "distinct (map wg_id (wk_workspace_groups db))" "distinct (map ws_id (wk_workspaces db))"
  shows "distinct (map (\<lambda>t. row_key (ct_record t)) (list_cleanup_targets wanted db))"
    "t \<in> set (list_cleanup_targets wanted db) \<Longrightarrow> stored_record (cr_is_group (ct_record t)) (cr_id (ct_record t)) db \<noteq> None \<and>
       wanted (ct_trial t) \<and> get_trial (cs_trial_id (ct_session t)) (wk_app db) = Some (ct_trial t)"
proof -
  define groups where "groups = sort_key by_age (map record_of_group (wk_workspace_groups db))"
  define spaces where "spaces = sort_key by_age (map record_of_workspace (filter (\<lambda>w. ws_workspace_group_id w = None) (wk_workspaces db)))"
  define rows where "rows = concat (map (join_target wanted (wk_app db)) (groups @ spaces))"
  have rows: "list_cleanup_targets wanted db =
      sort_key (\<lambda>t. by_age (ct_record t)) (keep_first (\<lambda>t. cleanup_target_repo_key (ct_record t)) [] rows)"
    unfolding list_cleanup_targets_def Let_def rows_def groups_def spaces_def ..
  have ids: "row_key (record_of_group g) = (True, wg_id g)" "row_key (record_of_workspace w) = (False, ws_id w)" for g w
    by (simp_all add: row_key_def record_of_group_def record_of_workspace_def)
  have inj: "inj_on wg_id (set (wk_workspace_groups db))" "inj_on ws_id (set (wk_workspaces db))" "distinct (wk_workspace_groups db)" "distinct (wk_workspaces db)"
    using assms by (simp_all add: distinct_map)
  have d: "distinct (map row_key (map record_of_group (wk_workspace_groups db)))"
    "distinct (map row_key (map record_of_workspace (filter (\<lambda>w. ws_workspace_group_id w = None) (wk_workspaces db))))"
    using inj by (auto simp: distinct_map inj_on_def ids comp_def)
  then have "distinct (map row_key groups)" "distinct (map row_key spaces)"
    unfolding groups_def spaces_def distinct_map_sort .
  moreover have "row_key g \<noteq> row_key s" if "g \<in> set groups" "s \<in> set spaces" for g s
    using that by (auto simp: groups_def spaces_def ids)
  ultimately have "distinct (map row_key (groups @ spaces))" by (force simp: image_iff)
  from keep_first_distinct_by[OF joined_rows(2)[OF this], where seen = "[]"]
  show "distinct (map (\<lambda>t. row_key (ct_record t)) (list_cleanup_targets wanted db))"
    unfolding rows rows_def by (simp add: distinct_map)
  show "stored_record (cr_is_group (ct_record t)) (cr_id (ct_record t)) db \<noteq> None \<and> wanted (ct_trial t) \<and>
      get_trial (cs_trial_id (ct_session t)) (wk_app db) = Some (ct_trial t)" if "t \<in> set (list_cleanup_targets wanted db)"
  proof -
    have "t \<in> set rows" using that keep_first_subset[of "\<lambda>t. cleanup_target_repo_key (ct_record t)" "[]" rows] by (auto simp: rows)
    then have t: "ct_record t \<in> set (groups @ spaces)" "wanted (ct_trial t)" "get_trial (cs_trial_id (ct_session t)) (wk_app db) = Some (ct_trial t)"
      using joined_rows(1)[of wanted "wk_app db" "groups @ spaces"] by (auto simp: rows_def)
    then show ?thesis
      by (auto simp: groups_def spaces_def stored_record_def record_of_group_def record_of_workspace_def
          intro: find_row_found)
  qed
qed

text \<open>
  Property C20. Terminating a trial ends in its repositories being taken back. When the trial is
  terminated and GitHub answers every call (or reports the repository or collaborator as gone),
  the cleanup job completes, and every target of the trial with a repository of its own that is
  older than the run is archived or deleted afterwards; the access of every candidate whose day was
  cut off is revoked. (With a repository name that is not the template's, and with the candidate's
  GitHub name where access is to be revoked.)
\<close>

theorem terminated_trial_is_cleaned_up:
  assumes gh: "answering gh" and keys: "distinct (map wg_id (wk_workspace_groups (cu_work db)))" "distinct (map ws_id (wk_workspaces (cu_work db)))"
    and payload: "parse_positive_int (dict_get ''trialId'' payload) = Inr (Some i)"
    and trial: "get_trial i (wk_app (cu_work db)) = Some tr" "t_status tr = ''terminated''"
    and mode: "cf_cleanup_mode cfg = ''delete'' \<longrightarrow> cf_delete_enabled cfg"
  shows "\<exists>db' s. handle_trial_cleanup gh cfg now payload db = (db', Inr ([(''status'', JStr ''completed''), (''trialId'', JInt i)] @ summary_json s)) \<and>
    (\<forall>t \<in> set (list_trial_cleanup_targets i (cu_work db)). \<forall>repo.
       normalize_repo_full_name (Some (cr_repo_full_name (ct_record t))) = Some repo \<longrightarrow>
       normalize_repo_full_name (cr_template_repo_full_name (ct_record t)) \<noteq> Some repo \<longrightarrow>
       retention_anchor (ct_record t) (ct_session t) < now \<longrightarrow>
       py_strip (nonempty_or (cs_github_username (ct_session t)) []) \<noteq> [] \<longrightarrow>
       (\<exists>r. stored_record (cr_is_group (ct_record t)) (cr_id (ct_record t)) (cu_work db') = Some r \<and> cleanup_is_complete r \<and>
          ((\<exists>a \<in> set (wk_audits (cu_work db)). da_candidate_session_id a = cs_id (ct_session t)) \<longrightarrow> cr_access_revoked_at r \<noteq> None)))"
proof -
  let ?ts = "list_trial_cleanup_targets i (cu_work db)" and ?cfg = "cfg\<lparr>cf_retention_days := 0\<rparr>"
  define ids where "ids = load_sessions_with_cutoff (map (\<lambda>t. cs_id (ct_session t)) ?ts) (cu_work db)"
  have audited: "c \<in> set ids \<Longrightarrow> \<exists>a \<in> set (wk_audits (cu_work db)). da_candidate_session_id a = c" for c
    by (auto simp: ids_def load_sessions_with_cutoff_def)
  note listed = listed_targets[OF keys, where wanted = "\<lambda>t. t_id t = i", folded list_trial_cleanup_targets_def]
  from process_answers[OF gh audited listed(1), where cfg = ?cfg and now = now and s = "new_summary (py_len ?ts)" and db = db] obtain db' s where
    run: "process_cleanup_targets gh ?cfg now ids ?ts (new_summary (py_len ?ts)) db = (db', Inr s)"
    and dues: "\<forall>t \<in> set ?ts. \<forall>g j. row_key (ct_record t) = (g, j) \<longrightarrow> stored_record g j (cu_work db) \<noteq> None \<longrightarrow> due_target ?cfg now ids t \<longrightarrow>
       (\<exists>x. stored_record g j (cu_work db') = Some x \<and> cleaned_row ids t x)" by blast
  have answer: "handle_trial_cleanup gh cfg now payload db = (db', Inr ([(''status'', JStr ''completed''), (''trialId'', JInt i)] @ summary_json s))"
    using payload trial run by (simp add: handle_trial_cleanup_def bind_op_def lift_op_def run_cleanup_def ids_def)
  have terminated: "py_lower (py_strip ''terminated'') = ''terminated''" by code_simp
  have "\<exists>r. stored_record (cr_is_group (ct_record t)) (cr_id (ct_record t)) (cu_work db') = Some r \<and> cleanup_is_complete r \<and>
          ((\<exists>a \<in> set (wk_audits (cu_work db)). da_candidate_session_id a = cs_id (ct_session t)) \<longrightarrow> cr_access_revoked_at r \<noteq> None)"
    if t: "t \<in> set ?ts" and repo: "normalize_repo_full_name (Some (cr_repo_full_name (ct_record t))) = Some repo"
      "normalize_repo_full_name (cr_template_repo_full_name (ct_record t)) \<noteq> Some repo"
      and old: "retention_anchor (ct_record t) (ct_session t) < now" and user: "py_strip (nonempty_or (cs_github_username (ct_session t)) []) \<noteq> []"
    for t repo
  proof -
    note l = listed(2)[OF t]
    have "cs_trial_id (ct_session t) = i" using l by (auto simp: get_trial_def dest: find_row_SomeD)
    with l trial have "t_status (ct_trial t) = ''terminated''" by simp
    with terminated repo old user mode have "due_target ?cfg now ids t"
      by (auto simp: due_target_def retention_cleanup_eligible_def workspace_retention_expires_at_def may_be_cleaned_def)
    with dues t l obtain r where r: "stored_record (cr_is_group (ct_record t)) (cr_id (ct_record t)) (cu_work db') = Some r" "cleaned_row ids t r"
      by (auto simp: row_key_def)
    moreover have "cs_id (ct_session t) \<in> set ids" if "a \<in> set (wk_audits (cu_work db))" "da_candidate_session_id a = cs_id (ct_session t)" for a
      using that t by (force simp: ids_def load_sessions_with_cutoff_def)
    ultimately show ?thesis by (auto simp: cleaned_row_def)
  qed
  with answer show ?thesis by blast
qed

section \<open>Runs on concrete tables\<close>

definition demo_cleanup_config :: cleanup_config where
  "demo_cleanup_config = \<lparr>cf_retention_days = 30, cf_cleanup_mode = ''archive'', cf_delete_enabled = False\<rparr>"

definition demo_cleanup :: "string \<Rightarrow> cleanup_db" where
  "demo_cleanup status = \<lparr>cu_work = (demo_work [])\<lparr>wk_app := demo_app\<lparr>trials := [demo_trial\<lparr>t_status := status\<rparr>],
     sessions := [demo_candidate\<lparr>cs_completed_at := Some 0\<rparr>]\<rparr>\<rparr>, cu_calls = []\<rparr>"

abbreviation "demo_cleanup_run \<equiv>
  handle_workspace_cleanup (\<lambda>_ _. Done) demo_cleanup_config (seconds 3456000) [(''companyId'', JInt (t_company_id demo_trial))]
    (demo_cleanup ''active_inviting'')"

theorem cleanup_spares_active_work_witness:
  "\<exists>db x. demo_cleanup_run = (db, x) \<and> cu_calls db = [ArchiveRepo ''org/repo''] \<and>
     (\<forall>t \<in> set (list_company_cleanup_targets (t_company_id demo_trial) (cu_work (demo_cleanup ''active_inviting''))).
        t_company_id (ct_trial t) = t_company_id demo_trial)"
proof -
  obtain db x where run: "demo_cleanup_run = (db, x)" by (metis surj_pair)
  have p: "parse_positive_int (dict_get ''companyId'' [(''companyId'', JInt (t_company_id demo_trial))]) = Inr (Some (t_company_id demo_trial))"
    by code_simp
  have "case demo_cleanup_run of (db, x) \<Rightarrow> cu_calls db = [ArchiveRepo ''org/repo'']" by code_simp
  with cleanup_spares_active_work[OF run p] run show ?thesis by (auto simp: Let_def)
qed

theorem terminated_trial_is_cleaned_up_witness:
  "\<exists>db x r. handle_trial_cleanup (\<lambda>_ _. Done) demo_cleanup_config (seconds 40000) [(''trialId'', JInt 3)] (demo_cleanup ''terminated'') = (db, Inr x) \<and>
     stored_record False ''w'' (cu_work db) = Some r \<and> cleanup_is_complete r"
proof -
  let ?db = "demo_cleanup ''terminated''"
  have gh: "answering (\<lambda>_ _. Done)" by (simp add: answering_def)
  have keys: "distinct (map wg_id (wk_workspace_groups (cu_work ?db)))" "distinct (map ws_id (wk_workspaces (cu_work ?db)))"
    by (simp_all add: demo_cleanup_def demo_work_def)
  have p: "parse_positive_int (dict_get ''trialId'' [(''trialId'', JInt 3)]) = Inr (Some 3)" by code_simp
  have trial: "get_trial 3 (wk_app (cu_work ?db)) = Some (demo_trial\<lparr>t_status := ''terminated''\<rparr>)"
    by (simp add: demo_cleanup_def demo_work_def demo_app_def demo_trial_def get_trial_def find_row_Cons)
  let ?t = "\<lparr>ct_record = record_of_workspace demo_workspace, ct_session = demo_candidate\<lparr>cs_completed_at := Some 0\<rparr>,
    ct_trial = demo_trial\<lparr>t_status := ''terminated''\<rparr>\<rparr>"
  have target: "list_trial_cleanup_targets 3 (cu_work ?db) = [?t]" by code_simp
  have facts: "normalize_repo_full_name (Some (cr_repo_full_name (ct_record ?t))) = Some ''org/repo''"
    "normalize_repo_full_name (cr_template_repo_full_name (ct_record ?t)) \<noteq> Some ''org/repo''"
    "retention_anchor (ct_record ?t) (ct_session ?t) < seconds 40000" "py_strip (nonempty_or (cs_github_username (ct_session ?t)) []) \<noteq> []"
    "cr_is_group (ct_record ?t) = False" "cr_id (ct_record ?t) = ''w''" by code_simp+
  from terminated_trial_is_cleaned_up[OF gh keys p trial, of demo_cleanup_config "seconds 40000"] facts show ?thesis
    unfolding target by (auto simp: demo_cleanup_config_def)
qed

section \<open>What the jobs get wrong\<close>

text \<open>GitHub's names do not depend on case, the protection of the template does.\<close>

lemma template_protected_by_spelling_only:
  "snd (fst (apply_retention_cleanup (\<lambda>_ _. Done) \<lparr>cf_retention_days = 0, cf_cleanup_mode = ''delete'', cf_delete_enabled = True\<rparr> now
     ((record_of_workspace demo_workspace)\<lparr>cr_repo_full_name := ''Org/Base''\<rparr>, []))) = [DeleteRepo ''Org/Base'']"
  by code_simp

text \<open>A revocation that fails for a moment makes a row that was cleaned look failed.\<close>

lemma transient_failure_reopens_cleaned_row: "\<not> cleanup_is_complete (failed_target e r)"
  by (simp add: failed_target_def cleanup_is_complete_def cleanup_status_defs)

end
