(* ===== verification/Spec2Isabelle.thy ===== *)
theory Spec2Isabelle
  imports JobHealth JobFailures JobLease CandidateWork EvaluationOutcomes Deliveries MediaOutcomes WorkspaceCleanupRuns
begin

text \<open>
  Verification development of the Winoe backend.

  The backend runs five-day work trials. A talent partner creates a trial, locks a scenario and
  invites candidates; a candidate claims the invitation, chooses a start, works through five
  timed days (texts, code in a workspace repository, a recorded presentation, a reflection); a
  durable job queue closes the days, transcribes the recording and evaluates the work; the
  evaluation stores a report whose every statement cites evidence, and mails go out. All state
  is in one relational database; the API processes and any number of worker processes meet only
  there. The development follows that shape: each table is a list of rows inside a record, each
  operation of a repository or service is a function on such records, and the processes are step
  relations whose steps are committed transactions.

  \<^bold>\<open>Foundations.\<close> \<open>Prelude\<close>: results (\<open>error + 'a\<close> as \<open>Inl\<close> and \<open>Inr\<close>), Python's string
  operations, tables (\<open>find_row\<close>, \<open>update_rows\<close>) and the two general interfaces, \<open>row_update\<close> (an
  update that keeps a row's key) and \<open>step_system\<close> (an invariant of a step relation).
  \<open>Json\<close>: JSON values, dicts as association lists, truth values, \<open>repr\<close>, and the serialisation whose
  length bounds a payload. \<open>Errors\<close>: the exceptions. \<open>Operations\<close>: operations that may raise after
  they changed the state, with the rules for invariants (\<open>keeps\<close>) and for points of no return
  (\<open>staged\<close>). \<open>PyTime\<close>, \<open>PyText\<close>: dates, ISO texts, integers, lines. Points in time are integers
  of microseconds; the clock is an argument of every operation that reads it, a function of the
  reading's number where an operation reads it more than once.

  \<^bold>\<open>The job queue\<close> (\<open>app/shared/jobs\<close>). \<open>JobModel\<close> has the rows of \<open>jobs\<close> and \<open>failed_jobs\<close> with
  their constraints and column widths, \<open>JobCreate\<close> the creation by idempotency key
  (\<open>create_get_repository\<close>, \<open>create_update*_repository\<close>, \<open>requeue\<close>), \<open>JobLifecycle\<close> the claim, the
  status writes, the dead letter and its retry, \<open>JobWorker\<close> the decisions of \<open>worker_runtime\<close> and one
  run of the worker. \<open>JobSystem\<close> makes the committed transactions of all of these a step relation and
  shows that every reachable queue is well formed, loses no job, and that a snapshot of a job is
  claimed at most once although the claim reads and writes in two statements. \<open>AdminJobs\<close> adds the
  admin's requeue with its audit row. \<open>JobLease\<close> states the abstract contract, a queue of leases (who
  holds a job, when it is due, when a held one may be taken over, how often it was tried), and the
  refinement operation by operation. \<open>JobHealth\<close> and \<open>JobFailures\<close> have the
  heartbeats and the health summary, the visibility of jobs, the redaction and paging of failures.

  \<^bold>\<open>Trials and sessions\<close> (\<open>app/trials\<close>, \<open>app/candidates\<close>). \<open>Trials\<close> and \<open>TrialLifecycle\<close>: the status
  machine with its timestamps, scenario locking, approval, activation, invitability, termination
  with its cleanup of jobs and sessions. \<open>Sessions\<close>: the shared session row. \<open>CandidateClaim\<close>: claim
  and access of a session. \<open>DayWindows\<close>, \<open>ScheduleGates\<close>, \<open>ScheduleFlow\<close>: the windows of the five days
  in the candidate's time zone, the gate of a task, the schedule that is set once and queues the
  jobs that close its days and, under later calls, claims, visits and terminations, stays.
  \<open>AdminSessions\<close>: the admin's reset of a session, which undoes its schedule, and the day-window control
  of local and test environments.

  \<^bold>\<open>The candidate's work\<close> (\<open>app/submissions\<close>, \<open>app/tasks\<close>, the day-close handlers). \<open>Progress\<close>,
  \<open>Submissions\<close>: progress, drafts, payload validation, the flow gate, the code run, the insert with its
  unique key and what follows it. \<open>RateLimits\<close>: the limiter in front of code runs, compared with the rule
  on the complete log. \<open>DayClose\<close>: the two jobs that close a day. \<open>WorkflowEvents\<close>: GitHub's webhook
  and the job that stores a run's results. \<open>CandidateWork\<close> puts the writers of these tables into one step
  relation (\<open>work_step\<close>: submissions, drafts, the close-of-day jobs, handed-off recordings, workflow
  events, the day-window control where \<open>local_env\<close> lets it answer, and anything that writes none of the
  four tables): submissions are accepted only once, in order, in their window and before the recorded
  cut-off, and what was committed is final, but for the time of a cut-off in a local environment.

  \<open>WorkspaceCleanup\<close>, \<open>WorkspaceCleanupRuns\<close>: the jobs that take the repositories back (\<open>workspace_cleanup_*\<close>,
  \<open>trial_cleanup\<close> handlers), which touch only what they may and, on a host that answers, finish.

  \<^bold>\<open>Media\<close> (\<open>app/media\<close>, \<open>app/integrations/storage_media\<close>, the transcription and purge handlers).
  \<open>Recordings\<close>: recordings, transcripts, audits, storage keys, upload validation. \<open>Media\<close>: consent, upload,
  deletion, purge; the locale \<open>object_store\<close> states what the services need from a store and is
  interpreted on the provider of tests and local development. \<open>Transcription\<close>: the worker's job.
  \<open>MediaPrivacy\<close> has the invariant of the media tables under every service, \<open>MediaOutcomes\<close> the
  properties: verified uploads, exact purges, erased media that stay erased.

  \<^bold>\<open>Evaluation\<close> (\<open>app/evaluations\<close>). \<open>EvaluationValues\<close>, \<open>EvaluationRuns\<close>: validation of scores and reports
  and the run tables. \<open>EvidenceTrail\<close>: the validator that lets a report pass only when every dimension and
  paragraph is backed by citations that resolve, proved equivalent to a declarative specification,
  and the citation formats, proved equivalent to their spellings. \<open>EvaluationPipeline\<close>,
  \<open>EvaluationOutcomes\<close>: the job around the evaluator, at most three answers, what a completed and what a
  failed response leave behind.

  \<^bold>\<open>Mails\<close> (\<open>app/notifications\<close>). \<open>Notifications\<close>: the jobs that are queued. \<open>MailTemplates\<close>: the mails and
  the check of their texts. \<open>Deliveries\<close>: the sender, the delivery audits, the two jobs; the calls of
  the provider are recorded, so that the audits can be compared with the mails it took.

  The components share one record per layer: the queue is a field of \<open>app_db\<close> (with trials, scenario
  versions and sessions), which is a field of \<open>work_db\<close> (with tasks, submissions, drafts, audits,
  workspaces), which is a field of \<open>media_db\<close>; \<open>eval_db\<close> and \<open>delivery_db\<close> hold it beside their own
  tables. A service that queues a job therefore runs the queue's own creation function.

  \<^bold>\<open>Lemma groups.\<close> Each component theory has, in this order, its definitions from the source, the
  reading of its operations backwards (\<open>..._InrD\<close>, \<open>..._cases\<close>, used with \<open>obtain\<close>), the preservation
  of its invariant for every operation, the step relation with its \<open>interpretation\<close> of \<open>step_system\<close>, the
  properties (marked C1, C2, ... in the text before them), and runs on concrete tables that show that
  the hypotheses of a property can hold.

  \<^bold>\<open>Bounds.\<close> The claim tries at most eight candidates (\<open>claim_loop\<close>, as the source's \<open>range(8)\<close>), the
  pipeline asks the evaluator at most three times, the mail sender makes its configured number of
  attempts; these are the source's own bounds, so no fuel is added. All other recursions are
  structural or have a measure (the digits of a number, the regular-expression matcher). Integers are
  Python's, hence \<open>int\<close>; where a width matters (job keys, error texts, audit columns, the 4300-digit
  limit of \<open>int\<close>, the payload's bytes, recording sizes and durations) the bound is written out.

  \<^bold>\<open>Arguments of the model.\<close> Code outside the repository is an argument of the definitions that use it:
  the time-zone database (\<open>tz\<close>), \<open>datetime.fromisoformat\<close> (\<open>from_iso\<close>), \<open>urlparse\<close>, integer casts of
  floats, GitHub's API (\<open>github\<close>), the object store and the transcriber, the mail provider, the
  evaluator (a language model), UUIDs. Parts of the repository that are not modelled are arguments as
  well where a modelled part calls them: the AI policy check and the rubric materialisation of the trial
  lifecycle, and the handlers of a worker run. What other processes commit while an operation is between two
  of its transactions is an argument (\<open>env\<close>, \<open>other\<close>); the hypotheses \<open>commits\<close>, \<open>work_commits\<close> and
  \<open>media_commits\<close> say that it keeps the tables' invariant and does not take back committed rows, which
  the step relations show of every modelled operation (\<open>runs_commit\<close> for the tables of work, where
  \<open>other\<close> may itself be any run of the steps).

  \<^bold>\<open>Simplifications.\<close> Strings are Latin-1. Statements see the transactions committed before them; a unique
  key that another session took is the error branch of the insert. Rows that a rollback expired count as
  reloaded where the code loads them again; the purges and the day-window control read them as they are
  and end (\<open>missing_greenlet\<close>). A draft save is one transaction. Log lines and metrics are left out, except events
  that are rows. Column widths are checked for jobs, delivery audits and admin audits.

  \<^bold>\<open>Not modelled.\<close> The HTTP routes, request models and authentication (framework glue around the services
  above); prompts, provider clients and the assembly of the evaluator's inputs; rubric and AI-policy
  snapshots (digests of files and prompts); the GitHub client and the provisioning of workspaces; mail
  and storage providers over the network; demonstration data, whose seeds clear the tables; the fallback
  scenario of the admin; migrations; configuration; the remaining
  job handlers, and the process loops of the worker around one run.
\<close>

end
